(* ===== verification/Prelude.thy ===== *)
theory Prelude
  imports Main "HOL-Library.AList" "HOL-Library.Word" "HOL-Library.Code_Target_Numeral"
begin

text \<open>
  Shared vocabulary of the development: the named collections the component proofs draw on,
  the result type of fallible code, the state-and-error actions that model \<open>async fn\<close>s writing
  to the database, and list lemmas used by several components.

  A Rust \<open>Result<T, E>\<close> is \<open>'e + 'a\<close> with \<open>Inl\<close> the error.  An action is a function from the state
  to a result \<^emph>\<open>and\<close> the state afterwards: writes made before an error stay made, exactly as the
  \<open>?\<close> operator leaves them.
\<close>

named_theorems act_simps \<open>unfolding of state-and-error actions\<close>
named_theorems store_simps \<open>what a store operation does to each lookup\<close>
named_theorems store_defs \<open>definitions of the store operations\<close>

subsection \<open>Types named as in the source\<close>

type_synonym u8 = "8 word"
type_synonym u32 = "32 word"
type_synonym u64 = "64 word"
type_synonym bytes = "u8 list"
type_synonym i64 = int

subsection \<open>Results\<close>

definition res_bind :: "'e + 'a \<Rightarrow> ('a \<Rightarrow> 'e + 'b) \<Rightarrow> 'e + 'b" where
  "res_bind m f = (case m of Inl e \<Rightarrow> Inl e | Inr x \<Rightarrow> f x)"

lemma res_bind_simps [simp]:
  "res_bind (Inl e) f = Inl e"
  "res_bind (Inr x) f = f x"
  by (simp_all add: res_bind_def)

lemma res_bind_Inr_iff: "res_bind m f = Inr y \<longleftrightarrow> (\<exists>x. m = Inr x \<and> f x = Inr y)"
  by (cases m) simp_all

definition ok_or :: "'e \<Rightarrow> 'a option \<Rightarrow> 'e + 'a" where
  "ok_or e m = (case m of None \<Rightarrow> Inl e | Some x \<Rightarrow> Inr x)"

lemma ok_or_simps [simp]:
  "ok_or e None = Inl e"
  "ok_or e (Some x) = Inr x"
  by (simp_all add: ok_or_def)

lemma ok_or_Inr_iff [simp]: "ok_or e m = Inr x \<longleftrightarrow> m = Some x"
  by (cases m) simp_all

subsection \<open>State-and-error actions\<close>

type_synonym ('s, 'e, 'a) act = "'s \<Rightarrow> ('e + 'a) \<times> 's"

definition act_ret :: "'a \<Rightarrow> ('s, 'e, 'a) act" where
  "act_ret x s = (Inr x, s)"

definition act_throw :: "'e \<Rightarrow> ('s, 'e, 'a) act" where
  "act_throw e s = (Inl e, s)"

definition act_bind :: "('s, 'e, 'a) act \<Rightarrow> ('a \<Rightarrow> ('s, 'e, 'b) act) \<Rightarrow> ('s, 'e, 'b) act" where
  "act_bind m f s = (case m s of (Inl e, t) \<Rightarrow> (Inl e, t) | (Inr x, t) \<Rightarrow> f x t)"

definition act_read :: "('s \<Rightarrow> 'a) \<Rightarrow> ('s, 'e, 'a) act" where
  "act_read g s = (Inr (g s), s)"

definition act_modify :: "('s \<Rightarrow> 's) \<Rightarrow> ('s, 'e, unit) act" where
  "act_modify g s = (Inr (), g s)"

definition act_lift :: "'e + 'a \<Rightarrow> ('s, 'e, 'a) act" where
  "act_lift m s = (m, s)"

fun act_iter :: "('x \<Rightarrow> ('s, 'e, unit) act) \<Rightarrow> 'x list \<Rightarrow> ('s, 'e, unit) act" where
  "act_iter f [] = act_ret ()"
| "act_iter f (x # xs) = act_bind (f x) (\<lambda>_. act_iter f xs)"

fun act_map :: "('x \<Rightarrow> ('s, 'e, 'a) act) \<Rightarrow> 'x list \<Rightarrow> ('s, 'e, 'a list) act" where
  "act_map f [] = act_ret []"
| "act_map f (x # xs) = act_bind (f x) (\<lambda>y. act_bind (act_map f xs) (\<lambda>ys. act_ret (y # ys)))"

lemma act_eval [act_simps]:
  "act_ret x s = (Inr x, s)"
  "act_throw e s = (Inl e, s)"
  "act_read g s = (Inr (g s), s)"
  "act_modify h s = (Inr (), h s)"
  "act_lift m s = (m, s)"
  by (simp_all add: act_ret_def act_throw_def act_read_def act_modify_def act_lift_def)

lemma act_bind_eval [act_simps]:
  "act_bind m f s = (case m s of (Inl e, t) \<Rightarrow> (Inl e, t) | (Inr x, t) \<Rightarrow> f x t)"
  by (simp add: act_bind_def)

text \<open>An action that succeeds ran each of its steps successfully.\<close>

lemma act_bind_InrE:
  assumes "act_bind m f s = (Inr y, u)"
  obtains x t where "m s = (Inr x, t)" and "f x t = (Inr y, u)"
  using assms by (auto simp: act_bind_def split: prod.splits sum.splits)

text \<open>A property every step keeps, whatever its result, is kept by the whole action.\<close>

definition act_keeps :: "('s \<Rightarrow> bool) \<Rightarrow> ('s, 'e, 'a) act \<Rightarrow> bool" where
  "act_keeps P m \<longleftrightarrow> (\<forall>s. P s \<longrightarrow> P (snd (m s)))"

lemma act_keepsI [intro?]: "(\<And>s. P s \<Longrightarrow> P (snd (m s))) \<Longrightarrow> act_keeps P m"
  by (simp add: act_keeps_def)

lemma act_keepsD: "act_keeps P m \<Longrightarrow> P s \<Longrightarrow> P (snd (m s))"
  by (simp add: act_keeps_def)

lemma act_keeps_basic [simp, intro]:
  "act_keeps P (act_ret x)"
  "act_keeps P (act_throw e)"
  "act_keeps P (act_read g)"
  "act_keeps P (act_lift r)"
  by (simp_all add: act_keeps_def act_ret_def act_throw_def act_read_def act_lift_def)

lemma act_keeps_modify: "(\<And>s. P s \<Longrightarrow> P (h s)) \<Longrightarrow> act_keeps P (act_modify h)"
  by (simp add: act_keeps_def act_modify_def)

lemma act_keeps_bind [intro]:
  "act_keeps P m \<Longrightarrow> (\<And>x. act_keeps P (f x)) \<Longrightarrow> act_keeps P (act_bind m f)"
  unfolding act_keeps_def act_bind_def
  by (fastforce split: prod.splits sum.splits)

lemma act_keeps_if [intro]:
  "(b \<Longrightarrow> act_keeps P m) \<Longrightarrow> (\<not> b \<Longrightarrow> act_keeps P n) \<Longrightarrow> act_keeps P (if b then m else n)"
  by simp

lemma act_keeps_iter [intro]: "(\<And>x. act_keeps P (f x)) \<Longrightarrow> act_keeps P (act_iter f xs)"
  by (induction xs) auto

lemma act_keeps_map [intro]: "(\<And>x. act_keeps P (f x)) \<Longrightarrow> act_keeps P (act_map f xs)"
  by (induction xs) auto

subsection \<open>Lists\<close>

lemma split_filter_map_fst:
  "distinct (map fst xs) \<Longrightarrow> distinct (map fst (filter P xs))"
  by (induction xs) auto

lemma map_of_filter_key:
  "map_of (filter (\<lambda>(k, _). Q k) xs) k = (if Q k then map_of xs k else None)"
  by (induction xs) auto

lemma in_set_takeWhile: "x \<in> set (takeWhile P xs) \<Longrightarrow> P x"
  by (induction xs) (auto split: if_splits)

text \<open>\<open>ORDER BY f DESC\<close>, rows with equal keys in their stored order.\<close>

definition sort_desc :: "('a \<Rightarrow> 'k :: linorder) \<Rightarrow> 'a list \<Rightarrow> 'a list" where
  "sort_desc f xs = rev (sort_key f (rev xs))"

lemma set_sort_desc [simp]: "set (sort_desc f xs) = set xs"
  by (simp add: sort_desc_def)

lemma length_sort_desc [simp]: "length (sort_desc f xs) = length xs"
  by (simp add: sort_desc_def)

lemma sorted_sort_desc: "sorted_wrt (\<lambda>x y. f y \<le> f x) (sort_desc f xs)"
proof -
  have "sorted (map f (sort_key f (rev xs)))" by simp
  then have "sorted_wrt (\<lambda>x y. f x \<le> f y) (sort_key f (rev xs))"
    by (simp add: sorted_map)
  then show ?thesis by (simp add: sort_desc_def sorted_wrt_rev)
qed

lemma hd_sort_desc_max:
  assumes "xs \<noteq> []" and "y \<in> set xs"
  shows "f y \<le> f (hd (sort_desc f xs))"
proof -
  obtain z zs where z: "sort_desc f xs = z # zs"
    using assms(1) by (metis length_0_conv length_sort_desc neq_Nil_conv)
  have "y \<in> set (z # zs)" using assms(2) set_sort_desc[of f xs] z by metis
  moreover have "sorted_wrt (\<lambda>x y. f y \<le> f x) (z # zs)"
    using sorted_sort_desc[of f xs] z by metis
  ultimately show ?thesis using z by auto
qed


subsection \<open>Invariants and frames of step relations\<close>

text \<open>
  What a step keeps, a run keeps.  A component states its laws once per step; every run of it then
  has the lemmas below.
\<close>

locale invariant_machine =
  fixes step :: "'s \<Rightarrow> 's \<Rightarrow> bool" and inv :: "'s \<Rightarrow> bool"
  assumes step_inv: "step s t \<Longrightarrow> inv s \<Longrightarrow> inv t"
begin

lemma run_inv: "step\<^sup>*\<^sup>* s t \<Longrightarrow> inv s \<Longrightarrow> inv t"
  by (induction rule: rtranclp_induct) (auto dest: step_inv)

end

locale frame_machine =
  fixes step :: "'s \<Rightarrow> 's \<Rightarrow> bool" and view :: "'s \<Rightarrow> 'v"
  assumes step_view: "step s t \<Longrightarrow> view t = view s"
begin

lemma run_view: "step\<^sup>*\<^sup>* s t \<Longrightarrow> view t = view s"
  by (induction rule: rtranclp_induct) (auto dest: step_view)

lemma run_view_inv: "step\<^sup>*\<^sup>* s t \<Longrightarrow> P (view s) \<Longrightarrow> P (view t)"
  by (simp add: run_view)

end

sublocale frame_machine \<subseteq> framed: invariant_machine step "\<lambda>s. P (view s)" for P
  by unfold_locales (simp add: step_view)


text \<open>
  A resource that can be used once: a step never takes \<open>spent\<close> back, and what is spent is refused.
\<close>

locale single_use = invariant_machine step spent
  for step :: "'s \<Rightarrow> 's \<Rightarrow> bool" and spent :: "'s \<Rightarrow> bool" +
  fixes refused :: "'s \<Rightarrow> bool"
  assumes spent_refused: "spent s \<Longrightarrow> refused s"
begin

lemma refused_for_good: "spent s \<Longrightarrow> step\<^sup>*\<^sup>* s t \<Longrightarrow> refused t"
  using run_inv spent_refused by blast

end

end
