(* ===== verification/Rust_Str.thy ===== *)
theory Rust_Str
  imports Prelude
begin

text \<open>
  The parts of Rust's \<open>str\<close>, \<open>u8\<close>, integer parsing and \<open>hex\<close> the modelled code uses.  A Rust
  string is the list of its UTF-8 bytes (\<open>string\<close>, one \<open>char\<close> per byte), so \<open>len()\<close>, byte
  indices and slices count what the source counts.  A slice at an index that is not a character
  boundary panics in Rust; panics are values here (\<open>Panic\<close>).
\<close>

subsection \<open>Runs that may panic\<close>

datatype 'a run = Panic | Return 'a

definition run_bind :: "'a run \<Rightarrow> ('a \<Rightarrow> 'b run) \<Rightarrow> 'b run" where
  "run_bind m f = (case m of Panic \<Rightarrow> Panic | Return x \<Rightarrow> f x)"

lemma run_bind_simps [simp]:
  "run_bind Panic f = Panic"
  "run_bind (Return x) f = f x"
  by (simp_all add: run_bind_def)

lemma run_bind_Return_iff: "run_bind m f = Return y \<longleftrightarrow> (\<exists>x. m = Return x \<and> f x = Return y)"
  by (cases m) simp_all

subsection \<open>Bytes and UTF-8\<close>

definition byte_of :: "char \<Rightarrow> nat" where
  "byte_of c = of_char c"

definition is_ascii :: "char \<Rightarrow> bool" where
  "is_ascii c \<longleftrightarrow> byte_of c < 128"

definition is_cont :: "char \<Rightarrow> bool" where
  "is_cont c \<longleftrightarrow> 128 \<le> byte_of c \<and> byte_of c < 192"

definition is_boundary :: "string \<Rightarrow> nat \<Rightarrow> bool" where
  "is_boundary s i \<longleftrightarrow> i = 0 \<or> i = length s \<or> (i < length s \<and> \<not> is_cont (s ! i))"

text \<open>\<open>&s[i..j]\<close>\<close>

definition str_slice :: "string \<Rightarrow> nat \<Rightarrow> nat \<Rightarrow> string run" where
  "str_slice s i j =
     (if i \<le> j \<and> j \<le> length s \<and> is_boundary s i \<and> is_boundary s j
      then Return (take (j - i) (drop i s)) else Panic)"

definition in_range :: "nat \<Rightarrow> nat \<Rightarrow> nat \<Rightarrow> bool" where
  "in_range lo hi b \<longleftrightarrow> lo \<le> b \<and> b \<le> hi"

text \<open>
  One step of the UTF-8 decoder behind \<open>String::from_utf8_lossy\<close>: is the next sequence a scalar
  value, and how many bytes does it (or the maximal invalid prefix) take.
\<close>

definition utf8_second :: "nat \<Rightarrow> nat \<Rightarrow> bool" where
  "utf8_second b0 b1 \<longleftrightarrow>
     (b0 = 0xE0 \<and> in_range 0xA0 0xBF b1) \<or> (in_range 0xE1 0xEC b0 \<and> in_range 0x80 0xBF b1) \<or>
     (b0 = 0xED \<and> in_range 0x80 0x9F b1) \<or> (in_range 0xEE 0xEF b0 \<and> in_range 0x80 0xBF b1) \<or>
     (b0 = 0xF0 \<and> in_range 0x90 0xBF b1) \<or> (in_range 0xF1 0xF3 b0 \<and> in_range 0x80 0xBF b1) \<or>
     (b0 = 0xF4 \<and> in_range 0x80 0x8F b1)"

definition nth_cont :: "string \<Rightarrow> nat \<Rightarrow> bool" where
  "nth_cont s i \<longleftrightarrow> i < length s \<and> is_cont (s ! i)"

definition utf8_step :: "string \<Rightarrow> bool \<times> nat" where
  "utf8_step s = (case s of [] \<Rightarrow> (True, 0) | c # r \<Rightarrow>
     let b0 = byte_of c in
     if b0 < 128 then (True, 1)
     else if in_range 0xC2 0xDF b0 then (if nth_cont s 1 then (True, 2) else (False, 1))
     else if \<not> (r \<noteq> [] \<and> utf8_second b0 (byte_of (hd r))) then (False, 1)
     else if b0 < 0xF0 then (if nth_cont s 2 then (True, 3) else (False, 2))
     else if \<not> nth_cont s 2 then (False, 2)
     else if nth_cont s 3 then (True, 4) else (False, 3))"

lemma utf8_step_pos: "s \<noteq> [] \<Longrightarrow> 0 < snd (utf8_step s)"
  by (auto simp: utf8_step_def Let_def split: list.splits)

definition replacement :: string where
  "replacement = [CHR 0xEF, CHR 0xBF, CHR 0xBD]"

function utf8_lossy :: "string \<Rightarrow> string" where
  "utf8_lossy s = (if s = [] then [] else
     (if fst (utf8_step s) then take (snd (utf8_step s)) s else replacement)
       @ utf8_lossy (drop (snd (utf8_step s)) s))"
  by pat_completeness auto
termination
  by (relation "measure length") (use utf8_step_pos in \<open>auto simp: diff_less\<close>)

function utf8_valid :: "string \<Rightarrow> bool" where
  "utf8_valid s = (if s = [] then True
     else fst (utf8_step s) \<and> utf8_valid (drop (snd (utf8_step s)) s))"
  by pat_completeness auto
termination
  by (relation "measure length") (use utf8_step_pos in \<open>auto simp: diff_less\<close>)

declare utf8_lossy.simps [simp del] utf8_valid.simps [simp del]

lemma utf8_lossy_Nil [simp]: "utf8_lossy [] = []"
  by (simp add: utf8_lossy.simps)

lemma utf8_valid_Nil [simp]: "utf8_valid []"
  by (simp add: utf8_valid.simps)

lemma utf8_step_ascii: "is_ascii c \<Longrightarrow> utf8_step (c # s) = (True, 1)"
  by (simp add: utf8_step_def is_ascii_def)

lemma utf8_lossy_ascii [simp]: "is_ascii c \<Longrightarrow> utf8_lossy (c # s) = c # utf8_lossy s"
  by (simp add: utf8_lossy.simps[of "c # s"] utf8_step_ascii)

lemma utf8_valid_ascii [simp]: "is_ascii c \<Longrightarrow> utf8_valid (c # s) = utf8_valid s"
  by (simp add: utf8_valid.simps[of "c # s"] utf8_step_ascii)

text \<open>Decoding a valid string changes nothing.\<close>

lemma utf8_lossy_valid: "utf8_valid s \<Longrightarrow> utf8_lossy s = s"
proof (induction s rule: utf8_lossy.induct)
  case (1 s)
  show ?case
  proof (cases "s = []")
    case False
    with "1.prems" have "fst (utf8_step s)" and "utf8_valid (drop (snd (utf8_step s)) s)"
      by (simp_all add: utf8_valid.simps[of s])
    with "1.IH" False show ?thesis by (simp add: utf8_lossy.simps[of s])
  qed simp
qed

lemma ascii_not_cont: "is_ascii c \<Longrightarrow> \<not> is_cont c"
  by (simp add: is_ascii_def is_cont_def)

lemma all_ascii_valid: "list_all is_ascii s \<Longrightarrow> utf8_valid s"
  by (induction s) auto

text \<open>The characters of a string, each as the bytes that encode it.\<close>

function str_chars :: "string \<Rightarrow> string list" where
  "str_chars [] = []"
| "str_chars (c # s) = (c # takeWhile is_cont s) # str_chars (dropWhile is_cont s)"
  by pat_completeness auto
termination
  by (relation "measure length") (auto simp: le_imp_less_Suc length_dropWhile_le)

lemma concat_str_chars [simp]: "concat (str_chars s) = s"
  by (induction s rule: str_chars.induct) auto

lemma str_chars_ascii: "list_all is_ascii s \<Longrightarrow> str_chars s = map (\<lambda>c. [c]) s"
proof (induction s)
  case (Cons c s)
  then have tw: "takeWhile is_cont s = []" and dw: "dropWhile is_cont s = s"
    by (cases s; simp add: ascii_not_cont)+
  from Cons show ?case by (simp add: tw dw)
qed simp

lemma str_chars_nonempty: "[] \<notin> set (str_chars s)"
  by (induction s rule: str_chars.induct) auto

subsection \<open>Cutting and joining valid strings\<close>

lemma utf8_step_shape:
  assumes "utf8_step s = (True, n)" and "s \<noteq> []"
  shows "0 < n" and "n \<le> length s" and "\<not> is_cont (hd s)" and "\<forall>i. 0 < i \<and> i < n \<longrightarrow> is_cont (s ! i)"
proof -
  obtain c r where s: "s = c # r" using assms(2) by (cases s) auto
  have second: "is_cont (hd r)" if "utf8_second (byte_of c) (byte_of (hd r))"
    using that by (auto simp: utf8_second_def in_range_def is_cont_def)
  have first: "\<not> is_cont c"
    using assms(1) by (auto simp: s utf8_step_def Let_def is_cont_def in_range_def utf8_second_def
        split: if_splits)
  have nth0: "r \<noteq> [] \<Longrightarrow> s ! 1 = hd r" by (cases r) (simp_all add: s)
  show "0 < n" using utf8_step_pos[OF assms(2)] assms(1) by simp
  show "\<not> is_cont (hd s)" using first by (simp add: s)
  have n: "n = 1 \<or> n = 2 \<and> nth_cont s 1
      \<or> n = 3 \<and> r \<noteq> [] \<and> is_cont (s ! 1) \<and> nth_cont s 2
      \<or> n = 4 \<and> r \<noteq> [] \<and> is_cont (s ! 1) \<and> nth_cont s 2 \<and> nth_cont s 3"
    using assms(1) second nth0 unfolding s
    by (auto simp: utf8_step_def Let_def split: if_splits)
  then show "n \<le> length s" by (cases r; auto simp: nth_cont_def s Suc_le_eq)
  show "\<forall>i. 0 < i \<and> i < n \<longrightarrow> is_cont (s ! i)"
    using n by (auto simp: nth_cont_def less_Suc_eq numeral_eq_Suc)
qed

lemma utf8_step_append:
  assumes "s \<noteq> []"
  shows "utf8_step s = (True, n) \<Longrightarrow> utf8_step (s @ t) = (True, n)"
    and "utf8_step (s @ t) = (True, n) \<Longrightarrow> n \<le> length s \<Longrightarrow> utf8_step s = (True, n)"
proof -
  obtain c r where s: "s = c # r" using assms by (cases s) auto
  have nth: "i < length s \<Longrightarrow> nth_cont (s @ t) i = nth_cont s i" for i
    by (simp add: nth_cont_def nth_append)
  have hd: "r \<noteq> [] \<Longrightarrow> hd (r @ t) = hd r" by simp
  show "utf8_step s = (True, n) \<Longrightarrow> utf8_step (s @ t) = (True, n)"
    using nth[of 1] nth[of 2] nth[of 3] hd unfolding s
    by (auto simp: utf8_step_def Let_def nth_cont_def split: if_splits)
  assume st: "utf8_step (s @ t) = (True, n)" and l: "n \<le> length s"
  have n2: "n = 2 \<Longrightarrow> nth_cont (s @ t) 1 = nth_cont s 1" using nth l by simp
  have n3: "n = 3 \<Longrightarrow> nth_cont (s @ t) 2 = nth_cont s 2" using nth l by simp
  have n4: "n = 4 \<Longrightarrow> nth_cont (s @ t) 2 = nth_cont s 2 \<and> nth_cont (s @ t) 3 = nth_cont s 3" using nth l by simp
  have r: "1 < n \<Longrightarrow> r \<noteq> []" using l by (auto simp: s)
  show "utf8_step s = (True, n)"
    using st n2 n3 n4 r hd unfolding s
    by (auto simp: utf8_step_def Let_def split: if_splits)
qed

lemma utf8_valid_hd: "utf8_valid s \<Longrightarrow> s \<noteq> [] \<Longrightarrow> \<not> is_cont (hd s)"
  using utf8_step_shape(3) by (metis prod.collapse utf8_valid.simps)

lemma utf8_valid_stepE:
  assumes "utf8_valid s" and "s \<noteq> []"
  obtains n where "utf8_step s = (True, n)" and "utf8_valid (drop n s)"
  using assms by (metis prod.collapse utf8_valid.simps)

lemma utf8_valid_append_iff: "utf8_valid a \<Longrightarrow> utf8_valid (a @ b) \<longleftrightarrow> utf8_valid b"
proof (induction a rule: utf8_valid.induct)
  case (1 a)
  show ?case
  proof (cases "a = []")
    case False
    obtain n where n: "utf8_step a = (True, n)" "utf8_valid (drop n a)"
      using utf8_valid_stepE[OF "1.prems" False] .
    have l: "n \<le> length a" using utf8_step_shape(2)[OF n(1) False] .
    have "utf8_valid (a @ b) = utf8_valid (drop n (a @ b))"
      using utf8_step_append(1)[OF False n(1), of b] False by (simp add: utf8_valid.simps[of "a @ b"])
    also have "\<dots> = utf8_valid (drop n a @ b)" using l by simp
    also have "\<dots> = utf8_valid b" using "1.IH" False "1.prems" n by simp
    finally show ?thesis .
  qed simp
qed

text \<open>A valid string cut before the first byte of a character is two valid strings.\<close>

lemma utf8_valid_cut:
  "utf8_valid (a @ b) \<Longrightarrow> b \<noteq> [] \<Longrightarrow> \<not> is_cont (hd b) \<Longrightarrow> utf8_valid a \<and> utf8_valid b"
proof (induction "length a" arbitrary: a rule: less_induct)
  case less
  show ?case
  proof (cases "a = []")
    case False
    then have ne: "a @ b \<noteq> []" by simp
    obtain n where n: "utf8_step (a @ b) = (True, n)" "utf8_valid (drop n (a @ b))"
      using utf8_valid_stepE[OF less.prems(1) ne] .
    note sh = utf8_step_shape[OF n(1) ne]
    have l: "n \<le> length a"
    proof (rule ccontr)
      assume "\<not> n \<le> length a"
      then have "is_cont ((a @ b) ! length a)" using sh(4) False by simp
      then show False using less.prems(2,3) by (cases b) (simp_all add: nth_append)
    qed
    have st: "utf8_step a = (True, n)" using utf8_step_append(2)[OF False n(1) l] .
    have "utf8_valid (drop n a) \<and> utf8_valid b"
      using less.hyps[of "drop n a"] n(2) l sh(1) False less.prems by simp
    then show ?thesis using st False by (simp add: utf8_valid.simps[of a])
  qed (use less.prems in simp)
qed

lemma str_chars_append:
  "b = [] \<or> \<not> is_cont (hd b) \<Longrightarrow> str_chars (a @ b) = str_chars a @ str_chars b"
proof (induction a rule: str_chars.induct)
  case (2 c s)
  show ?case
  proof (cases "dropWhile is_cont s = []")
    case True
    then have all: "\<forall>x\<in>set s. is_cont x" by (simp add: dropWhile_eq_Nil_conv)
    with 2 have "takeWhile is_cont (s @ b) = s \<and> dropWhile is_cont (s @ b) = b"
      by (cases b) (auto simp: takeWhile_append dropWhile_append)
    moreover from all have tw: "takeWhile is_cont s = s" by (simp add: takeWhile_eq_all_conv)
    ultimately show ?thesis by (simp add: tw True del: dropWhile_eq_Nil_conv)
  next
    case False
    then obtain x where "x \<in> set s" "\<not> is_cont x" by auto
    then show ?thesis using 2 by (simp add: takeWhile_append1 dropWhile_append1)
  qed
qed simp

lemma utf8_valid_start: "utf8_valid s \<Longrightarrow> s = [] \<or> \<not> is_cont (hd s)"
  using utf8_valid_hd by blast


subsection \<open>White space\<close>

definition bytes_of_str :: "string \<Rightarrow> nat list" where
  "bytes_of_str = map byte_of"

text \<open>\<open>char::is_whitespace\<close> on an encoded character (Unicode \<open>White_Space\<close>).\<close>

definition is_whitespace :: "string \<Rightarrow> bool" where
  "is_whitespace ch \<longleftrightarrow>
     (case bytes_of_str ch of
        [b] \<Rightarrow> in_range 9 13 b \<or> b = 32
      | [b0, b1] \<Rightarrow> b0 = 0xC2 \<and> (b1 = 0x85 \<or> b1 = 0xA0)
      | [b0, b1, b2] \<Rightarrow>
          (b0 = 0xE1 \<and> b1 = 0x9A \<and> b2 = 0x80) \<or>
          (b0 = 0xE2 \<and> b1 = 0x80 \<and> (in_range 0x80 0x8A b2 \<or> b2 = 0xA8 \<or> b2 = 0xA9 \<or> b2 = 0xAF)) \<or>
          (b0 = 0xE2 \<and> b1 = 0x81 \<and> b2 = 0x9F) \<or>
          (b0 = 0xE3 \<and> b1 = 0x80 \<and> b2 = 0x80)
      | _ \<Rightarrow> False)"

definition drop_ws_end :: "string list \<Rightarrow> string list" where
  "drop_ws_end cs = rev (dropWhile is_whitespace (rev cs))"

text \<open>\<open>str::trim\<close>\<close>

definition str_trim :: "string \<Rightarrow> string" where
  "str_trim s = concat (drop_ws_end (dropWhile is_whitespace (str_chars s)))"

text \<open>A string with no white space at either end is its own trimming.\<close>

lemma str_trim_id:
  assumes "s \<noteq> []"
    and "\<not> is_whitespace (hd (str_chars s))" and "\<not> is_whitespace (last (str_chars s))"
  shows "str_trim s = s"
proof -
  obtain x xs where cs: "str_chars s = x # xs"
    using assms(1) by (cases s) auto
  then have "dropWhile is_whitespace (str_chars s) = str_chars s"
    using assms(2) by simp
  moreover have "rev (dropWhile is_whitespace (rev (str_chars s))) = str_chars s"
  proof -
    obtain ys y where ys: "str_chars s = ys @ [y]"
      using cs by (metis list.discI rev_exhaust)
    with assms(3) have "dropWhile is_whitespace (rev (str_chars s)) = rev (str_chars s)"
      by simp
    then show ?thesis by simp
  qed
  ultimately show ?thesis by (simp add: str_trim_def drop_ws_end_def)
qed

subsection \<open>Case, prefixes, splitting\<close>

definition ascii_lower :: "char \<Rightarrow> char" where
  "ascii_lower c = (if in_range 65 90 (byte_of c) then char_of (byte_of c + 32) else c)"

definition to_ascii_lowercase :: "string \<Rightarrow> string" where
  "to_ascii_lowercase = map ascii_lower"

definition eq_ignore_ascii_case :: "string \<Rightarrow> string \<Rightarrow> bool" where
  "eq_ignore_ascii_case a b \<longleftrightarrow> to_ascii_lowercase a = to_ascii_lowercase b"

lemma byte_of_bound: "byte_of c < 256"
  by (simp add: byte_of_def)

lemma byte_of_char_of: "n < 256 \<Longrightarrow> byte_of (char_of n) = n"
  by (simp add: byte_of_def)

lemma ascii_lower_idem [simp]: "ascii_lower (ascii_lower c) = ascii_lower c"
  by (auto simp: ascii_lower_def in_range_def byte_of_char_of)

lemma to_ascii_lowercase_idem [simp]: "to_ascii_lowercase (to_ascii_lowercase s) = to_ascii_lowercase s"
  by (simp add: to_ascii_lowercase_def)

lemma length_to_ascii_lowercase [simp]: "length (to_ascii_lowercase s) = length s"
  by (simp add: to_ascii_lowercase_def)

lemma to_ascii_lowercase_append: "to_ascii_lowercase (a @ b) = to_ascii_lowercase a @ to_ascii_lowercase b"
  by (simp add: to_ascii_lowercase_def)

lemma eq_ignore_ascii_case_refl [simp]: "eq_ignore_ascii_case a a"
  by (simp add: eq_ignore_ascii_case_def)

lemma eq_ignore_ascii_case_sym: "eq_ignore_ascii_case a b \<longleftrightarrow> eq_ignore_ascii_case b a"
  by (auto simp: eq_ignore_ascii_case_def)

lemma eq_ignore_ascii_case_trans:
  "eq_ignore_ascii_case a b \<Longrightarrow> eq_ignore_ascii_case b c \<Longrightarrow> eq_ignore_ascii_case a c"
  by (simp add: eq_ignore_ascii_case_def)

fun starts_with :: "string \<Rightarrow> string \<Rightarrow> bool" where
  "starts_with s [] = True"
| "starts_with [] (p # ps) = False"
| "starts_with (c # s) (p # ps) = (c = p \<and> starts_with s ps)"

lemma starts_with_iff: "starts_with s p \<longleftrightarrow> (\<exists>r. s = p @ r)"
  by (induction s p rule: starts_with.induct) auto

lemma starts_with_length: "starts_with s p \<Longrightarrow> length p \<le> length s"
  by (auto simp: starts_with_iff)

lemma starts_with_append [simp]: "starts_with (p @ r) p"
  by (simp add: starts_with_iff)

definition strip_prefix :: "string \<Rightarrow> string \<Rightarrow> string option" where
  "strip_prefix s p = (if starts_with s p then Some (drop (length p) s) else None)"

lemma strip_prefix_append [simp]: "strip_prefix (p @ r) p = Some r"
  by (simp add: strip_prefix_def)

lemma strip_prefix_Some: "strip_prefix s p = Some r \<longleftrightarrow> s = p @ r"
  by (auto simp: strip_prefix_def starts_with_iff)

text \<open>\<open>s.split_once(c)\<close> for an ASCII \<open>c\<close>\<close>

fun split_once :: "char \<Rightarrow> string \<Rightarrow> (string \<times> string) option" where
  "split_once c [] = None"
| "split_once c (x # xs) =
     (if x = c then Some ([], xs)
      else (case split_once c xs of None \<Rightarrow> None | Some (a, b) \<Rightarrow> Some (x # a, b)))"

lemma split_once_None: "split_once c s = None \<longleftrightarrow> c \<notin> set s"
  by (induction s) (auto split: option.splits)

lemma split_once_append: "c \<notin> set a \<Longrightarrow> split_once c (a @ c # b) = Some (a, b)"
  by (induction a) auto

lemma split_once_SomeD: "split_once c s = Some (a, b) \<Longrightarrow> s = a @ c # b \<and> c \<notin> set a"
  by (induction s arbitrary: a b) (auto split: if_splits option.splits)

text \<open>\<open>s.split_once(p)\<close> for a string pattern\<close>

fun split_once_str :: "string \<Rightarrow> string \<Rightarrow> (string \<times> string) option" where
  "split_once_str p s =
     (if starts_with s p then Some ([], drop (length p) s)
      else (case s of [] \<Rightarrow> None
            | x # xs \<Rightarrow> (case split_once_str p xs of None \<Rightarrow> None | Some (a, b) \<Rightarrow> Some (x # a, b))))"

declare split_once_str.simps [simp del]

text \<open>\<open>s.split(c)\<close>: one more piece than there are separators\<close>

fun split_on :: "char \<Rightarrow> string \<Rightarrow> string list" where
  "split_on c [] = [[]]"
| "split_on c (x # xs) =
     (if x = c then [] # split_on c xs
      else (case split_on c xs of [] \<Rightarrow> [[x]] | p # ps \<Rightarrow> (x # p) # ps))"

fun join_with :: "string \<Rightarrow> string list \<Rightarrow> string" where
  "join_with sep [] = []"
| "join_with sep [x] = x"
| "join_with sep (x # y # ys) = x @ sep @ join_with sep (y # ys)"

lemma split_on_nonempty: "split_on c s \<noteq> []"
  by (induction s) (auto split: list.splits)

lemma split_on_piece: "c \<notin> set a \<Longrightarrow> split_on c (a @ c # b) = a # split_on c b"
  by (induction a) auto

lemma split_on_whole: "c \<notin> set a \<Longrightarrow> split_on c a = [a]"
  by (induction a) auto

lemma split_on_join:
  "xs \<noteq> [] \<Longrightarrow> (\<And>x. x \<in> set xs \<Longrightarrow> c \<notin> set x) \<Longrightarrow> split_on c (join_with [c] xs) = xs"
  by (induction "[c]" xs rule: join_with.induct) (auto simp: split_on_whole split_on_piece)

text \<open>\<open>jid.split('/').next().unwrap_or(jid)\<close>: the bare form of an address\<close>

definition to_bare :: "string \<Rightarrow> string" where
  "to_bare s = takeWhile (\<lambda>c. c \<noteq> CHR ''/'') s"

lemma hd_split_on: "hd (split_on c s) = takeWhile (\<lambda>x. x \<noteq> c) s"
  by (induction s) (auto split: list.splits simp: split_on_nonempty)

lemma to_bare_split: "to_bare s = hd (split_on CHR ''/'' s)"
  by (simp add: to_bare_def hd_split_on)

lemma to_bare_no_slash: "CHR ''/'' \<notin> set (to_bare s)"
  unfolding to_bare_def by (auto dest: in_set_takeWhile)

lemma to_bare_id: "CHR ''/'' \<notin> set s \<Longrightarrow> to_bare s = s"
  by (auto simp: to_bare_def takeWhile_eq_all_conv)

lemma to_bare_idem [simp]: "to_bare (to_bare s) = to_bare s"
  by (rule to_bare_id) (rule to_bare_no_slash)

lemma to_bare_full [simp]: "CHR ''/'' \<notin> set s \<Longrightarrow> to_bare (s @ CHR ''/'' # r) = s"
  by (induction s) (auto simp: to_bare_def)

text \<open>\<open>s.find(p)\<close>: the byte offset of the first occurrence\<close>

fun find_str :: "string \<Rightarrow> string \<Rightarrow> nat option" where
  "find_str p s =
     (if starts_with s p then Some 0
      else (case s of [] \<Rightarrow> None | x # xs \<Rightarrow> map_option Suc (find_str p xs)))"

declare find_str.simps [simp del]

lemma find_str_SomeD:
  "find_str p s = Some i \<Longrightarrow> \<exists>a b. s = a @ p @ b \<and> length a = i"
proof (induction s arbitrary: i)
  case Nil
  then show ?case by (auto simp: find_str.simps[of p "[]"] starts_with_iff split: if_splits)
next
  case (Cons x xs)
  show ?case
  proof (cases "starts_with (x # xs) p")
    case True
    with Cons.prems have "i = 0" by (simp add: find_str.simps[of p "x # xs"])
    with True show ?thesis by (auto simp: starts_with_iff)
  next
    case False
    with Cons.prems obtain j where j: "find_str p xs = Some j" "i = Suc j"
      by (auto simp: find_str.simps[of p "x # xs"])
    with Cons.IH obtain a b where "xs = a @ p @ b" "length a = j" by blast
    then have "x # xs = (x # a) @ p @ b" and "length (x # a) = i" using j by simp_all
    then show ?thesis by blast
  qed
qed

lemma find_str_first:
  "find_str p s = Some i \<Longrightarrow> j < i \<Longrightarrow> \<not> starts_with (drop j s) p"
proof (induction s arbitrary: i j)
  case Nil
  then show ?case by (auto simp: find_str.simps[of p "[]"] split: if_splits)
next
  case (Cons x xs)
  then show ?case
    by (cases j) (auto simp: find_str.simps[of p "x # xs"] split: if_splits)
qed

lemma find_str_None: "find_str p s = None \<longleftrightarrow> (\<nexists>a b. s = a @ p @ b)"
proof (induction s)
  case Nil
  then show ?case by (auto simp: find_str.simps[of p "[]"] starts_with_iff)
next
  case (Cons x xs)
  show ?case
    using Cons.IH
    by (auto simp: find_str.simps[of p "x # xs"] starts_with_iff Cons_eq_append_conv)
qed

definition contains_str :: "string \<Rightarrow> string \<Rightarrow> bool" where
  "contains_str s p \<longleftrightarrow> find_str p s \<noteq> None"

subsection \<open>Numbers in text\<close>

definition digit_val :: "char \<Rightarrow> nat option" where
  "digit_val c = (if in_range 48 57 (byte_of c) then Some (byte_of c - 48) else None)"

definition digit_char :: "nat \<Rightarrow> char" where
  "digit_char d = char_of (48 + d)"

lemma digit_val_char [simp]: "d < 10 \<Longrightarrow> digit_val (digit_char d) = Some d"
  by (simp add: digit_val_def digit_char_def byte_of_char_of in_range_def)

fun digits_val :: "nat \<Rightarrow> string \<Rightarrow> nat option" where
  "digits_val acc [] = Some acc"
| "digits_val acc (c # cs) =
     (case digit_val c of None \<Rightarrow> None | Some d \<Rightarrow> digits_val (10 * acc + d) cs)"

text \<open>
  \<open>str::parse\<close> for an unsigned type of \<open>w\<close> bits: an optional \<open>+\<close>, at least one decimal digit,
  nothing else, no overflow.  For the signed types a \<open>-\<close> is accepted too.
\<close>

definition parse_unsigned :: "nat \<Rightarrow> string \<Rightarrow> nat option" where
  "parse_unsigned w s =
     (let ds = (case s of c # r \<Rightarrow> if c = CHR ''+'' then r else s | [] \<Rightarrow> s) in
      if ds = [] then None
      else (case digits_val 0 ds of None \<Rightarrow> None | Some n \<Rightarrow> if n < 2 ^ w then Some n else None))"

definition parse_i64 :: "string \<Rightarrow> i64 option" where
  "parse_i64 s =
     (case s of
        [] \<Rightarrow> None
      | c # r \<Rightarrow>
          if c = CHR ''-'' then
            (if r = [] then None
             else (case digits_val 0 r of None \<Rightarrow> None
                   | Some n \<Rightarrow> if n \<le> 2 ^ 63 then Some (- int n) else None))
          else map_option int (parse_unsigned 63 s))"

definition parse_u32 :: "string \<Rightarrow> u32 option" where
  "parse_u32 s = map_option word_of_nat (parse_unsigned 32 s)"

definition parse_usize :: "string \<Rightarrow> nat option" where
  "parse_usize s = parse_unsigned 64 s"

text \<open>Decimal printing (\<open>to_string\<close>, \<open>{}\<close>).\<close>

fun show_nat :: "nat \<Rightarrow> string" where
  "show_nat n = (if n < 10 then [digit_char n] else show_nat (n div 10) @ [digit_char (n mod 10)])"

declare show_nat.simps [simp del]

definition show_int :: "int \<Rightarrow> string" where
  "show_int i = (if i < 0 then CHR ''-'' # show_nat (nat (- i)) else show_nat (nat i))"

lemma digits_val_append:
  "digits_val acc (xs @ ys) = (case digits_val acc xs of None \<Rightarrow> None | Some n \<Rightarrow> digits_val n ys)"
  by (induction xs arbitrary: acc) (auto split: option.splits)

lemma digits_val_show_nat [simp]: "digits_val 0 (show_nat n) = Some n"
proof (induction n rule: show_nat.induct)
  case (1 n)
  then show ?case
    by (subst show_nat.simps) (auto simp: digits_val_append)
qed

lemma show_nat_nonempty [simp]: "show_nat n \<noteq> []"
  by (subst show_nat.simps) simp

lemma show_nat_digits: "c \<in> set (show_nat n) \<Longrightarrow> in_range 48 57 (byte_of c)"
proof (induction n rule: show_nat.induct)
  case (1 n)
  show ?case
  proof (cases "n < 10")
    case True
    with "1.prems" show ?thesis
      by (subst (asm) show_nat.simps) (simp add: digit_char_def byte_of_char_of in_range_def)
  next
    case False
    have "n mod 10 < 10" by simp
    then have "byte_of (digit_char (n mod 10)) = 48 + n mod 10"
      unfolding digit_char_def by (intro byte_of_char_of) linarith
    with False "1.IH" "1.prems" show ?thesis
      by (subst (asm) show_nat.simps) (auto simp: in_range_def)
  qed
qed

lemma digit_byte_ascii: "in_range 48 57 (byte_of c) \<Longrightarrow> is_ascii c"
  by (simp add: in_range_def is_ascii_def)

lemma show_nat_ascii: "list_all is_ascii (show_nat n)"
  by (auto simp: list_all_iff dest: show_nat_digits digit_byte_ascii)

lemma show_nat_not_in:
  "\<not> in_range 48 57 (byte_of c) \<Longrightarrow> c \<notin> set (show_nat n)"
  using show_nat_digits by blast

lemma hd_show_nat_not: "\<not> in_range 48 57 (byte_of c) \<Longrightarrow> hd (show_nat n) \<noteq> c"
  by (metis list.set_sel(1) show_nat_nonempty show_nat_not_in)

lemma parse_unsigned_show_nat [simp]: "n < 2 ^ w \<Longrightarrow> parse_unsigned w (show_nat n) = Some n"
proof -
  assume n: "n < 2 ^ w"
  obtain c r where cr: "show_nat n = c # r" by (cases "show_nat n") auto
  have "c \<noteq> CHR ''+''"
    using hd_show_nat_not[of "CHR ''+''" n] cr by (simp add: byte_of_def in_range_def)
  with cr have "(case show_nat n of c # r \<Rightarrow> if c = CHR ''+'' then r else show_nat n | [] \<Rightarrow> show_nat n)
      = show_nat n" by simp
  with n show ?thesis by (simp add: parse_unsigned_def Let_def)
qed

lemma parse_usize_show [simp]: "n < 2 ^ 64 \<Longrightarrow> parse_usize (show_nat n) = Some n"
  by (simp add: parse_usize_def)

lemma parse_i64_show [simp]:
  assumes "0 \<le> i" and "i < 2 ^ 63"
  shows "parse_i64 (show_int i) = Some i"
proof -
  obtain c r where cr: "show_nat (nat i) = c # r" by (cases "show_nat (nat i)") auto
  have "c \<noteq> CHR ''-''"
    using hd_show_nat_not[of "CHR ''-''" "nat i"] cr by (simp add: byte_of_def in_range_def)
  moreover have "parse_unsigned 63 (show_nat (nat i)) = Some (nat i)"
    using assms by (intro parse_unsigned_show_nat) (simp add: nat_less_iff)
  ultimately show ?thesis using assms cr by (simp add: parse_i64_def show_int_def)
qed

lemma parse_i64_bound: "parse_i64 s = Some i \<Longrightarrow> - (2 ^ 63) \<le> i \<and> i < 2 ^ 63"
  by (auto simp: parse_i64_def parse_unsigned_def Let_def split: list.splits if_splits option.splits)

subsection \<open>Hexadecimal\<close>

definition hex_digit_val :: "char \<Rightarrow> nat option" where
  "hex_digit_val c =
     (let b = byte_of c in
      if in_range 48 57 b then Some (b - 48)
      else if in_range 97 102 b then Some (b - 87)
      else if in_range 65 70 b then Some (b - 55) else None)"

definition is_ascii_hexdigit :: "char \<Rightarrow> bool" where
  "is_ascii_hexdigit c \<longleftrightarrow> hex_digit_val c \<noteq> None"

text \<open>\<open>u8::from_str_radix(_, 16)\<close> on a string of at most two bytes.\<close>

definition u8_from_hex :: "string \<Rightarrow> u8 option" where
  "u8_from_hex s =
     (let ds = (case s of c # r \<Rightarrow> if c = CHR ''+'' \<and> r \<noteq> [] then r else s | [] \<Rightarrow> s) in
      case map hex_digit_val ds of
        [Some a] \<Rightarrow> Some (word_of_nat a)
      | [Some a, Some b] \<Rightarrow> Some (word_of_nat (16 * a + b))
      | _ \<Rightarrow> None)"

definition hex_char :: "nat \<Rightarrow> char" where
  "hex_char d = (if d < 10 then char_of (48 + d) else char_of (87 + d))"

definition hex_byte :: "u8 \<Rightarrow> string" where
  "hex_byte w = [hex_char (unat w div 16), hex_char (unat w mod 16)]"

text \<open>\<open>hex::encode\<close>: two lower-case digits per byte.\<close>

definition hex_encode :: "bytes \<Rightarrow> string" where
  "hex_encode bs = concat (map hex_byte bs)"

lemma hex_digit_val_char [simp]: "d < 16 \<Longrightarrow> hex_digit_val (hex_char d) = Some d"
  by (auto simp: hex_digit_val_def hex_char_def byte_of_char_of in_range_def Let_def)

lemma length_hex_encode [simp]: "length (hex_encode bs) = 2 * length bs"
  by (induction bs) (auto simp: hex_encode_def hex_byte_def)

lemma unat_u8_bound: "unat (w :: u8) < 256"
  using unsigned_less[of w] by simp

definition lower_hex :: "char \<Rightarrow> bool" where
  "lower_hex c \<longleftrightarrow> in_range 48 57 (byte_of c) \<or> in_range 97 102 (byte_of c)"

lemma lower_hex_char [simp]: "d < 16 \<Longrightarrow> lower_hex (hex_char d)"
  by (auto simp: lower_hex_def hex_char_def byte_of_char_of in_range_def)

lemma hex_encode_lower: "list_all lower_hex (hex_encode bs)"
proof (induction bs)
  case (Cons b bs)
  have "unat b div 16 < 16" using unat_u8_bound[of b] by linarith
  with Cons show ?case by (simp add: hex_encode_def hex_byte_def)
qed (simp add: hex_encode_def)

lemma hex_char_inj: "a < 16 \<Longrightarrow> b < 16 \<Longrightarrow> hex_char a = hex_char b \<Longrightarrow> a = b"
  by (metis hex_digit_val_char option.inject)

lemma hex_byte_inj: "hex_byte a = hex_byte b \<Longrightarrow> a = b"
proof -
  assume eq: "hex_byte a = hex_byte b"
  have "unat a div 16 < 16" "unat b div 16 < 16"
    using unat_u8_bound[of a] unat_u8_bound[of b] by linarith+
  with eq have "unat a div 16 = unat b div 16" "unat a mod 16 = unat b mod 16"
    by (auto simp: hex_byte_def intro: hex_char_inj)
  then have "unat a = unat b" by (metis div_mult_mod_eq)
  then show ?thesis by (simp add: word_unat_eq_iff)
qed

text \<open>Distinct keys have distinct hex strings.\<close>

lemma hex_encode_inj: "hex_encode a = hex_encode b \<Longrightarrow> a = b"
proof (induction a arbitrary: b)
  case Nil
  then show ?case by (cases b) (auto simp: hex_encode_def hex_byte_def)
next
  case (Cons x a)
  then obtain y b' where b: "b = y # b'"
    by (cases b) (auto simp: hex_encode_def hex_byte_def)
  with Cons.prems have "hex_byte x @ hex_encode a = hex_byte y @ hex_encode b'"
    by (simp add: hex_encode_def)
  then have "hex_byte x = hex_byte y" and "hex_encode a = hex_encode b'"
    by (simp_all add: hex_byte_def)
  with Cons.IH b show ?case by (auto dest: hex_byte_inj)
qed

lemma lower_hex_ascii: "lower_hex c \<Longrightarrow> is_ascii c"
  by (auto simp: lower_hex_def is_ascii_def in_range_def)

lemma lower_hex_hexdigit: "lower_hex c \<Longrightarrow> is_ascii_hexdigit c"
  by (auto simp: lower_hex_def is_ascii_hexdigit_def hex_digit_val_def in_range_def Let_def)

lemma lower_hex_lower: "lower_hex c \<Longrightarrow> ascii_lower c = c"
  by (auto simp: lower_hex_def ascii_lower_def in_range_def)

lemma hexdigit_lower: "is_ascii_hexdigit c \<Longrightarrow> lower_hex (ascii_lower c)"
  by (auto simp: lower_hex_def is_ascii_hexdigit_def hex_digit_val_def in_range_def Let_def
      ascii_lower_def byte_of_char_of split: if_splits)

end
