(* ===== verification/Uri.thy ===== *)
theory Uri
  imports Rust_Str
begin

text \<open>
  \<open>crates/mxc-proto/src/uri.rs\<close>: verification URIs.  \<open>verification_uri\<close> renders
  \<open>xmpp:<jid>?omemo-sid-<device>=<hex>;...\<close>, \<open>parse\<close> reads such a URI or an invite link.  The
  text scanned from a QR code is chosen by an attacker, so a slice that is not on a character
  boundary is modelled as the panic it is.
\<close>

datatype fingerprint_kind = Omemo | OmemoPq

record uri_fingerprint =
  fp_kind :: fingerprint_kind
  fp_device_id :: i64
  fp_hex :: string

record parsed_uri =
  pu_jid :: string
  pu_fingerprints :: "uri_fingerprint list"

definition OMEMO_PARAM :: string where "OMEMO_PARAM = ''omemo-sid-''"
definition OMEMO_PQ_PARAM :: string where "OMEMO_PQ_PARAM = ''omemo-pq-sid-''"
definition MAX_URI_FINGERPRINTS :: nat where "MAX_URI_FINGERPRINTS = 64"

definition from_identity_key :: "fingerprint_kind \<Rightarrow> i64 \<Rightarrow> bytes \<Rightarrow> uri_fingerprint" where
  "from_identity_key kind device_id identity_key =
     (let key = (if length identity_key = 33 \<and> hd identity_key = 0x05
                 then tl identity_key else identity_key)
      in \<lparr>fp_kind = kind, fp_device_id = device_id, fp_hex = hex_encode key\<rparr>)"

definition all_hex :: "parsed_uri \<Rightarrow> string list" where
  "all_hex u = map fp_hex (pu_fingerprints u)"

subsection \<open>Rendering\<close>

definition encode_char :: "char \<Rightarrow> string" where
  "encode_char c =
     (if c = CHR ''?'' then ''%3F'' else if c = CHR '';'' then ''%3B''
      else if c = CHR ''#'' then ''%23'' else if c = CHR ''%'' then ''%25''
      else if c = CHR '' '' then ''%20'' else [c])"

definition encode_jid :: "string \<Rightarrow> string" where
  "encode_jid jid = concat (map encode_char jid)"

definition kind_param :: "fingerprint_kind \<Rightarrow> string" where
  "kind_param k = (case k of Omemo \<Rightarrow> OMEMO_PARAM | OmemoPq \<Rightarrow> OMEMO_PQ_PARAM)"

definition param_key :: "uri_fingerprint \<Rightarrow> string" where
  "param_key fp = kind_param (fp_kind fp) @ show_int (fp_device_id fp)"

definition verification_uri :: "string \<Rightarrow> uri_fingerprint list \<Rightarrow> string" where
  "verification_uri jid fingerprints =
     ''xmpp:'' @ encode_jid jid @
     concat (map (\<lambda>(i, fp). (if i = 0 then ''?'' else '';'') @ param_key fp @ ''='' @ fp_hex fp)
                 (enumerate 0 fingerprints))"

subsection \<open>Parsing\<close>

text \<open>The decoding loop, over the bytes from index \<open>i\<close> on.\<close>

function percent_decode_loop :: "string \<Rightarrow> string run" where
  "percent_decode_loop [] = Return []"
| "percent_decode_loop (c # r) =
     (if c = CHR ''%'' \<and> 2 \<le> length r then
        run_bind (str_slice (c # r) 1 3) (\<lambda>h.
          case u8_from_hex h of
            Some b \<Rightarrow> run_bind (percent_decode_loop (drop 2 r)) (\<lambda>out. Return (char_of (unat b) # out))
          | None \<Rightarrow> run_bind (percent_decode_loop r) (\<lambda>out. Return (c # out)))
      else run_bind (percent_decode_loop r) (\<lambda>out. Return (c # out)))"
  by pat_completeness auto
termination
  by (relation "measure length") auto

definition percent_decode :: "string \<Rightarrow> string run" where
  "percent_decode value = run_bind (percent_decode_loop value) (\<lambda>out. Return (utf8_lossy out))"

definition normalize_fingerprint :: "string \<Rightarrow> string option" where
  "normalize_fingerprint value =
     (let hex = concat (map (map ascii_lower) (filter (\<lambda>ch. \<not> is_whitespace ch) (str_chars value)))
      in if \<not> list_all is_ascii_hexdigit hex then None
         else if length hex = 64 then Some hex
         else if length hex = 66 \<and> starts_with hex ''05'' then Some (drop 2 hex)
         else None)"

definition classify_key :: "string \<Rightarrow> (fingerprint_kind \<times> string) option" where
  "classify_key key =
     (case strip_prefix key OMEMO_PQ_PARAM of
        Some i \<Rightarrow> Some (OmemoPq, i)
      | None \<Rightarrow> (case strip_prefix key OMEMO_PARAM of Some i \<Rightarrow> Some (Omemo, i) | None \<Rightarrow> None))"

text \<open>
  One iteration of the loop of \<open>finish\<close>: the keys seen afterwards and the fingerprint pushed,
  if any; every \<open>continue\<close> of the source is a \<open>None\<close>.
\<close>

definition finish_step ::
  "string list \<Rightarrow> string \<Rightarrow> (string list \<times> uri_fingerprint option) run" where
  "finish_step seen pair =
     (case split_once CHR ''='' pair of
        None \<Rightarrow> Return (seen, None)
      | Some (key0, value) \<Rightarrow>
          run_bind (percent_decode key0) (\<lambda>key1.
            let key = to_ascii_lowercase key1 in
            if key \<in> set seen then Return (seen, None)
            else
              (case classify_key key of
                 None \<Rightarrow> Return (seen @ [key], None)
               | Some (kind, suffix) \<Rightarrow>
                   (case parse_i64 suffix of
                      None \<Rightarrow> Return (seen @ [key], None)
                    | Some device_id \<Rightarrow>
                        if device_id < 0 then Return (seen @ [key], None)
                        else run_bind (percent_decode value) (\<lambda>value1.
                          (case normalize_fingerprint value1 of
                             None \<Rightarrow> Return (seen @ [key], None)
                           | Some hex \<Rightarrow>
                               Return (seen @ [key],
                                 Some \<lparr>fp_kind = kind, fp_device_id = device_id, fp_hex = hex\<rparr>)))))))"

fun finish_loop ::
  "string list \<Rightarrow> string list \<Rightarrow> uri_fingerprint list \<Rightarrow> uri_fingerprint list run" where
  "finish_loop [] seen fingerprints = Return fingerprints"
| "finish_loop (pair # pairs) seen fingerprints =
     run_bind (finish_step seen pair) (\<lambda>(seen', pushed).
       (case pushed of
          None \<Rightarrow> finish_loop pairs seen' fingerprints
        | Some fp \<Rightarrow>
            if MAX_URI_FINGERPRINTS \<le> length (fingerprints @ [fp]) then Return (fingerprints @ [fp])
            else finish_loop pairs seen' (fingerprints @ [fp])))"

definition finish :: "string \<Rightarrow> string option \<Rightarrow> char \<Rightarrow> parsed_uri option run" where
  "finish jid_part query separator =
     run_bind (percent_decode jid_part) (\<lambda>decoded.
       let jid = str_trim decoded in
       if jid = [] \<or> CHR ''@'' \<notin> set jid then Return None
       else run_bind (finish_loop (split_on separator (case query of Some q \<Rightarrow> q | None \<Rightarrow> [])) [] [])
              (\<lambda>fps. Return (Some \<lparr>pu_jid = jid, pu_fingerprints = fps\<rparr>)))"

definition parse_link :: "string \<Rightarrow> parsed_uri option run" where
  "parse_link input =
     (case split_once_str ''//'' input of
        None \<Rightarrow> Return None
      | Some (_, after_scheme) \<Rightarrow>
          (case split_once CHR ''/'' after_scheme of
             None \<Rightarrow> Return None
           | Some (_, path0) \<Rightarrow>
               let path = (case split_once CHR ''?'' path0 of Some (p, q) \<Rightarrow> p | None \<Rightarrow> path0);
                   query = (case split_once CHR ''?'' path0 of Some (p, q) \<Rightarrow> Some q | None \<Rightarrow> None)
               in (case filter (\<lambda>s. s \<noteq> []) (split_on CHR ''/'' path) of
                     i # first # segments \<Rightarrow>
                       if i \<noteq> ''i'' then Return None
                       else (case segments of
                               domain # _ \<Rightarrow>
                                 if CHR ''@'' \<notin> set first
                                 then finish (first @ ''@'' @ domain) query CHR ''&''
                                 else finish first query CHR ''&''
                             | [] \<Rightarrow> finish first query CHR ''&'')
                   | _ \<Rightarrow> Return None)))"

definition parse :: "string \<Rightarrow> parsed_uri option run" where
  "parse input0 =
     (let input = str_trim input0; lower = to_ascii_lowercase input in
      if starts_with lower ''xmpp:'' then
        run_bind (str_slice input 5 (length input)) (\<lambda>rest.
          case split_once CHR ''?'' rest of
            Some (jid, query) \<Rightarrow> finish jid (Some query) CHR '';''
          | None \<Rightarrow> finish rest None CHR '';'')
      else if starts_with lower ''https://'' \<or> starts_with lower ''http://'' then parse_link input
      else Return None)"

subsection \<open>What a parsed URI looks like\<close>

definition well_formed_fp :: "uri_fingerprint \<Rightarrow> bool" where
  "well_formed_fp fp \<longleftrightarrow>
     0 \<le> fp_device_id fp \<and> fp_device_id fp < 2 ^ 63 \<and>
     length (fp_hex fp) = 64 \<and> list_all lower_hex (fp_hex fp)"

lemma normalize_fingerprint_shape:
  assumes "normalize_fingerprint v = Some h"
  shows "length h = 64 \<and> list_all lower_hex h"
proof -
  define hex where "hex = concat (map (map ascii_lower) (filter (\<lambda>ch. \<not> is_whitespace ch) (str_chars v)))"
  have hex_lower: "c \<in> set hex \<Longrightarrow> ascii_lower c = c" for c
    by (auto simp: hex_def)
  have all: "list_all is_ascii_hexdigit hex"
    and h: "h = hex \<and> length hex = 64 \<or> h = drop 2 hex \<and> length hex = 66"
    using assms by (auto simp: normalize_fingerprint_def hex_def[symmetric] Let_def split: if_splits)
  have "lower_hex c" if "c \<in> set hex" for c
    using all that hexdigit_lower[of c] hex_lower[of c] by (auto simp: list_all_iff)
  with h show ?thesis by (auto simp: list_all_iff dest: in_set_dropD)
qed

lemma finish_step_shape:
  "finish_step seen pair = Return (seen', Some fp) \<Longrightarrow> well_formed_fp fp"
  by (auto simp: finish_step_def run_bind_def Let_def well_formed_fp_def
      dest: normalize_fingerprint_shape parse_i64_bound
      split: run.split_asm option.split_asm if_split_asm prod.split_asm)

lemma finish_loop_shape:
  "finish_loop pairs seen acc = Return fps \<Longrightarrow> length acc < MAX_URI_FINGERPRINTS \<Longrightarrow>
   list_all well_formed_fp acc \<Longrightarrow>
   length fps \<le> MAX_URI_FINGERPRINTS \<and> list_all well_formed_fp fps"
proof (induction pairs arbitrary: seen acc)
  case (Cons pair pairs)
  from Cons.prems(1) obtain seen' pushed where step: "finish_step seen pair = Return (seen', pushed)"
    by (auto simp: run_bind_Return_iff)
  show ?case
  proof (cases pushed)
    case None
    with Cons.prems step Cons.IH[of seen' acc] show ?thesis by simp
  next
    case (Some fp)
    then have "well_formed_fp fp" using step finish_step_shape by blast
    with Cons.prems step Some Cons.IH[of seen' "acc @ [fp]"]
    show ?thesis by (auto split: if_split_asm)
  qed
qed auto

text \<open>Nothing panics on ASCII input.\<close>

lemma is_boundary_ascii: "list_all is_ascii s \<Longrightarrow> i \<le> length s \<Longrightarrow> is_boundary s i"
  by (auto simp: is_boundary_def list_all_length ascii_not_cont)

lemma percent_decode_loop_ascii: "list_all is_ascii s \<Longrightarrow> percent_decode_loop s \<noteq> Panic"
proof (induction s rule: length_induct)
  case (1 s)
  show ?case
  proof (cases s)
    case (Cons c r)
    have r: "percent_decode_loop r \<noteq> Panic" using 1 Cons by simp
    have "list_all is_ascii (drop 2 r)"
      using "1.prems" Cons by (auto simp: list_all_iff dest: in_set_dropD)
    then have dr: "percent_decode_loop (drop 2 r) \<noteq> Panic" using 1 Cons by simp
    have "2 \<le> length r \<Longrightarrow> str_slice (c # r) 1 3 = Return (take 2 r)"
      using "1.prems" Cons is_boundary_ascii[of "c # r"] by (simp add: str_slice_def)
    with Cons r dr show ?thesis
      by (auto simp: run_bind_def split: run.splits option.splits)
  qed simp
qed

lemma percent_decode_ascii: "list_all is_ascii s \<Longrightarrow> percent_decode s \<noteq> Panic"
  using percent_decode_loop_ascii[of s]
  by (cases "percent_decode_loop s") (auto simp: percent_decode_def)

lemma ascii_sublist: "list_all is_ascii s \<Longrightarrow> set t \<subseteq> set s \<Longrightarrow> list_all is_ascii t"
  by (auto simp: list_all_iff)

lemma finish_step_ascii:
  assumes "list_all is_ascii pair"
  shows "finish_step seen pair \<noteq> Panic"
proof (cases "split_once CHR ''='' pair")
  case None
  then show ?thesis by (simp add: finish_step_def)
next
  case (Some kv)
  obtain k v where kv: "kv = (k, v)" by fastforce
  from Some kv have "pair = k @ CHR ''='' # v" by (simp add: split_once_SomeD)
  with assms have "percent_decode k \<noteq> Panic" and "percent_decode v \<noteq> Panic"
    by (simp_all add: percent_decode_ascii)
  with Some kv show ?thesis
    by (auto simp: finish_step_def run_bind_def Let_def split: run.splits option.splits prod.splits)
qed

lemma finish_loop_ascii:
  "(\<And>p. p \<in> set pairs \<Longrightarrow> list_all is_ascii p) \<Longrightarrow> finish_loop pairs seen acc \<noteq> Panic"
proof (induction pairs arbitrary: seen acc)
  case (Cons pair pairs)
  then have "finish_step seen pair \<noteq> Panic" by (simp add: finish_step_ascii)
  with Cons show ?case
    by (auto simp: run_bind_def split: run.splits option.splits)
qed simp

lemma split_on_subset: "p \<in> set (split_on c s) \<Longrightarrow> set p \<subseteq> set s"
  by (induction s arbitrary: p) (fastforce split: if_split_asm list.split_asm)+

lemma finish_ascii:
  assumes "list_all is_ascii jid_part"
    and "case query of Some q \<Rightarrow> list_all is_ascii q | None \<Rightarrow> True"
  shows "finish jid_part query sep \<noteq> Panic"
proof -
  have "list_all is_ascii p"
    if "p \<in> set (split_on sep (case query of Some q \<Rightarrow> q | None \<Rightarrow> []))" for p
    using that assms(2) split_on_subset by (fastforce simp: list_all_iff split: option.split_asm)
  then have "finish_loop (split_on sep (case query of Some q \<Rightarrow> q | None \<Rightarrow> [])) [] [] \<noteq> Panic"
    by (rule finish_loop_ascii)
  with percent_decode_ascii[OF assms(1)] show ?thesis
    by (auto simp: finish_def run_bind_def Let_def split: run.splits)
qed

lemma split_once_str_subset:
  "split_once_str p s = Some (a, b) \<Longrightarrow> set b \<subseteq> set s"
proof (induction s arbitrary: a b)
  case Nil
  then show ?case by (auto simp: split_once_str.simps[of p "[]"] split: if_split_asm dest: in_set_dropD)
next
  case (Cons x xs)
  then show ?case
    by (fastforce simp: split_once_str.simps[of p "x # xs"]
        split: if_split_asm option.split_asm dest: in_set_dropD)
qed

lemma filter_nonempty_subset:
  "t \<in> set (filter (\<lambda>s. s \<noteq> []) (split_on c s)) \<Longrightarrow> set t \<subseteq> set s"
  using split_on_subset by fastforce

lemma parse_link_ascii:
  assumes "list_all is_ascii input"
  shows "parse_link input \<noteq> Panic"
proof (cases "split_once_str ''//'' input")
  case (Some ab)
  obtain a after_scheme where after_eq: "ab = (a, after_scheme)" by fastforce
  with Some assms have after_ascii: "list_all is_ascii after_scheme"
    by (metis ascii_sublist split_once_str_subset)
  show ?thesis
  proof (cases "split_once CHR ''/'' after_scheme")
    case None
    with Some after_eq show ?thesis by (simp add: parse_link_def)
  next
    case inner: (Some cd)
    obtain h path0 where hp: "cd = (h, path0)" by fastforce
    with inner after_ascii have p0: "list_all is_ascii path0"
      by (auto dest!: split_once_SomeD)
    define path where "path = (case split_once CHR ''?'' path0 of Some (p, q) \<Rightarrow> p | None \<Rightarrow> path0)"
    define query where "query = (case split_once CHR ''?'' path0 of Some (p, q) \<Rightarrow> Some q | None \<Rightarrow> None)"
    have "list_all is_ascii path"
      and q: "case query of Some q \<Rightarrow> list_all is_ascii q | None \<Rightarrow> True"
      using p0 by (auto simp: path_def query_def split: option.splits dest!: split_once_SomeD)
    then have seg: "list_all is_ascii t" if "t \<in> set (filter (\<lambda>s. s \<noteq> []) (split_on CHR ''/'' path))" for t
      using that filter_nonempty_subset ascii_sublist by metis
    have fin: "finish j query CHR ''&'' \<noteq> Panic" if "list_all is_ascii j" for j
      using that q by (rule finish_ascii)
    show ?thesis
    proof (cases "filter (\<lambda>s. s \<noteq> []) (split_on CHR ''/'' path)")
      case Nil
      with Some after_eq inner hp show ?thesis
        by (simp add: parse_link_def Let_def path_def[symmetric])
    next
      case segs: (Cons i rest)
      then have "list_all is_ascii t" if "t \<in> set rest" for t using seg that by simp
      then have "\<And>d. d \<in> set rest \<Longrightarrow> finish d query CHR ''&'' \<noteq> Panic"
        and "\<And>d e. d \<in> set rest \<Longrightarrow> e \<in> set rest \<Longrightarrow>
          finish (d @ CHR ''@'' # e) query CHR ''&'' \<noteq> Panic"
        by (auto intro!: fin simp: is_ascii_def byte_of_def)
      with Some after_eq inner hp segs show ?thesis
        by (cases rest) (auto simp: parse_link_def Let_def path_def[symmetric] query_def[symmetric]
            split: list.splits)
    qed
  qed
qed (simp add: parse_link_def)

lemma str_trim_subset: "set (str_trim s) \<subseteq> set s"
proof -
  have "set (drop_ws_end (dropWhile is_whitespace (str_chars s))) \<subseteq> set (str_chars s)"
    by (auto simp: drop_ws_end_def dest!: set_dropWhileD)
  then have "set (str_trim s) \<subseteq> set (concat (str_chars s))"
    unfolding str_trim_def set_concat by blast
  then show ?thesis by simp
qed

lemma finish_shape:
  assumes "finish jid_part query sep = Return (Some u)"
  shows "CHR ''@'' \<in> set (pu_jid u) \<and> length (pu_fingerprints u) \<le> MAX_URI_FINGERPRINTS \<and>
    list_all well_formed_fp (pu_fingerprints u)"
proof -
  from assms obtain fps where fps: "pu_fingerprints u = fps" "CHR ''@'' \<in> set (pu_jid u)"
    "finish_loop (split_on sep (case query of Some q \<Rightarrow> q | None \<Rightarrow> [])) [] [] = Return fps"
    by (auto simp: finish_def run_bind_def Let_def split: run.split_asm if_split_asm)
  from finish_loop_shape[OF fps(3)] fps(1,2) show ?thesis
    by (simp add: MAX_URI_FINGERPRINTS_def)
qed

lemma parse_via_finish:
  assumes "parse input = Return (Some u)"
  shows "\<exists>jid_part query sep. finish jid_part query sep = Return (Some u)"
  using assms
  by (auto simp: parse_def parse_link_def run_bind_def Let_def
      split: run.split_asm if_split_asm option.split_asm prod.split_asm list.split_asm)

text \<open>An ASCII text, whatever it says, is parsed or rejected: no branch of \<open>parse\<close> panics on it.\<close>

theorem parse_ascii_never_panics:
  assumes "list_all is_ascii input"
  shows "parse input \<noteq> Panic"
proof -
  have trimmed: "list_all is_ascii (str_trim input)"
    using assms str_trim_subset ascii_sublist by metis
  have slice: "str_slice (str_trim input) 5 (length (str_trim input)) = Return (drop 5 (str_trim input))"
    if "starts_with (to_ascii_lowercase (str_trim input)) ''xmpp:''"
  proof -
    have "5 \<le> length (str_trim input)"
      using starts_with_length[OF that] by simp
    then show ?thesis using is_boundary_ascii[OF trimmed] by (simp add: str_slice_def)
  qed
  have rest: "list_all is_ascii (drop 5 (str_trim input))"
    using trimmed by (auto simp: list_all_iff dest: in_set_dropD)
  have "list_all is_ascii a \<and> list_all is_ascii b"
    if "split_once CHR ''?'' (drop 5 (str_trim input)) = Some (a, b)" for a b
    using split_once_SomeD[OF that] rest by simp
  then have xmpp: "(case split_once CHR ''?'' (drop 5 (str_trim input)) of
      Some (jid, query) \<Rightarrow> finish jid (Some query) CHR '';''
    | None \<Rightarrow> finish (drop 5 (str_trim input)) None CHR '';'') \<noteq> Panic"
    using rest by (auto simp: finish_ascii split: option.splits)
  show ?thesis
    using slice xmpp parse_link_ascii[OF trimmed] by (simp add: parse_def Let_def)
qed

theorem parse_ascii_never_panics_witness:
  "parse ''xmpp:a@b.c?omemo-sid-%zz=1'' \<noteq> Panic"
  by (rule parse_ascii_never_panics) (simp add: is_ascii_def byte_of_def)

text \<open>
  The parser does more than reject some scanned codes: a percent sign whose next two bytes end
  inside a multi-byte character makes \<open>percent_decode\<close> slice off a character boundary, and
  \<open>parse\<close> panics on valid UTF-8 input.  (\<open>xmpp:%a\<close> followed by the two bytes of e-acute.)
\<close>

theorem parse_panics_inside_character:
  "utf8_valid (''xmpp:%a'' @ [CHR 0xC3, CHR 0xA9] @ ''@b.c'')
   \<and> parse (''xmpp:%a'' @ [CHR 0xC3, CHR 0xA9] @ ''@b.c'') = Panic"
  by code_simp

text \<open>
  Whatever was scanned, an accepted URI names an address with an \<open>@\<close> and at most 64 keys, each a
  non-negative device id and 64 lower-case hex digits: one code cannot ask for more rows than that.
\<close>

theorem parse_result_well_formed:
  assumes "parse input = Return (Some u)"
  shows "CHR ''@'' \<in> set (pu_jid u) \<and> length (pu_fingerprints u) \<le> 64 \<and>
    list_all well_formed_fp (pu_fingerprints u)"
  using parse_via_finish[OF assms] finish_shape by (auto simp: MAX_URI_FINGERPRINTS_def)

theorem parse_result_well_formed_witness:
  "\<exists>u. parse ''https://h/i/a/b.c?omemo-sid-7=x'' = Return (Some u) \<and> CHR ''@'' \<in> set (pu_jid u)"
proof -
  have "parse ''https://h/i/a/b.c?omemo-sid-7=x''
      = Return (Some \<lparr>pu_jid = ''a@b.c'', pu_fingerprints = []\<rparr>)"
    by code_simp
  from parse_result_well_formed[OF this] this show ?thesis by blast
qed

subsection \<open>Rendering and parsing are inverse\<close>

text \<open>In valid UTF-8 a continuation byte never follows an ASCII byte, nor starts the string.\<close>

fun no_stray_cont :: "string \<Rightarrow> bool" where
  "no_stray_cont (a # b # s) = ((is_ascii a \<longrightarrow> \<not> is_cont b) \<and> no_stray_cont (b # s))"
| "no_stray_cont _ = True"

lemma no_stray_cont_append:
  "no_stray_cont u \<Longrightarrow> no_stray_cont v \<Longrightarrow> (v = [] \<or> \<not> is_cont (hd v)) \<Longrightarrow> no_stray_cont (u @ v)"
  by (induction u rule: no_stray_cont.induct) (auto, (cases v; simp)+)

lemma no_stray_cont_high: "list_all (\<lambda>c. \<not> is_ascii c) s \<Longrightarrow> no_stray_cont s"
  by (induction s rule: no_stray_cont.induct) auto

lemma cont_not_ascii: "is_cont c \<Longrightarrow> \<not> is_ascii c"
  by (simp add: is_cont_def is_ascii_def)

lemma utf8_step_no_stray:
  assumes "fst (utf8_step s)" and "s \<noteq> []"
  shows "no_stray_cont (take (snd (utf8_step s)) s)"
proof (cases s)
  case (Cons c r)
  show ?thesis
  proof (cases "is_ascii c")
    case True
    with Cons show ?thesis by (simp add: utf8_step_ascii)
  next
    case False
    have second: "utf8_second b0 b1 \<Longrightarrow> \<not> b1 < 128" for b0 b1
      by (auto simp: utf8_second_def in_range_def)
    have "i < length s \<and> \<not> is_ascii (s ! i)" if "i < snd (utf8_step s)" for i
    proof -
      have few: "i < 2 \<longleftrightarrow> i = 0 \<or> i = 1" "i < 3 \<longleftrightarrow> i = 0 \<or> i = 1 \<or> i = 2"
        "i < 4 \<longleftrightarrow> i = 0 \<or> i = 1 \<or> i = 2 \<or> i = 3" by auto
      show ?thesis
        using that assms(1) False unfolding Cons
        by (cases r)
           (auto simp: utf8_step_def Let_def nth_cont_def is_cont_def is_ascii_def few
             dest: second split: if_split_asm)
    qed
    then have "list_all (\<lambda>c. \<not> is_ascii c) (take (snd (utf8_step s)) s)"
      by (simp add: list_all_length)
    then show ?thesis by (rule no_stray_cont_high)
  qed
qed (use assms in simp)

lemma utf8_valid_no_stray: "utf8_valid s \<Longrightarrow> no_stray_cont s"
proof (induction s rule: utf8_valid.induct)
  case (1 s)
  show ?case
  proof (cases "s = []")
    case False
    let ?n = "snd (utf8_step s)"
    from "1.prems" False have ok: "fst (utf8_step s)" and rest: "utf8_valid (drop ?n s)"
      by (simp_all add: utf8_valid.simps[of s])
    have "no_stray_cont (take ?n s @ drop ?n s)"
      using utf8_step_no_stray[OF ok False] "1.IH" False rest utf8_valid_hd[OF rest]
      by (intro no_stray_cont_append) auto
    then show ?thesis by simp
  qed simp
qed

lemma encode_char_cases:
  obtains (plain) "encode_char c = [c]" "c \<noteq> CHR ''%''"
  | (escaped) h l where "encode_char c = [CHR ''%'', h, l]" "is_ascii c" "is_ascii h" "is_ascii l"
      "u8_from_hex [h, l] = Some (word_of_nat (byte_of c))"
proof (cases "c \<in> {CHR ''?'', CHR '';'', CHR ''#'', CHR ''%'', CHR '' ''}")
  case True
  let ?e = "encode_char c"
  have "?e = [CHR ''%'', ?e ! 1, ?e ! 2] \<and> is_ascii c \<and> is_ascii (?e ! 1) \<and> is_ascii (?e ! 2) \<and>
      u8_from_hex [?e ! 1, ?e ! 2] = Some (word_of_nat (byte_of c))"
    using True
    by (auto simp: encode_char_def is_ascii_def byte_of_def u8_from_hex_def hex_digit_val_def in_range_def Let_def)
  then show thesis using escaped by blast
next
  case False
  then show thesis by (intro plain) (auto simp: encode_char_def)
qed

lemma hd_encode_jid:
  "s \<noteq> [] \<Longrightarrow> \<not> is_cont (hd s) \<Longrightarrow> \<not> is_cont (hd (encode_jid s))"
  by (cases s) (auto simp: encode_jid_def encode_char_def is_cont_def byte_of_def)

lemma char_of_unat_byte [simp]: "char_of (unat (word_of_nat (byte_of c) :: u8)) = c"
proof -
  have "unat (word_of_nat (byte_of c) :: u8) = byte_of c"
    using byte_of_bound[of c] by (simp add: unsigned_of_nat take_bit_nat_eq_self)
  then show ?thesis by (simp add: byte_of_def)
qed

lemma no_stray_cont_tl: "no_stray_cont (c # s) \<Longrightarrow> no_stray_cont s"
  by (cases s) auto

lemma percent_decode_encode:
  "no_stray_cont s \<Longrightarrow> percent_decode_loop (encode_jid s) = Return s"
proof (induction s)
  case (Cons c s)
  then have IH: "percent_decode_loop (encode_jid s) = Return s"
    using no_stray_cont_tl by blast
  show ?case
  proof (cases c rule: encode_char_cases)
    case plain
    with IH show ?thesis by (simp add: encode_jid_def)
  next
    case (escaped h l)
    have next_ok: "s = [] \<or> \<not> is_cont (hd (encode_jid s))"
      using Cons.prems escaped(2) hd_encode_jid[of s] by (cases s) auto
    have slice: "str_slice (CHR ''%'' # h # l # encode_jid s) 1 3 = Return [h, l]"
      using escaped(3) next_ok
      by (cases "encode_jid s")
         (auto simp: str_slice_def is_boundary_def ascii_not_cont numeral_3_eq_3 encode_jid_def
           encode_char_def split: if_splits)
    have "encode_jid (c # s) = CHR ''%'' # h # l # encode_jid s"
      using escaped(1) by (simp add: encode_jid_def)
    with slice escaped(5) IH show ?thesis by (simp add: numeral_2_eq_2)
  qed
qed (simp add: encode_jid_def)

lemma percent_decode_encode_jid: "utf8_valid jid \<Longrightarrow> percent_decode (encode_jid jid) = Return jid"
  by (simp add: percent_decode_def percent_decode_encode utf8_valid_no_stray utf8_lossy_valid)

lemma percent_decode_plain:
  "CHR ''%'' \<notin> set s \<Longrightarrow> utf8_valid s \<Longrightarrow> percent_decode s = Return s"
proof -
  have "CHR ''%'' \<notin> set s \<Longrightarrow> percent_decode_loop s = Return s" for s
    by (induction s) auto
  then show "CHR ''%'' \<notin> set s \<Longrightarrow> utf8_valid s \<Longrightarrow> percent_decode s = Return s"
    by (simp add: percent_decode_def utf8_lossy_valid)
qed


lemma str_chars_snoc: "is_ascii c \<Longrightarrow> str_chars (s @ [c]) = str_chars s @ [[c]]"
proof (induction s rule: str_chars.induct)
  case (2 x s)
  show ?case
  proof (cases "\<forall>y\<in>set s. is_cont y")
    case True
    then have parts: "takeWhile is_cont s = s" "dropWhile is_cont s = []"
      "takeWhile is_cont (s @ [c]) = s" "dropWhile is_cont (s @ [c]) = [c]"
      using 2(2) by (auto simp: dropWhile_append ascii_not_cont)
    show ?thesis by (simp only: append_Cons str_chars.simps parts) simp
  next
    case False
    with 2 show ?thesis by (auto simp: takeWhile_append dropWhile_append takeWhile_append1)
  qed
qed simp

definition param_of :: "uri_fingerprint \<Rightarrow> string" where
  "param_of fp = param_key fp @ ''='' @ fp_hex fp"

lemma verification_uri_join:
  assumes "fps \<noteq> []"
  shows "verification_uri jid fps
    = ''xmpp:'' @ encode_jid jid @ ''?'' @ join_with '';'' (map param_of fps)"
proof -
  have tail: "concat (map (\<lambda>(i, fp). (if i = 0 then ''?'' else '';'') @ param_key fp @ CHR ''='' # fp_hex fp)
      (enumerate (Suc n) xs)) = concat (map (\<lambda>fp. '';'' @ param_of fp) xs)" for n xs
    by (induction xs arbitrary: n) (simp_all add: param_of_def)
  have "x @ concat (map (\<lambda>fp. '';'' @ param_of fp) xs) = join_with '';'' (x # map param_of xs)" for x xs
  proof (induction xs arbitrary: x)
    case (Cons a xs)
    from Cons[of "param_of a"] show ?case by simp
  qed simp
  note join = this[symmetric]
  obtain x xs where "fps = x # xs" using assms by (cases fps) auto
  then show ?thesis
    by (simp add: verification_uri_def tail join[simplified] del: join_with.simps) (simp add: param_of_def)
qed

lemma show_int_chars:
  "0 \<le> i \<Longrightarrow> c \<in> set (show_int i) \<Longrightarrow> in_range 48 57 (byte_of c)"
  by (auto simp: show_int_def dest: show_nat_digits)

lemma show_int_inj: "0 \<le> i \<Longrightarrow> 0 \<le> j \<Longrightarrow> show_int i = show_int j \<Longrightarrow> i = j"
  by (auto simp: show_int_def dest: arg_cong[where f = "digits_val 0"])

definition key_char :: "char \<Rightarrow> bool" where
  "key_char c \<longleftrightarrow> in_range 97 122 (byte_of c) \<or> in_range 48 57 (byte_of c) \<or> c = CHR ''-''"

lemma key_char_facts:
  assumes "key_char c"
  shows "is_ascii c" "ascii_lower c = c" "c \<noteq> CHR ''%''" "c \<noteq> CHR '';''" "c \<noteq> CHR ''=''"
  using assms by (auto simp: key_char_def is_ascii_def ascii_lower_def in_range_def byte_of_def)

lemma param_key_chars:
  assumes "well_formed_fp fp"
  shows "list_all key_char (param_key fp)"
proof -
  have "list_all key_char (show_int (fp_device_id fp))"
    using assms show_int_chars by (auto simp: list_all_iff key_char_def well_formed_fp_def)
  then show ?thesis
    by (simp add: param_key_def kind_param_def OMEMO_PARAM_def OMEMO_PQ_PARAM_def key_char_def
        in_range_def byte_of_def split: fingerprint_kind.split)
qed

lemma param_key_inj:
  assumes "well_formed_fp a" "well_formed_fp b" "param_key a = param_key b"
  shows "fp_kind a = fp_kind b \<and> fp_device_id a = fp_device_id b"
  using assms
  by (cases "fp_kind a"; cases "fp_kind b")
     (auto simp: param_key_def kind_param_def OMEMO_PARAM_def OMEMO_PQ_PARAM_def well_formed_fp_def
       intro: show_int_inj)

lemma classify_param_key:
  "classify_key (param_key fp) = Some (fp_kind fp, show_int (fp_device_id fp))"
  by (cases "fp_kind fp")
     (auto simp: classify_key_def param_key_def kind_param_def OMEMO_PARAM_def OMEMO_PQ_PARAM_def
       strip_prefix_def)

lemma lower_hex_facts:
  assumes "lower_hex c"
  shows "is_ascii c" "c \<noteq> CHR ''%''" "c \<noteq> CHR '';''" "\<not> is_whitespace [c]"
  using assms
  by (auto simp: lower_hex_def is_ascii_def in_range_def byte_of_def is_whitespace_def bytes_of_str_def)

lemma normalize_own_hex:
  assumes "well_formed_fp fp"
  shows "normalize_fingerprint (fp_hex fp) = Some (fp_hex fp)"
proof -
  have h: "\<And>c. c \<in> set (fp_hex fp) \<Longrightarrow> lower_hex c" and len: "length (fp_hex fp) = 64"
    using assms by (auto simp: well_formed_fp_def list_all_iff)
  have ascii: "list_all is_ascii (fp_hex fp)"
    using h lower_hex_facts(1) by (auto simp: list_all_iff)
  have "concat (map (map ascii_lower) (filter (\<lambda>ch. \<not> is_whitespace ch) (map (\<lambda>c. [c]) xs))) = xs"
    if "\<forall>c\<in>set xs. lower_hex c" for xs
    using that by (induction xs) (auto simp: lower_hex_facts(4) lower_hex_lower)
  then show ?thesis
    using h len lower_hex_hexdigit
    by (simp add: normalize_fingerprint_def str_chars_ascii[OF ascii] list_all_iff)
qed

lemma finish_step_param:
  assumes wf: "well_formed_fp fp" and new: "param_key fp \<notin> set seen"
  shows "finish_step seen (param_of fp) = Return (seen @ [param_key fp], Some fp)"
proof -
  have kc: "\<And>c. c \<in> set (param_key fp) \<Longrightarrow> key_char c"
    using param_key_chars[OF wf] by (simp add: list_all_iff)
  have eq: "CHR ''='' \<notin> set (param_key fp)" and pc: "CHR ''%'' \<notin> set (param_key fp)"
    using kc key_char_facts by blast+
  have kv: "utf8_valid (param_key fp)"
    using kc key_char_facts(1) by (intro all_ascii_valid) (auto simp: list_all_iff)
  have low: "to_ascii_lowercase (param_key fp) = param_key fp"
    using kc key_char_facts(2) by (simp add: to_ascii_lowercase_def map_idI)
  have hx: "\<And>c. c \<in> set (fp_hex fp) \<Longrightarrow> lower_hex c"
    using wf by (auto simp: well_formed_fp_def list_all_iff)
  have hv: "utf8_valid (fp_hex fp)" and hp: "CHR ''%'' \<notin> set (fp_hex fp)"
    using hx lower_hex_facts by (auto intro!: all_ascii_valid simp: list_all_iff)
  have range: "0 \<le> fp_device_id fp" "fp_device_id fp < 2 ^ 63"
    using wf by (auto simp: well_formed_fp_def)
  show ?thesis
    using new range
    by (simp add: finish_step_def param_of_def split_once_append[OF eq] percent_decode_plain[OF pc kv]
        low classify_param_key percent_decode_plain[OF hp hv] normalize_own_hex[OF wf])
qed

lemma finish_loop_params:
  "fps \<noteq> [] \<Longrightarrow> list_all well_formed_fp fps \<Longrightarrow> distinct (map param_key (acc @ fps)) \<Longrightarrow>
   length (acc @ fps) \<le> MAX_URI_FINGERPRINTS \<Longrightarrow>
   finish_loop (map param_of fps) (map param_key acc) acc = Return (acc @ fps)"
proof (induction fps arbitrary: acc)
  case (Cons fp fps)
  then have step: "finish_step (map param_key acc) (param_of fp)
      = Return (map param_key acc @ [param_key fp], Some fp)"
    by (intro finish_step_param) auto
  show ?case
  proof (cases "fps = []")
    case True
    with step show ?thesis by simp
  next
    case False
    with Cons.prems have "length (acc @ [fp]) < MAX_URI_FINGERPRINTS"
      by (cases fps) auto
    with step False Cons.prems Cons.IH[of "acc @ [fp]"] show ?thesis by simp
  qed
qed simp


lemma str_trim_uri:
  assumes "is_ascii a" "\<not> is_whitespace [a]" "is_ascii b" "\<not> is_whitespace [b]"
    and "s = [] \<or> \<not> is_cont (hd s)"
  shows "str_trim (a # s @ [b]) = a # s @ [b]"
proof (rule str_trim_id)
  have "takeWhile is_cont (s @ [b]) = []"
    using assms(3,5) by (cases s) (auto simp: ascii_not_cont)
  then show "\<not> is_whitespace (hd (str_chars (a # s @ [b])))" using assms(2) by simp
  show "\<not> is_whitespace (last (str_chars (a # s @ [b])))"
    using assms(3,4) str_chars_snoc[of b "a # s"] by simp
qed simp

lemma encode_jid_query_free: "CHR ''?'' \<notin> set (encode_jid jid)"
  by (auto simp: encode_jid_def encode_char_def split: if_splits)

lemma param_of_last:
  assumes "well_formed_fp fp"
  shows "\<exists>s b. param_of fp = s @ [b] \<and> lower_hex b"
proof -
  have "fp_hex fp \<noteq> []" and h: "list_all lower_hex (fp_hex fp)"
    using assms by (auto simp: well_formed_fp_def)
  then have "fp_hex fp = butlast (fp_hex fp) @ [last (fp_hex fp)]" by simp
  moreover have "lower_hex (last (fp_hex fp))"
    using h \<open>fp_hex fp \<noteq> []\<close> by (simp add: list_all_iff)
  ultimately show ?thesis
    unfolding param_of_def by (metis append.assoc)
qed

lemma join_params_last:
  "fps \<noteq> [] \<Longrightarrow> list_all well_formed_fp fps \<Longrightarrow>
   \<exists>s b. join_with '';'' (map param_of fps) = s @ [b] \<and> lower_hex b"
proof (induction fps)
  case (Cons fp fps)
  show ?case
  proof (cases fps)
    case Nil
    with Cons.prems show ?thesis using param_of_last by simp
  next
    case (Cons fp' rest)
    with Cons.IH Cons.prems obtain s b
      where "join_with '';'' (map param_of fps) = s @ [b]" "lower_hex b" by auto
    with Cons have "join_with '';'' (map param_of (fp # fps)) = (param_of fp @ '';'' @ s) @ [b]"
      by simp
    with \<open>lower_hex b\<close> show ?thesis by blast
  qed
qed simp

lemma distinct_param_keys:
  assumes "list_all well_formed_fp fps" "distinct (map (\<lambda>fp. (fp_kind fp, fp_device_id fp)) fps)"
  shows "distinct (map param_key fps)"
  using assms
proof (induction fps)
  case (Cons fp fps)
  then have "param_key fp \<noteq> param_key x" if "x \<in> set fps" for x
    using that param_key_inj[of fp x] by (fastforce simp: list_all_iff)
  with Cons show ?case by auto
qed simp

text \<open>
  A rendered verification URI parses back to exactly the address and the keys it was made from:
  for an address that is valid UTF-8, is its own trimming and holds an \<open>@\<close>, and for one to 64
  well-formed keys naming each (kind, device) once.
\<close>

lemma parse_verification_uri:
  assumes jid: "utf8_valid jid" "str_trim jid = jid" "CHR ''@'' \<in> set jid"
    and fps: "fps \<noteq> []" "length fps \<le> 64" "list_all well_formed_fp fps"
      "distinct (map (\<lambda>fp. (fp_kind fp, fp_device_id fp)) fps)"
  shows "parse (verification_uri jid fps)
    = Return (Some \<lparr>pu_jid = jid, pu_fingerprints = fps\<rparr>)"
proof -
  define E where "E = encode_jid jid"
  define P where "P = join_with '';'' (map param_of fps)"
  define U where "U = ''xmpp:'' @ E @ ''?'' @ P"
  have uri: "verification_uri jid fps = U"
    using fps(1) by (simp add: verification_uri_join U_def E_def P_def)
  obtain s b where last: "P = s @ [b]" "lower_hex b"
    using join_params_last[OF fps(1,3)] P_def by blast
  have x_plain: "is_ascii (CHR ''x'')" "\<not> is_whitespace ''x''"
    by (simp_all add: is_ascii_def is_whitespace_def bytes_of_str_def byte_of_def in_range_def)
  have "U = CHR ''x'' # (''mpp:'' @ E @ ''?'' @ s) @ [b]" using last by (simp add: U_def)
  moreover have "str_trim (CHR ''x'' # (''mpp:'' @ E @ ''?'' @ s) @ [b]) = CHR ''x'' # (''mpp:'' @ E @ ''?'' @ s) @ [b]"
    by (rule str_trim_uri)
       (auto simp: lower_hex_facts[OF last(2)] x_plain is_cont_def byte_of_def)
  ultimately have trim: "str_trim U = U" by simp
  have "jid \<noteq> []" using jid(3) by auto
  then have "E \<noteq> [] \<and> \<not> is_cont (hd E)"
    using utf8_valid_hd[OF jid(1)] hd_encode_jid[of jid]
    by (cases jid) (simp_all add: E_def encode_jid_def encode_char_def)
  then have "is_boundary U 5" by (cases E) (simp_all add: U_def is_boundary_def)
  then have slice: "str_slice U 5 (length U) = Return (E @ CHR ''?'' # P)"
    by (simp add: str_slice_def is_boundary_def) (simp add: U_def)
  have xmpp: "starts_with (to_ascii_lowercase U) ''xmpp:''"
    by (simp add: U_def to_ascii_lowercase_def ascii_lower_def in_range_def byte_of_def)
  have semi: "CHR '';'' \<notin> set (param_of fp)" if "fp \<in> set fps" for fp
    using that fps(3) param_key_chars key_char_facts(4) lower_hex_facts(3)
    by (fastforce simp: param_of_def list_all_iff well_formed_fp_def)
  then have split: "split_on CHR '';'' P = map param_of fps"
    unfolding P_def using fps(1) by (intro split_on_join) auto
  have "finish_loop (map param_of fps) [] [] = Return fps"
    using finish_loop_params[of fps "[]"] fps distinct_param_keys by (simp add: MAX_URI_FINGERPRINTS_def)
  then have "finish E (Some P) CHR '';'' = Return (Some \<lparr>pu_jid = jid, pu_fingerprints = fps\<rparr>)"
    using jid \<open>jid \<noteq> []\<close> by (simp add: finish_def E_def percent_decode_encode_jid split)
  with slice xmpp trim show ?thesis
    by (simp add: uri parse_def split_once_append[OF encode_jid_query_free] E_def)
qed

end
