(* ===== verification/Bytes.thy ===== *)
theory Bytes
  imports Rust_Str
begin

text \<open>
  Byte sequences: \<open>to_be_bytes\<close>, \<open>chunks\<close>, and the interface \<open>codec\<close> of an encoding that can be
  read back, from which injectivity follows wherever the development has a round trip.
\<close>

subsection \<open>Big-endian integers\<close>

fun be_nat :: "nat \<Rightarrow> nat \<Rightarrow> bytes" where
  "be_nat 0 v = []"
| "be_nat (Suc n) v = be_nat n (v div 256) @ [word_of_nat v]"

definition of_be :: "bytes \<Rightarrow> nat" where
  "of_be bs = foldl (\<lambda>acc b. 256 * acc + unat b) 0 bs"

definition be32 :: "u32 \<Rightarrow> bytes" where
  "be32 w = be_nat 4 (unat w)"

definition be64 :: "u64 \<Rightarrow> bytes" where
  "be64 w = be_nat 8 (unat w)"

lemma length_be_nat [simp]: "length (be_nat n v) = n"
  by (induction n arbitrary: v) simp_all

lemma length_be32 [simp]: "length (be32 w) = 4"
  by (simp add: be32_def)

lemma length_be64 [simp]: "length (be64 w) = 8"
  by (simp add: be64_def)

lemma of_be_snoc: "of_be (bs @ [b]) = 256 * of_be bs + unat b"
  by (simp add: of_be_def)

lemma unat_word_of_nat_u8: "unat (word_of_nat v :: u8) = v mod 256"
  by (simp add: unsigned_of_nat take_bit_eq_mod)

lemma of_be_be_nat: "of_be (be_nat n v) = v mod 256 ^ n"
proof (induction n arbitrary: v)
  case 0
  then show ?case by (simp add: of_be_def)
next
  case (Suc n)
  have "256 * (v div 256 mod 256 ^ n) + v mod 256 = v mod (256 * 256 ^ n)"
    by (simp add: mod_mult2_eq)
  then show ?case by (simp add: of_be_snoc Suc.IH unat_word_of_nat_u8)
qed

lemma be_nat_inj: "be_nat n v = be_nat n u \<Longrightarrow> v < 256 ^ n \<Longrightarrow> u < 256 ^ n \<Longrightarrow> v = u"
  by (metis of_be_be_nat mod_less)

lemma unat_u32_bound: "unat (w :: u32) < 2 ^ 32"
  using unsigned_less[of w] by simp

lemma unat_u64_bound: "unat (w :: u64) < 2 ^ 64"
  using unsigned_less[of w] by simp

lemma be32_inj [simp]: "be32 a = be32 b \<longleftrightarrow> a = b"
proof
  assume "be32 a = be32 b"
  then have "unat a = unat b"
    unfolding be32_def by (rule be_nat_inj) (use unat_u32_bound[of a] unat_u32_bound[of b] in auto)
  then show "a = b" by (simp add: word_unat_eq_iff)
qed simp

lemma be64_inj [simp]: "be64 a = be64 b \<longleftrightarrow> a = b"
proof
  assume "be64 a = be64 b"
  then have "unat a = unat b"
    unfolding be64_def by (rule be_nat_inj) (use unat_u64_bound[of a] unat_u64_bound[of b] in auto)
  then show "a = b" by (simp add: word_unat_eq_iff)
qed simp

text \<open>\<open>len() as u32\<close>\<close>

definition len_u32 :: "'a list \<Rightarrow> u32" where
  "len_u32 xs = word_of_nat (length xs)"

lemma unat_len_u32: "length xs < 2 ^ 32 \<Longrightarrow> unat (len_u32 xs) = length xs"
  by (simp add: len_u32_def unsigned_of_nat take_bit_nat_eq_self)

lemma len_u32_inj:
  "length a < 2 ^ 32 \<Longrightarrow> length b < 2 ^ 32 \<Longrightarrow> len_u32 a = len_u32 b \<Longrightarrow> length a = length b"
  using unat_len_u32[of a] unat_len_u32[of b] by simp

text \<open>\<open>str::as_bytes\<close>, byte literals\<close>

definition str_bytes :: "string \<Rightarrow> bytes" where
  "str_bytes s = map (\<lambda>c. word_of_nat (byte_of c)) s"

lemma str_bytes_append [simp]: "str_bytes (a @ b) = str_bytes a @ str_bytes b"
  by (simp add: str_bytes_def)

lemma length_str_bytes [simp]: "length (str_bytes s) = length s"
  by (simp add: str_bytes_def)

lemma byte_word_inj: "(word_of_nat (byte_of c) :: u8) = word_of_nat (byte_of d) \<longleftrightarrow> c = d"
proof
  assume "(word_of_nat (byte_of c) :: u8) = word_of_nat (byte_of d)"
  then have "byte_of c mod 256 = byte_of d mod 256" by (metis unat_word_of_nat_u8)
  then have "byte_of c = byte_of d" using byte_of_bound[of c] byte_of_bound[of d] by simp
  then show "c = d" by (simp add: byte_of_def)
qed simp

lemma str_bytes_inj [simp]: "str_bytes a = str_bytes b \<longleftrightarrow> a = b"
proof -
  have "inj (\<lambda>c. word_of_nat (byte_of c) :: u8)" by (rule injI) (simp add: byte_word_inj)
  then show ?thesis by (auto simp: str_bytes_def inj_map_eq_map)
qed

lemma zero_in_str_bytes: "0 \<in> set (str_bytes s) \<longleftrightarrow> CHR 0x00 \<in> set s"
proof -
  have zero: "(0 :: u8) = word_of_nat (byte_of (CHR 0x00))" by (simp add: byte_of_def)
  have "(0 :: u8) = word_of_nat (byte_of c) \<longleftrightarrow> CHR 0x00 = c" for c
    unfolding zero by (rule byte_word_inj)
  then show ?thesis by (simp only: str_bytes_def set_map image_iff) simp
qed

subsection \<open>Chunks\<close>

function chunks :: "nat \<Rightarrow> 'a list \<Rightarrow> 'a list list" where
  "chunks n xs = (if xs = [] \<or> n = 0 then [] else take n xs # chunks n (drop n xs))"
  by pat_completeness auto
termination
  by (relation "measure (\<lambda>(n, xs). length xs)") auto

declare chunks.simps [simp del]

lemma concat_chunks: "n \<noteq> 0 \<Longrightarrow> concat (chunks n xs) = xs"
proof (induction n xs rule: chunks.induct)
  case (1 n xs)
  then show ?case by (subst chunks.simps) auto
qed

lemma chunks_sub: "c \<in> set (chunks n xs) \<Longrightarrow> set c \<subseteq> set xs"
proof (induction n xs rule: chunks.induct)
  case (1 n xs)
  show ?case
  proof (cases "xs = [] \<or> n = 0")
    case True
    with "1.prems" show ?thesis by (subst (asm) chunks.simps) simp
  next
    case False
    with "1.prems" have "c = take n xs \<or> c \<in> set (chunks n (drop n xs))"
      by (subst (asm) chunks.simps) simp
    with "1.IH" False show ?thesis by (auto dest: in_set_takeD in_set_dropD)
  qed
qed

lemma filter_join: "(\<And>x. x \<in> set xs \<Longrightarrow> c \<notin> set x) \<Longrightarrow> filter (\<lambda>d. d \<noteq> c) (join_with [c] xs) = concat xs"
  by (induction "[c]" xs rule: join_with.induct) (auto simp: filter_id_conv)

subsection \<open>Encodings that can be read back\<close>

locale codec =
  fixes enc :: "'a \<Rightarrow> 'b" and dec :: "'b \<Rightarrow> 'a option" and valid :: "'a \<Rightarrow> bool"
  assumes dec_enc: "valid x \<Longrightarrow> dec (enc x) = Some x"
begin

lemma enc_inj: "valid x \<Longrightarrow> valid y \<Longrightarrow> enc x = enc y \<Longrightarrow> x = y"
  by (metis dec_enc option.inject)

lemma enc_inj_on: "inj_on enc (Collect valid)"
  by (auto intro!: inj_onI enc_inj)

lemma enc_list_inj:
  "list_all valid xs \<Longrightarrow> list_all valid ys \<Longrightarrow> map enc xs = map enc ys \<Longrightarrow> xs = ys"
proof (induction xs arbitrary: ys)
  case (Cons x xs)
  then show ?case by (cases ys) (auto intro: enc_inj)
qed simp

lemma dec_all: "list_all valid xs \<Longrightarrow> those (map (dec \<circ> enc) xs) = Some xs"
  by (induction xs) (auto simp: dec_enc)

end

text \<open>The decimal text of a machine integer and the big-endian bytes of one are such encodings.\<close>

interpretation decimal: codec show_int parse_i64 "\<lambda>i. 0 \<le> i \<and> i < 2 ^ 63"
  by unfold_locales simp

interpretation big_endian: codec "be_nat n" "\<lambda>bs. Some (of_be bs)" "\<lambda>v. v < 256 ^ n" for n
  by unfold_locales (simp add: of_be_be_nat)

end
