(* ===== verification/Fingerprint.thy ===== *)
theory Fingerprint
  imports Bytes
begin

text \<open>
  \<open>crates/mxc-omemo/src/lib.rs\<close>: the strings two users compare to verify a device.  SHA3-512 is
  library code and is the parameter \<open>sha3_512\<close>.
\<close>

definition ML_DSA_87_PUBKEY_LEN :: nat where "ML_DSA_87_PUBKEY_LEN = 2592"
definition ML_KEM_1024_PUBKEY_LEN :: nat where "ML_KEM_1024_PUBKEY_LEN = 1568"

definition HYBRID_FP_LABEL :: bytes where
  "HYBRID_FP_LABEL = str_bytes ''monocles:omemo2:ik:v2''"

text \<open>What \<open>hybrid_fingerprint\<close> feeds to the hash, in the order of the \<open>update\<close> calls.\<close>

definition hybrid_preimage :: "bytes \<Rightarrow> bytes \<Rightarrow> bytes" where
  "hybrid_preimage identity_key pq_identity_key =
     HYBRID_FP_LABEL @ be32 (len_u32 identity_key) @ identity_key
       @ be32 (len_u32 pq_identity_key) @ pq_identity_key"

definition hybrid_fingerprint :: "(bytes \<Rightarrow> bytes) \<Rightarrow> bytes \<Rightarrow> bytes \<Rightarrow> string" where
  "hybrid_fingerprint sha3_512 identity_key pq_identity_key =
     hex_encode (sha3_512 (hybrid_preimage identity_key pq_identity_key))"

text \<open>\<open>hex.as_bytes().chunks(8)...join(" ")\<close>\<close>

definition group_by_8 :: "string \<Rightarrow> string" where
  "group_by_8 hex = join_with '' '' (chunks 8 hex)"

definition hybrid_fingerprint_display :: "(bytes \<Rightarrow> bytes) \<Rightarrow> bytes \<Rightarrow> bytes \<Rightarrow> string" where
  "hybrid_fingerprint_display sha3_512 identity_key pq_identity_key =
     group_by_8 (hybrid_fingerprint sha3_512 identity_key pq_identity_key)"

definition pq_pin_key :: "bytes \<Rightarrow> string" where
  "pq_pin_key identity_key_serialized = hex_encode identity_key_serialized"

definition fingerprint_key :: "bytes \<Rightarrow> bytes" where
  "fingerprint_key bs = (if length bs = 33 \<and> hd bs = 0x05 then tl bs else bs)"

definition fingerprint :: "bytes \<Rightarrow> string" where
  "fingerprint identity_key_bytes = group_by_8 (hex_encode (fingerprint_key identity_key_bytes))"

subsection \<open>Grouping loses nothing\<close>

lemma lower_hex_no_space: "list_all lower_hex h \<Longrightarrow> CHR '' '' \<notin> set h"
  by (auto simp: list_all_iff lower_hex_def byte_of_def in_range_def)

lemma ungroup:
  assumes "CHR '' '' \<notin> set h"
  shows "filter (\<lambda>c. c \<noteq> CHR '' '') (group_by_8 h) = h"
proof -
  have "CHR '' '' \<notin> set c" if "c \<in> set (chunks 8 h)" for c
    using that assms chunks_sub by blast
  then show ?thesis by (simp add: group_by_8_def filter_join concat_chunks)
qed

interpretation grouped: codec "\<lambda>bs. group_by_8 (hex_encode bs)"
  "\<lambda>s. if \<exists>bs. hex_encode bs = filter (\<lambda>c. c \<noteq> CHR '' '') s
       then Some (inv hex_encode (filter (\<lambda>c. c \<noteq> CHR '' '') s)) else None" "\<lambda>_. True"
proof unfold_locales
  have inj: "inj hex_encode" by (auto intro: injI hex_encode_inj)
  fix bs :: bytes
  have "filter (\<lambda>c. c \<noteq> CHR '' '') (group_by_8 (hex_encode bs)) = hex_encode bs"
    by (rule ungroup) (rule lower_hex_no_space, rule hex_encode_lower)
  then show "(if \<exists>bs'. hex_encode bs' = filter (\<lambda>c. c \<noteq> CHR '' '') (group_by_8 (hex_encode bs))
      then Some (inv hex_encode (filter (\<lambda>c. c \<noteq> CHR '' '') (group_by_8 (hex_encode bs)))) else None)
    = Some bs"
    using inj by auto
qed

lemma hybrid_preimage_inj:
  assumes "length a < 2 ^ 32" "length a' < 2 ^ 32"
    and "hybrid_preimage a b = hybrid_preimage a' b'"
  shows "a = a' \<and> b = b'"
proof -
  have eq: "be32 (len_u32 a) @ a @ be32 (len_u32 b) @ b
      = be32 (len_u32 a') @ a' @ be32 (len_u32 b') @ b'"
    using assms(3) by (simp add: hybrid_preimage_def)
  then have "be32 (len_u32 a) = be32 (len_u32 a')"
    and rest: "a @ be32 (len_u32 b) @ b = a' @ be32 (len_u32 b') @ b'"
    by (simp_all add: append_eq_append_conv)
  then have "length a = length a'" using len_u32_inj[OF assms(1,2)] by simp
  with rest have "a = a'" and "be32 (len_u32 b) @ b = be32 (len_u32 b') @ b'" by simp_all
  then show ?thesis by (simp add: append_eq_append_conv)
qed

text \<open>
  Two different identities (classical key, post-quantum key) with the same displayed hybrid
  fingerprint are a SHA3-512 collision on two different inputs: the string a user compares commits
  to both keys, and no way of splitting the bytes between the two keys is confused with another.
\<close>

theorem hybrid_fingerprint_commits:
  assumes "length ik < 2 ^ 32" "length ik' < 2 ^ 32" and "(ik, pq) \<noteq> (ik', pq')"
    and "hybrid_fingerprint_display sha ik pq = hybrid_fingerprint_display sha ik' pq'"
  shows "hybrid_preimage ik pq \<noteq> hybrid_preimage ik' pq' \<and>
    sha (hybrid_preimage ik pq) = sha (hybrid_preimage ik' pq')"
proof
  show "hybrid_preimage ik pq \<noteq> hybrid_preimage ik' pq'"
    using hybrid_preimage_inj[OF assms(1,2)] assms(3) by auto
  show "sha (hybrid_preimage ik pq) = sha (hybrid_preimage ik' pq')"
    using assms(4) grouped.enc_inj by (simp add: hybrid_fingerprint_display_def hybrid_fingerprint_def)
qed

theorem hybrid_fingerprint_commits_witness:
  "hybrid_preimage [5] [1] \<noteq> hybrid_preimage [5] [2]
   \<and> (\<lambda>_. [7]) (hybrid_preimage [5] [1]) = ((\<lambda>_. [7]) (hybrid_preimage [5] [2]) :: bytes)"
  by (rule hybrid_fingerprint_commits[where sha = "\<lambda>_. [7]"])
     (simp_all add: hybrid_fingerprint_display_def hybrid_fingerprint_def)

text \<open>
  The displayed classical fingerprint identifies the key: two keys shown alike are the same key up
  to libsignal's type byte.
\<close>

theorem fingerprint_identifies_key:
  "fingerprint a = fingerprint b \<longleftrightarrow> fingerprint_key a = fingerprint_key b"
  using grouped.enc_inj by (auto simp: fingerprint_def)

end
