(* ===== verification/Sql_Table.thy ===== *)
theory Sql_Table
  imports Bytes "HOL-Library.List_Lexorder" "HOL-Library.Char_ord" "HOL-Library.Option_ord"
    "HOL-Library.Product_Lexorder"
begin

text \<open>
  SQLite tables as the store uses them.  A table is the list of its rows in insertion order, each
  under its primary key; the statements the source sends are \<open>INSERT ... ON CONFLICT(key) DO
  UPDATE\<close>, \<open>UPDATE ... WHERE key\<close>, \<open>DELETE ... WHERE\<close> and the selections.  Text compares byte by
  byte (SQLite's \<open>BINARY\<close> collation), which is the lexicographic order of the byte list.
\<close>

type_synonym ('k, 'r) table = "('k \<times> 'r) list"

definition tbl_ok :: "('k, 'r) table \<Rightarrow> bool" where
  "tbl_ok t \<longleftrightarrow> distinct (map fst t)"

definition tbl_update :: "'k \<Rightarrow> ('r \<Rightarrow> 'r) \<Rightarrow> ('k, 'r) table \<Rightarrow> ('k, 'r) table" where
  "tbl_update k f t = map (\<lambda>(k', r). (k', if k' = k then f r else r)) t"

text \<open>Insert the row \<open>new\<close>, or change the row already under the key with \<open>upd\<close>.\<close>

definition tbl_upsert :: "'k \<Rightarrow> 'r \<Rightarrow> ('r \<Rightarrow> 'r) \<Rightarrow> ('k, 'r) table \<Rightarrow> ('k, 'r) table" where
  "tbl_upsert k new upd t =
     (if k \<in> set (map fst t) then tbl_update k upd t else t @ [(k, new)])"

definition tbl_delete :: "('k \<Rightarrow> bool) \<Rightarrow> ('k, 'r) table \<Rightarrow> ('k, 'r) table" where
  "tbl_delete Q t = filter (\<lambda>(k, _). \<not> Q k) t"

text \<open>The rows of one account, keyed by the rest of the primary key.\<close>

definition account_rows :: "i64 \<Rightarrow> (i64 \<times> 'k, 'r) table \<Rightarrow> ('k, 'r) table" where
  "account_rows a t = map (\<lambda>((_, k), r). (k, r)) (filter (\<lambda>((a', _), _). a' = a) t)"

text \<open>\<open>COALESCE(MAX(id), 0)\<close>\<close>

definition coalesce_max :: "i64 list \<Rightarrow> i64" where
  "coalesce_max ids = (case ids of [] \<Rightarrow> 0 | i # is \<Rightarrow> fold max is i)"

text \<open>\<open>ORDER BY f DESC LIMIT 1\<close>\<close>

definition first_desc :: "('a \<Rightarrow> 'k :: linorder) \<Rightarrow> 'a list \<Rightarrow> 'a option" where
  "first_desc f xs = (case sort_desc f xs of [] \<Rightarrow> None | x # _ \<Rightarrow> Some x)"

subsection \<open>What a statement does to a lookup\<close>

lemma map_of_tbl_update [store_simps]:
  "map_of (tbl_update k f t) k' = (if k' = k then map_option f (map_of t k) else map_of t k')"
  by (induction t) (auto simp: tbl_update_def)

lemma keys_tbl_update [simp]: "map fst (tbl_update k f t) = map fst t"
  by (auto simp: tbl_update_def)

lemma map_of_tbl_upsert [store_simps]:
  "map_of (tbl_upsert k new upd t) k' =
     (if k' = k then Some (case map_of t k of None \<Rightarrow> new | Some r \<Rightarrow> upd r) else map_of t k')"
proof (cases "k \<in> set (map fst t)")
  case True
  then obtain r where "map_of t k = Some r" by (metis map_of_eq_None_iff not_None_eq set_map)
  with True show ?thesis by (simp add: tbl_upsert_def map_of_tbl_update)
next
  case False
  then have "map_of t k = None" by (simp add: map_of_eq_None_iff)
  with False show ?thesis by (simp add: tbl_upsert_def map_add_def split: option.split)
qed

lemma map_of_tbl_delete [store_simps]:
  "map_of (tbl_delete Q t) k = (if Q k then None else map_of t k)"
  by (induction t) (auto simp: tbl_delete_def)

lemma map_of_account_rows [store_simps]: "map_of (account_rows a t) k = map_of t (a, k)"
  by (induction t) (auto simp: account_rows_def)

lemma tbl_ok_ops [intro, simp]:
  "tbl_ok []"
  "tbl_ok t \<Longrightarrow> tbl_ok (tbl_update k f t)"
  "tbl_ok t \<Longrightarrow> tbl_ok (tbl_upsert k new upd t)"
  "tbl_ok t \<Longrightarrow> tbl_ok (tbl_delete Q t)"
  by (auto simp: tbl_ok_def tbl_upsert_def tbl_delete_def split_filter_map_fst)

lemma img_snd_fst: "((a, k), r) \<in> set t \<Longrightarrow> (a, k) \<in> fst ` set t"
  by force

lemma tbl_ok_account_rows: "tbl_ok t \<Longrightarrow> tbl_ok (account_rows a t)"
  unfolding tbl_ok_def account_rows_def
  by (induction t) (auto split: if_splits dest: img_snd_fst)

lemma in_table_iff: "tbl_ok t \<Longrightarrow> (k, r) \<in> set t \<longleftrightarrow> map_of t k = Some r"
  by (auto simp: tbl_ok_def)

lemma account_rows_iff: "tbl_ok t \<Longrightarrow> (k, r) \<in> set (account_rows a t) \<longleftrightarrow> map_of t (a, k) = Some r"
  by (simp add: in_table_iff[OF tbl_ok_account_rows] map_of_account_rows)

lemma first_desc_SomeD: "first_desc f xs = Some x \<Longrightarrow> x \<in> set xs \<and> (\<forall>y\<in>set xs. f y \<le> f x)"
proof -
  assume a: "first_desc f xs = Some x"
  then obtain zs where z: "sort_desc f xs = x # zs"
    by (auto simp: first_desc_def split: list.split_asm)
  then have "x \<in> set xs" by (metis list.set_intros(1) set_sort_desc)
  moreover from this have "xs \<noteq> []" by auto
  ultimately show ?thesis using hd_sort_desc_max[of xs _ f] z by auto
qed

lemma first_desc_None [simp]: "first_desc f xs = None \<longleftrightarrow> xs = []"
proof -
  have "sort_desc f xs = [] \<longleftrightarrow> xs = []" by (metis length_0_conv length_sort_desc)
  then show ?thesis by (auto simp: first_desc_def split: list.splits)
qed

lemma coalesce_max_ge: "i \<in> set ids \<Longrightarrow> i \<le> coalesce_max ids"
proof -
  have fold_ge: "x \<le> fold max is x \<and> (\<forall>i\<in>set is. i \<le> fold max is x)" for x :: i64 and "is"
  proof (induction "is" arbitrary: x)
    case (Cons y ys)
    from Cons[of "max y x"] show ?case by auto
  qed simp
  show "i \<in> set ids \<Longrightarrow> i \<le> coalesce_max ids"
    using fold_ge by (cases ids) (auto simp: coalesce_max_def)
qed

lemma inj_on_fst_distinct: "distinct (map fst t) \<Longrightarrow> inj_on fst (set t)"
  by (simp add: distinct_map)

lemma distinct_mapI: "distinct (map fst t) \<Longrightarrow> distinct t"
  by (simp add: distinct_map)

subsection \<open>The interface of a keyed table\<close>

text \<open>
  What the store relies on in SQLite's primary keys, and what follows for its callers.
\<close>

locale keyed_table =
  fixes get :: "'t \<Rightarrow> 'k \<Rightarrow> 'r option"
    and put :: "'k \<Rightarrow> 'r \<Rightarrow> ('r \<Rightarrow> 'r) \<Rightarrow> 't \<Rightarrow> 't"
    and del :: "('k \<Rightarrow> bool) \<Rightarrow> 't \<Rightarrow> 't"
  assumes get_put: "get (put k new upd t) k' =
      (if k' = k then Some (case get t k of None \<Rightarrow> new | Some r \<Rightarrow> upd r) else get t k')"
    and get_del: "get (del Q t) k = (if Q k then None else get t k)"
begin

lemma put_last_wins: "get (put k r (\<lambda>_. r) (put k r' u t)) = get (put k r (\<lambda>_. r) t)"
  by (rule ext) (simp add: get_put split: option.split)

lemma put_commute:
  "k \<noteq> l \<Longrightarrow> get (put k r u (put l s v t)) = get (put l s v (put k r u t))"
  by (rule ext) (simp add: get_put)

lemma put_frame: "k' \<noteq> k \<Longrightarrow> get (put k r u t) k' = get t k'"
  by (simp add: get_put)

lemma put_present: "get (put k r u t) k \<noteq> None"
  by (simp add: get_put)

lemma del_put: "Q k \<Longrightarrow> get (del Q (put k r u t)) = get (del Q t)"
  by (rule ext) (auto simp: get_put get_del)

lemma del_idem: "get (del Q (del Q t)) = get (del Q t)"
  by (rule ext) (simp add: get_del)

end

interpretation sql: keyed_table map_of tbl_upsert tbl_delete
  by unfold_locales (simp_all add: store_simps)

end
