(* ===== verification/Omemo_Store.thy ===== *)
theory Omemo_Store
  imports Sql_Table
begin

text \<open>
  \<open>crates/mxc-store/src/omemo.rs\<close>: the OMEMO tables of the database and every statement on them.
  The record \<open>omemo_db\<close> holds the tables of the migrations \<open>0001\<close>, \<open>0002\<close>, \<open>0013\<close>, \<open>0014\<close> and
  \<open>0015\<close> under their primary keys, the account id first.  A failing disk is not modelled: each
  \<open>async fn\<close> is the statement it executes.  The clock (\<open>datetime('now')\<close>) is an argument.
\<close>

record own_identity_row =
  own_device_id :: i64
  own_identity_pub :: bytes
  own_has_private :: bool
  own_bundle_xml :: "string option"
  own_pq_identity_pub :: "bytes option"

record identity_row =
  id_key :: bytes
  id_trust :: i64
  id_seen_at :: string
  id_active :: bool

record kyber_row =
  ky_record :: bytes
  ky_last_resort :: bool
  ky_used :: bool

record omemo_db =
  t_settings :: "(string, string) table"
  t_own :: "(i64, own_identity_row) table"
  t_identities :: "(i64 \<times> string \<times> i64, identity_row) table"
  t_sessions :: "(i64 \<times> string \<times> i64, bytes) table"
  t_prekeys :: "(i64 \<times> i64, bytes) table"
  t_signed :: "(i64 \<times> i64, bytes) table"
  t_kyber :: "(i64 \<times> i64, kyber_row) table"
  t_last_resort :: "(i64 \<times> i64 \<times> i64 \<times> bytes, unit) table"
  t_device_lists :: "(i64 \<times> string, string \<times> string) table"
  t_pq_pins :: "(i64 \<times> string \<times> string, bytes) table"

record omemo_identity =
  oi_device_id :: i64
  oi_identity_key :: bytes
  oi_trust :: i64
  oi_active :: bool

definition empty_omemo_db :: omemo_db where
  "empty_omemo_db = \<lparr>t_settings = [], t_own = [], t_identities = [], t_sessions = [],
     t_prekeys = [], t_signed = [], t_kyber = [], t_last_resort = [], t_device_lists = [],
     t_pq_pins = []\<rparr>"

subsection \<open>Settings and own identity\<close>

definition auto_trust_new_keys :: "omemo_db \<Rightarrow> bool" where
  "auto_trust_new_keys db =
     (case map_of (t_settings db) ''auto_trust_new_keys'' of Some v \<Rightarrow> v \<noteq> ''0'' | None \<Rightarrow> True)"

definition set_auto_trust_new_keys :: "bool \<Rightarrow> omemo_db \<Rightarrow> omemo_db" where
  [store_defs]: "set_auto_trust_new_keys on db =
     (let v = (if on then ''1'' else ''0'') in
      db\<lparr>t_settings := tbl_upsert ''auto_trust_new_keys'' v (\<lambda>_. v) (t_settings db)\<rparr>)"

definition omemo_own_device_id :: "i64 \<Rightarrow> omemo_db \<Rightarrow> i64 option" where
  "omemo_own_device_id a db = map_option own_device_id (map_of (t_own db) a)"

definition omemo_own_identity_pub :: "i64 \<Rightarrow> omemo_db \<Rightarrow> bytes option" where
  "omemo_own_identity_pub a db = map_option own_identity_pub (map_of (t_own db) a)"

definition set_omemo_own_identity :: "i64 \<Rightarrow> i64 \<Rightarrow> bytes \<Rightarrow> bool \<Rightarrow> omemo_db \<Rightarrow> omemo_db" where
  [store_defs]: "set_omemo_own_identity a device_id identity_pub has_private db =
     db\<lparr>t_own := tbl_upsert a
       \<lparr>own_device_id = device_id, own_identity_pub = identity_pub, own_has_private = has_private,
        own_bundle_xml = None, own_pq_identity_pub = None\<rparr>
       (\<lambda>r. r\<lparr>own_device_id := device_id, own_identity_pub := identity_pub,
              own_has_private := has_private\<rparr>) (t_own db)\<rparr>"

definition omemo_own_pq_identity_pub :: "i64 \<Rightarrow> omemo_db \<Rightarrow> bytes option" where
  "omemo_own_pq_identity_pub a db = Option.bind (map_of (t_own db) a) own_pq_identity_pub"

definition set_omemo_own_pq_identity_pub :: "i64 \<Rightarrow> bytes \<Rightarrow> omemo_db \<Rightarrow> omemo_db" where
  [store_defs]: "set_omemo_own_pq_identity_pub a pub db =
     db\<lparr>t_own := tbl_update a (\<lambda>r. r\<lparr>own_pq_identity_pub := Some pub\<rparr>) (t_own db)\<rparr>"

definition set_omemo_bundle_xml :: "i64 \<Rightarrow> string \<Rightarrow> omemo_db \<Rightarrow> omemo_db" where
  [store_defs]: "set_omemo_bundle_xml a xml db =
     db\<lparr>t_own := tbl_update a (\<lambda>r. r\<lparr>own_bundle_xml := Some xml\<rparr>) (t_own db)\<rparr>"

definition omemo_bundle_xml :: "i64 \<Rightarrow> omemo_db \<Rightarrow> string option" where
  "omemo_bundle_xml a db = Option.bind (map_of (t_own db) a) own_bundle_xml"

subsection \<open>Post-quantum pins and resets\<close>

definition get_pinned_omemo2_pq_identity :: "i64 \<Rightarrow> string \<Rightarrow> string \<Rightarrow> omemo_db \<Rightarrow> bytes option" where
  "get_pinned_omemo2_pq_identity a jid fp db = map_of (t_pq_pins db) (a, jid, fp)"

definition pin_omemo2_pq_identity ::
  "i64 \<Rightarrow> string \<Rightarrow> string \<Rightarrow> bytes \<Rightarrow> omemo_db \<Rightarrow> omemo_db" where
  [store_defs]: "pin_omemo2_pq_identity a jid fp key db =
     db\<lparr>t_pq_pins := tbl_upsert (a, jid, fp) key (\<lambda>_. key) (t_pq_pins db)\<rparr>"

definition reset_omemo2_peer_state :: "i64 \<Rightarrow> omemo_db \<Rightarrow> omemo_db" where
  [store_defs]: "reset_omemo2_peer_state a db =
     db\<lparr>t_sessions := tbl_delete (\<lambda>k. fst k = a) (t_sessions db),
        t_identities := tbl_delete (\<lambda>k. fst k = a) (t_identities db),
        t_pq_pins := tbl_delete (\<lambda>k. fst k = a) (t_pq_pins db),
        t_device_lists := tbl_delete (\<lambda>k. fst k = a) (t_device_lists db)\<rparr>"

definition reset_omemo2_own_state :: "i64 \<Rightarrow> omemo_db \<Rightarrow> omemo_db" where
  [store_defs]: "reset_omemo2_own_state a db =
     db\<lparr>t_own := tbl_delete (\<lambda>k. k = a) (t_own db),
        t_prekeys := tbl_delete (\<lambda>k. fst k = a) (t_prekeys db),
        t_signed := tbl_delete (\<lambda>k. fst k = a) (t_signed db),
        t_kyber := tbl_delete (\<lambda>k. fst k = a) (t_kyber db),
        t_last_resort := tbl_delete (\<lambda>k. fst k = a) (t_last_resort db)\<rparr>"

subsection \<open>Remote identities and trust\<close>

definition save_omemo_identity ::
  "string \<Rightarrow> i64 \<Rightarrow> string \<Rightarrow> i64 \<Rightarrow> bytes \<Rightarrow> omemo_db \<Rightarrow> omemo_db" where
  [store_defs]: "save_omemo_identity now a jid device_id key db =
     (let new_trust = (if auto_trust_new_keys db then 1 else 0) in
      db\<lparr>t_identities := tbl_upsert (a, jid, device_id)
        \<lparr>id_key = key, id_trust = new_trust, id_seen_at = now, id_active = True\<rparr>
        (\<lambda>r. r\<lparr>id_key := key, id_active := True,
               id_trust := (if id_key r = key then id_trust r else 0)\<rparr>)
        (t_identities db)\<rparr>)"

definition identity_view :: "i64 \<Rightarrow> identity_row \<Rightarrow> omemo_identity" where
  "identity_view device_id r = \<lparr>oi_device_id = device_id, oi_identity_key = id_key r,
     oi_trust = id_trust r, oi_active = id_active r\<rparr>"

definition omemo_identity :: "i64 \<Rightarrow> string \<Rightarrow> i64 \<Rightarrow> omemo_db \<Rightarrow> omemo_identity option" where
  "omemo_identity a jid device_id db =
     map_option (identity_view device_id) (map_of (t_identities db) (a, jid, device_id))"

definition list_omemo_identities :: "i64 \<Rightarrow> string \<Rightarrow> omemo_db \<Rightarrow> omemo_identity list" where
  "list_omemo_identities a jid db =
     map (\<lambda>((_, device_id), r). identity_view device_id r)
       (sort_desc (\<lambda>(_, r). id_seen_at r)
         (filter (\<lambda>((j, _), _). j = jid) (account_rows a (t_identities db))))"

definition set_omemo_trust :: "i64 \<Rightarrow> string \<Rightarrow> i64 \<Rightarrow> i64 \<Rightarrow> omemo_db \<Rightarrow> omemo_db" where
  [store_defs]: "set_omemo_trust a jid device_id trust db =
     db\<lparr>t_identities := tbl_update (a, jid, device_id) (\<lambda>r. r\<lparr>id_trust := trust\<rparr>) (t_identities db)\<rparr>"

subsection \<open>Sessions and EC pre-keys\<close>

definition load_omemo_session :: "i64 \<Rightarrow> string \<Rightarrow> i64 \<Rightarrow> omemo_db \<Rightarrow> bytes option" where
  "load_omemo_session a jid device_id db = map_of (t_sessions db) (a, jid, device_id)"

definition store_omemo_session :: "i64 \<Rightarrow> string \<Rightarrow> i64 \<Rightarrow> bytes \<Rightarrow> omemo_db \<Rightarrow> omemo_db" where
  [store_defs]: "store_omemo_session a jid device_id rec db =
     db\<lparr>t_sessions := tbl_upsert (a, jid, device_id) rec (\<lambda>_. rec) (t_sessions db)\<rparr>"

definition load_prekey :: "i64 \<Rightarrow> i64 \<Rightarrow> omemo_db \<Rightarrow> bytes option" where
  "load_prekey a i db = map_of (t_prekeys db) (a, i)"

definition store_prekey :: "i64 \<Rightarrow> i64 \<Rightarrow> bytes \<Rightarrow> omemo_db \<Rightarrow> omemo_db" where
  [store_defs]: "store_prekey a i rec db =
     db\<lparr>t_prekeys := tbl_upsert (a, i) rec (\<lambda>_. rec) (t_prekeys db)\<rparr>"

definition remove_prekey :: "i64 \<Rightarrow> i64 \<Rightarrow> omemo_db \<Rightarrow> omemo_db" where
  [store_defs]: "remove_prekey a i db = db\<lparr>t_prekeys := tbl_delete (\<lambda>k. k = (a, i)) (t_prekeys db)\<rparr>"

definition count_prekeys :: "i64 \<Rightarrow> omemo_db \<Rightarrow> i64" where
  "count_prekeys a db = int (length (account_rows a (t_prekeys db)))"

definition list_prekeys :: "i64 \<Rightarrow> omemo_db \<Rightarrow> (i64 \<times> bytes) list" where
  "list_prekeys a db = sort_key fst (account_rows a (t_prekeys db))"

definition max_prekey_id :: "i64 \<Rightarrow> omemo_db \<Rightarrow> i64" where
  "max_prekey_id a db = coalesce_max (map fst (account_rows a (t_prekeys db)))"

subsection \<open>Signed pre-keys\<close>

definition load_signed_prekey :: "i64 \<Rightarrow> i64 \<Rightarrow> omemo_db \<Rightarrow> bytes option" where
  "load_signed_prekey a i db = map_of (t_signed db) (a, i)"

definition newest_signed_prekey :: "i64 \<Rightarrow> omemo_db \<Rightarrow> (i64 \<times> bytes) option" where
  "newest_signed_prekey a db = first_desc fst (account_rows a (t_signed db))"

definition store_signed_prekey :: "i64 \<Rightarrow> i64 \<Rightarrow> bytes \<Rightarrow> omemo_db \<Rightarrow> omemo_db" where
  [store_defs]: "store_signed_prekey a i rec db =
     db\<lparr>t_signed := tbl_upsert (a, i) rec (\<lambda>_. rec) (t_signed db)\<rparr>"

subsection \<open>KEM pre-keys\<close>

definition load_kyber_prekey :: "i64 \<Rightarrow> i64 \<Rightarrow> omemo_db \<Rightarrow> bytes option" where
  "load_kyber_prekey a i db = map_option ky_record (map_of (t_kyber db) (a, i))"

definition store_kyber_prekey :: "i64 \<Rightarrow> i64 \<Rightarrow> bytes \<Rightarrow> bool \<Rightarrow> omemo_db \<Rightarrow> omemo_db" where
  [store_defs]: "store_kyber_prekey a i rec is_last_resort db =
     db\<lparr>t_kyber := tbl_upsert (a, i)
       \<lparr>ky_record = rec, ky_last_resort = is_last_resort, ky_used = False\<rparr>
       (\<lambda>r. r\<lparr>ky_record := rec, ky_last_resort := is_last_resort\<rparr>) (t_kyber db)\<rparr>"

definition mark_kyber_prekey_used :: "i64 \<Rightarrow> i64 \<Rightarrow> omemo_db \<Rightarrow> omemo_db" where
  [store_defs]: "mark_kyber_prekey_used a i db =
     db\<lparr>t_kyber := tbl_update (a, i) (\<lambda>r. r\<lparr>ky_used := True\<rparr>) (t_kyber db)\<rparr>"

definition available_kyber_prekeys :: "i64 \<Rightarrow> omemo_db \<Rightarrow> (i64 \<times> bytes) list" where
  "available_kyber_prekeys a db =
     map (\<lambda>(i, r). (i, ky_record r))
       (sort_key fst (filter (\<lambda>(_, r). \<not> ky_used r \<and> \<not> ky_last_resort r) (account_rows a (t_kyber db))))"

definition last_resort_kyber :: "i64 \<Rightarrow> omemo_db \<Rightarrow> (i64 \<times> bytes) option" where
  "last_resort_kyber a db =
     map_option (\<lambda>(i, r). (i, ky_record r))
       (first_desc fst (filter (\<lambda>(_, r). ky_last_resort r) (account_rows a (t_kyber db))))"

definition all_kyber_prekeys :: "i64 \<Rightarrow> omemo_db \<Rightarrow> (i64 \<times> bytes \<times> bool \<times> bool) list" where
  "all_kyber_prekeys a db =
     map (\<lambda>(i, r). (i, ky_record r, ky_last_resort r, ky_used r)) (account_rows a (t_kyber db))"

definition delete_kyber_prekey :: "i64 \<Rightarrow> i64 \<Rightarrow> omemo_db \<Rightarrow> omemo_db" where
  [store_defs]: "delete_kyber_prekey a i db = db\<lparr>t_kyber := tbl_delete (\<lambda>k. k = (a, i)) (t_kyber db)\<rparr>"

definition load_kyber_prekey_meta :: "i64 \<Rightarrow> i64 \<Rightarrow> omemo_db \<Rightarrow> (bytes \<times> bool \<times> bool) option" where
  "load_kyber_prekey_meta a i db =
     map_option (\<lambda>r. (ky_record r, ky_used r, ky_last_resort r)) (map_of (t_kyber db) (a, i))"

definition kyber_last_resort_session_seen :: "i64 \<Rightarrow> i64 \<Rightarrow> i64 \<Rightarrow> bytes \<Rightarrow> omemo_db \<Rightarrow> bool" where
  "kyber_last_resort_session_seen a kyber_id spk_id base_key db =
     (map_of (t_last_resort db) (a, kyber_id, spk_id, base_key) \<noteq> None)"

text \<open>The rows left, and the number deleted.\<close>

definition orphaned :: "i64 \<Rightarrow> omemo_db \<Rightarrow> i64 \<times> i64 \<times> i64 \<times> bytes \<Rightarrow> bool" where
  "orphaned a db k = (fst k = a \<and> map_of (t_kyber db) (a, fst (snd k)) = None)"

definition prune_orphaned_kyber_last_resort_sessions :: "i64 \<Rightarrow> omemo_db \<Rightarrow> nat \<times> omemo_db" where
  "prune_orphaned_kyber_last_resort_sessions a db =
     (let kept = tbl_delete (orphaned a db) (t_last_resort db) in
      (length (t_last_resort db) - length kept, db\<lparr>t_last_resort := kept\<rparr>))"

definition record_kyber_last_resort_session ::
  "i64 \<Rightarrow> i64 \<Rightarrow> i64 \<Rightarrow> bytes \<Rightarrow> omemo_db \<Rightarrow> omemo_db" where
  [store_defs]: "record_kyber_last_resort_session a kyber_id spk_id base_key db =
     db\<lparr>t_last_resort := tbl_upsert (a, kyber_id, spk_id, base_key) () (\<lambda>r. r) (t_last_resort db)\<rparr>"

definition max_kyber_prekey_id :: "i64 \<Rightarrow> omemo_db \<Rightarrow> i64" where
  "max_kyber_prekey_id a db = coalesce_max (map fst (account_rows a (t_kyber db)))"

definition kyber_prekey_used :: "i64 \<Rightarrow> i64 \<Rightarrow> omemo_db \<Rightarrow> bool" where
  "kyber_prekey_used a i db = (case map_of (t_kyber db) (a, i) of Some r \<Rightarrow> ky_used r | None \<Rightarrow> False)"

definition cache_device_list :: "string \<Rightarrow> i64 \<Rightarrow> string \<Rightarrow> string \<Rightarrow> omemo_db \<Rightarrow> omemo_db" where
  [store_defs]: "cache_device_list now a jid device_ids_json db =
     db\<lparr>t_device_lists := tbl_upsert (a, jid) (device_ids_json, now) (\<lambda>_. (device_ids_json, now))
         (t_device_lists db)\<rparr>"


subsection \<open>The writes of an account\<close>

text \<open>
  Every writing statement, as a step of the database under the account that issues it.  All but
  \<open>set_omemo_trust\<close> (a decision of the user) are made by the program on its own.
\<close>

inductive automatic_write :: "i64 \<Rightarrow> omemo_db \<Rightarrow> omemo_db \<Rightarrow> bool" for a where
  "automatic_write a db (set_auto_trust_new_keys on db)"
| "automatic_write a db (set_omemo_own_identity a device_id pub priv db)"
| "automatic_write a db (set_omemo_own_pq_identity_pub a pub db)"
| "automatic_write a db (set_omemo_bundle_xml a xml db)"
| "automatic_write a db (pin_omemo2_pq_identity a jid fp key db)"
| "automatic_write a db (reset_omemo2_peer_state a db)"
| "automatic_write a db (reset_omemo2_own_state a db)"
| "automatic_write a db (save_omemo_identity now a jid device_id key db)"
| "automatic_write a db (store_omemo_session a jid device_id rec db)"
| "automatic_write a db (store_prekey a i rec db)"
| "automatic_write a db (remove_prekey a i db)"
| "automatic_write a db (store_signed_prekey a i rec db)"
| "automatic_write a db (store_kyber_prekey a i rec lr db)"
| "automatic_write a db (mark_kyber_prekey_used a i db)"
| "automatic_write a db (delete_kyber_prekey a i db)"
| "automatic_write a db (snd (prune_orphaned_kyber_last_resort_sessions a db))"
| "automatic_write a db (record_kyber_last_resort_session a i spk base db)"
| "automatic_write a db (cache_device_list now a jid ids db)"

inductive omemo_write :: "i64 \<Rightarrow> omemo_db \<Rightarrow> omemo_db \<Rightarrow> bool" for a where
  automatic: "automatic_write a db db' \<Longrightarrow> omemo_write a db db'"
| decision: "omemo_write a db (set_omemo_trust a jid device_id trust db)"

inductive_cases automatic_writeE: "automatic_write a db db'"
inductive_cases omemo_writeE: "omemo_write a db db'"

lemma prune_snd [store_defs]:
  "snd (prune_orphaned_kyber_last_resort_sessions a db)
    = db\<lparr>t_last_resort := tbl_delete (orphaned a db) (t_last_resort db)\<rparr>"
  by (simp add: prune_orphaned_kyber_last_resort_sessions_def Let_def)

definition omemo_db_ok :: "omemo_db \<Rightarrow> bool" where
  "omemo_db_ok db \<longleftrightarrow> tbl_ok (t_settings db) \<and> tbl_ok (t_own db) \<and> tbl_ok (t_identities db)
     \<and> tbl_ok (t_sessions db) \<and> tbl_ok (t_prekeys db) \<and> tbl_ok (t_signed db)
     \<and> tbl_ok (t_kyber db) \<and> tbl_ok (t_last_resort db) \<and> tbl_ok (t_device_lists db)
     \<and> tbl_ok (t_pq_pins db)"

lemma empty_omemo_db_ok [simp]: "omemo_db_ok empty_omemo_db"
  by (simp add: omemo_db_ok_def empty_omemo_db_def)

lemma automatic_write_ok: "automatic_write a db db' \<Longrightarrow> omemo_db_ok db \<Longrightarrow> omemo_db_ok db'"
  by (erule automatic_writeE) (auto simp: omemo_db_ok_def store_defs Let_def)

lemma omemo_write_ok: "omemo_write a db db' \<Longrightarrow> omemo_db_ok db \<Longrightarrow> omemo_db_ok db'"
proof (erule omemo_writeE)
  show "automatic_write a db db' \<Longrightarrow> omemo_db_ok db \<Longrightarrow> omemo_db_ok db'"
    by (rule automatic_write_ok)
qed (auto simp: omemo_db_ok_def store_defs)

interpretation wf: invariant_machine "omemo_write a" omemo_db_ok for a
  by unfold_locales (rule omemo_write_ok)

text \<open>Everything one account can read.\<close>

record account_view =
  v_own :: "own_identity_row option"
  v_identity :: "string \<times> i64 \<Rightarrow> identity_row option"
  v_session :: "string \<times> i64 \<Rightarrow> bytes option"
  v_prekey :: "i64 \<Rightarrow> bytes option"
  v_signed :: "i64 \<Rightarrow> bytes option"
  v_kyber :: "i64 \<Rightarrow> kyber_row option"
  v_seen :: "i64 \<times> i64 \<times> bytes \<Rightarrow> unit option"
  v_device_list :: "string \<Rightarrow> (string \<times> string) option"
  v_pin :: "string \<times> string \<Rightarrow> bytes option"

definition account_view :: "i64 \<Rightarrow> omemo_db \<Rightarrow> account_view" where
  "account_view a db = \<lparr>v_own = map_of (t_own db) a,
     v_identity = (\<lambda>k. map_of (t_identities db) (a, k)),
     v_session = (\<lambda>k. map_of (t_sessions db) (a, k)), v_prekey = (\<lambda>k. map_of (t_prekeys db) (a, k)),
     v_signed = (\<lambda>k. map_of (t_signed db) (a, k)), v_kyber = (\<lambda>k. map_of (t_kyber db) (a, k)),
     v_seen = (\<lambda>k. map_of (t_last_resort db) (a, k)),
     v_device_list = (\<lambda>k. map_of (t_device_lists db) (a, k)),
     v_pin = (\<lambda>k. map_of (t_pq_pins db) (a, k))\<rparr>"

lemma omemo_write_isolated:
  "omemo_write a db db' \<Longrightarrow> a \<noteq> b \<Longrightarrow> account_view b db' = account_view b db"
  by (erule omemo_writeE; (erule automatic_writeE)?)
     (simp_all add: account_view_def store_defs store_simps orphaned_def Let_def)

definition others_write :: "i64 \<Rightarrow> omemo_db \<Rightarrow> omemo_db \<Rightarrow> bool" where
  "others_write b db db' \<longleftrightarrow> (\<exists>a. a \<noteq> b \<and> omemo_write a db db')"

interpretation isolated: frame_machine "others_write b" "account_view b" for b
  by unfold_locales (auto simp: others_write_def omemo_write_isolated)

text \<open>
  Accounts are isolated: whatever the other accounts write, in any number of statements and any
  order, no lookup of this account changes (identities and trust, sessions, pre-keys, replay
  records, pins, own identity).
\<close>

theorem omemo_accounts_isolated:
  assumes "(others_write b)\<^sup>*\<^sup>* db db'"
  shows "account_view b db' = account_view b db"
  using assms by (rule isolated.run_view)

theorem omemo_accounts_isolated_witness:
  "account_view 2 (save_omemo_identity ''t'' 1 ''a@b'' 7 [5] empty_omemo_db)
    = account_view 2 empty_omemo_db"
proof (rule omemo_accounts_isolated, rule r_into_rtranclp)
  show "others_write 2 empty_omemo_db (save_omemo_identity ''t'' 1 ''a@b'' 7 [5] empty_omemo_db)"
    unfolding others_write_def
    by (rule exI[of _ 1]) (auto intro!: omemo_write.automatic automatic_write.intros)
qed

subsection \<open>Trust belongs to a key\<close>

text \<open>
  What \<open>save_omemo_identity\<close> leaves: the device's row holds the new key, active; a new device is
  trusted exactly when auto-trust is on, an unchanged key keeps its trust, a replaced key falls
  back to undecided.  Every other device's row is as before.
\<close>

theorem save_omemo_identity_spec:
  "omemo_identity a jid dev (save_omemo_identity now a jid dev key db)
     = Some \<lparr>oi_device_id = dev, oi_identity_key = key,
         oi_trust = (case omemo_identity a jid dev db of
             None \<Rightarrow> if auto_trust_new_keys db then 1 else 0
           | Some old \<Rightarrow> if oi_identity_key old = key then oi_trust old else 0),
         oi_active = True\<rparr>
   \<and> ((a', jid', dev') = (a, jid, dev) \<or>
      omemo_identity a' jid' dev' (save_omemo_identity now a jid dev key db)
        = omemo_identity a' jid' dev' db)"
  by (auto simp: omemo_identity_def save_omemo_identity_def identity_view_def Let_def store_simps
      split: option.split)

text \<open>The trust of a row that is neither undecided nor auto-trusted was there before, for that key.\<close>

lemma automatic_write_trust:
  assumes "automatic_write a db db'"
    and "map_of (t_identities db') k = Some r" and "id_trust r \<notin> {0, 1}"
  shows "\<exists>r0. map_of (t_identities db) k = Some r0 \<and> id_key r0 = id_key r \<and> id_trust r0 = id_trust r"
  using assms
  by (cases rule: automatic_writeE)
     (auto simp: store_defs store_simps Let_def split: if_split_asm option.split_asm)

definition vouched :: "omemo_db \<Rightarrow> omemo_db \<Rightarrow> bool" where
  "vouched db0 db \<longleftrightarrow> (\<forall>k r. map_of (t_identities db) k = Some r \<longrightarrow> id_trust r \<notin> {0, 1} \<longrightarrow>
     (\<exists>r0. map_of (t_identities db0) k = Some r0 \<and> id_key r0 = id_key r \<and> id_trust r0 = id_trust r))"

interpretation trust: invariant_machine "automatic_write a" "vouched db0" for a db0
proof unfold_locales
  fix db db' assume w: "automatic_write a db db'" and v: "vouched db0 db"
  show "vouched db0 db'"
    unfolding vouched_def
  proof (intro allI impI)
    fix k r assume r: "map_of (t_identities db') k = Some r" and t: "id_trust r \<notin> {0, 1}"
    from automatic_write_trust[OF w r t] obtain r1
      where r1: "map_of (t_identities db) k = Some r1" "id_key r1 = id_key r" "id_trust r1 = id_trust r"
      by blast
    with t v[unfolded vouched_def, rule_format, OF r1(1)]
    show "\<exists>r0. map_of (t_identities db0) k = Some r0 \<and> id_key r0 = id_key r
        \<and> id_trust r0 = id_trust r"
      by simp
  qed
qed

text \<open>
  C24: Verification is never inherited: through any run of the program's own writes (every statement
  except the user's \<open>set_omemo_trust\<close>), a device that is verified (trust 3) or blocked (trust 2)
  held the same key with the same verdict at the start.
\<close>

theorem verified_trust_needs_a_decision:
  assumes "(automatic_write a)\<^sup>*\<^sup>* db0 db"
    and "omemo_identity b jid dev db = Some i" and "oi_trust i \<in> {2, 3}"
  shows "\<exists>i0. omemo_identity b jid dev db0 = Some i0 \<and> oi_identity_key i0 = oi_identity_key i
    \<and> oi_trust i0 = oi_trust i"
proof -
  have "vouched db0 db0" by (auto simp: vouched_def)
  with assms(1) have "vouched db0 db" by (rule trust.run_inv)
  with assms(2,3) show ?thesis
    by (fastforce simp: vouched_def omemo_identity_def identity_view_def)
qed

definition example_db :: omemo_db where
  "example_db = set_omemo_trust 1 ''a@b'' 7 3 (save_omemo_identity ''t'' 1 ''a@b'' 7 [5] empty_omemo_db)"

theorem verified_trust_needs_a_decision_witness:
  "\<exists>i0. omemo_identity 1 ''a@b'' 7 example_db = Some i0 \<and> oi_identity_key i0 = [5] \<and> oi_trust i0 = 3"
proof -
  have run: "(automatic_write 1)\<^sup>*\<^sup>* example_db (store_omemo_session 1 ''a@b'' 7 [1] example_db)"
    by (intro r_into_rtranclp automatic_write.intros)
  have now: "omemo_identity 1 ''a@b'' 7 (store_omemo_session 1 ''a@b'' 7 [1] example_db)
      = Some \<lparr>oi_device_id = 7, oi_identity_key = [5], oi_trust = 3, oi_active = True\<rparr>"
    by code_simp
  from verified_trust_needs_a_decision[OF run now] show ?thesis by simp
qed


subsection \<open>Replay records and resets\<close>

lemma prune_count: "distinct xs \<Longrightarrow>
  length xs - length (filter (\<lambda>x. \<not> P x) xs) = card {x \<in> set xs. P x}"
proof -
  assume d: "distinct xs"
  have "length xs = length (filter (\<lambda>x. \<not> P x) xs) + length (filter P xs)"
    by (induction xs) auto
  moreover have "card {x \<in> set xs. P x} = length (filter P xs)"
    using d by (metis distinct_card distinct_filter set_filter)
  ultimately show ?thesis by simp
qed

text \<open>
  Pruning replay records removes exactly those whose KEM pre-key is gone: a tuple recorded for a
  key that is still stored stays seen, no other table changes, and the count returned is the
  number of rows removed.
\<close>

theorem prune_orphaned_spec:
  assumes "omemo_db_ok db"
  shows "(kyber_last_resort_session_seen b i spk base
        (snd (prune_orphaned_kyber_last_resort_sessions a db)) \<longleftrightarrow>
      kyber_last_resort_session_seen b i spk base db \<and> (a = b \<longrightarrow> load_kyber_prekey a i db \<noteq> None))
    \<and> fst (prune_orphaned_kyber_last_resort_sessions a db)
      = card {k. map_of (t_last_resort db) k \<noteq> None \<and> fst k = a
          \<and> load_kyber_prekey a (fst (snd k)) db = None}
    \<and> (\<exists>rows. snd (prune_orphaned_kyber_last_resort_sessions a db) = db\<lparr>t_last_resort := rows\<rparr>)"
proof (intro conjI)
  show "kyber_last_resort_session_seen b i spk base
        (snd (prune_orphaned_kyber_last_resort_sessions a db)) \<longleftrightarrow>
      kyber_last_resort_session_seen b i spk base db \<and> (a = b \<longrightarrow> load_kyber_prekey a i db \<noteq> None)"
    by (auto simp: prune_snd kyber_last_resort_session_seen_def store_simps orphaned_def
        load_kyber_prekey_def)
  show "\<exists>rows. snd (prune_orphaned_kyber_last_resort_sessions a db) = db\<lparr>t_last_resort := rows\<rparr>"
    unfolding prune_snd by blast
  have ok: "distinct (map fst (t_last_resort db))"
    using assms by (simp add: omemo_db_ok_def tbl_ok_def)
  have "length (t_last_resort db) - length (tbl_delete (orphaned a db) (t_last_resort db))
      = card {x \<in> set (t_last_resort db). orphaned a db (fst x)}"
    using prune_count[OF distinct_mapI[OF ok], of "\<lambda>x. orphaned a db (fst x)"]
    by (simp add: tbl_delete_def case_prod_unfold)
  also have "\<dots> = card (fst ` {x \<in> set (t_last_resort db). orphaned a db (fst x)})"
    using ok by (intro card_image[symmetric] inj_on_subset[OF inj_on_fst_distinct]) auto
  also have "fst ` {x \<in> set (t_last_resort db). orphaned a db (fst x)}
      = {k. map_of (t_last_resort db) k \<noteq> None \<and> fst k = a
          \<and> load_kyber_prekey a (fst (snd k)) db = None}"
    by (force simp: orphaned_def load_kyber_prekey_def map_of_eq_None_iff)
  finally show "fst (prune_orphaned_kyber_last_resort_sessions a db)
      = card {k. map_of (t_last_resort db) k \<noteq> None \<and> fst k = a
          \<and> load_kyber_prekey a (fst (snd k)) db = None}"
    by (simp add: prune_orphaned_kyber_last_resort_sessions_def Let_def)
qed

theorem prune_orphaned_spec_witness:
  "fst (prune_orphaned_kyber_last_resort_sessions 1
     (record_kyber_last_resort_session 1 7 1 [9] empty_omemo_db)) =
   card {k. map_of (t_last_resort (record_kyber_last_resort_session 1 7 1 [9] empty_omemo_db)) k \<noteq> None
     \<and> fst k = 1
     \<and> load_kyber_prekey 1 (fst (snd k)) (record_kyber_last_resort_session 1 7 1 [9] empty_omemo_db) = None}"
  by (rule prune_orphaned_spec[THEN conjunct2, THEN conjunct1])
     (auto simp: omemo_db_ok_def empty_omemo_db_def record_kyber_last_resort_session_def)

text \<open>
  The two resets divide an account's OMEMO state: the peer reset forgets every session, peer
  identity, pin and device list and keeps all of our own keys (so our fingerprint is unchanged);
  the own reset forgets exactly the rest.
\<close>

theorem omemo_resets_divide_state:
  "account_view a (reset_omemo2_peer_state a db) = (account_view a db)
     \<lparr>v_identity := \<lambda>_. None, v_session := \<lambda>_. None, v_device_list := \<lambda>_. None, v_pin := \<lambda>_. None\<rparr>
   \<and> account_view a (reset_omemo2_own_state a db) = (account_view a db)
     \<lparr>v_own := None, v_prekey := \<lambda>_. None, v_signed := \<lambda>_. None, v_kyber := \<lambda>_. None, v_seen := \<lambda>_. None\<rparr>"
  by (simp add: account_view_def store_defs store_simps)

end
