(* ===== verification/Omemo_Traits.thy ===== *)
theory Omemo_Traits
  imports Omemo_Store
begin

text \<open>
  \<open>crates/mxc-omemo/src/store.rs\<close>: libsignal's store traits over the OMEMO tables.  libsignal is
  library code: its opaque objects are values of a type \<open>'o\<close> and its functions are the fields of
  a record \<open>'o libsignal\<close> that the definitions take as an argument.
\<close>

datatype signal_error =
    InvalidState string string
  | InvalidPreKeyId
  | InvalidSignedPreKeyId
  | InvalidKyberPreKeyId
  | InvalidMessage string
  | SignalOther string

text \<open>\<open>deserialize\<close> and \<open>serialize\<close> of one kind of libsignal record.\<close>

record 'o serde =
  sd_de :: "bytes \<Rightarrow> signal_error + 'o"
  sd_ser :: "'o \<Rightarrow> signal_error + bytes"

record 'o libsignal =
  ls_identity_serialize :: "'o \<Rightarrow> bytes"
  ls_identity_decode :: "bytes \<Rightarrow> signal_error + 'o"
  ls_public_serialize :: "'o \<Rightarrow> bytes"
  ls_prekey :: "'o serde"
  ls_signed :: "'o serde"
  ls_kyber :: "'o serde"
  ls_session :: "'o serde"
  ls_device_ok :: "u32 \<Rightarrow> bool"

definition TRUST_UNDECIDED :: i64 where "TRUST_UNDECIDED = 0"
definition TRUST_TRUSTED :: i64 where "TRUST_TRUSTED = 1"
definition TRUST_UNTRUSTED :: i64 where "TRUST_UNTRUSTED = 2"

text \<open>\<open>ProtocolAddress\<close>: a bare JID and a device id.\<close>

record protocol_addr =
  pa_name :: string
  pa_device :: u32

type_synonym 'a trait_act = "(omemo_db, signal_error, 'a) act"

text \<open>\<open>u32::from(id) as i64\<close>\<close>

definition id_i64 :: "u32 \<Rightarrow> i64" where
  "id_i64 w = uint w"

definition parts :: "protocol_addr \<Rightarrow> string \<times> i64" where
  "parts address = (pa_name address, id_i64 (pa_device address))"

definition protocol_address :: "('o, 'z) libsignal_scheme \<Rightarrow> string \<Rightarrow> u32 \<Rightarrow> signal_error + protocol_addr" where
  "protocol_address ls jid device_id =
     (if ls_device_ok ls device_id then Inr \<lparr>pa_name = jid, pa_device = device_id\<rparr>
      else Inl (InvalidState ''device_id'' ''zero device id''))"

subsection \<open>Identity store\<close>

datatype identity_change = NewOrUnchanged | ReplacedExisting

definition save_identity ::
  "('o, 'z) libsignal_scheme \<Rightarrow> string \<Rightarrow> i64 \<Rightarrow> protocol_addr \<Rightarrow> 'o \<Rightarrow> identity_change trait_act" where
  "save_identity ls now a address identity =
     (let (jid, dev) = parts address; serialized = ls_identity_serialize ls identity in
      act_bind (act_read (omemo_identity a jid dev)) (\<lambda>existed.
        let replaced = (case existed of Some old \<Rightarrow> oi_identity_key old \<noteq> serialized | None \<Rightarrow> False) in
        act_bind (act_modify (save_omemo_identity now a jid dev serialized)) (\<lambda>_.
          act_ret (if replaced then ReplacedExisting else NewOrUnchanged))))"

definition is_trusted_identity ::
  "('o, 'z) libsignal_scheme \<Rightarrow> i64 \<Rightarrow> protocol_addr \<Rightarrow> 'o \<Rightarrow> bool trait_act" where
  "is_trusted_identity ls a address identity =
     (let (jid, dev) = parts address in
      act_bind (act_read (omemo_identity a jid dev)) (\<lambda>found.
        act_ret (case found of
            None \<Rightarrow> True
          | Some rec \<Rightarrow> if oi_identity_key rec \<noteq> ls_identity_serialize ls identity then True
                        else oi_trust rec \<noteq> TRUST_UNTRUSTED)))"

definition get_identity :: "('o, 'z) libsignal_scheme \<Rightarrow> i64 \<Rightarrow> protocol_addr \<Rightarrow> 'o option trait_act" where
  "get_identity ls a address =
     (let (jid, dev) = parts address in
      act_bind (act_read (omemo_identity a jid dev)) (\<lambda>found.
        case found of
          Some rec \<Rightarrow> act_bind (act_lift (ls_identity_decode ls (oi_identity_key rec))) (\<lambda>k. act_ret (Some k))
        | None \<Rightarrow> act_ret None))"

subsection \<open>Pre-key stores\<close>

definition get_pre_key :: "('o, 'z) libsignal_scheme \<Rightarrow> i64 \<Rightarrow> u32 \<Rightarrow> 'o trait_act" where
  "get_pre_key ls a prekey_id =
     act_bind (act_read (load_prekey a (id_i64 prekey_id))) (\<lambda>found.
       case found of Some b \<Rightarrow> act_lift (sd_de (ls_prekey ls) b) | None \<Rightarrow> act_throw InvalidPreKeyId)"

definition save_pre_key :: "('o, 'z) libsignal_scheme \<Rightarrow> i64 \<Rightarrow> u32 \<Rightarrow> 'o \<Rightarrow> unit trait_act" where
  "save_pre_key ls a prekey_id rec =
     act_bind (act_lift (sd_ser (ls_prekey ls) rec)) (\<lambda>b. act_modify (store_prekey a (id_i64 prekey_id) b))"

definition remove_pre_key :: "i64 \<Rightarrow> u32 \<Rightarrow> unit trait_act" where
  "remove_pre_key a prekey_id = act_modify (remove_prekey a (id_i64 prekey_id))"

definition get_signed_pre_key :: "('o, 'z) libsignal_scheme \<Rightarrow> i64 \<Rightarrow> u32 \<Rightarrow> 'o trait_act" where
  "get_signed_pre_key ls a i =
     act_bind (act_read (load_signed_prekey a (id_i64 i))) (\<lambda>found.
       case found of Some b \<Rightarrow> act_lift (sd_de (ls_signed ls) b) | None \<Rightarrow> act_throw InvalidSignedPreKeyId)"

definition save_signed_pre_key :: "('o, 'z) libsignal_scheme \<Rightarrow> i64 \<Rightarrow> u32 \<Rightarrow> 'o \<Rightarrow> unit trait_act" where
  "save_signed_pre_key ls a i rec =
     act_bind (act_lift (sd_ser (ls_signed ls) rec)) (\<lambda>b. act_modify (store_signed_prekey a (id_i64 i) b))"

definition get_kyber_pre_key :: "('o, 'z) libsignal_scheme \<Rightarrow> i64 \<Rightarrow> u32 \<Rightarrow> 'o trait_act" where
  "get_kyber_pre_key ls a i =
     act_bind (act_read (load_kyber_prekey_meta a (id_i64 i))) (\<lambda>found.
       case found of
         Some (b, used, last_resort) \<Rightarrow>
           if used \<and> \<not> last_resort then act_throw InvalidKyberPreKeyId
           else act_lift (sd_de (ls_kyber ls) b)
       | None \<Rightarrow> act_throw InvalidKyberPreKeyId)"

definition save_kyber_pre_key :: "('o, 'z) libsignal_scheme \<Rightarrow> i64 \<Rightarrow> u32 \<Rightarrow> 'o \<Rightarrow> unit trait_act" where
  "save_kyber_pre_key ls a i rec =
     act_bind (act_lift (sd_ser (ls_kyber ls) rec)) (\<lambda>b.
       act_modify (store_kyber_prekey a (id_i64 i) b False))"

definition mark_kyber_pre_key_used ::
  "('o, 'z) libsignal_scheme \<Rightarrow> i64 \<Rightarrow> u32 \<Rightarrow> u32 \<Rightarrow> 'o \<Rightarrow> unit trait_act" where
  "mark_kyber_pre_key_used ls a i ec_prekey_id base_key =
     (let kyber_id = id_i64 i in
      act_bind (act_read (load_kyber_prekey_meta a kyber_id)) (\<lambda>found.
        let is_last_resort = (case found of Some (_, _, lr) \<Rightarrow> lr | None \<Rightarrow> False) in
        if is_last_resort then
          (let spk_id = id_i64 ec_prekey_id; base = ls_public_serialize ls base_key in
           act_bind (act_read (kyber_last_resort_session_seen a kyber_id spk_id base)) (\<lambda>seen.
             if seen then act_throw (InvalidMessage ''kyber last-resort prekey replayed'')
             else act_modify (record_kyber_last_resort_session a kyber_id spk_id base)))
        else act_modify (mark_kyber_prekey_used a kyber_id)))"

subsection \<open>Session store\<close>

definition load_session :: "('o, 'z) libsignal_scheme \<Rightarrow> i64 \<Rightarrow> protocol_addr \<Rightarrow> 'o option trait_act" where
  "load_session ls a address =
     (let (jid, dev) = parts address in
      act_bind (act_read (load_omemo_session a jid dev)) (\<lambda>found.
        case found of
          Some b \<Rightarrow> act_bind (act_lift (sd_de (ls_session ls) b)) (\<lambda>s. act_ret (Some s))
        | None \<Rightarrow> act_ret None))"

definition store_session :: "('o, 'z) libsignal_scheme \<Rightarrow> i64 \<Rightarrow> protocol_addr \<Rightarrow> 'o \<Rightarrow> unit trait_act" where
  "store_session ls a address rec =
     (let (jid, dev) = parts address in
      act_bind (act_lift (sd_ser (ls_session ls) rec)) (\<lambda>b. act_modify (store_omemo_session a jid dev b)))"

subsection \<open>What libsignal can do to the database\<close>

text \<open>
  libsignal reaches the database only through the traits; a call into it is a run of these steps.
\<close>

inductive trait_step :: "('o, 'z) libsignal_scheme \<Rightarrow> i64 \<Rightarrow> omemo_db \<Rightarrow> omemo_db \<Rightarrow> bool" for ls a where
  "trait_step ls a db (snd (save_identity ls now a address identity db))"
| "trait_step ls a db (snd (save_pre_key ls a i rec db))"
| "trait_step ls a db (snd (remove_pre_key a i db))"
| "trait_step ls a db (snd (save_signed_pre_key ls a i rec db))"
| "trait_step ls a db (snd (save_kyber_pre_key ls a i rec db))"
| "trait_step ls a db (snd (mark_kyber_pre_key_used ls a i spk base db))"
| "trait_step ls a db (snd (store_session ls a address rec db))"

inductive_cases trait_stepE: "trait_step ls a db db'"

lemmas trait_defs =
  save_identity_def save_pre_key_def remove_pre_key_def save_signed_pre_key_def
  save_kyber_pre_key_def mark_kyber_pre_key_used_def store_session_def

text \<open>Each trait call is one of the program's own writes, or no write at all.\<close>

lemma trait_step_writes: "trait_step ls a db db' \<Longrightarrow> db' = db \<or> automatic_write a db db'"
  by (erule trait_stepE)
     (auto simp: trait_defs act_simps Let_def parts_def intro: automatic_write.intros
       split: sum.split option.split)

lemma trait_run_writes: "(trait_step ls a)\<^sup>*\<^sup>* db db' \<Longrightarrow> (automatic_write a)\<^sup>*\<^sup>* db db'"
  by (induction rule: rtranclp_induct) (auto dest: trait_step_writes intro: rtranclp.rtrancl_into_rtrancl)

text \<open>The traits reach neither pins, nor our own identity, nor settings, nor device lists.\<close>

definition beyond_traits where
  "beyond_traits db = (t_settings db, t_own db, t_device_lists db, t_pq_pins db)"

interpretation traits: frame_machine "trait_step ls a" beyond_traits for ls a
  by unfold_locales
     (erule trait_stepE; simp add: trait_defs act_simps Let_def parts_def beyond_traits_def store_defs
       split: sum.split option.split)


subsection \<open>Handshake keys are single-use\<close>

text \<open>A one-time KEM pre-key that was used: its row stays, flagged, and is not a last-resort key.\<close>

definition kyber_spent :: "i64 \<Rightarrow> u32 \<Rightarrow> omemo_db \<Rightarrow> bool" where
  "kyber_spent a i db \<longleftrightarrow>
     (case map_of (t_kyber db) (a, id_i64 i) of
        Some r \<Rightarrow> ky_used r \<and> \<not> ky_last_resort r | None \<Rightarrow> False)"

interpretation one_time_key: single_use "trait_step ls a" "kyber_spent a i"
  "\<lambda>db. fst (get_kyber_pre_key ls a i db) = Inl InvalidKyberPreKeyId" for ls a i
proof unfold_locales
  fix db db' assume "trait_step ls a db db'" "kyber_spent a i db"
  then show "kyber_spent a i db'"
    by (cases rule: trait_stepE)
       (auto simp: kyber_spent_def trait_defs act_simps Let_def parts_def store_defs store_simps
         split: sum.split_asm option.split_asm if_split_asm)
next
  fix db assume "kyber_spent a i db"
  then show "fst (get_kyber_pre_key ls a i db) = Inl InvalidKyberPreKeyId"
    by (auto simp: kyber_spent_def get_kyber_pre_key_def load_kyber_prekey_meta_def act_simps
        split: option.split_asm)
qed

text \<open>
  C22: A one-time KEM pre-key serves one handshake: once a stored key that is not a last-resort key
  was marked used, no run of libsignal's store operations makes \<open>get_kyber_pre_key\<close> serve it
  again, so a replayed PreKeySignalMessage fails at key lookup.
\<close>

theorem one_time_kem_key_never_served_twice:
  assumes "load_kyber_prekey_meta a (id_i64 i) db = Some (rec, used, False)"
    and "(trait_step ls a)\<^sup>*\<^sup>* (snd (mark_kyber_pre_key_used ls a i spk base db)) db'"
  shows "fst (get_kyber_pre_key ls a i db') = Inl InvalidKyberPreKeyId"
proof (rule one_time_key.refused_for_good[OF _ assms(2)])
  show "kyber_spent a i (snd (mark_kyber_pre_key_used ls a i spk base db))"
    using assms(1)
    by (auto simp: kyber_spent_def mark_kyber_pre_key_used_def act_simps Let_def
        mark_kyber_prekey_used_def store_simps load_kyber_prekey_meta_def)
qed

text \<open>A libsignal whose objects are their own serialization, to run the definitions on.\<close>

definition raw_serde :: "bytes serde" where
  "raw_serde = \<lparr>sd_de = Inr, sd_ser = Inr\<rparr>"

definition raw_libsignal :: "bytes libsignal" where
  "raw_libsignal = \<lparr>ls_identity_serialize = id, ls_identity_decode = Inr, ls_public_serialize = id,
     ls_prekey = raw_serde, ls_signed = raw_serde, ls_kyber = raw_serde, ls_session = raw_serde,
     ls_device_ok = (\<lambda>d. d \<noteq> 0)\<rparr>"

theorem one_time_kem_key_never_served_twice_witness:
  "fst (get_kyber_pre_key raw_libsignal 1 7 (snd (save_kyber_pre_key raw_libsignal 1 7 [4]
     (snd (mark_kyber_pre_key_used raw_libsignal 1 7 1 [2]
        (store_kyber_prekey 1 7 [3] False empty_omemo_db)))))) = Inl InvalidKyberPreKeyId"
proof (rule one_time_kem_key_never_served_twice)
  show "load_kyber_prekey_meta 1 (id_i64 7) (store_kyber_prekey 1 7 [3] False empty_omemo_db)
      = Some ([3], False, False)"
    by code_simp
qed (rule r_into_rtranclp, rule trait_step.intros)

text \<open>The replay record of one last-resort handshake.\<close>

definition handshake_seen :: "('o, 'z) libsignal_scheme \<Rightarrow> i64 \<Rightarrow> u32 \<Rightarrow> u32 \<Rightarrow> 'o \<Rightarrow> omemo_db \<Rightarrow> bool" where
  "handshake_seen ls a i spk base db =
     kyber_last_resort_session_seen a (id_i64 i) (id_i64 spk) (ls_public_serialize ls base) db"

interpretation last_resort_key: single_use "trait_step ls a" "handshake_seen ls a i spk base"
  "\<lambda>db. (\<exists>rec used. load_kyber_prekey_meta a (id_i64 i) db = Some (rec, used, True)) \<longrightarrow>
     mark_kyber_pre_key_used ls a i spk base db
       = (Inl (InvalidMessage ''kyber last-resort prekey replayed''), db)" for ls a i spk base
proof unfold_locales
  fix db db' assume "trait_step ls a db db'" "handshake_seen ls a i spk base db"
  then show "handshake_seen ls a i spk base db'"
    by (cases rule: trait_stepE)
       (auto simp: handshake_seen_def kyber_last_resort_session_seen_def trait_defs act_simps Let_def
         parts_def store_defs store_simps
         split: sum.split_asm option.split_asm if_split_asm sum.split option.split)
qed (auto simp: handshake_seen_def mark_kyber_pre_key_used_def act_simps Let_def)

text \<open>
  C23: A last-resort KEM pre-key serves each (KEM key, signed pre-key, base key) once: after one
  accepted initiation, and whatever libsignal stores in between, marking the same tuple again
  while the key is still a last-resort key is the replay error, and changes nothing.
\<close>

theorem last_resort_replay_rejected:
  assumes "load_kyber_prekey_meta a (id_i64 i) db = Some (rec, used, True)"
    and "mark_kyber_pre_key_used ls a i spk base db = (Inr (), db1)"
    and "(trait_step ls a)\<^sup>*\<^sup>* db1 db2"
    and "load_kyber_prekey_meta a (id_i64 i) db2 = Some (rec', used', True)"
  shows "mark_kyber_pre_key_used ls a i spk base db2
    = (Inl (InvalidMessage ''kyber last-resort prekey replayed''), db2)"
proof -
  have "handshake_seen ls a i spk base db1"
    using assms(1,2)
    by (auto simp: handshake_seen_def kyber_last_resort_session_seen_def mark_kyber_pre_key_used_def
        act_simps Let_def store_defs store_simps split: if_split_asm)
  from last_resort_key.refused_for_good[OF this assms(3)] assms(4) show ?thesis by blast
qed

theorem last_resort_replay_rejected_witness:
  "fst (mark_kyber_pre_key_used raw_libsignal 1 7 1 [2]
     (snd (mark_kyber_pre_key_used raw_libsignal 1 7 1 [2]
        (store_kyber_prekey 1 7 [3] True empty_omemo_db))))
   = Inl (InvalidMessage ''kyber last-resort prekey replayed'')"
proof -
  define db where "db = store_kyber_prekey 1 7 [3] True empty_omemo_db"
  define db1 where "db1 = snd (mark_kyber_pre_key_used raw_libsignal 1 7 1 [2] db)"
  have 1: "load_kyber_prekey_meta 1 (id_i64 7) db = Some ([3], False, True)"
    unfolding db_def by code_simp
  have "fst (mark_kyber_pre_key_used raw_libsignal 1 7 1 [2] db) = Inr ()"
    unfolding db_def by code_simp
  then have 2: "mark_kyber_pre_key_used raw_libsignal 1 7 1 [2] db = (Inr (), db1)"
    by (metis db1_def prod.collapse)
  have 3: "load_kyber_prekey_meta 1 (id_i64 7) db1 = Some ([3], False, True)"
    unfolding db1_def db_def by code_simp
  from last_resort_replay_rejected[OF 1 2 rtranclp.rtrancl_refl 3] show ?thesis
    by (simp add: db1_def db_def)
qed

text \<open>
  libsignal is told not to trust an identity exactly when the device's stored row holds this
  very key and the user marked it untrusted; a new device and a replaced key are let through, the
  latter to be filed as undecided by \<open>save_identity\<close>.  Asking changes nothing.
\<close>

theorem is_trusted_identity_spec:
  "is_trusted_identity ls a address identity db =
     (Inr (\<not> (\<exists>i. omemo_identity a (pa_name address) (id_i64 (pa_device address)) db = Some i \<and>
         oi_identity_key i = ls_identity_serialize ls identity \<and> oi_trust i = TRUST_UNTRUSTED)), db)"
  by (auto simp: is_trusted_identity_def parts_def act_simps split: option.split)

end
