(* ===== verification/Xml.thy ===== *)
theory Xml
  imports Bytes
begin

text \<open>
  The interface to quick-xml and base64, which are library code.  \<open>qx_read\<close> is the event stream of
  a \<open>Reader\<close> (its flag is \<open>trim_text\<close>): the events up to the end of the text, and the error that
  ended it, if one did.  Attribute lists hold what \<open>attributes().flatten()\<close> yields.
\<close>

record xml_attr =
  xa_key :: string
  xa_value :: string

datatype xml_event =
    EvStart string "xml_attr list"
  | EvEnd string
  | EvEmpty string "xml_attr list"
  | EvText string
  | EvGeneralRef string
  | EvOther

record quick_xml =
  qx_read :: "bool \<Rightarrow> string \<Rightarrow> xml_event list \<times> string option"
  qx_escape :: "string \<Rightarrow> string"
  qx_unescape :: "string \<Rightarrow> string + string"
  qx_decode :: "string \<Rightarrow> string + string"
  qx_normalized :: "string \<Rightarrow> string option"

record base64 =
  b64_encode :: "bytes \<Rightarrow> string"
  b64_decode :: "string \<Rightarrow> string + bytes"

text \<open>What the two libraries promise of a value and its encoding.\<close>

definition b64_sound :: "base64 \<Rightarrow> bool" where
  "b64_sound b \<longleftrightarrow> (\<forall>x. b64_decode b (b64_encode b x) = Inr x \<and>
     str_trim (b64_encode b x) = b64_encode b x \<and> utf8_valid (b64_encode b x))"

definition b64_text_plain :: "quick_xml \<Rightarrow> base64 \<Rightarrow> bool" where
  "b64_text_plain q b \<longleftrightarrow> (\<forall>x. qx_decode q (b64_encode b x) = Inr (b64_encode b x) \<and>
     qx_unescape q (b64_encode b x) = Inr (b64_encode b x))"

definition escape_sound :: "quick_xml \<Rightarrow> bool" where
  "escape_sound q \<longleftrightarrow> (\<forall>s. qx_unescape q (qx_escape q s) = Inr s \<and>
     CHR ''<'' \<notin> set (qx_escape q s) \<and> CHR ''>'' \<notin> set (qx_escape q s))"

text \<open>\<open>e.attributes().flatten().find(|a| a.key.as_ref() == key)\<close>\<close>

definition find_attr :: "string \<Rightarrow> xml_attr list \<Rightarrow> string option" where
  "find_attr key as = map_option xa_value (find (\<lambda>a. xa_key a = key) as)"

lemma find_attr_simps [simp]:
  "find_attr key [] = None"
  "find_attr key (a # as) = (if xa_key a = key then Some (xa_value a) else find_attr key as)"
  by (simp_all add: find_attr_def)

text \<open>A library that encodes bytes as hexadecimal and escapes nothing, to run the definitions on.\<close>

fun toy_unhex :: "string \<Rightarrow> string + bytes" where
  "toy_unhex [] = Inr []"
| "toy_unhex [c] = Inl ''odd''"
| "toy_unhex (c # d # s) =
     (case (hex_digit_val c, hex_digit_val d) of
        (Some x, Some y) \<Rightarrow> res_bind (toy_unhex s) (\<lambda>r. Inr (word_of_nat (16 * x + y) # r))
      | _ \<Rightarrow> Inl ''digit'')"

definition toy_base64 :: base64 where
  "toy_base64 = \<lparr>b64_encode = hex_encode, b64_decode = toy_unhex\<rparr>"

lemma toy_unhex_encode [simp]: "toy_unhex (hex_encode x) = Inr x"
proof (induction x)
  case (Cons w x)
  have "unat w div 16 < 16" and "unat w mod 16 < 16" using unat_u8_bound[of w] by linarith+
  then have "hex_digit_val (hex_char (unat w div 16)) = Some (unat w div 16)"
    and "hex_digit_val (hex_char (unat w mod 16)) = Some (unat w mod 16)" by simp_all
  moreover have "hex_encode (w # x) = hex_char (unat w div 16) # hex_char (unat w mod 16) # hex_encode x"
    by (simp add: hex_encode_def hex_byte_def)
  moreover have "(word_of_nat (16 * (unat w div 16) + unat w mod 16) :: u8) = w" by simp
  ultimately show ?case using Cons by simp
qed (simp add: hex_encode_def)

lemma str_trim_hex:
  assumes "list_all lower_hex s"
  shows "str_trim s = s"
proof (cases "s = []")
  case False
  have a: "list_all is_ascii s" using assms lower_hex_ascii by (auto simp: list_all_iff)
  have ws: "\<not> is_whitespace [c]" if "c \<in> set s" for c
    using that assms
    by (auto simp: list_all_iff lower_hex_def in_range_def is_whitespace_def bytes_of_str_def)
  show ?thesis
    using False ws by (intro str_trim_id) (auto simp: str_chars_ascii[OF a] hd_map last_map)
qed (simp add: str_trim_def drop_ws_end_def)

lemma toy_b64_sound: "b64_sound toy_base64"
proof -
  have "utf8_valid (hex_encode x)" for x
    using hex_encode_lower[of x] lower_hex_ascii by (intro all_ascii_valid) (auto simp: list_all_iff)
  then show ?thesis
    by (simp add: b64_sound_def toy_base64_def str_trim_hex hex_encode_lower)
qed

end
