(* ===== verification/Omemo_Kdf.thy ===== *)
theory Omemo_Kdf
  imports Bytes
begin

text \<open>
  \<open>crates/mxc-omemo/src/session.rs\<close>, the symmetric layer: the context binding, KMAC256 over
  cSHAKE256 with its NIST SP 800-185 encodings, the key commitment and the payload seal.
  cSHAKE256 and AES-256-GCM are library code: the fields of \<open>crypto\<close>.
\<close>

text \<open>
  \<open>cshake c name customization input n\<close> is the first \<open>n\<close> output bytes; the GCM functions take
  key, nonce, associated data and text, and return the library's error text or the result.
\<close>

record crypto =
  cshake :: "bytes \<Rightarrow> bytes \<Rightarrow> bytes \<Rightarrow> nat \<Rightarrow> bytes"
  gcm_encrypt :: "bytes \<Rightarrow> bytes \<Rightarrow> bytes \<Rightarrow> bytes \<Rightarrow> string + bytes"
  gcm_decrypt :: "bytes \<Rightarrow> bytes \<Rightarrow> bytes \<Rightarrow> bytes \<Rightarrow> string + bytes"

text \<open>\<open>OmemoError\<close> of \<open>crates/mxc-omemo/src/lib.rs\<close>\<close>

datatype omemo_error =
    BundleParse string
  | Base64 string
  | BadSignature string
  | NoPqxdh
  | NoPqIdentity
  | PqIdentityChanged string
  | StoreErr string
  | Signal string
  | Aead string

definition MSG_KEY_LEN :: nat where "MSG_KEY_LEN = 32"
definition IV_LEN :: nat where "IV_LEN = 12"
definition TAG_LEN :: nat where "TAG_LEN = 16"
definition KDF_OUTPUT_LEN :: nat where "KDF_OUTPUT_LEN = MSG_KEY_LEN + IV_LEN"
definition COMMIT_LEN :: nat where "COMMIT_LEN = 64"
definition KMAC256_RATE :: nat where "KMAC256_RATE = 136"

definition PAYLOAD_CUSTOMIZATION :: bytes where
  "PAYLOAD_CUSTOMIZATION = str_bytes ''monocles:omemo2:payload:v3''"

definition COMMIT_CUSTOMIZATION :: bytes where
  "COMMIT_CUSTOMIZATION = str_bytes ''monocles:omemo2:key-commitment:v3''"

definition compute_context_binding :: "string \<Rightarrow> string option \<Rightarrow> u32 \<Rightarrow> bytes" where
  "compute_context_binding from to_jid sid =
     (let from_bytes = str_bytes (to_bare from);
          to_bytes = str_bytes (case to_jid of Some j \<Rightarrow> to_bare j | None \<Rightarrow> [])
      in str_bytes ''OMEMO2'' @ [0] @ from_bytes @ [0] @ to_bytes @ [0] @ be32 sid)"

subsection \<open>SP 800-185 encodings\<close>

definition first_significant :: "bytes \<Rightarrow> nat" where
  "first_significant bs = min 7 (length (takeWhile (\<lambda>b. b = 0) bs))"

definition left_encode :: "u64 \<Rightarrow> bytes" where
  "left_encode v =
     (let bs = be64 v; first = first_significant bs in word_of_nat (8 - first) # drop first bs)"

definition right_encode :: "u64 \<Rightarrow> bytes" where
  "right_encode v =
     (let bs = be64 v; first = first_significant bs in drop first bs @ [word_of_nat (8 - first)])"

text \<open>\<open>(s.len() as u64) * 8\<close>\<close>

definition encode_string :: "bytes \<Rightarrow> bytes" where
  "encode_string s = left_encode (word_of_nat (length s) * 8) @ s"

definition div_ceil :: "nat \<Rightarrow> nat \<Rightarrow> nat" where
  "div_ceil a b = (a + b - 1) div b"

definition bytepad :: "bytes \<Rightarrow> nat \<Rightarrow> bytes" where
  "bytepad x w =
     (let prefix = left_encode (word_of_nat w);
          padded_len = div_ceil (length prefix + length x) w * w
      in prefix @ x @ replicate (padded_len - (length prefix + length x)) 0)"

definition kmac_input :: "bytes \<Rightarrow> bytes \<Rightarrow> nat \<Rightarrow> bytes" where
  "kmac_input key data out_len =
     bytepad (encode_string key) KMAC256_RATE @ data @ right_encode (word_of_nat out_len * 8)"

definition kmac256 :: "crypto \<Rightarrow> bytes \<Rightarrow> bytes \<Rightarrow> bytes \<Rightarrow> nat \<Rightarrow> bytes" where
  "kmac256 c key data customization out_len =
     cshake c (str_bytes ''KMAC'') customization (kmac_input key data out_len) out_len"

subsection \<open>Commitment, seal and open\<close>

definition omemo2_key_commitment :: "crypto \<Rightarrow> bytes \<Rightarrow> bytes \<Rightarrow> bytes" where
  "omemo2_key_commitment c message_key binding =
     kmac256 c message_key binding COMMIT_CUSTOMIZATION COMMIT_LEN"

definition ct_eq :: "bytes \<Rightarrow> bytes \<Rightarrow> bool" where
  "ct_eq a b =
     (if length a \<noteq> length b then False
      else foldl (\<lambda>diff (x, y). or diff (xor x y)) 0 (zip a b) = (0 :: u8))"

definition derive_payload_keys :: "crypto \<Rightarrow> bytes \<Rightarrow> bytes \<Rightarrow> bytes \<times> bytes" where
  "derive_payload_keys c message_key binding =
     (let okm = kmac256 c message_key binding PAYLOAD_CUSTOMIZATION KDF_OUTPUT_LEN
      in (take MSG_KEY_LEN okm, take (KDF_OUTPUT_LEN - MSG_KEY_LEN) (drop MSG_KEY_LEN okm)))"

definition map_err :: "('e \<Rightarrow> 'f) \<Rightarrow> 'e + 'a \<Rightarrow> 'f + 'a" where
  "map_err f r = (case r of Inl e \<Rightarrow> Inl (f e) | Inr x \<Rightarrow> Inr x)"

lemma map_err_simps [simp]:
  "map_err f (Inl e) = Inl (f e)"
  "map_err f (Inr x) = Inr x"
  by (simp_all add: map_err_def)

lemma map_err_Inr_iff [simp]: "map_err f r = Inr x \<longleftrightarrow> r = Inr x"
  by (cases r) simp_all

definition omemo2_seal ::
  "crypto \<Rightarrow> bytes \<Rightarrow> bytes \<Rightarrow> string \<Rightarrow> string option \<Rightarrow> u32 \<Rightarrow> omemo_error + bytes" where
  "omemo2_seal c message_key plaintext from to_jid sid =
     (let binding = compute_context_binding from to_jid sid;
          (enc_key, iv) = derive_payload_keys c message_key binding
      in map_err Aead (gcm_encrypt c enc_key iv binding plaintext))"

definition omemo2_open ::
  "crypto \<Rightarrow> bytes \<Rightarrow> bytes \<Rightarrow> string \<Rightarrow> string option \<Rightarrow> u32 \<Rightarrow> bytes option \<Rightarrow> omemo_error + bytes" where
  "omemo2_open c message_key payload from to_jid sid commit =
     (if length payload < TAG_LEN then Inl (Aead ''payload shorter than GCM tag'')
      else
        (let binding = compute_context_binding from to_jid sid;
             expected = omemo2_key_commitment c message_key binding
         in if \<not> (case commit of Some d \<Rightarrow> ct_eq d expected | None \<Rightarrow> False)
            then Inl (Aead ''OMEMO2 key commitment missing or mismatched'')
            else (let (enc_key, iv) = derive_payload_keys c message_key binding
                  in map_err (\<lambda>_. Aead ''OMEMO2 GCM authentication failed'')
                       (gcm_decrypt c enc_key iv binding payload))))"

text \<open>\<open>(rng.next_u32() & 0x7fff_ffff).max(1)\<close>\<close>

definition device_id_of_random :: "u32 \<Rightarrow> u32" where
  "device_id_of_random r = max (and r 0x7fffffff) 1"

subsection \<open>Constant-time comparison\<close>

lemma or_zero_iff: "or x y = (0 :: 'a :: len word) \<longleftrightarrow> x = 0 \<and> y = 0"
  by (auto simp: or_eq_0_iff)

lemma xor_zero_iff: "xor x y = (0 :: 'a :: len word) \<longleftrightarrow> x = y"
  by (auto simp: xor_self_eq) (metis xor.assoc xor.right_neutral xor_self_eq xor.left_neutral)

lemma ct_eq_loop:
  "foldl (\<lambda>diff (x, y). or diff (xor x y)) d ps = (0 :: 'a :: len word) \<longleftrightarrow>
     d = 0 \<and> list_all (\<lambda>(x, y). x = y) ps"
proof (induction ps arbitrary: d)
  case (Cons p ps)
  obtain x y where p: "p = (x, y)" by fastforce
  have "or d (xor x y) = 0 \<longleftrightarrow> d = 0 \<and> x = y"
    by (simp only: or_zero_iff xor_zero_iff)
  with Cons.IH[of "or d (xor x y)"] show ?case by (simp add: p)
qed simp

lemma ct_eq_true [simp]: "ct_eq a b \<longleftrightarrow> a = b"
proof (cases "length a = length b")
  case True
  then have "list_all (\<lambda>(x, y). x = y) (zip a b) \<longleftrightarrow> a = b"
    by (induction a b rule: list_induct2) auto
  with True show ?thesis by (simp add: ct_eq_def ct_eq_loop)
qed (auto simp: ct_eq_def)

text \<open>A generated device id is a positive 31-bit integer, whatever the generator returned.\<close>

theorem device_id_range: "0 < device_id_of_random r \<and> device_id_of_random r < 2 ^ 31"
proof -
  have "and r 0x7fffffff = take_bit 31 r" by (simp add: take_bit_eq_mask mask_numeral)
  moreover have "take_bit 31 r < 2 ^ 31" 
    by (simp add: word_less_nat_alt unsigned_take_bit_eq) (use take_bit_nat_less_exp[of 31] in simp)
  ultimately show ?thesis
    by (auto simp: device_id_of_random_def max_def not_le word_gt_0 split: if_splits)
qed


subsection \<open>The encodings are unambiguous\<close>

lemma first_significant_le: "first_significant bs \<le> 7"
  by (simp add: first_significant_def)

lemma leading_zeros: "take (first_significant bs) bs = replicate (first_significant bs) 0"
  if "7 \<le> length bs" for bs :: bytes
proof (rule nth_equalityI)
  fix i assume i: "i < length (take (first_significant bs) bs)"
  then have "i < length (takeWhile (\<lambda>b. b = 0) bs)" by (simp add: first_significant_def)
  then have "takeWhile (\<lambda>b. b = 0) bs ! i = bs ! i"
    and "takeWhile (\<lambda>b. b = 0) bs ! i \<in> set (takeWhile (\<lambda>b. b = 0) bs)"
    by (rule takeWhile_nth, rule nth_mem)
  then have "bs ! i = 0" using in_set_takeWhile[of "bs ! i" "\<lambda>b. b = 0" bs] by simp
  with i show "take (first_significant bs) bs ! i = replicate (first_significant bs) 0 ! i" by simp
qed (use that first_significant_le[of bs] in simp)

lemma left_encode_prefix_free:
  assumes "left_encode v @ x = left_encode u @ y"
  shows "v = u \<and> x = y"
proof -
  let ?f = "first_significant (be64 v)" and ?g = "first_significant (be64 u)"
  have "(word_of_nat (8 - ?f) :: u8) = word_of_nat (8 - ?g)"
    and rest: "drop ?f (be64 v) @ x = drop ?g (be64 u) @ y"
    using assms by (simp_all add: left_encode_def Let_def)
  then have "(8 - ?f) mod 256 = (8 - ?g) mod 256" by (metis unat_word_of_nat_u8)
  then have fg: "?f = ?g"
    using first_significant_le[of "be64 v"] first_significant_le[of "be64 u"] by simp
  with rest have "drop ?f (be64 v) = drop ?f (be64 u)" and xy: "x = y"
    by (simp_all add: append_eq_append_conv)
  moreover have "take ?f (be64 v) = take ?f (be64 u)"
    using leading_zeros[of "be64 v"] leading_zeros[of "be64 u"] fg by simp
  ultimately have "be64 v = be64 u" by (metis append_take_drop_id)
  with xy show ?thesis by simp
qed

lemma bit_length_inj:
  assumes "m < 2 ^ 61" "n < 2 ^ 61" and "(word_of_nat m :: u64) * 8 = word_of_nat n * 8"
  shows "m = n"
proof -
  have "(word_of_nat (m * 8) :: u64) = word_of_nat (n * 8)" using assms(3) by simp
  then have "unat (word_of_nat (m * 8) :: u64) = unat (word_of_nat (n * 8) :: u64)" by simp
  with assms(1,2) show ?thesis by (simp add: unsigned_of_nat take_bit_nat_eq_self del: of_nat_mult)
qed

lemma encode_string_prefix_free:
  assumes "length s < 2 ^ 61" "length t < 2 ^ 61"
    and "encode_string s @ x = encode_string t @ y"
  shows "s = t \<and> x = y"
proof -
  from assms(3) have "(word_of_nat (length s) :: u64) * 8 = word_of_nat (length t) * 8"
    and rest: "s @ x = t @ y"
    using left_encode_prefix_free by (fastforce simp: encode_string_def)+
  then have "length s = length t" using bit_length_inj assms(1,2) by blast
  with rest show ?thesis by simp
qed

lemma kmac_input_unambiguous_aux:
  assumes "length key < 2 ^ 61" "length key' < 2 ^ 61"
    and "kmac_input key data n = kmac_input key' data' n"
  shows "key = key' \<and> data = data'"
proof -
  define pad where "pad k = (let p = left_encode (word_of_nat KMAC256_RATE); x = encode_string k in
    replicate (div_ceil (length p + length x) KMAC256_RATE * KMAC256_RATE - (length p + length x)) 0 :: bytes)" for k
  have unfold: "kmac_input k d n = left_encode (word_of_nat KMAC256_RATE) @
      encode_string k @ pad k @ d @ right_encode (word_of_nat n * 8)" for k d
    by (simp add: kmac_input_def bytepad_def pad_def Let_def)
  from assms(3) have "encode_string key @ pad key @ data @ right_encode (word_of_nat n * 8) =
      encode_string key' @ pad key' @ data' @ right_encode (word_of_nat n * 8)"
    unfolding unfold by simp
  from encode_string_prefix_free[OF assms(1,2) this] show ?thesis by auto
qed

lemma split_at_zero:
  "0 \<notin> set a \<Longrightarrow> 0 \<notin> set b \<Longrightarrow> a @ 0 # x = b @ 0 # y \<Longrightarrow> a = b \<and> x = (y :: bytes)"
  by (induction a arbitrary: b) (auto simp: Cons_eq_append_conv append_eq_Cons_conv)

text \<open>
  The context binding names its context: for addresses without NUL bytes, two bindings are
  equal exactly when the bare sender, the bare recipient (none counts as empty) and the sender's
  device agree.
\<close>

theorem context_binding_unambiguous:
  assumes "CHR 0x00 \<notin> set from" "CHR 0x00 \<notin> set from'"
    and "case to_jid of Some j \<Rightarrow> CHR 0x00 \<notin> set j | None \<Rightarrow> True"
    and "case to_jid' of Some j \<Rightarrow> CHR 0x00 \<notin> set j | None \<Rightarrow> True"
  shows "compute_context_binding from to_jid sid = compute_context_binding from' to_jid' sid' \<longleftrightarrow>
    to_bare from = to_bare from' \<and>
    (case to_jid of Some j \<Rightarrow> to_bare j | None \<Rightarrow> []) = (case to_jid' of Some j \<Rightarrow> to_bare j | None \<Rightarrow> []) \<and>
    sid = sid'"
proof
  define T where "T t = (case t of Some j \<Rightarrow> to_bare j | None \<Rightarrow> [])" for t :: "string option"
  have bare: "0 \<notin> set (str_bytes (to_bare j))" if "CHR 0x00 \<notin> set j" for j
    using that by (auto simp: zero_in_str_bytes to_bare_def dest: set_takeWhileD)
  have tz: "0 \<notin> set (str_bytes (T to_jid))" "0 \<notin> set (str_bytes (T to_jid'))"
    using assms(3,4) bare by (auto simp: T_def str_bytes_def split: option.splits)
  assume "compute_context_binding from to_jid sid = compute_context_binding from' to_jid' sid'"
  then have eq: "str_bytes (to_bare from) @ 0 # str_bytes (T to_jid) @ 0 # be32 sid =
      str_bytes (to_bare from') @ 0 # str_bytes (T to_jid') @ 0 # be32 sid'"
    by (simp add: compute_context_binding_def T_def Let_def)
  from split_at_zero[OF bare[OF assms(1)] bare[OF assms(2)] eq]
  have f: "to_bare from = to_bare from'"
    and eq2: "str_bytes (T to_jid) @ 0 # be32 sid = str_bytes (T to_jid') @ 0 # be32 sid'"
    by simp_all
  from split_at_zero[OF tz eq2] f
  show "to_bare from = to_bare from' \<and>
    (case to_jid of Some j \<Rightarrow> to_bare j | None \<Rightarrow> []) = (case to_jid' of Some j \<Rightarrow> to_bare j | None \<Rightarrow> []) \<and>
    sid = sid'"
    by (simp add: T_def)
qed (simp add: compute_context_binding_def)

theorem context_binding_unambiguous_witness:
  "compute_context_binding ''a@b/r'' None 7 = compute_context_binding ''a@b/s'' (Some []) 7 \<longleftrightarrow>
    to_bare ''a@b/r'' = to_bare ''a@b/s'' \<and>
    (case None of Some j \<Rightarrow> to_bare j | None \<Rightarrow> []) = (case Some [] of Some j \<Rightarrow> to_bare j | None \<Rightarrow> []) \<and>
    (7 :: u32) = 7"
  by (rule context_binding_unambiguous) simp_all

subsection \<open>Sealed payloads\<close>

text \<open>What AES-256-GCM promises: decryption undoes encryption, and the tag is 16 bytes.\<close>

definition gcm_sound :: "crypto \<Rightarrow> bool" where
  "gcm_sound c \<longleftrightarrow> (\<forall>k iv aad m ct. gcm_encrypt c k iv aad m = Inr ct \<longrightarrow>
     gcm_decrypt c k iv aad ct = Inr m \<and> length ct = length m + TAG_LEN)"

text \<open>
  A sealed payload opens: with the commitment the sender publishes, under the same message key
  and for addresses with the same bare forms, \<open>omemo2_open\<close> returns the plaintext.
\<close>

theorem seal_open_roundtrip:
  assumes "gcm_sound c"
    and "omemo2_seal c mk plaintext from to_jid sid = Inr payload"
    and "to_bare from' = to_bare from" and "map_option to_bare to_jid' = map_option to_bare to_jid"
  shows "omemo2_open c mk payload from' to_jid' sid
      (Some (omemo2_key_commitment c mk (compute_context_binding from to_jid sid))) = Inr plaintext"
proof -
  let ?b = "compute_context_binding from to_jid sid"
  have "(case to_jid' of Some j \<Rightarrow> to_bare j | None \<Rightarrow> []) = (case to_jid of Some j \<Rightarrow> to_bare j | None \<Rightarrow> [])"
    using assms(4) by (cases to_jid; cases to_jid') auto
  with assms(3) have b: "compute_context_binding from' to_jid' sid = ?b"
    by (simp add: compute_context_binding_def)
  obtain k iv where keys: "derive_payload_keys c mk ?b = (k, iv)" by fastforce
  with assms(2) have "gcm_encrypt c k iv ?b plaintext = Inr payload"
    by (simp add: omemo2_seal_def)
  with assms(1) have "gcm_decrypt c k iv ?b payload = Inr plaintext"
    and "TAG_LEN \<le> length payload"
    unfolding gcm_sound_def by (blast, metis le_add2)
  with b keys show ?thesis by (simp add: omemo2_open_def ct_eq_true Let_def)
qed

text \<open>A cipher that satisfies the promise, to run the definitions on.\<close>

definition toy_crypto :: crypto where
  "toy_crypto = \<lparr>cshake = (\<lambda>name s x n. take n (x @ replicate n 0)),
     gcm_encrypt = (\<lambda>k iv aad m. Inr (m @ replicate 16 0)),
     gcm_decrypt = (\<lambda>k iv aad ct. Inr (take (length ct - 16) ct))\<rparr>"

lemma toy_gcm_sound: "gcm_sound toy_crypto"
  by (auto simp: gcm_sound_def toy_crypto_def TAG_LEN_def)

theorem seal_open_roundtrip_witness:
  "omemo2_open toy_crypto [9] ([1, 2] @ replicate 16 0) ''a@b/x'' None 7
     (Some (omemo2_key_commitment toy_crypto [9] (compute_context_binding ''a@b'' None 7))) = Inr [1, 2]"
proof (rule seal_open_roundtrip[OF toy_gcm_sound])
  show "omemo2_seal toy_crypto [9] [1, 2] ''a@b'' None 7 = Inr ([1, 2] @ replicate 16 0)"
    by (simp add: omemo2_seal_def toy_crypto_def case_prod_beta)
qed (simp_all add: to_bare_def)

lemma open_commits:
  assumes "omemo2_open c mk payload from to_jid sid commit = Inr p"
  shows "commit = Some (omemo2_key_commitment c mk (compute_context_binding from to_jid sid))"
  using assms
  by (auto simp: omemo2_open_def ct_eq_true Let_def split: if_split_asm option.split_asm)

text \<open>
  C30: The scheme is key-committing: two payloads that open under the same published commitment open
  under the same message key and context binding, or else the two KMAC inputs are a collision of
  cSHAKE256.  In particular a payload never opens without a commitment.
\<close>

theorem open_is_key_committing:
  assumes "omemo2_open c mk payload from to_jid sid commit = Inr p"
    and "omemo2_open c mk' payload' from' to_jid' sid' commit = Inr p'"
    and "length mk < 2 ^ 61" "length mk' < 2 ^ 61"
  defines "b \<equiv> compute_context_binding from to_jid sid"
    and "b' \<equiv> compute_context_binding from' to_jid' sid'"
  shows "commit \<noteq> None \<and> ((mk = mk' \<and> b = b') \<or>
    (kmac_input mk b COMMIT_LEN \<noteq> kmac_input mk' b' COMMIT_LEN \<and>
     cshake c (str_bytes ''KMAC'') COMMIT_CUSTOMIZATION (kmac_input mk b COMMIT_LEN) COMMIT_LEN
       = cshake c (str_bytes ''KMAC'') COMMIT_CUSTOMIZATION (kmac_input mk' b' COMMIT_LEN) COMMIT_LEN))"
proof -
  have "commit = Some (omemo2_key_commitment c mk b)" "commit = Some (omemo2_key_commitment c mk' b')"
    using open_commits[OF assms(1)] open_commits[OF assms(2)] by (simp_all add: b_def b'_def)
  moreover have "kmac_input mk b COMMIT_LEN = kmac_input mk' b' COMMIT_LEN \<Longrightarrow> mk = mk' \<and> b = b'"
    using kmac_input_unambiguous_aux assms(3,4) by blast
  ultimately show ?thesis by (auto simp: omemo2_key_commitment_def kmac256_def)
qed


theorem open_is_key_committing_witness:
  "\<exists>commit. omemo2_open toy_crypto [9] ([1] @ replicate 16 0) ''a@b'' None 7 commit = Inr [1] \<and> commit \<noteq> None"
proof -
  define commit where
    "commit = Some (omemo2_key_commitment toy_crypto [9] (compute_context_binding ''a@b'' None 7))"
  have dec: "gcm_decrypt toy_crypto k iv aad ([1] @ replicate 16 0) = Inr [1]" for k iv aad
    by (simp add: toy_crypto_def)
  have opens: "omemo2_open toy_crypto [9] ([1] @ replicate 16 0) ''a@b'' None 7 commit = Inr [1]"
    unfolding omemo2_open_def Let_def case_prod_beta dec by (simp add: commit_def ct_eq_true TAG_LEN_def)
  from open_is_key_committing[OF opens opens] opens show ?thesis by auto
qed

end
