(* ===== verification/Bundle.thy ===== *)
theory Bundle
  imports Xml Omemo_Kdf
begin

text \<open>
  \<open>crates/mxc-omemo/src/bundle.rs\<close>: the published key bundle and its XML.  \<open>to_xml\<close> writes the
  text, \<open>from_xml\<close> is a loop over quick-xml events.
\<close>

definition NS_OMEMO2 :: string where "NS_OMEMO2 = ''urn:monocles:omemo-pq:1''"

definition ML_KEM_1024_TAG :: u8 where "ML_KEM_1024_TAG = 0x0A"

definition is_ml_kem_1024 :: "bytes \<Rightarrow> bool" where
  "is_ml_kem_1024 serialized_key = (case serialized_key of b # _ \<Rightarrow> b = ML_KEM_1024_TAG | [] \<Rightarrow> False)"

record kem_prekey =
  kp_id :: u32
  kp_key :: bytes
  kp_sig :: bytes

record omemo_bundle =
  b_spk_id :: u32
  b_spk :: bytes
  b_spk_sig :: bytes
  b_ik :: bytes
  b_prekeys :: "(u32 \<times> bytes) list"
  b_kem_spk_id :: u32
  b_kem_spk :: bytes
  b_kem_spk_sig :: bytes
  b_kem_prekeys :: "kem_prekey list"
  b_pq_ik :: bytes
  b_pq_sig :: bytes

definition supports_pqxdh :: "omemo_bundle \<Rightarrow> bool" where
  "supports_pqxdh b = (b_kem_spk b \<noteq> [])"

definition has_pq_identity :: "omemo_bundle \<Rightarrow> bool" where
  "has_pq_identity b = (b_pq_ik b \<noteq> [] \<and> b_pq_sig b \<noteq> [])"

definition show_u32 :: "u32 \<Rightarrow> string" where
  "show_u32 w = show_nat (unat w)"

text \<open>\<open>format!("<name>{}</name>", text)\<close> and the same with an \<open>id\<close>.\<close>

definition elem :: "string \<Rightarrow> string \<Rightarrow> string" where
  "elem name text = ''<'' @ name @ ''>'' @ text @ ''</'' @ name @ ''>''"

definition elem_id :: "string \<Rightarrow> u32 \<Rightarrow> string \<Rightarrow> string" where
  "elem_id name i text = ''<'' @ name @ '' id='' @ [CHR 0x27] @ show_u32 i @ [CHR 0x27] @ ''>'' @ text @ ''</'' @ name @ ''>''"

definition kem_pk_xml :: "base64 \<Rightarrow> kem_prekey \<Rightarrow> string" where
  "kem_pk_xml c kp = ''<kem-pk id='' @ [CHR 0x27] @ show_u32 (kp_id kp) @ [CHR 0x27] @ '' sig='' @ [CHR 0x27]
     @ b64_encode c (kp_sig kp) @ [CHR 0x27] @ ''>'' @ b64_encode c (kp_key kp) @ ''</kem-pk>''"

definition bundle_to_xml :: "base64 \<Rightarrow> omemo_bundle \<Rightarrow> string" where
  "bundle_to_xml c b =
     ''<bundle xmlns='' @ [CHR 0x27] @ NS_OMEMO2 @ [CHR 0x27] @ ''>''
     @ elem_id ''spk'' (b_spk_id b) (b64_encode c (b_spk b))
     @ elem ''spks'' (b64_encode c (b_spk_sig b))
     @ elem ''ik'' (b64_encode c (b_ik b))
     @ ''<prekeys>''
     @ concat (map (\<lambda>(i, pk). elem_id ''pk'' i (b64_encode c pk)) (b_prekeys b))
     @ ''</prekeys>''
     @ elem_id ''kem-spk'' (b_kem_spk_id b) (b64_encode c (b_kem_spk b))
     @ elem ''kem-spks'' (b64_encode c (b_kem_spk_sig b))
     @ ''<kem-prekeys>''
     @ concat (map (kem_pk_xml c) (b_kem_prekeys b))
     @ ''</kem-prekeys>''
     @ (if has_pq_identity b
        then ''<pq-ik type='' @ [CHR 0x27] @ ''ML-DSA-87'' @ [CHR 0x27] @ ''>'' @ b64_encode c (b_pq_ik b) @ ''</pq-ik>''
             @ elem ''pq-sig'' (b64_encode c (b_pq_sig b))
        else [])
     @ ''</bundle>''"

subsection \<open>Parsing\<close>

definition decode_b64 :: "base64 \<Rightarrow> string \<Rightarrow> omemo_error + bytes" where
  "decode_b64 c s = map_err Base64 (b64_decode c (str_trim s))"

definition attr_u32 :: "string \<Rightarrow> xml_attr list \<Rightarrow> u32 option" where
  "attr_u32 key as =
     Option.bind (find_attr key as) (\<lambda>v. if utf8_valid v then parse_u32 v else None)"

definition attr_b64 :: "base64 \<Rightarrow> string \<Rightarrow> xml_attr list \<Rightarrow> omemo_error + bytes option" where
  "attr_b64 c key as =
     (case find_attr key as of
        None \<Rightarrow> Inr None
      | Some v \<Rightarrow> if utf8_valid v then res_bind (decode_b64 c v) (\<lambda>d. Inr (Some d))
                  else Inl (BundleParse ''invalid utf-8''))"

record bundle_state =
  bs_bundle :: omemo_bundle
  bs_cur :: string
  bs_cur_id :: "u32 option"
  bs_cur_sig :: "bytes option"

definition empty_bundle :: omemo_bundle where
  "empty_bundle = \<lparr>b_spk_id = 0, b_spk = [], b_spk_sig = [], b_ik = [], b_prekeys = [], b_kem_spk_id = 0,
     b_kem_spk = [], b_kem_spk_sig = [], b_kem_prekeys = [], b_pq_ik = [], b_pq_sig = []\<rparr>"

definition or_zero :: "u32 option \<Rightarrow> u32" where
  "or_zero i = (case i of Some w \<Rightarrow> w | None \<Rightarrow> 0)"

text \<open>The \<open>match cur.as_slice()\<close> on a decoded text.\<close>

definition collect_text :: "string \<Rightarrow> u32 option \<Rightarrow> bytes option \<Rightarrow> bytes \<Rightarrow> omemo_bundle \<Rightarrow> omemo_bundle" where
  "collect_text cur cur_id cur_sig raw b =
     (if cur = ''spk'' then b\<lparr>b_spk := raw, b_spk_id := or_zero cur_id\<rparr>
      else if cur = ''spks'' then b\<lparr>b_spk_sig := raw\<rparr>
      else if cur = ''ik'' then b\<lparr>b_ik := raw\<rparr>
      else if cur = ''pk'' then b\<lparr>b_prekeys := b_prekeys b @ [(or_zero cur_id, raw)]\<rparr>
      else if cur = ''kem-spk'' then b\<lparr>b_kem_spk := raw, b_kem_spk_id := or_zero cur_id\<rparr>
      else if cur = ''kem-spks'' then b\<lparr>b_kem_spk_sig := raw\<rparr>
      else if cur = ''kem-pk'' \<and> is_ml_kem_1024 raw then
        b\<lparr>b_kem_prekeys := b_kem_prekeys b @
            [\<lparr>kp_id = or_zero cur_id, kp_key = raw,
              kp_sig = (case cur_sig of Some s \<Rightarrow> s | None \<Rightarrow> [])\<rparr>]\<rparr>
      else if cur = ''pq-ik'' then b\<lparr>b_pq_ik := raw\<rparr>
      else if cur = ''pq-sig'' then b\<lparr>b_pq_sig := raw\<rparr>
      else b)"

definition bundle_event :: "quick_xml \<Rightarrow> base64 \<Rightarrow> xml_event \<Rightarrow> bundle_state \<Rightarrow> omemo_error + bundle_state" where
  "bundle_event q c ev st =
     (case ev of
        EvStart name as \<Rightarrow>
          res_bind (attr_b64 c ''sig'' as) (\<lambda>sig.
            Inr (st\<lparr>bs_cur := name, bs_cur_id := attr_u32 ''id'' as, bs_cur_sig := sig\<rparr>))
      | EvText t \<Rightarrow>
          res_bind (map_err BundleParse (qx_decode q t)) (\<lambda>decoded.
          res_bind (map_err BundleParse (qx_unescape q decoded)) (\<lambda>txt.
          res_bind (decode_b64 c (str_trim txt)) (\<lambda>raw.
            Inr (st\<lparr>bs_bundle := collect_text (bs_cur st) (bs_cur_id st) (bs_cur_sig st) raw (bs_bundle st)\<rparr>))))
      | _ \<Rightarrow> Inr st)"

fun bundle_loop :: "quick_xml \<Rightarrow> base64 \<Rightarrow> xml_event list \<Rightarrow> bundle_state \<Rightarrow> omemo_error + bundle_state" where
  "bundle_loop q c [] st = Inr st"
| "bundle_loop q c (ev # evs) st = res_bind (bundle_event q c ev st) (bundle_loop q c evs)"

definition check_bundle :: "omemo_bundle \<Rightarrow> omemo_error + omemo_bundle" where
  "check_bundle b =
     (if b_ik b = [] \<or> b_spk b = [] then Inl (BundleParse ''missing <ik> or <spk>'')
      else if \<not> supports_pqxdh b then Inl NoPqxdh
      else if \<not> is_ml_kem_1024 (b_kem_spk b) then
        Inl (BundleParse ''<kem-spk> is not ML-KEM-1024 (FIPS 203); refusing to downgrade'')
      else if \<not> has_pq_identity b then Inl NoPqIdentity
      else Inr b)"

definition bundle_from_xml :: "quick_xml \<Rightarrow> base64 \<Rightarrow> string \<Rightarrow> omemo_error + omemo_bundle" where
  "bundle_from_xml q c xml =
     (let (evs, failed) = qx_read q True xml in
      res_bind (bundle_loop q c evs
          \<lparr>bs_bundle = empty_bundle, bs_cur = [], bs_cur_id = None, bs_cur_sig = None\<rparr>) (\<lambda>st.
        case failed of Some e \<Rightarrow> Inl (BundleParse e) | None \<Rightarrow> check_bundle (bs_bundle st)))"


subsection \<open>What an accepted bundle holds\<close>

text \<open>A one-time KEM key is collected only when it is ML-KEM-1024.\<close>

definition kem_keys_ok :: "omemo_bundle \<Rightarrow> bool" where
  "kem_keys_ok b \<longleftrightarrow> list_all (\<lambda>kp. is_ml_kem_1024 (kp_key kp)) (b_kem_prekeys b)"

lemma collect_text_kem_ok: "kem_keys_ok b \<Longrightarrow> kem_keys_ok (collect_text cur i sig raw b)"
  by (auto simp: collect_text_def kem_keys_ok_def)

lemma bundle_event_kem_ok:
  "bundle_event q c ev st = Inr st' \<Longrightarrow> kem_keys_ok (bs_bundle st) \<Longrightarrow> kem_keys_ok (bs_bundle st')"
  by (auto simp: bundle_event_def res_bind_Inr_iff collect_text_kem_ok split: xml_event.split_asm)

lemma bundle_loop_kem_ok:
  "bundle_loop q c evs st = Inr st' \<Longrightarrow> kem_keys_ok (bs_bundle st) \<Longrightarrow> kem_keys_ok (bs_bundle st')"
  by (induction evs arbitrary: st) (auto simp: res_bind_Inr_iff dest: bundle_event_kem_ok)

text \<open>
  No bundle is ever accepted below the profile: whatever text a server returns and however it is
  tokenized, a parsed bundle has the classical identity and signed pre-key, a last-resort KEM key
  and only one-time KEM keys tagged ML-KEM-1024 (never Round-3 Kyber), and the post-quantum
  identity with its signature.
\<close>

theorem bundle_from_xml_no_downgrade:
  assumes "bundle_from_xml q c xml = Inr b"
  shows "b_ik b \<noteq> [] \<and> b_spk b \<noteq> [] \<and> supports_pqxdh b \<and> has_pq_identity b \<and>
    is_ml_kem_1024 (b_kem_spk b) \<and> (\<forall>kp \<in> set (b_kem_prekeys b). is_ml_kem_1024 (kp_key kp))"
proof -
  from assms obtain evs st where
    loop: "bundle_loop q c evs \<lparr>bs_bundle = empty_bundle, bs_cur = [], bs_cur_id = None, bs_cur_sig = None\<rparr> = Inr st"
    and check: "check_bundle (bs_bundle st) = Inr b"
    by (auto simp: bundle_from_xml_def res_bind_Inr_iff split: prod.split_asm option.split_asm)
  from check have "b = bs_bundle st" by (auto simp: check_bundle_def split: if_split_asm)
  moreover have "kem_keys_ok (bs_bundle st)"
    using bundle_loop_kem_ok[OF loop] by (simp add: kem_keys_ok_def empty_bundle_def)
  ultimately show ?thesis
    using check by (auto simp: check_bundle_def kem_keys_ok_def list_all_iff split: if_split_asm)
qed

subsection \<open>Writing and reading a bundle\<close>

definition id_attr :: "u32 \<Rightarrow> xml_attr" where
  "id_attr i = \<lparr>xa_key = ''id'', xa_value = show_u32 i\<rparr>"

definition field_events :: "base64 \<Rightarrow> string \<Rightarrow> xml_attr list \<Rightarrow> bytes \<Rightarrow> xml_event list" where
  "field_events c name as bs = [EvStart name as, EvText (b64_encode c bs), EvEnd name]"

definition kem_pk_events :: "base64 \<Rightarrow> kem_prekey \<Rightarrow> xml_event list" where
  "kem_pk_events c kp = field_events c ''kem-pk''
     [id_attr (kp_id kp), \<lparr>xa_key = ''sig'', xa_value = b64_encode c (kp_sig kp)\<rparr>] (kp_key kp)"

text \<open>The elements of \<open>bundle_to_xml\<close>, as a reader of well-formed XML delivers them.\<close>

definition bundle_events :: "base64 \<Rightarrow> omemo_bundle \<Rightarrow> xml_event list" where
  "bundle_events c b =
     EvStart ''bundle'' [\<lparr>xa_key = ''xmlns'', xa_value = NS_OMEMO2\<rparr>]
     # field_events c ''spk'' [id_attr (b_spk_id b)] (b_spk b)
     @ field_events c ''spks'' [] (b_spk_sig b)
     @ field_events c ''ik'' [] (b_ik b)
     @ EvStart ''prekeys'' []
     # concat (map (\<lambda>(i, pk). field_events c ''pk'' [id_attr i] pk) (b_prekeys b))
     @ EvEnd ''prekeys''
     # field_events c ''kem-spk'' [id_attr (b_kem_spk_id b)] (b_kem_spk b)
     @ field_events c ''kem-spks'' [] (b_kem_spk_sig b)
     @ EvStart ''kem-prekeys'' []
     # concat (map (kem_pk_events c) (b_kem_prekeys b))
     @ EvEnd ''kem-prekeys''
     # field_events c ''pq-ik'' [\<lparr>xa_key = ''type'', xa_value = ''ML-DSA-87''\<rparr>] (b_pq_ik b)
     @ field_events c ''pq-sig'' [] (b_pq_sig b)
     @ [EvEnd ''bundle'']"

lemma attr_u32_id [simp]: "attr_u32 ''id'' (id_attr i # as) = Some i"
proof -
  have "utf8_valid (show_nat (unat i))" by (rule all_ascii_valid) (rule show_nat_ascii)
  moreover have "parse_unsigned 32 (show_nat (unat i)) = Some (unat i)"
    using unat_u32_bound[of i] by (intro parse_unsigned_show_nat)
  ultimately show ?thesis by (simp add: attr_u32_def id_attr_def show_u32_def parse_u32_def)
qed

lemma bundle_loop_append:
  "bundle_loop q c (xs @ ys) st = res_bind (bundle_loop q c xs st) (bundle_loop q c ys)"
proof (induction xs arbitrary: st)
  case (Cons x xs)
  then show ?case by (cases "bundle_event q c x st") simp_all
qed simp

lemma decode_own: "b64_sound c \<Longrightarrow> decode_b64 c (b64_encode c x) = Inr x"
  by (simp add: decode_b64_def b64_sound_def)

lemma attr_b64_own:
  "b64_sound c \<Longrightarrow>
   attr_b64 c ''sig'' [id_attr i, \<lparr>xa_key = ''sig'', xa_value = b64_encode c x\<rparr>] = Inr (Some x)"
  by (simp add: attr_b64_def id_attr_def b64_sound_def decode_b64_def)

lemma attr_b64_none [simp]:
  "attr_b64 c ''sig'' [] = Inr None"
  "attr_b64 c ''sig'' [id_attr i] = Inr None"
  "attr_b64 c ''sig'' [\<lparr>xa_key = ''xmlns'', xa_value = v\<rparr>] = Inr None"
  "attr_b64 c ''sig'' [\<lparr>xa_key = ''type'', xa_value = v\<rparr>] = Inr None"
  by (simp_all add: attr_b64_def id_attr_def)

text \<open>The state after one element: the context of its start tag, and its text collected.\<close>

definition after_field ::
  "string \<Rightarrow> u32 option \<Rightarrow> bytes option \<Rightarrow> bytes \<Rightarrow> bundle_state \<Rightarrow> bundle_state" where
  "after_field name i sig bs st = \<lparr>bs_bundle = collect_text name i sig bs (bs_bundle st),
     bs_cur = name, bs_cur_id = i, bs_cur_sig = sig\<rparr>"

lemma loop_field:
  assumes "b64_sound c" "b64_text_plain q c" "attr_b64 c ''sig'' as = Inr sig"
  shows "bundle_loop q c (field_events c name as bs @ evs) st
    = bundle_loop q c evs (after_field name (attr_u32 ''id'' as) sig bs st)"
  using assms
  by (cases st)
     (simp add: field_events_def bundle_event_def decode_own b64_text_plain_def b64_sound_def
       after_field_def)

lemma loop_pks:
  assumes libs: "b64_sound c" "b64_text_plain q c"
  shows "\<exists>cur i sig. bundle_loop q c (concat (map (\<lambda>(i, pk). field_events c ''pk'' [id_attr i] pk) pks) @ evs) st
    = bundle_loop q c evs \<lparr>bs_bundle = (bs_bundle st)\<lparr>b_prekeys := b_prekeys (bs_bundle st) @ pks\<rparr>,
        bs_cur = cur, bs_cur_id = i, bs_cur_sig = sig\<rparr>"
proof (induction pks arbitrary: st)
  case Nil
  show ?case by (cases st) auto
next
  case (Cons p pks)
  obtain i pk where p: "p = (i, pk)" by fastforce
  show ?case
    using Cons.IH[of "after_field ''pk'' (Some i) None pk st"]
    by (simp add: p loop_field[OF libs] after_field_def collect_text_def or_zero_def)
qed

lemma loop_kem_pks:
  assumes libs: "b64_sound c" "b64_text_plain q c"
  shows "list_all (\<lambda>kp. is_ml_kem_1024 (kp_key kp)) kps \<Longrightarrow>
    \<exists>cur i sig. bundle_loop q c (concat (map (kem_pk_events c) kps) @ evs) st
    = bundle_loop q c evs \<lparr>bs_bundle = (bs_bundle st)\<lparr>b_kem_prekeys := b_kem_prekeys (bs_bundle st) @ kps\<rparr>,
        bs_cur = cur, bs_cur_id = i, bs_cur_sig = sig\<rparr>"
proof (induction kps arbitrary: st)
  case Nil
  show ?case by (cases st) auto
next
  case (Cons kp kps)
  then have ih: "\<exists>cur i sig. bundle_loop q c (concat (map (kem_pk_events c) kps) @ evs) st' = bundle_loop q c evs
      \<lparr>bs_bundle = (bs_bundle st')\<lparr>b_kem_prekeys := b_kem_prekeys (bs_bundle st') @ kps\<rparr>,
        bs_cur = cur, bs_cur_id = i, bs_cur_sig = sig\<rparr>" for st'
    by simp
  let ?st = "after_field ''kem-pk'' (Some (kp_id kp)) (Some (kp_sig kp)) (kp_key kp) st"
  have "bundle_loop q c (concat (map (kem_pk_events c) (kp # kps)) @ evs) st
      = bundle_loop q c (concat (map (kem_pk_events c) kps) @ evs) ?st"
    by (simp add: kem_pk_events_def[of c kp] loop_field[OF libs attr_b64_own[OF libs(1)]])
  moreover have "bs_bundle ?st = (bs_bundle st)\<lparr>b_kem_prekeys := b_kem_prekeys (bs_bundle st) @ [kp]\<rparr>"
    using Cons.prems by (simp add: after_field_def collect_text_def or_zero_def)
  ultimately show ?case using ih[of ?st] by simp
qed

text \<open>The element after a list resets the context, so only the collected bundle is carried over.\<close>

lemma bundle_event_end [simp]: "bundle_event q c (EvEnd n) st = Inr st"
  by (simp add: bundle_event_def)

lemma loop_start:
  "attr_b64 c ''sig'' as = Inr sig \<Longrightarrow> bundle_loop q c (EvStart n as # evs) st =
     bundle_loop q c evs (st\<lparr>bs_cur := n, bs_cur_id := attr_u32 ''id'' as, bs_cur_sig := sig\<rparr>)"
  by (simp add: bundle_event_def)

lemma loop_pks_then:
  assumes libs: "b64_sound c" "b64_text_plain q c" and sig: "attr_b64 c ''sig'' as = Inr sig"
  shows "bundle_loop q c (concat (map (\<lambda>(i, pk). field_events c ''pk'' [id_attr i] pk) pks)
      @ EvEnd n # field_events c m as bs @ evs) st
    = bundle_loop q c evs (after_field m (attr_u32 ''id'' as) sig bs
        (st\<lparr>bs_bundle := (bs_bundle st)\<lparr>b_prekeys := b_prekeys (bs_bundle st) @ pks\<rparr>\<rparr>))"
  using loop_pks[OF libs, of pks "EvEnd n # field_events c m as bs @ evs" st]
  by (auto simp: loop_field[OF libs sig] after_field_def)

lemma loop_kem_pks_then:
  assumes libs: "b64_sound c" "b64_text_plain q c" and sig: "attr_b64 c ''sig'' as = Inr sig"
    and kem: "list_all (\<lambda>kp. is_ml_kem_1024 (kp_key kp)) kps"
  shows "bundle_loop q c (concat (map (kem_pk_events c) kps) @ EvEnd n # field_events c m as bs @ evs) st
    = bundle_loop q c evs (after_field m (attr_u32 ''id'' as) sig bs
        (st\<lparr>bs_bundle := (bs_bundle st)\<lparr>b_kem_prekeys := b_kem_prekeys (bs_bundle st) @ kps\<rparr>\<rparr>))"
  using loop_kem_pks[OF libs kem, of "EvEnd n # field_events c m as bs @ evs" st]
  by (auto simp: loop_field[OF libs sig] after_field_def)

lemma bundle_loop_events:
  assumes libs: "b64_sound c" "b64_text_plain q c" and kem: "kem_keys_ok b"
  shows "\<exists>st. bundle_loop q c (bundle_events c b)
      \<lparr>bs_bundle = empty_bundle, bs_cur = [], bs_cur_id = None, bs_cur_sig = None\<rparr> = Inr st
    \<and> bs_bundle st = b"
  unfolding bundle_events_def append_Cons append_assoc
  by (simp only: loop_start[OF attr_b64_none(3)] loop_start[OF attr_b64_none(1)]
      loop_pks_then[OF libs attr_b64_none(2)]
      loop_kem_pks_then[OF libs attr_b64_none(4) kem[unfolded kem_keys_ok_def]]
      loop_field[OF libs attr_b64_none(1)] loop_field[OF libs attr_b64_none(2)])
     (simp add: after_field_def collect_text_def empty_bundle_def or_zero_def)

text \<open>
  C36: A published bundle is read back: for a bundle of the profile, and a reader that delivers the
  elements of the document \<open>bundle_to_xml\<close> writes, \<open>bundle_from_xml\<close> returns the bundle itself,
  every id, key and signature in place.
\<close>

theorem bundle_xml_roundtrip:
  assumes libs: "b64_sound c" "b64_text_plain q c"
    and reader: "qx_read q True (bundle_to_xml c b) = (bundle_events c b, None)"
    and profile: "b_ik b \<noteq> []" "b_spk b \<noteq> []" "has_pq_identity b" "is_ml_kem_1024 (b_kem_spk b)"
      "kem_keys_ok b"
  shows "bundle_from_xml q c (bundle_to_xml c b) = Inr b"
proof -
  obtain st where "bundle_loop q c (bundle_events c b)
      \<lparr>bs_bundle = empty_bundle, bs_cur = [], bs_cur_id = None, bs_cur_sig = None\<rparr> = Inr st"
    and "bs_bundle st = b"
    using bundle_loop_events[OF libs profile(5)] by blast
  moreover have "supports_pqxdh b"
    using profile(4) by (auto simp: supports_pqxdh_def is_ml_kem_1024_def)
  ultimately show ?thesis
    using reader profile by (simp add: bundle_from_xml_def check_bundle_def)
qed

definition toy_bundle :: omemo_bundle where
  "toy_bundle = \<lparr>b_spk_id = 1, b_spk = [1], b_spk_sig = [2], b_ik = [3], b_prekeys = [(7, [4])],
     b_kem_spk_id = 2, b_kem_spk = [0x0A, 5], b_kem_spk_sig = [6],
     b_kem_prekeys = [\<lparr>kp_id = 3, kp_key = [0x0A, 7], kp_sig = [8]\<rparr>], b_pq_ik = [9], b_pq_sig = [10]\<rparr>"

definition toy_reader :: quick_xml where
  "toy_reader = \<lparr>qx_read = (\<lambda>_ s. if s = bundle_to_xml toy_base64 toy_bundle
       then (bundle_events toy_base64 toy_bundle, None) else ([], Some ''syntax'')),
     qx_escape = id, qx_unescape = Inr, qx_decode = Inr, qx_normalized = Some\<rparr>"

theorem bundle_xml_roundtrip_witness:
  "bundle_from_xml toy_reader toy_base64 (bundle_to_xml toy_base64 toy_bundle) = Inr toy_bundle"
  by (rule bundle_xml_roundtrip)
     (simp_all add: toy_b64_sound b64_text_plain_def toy_reader_def, simp_all add: toy_bundle_def
       has_pq_identity_def is_ml_kem_1024_def kem_keys_ok_def ML_KEM_1024_TAG_def)

theorem bundle_from_xml_no_downgrade_witness:
  "\<exists>b. bundle_from_xml toy_reader toy_base64 (bundle_to_xml toy_base64 toy_bundle) = Inr b \<and> has_pq_identity b"
proof -
  have "bundle_loop toy_reader toy_base64 (bundle_events toy_base64 toy_bundle)
      \<lparr>bs_bundle = empty_bundle, bs_cur = [], bs_cur_id = None, bs_cur_sig = None\<rparr> = Inr st
      \<Longrightarrow> bs_bundle st = toy_bundle \<Longrightarrow>
      bundle_from_xml toy_reader toy_base64 (bundle_to_xml toy_base64 toy_bundle) = Inr toy_bundle" for st
    by (simp add: bundle_from_xml_def toy_reader_def)
       (simp add: toy_bundle_def check_bundle_def supports_pqxdh_def has_pq_identity_def
         is_ml_kem_1024_def ML_KEM_1024_TAG_def)
  moreover have "kem_keys_ok toy_bundle" "b64_text_plain toy_reader toy_base64"
    by (simp_all add: toy_bundle_def kem_keys_ok_def is_ml_kem_1024_def ML_KEM_1024_TAG_def
        b64_text_plain_def toy_reader_def)
  ultimately have "bundle_from_xml toy_reader toy_base64 (bundle_to_xml toy_base64 toy_bundle) = Inr toy_bundle"
    using bundle_loop_events toy_b64_sound by blast
  from bundle_from_xml_no_downgrade[OF this] this show ?thesis by blast
qed

end
