(* ===== verification/Omemo_Maint.thy ===== *)
theory Omemo_Maint
  imports Omemo_Traits Bundle
begin

text \<open>
  \<open>crates/mxc-omemo/src/session.rs\<close>, the upkeep of the published bundle: generation, purge of
  Round-3 keys, replenishment, rotation, pruning, rebuilding.  libsignal's key functions, the clock
  and the random generator are fields of \<open>signal_env\<close>; each reading of the clock or the generator
  is numbered by the tick of the world it is made in.  Identifiers are \<open>u32\<close> words, so \<open>+ 1\<close>
  wraps as it does in a release build.
\<close>

record 'o signal_env = "'o libsignal" +
  se_show :: "signal_error \<Rightarrow> string"
  se_now_ms :: "nat \<Rightarrow> u64"
  se_keypair :: "nat \<Rightarrow> 'o"
  se_keypair_public :: "'o \<Rightarrow> bytes"
  se_identity_public :: "'o \<Rightarrow> bytes"
  se_sign :: "nat \<Rightarrow> 'o \<Rightarrow> bytes \<Rightarrow> signal_error + bytes"
  se_prekey_new :: "u32 \<Rightarrow> 'o \<Rightarrow> 'o"
  se_prekey_public :: "'o \<Rightarrow> signal_error + bytes"
  se_signed_new :: "u32 \<Rightarrow> u64 \<Rightarrow> 'o \<Rightarrow> bytes \<Rightarrow> 'o"
  se_signed_id :: "'o \<Rightarrow> signal_error + u32"
  se_signed_public :: "'o \<Rightarrow> signal_error + bytes"
  se_signed_sig :: "'o \<Rightarrow> signal_error + bytes"
  se_signed_ts :: "'o \<Rightarrow> signal_error + u64"
  se_kyber_generate :: "nat \<Rightarrow> u32 \<Rightarrow> 'o \<Rightarrow> signal_error + 'o"
  se_kyber_public :: "'o \<Rightarrow> signal_error + bytes"
  se_kyber_sig :: "'o \<Rightarrow> signal_error + bytes"
  se_kyber_ts :: "'o \<Rightarrow> signal_error + u64"
  se_pq_public :: "'o \<Rightarrow> bytes"
  se_pq_sign :: "nat \<Rightarrow> 'o \<Rightarrow> bytes \<Rightarrow> signal_error + bytes"
  se_kem_binding :: "u32 \<Rightarrow> bytes \<Rightarrow> (u32 \<times> bytes) list \<Rightarrow> bytes"
  se_transcript :: "bytes \<Rightarrow> bytes \<Rightarrow> u32 \<Rightarrow> bytes \<Rightarrow> bytes \<Rightarrow> bytes"

text \<open>\<open>OmemoStores\<close>: the account and its key pairs.\<close>

record 'o omemo_stores =
  os_account_id :: i64
  os_identity :: 'o
  os_registration_id :: u32
  os_pq_identity :: 'o

record world =
  w_db :: omemo_db
  w_tick :: nat

type_synonym 'a maint = "(world, omemo_error, 'a) act"

definition db_read :: "(omemo_db \<Rightarrow> 'a) \<Rightarrow> 'a maint" where
  "db_read g = act_read (\<lambda>w. g (w_db w))"

definition db_write :: "(omemo_db \<Rightarrow> omemo_db) \<Rightarrow> unit maint" where
  "db_write h = act_modify (\<lambda>w. w\<lparr>w_db := h (w_db w)\<rparr>)"

definition draw :: "(nat \<Rightarrow> 'a) \<Rightarrow> 'a maint" where
  "draw f w = (Inr (f (w_tick w)), w\<lparr>w_tick := Suc (w_tick w)\<rparr>)"

text \<open>\<open>?\<close> on a libsignal result\<close>

definition sig_try :: "('o, 'z) signal_env_scheme \<Rightarrow> signal_error + 'a \<Rightarrow> 'a maint" where
  "sig_try env r = act_lift (map_err (\<lambda>e. Signal (se_show env e)) r)"

definition ec_djb :: "bytes \<Rightarrow> bytes" where
  "ec_djb bs = (if length bs = 32 then 0x05 # bs else bs)"

definition ec_raw :: "bytes \<Rightarrow> bytes" where
  "ec_raw bs = (if length bs = 33 \<and> hd bs = 0x05 then tl bs else bs)"

definition saturating_sub :: "u64 \<Rightarrow> u64 \<Rightarrow> u64" where
  "saturating_sub a b = (if b \<le> a then a - b else 0)"

text \<open>\<open>as u32\<close> on an \<open>i64\<close>\<close>

definition as_u32 :: "i64 \<Rightarrow> u32" where
  "as_u32 i = word_of_int i"

definition KEM_SPK_ROTATION_MS :: u64 where "KEM_SPK_ROTATION_MS = 30 * 24 * 60 * 60 * 1000"
definition SIGNED_PREKEY_ROTATION_MS :: u64 where "SIGNED_PREKEY_ROTATION_MS = 30 * 24 * 60 * 60 * 1000"
definition KEM_PREKEY_MAX_AGE_MS :: u64 where "KEM_PREKEY_MAX_AGE_MS = 90 * 24 * 60 * 60 * 1000"

subsection \<open>Generation\<close>

definition sign_bundle_pq ::
  "('o, 'z) signal_env_scheme \<Rightarrow> 'o omemo_stores \<Rightarrow> u32 \<Rightarrow> bytes \<Rightarrow> u32 \<Rightarrow> bytes \<Rightarrow> (u32 \<times> bytes) list \<Rightarrow>
   (bytes \<times> bytes) maint" where
  "sign_bundle_pq env stores signed_prekey_id signed_pre_key_public kem_spk_id kem_spk_public kem_one_time =
     (let pq = os_pq_identity stores; pq_pub = se_pq_public env pq;
          kem_binding = se_kem_binding env kem_spk_id kem_spk_public kem_one_time;
          transcript = se_transcript env (se_identity_public env (os_identity stores)) pq_pub
            signed_prekey_id signed_pre_key_public kem_binding
      in act_bind (draw (\<lambda>n. se_pq_sign env n pq transcript)) (\<lambda>r.
         act_bind (sig_try env r) (\<lambda>sig. act_ret (pq_pub, sig))))"

text \<open>One EC one-time pre-key: generate, store under \<open>id\<close>, return its published form.\<close>

definition gen_prekey :: "('o, 'z) signal_env_scheme \<Rightarrow> i64 \<Rightarrow> u32 \<Rightarrow> (u32 \<times> bytes) maint" where
  "gen_prekey env acc i =
     act_bind (draw (se_keypair env)) (\<lambda>kp.
     act_bind (sig_try env (sd_ser (ls_prekey env) (se_prekey_new env i kp))) (\<lambda>b.
     act_bind (db_write (store_prekey acc (id_i64 i) b)) (\<lambda>_.
     act_ret (i, ec_raw (se_keypair_public env kp)))))"

text \<open>One KEM pre-key: generate, store, return the record.\<close>

definition gen_kyber :: "('o, 'z) signal_env_scheme \<Rightarrow> i64 \<Rightarrow> 'o \<Rightarrow> u32 \<Rightarrow> bool \<Rightarrow> 'o maint" where
  "gen_kyber env acc ik i last_resort =
     act_bind (draw (\<lambda>n. se_kyber_generate env n i ik)) (\<lambda>r.
     act_bind (sig_try env r) (\<lambda>rec.
     act_bind (sig_try env (sd_ser (ls_kyber env) rec)) (\<lambda>b.
     act_bind (db_write (store_kyber_prekey acc (id_i64 i) b last_resort)) (\<lambda>_. act_ret rec))))"

definition publish_kyber :: "('o, 'z) signal_env_scheme \<Rightarrow> u32 \<Rightarrow> 'o \<Rightarrow> kem_prekey maint" where
  "publish_kyber env i rec =
     act_bind (sig_try env (se_kyber_public env rec)) (\<lambda>key.
     act_bind (sig_try env (se_kyber_sig env rec)) (\<lambda>sig.
     act_ret \<lparr>kp_id = i, kp_key = key, kp_sig = sig\<rparr>))"

text \<open>One EC signed pre-key: generate, sign, store; its public key and signature.\<close>

definition gen_signed :: "('o, 'z) signal_env_scheme \<Rightarrow> 'o omemo_stores \<Rightarrow> u32 \<Rightarrow> (bytes \<times> bytes) maint" where
  "gen_signed env stores i =
     act_bind (draw (se_keypair env)) (\<lambda>kp.
     let pub = se_keypair_public env kp in
     act_bind (draw (\<lambda>n. se_sign env n (os_identity stores) pub)) (\<lambda>r.
     act_bind (sig_try env r) (\<lambda>sig.
     act_bind (draw (se_now_ms env)) (\<lambda>now.
     act_bind (sig_try env (sd_ser (ls_signed env) (se_signed_new env i now kp sig))) (\<lambda>b.
     act_bind (db_write (store_signed_prekey (os_account_id stores) (id_i64 i) b)) (\<lambda>_.
     act_ret (pub, sig)))))))"

definition ids_from :: "u32 \<Rightarrow> nat \<Rightarrow> u32 list" where
  "ids_from first n = map (\<lambda>i. first + word_of_nat i) [0..<n]"

definition generate_and_store_prekeys ::
  "('o, 'z) signal_env_scheme \<Rightarrow> 'o omemo_stores \<Rightarrow> u32 \<Rightarrow> u32 \<Rightarrow> u32 \<Rightarrow> u32 \<Rightarrow> omemo_bundle maint" where
  "generate_and_store_prekeys env stores signed_prekey_id kem_signed_id first_prekey_id count =
     (let acc = os_account_id stores; ik = os_identity stores in
      act_bind (act_map (gen_prekey env acc) (ids_from first_prekey_id (unat count))) (\<lambda>prekeys.
      act_bind (gen_signed env stores signed_prekey_id) (\<lambda>(spk_pub, spk_sig).
      act_bind (gen_kyber env acc ik kem_signed_id True) (\<lambda>kem_spk_rec.
      act_bind (publish_kyber env kem_signed_id kem_spk_rec) (\<lambda>kem_spk.
      act_bind (act_map (\<lambda>i. act_bind (gen_kyber env acc ik i False) (publish_kyber env i))
          (ids_from (kem_signed_id + 1) (unat count))) (\<lambda>kem_prekeys.
      act_bind (sign_bundle_pq env stores signed_prekey_id spk_pub kem_signed_id (kp_key kem_spk)
          (map (\<lambda>k. (kp_id k, kp_key k)) kem_prekeys)) (\<lambda>(pq_ik, pq_sig).
      act_ret \<lparr>b_spk_id = signed_prekey_id, b_spk = ec_raw spk_pub, b_spk_sig = spk_sig,
        b_ik = ec_raw (se_identity_public env ik), b_prekeys = prekeys, b_kem_spk_id = kem_signed_id,
        b_kem_spk = kp_key kem_spk, b_kem_spk_sig = kp_sig kem_spk, b_kem_prekeys = kem_prekeys,
        b_pq_ik = pq_ik, b_pq_sig = pq_sig\<rparr>)))))))"

subsection \<open>Upkeep\<close>

definition stored_is_ml_kem :: "('o, 'z) signal_env_scheme \<Rightarrow> bytes \<Rightarrow> bool" where
  "stored_is_ml_kem env b =
     (case sd_de (ls_kyber env) b of
        Inl _ \<Rightarrow> False
      | Inr rec \<Rightarrow> (case se_kyber_public env rec of Inl _ \<Rightarrow> False | Inr pk \<Rightarrow> is_ml_kem_1024 pk))"

definition purge_row ::
  "('o, 'z) signal_env_scheme \<Rightarrow> i64 \<Rightarrow> i64 \<times> bytes \<times> bool \<times> bool \<Rightarrow> unit maint" where
  "purge_row env acc = (\<lambda>(i, b, _, _).
     if stored_is_ml_kem env b then act_ret () else db_write (delete_kyber_prekey acc i))"

definition purge_non_ml_kem_prekeys :: "('o, 'z) signal_env_scheme \<Rightarrow> 'o omemo_stores \<Rightarrow> unit maint" where
  "purge_non_ml_kem_prekeys env stores =
     (let acc = os_account_id stores in
      act_bind (db_read (all_kyber_prekeys acc)) (act_iter (purge_row env acc)))"

definition rotate_last_resort_if_due :: "('o, 'z) signal_env_scheme \<Rightarrow> 'o omemo_stores \<Rightarrow> unit maint" where
  "rotate_last_resort_if_due env stores =
     (let acc = os_account_id stores in
      act_bind (db_read (last_resort_kyber acc)) (\<lambda>found.
        case found of
          None \<Rightarrow> act_ret ()
        | Some (_, b) \<Rightarrow>
            act_bind (sig_try env (sd_de (ls_kyber env) b)) (\<lambda>rec.
            act_bind (draw (se_now_ms env)) (\<lambda>now.
            act_bind (sig_try env (se_kyber_ts env rec)) (\<lambda>ts.
              if saturating_sub now ts \<le> KEM_SPK_ROTATION_MS then act_ret ()
              else act_bind (db_read (max_kyber_prekey_id acc)) (\<lambda>m.
                   act_bind (gen_kyber env acc (os_identity stores) (as_u32 m + 1) True) (\<lambda>_.
                   act_ret ())))))))"

definition rotate_signed_prekey_if_due ::
  "('o, 'z) signal_env_scheme \<Rightarrow> 'o omemo_stores \<Rightarrow> u32 \<Rightarrow> u32 maint" where
  "rotate_signed_prekey_if_due env stores fallback_id =
     act_bind (db_read (newest_signed_prekey (os_account_id stores))) (\<lambda>found.
       case found of
         None \<Rightarrow> act_ret fallback_id
       | Some (current_id, b) \<Rightarrow>
           act_bind (sig_try env (sd_de (ls_signed env) b)) (\<lambda>rec.
           act_bind (draw (se_now_ms env)) (\<lambda>now.
           act_bind (sig_try env (se_signed_ts env rec)) (\<lambda>ts.
             if saturating_sub now ts \<le> SIGNED_PREKEY_ROTATION_MS then act_ret (as_u32 current_id)
             else act_bind (gen_signed env stores (as_u32 current_id + 1)) (\<lambda>_.
                  act_ret (as_u32 current_id + 1))))))"

text \<open>The rows \<open>prune_stale_kyber_prekeys\<close> deletes: \<open>continue\<close> is keeping the row.\<close>

definition prunable ::
  "('o, 'z) signal_env_scheme \<Rightarrow> i64 option \<Rightarrow> u64 \<Rightarrow> i64 \<times> bytes \<times> bool \<times> bool \<Rightarrow> bool" where
  "prunable env current cutoff = (\<lambda>(i, b, is_last_resort, used).
     if Some i = current then False
     else if \<not> used \<and> \<not> is_last_resort then False
     else (case sd_de (ls_kyber env) b of
             Inl _ \<Rightarrow> False
           | Inr rec \<Rightarrow> (case se_kyber_ts env rec of Inl _ \<Rightarrow> 0 | Inr t \<Rightarrow> t) < cutoff))"

definition prune_row ::
  "('o, 'z) signal_env_scheme \<Rightarrow> i64 \<Rightarrow> i64 option \<Rightarrow> u64 \<Rightarrow> i64 \<times> bytes \<times> bool \<times> bool \<Rightarrow> unit maint" where
  "prune_row env acc current cutoff row =
     (if prunable env current cutoff row then db_write (delete_kyber_prekey acc (fst row)) else act_ret ())"

definition prune_stale_kyber_prekeys :: "('o, 'z) signal_env_scheme \<Rightarrow> 'o omemo_stores \<Rightarrow> unit maint" where
  "prune_stale_kyber_prekeys env stores =
     (let acc = os_account_id stores in
      act_bind (draw (se_now_ms env)) (\<lambda>now.
      let cutoff = saturating_sub now KEM_PREKEY_MAX_AGE_MS in
      act_bind (db_read (last_resort_kyber acc)) (\<lambda>current.
      act_bind (db_read (all_kyber_prekeys acc)) (\<lambda>rows.
      act_bind (act_iter (prune_row env acc (map_option fst current) cutoff) rows) (\<lambda>_.
      db_write (\<lambda>db. snd (prune_orphaned_kyber_last_resort_sessions acc db)))))))"

definition replenish_ec :: "('o, 'z) signal_env_scheme \<Rightarrow> i64 \<Rightarrow> u32 \<Rightarrow> u32 \<Rightarrow> unit maint" where
  "replenish_ec env acc target low_water =
     act_bind (db_read (count_prekeys acc)) (\<lambda>n.
     let ec_count = as_u32 n in
     if ec_count < low_water then
       act_bind (db_read (max_prekey_id acc)) (\<lambda>m.
       act_bind (act_map (gen_prekey env acc) (ids_from (as_u32 m + 1) (unat target - unat ec_count)))
         (\<lambda>_. act_ret ()))
     else act_ret ())"

definition replenish_kem :: "('o, 'z) signal_env_scheme \<Rightarrow> i64 \<Rightarrow> 'o \<Rightarrow> u32 \<Rightarrow> u32 \<Rightarrow> unit maint" where
  "replenish_kem env acc ik target low_water =
     act_bind (db_read (available_kyber_prekeys acc)) (\<lambda>avail.
     let kem_count = len_u32 avail in
     if kem_count < low_water then
       act_bind (db_read (max_kyber_prekey_id acc)) (\<lambda>m.
       act_bind (act_map (\<lambda>i. gen_kyber env acc ik i False)
           (ids_from (as_u32 m + 1) (unat target - unat kem_count))) (\<lambda>_. act_ret ()))
     else act_ret ())"

definition replenish :: "('o, 'z) signal_env_scheme \<Rightarrow> 'o omemo_stores \<Rightarrow> u32 \<Rightarrow> u32 \<Rightarrow> unit maint" where
  "replenish env stores target low_water =
     act_bind (replenish_ec env (os_account_id stores) target low_water) (\<lambda>_.
     replenish_kem env (os_account_id stores) (os_identity stores) target low_water)"

definition rebuild_bundle :: "('o, 'z) signal_env_scheme \<Rightarrow> 'o omemo_stores \<Rightarrow> u32 \<Rightarrow> omemo_bundle maint" where
  "rebuild_bundle env stores signed_prekey_id =
     (let acc = os_account_id stores in
      act_bind (db_read (load_signed_prekey acc (id_i64 signed_prekey_id))) (\<lambda>found.
      act_bind (act_lift (ok_or (Signal ''missing signed prekey'') found)) (\<lambda>spk_bytes.
      act_bind (sig_try env (sd_de (ls_signed env) spk_bytes)) (\<lambda>spk_rec.
      act_bind (db_read (last_resort_kyber acc)) (\<lambda>lr.
      act_bind (act_lift (ok_or (Signal ''missing last-resort kyber prekey'') lr)) (\<lambda>(kem_id, kem_bytes).
      act_bind (sig_try env (sd_de (ls_kyber env) kem_bytes)) (\<lambda>kem_rec.
      act_bind (db_read (list_prekeys acc)) (\<lambda>ec.
      act_bind (act_map (\<lambda>(i, b).
          act_bind (sig_try env (sd_de (ls_prekey env) b)) (\<lambda>rec.
          act_bind (sig_try env (se_prekey_public env rec)) (\<lambda>pk. act_ret (as_u32 i, ec_raw pk)))) ec) (\<lambda>prekeys.
      act_bind (db_read (available_kyber_prekeys acc)) (\<lambda>avail.
      act_bind (act_map (\<lambda>(i, b).
          act_bind (sig_try env (sd_de (ls_kyber env) b)) (publish_kyber env (as_u32 i))) avail) (\<lambda>kem_prekeys.
      act_bind (sig_try env (se_signed_id env spk_rec)) (\<lambda>spk_id.
      act_bind (sig_try env (se_kyber_public env kem_rec)) (\<lambda>kem_spk.
      act_bind (sig_try env (se_signed_public env spk_rec)) (\<lambda>spk_pub.
      act_bind (sign_bundle_pq env stores spk_id spk_pub (as_u32 kem_id) kem_spk
          (map (\<lambda>k. (kp_id k, kp_key k)) kem_prekeys)) (\<lambda>(pq_ik, pq_sig).
      act_bind (sig_try env (se_signed_sig env spk_rec)) (\<lambda>spk_sig.
      act_bind (sig_try env (se_kyber_sig env kem_rec)) (\<lambda>kem_spk_sig.
      act_ret \<lparr>b_spk_id = spk_id, b_spk = ec_raw spk_pub, b_spk_sig = spk_sig,
        b_ik = ec_raw (se_identity_public env (os_identity stores)), b_prekeys = prekeys,
        b_kem_spk_id = as_u32 kem_id, b_kem_spk = kem_spk, b_kem_spk_sig = kem_spk_sig,
        b_kem_prekeys = kem_prekeys, b_pq_ik = pq_ik, b_pq_sig = pq_sig\<rparr>)))))))))))))))))"

definition maintain_bundle ::
  "('o, 'z) signal_env_scheme \<Rightarrow> 'o omemo_stores \<Rightarrow> u32 \<Rightarrow> u32 \<Rightarrow> u32 \<Rightarrow> u32 \<Rightarrow> u32 \<Rightarrow> omemo_bundle maint" where
  "maintain_bundle env stores signed_prekey_id kem_signed_id first_prekey_id target low_water =
     act_bind (db_read (load_signed_prekey (os_account_id stores) (id_i64 signed_prekey_id))) (\<lambda>found.
       if found = None then
         generate_and_store_prekeys env stores signed_prekey_id kem_signed_id first_prekey_id target
       else
         act_bind (purge_non_ml_kem_prekeys env stores) (\<lambda>_.
         act_bind (replenish env stores target low_water) (\<lambda>_.
         act_bind (rotate_last_resort_if_due env stores) (\<lambda>_.
         act_bind (rotate_signed_prekey_if_due env stores signed_prekey_id) (\<lambda>current_spk_id.
         act_bind (prune_stale_kyber_prekeys env stores) (\<lambda>_.
         rebuild_bundle env stores current_spk_id))))))"


subsection \<open>Loops that delete rows\<close>

lemma world_act_simps [act_simps]:
  "db_read g w = (Inr (g (w_db w)), w)"
  "db_write h w = (Inr (), w\<lparr>w_db := h (w_db w)\<rparr>)"
  "draw f w = (Inr (f (w_tick w)), w\<lparr>w_tick := Suc (w_tick w)\<rparr>)"
  "sig_try env r w = (map_err (\<lambda>e. Signal (se_show env e)) r, w)"
  by (simp_all add: db_read_def db_write_def draw_def sig_try_def act_simps)

definition delete_rows :: "i64 \<Rightarrow> (i64 \<Rightarrow> bool) \<Rightarrow> omemo_db \<Rightarrow> omemo_db" where
  "delete_rows acc D db = db\<lparr>t_kyber := tbl_delete (\<lambda>k. fst k = acc \<and> D (snd k)) (t_kyber db)\<rparr>"

lemma delete_rows_none [simp]: "delete_rows acc (\<lambda>_. False) db = db"
  by (simp add: delete_rows_def tbl_delete_def)

lemma delete_rows_step:
  "delete_rows acc D (delete_kyber_prekey acc i db) = delete_rows acc (\<lambda>j. j = i \<or> D j) db"
  by (auto simp: delete_rows_def delete_kyber_prekey_def tbl_delete_def conj_commute
      intro!: filter_cong arg_cong[where f = "\<lambda>t. db\<lparr>t_kyber := t\<rparr>"])

lemma act_iter_delete:
  "act_iter (\<lambda>row. if Q row then db_write (delete_kyber_prekey acc (fst row)) else act_ret ()) rows w
    = (Inr (), w\<lparr>w_db := delete_rows acc (\<lambda>i. \<exists>row \<in> set rows. fst row = i \<and> Q row) (w_db w)\<rparr>)"
proof (induction rows arbitrary: w)
  case (Cons row rows)
  have eq: "(\<lambda>i. \<exists>r\<in>set (row # rows). fst r = i \<and> Q r)
      = (if Q row then (\<lambda>j. j = fst row \<or> (\<exists>r\<in>set rows. fst r = j \<and> Q r))
         else (\<lambda>i. \<exists>r\<in>set rows. fst r = i \<and> Q r))"
    by (auto simp: fun_eq_iff)
  show ?case
    unfolding eq using Cons.IH by (simp add: act_simps delete_rows_step)
qed (simp add: act_simps)

lemma rows_unique:
  "omemo_db_ok db \<Longrightarrow> (\<exists>row \<in> set (all_kyber_prekeys acc db). fst row = i \<and> Q row) \<longleftrightarrow>
    (\<exists>r. map_of (t_kyber db) (acc, i) = Some r \<and> Q (i, ky_record r, ky_last_resort r, ky_used r))"
proof -
  assume "omemo_db_ok db"
  then have row: "(j, r) \<in> set (account_rows acc (t_kyber db)) \<longleftrightarrow> map_of (t_kyber db) (acc, j) = Some r" for j r
    by (simp add: omemo_db_ok_def account_rows_iff)
  have "(\<exists>row \<in> set (all_kyber_prekeys acc db). fst row = i \<and> Q row) \<longleftrightarrow>
      (\<exists>x \<in> set (account_rows acc (t_kyber db)).
        fst x = i \<and> Q (fst x, ky_record (snd x), ky_last_resort (snd x), ky_used (snd x)))"
    by (simp add: all_kyber_prekeys_def case_prod_unfold)
  also have "\<dots> \<longleftrightarrow> (\<exists>r. map_of (t_kyber db) (acc, i) = Some r \<and>
      Q (i, ky_record r, ky_last_resort r, ky_used r))"
    by (auto simp: row Bex_def)
  finally show ?thesis .
qed

lemma purge_eval:
  assumes "omemo_db_ok (w_db w)"
  shows "purge_non_ml_kem_prekeys env stores w = (Inr (), w\<lparr>w_db := delete_rows (os_account_id stores)
    (\<lambda>i. \<exists>r. map_of (t_kyber (w_db w)) (os_account_id stores, i) = Some r \<and> \<not> stored_is_ml_kem env (ky_record r))
    (w_db w)\<rparr>)"
proof -
  have "purge_row env acc = (\<lambda>row. if \<not> stored_is_ml_kem env (fst (snd row))
      then db_write (delete_kyber_prekey acc (fst row)) else act_ret ())" for acc
    by (auto simp: purge_row_def fun_eq_iff)
  then show ?thesis
    by (simp only: purge_non_ml_kem_prekeys_def Let_def act_simps act_iter_delete sum.case prod.case)
       (simp add: rows_unique[OF assms])
qed


subsection \<open>An account without an ML-KEM last-resort key\<close>

lemma last_resort_none_iff:
  "omemo_db_ok db \<Longrightarrow> last_resort_kyber acc db = None \<longleftrightarrow>
    (\<forall>i r. map_of (t_kyber db) (acc, i) = Some r \<longrightarrow> \<not> ky_last_resort r)"
proof -
  assume "omemo_db_ok db"
  then have row: "(j, r) \<in> set (account_rows acc (t_kyber db)) \<longleftrightarrow> map_of (t_kyber db) (acc, j) = Some r" for j r
    by (simp add: omemo_db_ok_def account_rows_iff)
  show ?thesis
    by (simp add: last_resort_kyber_def filter_empty_conv case_prod_unfold) (use row in fastforce)
qed

text \<open>The state upkeep cannot leave: published before, but holding no last-resort key.\<close>

definition stuck :: "i64 \<Rightarrow> u32 \<Rightarrow> world \<Rightarrow> bool" where
  "stuck acc sid w \<longleftrightarrow> omemo_db_ok (w_db w) \<and> load_signed_prekey acc (id_i64 sid) (w_db w) \<noteq> None \<and>
     (\<forall>i r. map_of (t_kyber (w_db w)) (acc, i) = Some r \<longrightarrow> \<not> ky_last_resort r)"

lemma maint_keeps [simp, intro]:
  "act_keeps P (db_read g)"
  "act_keeps P (sig_try env r)"
  by (simp_all add: act_keeps_def world_act_simps)

lemma stuck_draw [intro]: "act_keeps (stuck acc sid) (draw f)"
  by (simp add: act_keeps_def world_act_simps stuck_def)

lemma stuck_write: "(\<And>w. stuck acc sid w \<Longrightarrow> stuck acc sid (w\<lparr>w_db := h (w_db w)\<rparr>)) \<Longrightarrow>
    act_keeps (stuck acc sid) (db_write h)"
  by (simp add: act_keeps_def world_act_simps)

lemma stuck_stores [intro]:
  "act_keeps (stuck acc sid) (db_write (store_prekey acc i b))"
  "act_keeps (stuck acc sid) (db_write (store_signed_prekey acc i b))"
  "act_keeps (stuck acc sid) (db_write (store_kyber_prekey acc i b False))"
  "act_keeps (stuck acc sid) (db_write (delete_kyber_prekey acc i))"
  "act_keeps (stuck acc sid) (db_write (\<lambda>db. snd (prune_orphaned_kyber_last_resort_sessions acc db)))"
  by (auto intro!: stuck_write simp: stuck_def store_defs store_simps omemo_db_ok_def load_signed_prekey_def
      split: if_split_asm option.split_asm)

lemma keeps_case_prod [intro]: "(\<And>x y. act_keeps P (f x y)) \<Longrightarrow> act_keeps P (case p of (x, y) \<Rightarrow> f x y)"
  by (cases p) simp

lemma stuck_generation [intro]:
  "act_keeps (stuck acc sid) (gen_prekey env acc i)"
  "act_keeps (stuck acc sid) (gen_kyber env acc ik i False)"
  "act_keeps (stuck acc sid) (publish_kyber env i rec)"
  "os_account_id stores = acc \<Longrightarrow> act_keeps (stuck acc sid) (gen_signed env stores i)"
  unfolding gen_prekey_def gen_kyber_def publish_kyber_def gen_signed_def Let_def
  by (auto intro!: act_keeps_bind)

lemma stuck_upkeep:
  assumes "os_account_id stores = acc"
  shows "act_keeps (stuck acc sid) (replenish env stores target low)"
    and "act_keeps (stuck acc sid) (rotate_signed_prekey_if_due env stores fb)"
    and "act_keeps (stuck acc sid) (prune_stale_kyber_prekeys env stores)"
    and "act_keeps (stuck acc sid) (rebuild_bundle env stores i)"
  unfolding replenish_def replenish_ec_def replenish_kem_def rotate_signed_prekey_if_due_def prune_stale_kyber_prekeys_def prune_row_def
    rebuild_bundle_def sign_bundle_pq_def publish_kyber_def Let_def assms
  using assms
  by (auto split: option.split intro!: act_keeps_bind act_keeps_iter act_keeps_map act_keeps_if keeps_case_prod)

lemma stuck_rotate_last_resort:
  "stuck (os_account_id stores) sid w \<Longrightarrow> rotate_last_resort_if_due env stores w = (Inr (), w)"
  using last_resort_none_iff[of "w_db w" "os_account_id stores"]
  by (simp add: rotate_last_resort_if_due_def stuck_def act_simps world_act_simps Let_def)

lemma stuck_rebuild:
  assumes "stuck (os_account_id stores) sid w"
  shows "\<exists>e. fst (rebuild_bundle env stores i w) = Inl e"
proof -
  have "last_resort_kyber (os_account_id stores) (w_db w) = None"
    using assms last_resort_none_iff[of "w_db w" "os_account_id stores"] by (simp add: stuck_def)
  then show ?thesis
    by (auto simp: rebuild_bundle_def act_simps world_act_simps Let_def ok_or_def map_err_def
        split: sum.split option.split)
qed

lemma purge_sticks:
  assumes "omemo_db_ok (w_db w)" "load_signed_prekey (os_account_id stores) (id_i64 sid) (w_db w) \<noteq> None"
    and "\<forall>i r. map_of (t_kyber (w_db w)) (os_account_id stores, i) = Some r \<longrightarrow> ky_last_resort r \<longrightarrow>
      \<not> stored_is_ml_kem env (ky_record r)"
  shows "\<exists>w'. purge_non_ml_kem_prekeys env stores w = (Inr (), w') \<and> stuck (os_account_id stores) sid w'"
  using assms
  by (auto simp: purge_eval stuck_def delete_rows_def store_simps omemo_db_ok_def load_signed_prekey_def
      split: if_split_asm)

lemma maintain_sticks:
  assumes "omemo_db_ok (w_db w)" "load_signed_prekey (os_account_id stores) (id_i64 sid) (w_db w) \<noteq> None"
    and "\<forall>i r. map_of (t_kyber (w_db w)) (os_account_id stores, i) = Some r \<longrightarrow> ky_last_resort r \<longrightarrow>
      \<not> stored_is_ml_kem env (ky_record r)"
  shows "\<exists>e w'. maintain_bundle env stores sid kem first target low w = (Inl e, w') \<and>
    stuck (os_account_id stores) sid w'"
proof -
  define rest where "rest = act_bind (replenish env stores target low) (\<lambda>_.
         act_bind (rotate_last_resort_if_due env stores) (\<lambda>_.
         act_bind (rotate_signed_prekey_if_due env stores sid) (\<lambda>current_spk_id.
         act_bind (prune_stale_kyber_prekeys env stores) (\<lambda>_.
         rebuild_bundle env stores current_spk_id))))"
  obtain w1 where purge: "purge_non_ml_kem_prekeys env stores w = (Inr (), w1)"
    and w1: "stuck (os_account_id stores) sid w1"
    using purge_sticks[OF assms] by blast
  have eval: "maintain_bundle env stores sid kem first target low w = rest w1"
    using assms(2) purge by (auto simp: maintain_bundle_def rest_def act_simps world_act_simps)
  have "\<exists>e w'. rest w1 = (Inl e, w') \<and> stuck (os_account_id stores) sid w'"
  proof -
    note keep = stuck_upkeep[OF refl, THEN act_keepsD]
    obtain r2 w2 where 2: "replenish env stores target low w1 = (r2, w2)" by fastforce
    with keep(1)[OF w1] have w2: "stuck (os_account_id stores) sid w2" by (metis snd_conv)
    obtain r3 w3 where 3: "rotate_signed_prekey_if_due env stores sid w2 = (r3, w3)" by fastforce
    with keep(2)[OF w2] have w3: "stuck (os_account_id stores) sid w3" by (metis snd_conv)
    obtain r4 w4 where 4: "prune_stale_kyber_prekeys env stores w3 = (r4, w4)" by fastforce
    with keep(3)[OF w3] have w4: "stuck (os_account_id stores) sid w4" by (metis snd_conv)
    have 5: "\<exists>e w5. rebuild_bundle env stores i w4 = (Inl e, w5) \<and> stuck (os_account_id stores) sid w5" for i
      using stuck_rebuild[OF w4, of env i] keep(4)[OF w4, of env i] by (metis prod.collapse)
    show ?thesis
      using w2 w3 w4 5
      by (auto simp: rest_def act_simps 2 3 4 stuck_rotate_last_resort[OF w2] split: sum.split)
  qed
  with eval show ?thesis by simp
qed


text \<open>Library functions on raw byte objects, to run the definitions on.\<close>

definition toy_env :: "bytes signal_env" where
  "toy_env = libsignal.extend raw_libsignal (signal_env.fields (\<lambda>_. ''signal'') (\<lambda>_. 0) (\<lambda>n. [word_of_nat n])
     id id (\<lambda>_ _ _. Inr [1]) (\<lambda>_ kp. kp) Inr (\<lambda>_ _ kp _. kp) (\<lambda>_. Inr 1) Inr (\<lambda>_. Inr [1]) (\<lambda>_. Inr 0)
     (\<lambda>n _ _. Inr [0x0A, word_of_nat n]) Inr (\<lambda>_. Inr [1]) (\<lambda>_. Inr 0) id (\<lambda>_ _ _. Inr [2])
     (\<lambda>_ _ _. []) (\<lambda>_ _ _ _ _. []))"

definition toy_stores :: "bytes omemo_stores" where
  "toy_stores = \<lparr>os_account_id = 1, os_identity = [5], os_registration_id = 9, os_pq_identity = [6]\<rparr>"

text \<open>
  The upgrade from Round-3 Kyber never recovers: for an account that has published before and
  whose stored last-resort KEM keys are all not ML-KEM-1024, \<open>maintain_bundle\<close> purges them, nothing
  generates a new one, and this call and every later one fail; no bundle is published again.
\<close>

theorem maintain_bundle_never_recovers:
  assumes "omemo_db_ok (w_db w)" "load_signed_prekey (os_account_id stores) (id_i64 sid) (w_db w) \<noteq> None"
    and "\<forall>i r. map_of (t_kyber (w_db w)) (os_account_id stores, i) = Some r \<longrightarrow> ky_last_resort r \<longrightarrow>
      \<not> stored_is_ml_kem env (ky_record r)"
  shows "\<exists>e. fst (maintain_bundle env stores sid kem first target low
      (((\<lambda>w :: world. snd (maintain_bundle env stores sid kem first target low w)) ^^ n) w)) = Inl e"
proof -
  define good where "good w \<longleftrightarrow> omemo_db_ok (w_db w) \<and>
    load_signed_prekey (os_account_id stores) (id_i64 sid) (w_db w) \<noteq> None \<and>
    (\<forall>i r. map_of (t_kyber (w_db w)) (os_account_id stores, i) = Some r \<longrightarrow> ky_last_resort r \<longrightarrow>
      \<not> stored_is_ml_kem env (ky_record r))" for w :: world
  have step: "(\<exists>e. fst (maintain_bundle env stores sid kem first target low w) = Inl e) \<and>
      good (snd (maintain_bundle env stores sid kem first target low w))" if "good w" for w
    using that maintain_sticks[of w stores sid env kem first target low]
    by (auto simp: good_def stuck_def)
  have "good (((\<lambda>w. snd (maintain_bundle env stores sid kem first target low w)) ^^ n) w)" for n
    using assms step by (induction n) (auto simp: good_def)
  with step show ?thesis by blast
qed

definition round3_world :: world where
  "round3_world = \<lparr>w_db = store_kyber_prekey 1 1 [0x08] True (store_signed_prekey 1 1 [3] empty_omemo_db),
     w_tick = 0\<rparr>"

theorem maintain_bundle_never_recovers_witness:
  "\<exists>e. fst (maintain_bundle toy_env toy_stores 1 1 1 100 20
      (((\<lambda>w. snd (maintain_bundle toy_env toy_stores 1 1 1 100 20 w)) ^^ 3) round3_world)) = Inl e"
proof (rule maintain_bundle_never_recovers)
  have row: "t_kyber (w_db round3_world) = [((1, 1), \<lparr>ky_record = [0x08], ky_last_resort = True, ky_used = False\<rparr>)]"
    by code_simp
  have "\<not> stored_is_ml_kem toy_env [0x08]" by code_simp
  then show "\<forall>i r. map_of (t_kyber (w_db round3_world)) (os_account_id toy_stores, i) = Some r \<longrightarrow>
      ky_last_resort r \<longrightarrow> \<not> stored_is_ml_kem toy_env (ky_record r)"
    by (simp add: row)
  show "omemo_db_ok (w_db round3_world)"
    by (auto simp: round3_world_def omemo_db_ok_def empty_omemo_db_def store_defs)
qed code_simp

subsection \<open>Pruning and rebuilding\<close>

lemma first_desc_filter:
  assumes x: "first_desc f xs = Some x" and P: "P x" and inj: "inj_on f (set xs)"
  shows "first_desc f (filter P xs) = Some x"
proof -
  have x': "x \<in> set xs" "\<forall>y\<in>set xs. f y \<le> f x" using first_desc_SomeD[OF x] by auto
  with P have "filter P xs \<noteq> []" by (auto simp: filter_empty_conv)
  then obtain y where y: "first_desc f (filter P xs) = Some y"
    by (metis first_desc_None not_None_eq)
  then have "y \<in> set xs" "f x \<le> f y" using first_desc_SomeD[OF y] x' P by auto
  with x' have "f y = f x" by (simp add: order_antisym)
  with inj x'(1) \<open>y \<in> set xs\<close> have "y = x" by (auto dest: inj_onD)
  with y show ?thesis by simp
qed

lemma account_rows_delete:
  "account_rows acc (tbl_delete (\<lambda>k. fst k = acc \<and> D (snd k)) t) = filter (\<lambda>(i, _). \<not> D i) (account_rows acc t)"
  by (induction t) (auto simp: account_rows_def tbl_delete_def)

lemma rows_of_delete_rows:
  "account_rows acc (t_kyber (delete_rows acc D db)) = filter (\<lambda>(i, _). \<not> D i) (account_rows acc (t_kyber db))"
  by (simp add: delete_rows_def account_rows_delete)

lemma prune_eval:
  assumes "omemo_db_ok (w_db w)" and "acc = os_account_id stores"
    and "cutoff = saturating_sub (se_now_ms env (w_tick w)) KEM_PREKEY_MAX_AGE_MS"
  shows "prune_stale_kyber_prekeys env stores w = (Inr (), \<lparr>w_db =
      snd (prune_orphaned_kyber_last_resort_sessions acc (delete_rows acc
        (\<lambda>i. \<exists>r. map_of (t_kyber (w_db w)) (acc, i) = Some r \<and>
          prunable env (map_option fst (last_resort_kyber acc (w_db w))) cutoff
            (i, ky_record r, ky_last_resort r, ky_used r)) (w_db w))),
      w_tick = Suc (w_tick w)\<rparr>)"
proof -
  have "prune_row env acc cur cut = (\<lambda>row. if prunable env cur cut row
      then db_write (delete_kyber_prekey acc (fst row)) else act_ret ())" for cur cut
    by (auto simp: prune_row_def fun_eq_iff)
  then show ?thesis
    unfolding assms(2,3)
    by (simp only: prune_stale_kyber_prekeys_def Let_def act_simps world_act_simps act_iter_delete
        sum.case prod.case) (simp add: rows_unique[OF assms(1)])
qed

lemma prune_orphaned_kyber [simp]:
  "t_kyber (snd (prune_orphaned_kyber_last_resort_sessions acc db)) = t_kyber db"
  by (simp add: prune_snd)

text \<open>
  Pruning loses nothing that is published or still answers: every one-time KEM key available
  before is available after, the current last-resort key stays current, and its replay records
  stay seen.
\<close>

theorem prune_keeps_published_keys:
  assumes "omemo_db_ok (w_db w)"
    and "prune_stale_kyber_prekeys env stores w = (r, w')"
  shows "available_kyber_prekeys (os_account_id stores) (w_db w') = available_kyber_prekeys (os_account_id stores) (w_db w)
    \<and> last_resort_kyber (os_account_id stores) (w_db w') = last_resort_kyber (os_account_id stores) (w_db w)
    \<and> (\<forall>i b spk base. last_resort_kyber (os_account_id stores) (w_db w) = Some (i, b) \<longrightarrow>
        kyber_last_resort_session_seen (os_account_id stores) i spk base (w_db w') =
        kyber_last_resort_session_seen (os_account_id stores) i spk base (w_db w))"
proof -
  define acc where "acc = os_account_id stores"
  define cur where "cur = map_option fst (last_resort_kyber acc (w_db w))"
  define D where "D = (\<lambda>i. \<exists>r. map_of (t_kyber (w_db w)) (acc, i) = Some r \<and>
    prunable env cur (saturating_sub (se_now_ms env (w_tick w)) KEM_PREKEY_MAX_AGE_MS)
      (i, ky_record r, ky_last_resort r, ky_used r))"
  define rows where "rows = account_rows acc (t_kyber (w_db w))"
  have w': "w_db w' = snd (prune_orphaned_kyber_last_resort_sessions acc (delete_rows acc D (w_db w)))"
    using assms(2) prune_eval[OF assms(1) acc_def refl, of env] unfolding D_def cur_def by auto
  then have rows': "account_rows acc (t_kyber (w_db w')) = filter (\<lambda>(i, _). \<not> D i) rows"
    by (simp add: rows_of_delete_rows rows_def)
  have ok: "tbl_ok (t_kyber (w_db w))" using assms(1) by (simp add: omemo_db_ok_def)
  have row: "(i, k) \<in> set rows \<longleftrightarrow> map_of (t_kyber (w_db w)) (acc, i) = Some k" for i k
    by (simp add: rows_def account_rows_iff[OF ok])
  have keep: "\<not> D i" if "(i, k) \<in> set rows" "\<not> ky_used k" "\<not> ky_last_resort k" for i k
    using that by (auto simp: D_def row prunable_def)
  have "filter (\<lambda>(_, k). \<not> ky_used k \<and> \<not> ky_last_resort k) (filter (\<lambda>(i, _). \<not> D i) rows)
      = filter (\<lambda>(_, k). \<not> ky_used k \<and> \<not> ky_last_resort k) rows"
    using keep by (auto simp: filter_filter intro!: filter_cong)
  then have avail: "available_kyber_prekeys acc (w_db w') = available_kyber_prekeys acc (w_db w)"
    by (simp add: available_kyber_prekeys_def rows' rows_def[symmetric])
  have lr: "last_resort_kyber acc (w_db w') = last_resort_kyber acc (w_db w)"
  proof (cases "first_desc fst (filter (\<lambda>(_, k). ky_last_resort k) rows)")
    case None
    then have "filter (\<lambda>(_, k). ky_last_resort k) rows = []" by simp
    then have "filter (\<lambda>(_, k). ky_last_resort k) (filter (\<lambda>(i, _). \<not> D i) rows) = []"
      by (auto simp: filter_empty_conv)
    with None show ?thesis by (simp add: last_resort_kyber_def rows' rows_def[symmetric])
  next
    case (Some x)
    then have "cur = Some (fst x)"
      by (cases x) (simp add: cur_def last_resort_kyber_def rows_def)
    then have "\<not> D (fst x)" by (auto simp: D_def prunable_def)
    moreover have "inj_on fst (set (filter (\<lambda>(_, k). ky_last_resort k) rows))"
      using tbl_ok_account_rows[OF ok, of acc]
      by (auto simp: rows_def tbl_ok_def distinct_map intro: inj_on_subset)
    ultimately have "first_desc fst (filter (\<lambda>(i, _). \<not> D i) (filter (\<lambda>(_, k). ky_last_resort k) rows)) = Some x"
      by (intro first_desc_filter[OF Some]) (auto simp: case_prod_unfold)
    moreover have "filter (\<lambda>(_, k). ky_last_resort k) (filter (\<lambda>(i, _). \<not> D i) rows)
        = filter (\<lambda>(i, _). \<not> D i) (filter (\<lambda>(_, k). ky_last_resort k) rows)"
      by (simp add: filter_filter case_prod_unfold conj_commute)
    ultimately show ?thesis
      using Some by (simp add: last_resort_kyber_def rows' rows_def[symmetric])
  qed
  have seen: "kyber_last_resort_session_seen acc i spk base (w_db w') = kyber_last_resort_session_seen acc i spk base (w_db w)"
    if "last_resort_kyber acc (w_db w) = Some (i, b)" for i b spk base
  proof -
    have "last_resort_kyber acc (w_db w') = Some (i, b)" using lr that by simp
    then obtain k where "first_desc fst (filter (\<lambda>(_, k). ky_last_resort k)
        (account_rows acc (t_kyber (w_db w')))) = Some (i, k)"
      by (auto simp: last_resort_kyber_def)
    from first_desc_SomeD[OF this] have "(i, k) \<in> set (account_rows acc (t_kyber (w_db w')))"
      by simp
    then have "(i, k) \<in> set rows" "\<not> D i" by (auto simp: rows')
    then have "\<not> orphaned acc (delete_rows acc D (w_db w)) (acc, i, spk, base)"
      by (simp add: orphaned_def delete_rows_def store_simps row)
    then show ?thesis
      by (simp add: w' prune_snd kyber_last_resort_session_seen_def store_simps) (simp add: delete_rows_def)
  qed
  from avail lr seen show ?thesis by (simp add: acc_def)
qed


theorem prune_keeps_published_keys_witness:
  "available_kyber_prekeys 1 (w_db (snd (prune_stale_kyber_prekeys toy_env toy_stores round3_world)))
    = available_kyber_prekeys 1 (w_db round3_world)"
proof -
  have ok: "omemo_db_ok (w_db round3_world)"
    by (auto simp: round3_world_def omemo_db_ok_def empty_omemo_db_def store_defs)
  from prune_keeps_published_keys[OF ok surjective_pairing, of toy_stores toy_env]
  show ?thesis by (simp add: toy_stores_def)
qed

subsection \<open>Replenishing\<close>

lemma tbl_upsert_fresh: "k \<notin> set (map fst t) \<Longrightarrow> tbl_upsert k v f t = t @ [(k, v)]"
  by (simp add: tbl_upsert_def)

lemma account_rows_snoc:
  "account_rows acc (t @ [((acc', i), v)]) = account_rows acc t @ (if acc' = acc then [(i, v)] else [])"
  by (simp add: account_rows_def)

lemma fresh_key: "i \<notin> set (map fst (account_rows acc t)) \<Longrightarrow> (acc, i) \<notin> set (map fst t)"
  by (force simp: account_rows_def image_iff)

lemma gen_prekey_InrD:
  "gen_prekey env acc i w = (Inr p, w') \<Longrightarrow> \<exists>b. w_db w' = store_prekey acc (id_i64 i) b (w_db w)"
  by (auto simp: gen_prekey_def act_simps world_act_simps map_err_def split: sum.split_asm)

lemma gen_kyber_InrD:
  "gen_kyber env acc ik i lr w = (Inr rec, w') \<Longrightarrow> \<exists>b. w_db w' = store_kyber_prekey acc (id_i64 i) b lr (w_db w)"
  by (auto simp: gen_kyber_def act_simps world_act_simps map_err_def split: sum.split_asm)

text \<open>Storing records under fresh identifiers appends one row for each.\<close>

lemma gen_prekeys_rows:
  "act_map (gen_prekey env acc) ids w = (Inr ps, w') \<Longrightarrow> distinct (map id_i64 ids) \<Longrightarrow>
   set (map id_i64 ids) \<inter> set (map fst (account_rows acc (t_prekeys (w_db w)))) = {} \<Longrightarrow>
   \<exists>bs. length bs = length ids \<and> w_db w' = (w_db w)\<lparr>t_prekeys := t_prekeys (w_db w') \<rparr>
     \<and> account_rows acc (t_prekeys (w_db w')) = account_rows acc (t_prekeys (w_db w)) @ zip (map id_i64 ids) bs"
proof (induction ids arbitrary: w ps)
  case Nil
  then show ?case by (simp add: act_simps)
next
  case (Cons i ids)
  from Cons.prems(1) obtain p w1 ps' where 1: "gen_prekey env acc i w = (Inr p, w1)"
    and 2: "act_map (gen_prekey env acc) ids w1 = (Inr ps', w')"
    by (auto simp: act_simps split: prod.split_asm sum.split_asm)
  from gen_prekey_InrD[OF 1] obtain b where b: "w_db w1 = store_prekey acc (id_i64 i) b (w_db w)" by blast
  have "id_i64 i \<notin> set (map fst (account_rows acc (t_prekeys (w_db w))))" using Cons.prems(3) by auto
  from tbl_upsert_fresh[OF fresh_key[OF this]]
  have rows: "account_rows acc (t_prekeys (w_db w1)) = account_rows acc (t_prekeys (w_db w)) @ [(id_i64 i, b)]"
    by (simp add: b store_prekey_def account_rows_snoc)
  from Cons.IH[OF 2] Cons.prems(2,3) rows obtain bs where bs: "length bs = length ids"
    "w_db w' = (w_db w1)\<lparr>t_prekeys := t_prekeys (w_db w')\<rparr>"
    "account_rows acc (t_prekeys (w_db w')) = account_rows acc (t_prekeys (w_db w1)) @ zip (map id_i64 ids) bs"
    by auto
  have frame: "w_db w' = (w_db w)\<lparr>t_prekeys := t_prekeys (w_db w')\<rparr>"
    by (subst bs(2)) (simp add: b store_prekey_def)
  show ?case
    by (rule exI[of _ "b # bs"]) (use bs(1,3) rows frame in simp)
qed

lemma gen_kybers_rows:
  "act_map (\<lambda>i. gen_kyber env acc ik i False) ids w = (Inr ps, w') \<Longrightarrow> distinct (map id_i64 ids) \<Longrightarrow>
   set (map id_i64 ids) \<inter> set (map fst (account_rows acc (t_kyber (w_db w)))) = {} \<Longrightarrow>
   \<exists>bs. length bs = length ids \<and> w_db w' = (w_db w)\<lparr>t_kyber := t_kyber (w_db w') \<rparr>
     \<and> account_rows acc (t_kyber (w_db w')) = account_rows acc (t_kyber (w_db w))
         @ zip (map id_i64 ids) (map (\<lambda>b. \<lparr>ky_record = b, ky_last_resort = False, ky_used = False\<rparr>) bs)"
proof (induction ids arbitrary: w ps)
  case Nil
  then show ?case by (simp add: act_simps)
next
  case (Cons i ids)
  from Cons.prems(1) obtain p w1 ps' where 1: "gen_kyber env acc ik i False w = (Inr p, w1)"
    and 2: "act_map (\<lambda>i. gen_kyber env acc ik i False) ids w1 = (Inr ps', w')"
    by (auto simp: act_simps split: prod.split_asm sum.split_asm)
  from gen_kyber_InrD[OF 1] obtain b where b: "w_db w1 = store_kyber_prekey acc (id_i64 i) b False (w_db w)" by blast
  have "id_i64 i \<notin> set (map fst (account_rows acc (t_kyber (w_db w))))" using Cons.prems(3) by auto
  from tbl_upsert_fresh[OF fresh_key[OF this]]
  have rows: "account_rows acc (t_kyber (w_db w1)) = account_rows acc (t_kyber (w_db w))
      @ [(id_i64 i, \<lparr>ky_record = b, ky_last_resort = False, ky_used = False\<rparr>)]"
    by (simp add: b store_kyber_prekey_def account_rows_snoc)
  from Cons.IH[OF 2] Cons.prems(2,3) rows obtain bs where bs: "length bs = length ids"
    "w_db w' = (w_db w1)\<lparr>t_kyber := t_kyber (w_db w')\<rparr>"
    "account_rows acc (t_kyber (w_db w')) = account_rows acc (t_kyber (w_db w1))
      @ zip (map id_i64 ids) (map (\<lambda>b. \<lparr>ky_record = b, ky_last_resort = False, ky_used = False\<rparr>) bs)"
    by auto
  have frame: "w_db w' = (w_db w)\<lparr>t_kyber := t_kyber (w_db w')\<rparr>"
    by (subst bs(2)) (simp add: b store_kyber_prekey_def)
  show ?case
    by (rule exI[of _ "b # bs"]) (use bs(1,3) rows frame in simp)
qed

lemma uint_word_of_int_id: "0 \<le> x \<and> x < 2 ^ 32 \<Longrightarrow> uint (word_of_int x :: u32) = x"
  by (simp add: unsigned_of_int take_bit_int_eq_self)

lemma id_i64_offset:
  assumes "0 \<le> m" "m + int n < 2 ^ 32" "k < n"
  shows "id_i64 (as_u32 m + 1 + word_of_nat k) = m + 1 + int k"
proof -
  have "as_u32 m + 1 + word_of_nat k = (word_of_int (m + 1 + int k) :: u32)"
    by (simp add: as_u32_def)
  then show ?thesis
    using assms by (simp only: id_i64_def) (rule uint_word_of_int_id, simp)
qed

lemma ids_from_next:
  assumes "0 \<le> m" "m + int n < 2 ^ 32"
  shows "map id_i64 (ids_from (as_u32 m + 1) n) = map (\<lambda>k. m + 1 + int k) [0..<n]"
  using id_i64_offset[OF assms] by (simp add: ids_from_def)

lemma fresh_ids:
  assumes "0 \<le> m" "m + int n < 2 ^ 32" and "\<forall>i \<in> set olds. i \<le> m"
  shows "distinct (map id_i64 (ids_from (as_u32 m + 1) n))"
    and "set (map id_i64 (ids_from (as_u32 m + 1) n)) \<inter> set olds = {}"
proof -
  show "distinct (map id_i64 (ids_from (as_u32 m + 1) n))"
    unfolding ids_from_next[OF assms(1,2)] by (simp add: distinct_map inj_on_def)
  show "set (map id_i64 (ids_from (as_u32 m + 1) n)) \<inter> set olds = {}"
    unfolding ids_from_next[OF assms(1,2)] using assms(3) by fastforce
qed


text \<open>The stock after topping up: the target where the count had fallen below the mark.\<close>

definition topped_up :: "u32 \<Rightarrow> u32 \<Rightarrow> nat \<Rightarrow> nat" where
  "topped_up target low n = (if n < unat low then max n (unat target) else n)"

lemma as_u32_count: "n < 2 ^ 32 \<Longrightarrow> unat (as_u32 (int n)) = n"
  by (simp add: as_u32_def unsigned_of_nat take_bit_nat_eq_self)

lemma replenish_ec_spec:
  assumes run: "replenish_ec env acc target low w = (Inr (), w')"
    and count: "length (account_rows acc (t_prekeys (w_db w))) < 2 ^ 32"
    and ids: "0 \<le> max_prekey_id acc (w_db w)" "max_prekey_id acc (w_db w) + int (unat target) < 2 ^ 32"
  shows "\<exists>news. account_rows acc (t_prekeys (w_db w')) = account_rows acc (t_prekeys (w_db w)) @ news
    \<and> length (account_rows acc (t_prekeys (w_db w'))) = topped_up target low (length (account_rows acc (t_prekeys (w_db w))))
    \<and> w_db w' = (w_db w)\<lparr>t_prekeys := t_prekeys (w_db w')\<rparr>"
proof -
  define n where "n = length (account_rows acc (t_prekeys (w_db w)))"
  have n: "unat (as_u32 (int n)) = n" using count by (intro as_u32_count) (simp add: n_def)
  show ?thesis
  proof (cases "n < unat low")
    case False
    with run n show ?thesis
      by (simp add: replenish_ec_def act_simps world_act_simps count_prekeys_def Let_def word_less_nat_alt
          topped_up_def n_def)
  next
    case True
    define m where "m = max_prekey_id acc (w_db w)"
    obtain ps where gen: "act_map (gen_prekey env acc) (ids_from (as_u32 m + 1) (unat target - n)) w = (Inr ps, w')"
      using run True n
      by (auto simp: replenish_ec_def act_simps world_act_simps count_prekeys_def Let_def word_less_nat_alt
          n_def m_def split: prod.split_asm sum.split_asm)
    have "i \<le> m" if "i \<in> set (map fst (account_rows acc (t_prekeys (w_db w))))" for i
      using coalesce_max_ge[OF that] by (simp add: m_def max_prekey_id_def)
    then have olds: "\<forall>i\<in>set (map fst (account_rows acc (t_prekeys (w_db w)))). i \<le> m" by blast
    have "int (unat target - n) \<le> int (unat target)" by (simp only: of_nat_le_iff diff_le_self)
    with ids have bound: "0 \<le> m" "m + int (unat target - n) < 2 ^ 32" unfolding m_def by linarith+
    from gen_prekeys_rows[OF gen fresh_ids(1)[OF bound olds] fresh_ids(2)[OF bound olds]]
    show ?thesis using True by (auto simp: topped_up_def n_def ids_from_def)
  qed
qed

lemma length_available:
  "length (available_kyber_prekeys acc db)
    = length (filter (\<lambda>(_, r). \<not> ky_used r \<and> \<not> ky_last_resort r) (account_rows acc (t_kyber db)))"
  by (simp add: available_kyber_prekeys_def)

lemma replenish_kem_spec:
  assumes run: "replenish_kem env acc ik target low w = (Inr (), w')"
    and count: "length (available_kyber_prekeys acc (w_db w)) < 2 ^ 32"
    and ids: "0 \<le> max_kyber_prekey_id acc (w_db w)" "max_kyber_prekey_id acc (w_db w) + int (unat target) < 2 ^ 32"
  shows "\<exists>news. account_rows acc (t_kyber (w_db w')) = account_rows acc (t_kyber (w_db w)) @ news
    \<and> length (available_kyber_prekeys acc (w_db w')) = topped_up target low (length (available_kyber_prekeys acc (w_db w)))
    \<and> w_db w' = (w_db w)\<lparr>t_kyber := t_kyber (w_db w')\<rparr>"
proof -
  define n where "n = length (available_kyber_prekeys acc (w_db w))"
  have n: "unat (len_u32 (available_kyber_prekeys acc (w_db w))) = n" using count unat_len_u32 by (simp add: n_def)
  show ?thesis
  proof (cases "n < unat low")
    case False
    with run n show ?thesis
      by (simp add: replenish_kem_def act_simps world_act_simps Let_def word_less_nat_alt topped_up_def n_def)
  next
    case True
    define m where "m = max_kyber_prekey_id acc (w_db w)"
    obtain ps where gen: "act_map (\<lambda>i. gen_kyber env acc ik i False) (ids_from (as_u32 m + 1) (unat target - n)) w = (Inr ps, w')"
      using run True n
      by (auto simp: replenish_kem_def act_simps world_act_simps Let_def word_less_nat_alt
          n_def m_def split: prod.split_asm sum.split_asm)
    have "i \<le> m" if "i \<in> set (map fst (account_rows acc (t_kyber (w_db w))))" for i
      using coalesce_max_ge[OF that] by (simp add: m_def max_kyber_prekey_id_def)
    then have olds: "\<forall>i\<in>set (map fst (account_rows acc (t_kyber (w_db w)))). i \<le> m" by blast
    have "int (unat target - n) \<le> int (unat target)" by (simp only: of_nat_le_iff diff_le_self)
    with ids have bound: "0 \<le> m" "m + int (unat target - n) < 2 ^ 32" unfolding m_def by linarith+
    from gen_kybers_rows[OF gen fresh_ids(1)[OF bound olds] fresh_ids(2)[OF bound olds]]
    obtain bs where bs: "length bs = length (ids_from (as_u32 m + 1) (unat target - n))"
      "w_db w' = (w_db w)\<lparr>t_kyber := t_kyber (w_db w')\<rparr>"
      "account_rows acc (t_kyber (w_db w')) = account_rows acc (t_kyber (w_db w)) @
        zip (map id_i64 (ids_from (as_u32 m + 1) (unat target - n)))
          (map (\<lambda>b. \<lparr>ky_record = b, ky_last_resort = False, ky_used = False\<rparr>) bs)"
      by blast
    have "filter (\<lambda>(_, r). \<not> ky_used r \<and> \<not> ky_last_resort r)
        (zip is (map (\<lambda>b. \<lparr>ky_record = b, ky_last_resort = False, ky_used = False\<rparr>) bs))
      = zip is (map (\<lambda>b. \<lparr>ky_record = b, ky_last_resort = False, ky_used = False\<rparr>) bs)" for "is" :: "i64 list"
      by (rule filter_True) (auto dest!: set_zip_rightD)
    with bs have "length (available_kyber_prekeys acc (w_db w')) = n + (unat target - n)"
      by (simp add: length_available n_def ids_from_def)
    with True bs show ?thesis by (auto simp: topped_up_def n_def)
  qed
qed

text \<open>
  Replenishing restores the stock: when it succeeds, the EC and the available KEM one-time
  pre-keys each number the target if they had fallen below the low-water mark and are left alone
  otherwise, and no stored key of either kind is lost or replaced (identifiers staying in 32 bits).
\<close>

theorem replenish_restores_stock:
  assumes run: "replenish env stores target low w = (Inr (), w')"
    and ok: "omemo_db_ok (w_db w)" and acc: "acc = os_account_id stores"
    and ec: "count_prekeys acc (w_db w) < 2 ^ 32" "0 \<le> max_prekey_id acc (w_db w)"
      "max_prekey_id acc (w_db w) + int (unat target) < 2 ^ 32"
    and kem: "length (available_kyber_prekeys acc (w_db w)) < 2 ^ 32" "0 \<le> max_kyber_prekey_id acc (w_db w)"
      "max_kyber_prekey_id acc (w_db w) + int (unat target) < 2 ^ 32"
  shows "count_prekeys acc (w_db w') = int (topped_up target low (nat (count_prekeys acc (w_db w))))
    \<and> length (available_kyber_prekeys acc (w_db w'))
        = topped_up target low (length (available_kyber_prekeys acc (w_db w)))
    \<and> (\<forall>i b. load_prekey acc i (w_db w) = Some b \<longrightarrow> load_prekey acc i (w_db w') = Some b)
    \<and> (\<forall>i b. load_kyber_prekey acc i (w_db w) = Some b \<longrightarrow> load_kyber_prekey acc i (w_db w') = Some b)"
proof -
  obtain w1 where 1: "replenish_ec env acc target low w = (Inr (), w1)"
    and 2: "replenish_kem env acc (os_identity stores) target low w1 = (Inr (), w')"
    using run by (auto simp: replenish_def acc act_simps split: prod.split_asm sum.split_asm)
  obtain e where e: "account_rows acc (t_prekeys (w_db w1)) = account_rows acc (t_prekeys (w_db w)) @ e"
    "length (account_rows acc (t_prekeys (w_db w1))) = topped_up target low (length (account_rows acc (t_prekeys (w_db w))))"
    "w_db w1 = (w_db w)\<lparr>t_prekeys := t_prekeys (w_db w1)\<rparr>"
    using replenish_ec_spec[OF 1] ec by (auto simp: count_prekeys_def)
  have same: "t_kyber (w_db w1) = t_kyber (w_db w)" by (subst e(3)) simp
  obtain k where k: "account_rows acc (t_kyber (w_db w')) = account_rows acc (t_kyber (w_db w)) @ k"
    "length (available_kyber_prekeys acc (w_db w')) = topped_up target low (length (available_kyber_prekeys acc (w_db w)))"
    "w_db w' = (w_db w1)\<lparr>t_kyber := t_kyber (w_db w')\<rparr>"
    using replenish_kem_spec[OF 2] kem
    by (auto simp: available_kyber_prekeys_def max_kyber_prekey_id_def same)
  have same': "t_prekeys (w_db w') = t_prekeys (w_db w1)" by (subst k(3)) simp
  have "map_of (account_rows acc (t_prekeys (w_db w'))) i = Some b"
    if "map_of (account_rows acc (t_prekeys (w_db w))) i = Some b" for i b
    using that by (simp add: same' e(1) map_add_def)
  moreover have "map_of (account_rows acc (t_kyber (w_db w'))) i = Some b"
    if "map_of (account_rows acc (t_kyber (w_db w))) i = Some b" for i b
    using that by (simp add: k(1) map_add_def)
  ultimately show ?thesis
    using e(2) k(2) by (auto simp: count_prekeys_def same' load_prekey_def load_kyber_prekey_def map_of_account_rows)
qed


theorem replenish_restores_stock_witness:
  "\<exists>w'. replenish toy_env toy_stores 3 2 round3_world = (Inr (), w') \<and> count_prekeys 1 (w_db w') = 3
     \<and> length (available_kyber_prekeys 1 (w_db w')) = 3"
proof -
  define w' where "w' = snd (replenish toy_env toy_stores 3 2 round3_world)"
  have "fst (replenish toy_env toy_stores 3 2 round3_world) = Inr ()" by code_simp
  then have run: "replenish toy_env toy_stores 3 2 round3_world = (Inr (), w')"
    by (metis w'_def prod.collapse)
  have ok: "omemo_db_ok (w_db round3_world)"
    by (auto simp: round3_world_def omemo_db_ok_def empty_omemo_db_def store_defs)
  have vals: "count_prekeys 1 (w_db round3_world) = 0" "max_prekey_id 1 (w_db round3_world) = 0"
    "length (available_kyber_prekeys 1 (w_db round3_world)) = 0" "max_kyber_prekey_id 1 (w_db round3_world) = 1"
    by code_simp+
  have "count_prekeys 1 (w_db w') = int (topped_up 3 2 (nat (count_prekeys 1 (w_db round3_world))))
    \<and> length (available_kyber_prekeys 1 (w_db w'))
        = topped_up 3 2 (length (available_kyber_prekeys 1 (w_db round3_world)))"
    using replenish_restores_stock[OF run ok, of 1] vals by (simp add: toy_stores_def)
  with run vals show ?thesis by (simp add: topped_up_def)
qed


subsection \<open>Rotation and the rebuilt bundle\<close>

lemma gen_signed_InrD:
  "gen_signed env stores i w = (Inr ps, w') \<Longrightarrow>
   \<exists>b. w_db w' = store_signed_prekey (os_account_id stores) (id_i64 i) b (w_db w)"
  by (auto simp: gen_signed_def Let_def act_simps world_act_simps map_err_def split: sum.split_asm)

text \<open>
  Rotating the EC signed pre-key keeps every handshake in flight resolvable: the id returned is
  the current one, or the next one when the current key is older than 30 days; it resolves in the
  store, and every signed pre-key stored before is still there under its id, unchanged.
\<close>

theorem rotate_signed_keeps_superseded:
  assumes run: "rotate_signed_prekey_if_due env stores fb w = (Inr i, w')"
    and acc: "acc = os_account_id stores" and ok: "omemo_db_ok (w_db w)"
    and newest: "newest_signed_prekey acc (w_db w) = Some (cur, b)" "0 \<le> cur" "cur + 1 < 2 ^ 32"
  shows "(id_i64 i = cur \<or> id_i64 i = cur + 1)
    \<and> load_signed_prekey acc (id_i64 i) (w_db w') \<noteq> None
    \<and> (\<forall>j r. load_signed_prekey acc j (w_db w) = Some r \<longrightarrow> load_signed_prekey acc j (w_db w') = Some r)
    \<and> (\<forall>rec ts. sd_de (ls_signed env) b = Inr rec \<longrightarrow> se_signed_ts env rec = Inr ts \<longrightarrow>
        (id_i64 i = cur + 1 \<longleftrightarrow> SIGNED_PREKEY_ROTATION_MS < saturating_sub (se_now_ms env (w_tick w)) ts))"
proof -
  have row: "(j, r) \<in> set (account_rows acc (t_signed (w_db w))) \<longleftrightarrow> load_signed_prekey acc j (w_db w) = Some r" for j r
    using ok by (simp add: omemo_db_ok_def account_rows_iff load_signed_prekey_def)
  have max: "load_signed_prekey acc cur (w_db w) = Some b"
    "\<And>j r. load_signed_prekey acc j (w_db w) = Some r \<Longrightarrow> j \<le> cur"
    using first_desc_SomeD[OF newest(1)[unfolded newest_signed_prekey_def]] row by fastforce+
  obtain rec ts where rec: "sd_de (ls_signed env) b = Inr rec" "se_signed_ts env rec = Inr ts"
    using run newest(1)
    by (auto simp: rotate_signed_prekey_if_due_def acc act_simps world_act_simps map_err_def split: sum.split_asm)
  have same: "id_i64 (as_u32 cur) = cur"
    using newest(2,3) by (simp add: id_i64_def as_u32_def uint_word_of_int_id)
  have succ: "id_i64 (as_u32 cur + 1) = cur + 1"
    using id_i64_offset[of cur 1 0] newest(2,3) by simp
  show ?thesis
  proof (cases "saturating_sub (se_now_ms env (w_tick w)) ts \<le> SIGNED_PREKEY_ROTATION_MS")
    case True
    then have "i = as_u32 cur" and "w_db w' = w_db w"
      using run newest(1) rec
      by (auto simp: rotate_signed_prekey_if_due_def acc act_simps world_act_simps)
    with True rec same max(1) show ?thesis by auto
  next
    case False
    define w1 where "w1 = w\<lparr>w_tick := Suc (w_tick w)\<rparr>"
    have "act_bind (gen_signed env stores (as_u32 cur + 1)) (\<lambda>_. act_ret (as_u32 cur + 1)) w1 = (Inr i, w')"
      using run newest(1) rec False
      by (simp add: rotate_signed_prekey_if_due_def acc act_bind_eval act_eval world_act_simps w1_def)
    then obtain ps w2 where gen: "gen_signed env stores (as_u32 cur + 1) w1 = (Inr ps, w2)"
      and ret: "act_ret (as_u32 cur + 1) w2 = ((Inr i, w') :: (omemo_error + u32) \<times> world)"
      by (rule act_bind_InrE)
    from ret have i: "i = as_u32 cur + 1" and w2: "w2 = w'" by (simp_all add: act_eval)
    have w1: "w_db w1 = w_db w" by (simp add: w1_def)
    from gen_signed_InrD[OF gen] obtain b' where
      w': "w_db w' = store_signed_prekey acc (cur + 1) b' (w_db w)"
      unfolding w1 w2 succ acc by blast
    have "load_signed_prekey acc j (w_db w') = Some r" if "load_signed_prekey acc j (w_db w) = Some r" for j r
      using max(2)[OF that] that by (simp add: w' store_signed_prekey_def load_signed_prekey_def store_simps)
    moreover have "load_signed_prekey acc (cur + 1) (w_db w') \<noteq> None"
      by (simp add: w' store_signed_prekey_def load_signed_prekey_def store_simps)
    ultimately show ?thesis using False rec i succ by auto
  qed
qed

definition signed_world :: world where
  "signed_world = \<lparr>w_db = store_signed_prekey 1 4 [3] empty_omemo_db, w_tick = 0\<rparr>"

theorem rotate_signed_keeps_superseded_witness:
  "load_signed_prekey 1 4 (w_db (snd (rotate_signed_prekey_if_due toy_env toy_stores 1 signed_world))) \<noteq> None"
proof -
  have "fst (rotate_signed_prekey_if_due toy_env toy_stores 1 signed_world) = Inr 4" by code_simp
  then have run: "rotate_signed_prekey_if_due toy_env toy_stores 1 signed_world
      = (Inr 4, snd (rotate_signed_prekey_if_due toy_env toy_stores 1 signed_world))"
    by (metis prod.collapse)
  have ok: "omemo_db_ok (w_db signed_world)"
    by (auto simp: signed_world_def omemo_db_ok_def empty_omemo_db_def store_defs)
  have newest: "newest_signed_prekey 1 (w_db signed_world) = Some (4, [3])" by code_simp
  have "load_signed_prekey 1 4 (w_db signed_world) = Some [3]" by code_simp
  with rotate_signed_keeps_superseded[OF run _ ok newest] show ?thesis by (simp add: toy_stores_def)
qed

lemma act_map_fields:
  assumes "act_map f xs w = (Inr ys, w')"
    and "\<And>x w y w'. f x w = (Inr y, w') \<Longrightarrow> w' = w \<and> field y = g x"
  shows "w' = w \<and> map field ys = map g xs"
  using assms(1)
proof (induction xs arbitrary: w ys)
  case (Cons x xs)
  then obtain y w1 ys' where 1: "f x w = (Inr y, w1)" and 2: "act_map f xs w1 = (Inr ys', w')"
    and ys: "ys = y # ys'"
    by (auto simp: act_simps split: prod.split_asm sum.split_asm)
  from assms(2)[OF 1] Cons.IH[OF 2] ys show ?case by simp
qed (simp add: act_simps)

lemma published_fields:
  "(\<lambda>(i, b). act_bind (sig_try env (sd_de (ls_kyber env) b)) (publish_kyber env (as_u32 i))) x w = (Inr y, w')
   \<Longrightarrow> w' = w \<and> kp_id y = as_u32 (fst x)"
  "(\<lambda>(i, b). act_bind (sig_try env (sd_de (ls_prekey env) b)) (\<lambda>rec.
      act_bind (sig_try env (se_prekey_public env rec)) (\<lambda>pk. act_ret (as_u32 i, ec_raw pk)))) x w = (Inr z, w')
   \<Longrightarrow> w' = w \<and> fst z = as_u32 (fst x)"
  by (auto simp: publish_kyber_def act_simps world_act_simps map_err_def split: prod.split_asm sum.split_asm)

text \<open>
  The rebuilt bundle advertises what the store holds and nothing that was consumed: its one-time
  KEM keys are exactly the unused ones, its EC keys exactly the stored ones, its last-resort key
  the newest; building it writes nothing.
\<close>

theorem rebuild_bundle_advertises_store:
  assumes "rebuild_bundle env stores sid w = (Inr b, w')" and "acc = os_account_id stores"
  shows "map kp_id (b_kem_prekeys b) = map (\<lambda>(i, _). as_u32 i) (available_kyber_prekeys acc (w_db w))
    \<and> map fst (b_prekeys b) = map (\<lambda>(i, _). as_u32 i) (list_prekeys acc (w_db w))
    \<and> (\<exists>i r. last_resort_kyber acc (w_db w) = Some (i, r) \<and> b_kem_spk_id b = as_u32 i)
    \<and> w_db w' = w_db w"
proof -
  define kem where "kem = (\<lambda>(i, b). act_bind (sig_try env (sd_de (ls_kyber env) b)) (publish_kyber env (as_u32 i)))"
  define ec where "ec = (\<lambda>(i, b). act_bind (sig_try env (sd_de (ls_prekey env) b)) (\<lambda>rec.
      act_bind (sig_try env (se_prekey_public env rec)) (\<lambda>pk. act_ret (as_u32 i, ec_raw pk))))"
  obtain prekeys kems w1 w2 i r where 1: "act_map ec (list_prekeys acc (w_db w)) w = (Inr prekeys, w1)"
    and 2: "act_map kem (available_kyber_prekeys acc (w_db w1)) w1 = (Inr kems, w2)"
    and lr: "last_resort_kyber acc (w_db w) = Some (i, r)"
    and b: "b_kem_prekeys b = kems" "b_prekeys b = prekeys" "b_kem_spk_id b = as_u32 i" "w_db w' = w_db w2"
    using assms(1)
    by (auto simp: rebuild_bundle_def assms(2) kem_def ec_def Let_def act_simps world_act_simps sign_bundle_pq_def
        map_err_def ok_or_def split: prod.split_asm sum.split_asm option.split_asm)
  have f1: "w1 = w \<and> map fst prekeys = map (\<lambda>x. as_u32 (fst x)) (list_prekeys acc (w_db w))"
    by (rule act_map_fields[OF 1]) (unfold ec_def, rule published_fields(2))
  have f2: "w2 = w1 \<and> map kp_id kems = map (\<lambda>x. as_u32 (fst x)) (available_kyber_prekeys acc (w_db w1))"
    by (rule act_map_fields[OF 2]) (unfold kem_def, rule published_fields(1))
  from f1 f2 lr b show ?thesis by (auto simp: case_prod_unfold)
qed

theorem rebuild_bundle_advertises_store_witness:
  "\<exists>b. fst (rebuild_bundle toy_env toy_stores 1 round3_world) = Inr b \<and> b_kem_prekeys b = []"
proof -
  obtain b where b: "fst (rebuild_bundle toy_env toy_stores 1 round3_world) = Inr b"
    by (cases "fst (rebuild_bundle toy_env toy_stores 1 round3_world)") (code_simp, blast)
  then have run: "rebuild_bundle toy_env toy_stores 1 round3_world
      = (Inr b, snd (rebuild_bundle toy_env toy_stores 1 round3_world))"
    by (metis prod.collapse)
  have "available_kyber_prekeys 1 (w_db round3_world) = []" by code_simp
  with rebuild_bundle_advertises_store[OF run refl] b show ?thesis by (simp add: toy_stores_def)
qed

end
