(* ===== verification/Omemo_Session.thy ===== *)
theory Omemo_Session
  imports Omemo_Maint Fingerprint
begin

text \<open>
  \<open>crates/mxc-omemo/src/session.rs\<close>, sessions: establishing one from a fetched bundle with the
  trust-on-first-use pin of the post-quantum identity, filling a missing pin, encrypting for a set
  of devices and decrypting.  libsignal's session functions are the fields of \<open>session_env\<close>; those
  that are handed the stores are actions on the database.
\<close>

record 'o session_env = "'o signal_env" +
  ss_pq_de :: "bytes \<Rightarrow> signal_error + 'o"
  ss_pq_ser :: "'o \<Rightarrow> bytes"
  ss_pqsig_de :: "bytes \<Rightarrow> signal_error + 'o"
  ss_pq_verify :: "'o \<Rightarrow> bytes \<Rightarrow> 'o \<Rightarrow> bool"
  ss_public_de :: "bytes \<Rightarrow> string + 'o"
  ss_kem_de :: "bytes \<Rightarrow> signal_error + 'o"
  ss_bundle_new :: "u32 \<Rightarrow> u32 \<times> 'o \<Rightarrow> u32 \<Rightarrow> 'o \<Rightarrow> bytes \<Rightarrow> u32 \<Rightarrow> 'o \<Rightarrow> bytes \<Rightarrow> 'o \<Rightarrow> signal_error + 'o"
  ss_with_pq :: "'o \<Rightarrow> 'o \<Rightarrow> 'o \<Rightarrow> bytes \<Rightarrow> 'o"
  ss_process :: "nat \<Rightarrow> i64 \<Rightarrow> protocol_addr \<Rightarrow> protocol_addr \<Rightarrow> 'o \<Rightarrow> unit trait_act"
  ss_encrypt :: "nat \<Rightarrow> i64 \<Rightarrow> protocol_addr \<Rightarrow> protocol_addr \<Rightarrow> bytes \<Rightarrow> (bool \<times> bytes) trait_act"
  ss_prekey_msg_de :: "bytes \<Rightarrow> signal_error + 'o"
  ss_signal_msg_de :: "bytes \<Rightarrow> signal_error + 'o"
  ss_decrypt_prekey :: "nat \<Rightarrow> i64 \<Rightarrow> protocol_addr \<Rightarrow> protocol_addr \<Rightarrow> 'o \<Rightarrow> bytes trait_act"
  ss_decrypt_signal :: "nat \<Rightarrow> i64 \<Rightarrow> protocol_addr \<Rightarrow> protocol_addr \<Rightarrow> 'o \<Rightarrow> bytes trait_act"
  ss_counter :: "'o \<Rightarrow> u32"
  ss_ratchet_key :: "'o \<Rightarrow> 'o"
  ss_random_key :: "nat \<Rightarrow> bytes"

record device_addr =
  da_jid :: string
  da_device_id :: u32

record wrapped_key =
  wk_jid :: string
  wk_device_id :: u32
  wk_data :: bytes
  wk_kex :: bool

record encrypted_message =
  em_payload :: bytes
  em_keys :: "wrapped_key list"
  em_commit :: bytes

text \<open>A call into libsignal with the stores: it runs on the database of the world.\<close>

definition trait_call :: "('o, 'z) signal_env_scheme \<Rightarrow> 'a trait_act \<Rightarrow> 'a maint" where
  "trait_call env f w =
     (case f (w_db w) of (r, db) \<Rightarrow> (map_err (\<lambda>e. Signal (se_show env e)) r, w\<lparr>w_db := db\<rparr>))"

definition drawn_call :: "('o, 'z) signal_env_scheme \<Rightarrow> (nat \<Rightarrow> 'a trait_act) \<Rightarrow> 'a maint" where
  "drawn_call env f = act_bind (draw (\<lambda>n. n)) (\<lambda>n. trait_call env (f n))"

definition dec_pub :: "('o, 'z) session_env_scheme \<Rightarrow> bytes \<Rightarrow> omemo_error + 'o" where
  "dec_pub env bs = map_err Signal (ss_public_de env (ec_djb bs))"

definition device_id_check :: "('o, 'z) session_env_scheme \<Rightarrow> u32 \<Rightarrow> omemo_error + u32" where
  "device_id_check env i = (if ls_device_ok env i then Inr i else Inl (Signal ''zero device id''))"

definition kem_one_time :: "omemo_bundle \<Rightarrow> (u32 \<times> bytes) list" where
  "kem_one_time b = map (\<lambda>k. (kp_id k, kp_key k)) (b_kem_prekeys b)"

definition bundle_kem_binding :: "('o, 'z) session_env_scheme \<Rightarrow> omemo_bundle \<Rightarrow> bytes" where
  "bundle_kem_binding env b = se_kem_binding env (b_kem_spk_id b) (b_kem_spk b) (kem_one_time b)"

subsection \<open>Establishing a session\<close>

text \<open>The pin check: a different pinned key is refused unless the device is verified (trust 3).\<close>

definition check_pin :: "'o omemo_stores \<Rightarrow> device_addr \<Rightarrow> omemo_bundle \<Rightarrow> string \<Rightarrow> unit maint" where
  "check_pin stores remote b fp_key =
     act_bind (db_read (get_pinned_omemo2_pq_identity (os_account_id stores) (da_jid remote) fp_key)) (\<lambda>pinned.
       case pinned of
         None \<Rightarrow> act_ret ()
       | Some p \<Rightarrow>
           if p = b_pq_ik b then act_ret ()
           else act_bind (db_read (omemo_identity (os_account_id stores) (da_jid remote)
                    (id_i64 (da_device_id remote)))) (\<lambda>r.
                let verified = (case r of Some i \<Rightarrow> oi_trust i = 3 | None \<Rightarrow> False) in
                if \<not> verified then act_throw (PqIdentityChanged fp_key) else act_ret ()))"

text \<open>Build libsignal's view of the bundle, with the first one-time keys it offers.\<close>

definition pre_key_bundle ::
  "('o, 'z) session_env_scheme \<Rightarrow> device_addr \<Rightarrow> omemo_bundle \<Rightarrow> 'o \<Rightarrow> 'o \<Rightarrow> 'o \<Rightarrow> 'o maint" where
  "pre_key_bundle env remote b ik pq_key pq_sig =
     act_bind (act_lift (ok_or (BundleParse ''bundle has no one-time EC prekeys'')
         (case b_prekeys b of [] \<Rightarrow> None | x # _ \<Rightarrow> Some x))) (\<lambda>ec.
     act_bind (act_lift (dec_pub env (snd ec))) (\<lambda>ec_pub.
     let (kem_id, kem_bytes, kem_sig) = (case b_kem_prekeys b of
           kp # _ \<Rightarrow> (kp_id kp, kp_key kp, kp_sig kp)
         | [] \<Rightarrow> (b_kem_spk_id b, b_kem_spk b, b_kem_spk_sig b)) in
     act_bind (sig_try env (ss_kem_de env kem_bytes)) (\<lambda>kem_pub.
     act_bind (act_lift (device_id_check env (da_device_id remote))) (\<lambda>dev.
     act_bind (act_lift (dec_pub env (b_spk b))) (\<lambda>spk.
     act_bind (sig_try env (ss_bundle_new env dev (fst ec, ec_pub) (b_spk_id b) spk (b_spk_sig b)
         kem_id kem_pub kem_sig ik)) (\<lambda>pb.
     act_ret (ss_with_pq env pb pq_key pq_sig (bundle_kem_binding env b))))))))"

definition establish_session ::
  "('o, 'z) session_env_scheme \<Rightarrow> 'o omemo_stores \<Rightarrow> string \<Rightarrow> u32 \<Rightarrow> device_addr \<Rightarrow> omemo_bundle \<Rightarrow> unit maint" where
  "establish_session env stores our_jid our_device remote b =
     (if \<not> supports_pqxdh b then act_throw NoPqxdh
      else if \<not> has_pq_identity b then act_throw NoPqIdentity
      else
        act_bind (sig_try env (ls_identity_decode env (ec_djb (b_ik b)))) (\<lambda>ik.
        act_bind (sig_try env (ss_pq_de env (b_pq_ik b))) (\<lambda>pq_key.
        act_bind (sig_try env (ss_pqsig_de env (b_pq_sig b))) (\<lambda>pq_sig.
        let fp_key = pq_pin_key (ls_identity_serialize env ik) in
        act_bind (check_pin stores remote b fp_key) (\<lambda>_.
        act_bind (pre_key_bundle env remote b ik pq_key pq_sig) (\<lambda>pb.
        act_bind (sig_try env (protocol_address env (da_jid remote) (da_device_id remote))) (\<lambda>remote_addr.
        act_bind (sig_try env (protocol_address env our_jid our_device)) (\<lambda>local_addr.
        act_bind (drawn_call env (\<lambda>n. ss_process env n (os_account_id stores) remote_addr local_addr pb)) (\<lambda>_.
        db_write (pin_omemo2_pq_identity (os_account_id stores) (da_jid remote) fp_key (b_pq_ik b)))))))))))"

definition reconcile_pq_pin ::
  "('o, 'z) session_env_scheme \<Rightarrow> 'o omemo_stores \<Rightarrow> device_addr \<Rightarrow> omemo_bundle \<Rightarrow> bytes \<Rightarrow> bool maint" where
  "reconcile_pq_pin env stores remote b known_ik =
     (if \<not> has_pq_identity b then act_throw NoPqIdentity
      else
        act_bind (sig_try env (ls_identity_decode env (ec_djb (b_ik b)))) (\<lambda>ik.
        if ls_identity_serialize env ik \<noteq> known_ik then
          act_throw (BundleParse ''bundle carries a different classical identity key than the established session'')
        else
        act_bind (sig_try env (ss_pq_de env (b_pq_ik b))) (\<lambda>pq_key.
        act_bind (sig_try env (ss_pqsig_de env (b_pq_sig b))) (\<lambda>pq_sig.
        act_bind (act_lift (dec_pub env (b_spk b))) (\<lambda>spk.
        let transcript = se_transcript env (ls_identity_serialize env ik) (ss_pq_ser env pq_key)
              (b_spk_id b) (ls_public_serialize env spk) (bundle_kem_binding env b);
            fp_key = pq_pin_key known_ik in
        if \<not> ss_pq_verify env pq_key transcript pq_sig then
          act_throw (BadSignature ''pq bundle transcript (pin reconciliation)'')
        else
        act_bind (db_read (get_pinned_omemo2_pq_identity (os_account_id stores) (da_jid remote) fp_key)) (\<lambda>pinned.
        if pinned \<noteq> None then act_ret False
        else act_bind (db_write (pin_omemo2_pq_identity (os_account_id stores) (da_jid remote) fp_key (b_pq_ik b)))
               (\<lambda>_. act_ret True)))))))"

subsection \<open>Encrypting and decrypting\<close>

definition wrap_key ::
  "('o, 'z) session_env_scheme \<Rightarrow> 'o omemo_stores \<Rightarrow> protocol_addr \<Rightarrow> bytes \<Rightarrow> device_addr \<Rightarrow> wrapped_key maint" where
  "wrap_key env stores local_addr message_key r =
     act_bind (sig_try env (protocol_address env (da_jid r) (da_device_id r))) (\<lambda>remote_addr.
     act_bind (drawn_call env (\<lambda>n. ss_encrypt env n (os_account_id stores) remote_addr local_addr message_key))
       (\<lambda>(kex, data). act_ret \<lparr>wk_jid = da_jid r, wk_device_id = da_device_id r, wk_data = data, wk_kex = kex\<rparr>))"

definition omemo_encrypt ::
  "('o, 'z) session_env_scheme \<Rightarrow> crypto \<Rightarrow> 'o omemo_stores \<Rightarrow> string \<Rightarrow> u32 \<Rightarrow> device_addr list \<Rightarrow>
   string option \<Rightarrow> bytes \<Rightarrow> encrypted_message maint" where
  "omemo_encrypt env c stores our_jid our_device recipients to_jid plaintext =
     act_bind (draw (ss_random_key env)) (\<lambda>message_key.
     act_bind (act_lift (omemo2_seal c message_key plaintext our_jid to_jid our_device)) (\<lambda>payload.
     let commit = omemo2_key_commitment c message_key (compute_context_binding our_jid to_jid our_device) in
     act_bind (sig_try env (protocol_address env our_jid our_device)) (\<lambda>local_addr.
     act_bind (act_map (wrap_key env stores local_addr message_key) recipients) (\<lambda>keys.
     act_ret \<lparr>em_payload = payload, em_keys = keys, em_commit = commit\<rparr>))))"

definition unwrap_key ::
  "('o, 'z) session_env_scheme \<Rightarrow> 'o omemo_stores \<Rightarrow> protocol_addr \<Rightarrow> protocol_addr \<Rightarrow> bytes \<Rightarrow> bool \<Rightarrow> bytes maint" where
  "unwrap_key env stores remote_addr local_addr wrapped is_kex =
     (if is_kex then
        act_bind (sig_try env (ss_prekey_msg_de env wrapped)) (\<lambda>msg.
          drawn_call env (\<lambda>n. ss_decrypt_prekey env n (os_account_id stores) remote_addr local_addr msg))
      else
        act_bind (sig_try env (ss_signal_msg_de env wrapped)) (\<lambda>msg.
          drawn_call env (\<lambda>n. ss_decrypt_signal env n (os_account_id stores) remote_addr local_addr msg)))"

definition omemo_decrypt ::
  "('o, 'z) session_env_scheme \<Rightarrow> crypto \<Rightarrow> 'o omemo_stores \<Rightarrow> string \<Rightarrow> u32 \<Rightarrow> device_addr \<Rightarrow>
   string option \<Rightarrow> bytes \<Rightarrow> bool \<Rightarrow> bytes \<Rightarrow> bytes option \<Rightarrow> bytes maint" where
  "omemo_decrypt env c stores our_jid our_device from expected_to wrapped is_kex payload commit =
     act_bind (sig_try env (protocol_address env (da_jid from) (da_device_id from))) (\<lambda>remote_addr.
     act_bind (sig_try env (protocol_address env our_jid our_device)) (\<lambda>local_addr.
     act_bind (unwrap_key env stores remote_addr local_addr wrapped is_kex) (\<lambda>message_key.
     if length message_key \<noteq> MSG_KEY_LEN then act_throw (Aead ''OMEMO2 message key must be 32 bytes'')
     else if payload = [] then act_ret []
     else act_lift (omemo2_open c message_key payload (da_jid from) expected_to (da_device_id from) commit))))"

definition whisper_ratchet_counter ::
  "('o, 'z) session_env_scheme \<Rightarrow> bytes \<Rightarrow> bool \<Rightarrow> (u32 \<times> bytes) option" where
  "whisper_ratchet_counter env wrapped is_kex =
     (if is_kex then None
      else (case ss_signal_msg_de env wrapped of
              Inl _ \<Rightarrow> None
            | Inr msg \<Rightarrow> Some (ss_counter env msg, ls_public_serialize env (ss_ratchet_key env msg))))"


subsection \<open>What a session call can change\<close>

text \<open>libsignal's promise: handed the stores, it touches the database through their traits only.\<close>

definition through_traits :: "('o, 'z) session_env_scheme \<Rightarrow> bool" where
  "through_traits env \<longleftrightarrow> (\<forall>n acc ra la x db.
     (trait_step env acc)\<^sup>*\<^sup>* db (snd (ss_process env n acc ra la x db)) \<and>
     (trait_step env acc)\<^sup>*\<^sup>* db (snd (ss_decrypt_prekey env n acc ra la x db)) \<and>
     (trait_step env acc)\<^sup>*\<^sup>* db (snd (ss_decrypt_signal env n acc ra la x db))) \<and>
   (\<forall>n acc ra la key db. (trait_step env acc)\<^sup>*\<^sup>* db (snd (ss_encrypt env n acc ra la key db)))"

lemma drawn_call_eval [act_simps]:
  "drawn_call env f w = (case f (w_tick w) (w_db w) of (r, db) \<Rightarrow>
     (map_err (\<lambda>e. Signal (se_show env e)) r, \<lparr>w_db = db, w_tick = Suc (w_tick w)\<rparr>))"
  by (cases w) (simp add: drawn_call_def trait_call_def act_simps world_act_simps split: prod.split)

lemma process_keeps_pins:
  "through_traits env \<Longrightarrow> drawn_call env (\<lambda>n. ss_process env n acc ra la pb) w = (r, w') \<Longrightarrow>
   t_pq_pins (w_db w') = t_pq_pins (w_db w)"
proof -
  assume "through_traits env" and call: "drawn_call env (\<lambda>n. ss_process env n acc ra la pb) w = (r, w')"
  then have "beyond_traits (snd (ss_process env (w_tick w) acc ra la pb (w_db w))) = beyond_traits (w_db w)"
    unfolding through_traits_def by (intro traits.run_view) blast
  with call show ?thesis
    by (auto simp: drawn_call_eval beyond_traits_def split: prod.split_asm)
qed

text \<open>The steps before libsignal is called read the world but do not change it.\<close>

lemma check_pin_world: "snd (check_pin stores remote b fp w) = w"
  by (simp add: check_pin_def act_simps world_act_simps Let_def split: option.split)

lemma pre_key_bundle_world: "snd (pre_key_bundle env remote b ik k sg w) = w"
  by (auto simp: pre_key_bundle_def act_simps world_act_simps Let_def split: sum.split prod.split list.split)

definition pin_allowed :: "'o omemo_stores \<Rightarrow> device_addr \<Rightarrow> omemo_bundle \<Rightarrow> string \<Rightarrow> omemo_db \<Rightarrow> bool" where
  "pin_allowed stores remote b fp db \<longleftrightarrow>
     (case get_pinned_omemo2_pq_identity (os_account_id stores) (da_jid remote) fp db of
        None \<Rightarrow> True
      | Some p \<Rightarrow> p = b_pq_ik b \<or>
          (\<exists>i. omemo_identity (os_account_id stores) (da_jid remote) (id_i64 (da_device_id remote)) db = Some i
             \<and> oi_trust i = 3))"

lemma check_pin_eval:
  "check_pin stores remote b fp w =
     (if pin_allowed stores remote b fp (w_db w) then Inr () else Inl (PqIdentityChanged fp), w)"
  by (auto simp: check_pin_def pin_allowed_def act_simps world_act_simps Let_def split: option.split)

definition bundle_pin_key :: "('o, 'z) session_env_scheme \<Rightarrow> omemo_bundle \<Rightarrow> string option" where
  "bundle_pin_key env b = (case ls_identity_decode env (ec_djb (b_ik b)) of
     Inl _ \<Rightarrow> None | Inr ik \<Rightarrow> Some (pq_pin_key (ls_identity_serialize env ik)))"

lemma pre_key_bundle_cases:
  obtains e where "pre_key_bundle env remote b ik k sg w = (Inl e, w)"
  | pb where "pre_key_bundle env remote b ik k sg w = (Inr pb, w)"
  using pre_key_bundle_world[of env remote b ik k sg w]
  by (cases "pre_key_bundle env remote b ik k sg w"; cases "fst (pre_key_bundle env remote b ik k sg w)") auto

lemma establish_cases:
  assumes "establish_session env stores our_jid our_device remote b w = (r, w')"
  obtains (refused) e where "r = Inl e" "w' = w"
  | (called) fp pb ra la r1 w1 where "bundle_pin_key env b = Some fp"
      "pin_allowed stores remote b fp (w_db w)"
      "drawn_call env (\<lambda>n. ss_process env n (os_account_id stores) ra la pb) w = (r1, w1)"
      "r = r1"
      "w' = (case r1 of Inl _ \<Rightarrow> w1 | Inr _ \<Rightarrow>
         w1\<lparr>w_db := pin_omemo2_pq_identity (os_account_id stores) (da_jid remote) fp (b_pq_ik b) (w_db w1)\<rparr>)"
proof (cases "\<not> supports_pqxdh b \<or> \<not> has_pq_identity b")
  case True
  with assms refused show thesis by (auto simp: establish_session_def act_simps split: if_split_asm)
next
  case False
  show thesis
  proof (cases "\<exists>ik k sg. ls_identity_decode env (ec_djb (b_ik b)) = Inr ik \<and> ss_pq_de env (b_pq_ik b) = Inr k \<and>
      ss_pqsig_de env (b_pq_sig b) = Inr sg")
    case no: False
    with False assms refused show thesis
      by (auto simp: establish_session_def act_simps world_act_simps map_err_def split: sum.split_asm)
  next
    case True
    then obtain ik k sg where objs: "ls_identity_decode env (ec_djb (b_ik b)) = Inr ik"
      "ss_pq_de env (b_pq_ik b) = Inr k" "ss_pqsig_de env (b_pq_sig b) = Inr sg" by blast
    define fp where "fp = pq_pin_key (ls_identity_serialize env ik)"
    have fp: "bundle_pin_key env b = Some fp" by (simp add: bundle_pin_key_def objs fp_def)
    show thesis
    proof (cases "pin_allowed stores remote b fp (w_db w)")
      case no: False
      with False objs assms refused show thesis
        by (auto simp: establish_session_def act_simps world_act_simps check_pin_eval fp_def Let_def)
    next
      case allowed: True
      show thesis
      proof (cases rule: pre_key_bundle_cases[of env remote b ik k sg w])
        case (1 e)
        with False objs allowed assms refused show thesis
          by (auto simp: establish_session_def act_simps world_act_simps check_pin_eval fp_def Let_def)
      next
        case (2 pb)
        show thesis
        proof (cases "\<exists>ra la. protocol_address env (da_jid remote) (da_device_id remote) = Inr ra \<and>
            protocol_address env our_jid our_device = Inr la")
          case no: False
          with False objs allowed 2 assms refused show thesis
            by (auto simp: establish_session_def act_simps world_act_simps check_pin_eval fp_def Let_def map_err_def
                split: sum.split_asm)
        next
          case True
          then obtain ra la where addrs: "protocol_address env (da_jid remote) (da_device_id remote) = Inr ra"
            "protocol_address env our_jid our_device = Inr la" by blast
          obtain r1 w1 where dc: "drawn_call env (\<lambda>n. ss_process env n (os_account_id stores) ra la pb) w = (r1, w1)"
            by fastforce
          show thesis
            by (rule called[OF fp allowed dc])
               (use False objs allowed 2 addrs dc assms in \<open>auto simp: establish_session_def act_bind_eval
                 act_eval world_act_simps check_pin_eval fp_def Let_def split: sum.split_asm\<close>)
        qed
      qed
    qed
  qed
qed

text \<open>
  The pin of a post-quantum identity follows the policy: establishing a session changes no pin
  but the one of (this account, this peer, this classical key), and only on success, to the key of
  the bundle; success means the pin was unset, the same, or the device was verified by the user.
\<close>

theorem establish_session_pin_policy:
  assumes "through_traits env"
    and "establish_session env stores our_jid our_device remote b w = (r, w')"
  shows "(\<forall>a jid fp. get_pinned_omemo2_pq_identity a jid fp (w_db w') =
        (if r = Inr () \<and> a = os_account_id stores \<and> jid = da_jid remote \<and> bundle_pin_key env b = Some fp
         then Some (b_pq_ik b) else get_pinned_omemo2_pq_identity a jid fp (w_db w)))
    \<and> (r = Inr () \<longrightarrow> (\<exists>fp. bundle_pin_key env b = Some fp \<and> pin_allowed stores remote b fp (w_db w)))"
  using assms(2)
proof (cases rule: establish_cases)
  case (refused e)
  then show ?thesis by simp
next
  case (called fp pb ra la r1 w1)
  have pins: "t_pq_pins (w_db w1) = t_pq_pins (w_db w)"
    using process_keeps_pins[OF assms(1) called(3)] .
  show ?thesis
  proof (cases r1)
    case (Inl e)
    with called pins show ?thesis by (simp add: get_pinned_omemo2_pq_identity_def)
  next
    case (Inr u)
    with called pins show ?thesis
      by (auto simp: get_pinned_omemo2_pq_identity_def pin_omemo2_pq_identity_def store_simps
          split: option.split)
  qed
qed

text \<open>
  C32: A changed post-quantum identity is refused before anything happens: when another key is pinned
  for the bundle's classical key and the device is not verified, no session is established and the
  database is untouched.
\<close>

theorem changed_pq_identity_refused:
  assumes "bundle_pin_key env b = Some fp" and "\<not> pin_allowed stores remote b fp (w_db w)"
  shows "\<exists>e. establish_session env stores our_jid our_device remote b w = (Inl e, w)"
proof -
  obtain r w' where run: "establish_session env stores our_jid our_device remote b w = (r, w')" by fastforce
  then show ?thesis
    by (cases rule: establish_cases) (use assms run in auto)
qed


text \<open>Session functions that carry the key in the clear, to run the definitions on.\<close>

definition toy_session_env :: "bytes session_env" where
  "toy_session_env = signal_env.extend toy_env (session_env.fields Inr id Inr (\<lambda>_ _ _. True) Inr Inr
     (\<lambda>_ _ _ _ _ _ _ _ _. Inr []) (\<lambda>pb _ _ _. pb) (\<lambda>_ _ _ _ _. act_ret ())
     (\<lambda>_ _ _ _ key. act_ret (False, key)) Inr Inr (\<lambda>_ _ _ _ m. act_ret m) (\<lambda>_ _ _ _ m. act_ret m)
     (\<lambda>_. 0) id (\<lambda>n. replicate 32 (word_of_nat n)))"

lemma toy_through_traits: "through_traits toy_session_env"
  by (simp add: through_traits_def toy_session_env_def session_env.defs signal_env.defs act_ret_def)

definition toy_peer :: device_addr where
  "toy_peer = \<lparr>da_jid = ''p@q'', da_device_id = 4\<rparr>"

definition fresh_world :: world where
  "fresh_world = \<lparr>w_db = empty_omemo_db, w_tick = 0\<rparr>"

theorem establish_session_pin_policy_witness:
  "get_pinned_omemo2_pq_identity 1 ''p@q'' ''03''
     (w_db (snd (establish_session toy_session_env toy_stores ''a@b'' 7 toy_peer toy_bundle fresh_world))) = Some [9]"
proof -
  have res: "fst (establish_session toy_session_env toy_stores ''a@b'' 7 toy_peer toy_bundle fresh_world) = Inr ()"
    by code_simp
  have key: "bundle_pin_key toy_session_env toy_bundle = Some ''03''" by code_simp
  from establish_session_pin_policy[OF toy_through_traits surjective_pairing]
  have "get_pinned_omemo2_pq_identity 1 ''p@q'' ''03''
     (w_db (snd (establish_session toy_session_env toy_stores ''a@b'' 7 toy_peer toy_bundle fresh_world)))
     = (if fst (establish_session toy_session_env toy_stores ''a@b'' 7 toy_peer toy_bundle fresh_world) = Inr () \<and>
         1 = os_account_id toy_stores \<and> ''p@q'' = da_jid toy_peer \<and>
         bundle_pin_key toy_session_env toy_bundle = Some ''03''
        then Some (b_pq_ik toy_bundle) else get_pinned_omemo2_pq_identity 1 ''p@q'' ''03'' (w_db fresh_world))"
    by blast
  with res key show ?thesis by (simp add: toy_stores_def toy_peer_def toy_bundle_def)
qed

theorem changed_pq_identity_refused_witness:
  "\<exists>e. establish_session toy_session_env toy_stores ''a@b'' 7 toy_peer toy_bundle
      \<lparr>w_db = pin_omemo2_pq_identity 1 ''p@q'' ''03'' [77] empty_omemo_db, w_tick = 0\<rparr>
    = (Inl e, \<lparr>w_db = pin_omemo2_pq_identity 1 ''p@q'' ''03'' [77] empty_omemo_db, w_tick = 0\<rparr>)"
proof (rule changed_pq_identity_refused)
  show "bundle_pin_key toy_session_env toy_bundle = Some ''03''" by code_simp
  have none: "omemo_identity (os_account_id toy_stores) (da_jid toy_peer) (id_i64 (da_device_id toy_peer))
      (pin_omemo2_pq_identity 1 ''p@q'' ''03'' [77] empty_omemo_db) = None" by code_simp
  have "get_pinned_omemo2_pq_identity (os_account_id toy_stores) (da_jid toy_peer) ''03''
      (pin_omemo2_pq_identity 1 ''p@q'' ''03'' [77] empty_omemo_db) = Some [77]" by code_simp
  with none show "\<not> pin_allowed toy_stores toy_peer toy_bundle ''03''
      (w_db \<lparr>w_db = pin_omemo2_pq_identity 1 ''p@q'' ''03'' [77] empty_omemo_db, w_tick = 0\<rparr>)"
    by (simp add: pin_allowed_def) (simp add: toy_bundle_def)
qed

text \<open>
  Reconciling only ever fills a missing pin: no existing pin of any account, peer or key changes;
  \<open>Ok(true)\<close> means the bundle carried the known classical key and a verifying post-quantum
  signature, and then its key is pinned; every other outcome leaves the world untouched.
\<close>

theorem reconcile_fills_only_missing_pins:
  assumes "reconcile_pq_pin env stores remote b known_ik w = (r, w')"
  shows "(\<forall>a jid fp p. get_pinned_omemo2_pq_identity a jid fp (w_db w) = Some p \<longrightarrow>
        get_pinned_omemo2_pq_identity a jid fp (w_db w') = Some p)
    \<and> (r = Inr True \<longrightarrow> bundle_pin_key env b = Some (pq_pin_key known_ik)
        \<and> get_pinned_omemo2_pq_identity (os_account_id stores) (da_jid remote) (pq_pin_key known_ik) (w_db w')
            = Some (b_pq_ik b)
        \<and> (\<exists>key sig spk. ss_pq_de env (b_pq_ik b) = Inr key \<and> ss_pqsig_de env (b_pq_sig b) = Inr sig
            \<and> dec_pub env (b_spk b) = Inr spk
            \<and> ss_pq_verify env key (se_transcript env known_ik (ss_pq_ser env key) (b_spk_id b)
                (ls_public_serialize env spk) (bundle_kem_binding env b)) sig))
    \<and> (r \<noteq> Inr True \<longrightarrow> w' = w)"
  using assms
  by (auto simp: reconcile_pq_pin_def act_simps world_act_simps Let_def bundle_pin_key_def
      get_pinned_omemo2_pq_identity_def pin_omemo2_pq_identity_def store_simps
      split: if_split_asm sum.split_asm option.split)

theorem reconcile_fills_only_missing_pins_witness:
  "get_pinned_omemo2_pq_identity 1 ''p@q'' ''03''
     (w_db (snd (reconcile_pq_pin toy_session_env toy_stores toy_peer toy_bundle [3] fresh_world))) = Some [9]"
proof -
  have res: "fst (reconcile_pq_pin toy_session_env toy_stores toy_peer toy_bundle [3] fresh_world) = Inr True"
    by code_simp
  have key: "pq_pin_key [3] = ''03''" by code_simp
  from reconcile_fills_only_missing_pins[OF surjective_pairing] res
  have "get_pinned_omemo2_pq_identity (os_account_id toy_stores) (da_jid toy_peer) (pq_pin_key [3])
     (w_db (snd (reconcile_pq_pin toy_session_env toy_stores toy_peer toy_bundle [3] fresh_world))) = Some (b_pq_ik toy_bundle)"
    by blast
  with key show ?thesis by (simp add: toy_stores_def toy_peer_def toy_bundle_def)
qed

subsection \<open>End to end\<close>

lemma encrypt_InrD:
  assumes "omemo_encrypt env c stores our_jid our_device recipients to_jid plaintext w = (Inr em, w')"
  shows "omemo2_seal c (ss_random_key env (w_tick w)) plaintext our_jid to_jid our_device = Inr (em_payload em)
    \<and> em_commit em = omemo2_key_commitment c (ss_random_key env (w_tick w))
        (compute_context_binding our_jid to_jid our_device)"
  using assms
  by (auto simp: omemo_encrypt_def act_simps world_act_simps Let_def split: sum.split_asm prod.split_asm)

lemma seal_payload_nonempty: "gcm_sound c \<Longrightarrow> omemo2_seal c mk m f t d = Inr p \<Longrightarrow> p \<noteq> []"
  by (cases p) (fastforce simp: omemo2_seal_def gcm_sound_def TAG_LEN_def Let_def split: prod.split_asm)+

lemma seal_opens:
  assumes "gcm_sound c" "omemo2_seal c mk m from to_jid sid = Inr p"
  shows "omemo2_open c mk p from to_jid sid
    (Some (omemo2_key_commitment c mk (compute_context_binding from to_jid sid))) = Inr m"
proof -
  obtain k iv where keys: "derive_payload_keys c mk (compute_context_binding from to_jid sid) = (k, iv)"
    by fastforce
  with assms show ?thesis
    by (auto simp: omemo2_seal_def omemo2_open_def gcm_sound_def ct_eq_true Let_def TAG_LEN_def)
qed

text \<open>
  End to end: a receiver whose libsignal session unwraps the message key the sender wrapped gets
  the plaintext back, when it expects the recipient the sender bound.
\<close>

theorem encrypt_decrypt_roundtrip:
  assumes "gcm_sound c" "length (ss_random_key env (w_tick w)) = 32"
    and sent: "omemo_encrypt env c stores our_jid our_device recipients to_jid plaintext w = (Inr em, w1)"
    and addrs: "protocol_address env' our_jid our_device = Inr ra" "protocol_address env' their_jid their_device = Inr la"
    and unwrapped: "unwrap_key env' stores' ra la wrapped is_kex v = (Inr (ss_random_key env (w_tick w)), v1)"
  shows "omemo_decrypt env' c stores' their_jid their_device \<lparr>da_jid = our_jid, da_device_id = our_device\<rparr>
      to_jid wrapped is_kex (em_payload em) (Some (em_commit em)) v = (Inr plaintext, v1)"
proof -
  note sealed = encrypt_InrD[OF sent]
  have "em_payload em \<noteq> []" using sealed seal_payload_nonempty[OF assms(1)] by blast
  moreover have "omemo2_open c (ss_random_key env (w_tick w)) (em_payload em) our_jid to_jid our_device
      (Some (em_commit em)) = Inr plaintext"
    using sealed seal_opens[OF assms(1)] by simp
  ultimately show ?thesis
    using assms(2) addrs unwrapped by (simp add: omemo_decrypt_def act_simps world_act_simps MSG_KEY_LEN_def)
qed

text \<open>
  Decryption fails closed: content is only returned when the sender published a commitment and it
  is the commitment of the unwrapped 32-byte key under the context (sender, expected recipient,
  sender's device).
\<close>

theorem decrypt_requires_commitment:
  assumes "omemo_decrypt env c stores our_jid our_device from expected_to wrapped is_kex payload commit w = (Inr m, w')"
    and "m \<noteq> []"
  shows "\<exists>ra la mk v. unwrap_key env stores ra la wrapped is_kex v = (Inr mk, w') \<and> length mk = 32 \<and>
    commit = Some (omemo2_key_commitment c mk
      (compute_context_binding (da_jid from) expected_to (da_device_id from)))"
  using assms
  by (auto simp: omemo_decrypt_def act_simps world_act_simps MSG_KEY_LEN_def
      split: sum.split_asm prod.split_asm if_split_asm) (use open_commits in blast)


definition toy_sent :: encrypted_message where
  "toy_sent = (case fst (omemo_encrypt toy_session_env toy_crypto toy_stores ''a@b'' 7 [toy_peer] (Some ''p@q'') [1, 2] fresh_world)
     of Inr em \<Rightarrow> em | Inl _ \<Rightarrow> \<lparr>em_payload = [], em_keys = [], em_commit = []\<rparr>)"

lemma toy_encrypts:
  "omemo_encrypt toy_session_env toy_crypto toy_stores ''a@b'' 7 [toy_peer] (Some ''p@q'') [1, 2] fresh_world
     = (Inr toy_sent, \<lparr>w_db = empty_omemo_db, w_tick = 2\<rparr>)"
proof -
  have "\<exists>em. omemo_encrypt toy_session_env toy_crypto toy_stores ''a@b'' 7 [toy_peer] (Some ''p@q'') [1, 2] fresh_world
     = (Inr em, \<lparr>w_db = empty_omemo_db, w_tick = 2\<rparr>)"
    by (simp add: omemo_encrypt_def act_simps world_act_simps Let_def omemo2_seal_def case_prod_beta
        toy_crypto_def wrap_key_def protocol_address_def toy_session_env_def session_env.defs signal_env.defs
        toy_env_def libsignal.defs raw_libsignal_def fresh_world_def toy_peer_def act_ret_def)
  then show ?thesis by (auto simp: toy_sent_def)
qed

theorem encrypt_decrypt_roundtrip_witness:
  "fst (omemo_decrypt toy_session_env toy_crypto toy_stores ''p@q'' 4 \<lparr>da_jid = ''a@b'', da_device_id = 7\<rparr>
     (Some ''p@q'') (replicate 32 0) False (em_payload toy_sent) (Some (em_commit toy_sent)) fresh_world) = Inr [1, 2]"
proof -
  have addrs: "protocol_address toy_session_env ''a@b'' 7 = Inr \<lparr>pa_name = ''a@b'', pa_device = 7\<rparr>"
    "protocol_address toy_session_env ''p@q'' 4 = Inr \<lparr>pa_name = ''p@q'', pa_device = 4\<rparr>"
    by code_simp+
  have key: "ss_random_key toy_session_env (w_tick fresh_world) = replicate 32 0" by code_simp
  have unwrapped: "unwrap_key toy_session_env toy_stores \<lparr>pa_name = ''a@b'', pa_device = 7\<rparr>
      \<lparr>pa_name = ''p@q'', pa_device = 4\<rparr> (replicate 32 0) False fresh_world
      = (Inr (ss_random_key toy_session_env (w_tick fresh_world)), \<lparr>w_db = empty_omemo_db, w_tick = 1\<rparr>)"
    unfolding key
    by (simp add: unwrap_key_def act_simps world_act_simps toy_session_env_def session_env.defs signal_env.defs
        fresh_world_def act_ret_def)
  from encrypt_decrypt_roundtrip[OF toy_gcm_sound _ toy_encrypts addrs unwrapped] key
  show ?thesis by simp
qed

theorem decrypt_requires_commitment_witness:
  "\<exists>commit m. fst (omemo_decrypt toy_session_env toy_crypto toy_stores ''p@q'' 4 \<lparr>da_jid = ''a@b'', da_device_id = 7\<rparr>
     None (replicate 32 0) False ([1] @ replicate 16 0) commit fresh_world) = Inr m \<and> commit \<noteq> None \<and> m \<noteq> []"
proof -
  define commit where
    "commit = Some (omemo2_key_commitment toy_crypto (replicate 32 0) (compute_context_binding ''a@b'' None 7))"
  have dec: "gcm_decrypt toy_crypto k iv aad ([1] @ replicate 16 0) = Inr [1]" for k iv aad
    by (simp add: toy_crypto_def)
  have opens: "omemo2_open toy_crypto (replicate 32 0) ([1] @ replicate 16 0) ''a@b'' None 7 commit = Inr [1]"
    unfolding omemo2_open_def Let_def case_prod_beta dec by (simp add: commit_def TAG_LEN_def)
  have run: "omemo_decrypt toy_session_env toy_crypto toy_stores ''p@q'' 4 \<lparr>da_jid = ''a@b'', da_device_id = 7\<rparr>
     None (replicate 32 0) False ([1] @ replicate 16 0) commit fresh_world
     = (Inr [1], \<lparr>w_db = empty_omemo_db, w_tick = 1\<rparr>)"
    using opens
    by (simp add: omemo_decrypt_def act_simps world_act_simps unwrap_key_def protocol_address_def MSG_KEY_LEN_def
        toy_session_env_def session_env.defs signal_env.defs toy_env_def libsignal.defs raw_libsignal_def
        fresh_world_def act_ret_def)
  have "commit \<noteq> None" using decrypt_requires_commitment[OF run] by auto
  with run show ?thesis by (intro exI[of _ commit] exI[of _ "[1]"]) simp
qed

end
