(* ===== verification/Sce.thy ===== *)
theory Sce
  imports Xml Omemo_Kdf
begin

text \<open>
  \<open>crates/mxc-omemo/src/sce.rs\<close>: the stanza content encryption envelope.  \<open>to_xml\<close> pads to a
  256-byte boundary; \<open>from_xml\<close> is a loop over quick-xml events that copies what is inside
  \<open>content\<close> and takes the affixes from outside it.  The generator of the pad is the argument
  \<open>rng\<close>, its draws numbered.
\<close>

record envelope =
  env_content_inner :: string
  env_from :: string
  env_to :: string
  env_time :: "string option"

definition NS_SCE :: string where "NS_SCE = ''urn:xmpp:sce:1''"
definition PAD_BUCKET :: nat where "PAD_BUCKET = 256"
definition RPAD_ELEMENT_OVERHEAD :: nat where "RPAD_ELEMENT_OVERHEAD = length ''<rpad></rpad>''"

definition RPAD_ALPHABET :: string where
  "RPAD_ALPHABET = ''ABCDEFGHIJKLMNOPQRSTUVWXYZabcdefghijklmnopqrstuvwxyz0123456789+/''"

definition quoted :: "string \<Rightarrow> string" where
  "quoted s = [CHR 0x27] @ s @ [CHR 0x27]"

definition random_pad_chars :: "(nat \<Rightarrow> u32) \<Rightarrow> nat \<Rightarrow> string" where
  "random_pad_chars rng len =
     map (\<lambda>i. RPAD_ALPHABET ! (unat (rng i) mod length RPAD_ALPHABET)) [0..<len]"

text \<open>\<open>Envelope::new\<close> and \<open>with_content\<close>\<close>

definition envelope_new :: "quick_xml \<Rightarrow> string \<Rightarrow> string \<Rightarrow> string \<Rightarrow> string option \<Rightarrow> string \<Rightarrow> envelope" where
  "envelope_new q body from to_jid time extra_content =
     \<lparr>env_content_inner = ''<body xmlns='' @ quoted ''jabber:client'' @ ''>'' @ qx_escape q body @ ''</body>''
        @ extra_content,
      env_from = from, env_to = to_jid, env_time = time\<rparr>"

definition envelope_with_content :: "string \<Rightarrow> string \<Rightarrow> string \<Rightarrow> string option \<Rightarrow> envelope" where
  "envelope_with_content content_inner from to_jid time =
     \<lparr>env_content_inner = content_inner, env_from = from, env_to = to_jid, env_time = time\<rparr>"

text \<open>Everything before the padding.\<close>

definition envelope_head :: "quick_xml \<Rightarrow> envelope \<Rightarrow> string" where
  "envelope_head q e =
     ''<envelope xmlns='' @ quoted NS_SCE @ ''>'' @ ''<content>'' @ env_content_inner e @ ''</content>''
     @ (case env_time e of Some t \<Rightarrow> ''<time stamp='' @ quoted (qx_escape q t) @ ''/>'' | None \<Rightarrow> [])
     @ ''<from jid='' @ quoted (qx_escape q (env_from e)) @ ''/>''
     @ ''<to jid='' @ quoted (qx_escape q (env_to e)) @ ''/>''"

definition envelope_to_xml :: "quick_xml \<Rightarrow> (nat \<Rightarrow> u32) \<Rightarrow> envelope \<Rightarrow> string" where
  "envelope_to_xml q rng e =
     (let s = envelope_head q e;
          unpadded = length s + RPAD_ELEMENT_OVERHEAD + length ''</envelope>'';
          target = (unpadded div PAD_BUCKET + 1) * PAD_BUCKET
      in s @ ''<rpad>'' @ random_pad_chars rng (target - unpadded) @ ''</rpad>'' @ ''</envelope>'')"

subsection \<open>Parsing\<close>

definition attr_str :: "quick_xml \<Rightarrow> xml_attr list \<Rightarrow> string \<Rightarrow> string" where
  "attr_str q as key =
     (case find_attr key as of
        None \<Rightarrow> []
      | Some v \<Rightarrow> (case qx_normalized q v of Some n \<Rightarrow> n | None \<Rightarrow> utf8_lossy v))"

definition replace_apos :: "string \<Rightarrow> string" where
  "replace_apos s = concat (map (\<lambda>c. if c = CHR 0x27 then ''&apos;'' else [c]) s)"

definition attrs_str :: "quick_xml \<Rightarrow> xml_attr list \<Rightarrow> string" where
  "attrs_str q as = concat (map (\<lambda>a.
     '' '' @ utf8_lossy (xa_key a) @ ''='' @ quoted
       (case qx_normalized q (xa_value a) of
          Some v \<Rightarrow> qx_escape q v
        | None \<Rightarrow> replace_apos (utf8_lossy (xa_value a)))) as)"

definition reconstruct_start :: "quick_xml \<Rightarrow> string \<Rightarrow> xml_attr list \<Rightarrow> string" where
  "reconstruct_start q name as = ''<'' @ utf8_lossy name @ attrs_str q as @ ''>''"

definition reconstruct_empty :: "quick_xml \<Rightarrow> string \<Rightarrow> xml_attr list \<Rightarrow> string" where
  "reconstruct_empty q name as = ''<'' @ utf8_lossy name @ attrs_str q as @ ''/>''"

record sce_state =
  sc_env :: envelope
  sc_in_content :: bool
  sc_depth :: nat

definition push_content :: "string \<Rightarrow> sce_state \<Rightarrow> sce_state" where
  "push_content t st = st\<lparr>sc_env := (sc_env st)\<lparr>env_content_inner := env_content_inner (sc_env st) @ t\<rparr>\<rparr>"

definition sce_event :: "quick_xml \<Rightarrow> xml_event \<Rightarrow> sce_state \<Rightarrow> sce_state" where
  "sce_event q ev st =
     (case ev of
        EvStart name as \<Rightarrow>
          if name = ''content'' \<and> \<not> sc_in_content st then st\<lparr>sc_in_content := True\<rparr>
          else if sc_in_content st then
            push_content (reconstruct_start q name as) (st\<lparr>sc_depth := sc_depth st + 1\<rparr>)
          else st
      | EvEnd name \<Rightarrow>
          if name = ''content'' \<and> sc_depth st = 0 then st\<lparr>sc_in_content := False\<rparr>
          else if sc_in_content st then
            push_content (''</'' @ utf8_lossy name @ ''>'') (st\<lparr>sc_depth := sc_depth st - 1\<rparr>)
          else st
      | EvEmpty name as \<Rightarrow>
          if name = ''from'' \<and> \<not> sc_in_content st then
            st\<lparr>sc_env := (sc_env st)\<lparr>env_from := attr_str q as ''jid''\<rparr>\<rparr>
          else if name = ''to'' \<and> \<not> sc_in_content st then
            st\<lparr>sc_env := (sc_env st)\<lparr>env_to := attr_str q as ''jid''\<rparr>\<rparr>
          else if name = ''time'' \<and> \<not> sc_in_content st then
            (let s = attr_str q as ''stamp'' in
             if s \<noteq> [] then st\<lparr>sc_env := (sc_env st)\<lparr>env_time := Some s\<rparr>\<rparr> else st)
          else if sc_in_content st then push_content (reconstruct_empty q name as) st
          else st
      | EvText t \<Rightarrow> if sc_in_content st then push_content (utf8_lossy t) st else st
      | EvGeneralRef r \<Rightarrow>
          if sc_in_content st then
            (case qx_decode q r of Inr name \<Rightarrow> push_content (''&'' @ name @ '';'') st | Inl _ \<Rightarrow> st)
          else st
      | EvOther \<Rightarrow> st)"

definition sce_init :: sce_state where
  "sce_init = \<lparr>sc_env = \<lparr>env_content_inner = [], env_from = [], env_to = [], env_time = None\<rparr>,
     sc_in_content = False, sc_depth = 0\<rparr>"

definition envelope_from_xml :: "quick_xml \<Rightarrow> string \<Rightarrow> omemo_error + envelope" where
  "envelope_from_xml q xml =
     (let (evs, failed) = qx_read q False xml in
      case failed of
        Some e \<Rightarrow> Inl (BundleParse e)
      | None \<Rightarrow> Inr (sc_env (fold (sce_event q) evs sce_init)))"

definition xml_unescape :: "quick_xml \<Rightarrow> string \<Rightarrow> string" where
  "xml_unescape q s = (case qx_unescape q s of Inr v \<Rightarrow> v | Inl _ \<Rightarrow> s)"

text \<open>The offsets are those of ASCII patterns, so the slices of the source are on boundaries.\<close>

definition envelope_body :: "quick_xml \<Rightarrow> envelope \<Rightarrow> string option" where
  "envelope_body q e =
     (let s = env_content_inner e in
      Option.bind (find_str ''<body'' s) (\<lambda>open_pos.
      Option.bind (find_str ''>'' (drop open_pos s)) (\<lambda>g.
      let gt = g + open_pos + 1 in
      Option.bind (find_str ''</body>'' (drop gt s)) (\<lambda>c.
        Some (xml_unescape q (take c (drop gt s)))))))"

definition verify_binding :: "envelope \<Rightarrow> string \<Rightarrow> string \<Rightarrow> omemo_error + unit" where
  "verify_binding e expected_to expected_from =
     (if \<not> eq_ignore_ascii_case (env_to e) expected_to then Inl (BadSignature ''sce <to> mismatch'')
      else if \<not> eq_ignore_ascii_case (env_from e) expected_from then Inl (BadSignature ''sce <from> mismatch'')
      else Inr ())"

subsection \<open>Padding hides the length\<close>

lemma length_random_pad [simp]: "length (random_pad_chars rng n) = n"
  by (simp add: random_pad_chars_def)

text \<open>
  A serialized envelope is a whole number of 256-byte buckets: its length depends only on the
  size class of its content, with between 1 and 256 bytes of padding, whatever the generator draws.
\<close>

theorem envelope_length_bucketed:
  "length (envelope_to_xml q rng e) =
     256 * ((length (envelope_head q e) + 24) div 256 + 1)"
proof -
  define u where "u = length (envelope_head q e) + 24"
  have u: "length (envelope_head q e) + RPAD_ELEMENT_OVERHEAD + length ''</envelope>'' = u"
    by (simp add: u_def RPAD_ELEMENT_OVERHEAD_def)
  have le: "u < (u div 256 + 1) * 256"
    using dividend_less_div_times[of 256 u] by simp
  have "length (envelope_to_xml q rng e) = u + ((u div PAD_BUCKET + 1) * PAD_BUCKET - u)"
    unfolding envelope_to_xml_def Let_def u by (simp add: u_def)
  with le show ?thesis by (simp add: PAD_BUCKET_def u_def)
qed

text \<open>The pad needs no escaping: every pad character is of the base64 alphabet.\<close>

lemma pad_alphabet:
  "set (random_pad_chars rng n) \<subseteq> set RPAD_ALPHABET"
proof -
  have "unat (rng i) mod length RPAD_ALPHABET < length RPAD_ALPHABET" for i
    by (rule mod_less_divisor) (simp add: RPAD_ALPHABET_def)
  then show ?thesis by (auto simp: random_pad_chars_def simp del: mod_less_divisor intro!: nth_mem)
qed


subsection \<open>The affixes come from the envelope\<close>

text \<open>The nesting after a sequence of events inside \<open>content\<close>; \<open>None\<close> when it would leave it.\<close>

fun nesting :: "xml_event list \<Rightarrow> nat \<Rightarrow> nat option" where
  "nesting [] d = Some d"
| "nesting (EvStart _ _ # evs) d = nesting evs (d + 1)"
| "nesting (EvEnd _ # evs) d = (if d = 0 then None else nesting evs (d - 1))"
| "nesting (_ # evs) d = nesting evs d"

definition render_event :: "quick_xml \<Rightarrow> xml_event \<Rightarrow> string" where
  "render_event q ev = (case ev of
       EvStart name as \<Rightarrow> reconstruct_start q name as
     | EvEnd name \<Rightarrow> ''</'' @ utf8_lossy name @ ''>''
     | EvEmpty name as \<Rightarrow> reconstruct_empty q name as
     | EvText t \<Rightarrow> utf8_lossy t
     | EvGeneralRef r \<Rightarrow> (case qx_decode q r of Inr name \<Rightarrow> ''&'' @ name @ '';'' | Inl _ \<Rightarrow> [])
     | EvOther \<Rightarrow> [])"

lemma fold_inside_content:
  "nesting evs (sc_depth st) = Some d \<Longrightarrow> sc_in_content st \<Longrightarrow>
   fold (sce_event q) evs st = (push_content (concat (map (render_event q) evs)) st)\<lparr>sc_depth := d\<rparr>"
proof (induction evs arbitrary: st)
  case Nil
  then show ?case by (cases st) (simp add: push_content_def)
next
  case (Cons ev evs)
  then show ?case
    by (cases ev)
       (auto simp: sce_event_def render_event_def push_content_def split: if_split_asm sum.split)
qed

text \<open>
  Content cannot move the affixes: whatever elements stand inside \<open>content\<close> (a \<open>to\<close>, a \<open>from\<close>, a
  nested \<open>content\<close>), once they are balanced the envelope has the affixes it had before and has
  collected exactly their text; so binding and replay checks read the envelope's own affixes.
\<close>

theorem content_cannot_set_affixes:
  assumes "nesting evs 0 = Some 0" and "\<not> sc_in_content st" "sc_depth st = 0"
  shows "fold (sce_event q) (EvStart ''content'' as # evs @ [EvEnd ''content'']) st =
    st\<lparr>sc_env := (sc_env st)\<lparr>env_content_inner := env_content_inner (sc_env st) @ concat (map (render_event q) evs)\<rparr>\<rparr>"
proof -
  let ?in = "st\<lparr>sc_in_content := True\<rparr>"
  have "fold (sce_event q) evs ?in = (push_content (concat (map (render_event q) evs)) ?in)\<lparr>sc_depth := 0\<rparr>"
    using assms by (intro fold_inside_content) simp_all
  with assms(2,3) show ?thesis by (simp add: sce_event_def push_content_def)
qed

theorem content_cannot_set_affixes_witness:
  "env_to (sc_env (fold (sce_event \<lparr>qx_read = \<lambda>_ _. ([], None), qx_escape = id, qx_unescape = Inr,
      qx_decode = Inr, qx_normalized = Some\<rparr>)
    (EvStart ''content'' [] # [EvEmpty ''to'' [\<lparr>xa_key = ''jid'', xa_value = ''evil''\<rparr>]] @ [EvEnd ''content'']) sce_init)) = []"
  by (subst content_cannot_set_affixes) (simp_all add: sce_init_def)

definition envelope_events :: "quick_xml \<Rightarrow> envelope \<Rightarrow> xml_event list \<Rightarrow> string \<Rightarrow> xml_event list" where
  "envelope_events q e inner pad =
     EvStart ''envelope'' [\<lparr>xa_key = ''xmlns'', xa_value = NS_SCE\<rparr>]
     # (EvStart ''content'' [] # inner @ [EvEnd ''content''])
     @ (case env_time e of Some t \<Rightarrow> [EvEmpty ''time'' [\<lparr>xa_key = ''stamp'', xa_value = qx_escape q t\<rparr>]] | None \<Rightarrow> [])
     @ [EvEmpty ''from'' [\<lparr>xa_key = ''jid'', xa_value = qx_escape q (env_from e)\<rparr>],
        EvEmpty ''to'' [\<lparr>xa_key = ''jid'', xa_value = qx_escape q (env_to e)\<rparr>],
        EvStart ''rpad'' [], EvText pad, EvEnd ''rpad'', EvEnd ''envelope'']"


lemma content_block:
  assumes "nesting evs 0 = Some 0" and "\<not> sc_in_content st" "sc_depth st = 0"
  shows "fold (sce_event q) (EvStart ''content'' as # evs @ [EvEnd ''content'']) st =
    st\<lparr>sc_env := (sc_env st)\<lparr>env_content_inner := env_content_inner (sc_env st) @ concat (map (render_event q) evs)\<rparr>\<rparr>"
proof -
  let ?in = "st\<lparr>sc_in_content := True\<rparr>"
  have "fold (sce_event q) evs ?in = (push_content (concat (map (render_event q) evs)) ?in)\<lparr>sc_depth := 0\<rparr>"
    using assms by (intro fold_inside_content) simp_all
  with assms(2,3) show ?thesis by (simp add: sce_event_def push_content_def)
qed

text \<open>
  An envelope is read back: when the reader delivers the elements of the document \<open>to_xml\<close>
  writes, with content events that render back to the content, and attribute values resolve to
  what was escaped, parsing returns the envelope, padding dropped.
\<close>

theorem envelope_roundtrip:
  assumes reader: "qx_read q False (envelope_to_xml q rng e) = (envelope_events q e inner pad, None)"
    and inner: "nesting inner 0 = Some 0" "concat (map (render_event q) inner) = env_content_inner e"
    and attrs: "\<forall>v. qx_normalized q (qx_escape q v) = Some v" and time: "env_time e \<noteq> Some []"
  shows "envelope_from_xml q (envelope_to_xml q rng e) = Inr e"
proof -
  have other: "\<not> sc_in_content st \<Longrightarrow> n \<noteq> ''content'' \<Longrightarrow> sce_event q (EvStart n as) st = st"
      "\<not> sc_in_content st \<Longrightarrow> n \<noteq> ''content'' \<Longrightarrow> sce_event q (EvEnd n) st = st"
      "\<not> sc_in_content st \<Longrightarrow> sce_event q (EvText t) st = st" for n as t st
    by (simp_all add: sce_event_def)
  have affix: "sce_event q (EvEmpty ''from'' [\<lparr>xa_key = ''jid'', xa_value = qx_escape q v\<rparr>]) st
        = st\<lparr>sc_env := (sc_env st)\<lparr>env_from := v\<rparr>\<rparr>"
      "sce_event q (EvEmpty ''to'' [\<lparr>xa_key = ''jid'', xa_value = qx_escape q v\<rparr>]) st
        = st\<lparr>sc_env := (sc_env st)\<lparr>env_to := v\<rparr>\<rparr>"
      "sce_event q (EvEmpty ''time'' [\<lparr>xa_key = ''stamp'', xa_value = qx_escape q v\<rparr>]) st
        = (if v \<noteq> [] then st\<lparr>sc_env := (sc_env st)\<lparr>env_time := Some v\<rparr>\<rparr> else st)"
    if "\<not> sc_in_content st" for v st
    using that attrs by (simp_all add: sce_event_def attr_str_def)
  define st1 where "st1 = sce_init\<lparr>sc_env := (sc_env sce_init)\<lparr>env_content_inner := env_content_inner e\<rparr>\<rparr>"
  have block: "fold (sce_event q) (EvStart ''content'' [] # inner @ [EvEnd ''content'']) sce_init = st1"
    using content_block[OF inner(1), of sce_init q "[]"] inner(2) by (simp add: sce_init_def st1_def)
  have start: "sce_event q (EvStart ''envelope'' as) sce_init = sce_init" for as
    by (simp add: sce_event_def sce_init_def)
  have st1: "\<not> sc_in_content st1" by (simp add: st1_def sce_init_def)
  define B where "B = EvStart ''content'' [] # inner @ [EvEnd ''content'']"
  define T where "T = (case env_time e of
      Some t \<Rightarrow> [EvEmpty ''time'' [\<lparr>xa_key = ''stamp'', xa_value = qx_escape q t\<rparr>]] | None \<Rightarrow> [])
     @ [EvEmpty ''from'' [\<lparr>xa_key = ''jid'', xa_value = qx_escape q (env_from e)\<rparr>],
        EvEmpty ''to'' [\<lparr>xa_key = ''jid'', xa_value = qx_escape q (env_to e)\<rparr>],
        EvStart ''rpad'' [], EvText pad, EvEnd ''rpad'', EvEnd ''envelope'']"
  have "envelope_events q e inner pad = EvStart ''envelope'' [\<lparr>xa_key = ''xmlns'', xa_value = NS_SCE\<rparr>] # B @ T"
    by (simp only: envelope_events_def B_def T_def)
  then have "fold (sce_event q) (envelope_events q e inner pad) sce_init = fold (sce_event q) T st1"
    by (simp add: start block[folded B_def])
  also have "\<dots> = (case env_time e of Some t \<Rightarrow> st1\<lparr>sc_env := (sc_env st1)\<lparr>env_time := Some t\<rparr>\<rparr> | None \<Rightarrow> st1)
      \<lparr>sc_env := (sc_env st1)\<lparr>env_time := (case env_time e of Some t \<Rightarrow> Some t | None \<Rightarrow> env_time (sc_env st1)),
        env_from := env_from e, env_to := env_to e\<rparr>\<rparr>"
    using time st1 by (cases "env_time e") (simp_all add: T_def affix other)
  finally have "fold (sce_event q) (envelope_events q e inner pad) sce_init =
    (case env_time e of Some t \<Rightarrow> st1\<lparr>sc_env := (sc_env st1)\<lparr>env_time := Some t\<rparr>\<rparr> | None \<Rightarrow> st1)
      \<lparr>sc_env := (sc_env st1)\<lparr>env_time := (case env_time e of Some t \<Rightarrow> Some t | None \<Rightarrow> env_time (sc_env st1)),
        env_from := env_from e, env_to := env_to e\<rparr>\<rparr>" .
  then have "sc_env (fold (sce_event q) (envelope_events q e inner pad) sce_init) = e"
    by (cases e; cases "env_time e") (simp_all add: st1_def sce_init_def)
  with reader show ?thesis by (simp add: envelope_from_xml_def)
qed


definition toy_sce_reader :: "string \<Rightarrow> xml_event list \<Rightarrow> quick_xml" where
  "toy_sce_reader doc evs = \<lparr>qx_read = (\<lambda>_ s. if s = doc then (evs, None) else ([], Some ''syntax'')),
     qx_escape = id, qx_unescape = Inr, qx_decode = Inr, qx_normalized = Some\<rparr>"

definition toy_envelope :: envelope where
  "toy_envelope = \<lparr>env_content_inner = ''<x/>'', env_from = ''a@b'', env_to = ''c@d'', env_time = Some ''2026''\<rparr>"

definition toy_sce :: quick_xml where
  "toy_sce = toy_sce_reader
     (envelope_to_xml (toy_sce_reader [] []) (\<lambda>_. 0) toy_envelope)
     (envelope_events (toy_sce_reader [] []) toy_envelope [EvEmpty ''x'' []] ''A'')"

theorem envelope_roundtrip_witness:
  "envelope_from_xml toy_sce (envelope_to_xml toy_sce (\<lambda>_. 0) toy_envelope) = Inr toy_envelope"
proof (rule envelope_roundtrip)
  have esc: "qx_escape toy_sce = qx_escape (toy_sce_reader [] [])"
    by (simp add: toy_sce_def toy_sce_reader_def)
  have x: "envelope_to_xml toy_sce (\<lambda>_. 0) toy_envelope = envelope_to_xml (toy_sce_reader [] []) (\<lambda>_. 0) toy_envelope"
    by (simp only: envelope_to_xml_def envelope_head_def esc)
  have y: "envelope_events toy_sce toy_envelope inner p = envelope_events (toy_sce_reader [] []) toy_envelope inner p" for inner p
    by (simp only: envelope_events_def esc)
  show "qx_read toy_sce False (envelope_to_xml toy_sce (\<lambda>_. 0) toy_envelope)
      = (envelope_events toy_sce toy_envelope [EvEmpty ''x'' []] ''A'', None)"
    unfolding x y by (simp add: toy_sce_def toy_sce_reader_def)
  show "concat (map (render_event toy_sce) [EvEmpty ''x'' []]) = env_content_inner toy_envelope"
    by (simp add: render_event_def reconstruct_empty_def attrs_str_def toy_envelope_def is_ascii_def byte_of_def)
qed (simp_all add: toy_sce_def toy_sce_reader_def toy_envelope_def)

subsection \<open>Body and binding\<close>

lemma find_str_skip:
  "\<not> starts_with (x # xs) p \<Longrightarrow> find_str p (x # xs) = map_option Suc (find_str p xs)"
  by (simp add: find_str.simps[of p "x # xs"])

lemma find_str_here: "starts_with s p \<Longrightarrow> find_str p s = Some 0"
  by (cases s) (simp_all add: find_str.simps[of p])

lemma find_str_absent_char:
  "hd p \<notin> set a \<Longrightarrow> p \<noteq> [] \<Longrightarrow> find_str p (a @ p @ b) = Some (length a)"
proof (induction a)
  case Nil
  then show ?case by (simp add: find_str_here)
next
  case (Cons x a)
  then have "\<not> starts_with (x # a @ p @ b) p" by (cases p) auto
  with Cons show ?case by (simp add: find_str_skip)
qed

text \<open>
  The body an envelope is built with is the body it yields: \<open>Envelope::new\<close> escapes it so that
  neither its own text nor what follows it in the content can end or extend it.
\<close>

theorem envelope_body_new:
  assumes "escape_sound q"
  shows "envelope_body q (envelope_new q body from to_jid time extra) = Some body"
proof -
  define open_tag where "open_tag = '' xmlns='' @ quoted ''jabber:client''"
  define rest where "rest = qx_escape q body @ ''</body>'' @ extra"
  have inner: "env_content_inner (envelope_new q body from to_jid time extra) = ''<body'' @ open_tag @ ''>'' @ rest"
    by (simp add: envelope_new_def open_tag_def rest_def)
  have o1: "find_str ''<body'' (''<body'' @ open_tag @ ''>'' @ rest) = Some 0"
    by (simp add: find_str_here)
  have "CHR ''>'' \<notin> set (''<body'' @ open_tag)" by (simp add: open_tag_def quoted_def)
  then have o2: "find_str ''>'' (''<body'' @ open_tag @ ''>'' @ rest) = Some (length (''<body'' @ open_tag))"
    using find_str_absent_char[of "''>''" "''<body'' @ open_tag" rest] by simp
  have o3: "find_str ''</body>'' rest = Some (length (qx_escape q body))"
    unfolding rest_def using assms by (intro find_str_absent_char) (simp_all add: escape_sound_def)
  have d: "drop (length (''<body'' @ open_tag) + 0 + 1) (''<body'' @ open_tag @ ''>'' @ rest) = rest"
    by simp
  show ?thesis
    unfolding envelope_body_def Let_def inner o1 bind.bind_lunit drop_0 o2 d o3
    using assms by (simp add: rest_def xml_unescape_def escape_sound_def)
qed

fun toy_esc :: "string \<Rightarrow> string" where
  "toy_esc s = hex_encode (str_bytes s)"

definition toy_unesc :: "string \<Rightarrow> string + string" where
  "toy_unesc s = (case toy_unhex s of Inl e \<Rightarrow> Inl e | Inr bs \<Rightarrow> Inr (map (\<lambda>b. char_of (unat b)) bs))"

definition toy_escaper :: quick_xml where
  "toy_escaper = \<lparr>qx_read = \<lambda>_ _. ([], None), qx_escape = toy_esc, qx_unescape = toy_unesc,
     qx_decode = Inr, qx_normalized = Some\<rparr>"

lemma toy_escape_sound: "escape_sound toy_escaper"
proof -
  have "map (\<lambda>b. char_of (unat b)) (str_bytes s) = s" for s
    by (induction s) (simp_all add: str_bytes_def unat_word_of_nat_u8 byte_of_def)
  moreover have "c \<notin> set (hex_encode bs)" if "\<not> lower_hex c" for c bs
    using hex_encode_lower[of bs] that by (auto simp: list_all_iff)
  ultimately show ?thesis
    by (simp add: escape_sound_def toy_escaper_def toy_unesc_def lower_hex_def in_range_def byte_of_def)
qed

theorem envelope_body_new_witness:
  "envelope_body toy_escaper (envelope_new toy_escaper ''</body>'' ''a'' ''b'' None ''<x/>'') = Some ''</body>''"
  by (rule envelope_body_new[OF toy_escape_sound])

text \<open>The binding check passes exactly when both affixes match, letter case aside.\<close>

lemma verify_binding_iff:
  "verify_binding e expected_to expected_from = Inr () \<longleftrightarrow>
     to_ascii_lowercase (env_to e) = to_ascii_lowercase expected_to \<and>
     to_ascii_lowercase (env_from e) = to_ascii_lowercase expected_from"
  by (simp add: verify_binding_def eq_ignore_ascii_case_def)

end
