(* ===== verification/Stanza.thy ===== *)
theory Stanza
  imports Rust_Str
begin

text \<open>
  The interface to minidom, the XML tree library the protocol crate builds and reads stanzas with.
  Its \<open>Element\<close> is the type parameter \<open>'e\<close>; the record holds the functions the code calls, the
  builder calls in the order they are chained, and \<open>d_depth\<close> how deep an element is nested, which
  bounds the recursions over it.  \<open>dom_sound\<close> is what the library documents of them,
  and \<open>tree_dom\<close> a tree that satisfies it.  The last part is what the code does with stanzas
  everywhere: bare JIDs, the namespaces, delay stamps and directions (\<open>xeps/messaging.rs\<close>) and
  carbons (\<open>xeps/carbons.rs\<close>).
\<close>

record 'e dom =
  d_name :: "'e \<Rightarrow> string"
  d_ns :: "'e \<Rightarrow> string"
  d_attr :: "'e \<Rightarrow> string \<Rightarrow> string option"
  d_children :: "'e \<Rightarrow> 'e list"
  d_text :: "'e \<Rightarrow> string"
  d_bare :: "string \<Rightarrow> string \<Rightarrow> 'e"
  d_with_attr :: "string \<Rightarrow> string \<Rightarrow> 'e \<Rightarrow> 'e"
  d_with_child :: "'e \<Rightarrow> 'e \<Rightarrow> 'e"
  d_with_text :: "string \<Rightarrow> 'e \<Rightarrow> 'e"
  d_parse :: "string \<Rightarrow> 'e option"
  d_depth :: "'e \<Rightarrow> nat"
  d_show :: "'e \<Rightarrow> string"

text \<open>\<open>Element::is\<close> and \<open>Element::get_child\<close>: the first child of that name and namespace.\<close>

definition d_is :: "('e, 'z) dom_scheme \<Rightarrow> 'e \<Rightarrow> string \<Rightarrow> string \<Rightarrow> bool" where
  "d_is d e n ns \<longleftrightarrow> d_name d e = n \<and> d_ns d e = ns"

definition get_child :: "('e, 'z) dom_scheme \<Rightarrow> 'e \<Rightarrow> string \<Rightarrow> string \<Rightarrow> 'e option" where
  "get_child d e n ns = find (\<lambda>c. d_is d c n ns) (d_children d e)"

definition has_child :: "('e, 'z) dom_scheme \<Rightarrow> 'e \<Rightarrow> string \<Rightarrow> string \<Rightarrow> bool" where
  "has_child d e n ns \<longleftrightarrow> get_child d e n ns \<noteq> None"

definition child_attr :: "('e, 'z) dom_scheme \<Rightarrow> 'e \<Rightarrow> string \<Rightarrow> string \<Rightarrow> string \<Rightarrow> string option" where
  "child_attr d e n ns key = Option.bind (get_child d e n ns) (\<lambda>c. d_attr d c key)"

definition child_text :: "('e, 'z) dom_scheme \<Rightarrow> 'e \<Rightarrow> string \<Rightarrow> string \<Rightarrow> string option" where
  "child_text d e n ns = map_option (d_text d) (get_child d e n ns)"

text \<open>What a builder leaves readable.\<close>

definition dom_sound :: "('e, 'z) dom_scheme \<Rightarrow> bool" where
  "dom_sound d \<longleftrightarrow>
     (\<forall>n ns. d_name d (d_bare d n ns) = n \<and> d_ns d (d_bare d n ns) = ns
        \<and> d_children d (d_bare d n ns) = [] \<and> d_text d (d_bare d n ns) = []
        \<and> (\<forall>k. d_attr d (d_bare d n ns) k = None))
   \<and> (\<forall>k v e. d_name d (d_with_attr d k v e) = d_name d e \<and> d_ns d (d_with_attr d k v e) = d_ns d e
        \<and> d_children d (d_with_attr d k v e) = d_children d e
        \<and> d_text d (d_with_attr d k v e) = d_text d e
        \<and> (\<forall>l. d_attr d (d_with_attr d k v e) l = (if l = k then Some v else d_attr d e l)))
   \<and> (\<forall>c e. d_name d (d_with_child d c e) = d_name d e \<and> d_ns d (d_with_child d c e) = d_ns d e
        \<and> d_children d (d_with_child d c e) = d_children d e @ [c]
        \<and> d_text d (d_with_child d c e) = d_text d e
        \<and> (\<forall>l. d_attr d (d_with_child d c e) l = d_attr d e l))
   \<and> (\<forall>s e. d_name d (d_with_text d s e) = d_name d e \<and> d_ns d (d_with_text d s e) = d_ns d e
        \<and> d_children d (d_with_text d s e) = d_children d e
        \<and> d_text d (d_with_text d s e) = d_text d e @ s
        \<and> (\<forall>l. d_attr d (d_with_text d s e) l = d_attr d e l))
   \<and> (\<forall>e. \<forall>c\<in>set (d_children d e). d_depth d c < d_depth d e)"

lemma dom_bare [simp]:
  assumes "dom_sound d"
  shows "d_name d (d_bare d n ns) = n" "d_ns d (d_bare d n ns) = ns"
    "d_children d (d_bare d n ns) = []" "d_text d (d_bare d n ns) = []"
    "d_attr d (d_bare d n ns) k = None"
  using assms unfolding dom_sound_def by blast+

lemma dom_with_attr [simp]:
  assumes "dom_sound d"
  shows "d_name d (d_with_attr d k v e) = d_name d e" "d_ns d (d_with_attr d k v e) = d_ns d e"
    "d_children d (d_with_attr d k v e) = d_children d e"
    "d_text d (d_with_attr d k v e) = d_text d e"
    "d_attr d (d_with_attr d k v e) l = (if l = k then Some v else d_attr d e l)"
  using assms unfolding dom_sound_def by blast+

lemma dom_with_child [simp]:
  assumes "dom_sound d"
  shows "d_name d (d_with_child d c e) = d_name d e" "d_ns d (d_with_child d c e) = d_ns d e"
    "d_children d (d_with_child d c e) = d_children d e @ [c]"
    "d_text d (d_with_child d c e) = d_text d e" "d_attr d (d_with_child d c e) l = d_attr d e l"
  using assms unfolding dom_sound_def by blast+

lemma dom_with_text [simp]:
  assumes "dom_sound d"
  shows "d_name d (d_with_text d s e) = d_name d e" "d_ns d (d_with_text d s e) = d_ns d e"
    "d_children d (d_with_text d s e) = d_children d e"
    "d_text d (d_with_text d s e) = d_text d e @ s" "d_attr d (d_with_text d s e) l = d_attr d e l"
  using assms unfolding dom_sound_def by blast+

lemma dom_depth: "dom_sound d \<Longrightarrow> c \<in> set (d_children d e) \<Longrightarrow> d_depth d c < d_depth d e"
  unfolding dom_sound_def by blast

text \<open>Children appended in turn; the children of a name.\<close>

definition with_children :: "('e, 'z) dom_scheme \<Rightarrow> 'e list \<Rightarrow> 'e \<Rightarrow> 'e" where
  "with_children d els msg = fold (d_with_child d) els msg"

definition named :: "('e, 'z) dom_scheme \<Rightarrow> string \<Rightarrow> 'e \<Rightarrow> 'e list" where
  "named d n e = filter (\<lambda>c. d_name d c = n) (d_children d e)"

lemma with_children_parts [simp]:
  assumes "dom_sound d"
  shows "d_children d (with_children d els e) = d_children d e @ els" "d_name d (with_children d els e) = d_name d e"
    "d_ns d (with_children d els e) = d_ns d e" "d_text d (with_children d els e) = d_text d e"
  using assms unfolding with_children_def by (induction els arbitrary: e) simp_all

lemma with_children_attr [simp]: "dom_sound d \<Longrightarrow> d_attr d (with_children d els e) l = d_attr d e l"
  unfolding with_children_def by (induction els arbitrary: e) simp_all

subsection \<open>A tree that satisfies the interface\<close>

datatype tree = Tree (t_name: string) (t_ns: string) (t_attrs: "(string \<times> string) list")
  (t_children: "tree list") (t_text: string)

definition tree_dom :: "tree dom" where
  "tree_dom = \<lparr>d_name = t_name, d_ns = t_ns, d_attr = (\<lambda>e. map_of (t_attrs e)),
     d_children = t_children, d_text = t_text, d_bare = (\<lambda>n ns. Tree n ns [] [] []),
     d_with_attr = (\<lambda>k v e. Tree (t_name e) (t_ns e) ((k, v) # t_attrs e) (t_children e) (t_text e)),
     d_with_child = (\<lambda>c e. Tree (t_name e) (t_ns e) (t_attrs e) (t_children e @ [c]) (t_text e)),
     d_with_text = (\<lambda>s e. Tree (t_name e) (t_ns e) (t_attrs e) (t_children e) (t_text e @ s)),
     d_parse = (\<lambda>s. if s = [] then None else Some (Tree ''content'' ''jabber:client'' [] [] s)),
     d_depth = size, d_show = t_name\<rparr>"

lemma tree_child_size: "c \<in> set (t_children e) \<Longrightarrow> size c < size e"
  by (cases e) (auto simp: less_Suc_eq_le intro: order.trans[OF size_list_estimation'[OF _ order.refl]])

lemma tree_dom_sound [simp]: "dom_sound tree_dom"
  by (simp add: dom_sound_def tree_dom_def tree_child_size)

subsection \<open>Namespaces\<close>

definition NS_CLIENT :: string where "NS_CLIENT = ''jabber:client''"
definition NS_RECEIPTS :: string where "NS_RECEIPTS = ''urn:xmpp:receipts''"
definition NS_MARKERS :: string where "NS_MARKERS = ''urn:xmpp:chat-markers:0''"
definition NS_CHATSTATES :: string where "NS_CHATSTATES = ''http://jabber.org/protocol/chatstates''"
definition NS_SID :: string where "NS_SID = ''urn:xmpp:sid:0''"
definition NS_REACTIONS :: string where "NS_REACTIONS = ''urn:xmpp:reactions:0''"
definition NS_REPLY :: string where "NS_REPLY = ''urn:xmpp:reply:0''"
definition NS_CORRECT :: string where "NS_CORRECT = ''urn:xmpp:message-correct:0''"
definition NS_RETRACT :: string where "NS_RETRACT = ''urn:xmpp:message-retract:1''"
definition NS_FALLBACK :: string where "NS_FALLBACK = ''urn:xmpp:fallback:0''"
definition NS_OOB :: string where "NS_OOB = ''jabber:x:oob''"
definition NS_SFS :: string where "NS_SFS = ''urn:xmpp:sfs:0''"
definition NS_FILE_META :: string where "NS_FILE_META = ''urn:xmpp:file:metadata:0''"
definition NS_URL_DATA :: string where "NS_URL_DATA = ''http://jabber.org/protocol/url-data''"
definition NS_MAM :: string where "NS_MAM = ''urn:xmpp:mam:2''"
definition NS_DELAY :: string where "NS_DELAY = ''urn:xmpp:delay''"
definition NS_FORWARD :: string where "NS_FORWARD = ''urn:xmpp:forward:0''"
definition NS_HINTS :: string where "NS_HINTS = ''urn:xmpp:hints''"
definition NS_MUC_USER :: string where "NS_MUC_USER = ''http://jabber.org/protocol/muc#user''"
definition NS_ATTENTION :: string where "NS_ATTENTION = ''urn:xmpp:attention:0''"
definition NS_OCCUPANT :: string where "NS_OCCUPANT = ''urn:xmpp:occupant-id:0''"
definition NS_CARBONS :: string where "NS_CARBONS = ''urn:xmpp:carbons:2''"

subsection \<open>Reading a stanza\<close>

definition attr_or_empty :: "('e, 'z) dom_scheme \<Rightarrow> 'e \<Rightarrow> string \<Rightarrow> string" where
  "attr_or_empty d e key = (case d_attr d e key of None \<Rightarrow> [] | Some v \<Rightarrow> v)"

definition is_type :: "('e, 'z) dom_scheme \<Rightarrow> 'e \<Rightarrow> string \<Rightarrow> bool" where
  "is_type d msg t \<longleftrightarrow> d_attr d msg ''type'' = Some t"

text \<open>\<open>delay_stamp\<close>\<close>

definition delay_stamp :: "('e, 'z) dom_scheme \<Rightarrow> 'e \<Rightarrow> string option" where
  "delay_stamp d e = child_attr d e ''delay'' NS_DELAY ''stamp''"

text \<open>\<open>carbons::unwrap\<close>: only a wrapper from our own bare JID is trusted.\<close>

datatype carbon_kind = Sent | Received

definition forwarded_message :: "('e, 'z) dom_scheme \<Rightarrow> 'e \<Rightarrow> 'e option" where
  "forwarded_message d wrap =
     Option.bind (get_child d wrap ''forwarded'' NS_FORWARD) (\<lambda>fwd. get_child d fwd ''message'' NS_CLIENT)"

definition carbon_of :: "('e, 'z) dom_scheme \<Rightarrow> 'e \<Rightarrow> string \<Rightarrow> 'e option" where
  "carbon_of d msg child_name =
     Option.bind (get_child d msg child_name NS_CARBONS) (forwarded_message d)"

definition carbons_unwrap ::
  "('e, 'z) dom_scheme \<Rightarrow> 'e \<Rightarrow> string \<Rightarrow> ('e \<times> carbon_kind) option" where
  "carbons_unwrap d msg our_bare =
     (if \<not> eq_ignore_ascii_case (to_bare (attr_or_empty d msg ''from'')) our_bare then None
      else (case carbon_of d msg ''sent'' of
              Some inner \<Rightarrow> Some (inner, Sent)
            | None \<Rightarrow> map_option (\<lambda>inner. (inner, Received)) (carbon_of d msg ''received'')))"

lemma carbons_only_from_ourselves:
  "carbons_unwrap d msg our_bare = Some x
    \<Longrightarrow> eq_ignore_ascii_case (to_bare (attr_or_empty d msg ''from'')) our_bare"
  by (simp add: carbons_unwrap_def split: if_splits)

end
