(* ===== verification/Msg_Text.thy ===== *)
theory Msg_Text
  imports Stanza "HOL-Library.Product_Lexorder"
begin

text \<open>
  The text helpers of \<open>crates/mxc-proto/src/xeps/messaging.rs\<close>: fallback spans (XEP-0428) and the
  file messages that mark them, file descriptions (XEP-0447), and mentions.  Spans count code
  points: a text is cut on its list of characters (\<open>str_chars\<close>).  \<open>guess_mime\<close> is
  \<open>xeps/http_upload.rs\<close>.  A JSON object of a file is the record of its members.
\<close>

record shared_file =
  sf_url :: string
  sf_mime :: string
  sf_name :: string
  sf_size :: "i64 option"
  sf_width :: "i64 option"
  sf_height :: "i64 option"
  sf_duration :: "i64 option"

definition count_chars :: "string \<Rightarrow> nat" where
  "count_chars s = length (str_chars s)"

definition newline :: string where
  "newline = [CHR 0x0A]"

subsection \<open>Building file messages\<close>

definition add_url :: "string \<Rightarrow> string \<times> (nat \<times> nat) list \<Rightarrow> string \<times> (nat \<times> nat) list" where
  "add_url url = (\<lambda>(body, spans).
     let body = (if body \<noteq> [] then body @ newline else body);
         start = count_chars body;
         body = body @ url
     in (body, spans @ [(start, count_chars body)]))"

definition build_multi_file_body :: "string option \<Rightarrow> string list \<Rightarrow> string \<times> (nat \<times> nat) list" where
  "build_multi_file_body caption urls =
     fold add_url urls (case caption of None \<Rightarrow> [] | Some c \<Rightarrow> c, [])"

definition fallback_element :: "('e, 'z) dom_scheme \<Rightarrow> string \<Rightarrow> nat \<times> nat \<Rightarrow> 'e" where
  "fallback_element d ns span =
     d_with_child d
       (d_with_attr d ''end'' (show_nat (snd span))
         (d_with_attr d ''start'' (show_nat (fst span)) (d_bare d ''body'' NS_FALLBACK)))
       (d_with_attr d ''for'' ns (d_bare d ''fallback'' NS_FALLBACK))"

definition text_element :: "('e, 'z) dom_scheme \<Rightarrow> string \<Rightarrow> string \<Rightarrow> string \<Rightarrow> 'e" where
  "text_element d n ns s = d_with_text d s (d_bare d n ns)"

definition append_text :: "('e, 'z) dom_scheme \<Rightarrow> string \<Rightarrow> string \<Rightarrow> 'e \<Rightarrow> 'e" where
  "append_text d tag v e = (if v = [] then e else d_with_child d (text_element d tag NS_FILE_META v) e)"

definition file_meta :: "('e, 'z) dom_scheme \<Rightarrow> shared_file \<Rightarrow> 'e" where
  "file_meta d f =
     (let meta = append_text d ''media-type'' (sf_mime f)
            (append_text d ''name'' (sf_name f) (d_bare d ''file'' NS_FILE_META)) in
      case sf_size f of
        Some n \<Rightarrow> if 0 < n then d_with_child d (text_element d ''size'' NS_FILE_META (show_int n)) meta else meta
      | None \<Rightarrow> meta)"

definition file_sharing :: "('e, 'z) dom_scheme \<Rightarrow> string \<Rightarrow> nat \<times> shared_file \<Rightarrow> 'e" where
  "file_sharing d origin_id = (\<lambda>(i, f).
     d_with_child d
       (d_with_child d (d_with_attr d ''target'' (sf_url f) (d_bare d ''url-data'' NS_URL_DATA))
         (d_bare d ''sources'' NS_SFS))
       (d_with_child d (file_meta d f)
         (d_with_attr d ''id'' (origin_id @ ''-'' @ show_nat i)
           (d_with_attr d ''disposition'' ''inline'' (d_bare d ''file-sharing'' NS_SFS)))))"

definition build_multi_file_payloads ::
  "('e, 'z) dom_scheme \<Rightarrow> shared_file list \<Rightarrow> (nat \<times> nat) list \<Rightarrow> string \<Rightarrow> 'e list" where
  "build_multi_file_payloads d files spans origin_id =
     concat (map (\<lambda>span. map (\<lambda>ns. fallback_element d ns span) [NS_OOB, NS_SFS]) spans)
     @ map (file_sharing d origin_id) (enumerate 0 files)"

text \<open>A single file: \<open>FileWire\<close> and \<open>build_file_oob\<close>.\<close>

definition build_file_oob :: "('e, 'z) dom_scheme \<Rightarrow> string \<Rightarrow> (nat \<times> nat) option \<Rightarrow> 'e list" where
  "build_file_oob d url fallback_span =
     d_with_child d (text_element d ''url'' NS_OOB url) (d_bare d ''x'' NS_OOB)
     # (case fallback_span of None \<Rightarrow> [] | Some span \<Rightarrow> [fallback_element d NS_OOB span])"

subsection \<open>Cutting fallback spans\<close>

definition fallbacks :: "('e, 'z) dom_scheme \<Rightarrow> 'e \<Rightarrow> 'e list" where
  "fallbacks d content = filter (\<lambda>c. d_is d c ''fallback'' NS_FALLBACK) (d_children d content)"

definition body_range :: "('e, 'z) dom_scheme \<Rightarrow> 'e \<Rightarrow> 'e option" where
  "body_range d fb = find (\<lambda>c. d_name d c = ''body'') (d_children d fb)"

definition offset_attr :: "('e, 'z) dom_scheme \<Rightarrow> 'e \<Rightarrow> string \<Rightarrow> nat \<Rightarrow> nat" where
  "offset_attr d rng key dflt =
     (case Option.bind (d_attr d rng key) parse_usize of None \<Rightarrow> dflt | Some n \<Rightarrow> n)"

definition range_span :: "('e, 'z) dom_scheme \<Rightarrow> nat \<Rightarrow> 'e \<Rightarrow> nat \<times> nat" where
  "range_span d n rng = (offset_attr d rng ''start'' 0, offset_attr d rng ''end'' n)"

definition cut_span :: "nat \<times> nat \<Rightarrow> 'a list \<Rightarrow> 'a list" where
  "cut_span span xs = take (fst span) xs @ drop (snd span) xs"

definition span_fits :: "nat \<Rightarrow> nat \<times> nat \<Rightarrow> bool" where
  "span_fits n span \<longleftrightarrow> fst span \<le> snd span \<and> snd span \<le> n"

fun strip_first :: "('e, 'z) dom_scheme \<Rightarrow> string \<Rightarrow> string \<Rightarrow> 'e list \<Rightarrow> string" where
  "strip_first d body for_ns [] = body"
| "strip_first d body for_ns (fb # fbs) =
     (if d_attr d fb ''for'' \<noteq> Some for_ns then strip_first d body for_ns fbs
      else (case body_range d fb of
          None \<Rightarrow> []
        | Some rng \<Rightarrow>
            let chars = str_chars body; span = range_span d (length chars) rng in
            if span_fits (length chars) span then concat (cut_span span chars)
            else strip_first d body for_ns fbs))"

definition strip_fallback_for :: "('e, 'z) dom_scheme \<Rightarrow> 'e \<Rightarrow> string \<Rightarrow> string \<Rightarrow> string" where
  "strip_fallback_for d content body for_ns = strip_first d body for_ns (fallbacks d content)"

definition strip_reply_fallback :: "('e, 'z) dom_scheme \<Rightarrow> 'e \<Rightarrow> string \<Rightarrow> string" where
  "strip_reply_fallback d content body = strip_fallback_for d content body NS_REPLY"

text \<open>The loop collecting the spans; \<open>None\<close> is the early return of the empty text.\<close>

fun collect_spans ::
  "('e, 'z) dom_scheme \<Rightarrow> string list \<Rightarrow> nat \<Rightarrow> 'e list \<Rightarrow> (nat \<times> nat) list option" where
  "collect_spans d for_ns n [] = Some []"
| "collect_spans d for_ns n (fb # fbs) =
     (if \<not> (case d_attr d fb ''for'' of None \<Rightarrow> False | Some f \<Rightarrow> f \<in> set for_ns)
      then collect_spans d for_ns n fbs
      else (case body_range d fb of
          None \<Rightarrow> None
        | Some rng \<Rightarrow>
            let span = range_span d n rng; rest = collect_spans d for_ns n fbs in
            if span_fits n span then map_option ((#) span) rest else rest))"

text \<open>The merged spans, last first, which is the order they are cut in.\<close>

fun merge_spans :: "(nat \<times> nat) list \<Rightarrow> (nat \<times> nat) list \<Rightarrow> (nat \<times> nat) list" where
  "merge_spans merged [] = merged"
| "merge_spans [] (x # spans) = merge_spans [x] spans"
| "merge_spans ((s, e) # merged) ((start, end') # spans) =
     (if start \<le> e then merge_spans ((s, max e end') # merged) spans
      else merge_spans ((start, end') # (s, e) # merged) spans)"

definition strip_fallback_spans ::
  "('e, 'z) dom_scheme \<Rightarrow> 'e \<Rightarrow> string \<Rightarrow> string list \<Rightarrow> string" where
  "strip_fallback_spans d content body for_ns =
     (let chars = str_chars body in
      case collect_spans d for_ns (length chars) (fallbacks d content) of
        None \<Rightarrow> []
      | Some [] \<Rightarrow> body
      | Some spans \<Rightarrow> str_trim (concat (fold cut_span (merge_spans [] (sort spans)) chars)))"

subsection \<open>Reading file messages\<close>

text \<open>\<open>url.rsplit('/').next()\<close>, then up to the first \<open>?\<close> or \<open>#\<close>\<close>

definition after_last :: "char \<Rightarrow> string \<Rightarrow> string" where
  "after_last c s = last (split_on c s)"

definition url_file_name :: "string \<Rightarrow> string" where
  "url_file_name url = takeWhile (\<lambda>c. c \<noteq> CHR ''?'' \<and> c \<noteq> CHR 0x23) (after_last (CHR ''/'') url)"

definition guess_mime :: "string \<Rightarrow> string" where
  "guess_mime filename =
     (let ext = to_ascii_lowercase (after_last (CHR ''.'') filename) in
      if ext = ''png'' then ''image/png''
      else if ext \<in> {''jpg'', ''jpeg''} then ''image/jpeg''
      else if ext = ''gif'' then ''image/gif''
      else if ext = ''webp'' then ''image/webp''
      else if ext = ''svg'' then ''image/svg+xml''
      else if ext = ''pdf'' then ''application/pdf''
      else if ext \<in> {''txt'', ''log''} then ''text/plain''
      else if ext = ''mp3'' then ''audio/mpeg''
      else if ext \<in> {''ogg'', ''oga''} then ''audio/ogg''
      else if ext = ''opus'' then ''audio/opus''
      else if ext \<in> {''mp4'', ''m4v''} then ''video/mp4''
      else if ext = ''webm'' then ''video/webm''
      else if ext = ''zip'' then ''application/zip''
      else ''application/octet-stream'')"

definition non_empty :: "string option \<Rightarrow> string option" where
  "non_empty s = (if s = Some [] then None else s)"

definition oob_file_url :: "('e, 'z) dom_scheme \<Rightarrow> 'e \<Rightarrow> string option" where
  "oob_file_url d content = non_empty (map_option str_trim
     (Option.bind (get_child d content ''x'' NS_OOB) (\<lambda>x. child_text d x ''url'' NS_OOB)))"

definition sharing_url :: "('e, 'z) dom_scheme \<Rightarrow> 'e \<Rightarrow> string option" where
  "sharing_url d sharing = non_empty (map_option str_trim
     (Option.bind (get_child d sharing ''sources'' NS_SFS)
       (\<lambda>s. child_attr d s ''url-data'' NS_URL_DATA ''target'')))"

definition meta_text :: "('e, 'z) dom_scheme \<Rightarrow> 'e \<Rightarrow> string \<Rightarrow> string option" where
  "meta_text d sharing tag = non_empty (map_option str_trim
     (Option.bind (get_child d sharing ''file'' NS_FILE_META) (\<lambda>m. child_text d m tag NS_FILE_META)))"

definition meta_number :: "('e, 'z) dom_scheme \<Rightarrow> 'e \<Rightarrow> string \<Rightarrow> i64 option" where
  "meta_number d sharing tag =
     (case Option.bind (meta_text d sharing tag) parse_i64 of
        None \<Rightarrow> None | Some n \<Rightarrow> if 0 < n then Some n else None)"

definition sharing_file :: "('e, 'z) dom_scheme \<Rightarrow> 'e \<Rightarrow> shared_file option" where
  "sharing_file d sharing =
     (case sharing_url d sharing of
        None \<Rightarrow> None
      | Some url \<Rightarrow>
          let name = (case meta_text d sharing ''name'' of None \<Rightarrow> url_file_name url | Some n \<Rightarrow> n);
              mime = (case meta_text d sharing ''media-type'' of None \<Rightarrow> guess_mime name | Some m \<Rightarrow> m) in
          Some \<lparr>sf_url = url, sf_mime = mime, sf_name = name,
            sf_size = meta_number d sharing ''size'', sf_width = meta_number d sharing ''width'',
            sf_height = meta_number d sharing ''height'', sf_duration = meta_number d sharing ''length''\<rparr>)"

definition sfs_files :: "('e, 'z) dom_scheme \<Rightarrow> 'e \<Rightarrow> shared_file list" where
  "sfs_files d content = List.map_filter (sharing_file d)
     (filter (\<lambda>c. d_is d c ''file-sharing'' NS_SFS) (d_children d content))"

text \<open>\<open>out.replace(url, "")\<close>\<close>

function remove_all :: "string \<Rightarrow> string \<Rightarrow> string" where
  "remove_all p s = (if p = [] then s else
     (case find_str p s of None \<Rightarrow> s | Some i \<Rightarrow> take i s @ remove_all p (drop (i + length p) s)))"
  by pat_completeness auto
termination
  by (relation "measure (length \<circ> snd)") (auto dest!: find_str_SomeD)

declare remove_all.simps [simp del]

definition strip_file_urls :: "string \<Rightarrow> shared_file list \<Rightarrow> string" where
  "strip_file_urls body files =
     (let out = fold (\<lambda>f out. if contains_str out (sf_url f) then remove_all (sf_url f) out else out)
            files body in
      if out = body then out else str_trim out)"

subsection \<open>Mentions\<close>

definition is_ascii_punctuation :: "string \<Rightarrow> bool" where
  "is_ascii_punctuation ch \<longleftrightarrow> (case bytes_of_str ch of
     [b] \<Rightarrow> in_range 33 47 b \<or> in_range 58 64 b \<or> in_range 91 96 b \<or> in_range 123 126 b
   | _ \<Rightarrow> False)"

definition ends_word :: "string \<Rightarrow> bool" where
  "ends_word before \<longleftrightarrow> before = [] \<or> is_whitespace (last (str_chars before))"

definition starts_gap :: "string \<Rightarrow> bool" where
  "starts_gap after \<longleftrightarrow> (case str_chars after of [] \<Rightarrow> True
     | c # _ \<Rightarrow> is_whitespace c \<or> is_ascii_punctuation c)"

function mentions_from :: "string \<Rightarrow> string \<Rightarrow> nat \<Rightarrow> bool run" where
  "mentions_from body nick from =
     (case str_slice body from (length body) of
        Panic \<Rightarrow> Panic
      | Return rest \<Rightarrow> (case find_str nick rest of
          None \<Rightarrow> Return False
        | Some off \<Rightarrow>
            (case str_slice body 0 (from + off) of
               Panic \<Rightarrow> Panic
             | Return before \<Rightarrow> (case str_slice body (from + off + length nick) (length body) of
                 Panic \<Rightarrow> Panic
               | Return after \<Rightarrow>
                   if ends_word before \<and> starts_gap after then Return True
                   else mentions_from body nick (from + off + 1)))))"
  by pat_completeness auto
termination
  by (relation "measure (\<lambda>(body, _, from). length body + 1 - from)")
     (auto simp: str_slice_def split: if_splits)

declare mentions_from.simps [simp del]

definition mentions_nick :: "string \<Rightarrow> string \<Rightarrow> bool run" where
  "mentions_nick body nick = (if nick = [] then Return False else mentions_from body nick 0)"

end
