(* ===== verification/Msg_Text_Laws.thy ===== *)
theory Msg_Text_Laws
  imports Msg_Text
begin

text \<open>
  What the text helpers do: cutting marked spans is removing the set of marked positions, whatever
  spans a sender marks; a message with several files is read back as its caption and its files;
  and when a mention is found, or panics.
\<close>

subsection \<open>Cutting spans\<close>

definition outside :: "(nat \<times> nat) set \<Rightarrow> nat set" where
  "outside spans = {i. \<forall>(s, e)\<in>spans. i < s \<or> e \<le> i}"

lemma outside_insert: "outside (insert (s, e) S) = {i. i < s \<or> e \<le> i} \<inter> outside S"
  by (auto simp: outside_def)

lemma outside_empty [simp]: "outside {} = UNIV"
  by (simp add: outside_def)

lemma outside_Un: "outside (S \<union> T) = outside S \<inter> outside T"
  by (auto simp: outside_def)

text \<open>Merged spans, last first: apart from each other.\<close>

fun apart :: "(nat \<times> nat) list \<Rightarrow> bool" where
  "apart [] = True"
| "apart ((s, e) # spans) \<longleftrightarrow> s \<le> e \<and> (\<forall>(s', e')\<in>set spans. e' < s) \<and> apart spans"

lemma cut_apart:
  "apart spans \<Longrightarrow> \<forall>(s, e)\<in>set spans. e \<le> length xs
    \<Longrightarrow> fold cut_span spans xs = nths xs (outside (set spans))"
proof (induction spans arbitrary: xs)
  case Nil
  then show ?case by (simp add: nths_all)
next
  case (Cons x spans)
  obtain s e where x: "x = (s, e)" by (cases x)
  have se: "s \<le> e" "e \<le> length xs" and below: "\<forall>(s', e')\<in>set spans. e' < s"
    and ap: "apart spans" using Cons.prems by (auto simp: x)
  let ?l = "take s xs" and ?m = "take (e - s) (drop s xs)" and ?r = "drop e xs"
  let ?A = "outside (set spans)"
  have cat: "xs = ?l @ ?m @ ?r"
    using se by (metis append_take_drop_id drop_drop le_add_diff_inverse2)
  have len: "length ?l = s" "length ?m = e - s" using se by simp_all
  have above: "i \<in> ?A" if "s \<le> i" for i
    using below that by (fastforce simp: outside_def)
  have all: "{j. j + s \<in> ?A} = UNIV" using above by auto
  have "\<forall>(s', e')\<in>set spans. e' \<le> length (?l @ ?r)"
    using below se by (fastforce simp: len)
  then have "fold cut_span (x # spans) xs = nths (?l @ ?r) ?A"
    using Cons.IH[OF ap, of "?l @ ?r"] unfolding x fold_simps comp_apply
    by (simp only: cut_span_def[of "(s, e)" xs] fst_conv snd_conv)
  also have "\<dots> = nths ?l ?A @ ?r"
    unfolding nths_append len all by (simp add: nths_all)
  also have "\<dots> = nths xs (outside (set (x # spans)))"
  proof -
    define B where "B = outside (set (x # spans))"
    have b: "B = {i. i < s \<or> e \<le> i} \<inter> ?A" by (simp add: B_def x outside_insert)
    have l: "nths ?l B = nths ?l ?A"
      unfolding nths_def by (rule arg_cong[where f = "map fst"], rule filter_cong)
        (auto simp: b set_zip len)
    have m: "nths ?m {j. j + s \<in> B} = []"
      unfolding nths_def by (auto simp: b set_zip len filter_empty_conv)
    have r: "nths ?r {j. j + (e - s) + s \<in> B} = ?r"
      using above se by (intro nths_all) (simp add: b)
    have "nths (?l @ ?m @ ?r) B = nths ?l ?A @ ?r"
      unfolding nths_append len using l m r by (simp add: ac_simps)
    then show ?thesis using cat unfolding B_def by metis
  qed
  finally show ?case .
qed

text \<open>Merging sorted spans keeps what they mark and sets them apart.\<close>

fun starts_after :: "(nat \<times> nat) list \<Rightarrow> (nat \<times> nat) list \<Rightarrow> bool" where
  "starts_after [] spans = True"
| "starts_after ((s, e) # merged) spans \<longleftrightarrow> (\<forall>x\<in>set spans. s \<le> fst x)"

lemma merge_spans_spec:
  assumes "apart merged" and "\<forall>(s, e)\<in>set spans. s \<le> e \<and> e \<le> n"
    and "\<forall>(s, e)\<in>set merged. e \<le> n" and "sorted (map fst spans)" and "starts_after merged spans"
  shows "apart (merge_spans merged spans)
    \<and> outside (set (merge_spans merged spans)) = outside (set merged \<union> set spans)
    \<and> (\<forall>(s, e)\<in>set (merge_spans merged spans). e \<le> n)"
  using assms
proof (induction merged spans rule: merge_spans.induct)
  case (1 merged)
  then show ?case by simp
next
  case (2 x spans)
  then show ?case by (cases x) auto
next
  case (3 s e merged start end' spans)
  show ?case
  proof (cases "start \<le> e")
    case True
    have ap: "apart ((s, max e end') # merged)" using 3 by auto
    have "s \<le> start" using "3.prems" by auto
    then have "outside (insert (s, max e end') S) = outside (insert (s, e) (insert (start, end') S))" for S
      using True by (auto simp: outside_def)
    with "3.IH"(1)[OF True ap] "3.prems" True show ?thesis
      by (auto simp: insert_commute)
  next
    case False
    have ap: "apart ((start, end') # (s, e) # merged)" using 3 False by fastforce
    with "3.IH"(2)[OF False ap] "3.prems" False show ?thesis
      by (auto simp: insert_commute)
  qed
qed

lemma collect_spans_fit:
  "collect_spans d ns n fbs = Some spans \<Longrightarrow> \<forall>(s, e)\<in>set spans. s \<le> e \<and> e \<le> n"
proof (induction fbs arbitrary: spans)
  case (Cons fb fbs)
  show ?case
  proof (cases "collect_spans d ns n fbs")
    case None
    with Cons.prems show ?thesis by (auto simp: Let_def split: option.split_asm if_split_asm)
  next
    case (Some rest)
    with Cons.prems have "spans = rest \<or> (\<exists>span. spans = span # rest \<and> fst span \<le> snd span \<and> snd span \<le> n)"
      by (auto simp: Let_def span_fits_def split: option.split_asm if_split_asm)
    then show ?thesis using Cons.IH[OF Some] by (auto simp: case_prod_beta)
  qed
qed simp

lemma cut_collected:
  assumes "\<forall>(s, e)\<in>set spans. s \<le> e \<and> e \<le> length xs"
  shows "fold cut_span (merge_spans [] (sort spans)) xs = nths xs (outside (set spans))"
proof -
  have "sorted (map fst (sort spans))"
  proof -
    have "sorted_wrt (\<lambda>x y. fst x \<le> fst y) (sort spans)"
      by (rule sorted_wrt_mono_rel[OF _ sorted_sort]) (auto simp: less_eq_prod_def)
    then show ?thesis by (simp add: sorted_map)
  qed
  then have m: "apart (merge_spans [] (sort spans))
      \<and> outside (set (merge_spans [] (sort spans))) = outside (set [] \<union> set (sort spans))
      \<and> (\<forall>(s, e)\<in>set (merge_spans [] (sort spans)). e \<le> length xs)"
    using assms by (intro merge_spans_spec) auto
  then show ?thesis using cut_apart[of "merge_spans [] (sort spans)" xs] by simp
qed

text \<open>
  C39: Whatever fallback spans a sender marks (overlapping, repeated, out of order, out of bounds),
  the loop that sorts, merges and cuts them from the end removes exactly the characters some valid
  span marks, keeps the others in order, and never cuts out of bounds; a marker without a span
  empties the text, and a text without markers is left as it is.
\<close>

theorem strip_fallback_spans_exact:
  "strip_fallback_spans d content body for_ns =
     (case collect_spans d for_ns (count_chars body) (fallbacks d content) of
        None \<Rightarrow> []
      | Some [] \<Rightarrow> body
      | Some spans \<Rightarrow> str_trim (concat (nths (str_chars body) (outside (set spans)))))"
proof (cases "collect_spans d for_ns (count_chars body) (fallbacks d content)")
  case (Some spans)
  have "fold cut_span (merge_spans [] (sort spans)) (str_chars body)
      = nths (str_chars body) (outside (set spans))"
    using collect_spans_fit[OF Some] by (intro cut_collected) (simp add: count_chars_def)
  with Some show ?thesis
    by (cases spans) (simp_all add: strip_fallback_spans_def count_chars_def Let_def)
qed (simp add: strip_fallback_spans_def count_chars_def Let_def)

subsection \<open>A file message is read back\<close>

lemma newline_ascii [simp]: "utf8_valid newline" "str_chars newline = [newline]"
  "is_whitespace newline" "newline \<noteq> []"
  by (simp_all add: newline_def is_ascii_def byte_of_def is_whitespace_def bytes_of_str_def in_range_def)

lemma count_chars_append: "utf8_valid b \<Longrightarrow> str_chars (a @ b) = str_chars a @ str_chars b"
  using utf8_valid_start[of b] by (intro str_chars_append) auto

definition body_state :: "string \<Rightarrow> string list \<Rightarrow> string \<times> (nat \<times> nat) list" where
  "body_state caption urls = fold add_url urls (caption, [])"

text \<open>After any number of URLs: what the spans leave is the caption and the line breaks.\<close>

lemma body_state_spec:
  assumes "utf8_valid caption" and "\<forall>u\<in>set urls. utf8_valid u \<and> u \<noteq> []"
    and "body_state caption urls = (body, spans)"
  shows "utf8_valid body \<and> (\<forall>(s, e)\<in>set spans. s \<le> e \<and> e \<le> count_chars body)
    \<and> (\<exists>k. nths (str_chars body) (outside (set spans)) = str_chars caption @ replicate k newline)
    \<and> length spans = length urls"
  using assms(2,3)
proof (induction urls arbitrary: body spans rule: rev_induct)
  case Nil
  then show ?case using assms(1) by (auto simp: body_state_def nths_all intro: exI[of _ 0])
next
  case (snoc u urls)
  obtain b sp where prev: "body_state caption urls = (b, sp)" by fastforce
  have ih: "utf8_valid b" "\<forall>(s, e)\<in>set sp. s \<le> e \<and> e \<le> count_chars b" "length sp = length urls"
    and "\<exists>k. nths (str_chars b) (outside (set sp)) = str_chars caption @ replicate k newline"
    using snoc.IH[OF _ prev] snoc.prems(1) by auto
  then obtain k where k: "nths (str_chars b) (outside (set sp)) = str_chars caption @ replicate k newline"
    by blast
  define nl where "nl = (if b \<noteq> [] then newline else [])"
  define start where "start = count_chars (b @ nl)"
  have body: "body = b @ nl @ u" and spans: "spans = sp @ [(start, count_chars (b @ nl @ u))]"
    using snoc.prems(2) prev by (auto simp: body_state_def add_url_def nl_def start_def Let_def)
  have u: "utf8_valid u" using snoc.prems(1) by simp
  have nlv: "utf8_valid nl" "str_chars nl = (if b \<noteq> [] then [newline] else [])"
    by (simp_all add: nl_def)
  have valid: "utf8_valid (b @ nl @ u)" using ih(1) nlv(1) u by (simp add: utf8_valid_append_iff)
  have chars: "str_chars (b @ nl @ u) = str_chars b @ str_chars nl @ str_chars u"
    using u nlv(1) by (simp add: count_chars_append utf8_valid_append_iff)
  have start: "start = length (str_chars b) + length (str_chars nl)"
    using nlv(1) by (simp add: start_def count_chars_def count_chars_append)
  define T where "T = outside (set spans)"
  have T: "i \<in> T \<longleftrightarrow> i \<in> outside (set sp) \<and>
      (i < length (str_chars b) + length (str_chars nl)
       \<or> length (str_chars b) + length (str_chars nl) + length (str_chars u) \<le> i)" for i
    by (auto simp: T_def outside_def spans count_chars_def chars start)
  have past: "i \<in> outside (set sp)" if "length (str_chars b) \<le> i" for i
    using ih(2) that by (fastforce simp: outside_def count_chars_def)
  have first: "nths (str_chars b) T = nths (str_chars b) (outside (set sp))"
    unfolding nths_def by (rule arg_cong[where f = "map fst"], rule filter_cong)
      (auto simp: T set_zip)
  have mid: "nths (str_chars nl) {j. j + length (str_chars b) \<in> T} = str_chars nl"
    using past by (intro nths_all) (auto simp: T)
  have last: "nths (str_chars u) {j. j + length (str_chars nl) + length (str_chars b) \<in> T} = []"
    unfolding nths_def by (auto simp: T set_zip filter_empty_conv)
  have "nths (str_chars body) (outside (set spans)) = str_chars caption @ replicate k newline @ str_chars nl"
    unfolding T_def[symmetric] body chars nths_append first mid k using last by (simp add: ac_simps)
  then have "\<exists>k. nths (str_chars body) (outside (set spans)) = str_chars caption @ replicate k newline"
    by (intro exI[of _ "k + length (str_chars nl)"]) (simp add: nlv(2) replicate_add)
  moreover have "\<forall>(s, e)\<in>set spans. s \<le> e \<and> e \<le> count_chars body"
    using ih(2) by (auto simp: spans body count_chars_def chars start)
  ultimately show ?case using valid ih(3) by (simp add: body spans)
qed

lemma trim_trailing:
  "\<forall>c\<in>set ws. is_whitespace c
    \<Longrightarrow> drop_ws_end (dropWhile is_whitespace (cs @ ws)) = drop_ws_end (dropWhile is_whitespace cs)"
proof -
  assume ws: "\<forall>c\<in>set ws. is_whitespace c"
  have cut: "drop_ws_end (xs @ ws) = drop_ws_end xs" for xs
    unfolding drop_ws_end_def rev_append using ws by (subst dropWhile_append2) simp_all
  show ?thesis
  proof (cases "\<forall>c\<in>set cs. is_whitespace c")
    case True
    then have none: "dropWhile is_whitespace (cs @ ws) = []" "dropWhile is_whitespace cs = []"
      using ws by auto
    show ?thesis unfolding none ..
  next
    case False
    then have "dropWhile is_whitespace (cs @ ws) = dropWhile is_whitespace cs @ ws"
      by (auto simp: dropWhile_append1)
    then show ?thesis by (simp add: cut)
  qed
qed

lemma concat_newlines: "utf8_valid (concat (replicate k newline))"
    "str_chars (concat (replicate k newline)) = replicate k newline"
  by (induction k) (simp_all add: utf8_valid_append_iff count_chars_append)

lemma trim_newlines:
  assumes "utf8_valid s"
  shows "str_trim (concat (str_chars s @ replicate k newline)) = str_trim s"
proof -
  have "str_chars (s @ concat (replicate k newline)) = str_chars s @ replicate k newline"
    by (simp add: count_chars_append concat_newlines)
  moreover have "drop_ws_end (dropWhile is_whitespace (str_chars s @ replicate k newline))
      = drop_ws_end (dropWhile is_whitespace (str_chars s))"
    by (rule trim_trailing) simp
  ultimately show ?thesis by (simp add: str_trim_def)
qed

lemma length_str_chars: "length (str_chars s) \<le> length s"
proof (induction s rule: str_chars.induct)
  case (2 c s)
  have "length (str_chars (dropWhile is_cont s)) \<le> length s"
    using 2 length_dropWhile_le[of is_cont s] by linarith
  then show ?case by simp
qed simp

lemmas child_defs = get_child_def child_attr_def child_text_def d_is_def

lemma fallback_element_parts [simp]:
  assumes "dom_sound d"
  shows "d_name d (fallback_element d ns span) = ''fallback''"
    "d_ns d (fallback_element d ns span) = NS_FALLBACK"
    "d_attr d (fallback_element d ns span) ''for'' = Some ns"
  using assms by (simp_all add: fallback_element_def)

lemma fallback_element_range:
  assumes "dom_sound d" and "fst span < 2 ^ 64" and "snd span < 2 ^ 64"
  shows "\<exists>rng. body_range d (fallback_element d ns span) = Some rng \<and> range_span d n rng = span"
  using assms
  by (auto simp: fallback_element_def body_range_def range_span_def offset_attr_def)

lemma collect_fallback_elements:
  assumes "dom_sound d" and "\<forall>span\<in>set spans. span_fits n span" and "n < 2 ^ 64"
  shows "collect_spans d [NS_OOB, NS_SFS] n
      (concat (map (\<lambda>span. map (\<lambda>ns. fallback_element d ns span) [NS_OOB, NS_SFS]) spans))
    = Some (concat (map (\<lambda>span. [span, span]) spans))"
  using assms(2)
proof (induction spans)
  case (Cons span spans)
  then have fits: "span_fits n span" and b: "fst span < 2 ^ 64" "snd span < 2 ^ 64"
    using assms(3) by (auto simp: span_fits_def)
  have step: "collect_spans d [NS_OOB, NS_SFS] n (fallback_element d ns span # fbs)
      = map_option ((#) span) (collect_spans d [NS_OOB, NS_SFS] n fbs)"
    if "ns \<in> {NS_OOB, NS_SFS}" for ns fbs
    using fallback_element_range[OF assms(1) b, of ns n] that fits assms(1) by auto
  show ?case using Cons step by (simp del: collect_spans.simps)
qed simp

subsection \<open>File descriptions\<close>

text \<open>A file as \<open>send_files\<close> describes it.\<close>

definition describable :: "shared_file \<Rightarrow> bool" where
  "describable f \<longleftrightarrow> utf8_valid (sf_url f) \<and> sf_url f \<noteq> [] \<and> str_trim (sf_url f) = sf_url f
     \<and> sf_name f \<noteq> [] \<and> str_trim (sf_name f) = sf_name f
     \<and> sf_mime f \<noteq> [] \<and> str_trim (sf_mime f) = sf_mime f
     \<and> (case sf_size f of None \<Rightarrow> True | Some n \<Rightarrow> 0 < n \<and> n < 2 ^ 63)
     \<and> sf_width f = None \<and> sf_height f = None \<and> sf_duration f = None"

lemma file_sharing_parts [simp]:
  assumes "dom_sound d"
  shows "d_name d (file_sharing d origin x) = ''file-sharing''"
    "d_ns d (file_sharing d origin x) = NS_SFS"
  using assms by (cases x; simp add: file_sharing_def)+

lemma trim_show_nat: "str_trim (show_nat n) = show_nat n"
proof -
  have ws: "\<not> is_whitespace [c]" if "c \<in> set (show_nat n)" for c
    using show_nat_digits[OF that] by (auto simp: in_range_def is_whitespace_def bytes_of_str_def)
  show ?thesis
    using ws show_nat_nonempty[of n]
    by (intro str_trim_id) (simp_all add: str_chars_ascii[OF show_nat_ascii] hd_map last_map)
qed

lemma file_meta_parts [simp]:
  assumes "dom_sound d"
  shows "d_name d (file_meta d f) = ''file''" "d_ns d (file_meta d f) = NS_FILE_META"
  using assms by (simp_all add: file_meta_def append_text_def Let_def split: option.split)

lemma file_meta_texts:
  assumes "dom_sound d" and "describable f"
  shows "child_text d (file_meta d f) ''name'' NS_FILE_META = Some (sf_name f)"
    and "child_text d (file_meta d f) ''media-type'' NS_FILE_META = Some (sf_mime f)"
    and "child_text d (file_meta d f) ''size'' NS_FILE_META = map_option show_int (sf_size f)"
    and "tag \<notin> {''name'', ''media-type'', ''size''} \<Longrightarrow> child_text d (file_meta d f) tag NS_FILE_META = None"
  using assms
  by (auto simp: file_meta_def append_text_def text_element_def Let_def child_defs describable_def
      split: option.splits)

lemma file_sharing_children:
  assumes "dom_sound d"
  shows "d_children d (file_sharing d origin (i, f)) =
    [file_meta d f, d_with_child d (d_with_attr d ''target'' (sf_url f) (d_bare d ''url-data'' NS_URL_DATA))
         (d_bare d ''sources'' NS_SFS)]"
  using assms by (simp add: file_sharing_def)

lemma sharing_file_built:
  assumes "dom_sound d" and "describable f"
  shows "sharing_file d (file_sharing d origin (i, f)) = Some f"
proof -
  have url: "sharing_url d (file_sharing d origin (i, f)) = Some (sf_url f)"
    using assms by (simp add: sharing_url_def child_defs file_sharing_children non_empty_def
        describable_def)
  have meta: "meta_text d (file_sharing d origin (i, f)) tag
      = non_empty (map_option str_trim (child_text d (file_meta d f) tag NS_FILE_META))" for tag
    using assms(1) by (simp add: meta_text_def get_child_def[of d "file_sharing d origin (i, f)"]
        d_is_def file_sharing_children)
  note texts = file_meta_texts[OF assms]
  have name: "meta_text d (file_sharing d origin (i, f)) ''name'' = Some (sf_name f)"
    and mime: "meta_text d (file_sharing d origin (i, f)) ''media-type'' = Some (sf_mime f)"
    using assms(2) unfolding meta texts by (simp_all add: non_empty_def describable_def)
  have size: "meta_number d (file_sharing d origin (i, f)) ''size'' = sf_size f"
  proof (cases "sf_size f")
    case (Some n)
    then have "0 < n" "n < 2 ^ 63" using assms(2) by (simp_all add: describable_def)
    then have "str_trim (show_int n) = show_int n" "show_int n \<noteq> []"
      by (simp_all add: show_int_def trim_show_nat)
    with \<open>0 < n\<close> \<open>n < 2 ^ 63\<close> Some show ?thesis
      unfolding meta_number_def meta texts by (simp add: non_empty_def)
  qed (simp add: meta_number_def meta texts non_empty_def)
  have others: "meta_number d (file_sharing d origin (i, f)) tag = None"
    if "tag \<notin> {''name'', ''media-type'', ''size''}" for tag
    using texts(4)[OF that] by (simp add: meta_number_def meta non_empty_def)
  show ?thesis
    using assms(2) by (simp add: sharing_file_def url name mime size others describable_def)
qed

text \<open>
  C38: A message with several files is read back: when the body and the payload elements of
  \<open>send_files\<close> reach a receiver in a content element (beside elements that are no fallbacks and no
  file descriptions), the receiver finds exactly the files sent, in order, and cutting the marked
  spans out of the body leaves exactly the trimmed caption, none of the URLs and none of the line
  breaks between them.
\<close>

theorem multi_file_message_roundtrip:
  assumes "dom_sound d" and "files \<noteq> []" and "\<forall>f\<in>set files. describable f"
    and "case caption of None \<Rightarrow> True | Some c \<Rightarrow> utf8_valid c"
    and "build_multi_file_body caption (map sf_url files) = (body, spans)" and "length body < 2 ^ 64"
    and "d_children d content = pre @ build_multi_file_payloads d files spans origin_id"
    and "\<forall>c\<in>set pre. \<not> d_is d c ''fallback'' NS_FALLBACK \<and> \<not> d_is d c ''file-sharing'' NS_SFS"
  shows "sfs_files d content = files
    \<and> strip_fallback_spans d content body [NS_OOB, NS_SFS]
        = str_trim (case caption of None \<Rightarrow> [] | Some c \<Rightarrow> c)"
proof -
  define c where "c = (case caption of None \<Rightarrow> [] | Some c \<Rightarrow> c)"
  have cv: "utf8_valid c" using assms(4) by (simp add: c_def split: option.splits)
  have urls: "\<forall>u\<in>set (map sf_url files). utf8_valid u \<and> u \<noteq> []"
    using assms(3) by (auto simp: describable_def)
  have st: "body_state c (map sf_url files) = (body, spans)"
    using assms(5) by (simp add: body_state_def build_multi_file_body_def c_def)
  from body_state_spec[OF cv urls st] obtain k
    where fit: "\<forall>(s, e)\<in>set spans. s \<le> e \<and> e \<le> count_chars body"
      and left: "nths (str_chars body) (outside (set spans)) = str_chars c @ replicate k newline"
      and len: "length spans = length files" by auto
  let ?fb = "concat (map (\<lambda>span. map (\<lambda>ns. fallback_element d ns span) [NS_OOB, NS_SFS]) spans)"
  have no_pre: "filter (\<lambda>c. d_is d c ''fallback'' NS_FALLBACK) pre = []"
      "filter (\<lambda>c. d_is d c ''file-sharing'' NS_SFS) pre = []"
    using assms(8) by (auto simp: filter_empty_conv)
  have is_fb: "filter (\<lambda>c. d_is d c ''fallback'' NS_FALLBACK) ?fb = ?fb"
      "filter (\<lambda>c. d_is d c ''file-sharing'' NS_SFS) ?fb = []"
    using assms(1) by (auto simp: filter_id_conv filter_empty_conv d_is_def)
  have is_sh: "filter (\<lambda>c. d_is d c ''fallback'' NS_FALLBACK) (map (file_sharing d origin_id) es) = []"
      "filter (\<lambda>c. d_is d c ''file-sharing'' NS_SFS) (map (file_sharing d origin_id) es)
        = map (file_sharing d origin_id) es" for es
    using assms(1) by (auto simp: filter_id_conv filter_empty_conv d_is_def)
  have files: "List.map_filter (sharing_file d) (map (file_sharing d origin_id) (enumerate i fs)) = fs"
    if "\<forall>f\<in>set fs. describable f" for i fs
    using that by (induction fs arbitrary: i) (simp_all add: List.map_filter_simps sharing_file_built[OF assms(1)])
  have sfs: "sfs_files d content = files"
    unfolding sfs_files_def assms(7) build_multi_file_payloads_def filter_append no_pre is_fb is_sh
    using files[OF assms(3)] by simp
  have fbs: "fallbacks d content = ?fb"
    unfolding fallbacks_def assms(7) build_multi_file_payloads_def filter_append no_pre is_fb is_sh by simp
  have bound: "count_chars body < 2 ^ 64"
    using length_str_chars[of body] assms(6) by (simp add: count_chars_def)
  have col: "collect_spans d [NS_OOB, NS_SFS] (count_chars body) (fallbacks d content)
      = Some (concat (map (\<lambda>span. [span, span]) spans))"
    unfolding fbs using fit bound
    by (intro collect_fallback_elements[OF assms(1)]) (auto simp: span_fits_def)
  have dup: "set (concat (map (\<lambda>span. [span, span]) spans)) = set spans" by auto
  have "spans \<noteq> []" using len assms(2) by auto
  then have "strip_fallback_spans d content body [NS_OOB, NS_SFS]
      = str_trim (concat (nths (str_chars body) (outside (set spans))))"
    unfolding strip_fallback_spans_exact col option.case
    by (cases spans) (use dup in simp_all)
  then show ?thesis using sfs trim_newlines[OF cv] by (simp add: left c_def)
qed

lemma multi_file_message_roundtrip_witness:
  "let f = \<lparr>sf_url = ''https://h/a.png'', sf_mime = ''image/png'', sf_name = ''a.png'', sf_size = Some 12,
       sf_width = None, sf_height = None, sf_duration = None\<rparr>;
     g = f\<lparr>sf_url := ''https://h/b'', sf_size := None\<rparr>;
     (body, spans) = build_multi_file_body (Some ''two pictures'') [sf_url f, sf_url g];
     content = Tree ''content'' NS_CLIENT [] (build_multi_file_payloads tree_dom [f, g] spans ''o'') []
   in sfs_files tree_dom content = [f, g]
    \<and> strip_fallback_spans tree_dom content body [NS_OOB, NS_SFS] = str_trim ''two pictures''"
proof -
  define f where "f = \<lparr>sf_url = ''https://h/a.png'', sf_mime = ''image/png'', sf_name = ''a.png'',
    sf_size = Some 12, sf_width = None, sf_height = None, sf_duration = None\<rparr>"
  define g where "g = f\<lparr>sf_url := ''https://h/b'', sf_size := None\<rparr>"
  have ok: "\<forall>x\<in>set [f, g]. describable x" unfolding f_def g_def by code_simp
  obtain body spans where bs: "build_multi_file_body (Some ''two pictures'') (map sf_url [f, g]) = (body, spans)"
    by (cases "build_multi_file_body (Some ''two pictures'') (map sf_url [f, g])")
  have "length (fst (build_multi_file_body (Some ''two pictures'') (map sf_url [f, g]))) = 40"
    unfolding f_def g_def by code_simp
  then have len: "length body < 2 ^ 64" using bs by simp
  have v: "utf8_valid ''two pictures''" by code_simp
  define content where
    "content = Tree ''content'' NS_CLIENT [] (build_multi_file_payloads tree_dom [f, g] spans ''o'') []"
  have "d_children tree_dom content = [] @ build_multi_file_payloads tree_dom [f, g] spans ''o''"
    by (simp add: content_def tree_dom_def)
  from multi_file_message_roundtrip[OF tree_dom_sound _ ok _ bs len this] v
  show ?thesis using bs unfolding Let_def f_def[symmetric] g_def[symmetric] by (simp add: content_def)
qed

subsection \<open>Mentions\<close>

definition mention_at :: "string \<Rightarrow> string \<Rightarrow> nat \<Rightarrow> bool" where
  "mention_at body nick i \<longleftrightarrow>
     (\<exists>a b. body = a @ nick @ b \<and> length a = i \<and> ends_word a \<and> starts_gap b)"

lemma valid_occurrence:
  assumes "utf8_valid (a @ nick @ b)" and "utf8_valid nick" and "nick \<noteq> []"
  shows "utf8_valid a" and "utf8_valid b"
    and "is_boundary (a @ nick @ b) (length a)"
    and "is_boundary (a @ nick @ b) (length a + length nick)"
proof -
  have h: "\<not> is_cont (hd (nick @ b))" using assms(3) utf8_valid_hd[OF assms(2,3)] by simp
  then show "utf8_valid a" and b: "utf8_valid b"
    using utf8_valid_cut[OF assms(1)] assms(2,3) by (auto simp: utf8_valid_append_iff)
  show "is_boundary (a @ nick @ b) (length a)"
    using h assms(3) by (cases nick) (auto simp: is_boundary_def)
  show "is_boundary (a @ nick @ b) (length a + length nick)"
    using utf8_valid_start[OF b] by (cases b) (auto simp: is_boundary_def nth_append)
qed

lemma valid_tail: "utf8_valid s \<Longrightarrow> is_boundary s i \<Longrightarrow> utf8_valid (drop i s)"
proof -
  assume s: "utf8_valid s" and i: "is_boundary s i"
  have "drop i s = [] \<or> \<not> is_cont (hd (drop i s))" using i s utf8_valid_start
    by (cases "i = 0") (auto simp: is_boundary_def hd_drop_conv_nth)
  then show ?thesis using utf8_valid_cut[of "take i s" "drop i s"] s
    by (cases "length s \<le> i") auto
qed

lemma mentions_from_exact:
  assumes "utf8_valid body" and "utf8_valid nick" and "nick \<noteq> []" and "is_ascii (hd nick)"
  shows "is_boundary body pos \<Longrightarrow>
    mentions_from body nick pos = Return (\<exists>i\<ge>pos. mention_at body nick i)"
proof (induction "length body - pos" arbitrary: pos rule: less_induct)
  case less
  have fl: "pos \<le> length body" using less.prems by (auto simp: is_boundary_def)
  have rest: "str_slice body pos (length body) = Return (drop pos body)"
    using fl less.prems by (auto simp: str_slice_def is_boundary_def)
  show ?case
  proof (cases "find_str nick (drop pos body)")
    case None
    have "\<not> mention_at body nick i" if "pos \<le> i" for i
    proof
      assume "mention_at body nick i"
      then obtain a b where ab: "body = a @ nick @ b" "length a = i" by (auto simp: mention_at_def)
      with that have "drop pos body = drop pos a @ nick @ b" by simp
      with None show False by (metis find_str_None)
    qed
    with None rest show ?thesis by (simp add: mentions_from.simps[of body])
  next
    case (Some off)
    from find_str_SomeD[OF Some] obtain a' b
      where dr: "drop pos body = a' @ nick @ b" and off: "length a' = off" by blast
    define a where "a = take pos body @ a'"
    have body: "body = a @ nick @ b" using dr by (metis a_def append.assoc append_take_drop_id)
    have la: "length a = pos + off" using fl off by (simp add: a_def)
    note occ = valid_occurrence[OF assms(1)[unfolded body] assms(2,3)]
    have bd: "is_boundary body (pos + off)" "is_boundary body (pos + off + length nick)"
      using occ(3,4) by (simp_all add: body la)
    have bd': "is_boundary body 0" "is_boundary body (length body)" by (simp_all add: is_boundary_def)
    have le: "pos + off + length nick \<le> length body" using la by (simp add: body)
    have tk: "take (pos + off) body = a" "drop (pos + off + length nick) body = b"
      using la by (simp_all add: body)
    have before: "str_slice body 0 (pos + off) = Return a"
      using bd bd' le tk by (simp add: str_slice_def)
    have after: "str_slice body (pos + off + length nick) (length body) = Return b"
      unfolding tk(2)[symmetric] using bd bd' le by (simp add: str_slice_def)
    have here: "mention_at body nick (pos + off) \<longleftrightarrow> ends_word a \<and> starts_gap b"
      using body la by (auto simp: mention_at_def)
    have gap: "\<not> mention_at body nick i" if "pos \<le> i" "i < pos + off" for i
    proof
      assume "mention_at body nick i"
      then obtain a2 b2 where ab: "body = a2 @ nick @ b2" "length a2 = i" by (auto simp: mention_at_def)
      with that have "drop (i - pos) (drop pos body) = nick @ b2" by simp
      moreover have "\<not> starts_with (drop (i - pos) (drop pos body)) nick"
        using find_str_first[OF Some, of "i - pos"] that by simp
      ultimately show False by simp
    qed
    obtain x nick' where nick: "nick = x # nick'" using assms(3) by (cases nick) auto
    have "utf8_valid (nick' @ b)"
      using occ(2) assms(2,4) nick utf8_valid_append_iff[of nick' b] by simp
    then have "is_boundary body (pos + off + 1)"
      unfolding body la[symmetric] using utf8_valid_start[of "nick' @ b"]
      by (cases "nick' @ b") (auto simp: nick is_boundary_def nth_append)
    moreover have "length body - (pos + off + 1) < length body - pos"
      using body la nick by simp
    ultimately have IH: "mentions_from body nick (pos + off + 1)
        = Return (\<exists>i\<ge>pos + off + 1. mention_at body nick i)"
      using less.hyps by blast
    have "(\<exists>i\<ge>pos. mention_at body nick i) \<longleftrightarrow>
        mention_at body nick (pos + off) \<or> (\<exists>i\<ge>pos + off + 1. mention_at body nick i)"
    proof -
      have "i = pos + off \<or> pos + off + 1 \<le> i" if "pos \<le> i" "mention_at body nick i" for i
        using gap[of i] that by (cases "i < pos + off") auto
      moreover have "pos \<le> i" if "pos + off + 1 \<le> i" for i using that by simp
      moreover have "pos \<le> pos + off" by simp
      ultimately show ?thesis by blast
    qed
    then show ?thesis
      unfolding mentions_from.simps[of body nick pos] using rest Some before after here IH by auto
  qed
qed

text \<open>
  Where the nickname starts with an ASCII character the highlight check never panics and is
  exact: a text mentions the nickname exactly if it occurs somewhere at the start or after white
  space, and before the end, white space or ASCII punctuation.
\<close>

theorem mentions_nick_exact:
  assumes "utf8_valid body" and "utf8_valid nick" and "nick = [] \<or> is_ascii (hd nick)"
  shows "mentions_nick body nick = Return (nick \<noteq> [] \<and> (\<exists>i. mention_at body nick i))"
  using mentions_from_exact[OF assms(1,2), of 0] assms(3)
  by (auto simp: mentions_nick_def is_boundary_def)

lemma mentions_nick_exact_witness:
  "mentions_nick ''hey ann: hi'' ''ann'' = Return (\<exists>i. mention_at ''hey ann: hi'' ''ann'' i)
   \<and> mentions_nick ''hey ann: hi'' ''ann'' = Return True \<and> mentions_nick ''hey anna'' ''ann'' = Return False"
proof -
  have "utf8_valid ''hey ann: hi''" "utf8_valid ''ann''" "is_ascii (hd ''ann'')" by code_simp+
  from mentions_nick_exact[OF this(1,2)] this(3)
  have "mentions_nick ''hey ann: hi'' ''ann'' = Return (\<exists>i. mention_at ''hey ann: hi'' ''ann'' i)" by simp
  moreover have "mentions_nick ''hey ann: hi'' ''ann'' = Return True" by code_simp
  moreover have "mentions_nick ''hey anna'' ''ann'' = Return False" by code_simp
  ultimately show ?thesis by blast
qed

text \<open>
  With a nickname that starts with a character outside ASCII it does panic: the search
  resumes one byte after an occurrence that is no mention, inside that character, so anyone in a
  room can crash the receiver's message loop by writing the nickname inside a word.
\<close>

theorem mentions_nick_panics:
  assumes "utf8_valid nick" and "nick \<noteq> []" and "\<not> is_ascii (hd nick)"
  shows "mentions_nick (CHR ''a'' # nick) nick = Panic"
proof -
  let ?body = "CHR ''a'' # nick"
  have a: "is_ascii CHR ''a''" by code_simp
  obtain x n where nick: "nick = x # n" using assms(2) by (cases nick) auto
  have x: "\<not> is_ascii x" "\<not> is_cont x" using assms utf8_valid_hd[of nick] by (simp_all add: nick)
  have "x \<noteq> CHR ''a''" using x(1) a by auto
  then have fs: "find_str nick ?body = Some 1"
    by (simp add: nick find_str.simps[of "x # n"] starts_with_iff)
  obtain k where st: "utf8_step nick = (True, k)"
    using utf8_valid_stepE[OF assms(1,2)] by blast
  have k1: "k \<noteq> 1"
    using st x(1) by (auto simp: nick utf8_step_def is_ascii_def Let_def split: if_splits)
  note sh = utf8_step_shape[OF st assms(2)]
  have "1 < k" using sh(1) k1 by simp
  then have n: "n \<noteq> []" "is_cont (hd n)"
    using sh(2) sh(4)[rule_format, of 1] by (cases n; simp add: nick)+
  have s0: "str_slice ?body 0 (length ?body) = Return ?body"
    by (simp add: str_slice_def is_boundary_def)
  have s1: "str_slice ?body 0 (0 + 1) = Return ''a''"
    using x by (simp add: str_slice_def is_boundary_def nick)
  have s2: "str_slice ?body (0 + 1 + length nick) (length ?body) = Return []"
    by (simp add: str_slice_def is_boundary_def)
  have word: "\<not> ends_word ''a''" by code_simp
  have "\<not> is_boundary ?body 2" using n by (cases n) (auto simp: is_boundary_def nick)
  then have "str_slice ?body 2 (length ?body) = Panic" by (simp add: str_slice_def)
  then have "mentions_from ?body nick 2 = Panic" by (simp add: mentions_from.simps)
  then have "mentions_from ?body nick 0 = Panic"
    using s1 s2 by (subst mentions_from.simps) (simp only: s0 fs word run.case option.case, simp add: numeral_2_eq_2)
  then show ?thesis using assms(2) by (simp add: mentions_nick_def)
qed

lemma mentions_nick_panics_witness:
  "mentions_nick [CHR ''a'', CHR 0xC3, CHR 0xA9] [CHR 0xC3, CHR 0xA9] = Panic"
proof -
  have "utf8_valid [CHR 0xC3, CHR 0xA9]" "\<not> is_ascii (hd [CHR 0xC3, CHR 0xA9])" by code_simp+
  then show ?thesis using mentions_nick_panics by blast
qed

end
