(* ===== verification/Message_Store.thy ===== *)
theory Message_Store
  imports Sql_Table
begin

text \<open>
  \<open>crates/mxc-store/src/messages.rs\<close>: conversations, messages, reactions, room occupants and MAM
  cursors.  \<open>message_db\<close> holds the tables of the migrations \<open>0001\<close>, \<open>0003\<close>, \<open>0004\<close>, \<open>0005\<close>, \<open>0007\<close>,
  \<open>0008\<close>, \<open>0011\<close> and \<open>0012\<close> under their primary keys.  Two \<open>AUTOINCREMENT\<close> counters give fresh row
  ids; foreign keys are enforced (\<open>lib.rs\<close> opens the database with \<open>foreign_keys(true)\<close>), so a row
  whose parent is missing is the error \<open>Foreign_Key\<close>.  \<open>LIMIT 1\<close> without an order may return any
  match: it is the argument \<open>pick\<close>.  Text is its UTF-8 bytes.
\<close>

datatype store_error = Foreign_Key

datatype direction = In | Out

fun as_str :: "direction \<Rightarrow> string" where
  "as_str In = ''in''"
| "as_str Out = ''out''"

record conversation_row =
  conv_account :: i64
  conv_jid :: string
  conv_kind :: string
  conv_name :: "string option"
  conv_encryption :: string
  conv_muc_nick :: "string option"
  conv_muc_autojoin :: bool
  conv_last_active :: "string option"
  conv_unread :: i64
  conv_archived :: bool
  conv_self_occupant :: "string option"
  conv_muc_password :: "string option"
  conv_muc_subject :: "string option"
  conv_notify :: string
  conv_members_only :: bool
  conv_non_anonymous :: bool

record message_row =
  msg_conversation :: i64
  msg_stanza_id :: "string option"
  msg_origin_id :: "string option"
  msg_counterpart :: string
  msg_direction :: string
  msg_body :: "string option"
  msg_encryption :: string
  msg_state :: string
  msg_edited_of :: "string option"
  msg_retracted :: bool
  msg_attachment :: "string option"
  msg_reply_to :: "string option"
  msg_fingerprint :: "string option"
  msg_occupant_id :: "string option"
  msg_timestamp :: string
  msg_thread :: "string option"

record occupant_row =
  occ_real_jid :: "string option"
  occ_affiliation :: "string option"

record mam_cursor_row =
  mam_first_id :: "string option"
  mam_last_id :: "string option"
  mam_complete :: bool

record message_db =
  t_accounts :: "i64 list"
  t_conversations :: "(i64, conversation_row) table"
  t_messages :: "(i64, message_row) table"
  t_reactions :: "(i64 \<times> string \<times> string, string option) table"
  t_occupants :: "(i64 \<times> string, occupant_row) table"
  t_mam_cursors :: "(i64 \<times> string, mam_cursor_row) table"
  conv_seq :: i64
  msg_seq :: i64

record new_message =
  new_conversation_id :: i64
  new_stanza_id :: "string option"
  new_origin_id :: "string option"
  new_counterpart :: string
  new_direction :: direction
  new_body :: "string option"
  new_encryption :: string
  new_reply_to :: "string option"
  new_fingerprint :: "string option"
  new_attachment :: "string option"
  new_occupant_id :: "string option"
  new_timestamp :: string
  new_thread :: "string option"

record pending_message =
  pend_origin_id :: string
  pend_to :: string
  pend_body :: string
  pend_encryption :: string
  pend_reply_to :: "string option"

record message_search_row =
  hit_message_id :: i64
  hit_conversation_id :: i64
  hit_conv_jid :: string
  hit_conv_kind :: string
  hit_conv_name :: "string option"
  hit_conv_encryption :: string
  hit_marker :: "string option"
  hit_body :: "string option"
  hit_direction :: string
  hit_counterpart :: string
  hit_timestamp :: string

type_synonym 'a store_act = "(message_db, store_error, 'a) act"
type_synonym message = "i64 \<times> message_row"
type_synonym conversation = "i64 \<times> conversation_row"

subsection \<open>SQL helpers\<close>

text \<open>\<open>COALESCE(a, b)\<close>, \<open>UPDATE ... WHERE\<close> and \<open>LIMIT\<close> (a negative limit is none).\<close>

definition coalesce :: "'a option \<Rightarrow> 'a option \<Rightarrow> 'a option" where
  "coalesce a b = (case a of Some _ \<Rightarrow> a | None \<Rightarrow> b)"

definition update_where ::
  "('k \<Rightarrow> 'r \<Rightarrow> bool) \<Rightarrow> ('r \<Rightarrow> 'r) \<Rightarrow> ('k, 'r) table \<Rightarrow> ('k, 'r) table" where
  "update_where Q f t = map (\<lambda>(k, r). (k, if Q k r then f r else r)) t"

definition sql_limit :: "i64 \<Rightarrow> 'a list \<Rightarrow> 'a list" where
  "sql_limit n xs = (if n < 0 then xs else take (nat n) xs)"

text \<open>\<open>s LIKE p ESCAPE '\'\<close>: letters of ASCII compare without case, \<open>_\<close> is one character.\<close>

fun like :: "string \<Rightarrow> string \<Rightarrow> bool" where
  "like [] s = (s = [])"
| "like (p # ps) s =
     (if p = CHR 0x5C then
        (case ps of [] \<Rightarrow> False
         | q # qs \<Rightarrow> (case s of [] \<Rightarrow> False | c # cs \<Rightarrow> ascii_lower q = ascii_lower c \<and> like qs cs))
      else if p = CHR ''%'' then
        like ps s \<or> (case s of [] \<Rightarrow> False | c # cs \<Rightarrow> like (p # ps) cs)
      else if p = CHR ''_'' then
        (case s of [] \<Rightarrow> False | c # cs \<Rightarrow> like ps (dropWhile is_cont cs))
      else (case s of [] \<Rightarrow> False | c # cs \<Rightarrow> ascii_lower p = ascii_lower c \<and> like ps cs))"

definition replace_char :: "char \<Rightarrow> string \<Rightarrow> string \<Rightarrow> string" where
  "replace_char c r s = concat (map (\<lambda>x. if x = c then r else [x]) s)"

definition like_pattern :: "string \<Rightarrow> string" where
  "like_pattern query =
     ''%'' @ replace_char (CHR ''_'') [CHR 0x5C, CHR ''_'']
       (replace_char (CHR ''%'') [CHR 0x5C, CHR ''%'']
         (replace_char (CHR 0x5C) [CHR 0x5C, CHR 0x5C] query)) @ ''%''"

subsection \<open>Conversations and insertion\<close>

definition at_address :: "i64 \<Rightarrow> string \<Rightarrow> conversation_row \<Rightarrow> bool" where
  "at_address a jid r \<longleftrightarrow> conv_account r = a \<and> conv_jid r = jid"

definition find_conversation :: "i64 \<Rightarrow> string \<Rightarrow> message_db \<Rightarrow> conversation option" where
  "find_conversation a jid db = find (\<lambda>(_, r). at_address a jid r) (t_conversations db)"

text \<open>A row with the column defaults.\<close>

definition default_conversation :: "i64 \<Rightarrow> string \<Rightarrow> string \<Rightarrow> conversation_row" where
  "default_conversation a jid kind = \<lparr>conv_account = a, conv_jid = jid, conv_kind = kind,
     conv_name = None, conv_encryption = ''none'', conv_muc_nick = None, conv_muc_autojoin = False,
     conv_last_active = None, conv_unread = 0, conv_archived = False, conv_self_occupant = None,
     conv_muc_password = None, conv_muc_subject = None, conv_notify = ''all'',
     conv_members_only = False, conv_non_anonymous = False\<rparr>"

definition insert_conversation :: "conversation_row \<Rightarrow> i64 store_act" where
  "insert_conversation r db =
     (if conv_account r \<notin> set (t_accounts db) then (Inl Foreign_Key, db)
      else let i = conv_seq db + 1 in
        (Inr i, db\<lparr>t_conversations := t_conversations db @ [(i, r)], conv_seq := i\<rparr>))"

definition conversation_id :: "i64 \<Rightarrow> string \<Rightarrow> string \<Rightarrow> i64 store_act" where
  "conversation_id a jid kind db =
     (case find_conversation a jid db of
        Some (i, _) \<Rightarrow> (Inr i, db)
      | None \<Rightarrow> insert_conversation ((default_conversation a jid kind)
          \<lparr>conv_encryption := (if kind = ''chat'' then ''omemo2'' else ''none''),
           conv_notify := (if kind = ''muc'' then ''mentioned'' else ''all'')\<rparr>) db)"

definition same_message :: "new_message \<Rightarrow> message_row \<Rightarrow> bool" where
  "same_message m r \<longleftrightarrow> msg_conversation r = new_conversation_id m
     \<and> (msg_stanza_id r \<noteq> None \<and> msg_stanza_id r = new_stanza_id m
        \<or> msg_origin_id r \<noteq> None \<and> msg_origin_id r = new_origin_id m)"

definition backfill :: "string option \<Rightarrow> string option \<Rightarrow> message_row \<Rightarrow> message_row" where
  "backfill stanza occupant r = r\<lparr>msg_stanza_id := coalesce (msg_stanza_id r) stanza,
     msg_occupant_id := coalesce (msg_occupant_id r) occupant\<rparr>"

definition stored_row :: "new_message \<Rightarrow> message_row" where
  "stored_row m = \<lparr>msg_conversation = new_conversation_id m, msg_stanza_id = new_stanza_id m,
     msg_origin_id = new_origin_id m, msg_counterpart = new_counterpart m,
     msg_direction = as_str (new_direction m), msg_body = new_body m,
     msg_encryption = new_encryption m, msg_state = ''queued'', msg_edited_of = None,
     msg_retracted = False, msg_attachment = None, msg_reply_to = new_reply_to m,
     msg_fingerprint = new_fingerprint m, msg_occupant_id = new_occupant_id m,
     msg_timestamp = new_timestamp m, msg_thread = new_thread m\<rparr>"

definition existing_message ::
  "(message list \<Rightarrow> message option) \<Rightarrow> new_message \<Rightarrow> message_db \<Rightarrow> message option" where
  "existing_message pick m db =
     (if new_stanza_id m \<noteq> None \<or> new_origin_id m \<noteq> None
      then pick (filter (\<lambda>(_, r). same_message m r) (t_messages db)) else None)"

definition insert_message ::
  "(message list \<Rightarrow> message option) \<Rightarrow> new_message \<Rightarrow> i64 option store_act" where
  "insert_message pick m db =
     (case existing_message pick m db of
        Some (i, _) \<Rightarrow> (Inr None, db\<lparr>t_messages :=
          tbl_update i (backfill (new_stanza_id m) (new_occupant_id m)) (t_messages db)\<rparr>)
      | None \<Rightarrow>
          if new_conversation_id m \<notin> set (map fst (t_conversations db)) then (Inl Foreign_Key, db)
          else let i = msg_seq db + 1 in
            (Inr (Some i), db\<lparr>t_messages := t_messages db @ [(i, stored_row m)], msg_seq := i,
               t_conversations := tbl_update (new_conversation_id m)
                 (\<lambda>r. r\<lparr>conv_last_active := Some (new_timestamp m)\<rparr>) (t_conversations db)\<rparr>))"

subsection \<open>Reading messages\<close>

definition newest_first :: "message list \<Rightarrow> message list" where
  "newest_first = sort_desc (\<lambda>(i, r). (msg_timestamp r, i))"

definition in_conversation :: "i64 \<Rightarrow> message \<Rightarrow> bool" where
  "in_conversation c = (\<lambda>(_, r). msg_conversation r = c)"

definition recent_messages :: "i64 \<Rightarrow> i64 \<Rightarrow> message_db \<Rightarrow> message list" where
  "recent_messages c n db =
     rev (sql_limit n (newest_first (filter (in_conversation c) (t_messages db))))"

definition search_hit :: "conversation \<Rightarrow> message \<Rightarrow> message_search_row" where
  "search_hit = (\<lambda>(c, cr) (i, r). \<lparr>hit_message_id = i, hit_conversation_id = msg_conversation r,
     hit_conv_jid = conv_jid cr, hit_conv_kind = conv_kind cr, hit_conv_name = conv_name cr,
     hit_conv_encryption = conv_encryption cr,
     hit_marker = coalesce (msg_origin_id r) (msg_stanza_id r), hit_body = msg_body r,
     hit_direction = msg_direction r, hit_counterpart = msg_counterpart r,
     hit_timestamp = msg_timestamp r\<rparr>)"

definition searchable :: "i64 \<Rightarrow> string \<Rightarrow> conversation_row \<Rightarrow> bool" where
  "searchable a scope cr \<longleftrightarrow>
     conv_account cr = a \<and> \<not> conv_archived cr \<and> (scope = [] \<or> conv_jid cr = scope)"

definition body_like :: "string \<Rightarrow> message_row \<Rightarrow> bool" where
  "body_like pattern r \<longleftrightarrow> \<not> msg_retracted r
     \<and> (case msg_body r of None \<Rightarrow> False | Some b \<Rightarrow> like pattern b)"

definition search_messages ::
  "i64 \<Rightarrow> string \<Rightarrow> string \<Rightarrow> i64 \<Rightarrow> message_db \<Rightarrow> message_search_row list" where
  "search_messages a query scope n db =
     sql_limit n (concat (map
       (\<lambda>(i, r). case map_of (t_conversations db) (msg_conversation r) of None \<Rightarrow> []
          | Some cr \<Rightarrow> if searchable a scope cr
              then [search_hit (msg_conversation r, cr) (i, r)] else [])
       (newest_first (filter (\<lambda>(_, r). body_like (like_pattern query) r) (t_messages db)))))"

definition count_since :: "i64 \<Rightarrow> i64 \<Rightarrow> message_db \<Rightarrow> i64" where
  "count_since c message_id db =
     (case map_of (t_messages db) message_id of None \<Rightarrow> 0
      | Some t \<Rightarrow> int (length (filter (\<lambda>(i, r). msg_conversation r = c
          \<and> (msg_timestamp t < msg_timestamp r
             \<or> msg_timestamp r = msg_timestamp t \<and> message_id \<le> i)) (t_messages db))))"

definition has_marker :: "string \<Rightarrow> message_row \<Rightarrow> bool" where
  "has_marker marker r \<longleftrightarrow> msg_origin_id r = Some marker \<or> msg_stanza_id r = Some marker"

definition message_by_marker :: "i64 \<Rightarrow> string \<Rightarrow> message_db \<Rightarrow> message option" where
  "message_by_marker c marker db = first_desc fst
     (filter (\<lambda>(_, r). msg_conversation r = c \<and> has_marker marker r) (t_messages db))"

subsection \<open>Changing messages\<close>

definition backfill_stanza_id ::
  "i64 \<Rightarrow> string \<Rightarrow> string \<Rightarrow> string option \<Rightarrow> message_db \<Rightarrow> message_db" where
  "backfill_stanza_id c origin stanza occupant db = db\<lparr>t_messages :=
     update_where (\<lambda>_ r. msg_conversation r = c \<and> msg_origin_id r = Some origin)
       (backfill (Some stanza) occupant) (t_messages db)\<rparr>"

definition set_message_state :: "string \<Rightarrow> string \<Rightarrow> message_db \<Rightarrow> message_db" where
  "set_message_state marker st db = db\<lparr>t_messages :=
     update_where (\<lambda>_ r. has_marker marker r) (\<lambda>r. r\<lparr>msg_state := st\<rparr>) (t_messages db)\<rparr>"

definition account_of_conversation :: "i64 \<Rightarrow> message_db \<Rightarrow> i64 option" where
  "account_of_conversation c db = map_option conv_account (map_of (t_conversations db) c)"

definition is_pending :: "i64 \<Rightarrow> message_db \<Rightarrow> message_row \<Rightarrow> bool" where
  "is_pending a db r \<longleftrightarrow> account_of_conversation (msg_conversation r) db = Some a
     \<and> msg_direction r = ''out'' \<and> msg_state r = ''pending''
     \<and> msg_origin_id r \<noteq> None \<and> msg_body r \<noteq> None"

definition pending_view :: "message_row \<Rightarrow> pending_message" where
  "pending_view r = \<lparr>pend_origin_id = the (msg_origin_id r), pend_to = msg_counterpart r,
     pend_body = the (msg_body r), pend_encryption = msg_encryption r,
     pend_reply_to = msg_reply_to r\<rparr>"

definition pending_messages :: "i64 \<Rightarrow> message_db \<Rightarrow> pending_message list" where
  "pending_messages a db = map (\<lambda>(_, r). pending_view r)
     (sort_key fst (filter (\<lambda>(_, r). is_pending a db r) (t_messages db)))"

definition outgoing_message ::
  "i64 \<Rightarrow> string \<Rightarrow> string \<Rightarrow> string \<Rightarrow> string option \<Rightarrow> string \<Rightarrow> string \<Rightarrow> new_message" where
  "outgoing_message c to body encryption reply_to origin timestamp =
     \<lparr>new_conversation_id = c, new_stanza_id = None, new_origin_id = Some origin,
      new_counterpart = to, new_direction = Out, new_body = Some body,
      new_encryption = encryption, new_reply_to = reply_to, new_fingerprint = None,
      new_attachment = None, new_occupant_id = None, new_timestamp = timestamp,
      new_thread = None\<rparr>"

definition queue_outgoing ::
  "(message list \<Rightarrow> message option) \<Rightarrow> i64 \<Rightarrow> string \<Rightarrow> string \<Rightarrow> string \<Rightarrow> string option \<Rightarrow>
    string \<Rightarrow> string \<Rightarrow> message option store_act" where
  "queue_outgoing pick c to body encryption reply_to origin timestamp =
     act_bind (insert_message pick (outgoing_message c to body encryption reply_to origin timestamp))
       (\<lambda>inserted. case inserted of
          None \<Rightarrow> act_read (message_by_marker c origin)
        | Some _ \<Rightarrow> act_bind (act_modify (set_message_state origin ''pending''))
            (\<lambda>_. act_read (message_by_marker c origin)))"

definition apply_correction :: "i64 \<Rightarrow> string \<Rightarrow> string \<Rightarrow> i64 option store_act" where
  "apply_correction c target replacement_body db =
     (case message_by_marker c target db of
        None \<Rightarrow> (Inr None, db)
      | Some (i, _) \<Rightarrow> (Inr (Some i), db\<lparr>t_messages := tbl_update i
          (\<lambda>r. r\<lparr>msg_body := Some replacement_body, msg_edited_of := Some target\<rparr>) (t_messages db)\<rparr>))"

definition tombstone :: "message_row \<Rightarrow> message_row" where
  "tombstone r = r\<lparr>msg_retracted := True, msg_body := None, msg_attachment := None,
     msg_edited_of := None, msg_reply_to := None, msg_fingerprint := None\<rparr>"

definition retract_message :: "i64 \<Rightarrow> string \<Rightarrow> (i64 \<times> string option) option store_act" where
  "retract_message c target db =
     (case message_by_marker c target db of
        None \<Rightarrow> (Inr None, db)
      | Some (i, r) \<Rightarrow> (Inr (Some (i, msg_body r)),
          db\<lparr>t_messages := tbl_update i tombstone (t_messages db),
             t_reactions := tbl_delete (\<lambda>k. fst k = i) (t_reactions db)\<rparr>))"

definition set_attachment :: "i64 \<Rightarrow> string \<Rightarrow> message_db \<Rightarrow> message_db" where
  "set_attachment i json db =
     db\<lparr>t_messages := tbl_update i (\<lambda>r. r\<lparr>msg_attachment := Some json\<rparr>) (t_messages db)\<rparr>"

subsection \<open>Reactions\<close>

text \<open>One transaction: a failing insert rolls the deletion back.\<close>

definition set_reactions ::
  "i64 \<Rightarrow> string \<Rightarrow> string option \<Rightarrow> string list \<Rightarrow> unit store_act" where
  "set_reactions i reactor nick emojis db =
     (if emojis \<noteq> [] \<and> i \<notin> set (map fst (t_messages db)) then (Inl Foreign_Key, db)
      else (Inr (), db\<lparr>t_reactions :=
        fold (\<lambda>e. tbl_upsert (i, reactor, e) nick (\<lambda>old. old)) emojis
          (tbl_delete (\<lambda>(m, x, _). m = i \<and> x = reactor) (t_reactions db))\<rparr>))"

definition reactions_of :: "i64 \<Rightarrow> string \<Rightarrow> message_db \<Rightarrow> string list" where
  "reactions_of i reactor db = map (\<lambda>((_, _, e), _). e)
     (filter (\<lambda>((m, x, _), _). m = i \<and> x = reactor) (t_reactions db))"

definition reaction_tally :: "i64 \<Rightarrow> string \<Rightarrow> message_db \<Rightarrow> string \<times> i64 \<times> string" where
  "reaction_tally i emoji db =
     (let rows = filter (\<lambda>((m, _, e), _). m = i \<and> e = emoji) (t_reactions db) in
      (emoji, int (length rows), join_with '', '' (List.map_filter snd rows)))"

definition reactions :: "i64 \<Rightarrow> message_db \<Rightarrow> (string \<times> i64 \<times> string) list" where
  "reactions i db =
     (let rows = filter (\<lambda>((m, _, _), _). m = i) (t_reactions db) in
      sort_desc (\<lambda>(_, n, _). n)
        (map (\<lambda>e. reaction_tally i e db) (sort (remdups (map (\<lambda>((_, _, e), _). e) rows)))))"

definition reactions_for_conversation ::
  "i64 \<Rightarrow> message_db \<Rightarrow> (i64 \<times> string \<times> i64 \<times> string) list" where
  "reactions_for_conversation c db =
     (let ids = remdups (map (\<lambda>((m, _, _), _). m) (t_reactions db));
          here = filter (\<lambda>i. \<exists>r\<in>set (t_messages db). fst r = i \<and> in_conversation c r) ids in
      concat (map (\<lambda>i. map (\<lambda>(e, n, nicks). (i, e, n, nicks)) (reactions i db)) (sort here)))"

subsection \<open>The conversation list\<close>

definition conversations :: "i64 \<Rightarrow> message_db \<Rightarrow> conversation list" where
  "conversations a db =
     sort_desc (\<lambda>(_, r). conv_last_active r)
       (sort_key (\<lambda>(_, r). coalesce (conv_name r) (Some (conv_jid r)))
         (filter (\<lambda>(_, r). conv_account r = a \<and> \<not> conv_archived r) (t_conversations db)))"

definition update_conversation ::
  "i64 \<Rightarrow> (conversation_row \<Rightarrow> conversation_row) \<Rightarrow> message_db \<Rightarrow> message_db" where
  "update_conversation c f db = db\<lparr>t_conversations := tbl_update c f (t_conversations db)\<rparr>"

definition update_at_address ::
  "i64 \<Rightarrow> string \<Rightarrow> (conversation_row \<Rightarrow> conversation_row) \<Rightarrow> message_db \<Rightarrow> message_db" where
  "update_at_address a jid f db =
     db\<lparr>t_conversations := update_where (\<lambda>_. at_address a jid) f (t_conversations db)\<rparr>"

definition bump_unread :: "i64 \<Rightarrow> message_db \<Rightarrow> message_db" where
  "bump_unread c = update_conversation c (\<lambda>r. r\<lparr>conv_unread := conv_unread r + 1\<rparr>)"

definition clear_unread :: "i64 \<Rightarrow> message_db \<Rightarrow> message_db" where
  "clear_unread c = update_conversation c (\<lambda>r. r\<lparr>conv_unread := 0\<rparr>)"

definition set_notify_mode :: "i64 \<Rightarrow> string \<Rightarrow> string \<Rightarrow> message_db \<Rightarrow> message_db" where
  "set_notify_mode a jid mode = update_at_address a jid (\<lambda>r. r\<lparr>conv_notify := mode\<rparr>)"

definition set_conversation_encryption :: "i64 \<Rightarrow> string \<Rightarrow> message_db \<Rightarrow> message_db" where
  "set_conversation_encryption c e = update_conversation c (\<lambda>r. r\<lparr>conv_encryption := e\<rparr>)"

definition upsert_muc ::
  "i64 \<Rightarrow> string \<Rightarrow> string option \<Rightarrow> string option \<Rightarrow> bool \<Rightarrow> i64 store_act" where
  "upsert_muc a room name nick autojoin db =
     (case find_conversation a room db of
        Some (i, _) \<Rightarrow> (Inr i, update_conversation i (\<lambda>r. r\<lparr>conv_kind := ''muc'',
          conv_name := coalesce name (conv_name r),
          conv_muc_nick := coalesce nick (conv_muc_nick r), conv_muc_autojoin := autojoin\<rparr>) db)
      | None \<Rightarrow> insert_conversation ((default_conversation a room ''muc'')\<lparr>conv_name := name,
          conv_muc_nick := nick, conv_muc_autojoin := autojoin, conv_notify := ''mentioned''\<rparr>) db)"

definition autojoin_mucs :: "i64 \<Rightarrow> message_db \<Rightarrow> conversation list" where
  "autojoin_mucs a db = filter
     (\<lambda>(_, r). conv_account r = a \<and> conv_kind r = ''muc'' \<and> conv_muc_autojoin r) (t_conversations db)"

definition conversation_encryption :: "i64 \<Rightarrow> string \<Rightarrow> message_db \<Rightarrow> string option" where
  "conversation_encryption a jid db =
     map_option (\<lambda>(_, r). conv_encryption r) (find_conversation a jid db)"

definition conversation_kind :: "i64 \<Rightarrow> string \<Rightarrow> message_db \<Rightarrow> string option" where
  "conversation_kind a jid db = map_option (\<lambda>(_, r). conv_kind r) (find_conversation a jid db)"

definition conversation_encryption_by_id :: "i64 \<Rightarrow> message_db \<Rightarrow> string option" where
  "conversation_encryption_by_id c db = map_option conv_encryption (map_of (t_conversations db) c)"

definition conversation_target :: "i64 \<Rightarrow> message_db \<Rightarrow> (string \<times> string) option" where
  "conversation_target c db =
     map_option (\<lambda>r. (conv_jid r, conv_kind r)) (map_of (t_conversations db) c)"

text \<open>Deleting a conversation cascades to its messages, their reactions and its occupants.\<close>

definition delete_conversation :: "i64 \<Rightarrow> string \<Rightarrow> message_db \<Rightarrow> message_db" where
  "delete_conversation a jid db =
     (let gone = map fst (filter (\<lambda>(_, r). at_address a jid r) (t_conversations db));
          lost = map fst (filter (\<lambda>(_, r). msg_conversation r \<in> set gone) (t_messages db)) in
      db\<lparr>t_conversations := tbl_delete (\<lambda>i. i \<in> set gone) (t_conversations db),
         t_messages := tbl_delete (\<lambda>i. i \<in> set lost) (t_messages db),
         t_reactions := tbl_delete (\<lambda>k. fst k \<in> set lost) (t_reactions db),
         t_occupants := tbl_delete (\<lambda>k. fst k \<in> set gone) (t_occupants db)\<rparr>)"

subsection \<open>Group chats\<close>

definition muc_self_occupant :: "i64 \<Rightarrow> message_db \<Rightarrow> string option" where
  "muc_self_occupant c db = Option.bind (map_of (t_conversations db) c) conv_self_occupant"

definition set_muc_self_occupant :: "i64 \<Rightarrow> string \<Rightarrow> message_db \<Rightarrow> message_db" where
  "set_muc_self_occupant c occ = update_conversation c (\<lambda>r. r\<lparr>conv_self_occupant := Some occ\<rparr>)"

definition muc_nick_by_jid :: "i64 \<Rightarrow> string \<Rightarrow> message_db \<Rightarrow> string option" where
  "muc_nick_by_jid a jid db =
     Option.bind (find_conversation a jid db) (\<lambda>(_, r). conv_muc_nick r)"

definition muc_nick :: "i64 \<Rightarrow> message_db \<Rightarrow> string option" where
  "muc_nick c db = Option.bind (map_of (t_conversations db) c) conv_muc_nick"

definition muc_password :: "i64 \<Rightarrow> message_db \<Rightarrow> string option" where
  "muc_password c db = Option.bind (map_of (t_conversations db) c) conv_muc_password"

definition set_muc_password :: "i64 \<Rightarrow> string \<Rightarrow> string \<Rightarrow> message_db \<Rightarrow> message_db" where
  "set_muc_password a jid pw = update_at_address a jid (\<lambda>r. r\<lparr>conv_muc_password := Some pw\<rparr>)"

definition muc_subject :: "i64 \<Rightarrow> message_db \<Rightarrow> string option" where
  "muc_subject c db = Option.bind (map_of (t_conversations db) c) conv_muc_subject"

definition set_muc_subject :: "i64 \<Rightarrow> string \<Rightarrow> message_db \<Rightarrow> message_db" where
  "set_muc_subject c subject = update_conversation c (\<lambda>r. r\<lparr>conv_muc_subject := Some subject\<rparr>)"

definition is_public_group :: "i64 \<Rightarrow> message_db \<Rightarrow> bool" where
  "is_public_group c db = (case map_of (t_conversations db) c of
     Some r \<Rightarrow> conv_kind r = ''muc'' \<and> \<not> (conv_members_only r \<and> conv_non_anonymous r)
   | None \<Rightarrow> False)"

definition set_muc_features :: "i64 \<Rightarrow> bool \<Rightarrow> bool \<Rightarrow> message_db \<Rightarrow> message_db" where
  "set_muc_features c members_only non_anonymous = update_conversation c
     (\<lambda>r. r\<lparr>conv_members_only := members_only, conv_non_anonymous := non_anonymous\<rparr>)"

definition muc_features :: "i64 \<Rightarrow> message_db \<Rightarrow> bool \<times> bool" where
  "muc_features c db = (case map_of (t_conversations db) c of
     Some r \<Rightarrow> (conv_members_only r, conv_non_anonymous r) | None \<Rightarrow> (False, False))"

definition muc_omemo_capable :: "i64 \<Rightarrow> string \<Rightarrow> message_db \<Rightarrow> bool" where
  "muc_omemo_capable a room db = (case find_conversation a room db of
     Some (_, r) \<Rightarrow> conv_kind r = ''muc'' \<and> conv_members_only r \<and> conv_non_anonymous r
   | None \<Rightarrow> False)"

definition upsert_muc_occupant ::
  "i64 \<Rightarrow> string \<Rightarrow> string option \<Rightarrow> string option \<Rightarrow> unit store_act" where
  "upsert_muc_occupant c nick real_jid affiliation db =
     (if c \<notin> set (map fst (t_conversations db)) then (Inl Foreign_Key, db)
      else (Inr (), db\<lparr>t_occupants := tbl_upsert (c, nick)
        \<lparr>occ_real_jid = real_jid, occ_affiliation = affiliation\<rparr>
        (\<lambda>r. r\<lparr>occ_real_jid := coalesce real_jid (occ_real_jid r),
               occ_affiliation := coalesce affiliation (occ_affiliation r)\<rparr>)
        (t_occupants db)\<rparr>))"

definition remove_muc_occupant :: "i64 \<Rightarrow> string \<Rightarrow> message_db \<Rightarrow> message_db" where
  "remove_muc_occupant c nick db =
     db\<lparr>t_occupants := tbl_delete (\<lambda>k. k = (c, nick)) (t_occupants db)\<rparr>"

definition muc_occupant_real_jid :: "i64 \<Rightarrow> string \<Rightarrow> message_db \<Rightarrow> string option" where
  "muc_occupant_real_jid c nick db = Option.bind (map_of (t_occupants db) (c, nick)) occ_real_jid"

definition is_member_affiliation :: "string option \<Rightarrow> bool" where
  "is_member_affiliation aff \<longleftrightarrow> aff \<in> {Some ''owner'', Some ''admin'', Some ''member''}"

definition muc_member_jids :: "i64 \<Rightarrow> string \<Rightarrow> message_db \<Rightarrow> string list" where
  "muc_member_jids c own_bare db =
     filter (\<lambda>j. \<not> eq_ignore_ascii_case j own_bare) (remdups (List.map_filter
       (\<lambda>((c', _), r). if c' = c \<and> is_member_affiliation (occ_affiliation r)
          then occ_real_jid r else None) (t_occupants db)))"

subsection \<open>MAM cursors\<close>

definition mam_cursor :: "i64 \<Rightarrow> string \<Rightarrow> message_db \<Rightarrow> mam_cursor_row option" where
  "mam_cursor a archive db = map_of (t_mam_cursors db) (a, archive)"

definition set_mam_cursor ::
  "i64 \<Rightarrow> string \<Rightarrow> string option \<Rightarrow> string option \<Rightarrow> bool \<Rightarrow> unit store_act" where
  "set_mam_cursor a archive first_id last_id complete db =
     (if a \<notin> set (t_accounts db) then (Inl Foreign_Key, db)
      else (Inr (), db\<lparr>t_mam_cursors := tbl_upsert (a, archive)
        \<lparr>mam_first_id = first_id, mam_last_id = last_id, mam_complete = complete\<rparr>
        (\<lambda>r. \<lparr>mam_first_id = coalesce first_id (mam_first_id r),
              mam_last_id = coalesce last_id (mam_last_id r), mam_complete = complete\<rparr>)
        (t_mam_cursors db)\<rparr>))"

end
