(* ===== verification/Message_Laws.thy ===== *)
theory Message_Laws
  imports Message_Store
begin

text \<open>
  What the message store keeps: its keys and foreign keys over any run of statements, one row per
  delivered message, and what searching, jumping, queueing, reacting, retracting and deleting do.
\<close>

subsection \<open>Rewriting rows in place\<close>

definition rewrite :: "('k \<Rightarrow> 'r \<Rightarrow> 'r) \<Rightarrow> ('k, 'r) table \<Rightarrow> ('k, 'r) table" where
  "rewrite g t = map (\<lambda>(k, r). (k, g k r)) t"

lemma tbl_update_rewrite: "tbl_update k f t = rewrite (\<lambda>k' r. if k' = k then f r else r) t"
  by (simp add: rewrite_def tbl_update_def)

lemma update_where_rewrite: "update_where Q f t = rewrite (\<lambda>k r. if Q k r then f r else r) t"
  by (simp add: rewrite_def update_where_def)

lemmas as_rewrite = tbl_update_rewrite update_where_rewrite

lemma keys_rewrite [simp]: "map fst (rewrite g t) = map fst t"
  by (auto simp: rewrite_def)

text \<open>The keys present and the rows of a table.\<close>

definition keys_of :: "('k, 'r) table \<Rightarrow> 'k set" where
  "keys_of t = fst ` set t"

definition rows_of :: "('k, 'r) table \<Rightarrow> 'r set" where
  "rows_of t = snd ` set t"

lemma keys_of_simps [simp]:
  "keys_of [] = {}"
  "keys_of (rewrite g t) = keys_of t"
  "keys_of (t @ [(k, r)]) = insert k (keys_of t)"
  "keys_of (tbl_delete Q t) = {k \<in> keys_of t. \<not> Q k}"
  by (force simp: keys_of_def rewrite_def tbl_delete_def)+

lemma in_keys_of: "(k, r) \<in> set t \<Longrightarrow> k \<in> keys_of t"
  by (force simp: keys_of_def)

lemma tbl_ok_fresh: "tbl_ok t \<Longrightarrow> k \<notin> keys_of t \<Longrightarrow> tbl_ok (t @ [(k, r)])"
  by (auto simp: tbl_ok_def keys_of_def)

lemma fold_keys_of [simp]: "fst ` set t = keys_of t"
  by (simp add: keys_of_def)

lemma keys_of_upsert [simp]: "keys_of (tbl_upsert k new upd t) = insert k (keys_of t)"
proof -
  have "set (map fst (tbl_update k upd t)) = set (map fst t)" by simp
  then have "keys_of (tbl_update k upd t) = keys_of t" by (simp only: set_map fold_keys_of)
  then show ?thesis by (auto simp: tbl_upsert_def)
qed

lemma rows_of_simps [simp]:
  "rows_of [] = {}"
  "rows_of (t @ [(k, r)]) = insert r (rows_of t)"
  by (force simp: rows_of_def)+

lemma rows_of_rewrite:
  "\<forall>r\<in>rows_of t. P r \<Longrightarrow> (\<And>k r. P (g k r) = P r) \<Longrightarrow> \<forall>r\<in>rows_of (rewrite g t). P r"
  by (auto simp: rows_of_def rewrite_def)

lemma in_rows_of: "(k, r) \<in> set t \<Longrightarrow> r \<in> rows_of t"
  by (force simp: rows_of_def)

lemma rows_of_delete_subset: "rows_of (tbl_delete Q t) \<subseteq> rows_of t"
  by (force simp: rows_of_def tbl_delete_def)

lemma tbl_ok_rewrite [simp]: "tbl_ok (rewrite g t) \<longleftrightarrow> tbl_ok t"
  by (simp add: tbl_ok_def)

lemma map_of_rewrite [store_simps]: "map_of (rewrite g t) k = map_option (g k) (map_of t k)"
  by (induction t) (auto simp: rewrite_def)

lemma in_rewriteE:
  assumes "(k, r') \<in> set (rewrite g t)"
  obtains r where "(k, r) \<in> set t" and "r' = g k r"
  using assms by (auto simp: rewrite_def)

lemma ball_rewrite: "(\<forall>x\<in>set (rewrite g t). P x) \<longleftrightarrow> (\<forall>(i, r)\<in>set t. P (i, g i r))"
  by (auto simp: rewrite_def split: prod.splits)

subsection \<open>The invariant\<close>

definition addresses :: "(i64, conversation_row) table \<Rightarrow> (i64 \<times> string) list" where
  "addresses t = map (\<lambda>(_, r). (conv_account r, conv_jid r)) t"

definition origin_key :: "message_row \<Rightarrow> (i64 \<times> string) list" where
  "origin_key r = (case msg_origin_id r of None \<Rightarrow> []
     | Some origin \<Rightarrow> [(msg_conversation r, origin)])"

fun origin_keys :: "(i64, message_row) table \<Rightarrow> (i64 \<times> string) list" where
  "origin_keys [] = []"
| "origin_keys ((i, r) # t) = origin_key r @ origin_keys t"

definition conversations_ok :: "message_db \<Rightarrow> bool" where
  "conversations_ok db \<longleftrightarrow> tbl_ok (t_conversations db) \<and> distinct (addresses (t_conversations db))
     \<and> (\<forall>i\<in>keys_of (t_conversations db). i \<le> conv_seq db)
     \<and> (\<forall>r\<in>rows_of (t_conversations db). conv_account r \<in> set (t_accounts db))"

definition messages_ok :: "message_db \<Rightarrow> bool" where
  "messages_ok db \<longleftrightarrow> tbl_ok (t_messages db) \<and> distinct (origin_keys (t_messages db))
     \<and> (\<forall>i\<in>keys_of (t_messages db). i \<le> msg_seq db)
     \<and> (\<forall>r\<in>rows_of (t_messages db). msg_conversation r \<in> keys_of (t_conversations db))"

definition details_ok :: "message_db \<Rightarrow> bool" where
  "details_ok db \<longleftrightarrow> tbl_ok (t_reactions db) \<and> tbl_ok (t_occupants db) \<and> tbl_ok (t_mam_cursors db)
     \<and> (\<forall>k\<in>keys_of (t_reactions db). fst k \<in> keys_of (t_messages db))
     \<and> (\<forall>k\<in>keys_of (t_occupants db). fst k \<in> keys_of (t_conversations db))"

definition message_db_ok :: "message_db \<Rightarrow> bool" where
  "message_db_ok db \<longleftrightarrow> conversations_ok db \<and> messages_ok db \<and> details_ok db"

lemmas ok_defs = message_db_ok_def conversations_ok_def messages_ok_def details_ok_def

definition empty_message_db :: "i64 list \<Rightarrow> message_db" where
  "empty_message_db accounts = \<lparr>t_accounts = accounts, t_conversations = [], t_messages = [],
     t_reactions = [], t_occupants = [], t_mam_cursors = [], conv_seq = 0, msg_seq = 0\<rparr>"

lemma empty_message_db_ok [simp]: "message_db_ok (empty_message_db accounts)"
  by (simp add: ok_defs empty_message_db_def addresses_def)

lemma addresses_rewrite:
  assumes "\<And>i r. conv_account (g i r) = conv_account r" "\<And>i r. conv_jid (g i r) = conv_jid r"
  shows "addresses (rewrite g t) = addresses t"
  using assms by (auto simp: addresses_def rewrite_def)

lemma origin_keys_rewrite:
  assumes "\<And>i r. msg_conversation (g i r) = msg_conversation r"
    and "\<And>i r. msg_origin_id (g i r) = msg_origin_id r"
  shows "origin_keys (rewrite g t) = origin_keys t"
  by (induction t rule: origin_keys.induct) (simp_all add: rewrite_def origin_key_def assms split: option.split)

lemma addresses_snoc [simp]:
  "addresses (t @ [(i, r)]) = addresses t @ [(conv_account r, conv_jid r)]"
  by (simp add: addresses_def)

lemma origin_keys_snoc [simp]: "origin_keys (t @ [(i, r)]) = origin_keys t @ origin_key r"
  by (induction t rule: origin_keys.induct) simp_all

lemma in_origin_keys: "x \<in> set (origin_keys t) \<longleftrightarrow> (\<exists>(i, r)\<in>set t. x \<in> set (origin_key r))"
  by (induction t rule: origin_keys.induct) auto

lemma in_origin_key: "(c, origin) \<in> set (origin_key r)
    \<longleftrightarrow> msg_conversation r = c \<and> msg_origin_id r = Some origin"
  by (auto simp: origin_key_def split: option.splits)

lemma distinct_origin_key [simp]: "distinct (origin_key r)"
  by (simp add: origin_key_def split: option.split)

lemma distinct_addresses_delete:
  "distinct (addresses t) \<Longrightarrow> distinct (addresses (tbl_delete Q t))"
  by (induction t) (auto simp: addresses_def tbl_delete_def)

lemma distinct_origin_keys_delete:
  "distinct (origin_keys t) \<Longrightarrow> distinct (origin_keys (tbl_delete Q t))"
proof (induction t rule: origin_keys.induct)
  case (2 i r t)
  have "set (origin_keys (tbl_delete Q t)) \<subseteq> set (origin_keys t)"
    by (fastforce simp: in_origin_keys tbl_delete_def)
  with 2 show ?case by (auto simp: tbl_delete_def)
qed (simp add: tbl_delete_def)

lemma rewrite_conversations_ok:
  assumes "message_db_ok db"
    and "\<And>i r. conv_account (g i r) = conv_account r" "\<And>i r. conv_jid (g i r) = conv_jid r"
  shows "message_db_ok (db\<lparr>t_conversations := rewrite g (t_conversations db)\<rparr>)"
proof -
  have "\<forall>r\<in>rows_of (rewrite g (t_conversations db)). conv_account r \<in> set (t_accounts db)"
    using assms(1) by (intro rows_of_rewrite) (simp_all add: ok_defs assms(2))
  then show ?thesis using assms(1) by (simp add: ok_defs addresses_rewrite assms(2,3))
qed

lemma rewrite_messages_ok:
  assumes "message_db_ok db"
    and "\<And>i r. msg_conversation (g i r) = msg_conversation r"
    and "\<And>i r. msg_origin_id (g i r) = msg_origin_id r"
  shows "message_db_ok (db\<lparr>t_messages := rewrite g (t_messages db)\<rparr>)"
proof -
  have "\<forall>r\<in>rows_of (rewrite g (t_messages db)). msg_conversation r \<in> keys_of (t_conversations db)"
    using assms(1) by (intro rows_of_rewrite) (simp_all add: ok_defs assms(2))
  then show ?thesis using assms(1) by (simp add: ok_defs origin_keys_rewrite assms(2,3))
qed

subsection \<open>Every statement keeps the invariant\<close>

lemma find_conversation_None:
  "find_conversation a jid db = None \<longleftrightarrow> (\<forall>(_, r)\<in>set (t_conversations db). \<not> at_address a jid r)"
  by (auto simp: find_conversation_def find_None_iff)

lemma find_conversation_SomeD:
  "find_conversation a jid db = Some (i, r) \<Longrightarrow> (i, r) \<in> set (t_conversations db) \<and> at_address a jid r"
  unfolding find_conversation_def find_Some_iff by (metis (mono_tags, lifting) case_prodD nth_mem)

lemma insert_conversation_ok:
  assumes "message_db_ok db" and "find_conversation (conv_account r) (conv_jid r) db = None"
  shows "message_db_ok (snd (insert_conversation r db))"
proof (cases "conv_account r \<in> set (t_accounts db)")
  case True
  have f: "conv_seq db + 1 \<notin> keys_of (t_conversations db)"
    using assms(1) by (auto simp: ok_defs)
  moreover have "(conv_account r, conv_jid r) \<notin> set (addresses (t_conversations db))"
    using assms(2) by (fastforce simp: addresses_def find_conversation_None at_address_def)
  moreover have "\<forall>i\<in>keys_of (t_conversations db). i \<le> conv_seq db + 1"
    using assms(1) by (auto simp: ok_defs)
  ultimately show ?thesis using True assms(1)
    by (simp add: insert_conversation_def ok_defs Let_def tbl_ok_fresh case_prod_beta)
qed (simp add: insert_conversation_def assms)

lemma conversation_id_ok: "message_db_ok db \<Longrightarrow> message_db_ok (snd (conversation_id a jid kind db))"
  by (auto simp: conversation_id_def default_conversation_def intro!: insert_conversation_ok
      split: option.split)

text \<open>\<open>LIMIT 1\<close>: some row when there is one.\<close>

definition limit_one :: "('a list \<Rightarrow> 'a option) \<Rightarrow> bool" where
  "limit_one pick \<longleftrightarrow> (\<forall>xs. (pick xs = None \<longleftrightarrow> xs = []) \<and> (\<forall>x. pick xs = Some x \<longrightarrow> x \<in> set xs))"

lemma existing_message_SomeD:
  assumes "limit_one pick" and "existing_message pick m db = Some (i, r)"
  shows "(i, r) \<in> set (t_messages db) \<and> same_message m r"
proof -
  have "pick (filter (\<lambda>(_, r). same_message m r) (t_messages db)) = Some (i, r)"
    using assms(2) by (simp add: existing_message_def split: if_splits)
  then have "(i, r) \<in> set (filter (\<lambda>(_, r). same_message m r) (t_messages db))"
    using assms(1) unfolding limit_one_def by blast
  then show ?thesis by simp
qed

lemma existing_message_None:
  assumes "limit_one pick"
  shows "existing_message pick m db = None \<longleftrightarrow> (\<forall>(i, r)\<in>set (t_messages db). \<not> same_message m r)"
  using assms by (auto simp: existing_message_def limit_one_def same_message_def filter_empty_conv)

lemma backfill_keeps [simp]:
  "msg_conversation (backfill s oc r) = msg_conversation r"
  "msg_origin_id (backfill s oc r) = msg_origin_id r"
  by (simp_all add: backfill_def)

lemma stored_row_keeps [simp]:
  "msg_conversation (stored_row m) = new_conversation_id m"
  "msg_origin_id (stored_row m) = new_origin_id m"
  "msg_stanza_id (stored_row m) = new_stanza_id m"
  by (simp_all add: stored_row_def)

lemma insert_message_ok:
  assumes "limit_one pick" and "message_db_ok db"
  shows "message_db_ok (snd (insert_message pick m db))"
proof (cases "existing_message pick m db")
  case (Some x)
  then show ?thesis using assms(2)
    by (cases x) (simp add: insert_message_def tbl_update_rewrite rewrite_messages_ok)
next
  case None
  show ?thesis
  proof (cases "new_conversation_id m \<in> set (map fst (t_conversations db))")
    case True
    let ?db = "db\<lparr>t_conversations := tbl_update (new_conversation_id m)
        (\<lambda>r. r\<lparr>conv_last_active := Some (new_timestamp m)\<rparr>) (t_conversations db)\<rparr>"
    have o: "message_db_ok ?db"
      using assms(2) by (simp add: tbl_update_rewrite rewrite_conversations_ok)
    have f: "msg_seq db + 1 \<notin> keys_of (t_messages db)"
      using assms(2) by (auto simp: ok_defs)
    have k: "set (origin_key (stored_row m)) \<inter> set (origin_keys (t_messages db)) = {}"
      using None[unfolded existing_message_None[OF assms(1)]]
      by (fastforce simp: in_origin_keys in_origin_key same_message_def)
    have l: "\<forall>i\<in>keys_of (t_messages db). i \<le> msg_seq db + 1"
      using assms(2) by (auto simp: ok_defs)
    have p: "new_conversation_id m \<in> keys_of (t_conversations ?db)"
      using True by (simp add: tbl_update_rewrite)
    have "message_db_ok (?db\<lparr>t_messages := t_messages db @ [(msg_seq db + 1, stored_row m)],
        msg_seq := msg_seq db + 1\<rparr>)"
      using o f k l p by (simp add: ok_defs tbl_ok_fresh case_prod_beta Int_commute)
    moreover have "snd (insert_message pick m db)
        = ?db\<lparr>t_messages := t_messages db @ [(msg_seq db + 1, stored_row m)],
           msg_seq := msg_seq db + 1\<rparr>"
      using None True by (simp add: insert_message_def Let_def)
    ultimately show ?thesis by simp
  qed (simp add: insert_message_def None assms)
qed

lemma update_conversation_ok:
  "message_db_ok db \<Longrightarrow> (\<And>r. conv_account (f r) = conv_account r) \<Longrightarrow> (\<And>r. conv_jid (f r) = conv_jid r)
    \<Longrightarrow> message_db_ok (update_conversation c f db)"
  by (simp add: update_conversation_def tbl_update_rewrite rewrite_conversations_ok)

lemma update_at_address_ok:
  "message_db_ok db \<Longrightarrow> (\<And>r. conv_account (f r) = conv_account r) \<Longrightarrow> (\<And>r. conv_jid (f r) = conv_jid r)
    \<Longrightarrow> message_db_ok (update_at_address a jid f db)"
  by (simp add: update_at_address_def update_where_rewrite rewrite_conversations_ok)

lemma upsert_muc_ok: "message_db_ok db \<Longrightarrow> message_db_ok (snd (upsert_muc a room name nick aj db))"
  by (auto simp: upsert_muc_def default_conversation_def
      intro!: insert_conversation_ok update_conversation_ok split: option.split)

lemma tombstone_keeps [simp]:
  "msg_conversation (tombstone r) = msg_conversation r"
  "msg_origin_id (tombstone r) = msg_origin_id r"
  "msg_stanza_id (tombstone r) = msg_stanza_id r"
  by (simp_all add: tombstone_def)

lemma apply_correction_ok:
  "message_db_ok db \<Longrightarrow> message_db_ok (snd (apply_correction c target text db))"
  by (auto simp: apply_correction_def tbl_update_rewrite split: option.split
      intro!: rewrite_messages_ok)

lemma delete_reactions_ok:
  "message_db_ok db \<Longrightarrow> message_db_ok (db\<lparr>t_reactions := tbl_delete Q (t_reactions db)\<rparr>)"
  by (simp add: ok_defs)

lemma retract_message_ok:
  assumes "message_db_ok db"
  shows "message_db_ok (snd (retract_message c target db))"
proof (cases "message_by_marker c target db")
  case (Some x)
  obtain i r where x: "x = (i, r)" by (cases x)
  let ?db = "db\<lparr>t_messages := tbl_update i tombstone (t_messages db)\<rparr>"
  have "message_db_ok ?db" by (simp add: tbl_update_rewrite rewrite_messages_ok assms)
  from delete_reactions_ok[OF this, of "\<lambda>k. fst k = i"] Some show ?thesis
    by (simp add: retract_message_def x)
qed (simp add: retract_message_def assms)

lemma react_fold:
  "tbl_ok t \<Longrightarrow> tbl_ok (fold (\<lambda>e. tbl_upsert (i, x, e) nick (\<lambda>old. old)) es t)
     \<and> keys_of (fold (\<lambda>e. tbl_upsert (i, x, e) nick (\<lambda>old. old)) es t)
         = (\<lambda>e. (i, x, e)) ` set es \<union> keys_of t"
  by (induction es arbitrary: t) auto

lemma set_reactions_ok:
  assumes "message_db_ok db"
  shows "message_db_ok (snd (set_reactions i x nick es db))"
proof (cases "es \<noteq> [] \<and> i \<notin> set (map fst (t_messages db))")
  case False
  let ?t = "tbl_delete (\<lambda>(m, y, _). m = i \<and> y = x) (t_reactions db)"
  have "tbl_ok ?t" using assms by (simp add: ok_defs)
  from react_fold[OF this, of i x nick es] False assms show ?thesis
    by (auto simp: set_reactions_def ok_defs split: prod.splits)
qed (auto simp: set_reactions_def assms)

lemma delete_conversation_ok:
  assumes "message_db_ok db"
  shows "message_db_ok (delete_conversation a jid db)"
proof -
  define gone where "gone = map fst (filter (\<lambda>(_, r). at_address a jid r) (t_conversations db))"
  define lost where
    "lost = map fst (filter (\<lambda>(_, r). msg_conversation r \<in> set gone) (t_messages db))"
  have "delete_conversation a jid db =
      db\<lparr>t_conversations := tbl_delete (\<lambda>i. i \<in> set gone) (t_conversations db),
         t_messages := tbl_delete (\<lambda>i. i \<in> set lost) (t_messages db),
         t_reactions := tbl_delete (\<lambda>k. fst k \<in> set lost) (t_reactions db),
         t_occupants := tbl_delete (\<lambda>k. fst k \<in> set gone) (t_occupants db)\<rparr>"
    by (simp add: delete_conversation_def gone_def lost_def Let_def)
  moreover have "msg_conversation r \<in> keys_of (tbl_delete (\<lambda>i. i \<in> set gone) (t_conversations db))"
    if r: "r \<in> rows_of (tbl_delete (\<lambda>i. i \<in> set lost) (t_messages db))" for r
  proof -
    obtain i where "(i, r) \<in> set (tbl_delete (\<lambda>i. i \<in> set lost) (t_messages db))"
      using r by (auto simp: rows_of_def)
    then have m: "(i, r) \<in> set (t_messages db)" "i \<notin> set lost"
      by (auto simp: tbl_delete_def)
    then have "msg_conversation r \<notin> set gone" by (force simp: lost_def)
    moreover have "msg_conversation r \<in> keys_of (t_conversations db)"
      using assms in_rows_of[OF m(1)] by (simp add: ok_defs)
    ultimately show ?thesis by simp
  qed
  moreover have "conv_account r \<in> set (t_accounts db)"
    if "r \<in> rows_of (tbl_delete (\<lambda>i. i \<in> set gone) (t_conversations db))" for r
    using assms subsetD[OF rows_of_delete_subset that] by (simp add: ok_defs)
  ultimately show ?thesis using assms
    by (auto simp: ok_defs distinct_addresses_delete distinct_origin_keys_delete)
qed

subsection \<open>Runs\<close>

text \<open>Every statement of the file that changes the database, whatever it returns.\<close>

inductive message_write ::
  "(message list \<Rightarrow> message option) \<Rightarrow> message_db \<Rightarrow> message_db \<Rightarrow> bool" for pick where
  "message_write pick db (snd (conversation_id a jid kind db))"
| "message_write pick db (snd (insert_message pick m db))"
| "message_write pick db (backfill_stanza_id c origin stanza occupant db)"
| "message_write pick db (set_message_state marker st db)"
| "message_write pick db (snd (apply_correction c target new db))"
| "message_write pick db (snd (retract_message c target db))"
| "message_write pick db (set_attachment i json db)"
| "message_write pick db (snd (set_reactions i reactor nick emojis db))"
| "message_write pick db (bump_unread c db)"
| "message_write pick db (clear_unread c db)"
| "message_write pick db (set_notify_mode a jid mode db)"
| "message_write pick db (set_conversation_encryption c e db)"
| "message_write pick db (snd (upsert_muc a room name nick' autojoin db))"
| "message_write pick db (set_muc_self_occupant c occ db)"
| "message_write pick db (delete_conversation a jid db)"
| "message_write pick db (set_muc_password a jid pw db)"
| "message_write pick db (set_muc_subject c subject db)"
| "message_write pick db (set_muc_features c mo na db)"
| "message_write pick db (snd (upsert_muc_occupant c n real aff db))"
| "message_write pick db (remove_muc_occupant c n db)"
| "message_write pick db (snd (set_mam_cursor a archive first_id last_id complete db))"

inductive_cases message_writeE: "message_write pick db db'"

lemmas conversation_updates = bump_unread_def clear_unread_def set_notify_mode_def
  set_conversation_encryption_def set_muc_self_occupant_def set_muc_password_def
  set_muc_subject_def set_muc_features_def

lemmas message_updates = backfill_stanza_id_def set_message_state_def set_attachment_def

lemma message_updates_ok:
  assumes "message_db_ok db"
  shows "message_db_ok (backfill_stanza_id c origin stanza occupant db)"
    and "message_db_ok (set_message_state marker st db)"
    and "message_db_ok (set_attachment i json db)"
  using assms by (simp_all add: message_updates as_rewrite rewrite_messages_ok)

lemma conversation_updates_ok:
  assumes "message_db_ok db"
  shows "message_db_ok (bump_unread c db)" and "message_db_ok (clear_unread c db)"
    and "message_db_ok (set_notify_mode a jid mode db)"
    and "message_db_ok (set_conversation_encryption c e db)"
    and "message_db_ok (set_muc_self_occupant c occ db)"
    and "message_db_ok (set_muc_password a jid pw db)"
    and "message_db_ok (set_muc_subject c subject db)"
    and "message_db_ok (set_muc_features c mo na db)"
  using assms by (simp_all add: conversation_updates update_conversation_ok update_at_address_ok)

lemma detail_updates_ok:
  assumes "message_db_ok db"
  shows "message_db_ok (snd (upsert_muc_occupant c n real aff db))"
    and "message_db_ok (remove_muc_occupant c n db)"
    and "message_db_ok (snd (set_mam_cursor a archive first_id last_id complete db))"
  using assms by (simp_all add: upsert_muc_occupant_def remove_muc_occupant_def set_mam_cursor_def
      ok_defs)

lemma message_write_ok:
  assumes "limit_one pick" and "message_write pick db db'" and "message_db_ok db"
  shows "message_db_ok db'"
  using assms(2,3)
  by (elim message_writeE; hypsubst)
     (simp_all add: conversation_id_ok insert_message_ok assms(1) message_updates_ok
       apply_correction_ok retract_message_ok set_reactions_ok conversation_updates_ok
       upsert_muc_ok delete_conversation_ok detail_updates_ok)

text \<open>
  The laws above are those of a run with a sound \<open>LIMIT 1\<close>; the step relation carries it.
\<close>

definition store_step :: "message_db \<Rightarrow> message_db \<Rightarrow> bool" where
  "store_step db db' \<longleftrightarrow> (\<exists>pick. limit_one pick \<and> message_write pick db db')"

interpretation messages: invariant_machine store_step message_db_ok
  by unfold_locales (auto simp: store_step_def message_write_ok)

text \<open>What row \<open>i\<close> was inserted with: its conversation, origin id and stanza id stay.\<close>

definition identified ::
  "i64 \<Rightarrow> new_message \<Rightarrow> message_db \<Rightarrow> bool" where
  "identified i m db \<longleftrightarrow> i \<le> msg_seq db \<and> (\<forall>r. map_of (t_messages db) i = Some r \<longrightarrow>
     msg_conversation r = new_conversation_id m \<and> msg_origin_id r = new_origin_id m
     \<and> (new_stanza_id m \<noteq> None \<longrightarrow> msg_stanza_id r = new_stanza_id m))"

lemma identified_rewrite:
  assumes "identified i m db" and "msg_seq db' = msg_seq db"
    and "t_messages db' = rewrite g (t_messages db)"
    and "\<And>k r. msg_conversation (g k r) = msg_conversation r"
    and "\<And>k r. msg_origin_id (g k r) = msg_origin_id r"
    and "\<And>k r. msg_stanza_id r \<noteq> None \<Longrightarrow> msg_stanza_id (g k r) = msg_stanza_id r"
  shows "identified i m db'"
  using assms(1) by (auto simp: identified_def assms(2-6) map_of_rewrite)

lemma identified_same:
  "identified i m db \<Longrightarrow> msg_seq db' = msg_seq db \<Longrightarrow> t_messages db' = t_messages db
    \<Longrightarrow> identified i m db'"
  by (simp add: identified_def)

lemma identified_insert:
  assumes "identified i m db"
  shows "identified i m (snd (insert_message pick n db))"
proof (cases "existing_message pick n db")
  case (Some x)
  then show ?thesis
    by (cases x) (auto simp: insert_message_def tbl_update_rewrite backfill_def coalesce_def
        intro!: identified_rewrite[OF assms] split: option.split)
next
  case None
  with assms show ?thesis
    by (auto simp: insert_message_def identified_def Let_def map_add_def split: option.split_asm if_split_asm)
qed

lemma identified_delete:
  "identified i m db \<Longrightarrow> identified i m (delete_conversation a jid db)"
  by (simp add: identified_def delete_conversation_def Let_def map_of_tbl_delete)

lemma identified_write:
  assumes "message_write pick db db'" and "identified i m db"
  shows "identified i m db'"
  using assms(1)
proof (cases rule: message_write.cases)
  case (2 n) then show ?thesis by (simp add: identified_insert assms(2))
next
  case (3 c origin stanza occ) then show ?thesis
    by (auto simp: message_updates as_rewrite backfill_def coalesce_def
        intro!: identified_rewrite[OF assms(2)] split: option.split)
next
  case (4 marker st) then show ?thesis
    by (auto simp: message_updates as_rewrite intro!: identified_rewrite[OF assms(2)])
next
  case (5 c target new) then show ?thesis using assms(2)
    by (auto simp: apply_correction_def as_rewrite intro!: identified_rewrite[OF assms(2)]
        split: option.split)
next
  case (6 c target) then show ?thesis using assms(2)
    by (auto simp: retract_message_def as_rewrite intro!: identified_rewrite[OF assms(2)]
        split: option.split)
next
  case (7 k json) then show ?thesis
    by (auto simp: message_updates as_rewrite intro!: identified_rewrite[OF assms(2)])
next
  case (15 a jid) then show ?thesis by (simp add: identified_delete assms(2))
qed (auto simp: conversation_id_def insert_conversation_def set_reactions_def conversation_updates
      update_conversation_def update_at_address_def upsert_muc_def upsert_muc_occupant_def
      remove_muc_occupant_def set_mam_cursor_def Let_def intro!: identified_same[OF assms(2)]
      split: option.split)

interpretation row: invariant_machine store_step "identified i m" for i m
  by unfold_locales (auto simp: store_step_def identified_write)

lemma insert_message_SomeD:
  assumes "insert_message pick m db = (Inr (Some i), db1)"
  shows "i = msg_seq db + 1" and "t_messages db1 = t_messages db @ [(i, stored_row m)]"
    and "msg_seq db1 = i" and "new_conversation_id m \<in> keys_of (t_conversations db)"
  using assms by (auto simp: insert_message_def Let_def split: option.split_asm if_split_asm)

lemma insert_message_identified:
  assumes "message_db_ok db" and "insert_message pick m db = (Inr (Some i), db1)"
  shows "identified i m db1"
proof -
  note d = insert_message_SomeD[OF assms(2)]
  have "i \<notin> keys_of (t_messages db)" using assms(1) d(1) by (auto simp: ok_defs)
  then have "map_of (t_messages db) i = None" by (simp add: map_of_eq_None_iff)
  then show ?thesis by (simp add: identified_def d map_add_def)
qed

subsection \<open>The properties of a run\<close>

text \<open>
  Whatever statements run on a fresh database, in any order and number, and whichever row a
  \<open>LIMIT 1\<close> returns: row ids are unique and below their counter, no two conversations of an account
  share a JID, no two messages of a conversation share an origin id, and no message, reaction or
  occupant is left without its parent row.
\<close>

theorem message_db_invariant:
  assumes "store_step\<^sup>*\<^sup>* (empty_message_db accounts) db"
  shows "message_db_ok db"
  using messages.run_inv[OF assms empty_message_db_ok] .

definition first_row :: "message list \<Rightarrow> message option" where
  "first_row xs = (case xs of [] \<Rightarrow> None | x # _ \<Rightarrow> Some x)"

lemma limit_one_first_row [simp]: "limit_one first_row"
  by (auto simp: limit_one_def first_row_def split: list.splits)

text \<open>A small run: an account, a chat, a message received in it.\<close>

definition toy_message :: new_message where
  "toy_message = \<lparr>new_conversation_id = 1, new_stanza_id = Some ''s1'', new_origin_id = Some ''o1'',
     new_counterpart = ''bob@x'', new_direction = In, new_body = Some ''100%'',
     new_encryption = ''none'', new_reply_to = None, new_fingerprint = None, new_attachment = None,
     new_occupant_id = None, new_timestamp = ''2024'', new_thread = None\<rparr>"

definition toy_chat :: message_db where
  "toy_chat = snd (conversation_id 7 ''bob@x'' ''chat'' (empty_message_db [7]))"

definition toy_stored :: message_db where
  "toy_stored = snd (insert_message first_row toy_message toy_chat)"

lemma toy_chat_run: "store_step\<^sup>*\<^sup>* (empty_message_db [7]) toy_chat"
  unfolding toy_chat_def store_step_def
  by (intro r_into_rtranclp exI[of _ first_row] conjI limit_one_first_row message_write.intros)

lemma toy_stored_run: "store_step\<^sup>*\<^sup>* (empty_message_db [7]) toy_stored"
proof -
  have "store_step toy_chat toy_stored"
    unfolding toy_stored_def store_step_def
    by (intro exI[of _ first_row] conjI limit_one_first_row message_write.intros)
  with toy_chat_run show ?thesis by simp
qed

theorem message_db_invariant_witness: "message_db_ok toy_stored \<and> length (t_messages toy_stored) = 1"
proof -
  have "message_db_ok toy_stored" using message_db_invariant[OF toy_stored_run] .
  moreover have "length (t_messages toy_stored) = 1" by code_simp
  ultimately show ?thesis by simp
qed

text \<open>
  C33: A message is stored once: after \<open>insert_message\<close> stored it as row \<open>i\<close>, and whatever statements
  ran since, delivering it again (a carbon, the archive, the room's echo), with the same origin id
  or the same stanza id, stores no second row, as long as row \<open>i\<close> has not been deleted with its
  conversation.  The redelivery changes no row's text, state or conversation; it only fills ids
  that were missing.
\<close>

theorem redelivery_never_stored_twice:
  assumes "limit_one pick" and "message_db_ok db"
    and "insert_message pick m db = (Inr (Some i), db1)"
    and "store_step\<^sup>*\<^sup>* db1 db2" and "i \<in> keys_of (t_messages db2)"
    and "new_conversation_id m' = new_conversation_id m"
    and "new_origin_id m \<noteq> None \<and> new_origin_id m' = new_origin_id m
      \<or> new_stanza_id m \<noteq> None \<and> new_stanza_id m' = new_stanza_id m"
  shows "fst (insert_message pick m' db2) = Inr None
    \<and> t_messages (snd (insert_message pick m' db2))
      = rewrite (\<lambda>j r. if existing_message pick m' db2 = Some (j, r)
          then backfill (new_stanza_id m') (new_occupant_id m') r else r) (t_messages db2)"
proof -
  have ok: "message_db_ok db2"
    using messages.run_inv[OF assms(4)] insert_message_ok[OF assms(1,2), of m] assms(3) by simp
  have id: "identified i m db2"
    using row.run_inv[OF assms(4)] insert_message_identified[OF assms(2,3)] .
  obtain r where r: "map_of (t_messages db2) i = Some r"
    using assms(5) by (metis fold_keys_of map_of_eq_None_iff not_None_eq)
  then have "same_message m' r"
    using id assms(6,7) by (auto simp: identified_def same_message_def)
  then obtain j q where e: "existing_message pick m' db2 = Some (j, q)"
    using existing_message_None[OF assms(1)] map_of_SomeD[OF r]
    by (metis (no_types, lifting) case_prodD not_None_eq prod.exhaust)
  then have none: "fst (insert_message pick m' db2) = Inr None" by (simp add: insert_message_def)
  have "tbl_ok (t_messages db2)" using ok by (simp add: ok_defs)
  moreover have "(j, q) \<in> set (t_messages db2)"
    using existing_message_SomeD[OF assms(1) e] by simp
  ultimately have "tbl_update j f (t_messages db2)
      = rewrite (\<lambda>k r. if k = j \<and> r = q then f r else r) (t_messages db2)" for f
    unfolding tbl_update_rewrite rewrite_def by (auto simp: in_table_iff)
  with e none show ?thesis by (auto simp: insert_message_def rewrite_def)
qed

theorem redelivery_never_stored_twice_witness:
  "fst (insert_message first_row (toy_message\<lparr>new_stanza_id := None\<rparr>)
      (set_message_state ''o1'' ''displayed'' toy_stored)) = Inr None"
proof -
  have ins: "insert_message first_row toy_message toy_chat = (Inr (Some 1), toy_stored)"
    unfolding prod_eq_iff toy_stored_def by (intro conjI) (code_simp, simp)
  have step: "store_step toy_stored (set_message_state ''o1'' ''displayed'' toy_stored)"
    unfolding store_step_def
    by (intro exI[of _ first_row] conjI limit_one_first_row message_write.intros)
  have key: "1 \<in> keys_of (t_messages (set_message_state ''o1'' ''displayed'' toy_stored))"
    unfolding keys_of_def by code_simp
  show ?thesis
    using redelivery_never_stored_twice[OF limit_one_first_row message_db_invariant[OF toy_chat_run]
        ins r_into_rtranclp[of store_step, OF step] key, of "toy_message\<lparr>new_stanza_id := None\<rparr>"]
    by (simp add: toy_message_def)
qed

subsection \<open>Searching\<close>

definition like_quoted :: "string \<Rightarrow> string" where
  "like_quoted q = concat (map (\<lambda>c. if c \<in> {CHR 0x5C, CHR ''%'', CHR ''_''} then [CHR 0x5C, c]
     else [c]) q)"

lemma like_pattern_quoted: "like_pattern q = ''%'' @ like_quoted q @ ''%''"
proof -
  have "replace_char (CHR ''_'') [CHR 0x5C, CHR ''_'']
      (replace_char (CHR ''%'') [CHR 0x5C, CHR ''%''] (replace_char (CHR 0x5C) [CHR 0x5C, CHR 0x5C] q))
      = like_quoted q"
    by (induction q) (auto simp: replace_char_def like_quoted_def)
  then show ?thesis by (simp add: like_pattern_def)
qed

lemma like_any: "like ''%'' s"
  by (induction s) simp_all

lemma like_quoted_match:
  "like (like_quoted q @ ''%'') s
    \<longleftrightarrow> (\<exists>m b. s = m @ b \<and> to_ascii_lowercase m = to_ascii_lowercase q)"
proof (induction q arbitrary: s)
  case Nil
  then show ?case by (simp add: like_quoted_def like_any to_ascii_lowercase_def del: like.simps)
next
  case (Cons c q)
  have step: "like (like_quoted (c # q) @ ''%'') s
      \<longleftrightarrow> (\<exists>d t. s = d # t \<and> ascii_lower c = ascii_lower d \<and> like (like_quoted q @ ''%'') t)"
    by (cases s) (auto simp: like_quoted_def)
  show ?case
  proof
    assume "like (like_quoted (c # q) @ ''%'') s"
    then obtain d m b where "s = d # m @ b" "ascii_lower c = ascii_lower d"
        "to_ascii_lowercase m = to_ascii_lowercase q"
      unfolding step Cons.IH by blast
    then have "s = (d # m) @ b" "to_ascii_lowercase (d # m) = to_ascii_lowercase (c # q)"
      by (simp_all add: to_ascii_lowercase_def)
    then show "\<exists>m b. s = m @ b \<and> to_ascii_lowercase m = to_ascii_lowercase (c # q)" by blast
  next
    assume "\<exists>m b. s = m @ b \<and> to_ascii_lowercase m = to_ascii_lowercase (c # q)"
    then obtain d m b where "s = d # m @ b" "ascii_lower c = ascii_lower d"
        "to_ascii_lowercase m = to_ascii_lowercase q"
      by (auto simp: to_ascii_lowercase_def map_eq_Cons_conv)
    then show "like (like_quoted (c # q) @ ''%'') s"
      unfolding step Cons.IH by blast
  qed
qed

lemma like_percent: "like (CHR ''%'' # p) s \<longleftrightarrow> (\<exists>a t. s = a @ t \<and> like p t)"
proof (induction s)
  case (Cons c s)
  have "(\<exists>a t. c # s = a @ t \<and> like p t) \<longleftrightarrow> like p (c # s) \<or> (\<exists>a t. s = a @ t \<and> like p t)"
    by (auto simp: Cons_eq_append_conv)
  with Cons show ?case by simp
qed simp

lemma like_pattern_literal:
  "like (like_pattern q) body
    \<longleftrightarrow> (\<exists>a m b. body = a @ m @ b \<and> to_ascii_lowercase m = to_ascii_lowercase q)"
proof -
  have "like (like_pattern q) body \<longleftrightarrow> (\<exists>a t. body = a @ t \<and> like (like_quoted q @ ''%'') t)"
    unfolding like_pattern_quoted using like_percent[of "like_quoted q @ ''%''"] by simp
  then show ?thesis unfolding like_quoted_match by blast
qed

lemma set_newest_first [simp]: "set (newest_first xs) = set xs"
  by (simp add: newest_first_def)

text \<open>
  A message search is a literal substring search: without a limit its hits are exactly the
  messages of the account's unarchived conversations (of the one chat when a scope is given) that
  are not retracted and whose body contains the query, letter case of ASCII aside; \<open>%\<close>, \<open>_\<close> and the
  backslash in the query stand for themselves.  A limit keeps the first hits.
\<close>

theorem search_messages_literal:
  "set (search_messages a query scope (- 1) db) =
     {search_hit (msg_conversation r, cr) (i, r) | i r cr.
       (i, r) \<in> set (t_messages db) \<and> map_of (t_conversations db) (msg_conversation r) = Some cr
       \<and> conv_account cr = a \<and> \<not> conv_archived cr \<and> (scope = [] \<or> conv_jid cr = scope)
       \<and> \<not> msg_retracted r \<and> (\<exists>pre m post. msg_body r = Some (pre @ m @ post)
            \<and> to_ascii_lowercase m = to_ascii_lowercase query)}
   \<and> search_messages a query scope (int n) db = take n (search_messages a query scope (- 1) db)"
proof (intro conjI set_eqI)
  fix h
  show "h \<in> set (search_messages a query scope (- 1) db) \<longleftrightarrow> h \<in> {search_hit (msg_conversation r, cr) (i, r) | i r cr.
       (i, r) \<in> set (t_messages db) \<and> map_of (t_conversations db) (msg_conversation r) = Some cr
       \<and> conv_account cr = a \<and> \<not> conv_archived cr \<and> (scope = [] \<or> conv_jid cr = scope)
       \<and> \<not> msg_retracted r \<and> (\<exists>pre m post. msg_body r = Some (pre @ m @ post)
            \<and> to_ascii_lowercase m = to_ascii_lowercase query)}"
    unfolding search_messages_def sql_limit_def body_like_def searchable_def like_pattern_literal
    by (fastforce split: option.splits if_splits)
qed (simp add: search_messages_def sql_limit_def)

subsection \<open>Jumping to a message\<close>

lemma filter_takeWhile_desc:
  fixes f :: "'a \<Rightarrow> 'b :: linorder"
  assumes "sorted_wrt (\<lambda>x y. f y \<le> f x) xs"
  shows "filter (\<lambda>y. k \<le> f y) xs = takeWhile (\<lambda>y. k \<le> f y) xs"
  using assms by (induction xs) (auto simp: filter_empty_conv takeWhile_eq_Nil_iff dest: order_trans)

lemma last_filter_desc:
  fixes f :: "'a \<Rightarrow> 'b :: linorder"
  assumes "sorted_wrt (\<lambda>x y. f y \<le> f x) xs" and "x \<in> set xs" and "inj_on f (set xs)"
  shows "last (filter (\<lambda>y. f x \<le> f y) xs) = x"
proof -
  define ys where "ys = filter (\<lambda>y. f x \<le> f y) xs"
  have "x \<in> set ys" using assms(2) by (simp add: ys_def)
  then obtain zs z where ys: "ys = zs @ [z]" by (metis append_butlast_last_id empty_iff empty_set)
  have "sorted_wrt (\<lambda>x y. f y \<le> f x) ys"
    unfolding ys_def using assms(1) by (rule sorted_wrt_filter)
  then have "f z \<le> f x" using \<open>x \<in> set ys\<close> by (auto simp: ys sorted_wrt_append)
  moreover have "z \<in> set ys" by (simp add: ys)
  then have "z \<in> set xs" "f x \<le> f z" by (simp_all add: ys_def)
  moreover from this have "f z = f x" using calculation by simp
  ultimately show ?thesis
    using inj_onD[OF assms(3), of z x] assms(2) unfolding ys_def[symmetric] ys by simp
qed

lemma length_filter_insort: "length (filter P (insort_key f x xs)) = length (filter P (x # xs))"
  by (induction xs) auto

lemma length_filter_sort_key: "length (filter P (sort_key f xs)) = length (filter P xs)"
  by (induction xs) (simp_all add: length_filter_insort)

lemma length_filter_sort_desc: "length (filter P (sort_desc f xs)) = length (filter P xs)"
  unfolding sort_desc_def rev_filter[symmetric] length_rev length_filter_sort_key ..

text \<open>
  Jumping to a message loads exactly enough history: the page of \<open>recent_messages\<close> whose size is
  \<open>count_since\<close> of a message of the conversation begins with that message, and holds that many rows.
\<close>

theorem count_since_reaches_message:
  assumes "message_db_ok db" and "map_of (t_messages db) i = Some r" and "msg_conversation r = c"
  shows "hd (recent_messages c (count_since c i db) db) = (i, r)
    \<and> int (length (recent_messages c (count_since c i db) db)) = count_since c i db"
proof -
  define xs where "xs = filter (in_conversation c) (t_messages db)"
  define key :: "message \<Rightarrow> string \<times> i64" where "key = (\<lambda>(i, r). (msg_timestamp r, i))"
  define newer where "newer = filter (\<lambda>y. key (i, r) \<le> key y) (newest_first xs)"
  have x: "(i, r) \<in> set xs"
    using map_of_SomeD[OF assms(2)] assms(3) by (simp add: xs_def in_conversation_def)
  have ok: "tbl_ok (t_messages db)" using assms(1) by (simp add: ok_defs)
  have inj: "inj_on key (set xs)"
    unfolding inj_on_def xs_def key_def using ok by (auto simp: in_table_iff)
  have sorted: "sorted_wrt (\<lambda>x y. key y \<le> key x) (newest_first xs)"
    using sorted_sort_desc[of key xs] by (simp add: newest_first_def key_def)
  have n: "count_since c i db = int (length newer)"
  proof -
    have "count_since c i db = int (length (filter (\<lambda>y. key (i, r) \<le> key y) xs))"
      unfolding count_since_def assms(2) option.case filter_filter xs_def
      by (intro arg_cong[of _ _ int] arg_cong[of _ _ length] filter_cong refl)
        (auto simp: key_def in_conversation_def)
    then show ?thesis
      unfolding newer_def newest_first_def key_def[symmetric] length_filter_sort_desc .
  qed
  have "take (length newer) (newest_first xs) = newer"
    unfolding newer_def filter_takeWhile_desc[OF sorted] by (simp flip: takeWhile_eq_take)
  then have page: "recent_messages c (count_since c i db) db = rev newer"
    unfolding n recent_messages_def sql_limit_def xs_def by simp
  have "last newer = (i, r)"
    unfolding newer_def using last_filter_desc[OF sorted] x inj by simp
  moreover have "newer \<noteq> []" using x by (force simp: newer_def filter_empty_conv)
  ultimately show ?thesis unfolding page by (simp add: hd_rev n)
qed

theorem count_since_reaches_message_witness:
  "hd (recent_messages 1 (count_since 1 1 toy_stored) toy_stored) = (1, stored_row toy_message)"
proof -
  have "map_of (t_messages toy_stored) 1 = Some (stored_row toy_message)"
    "msg_conversation (stored_row toy_message) = 1"
    by code_simp+
  with count_since_reaches_message[OF message_db_invariant[OF toy_stored_run]] show ?thesis by blast
qed

subsection \<open>The offline queue\<close>

lemma insort_snoc: "f y \<le> f x \<Longrightarrow> insort_key f y (xs @ [x]) = insort_key f y xs @ [x]"
  by (induction xs) auto

lemma sort_key_snoc: "\<forall>y\<in>set xs. f y \<le> f x \<Longrightarrow> sort_key f (xs @ [x]) = sort_key f xs @ [x]"
  by (induction xs) (auto simp: insort_snoc)

lemma first_desc_unique: "filter P xs = [x] \<Longrightarrow> first_desc f (filter P xs) = Some x"
  by (simp add: first_desc_def sort_desc_def)

definition queued_row :: "new_message \<Rightarrow> message_row" where
  "queued_row m = (stored_row m)\<lparr>msg_state := ''pending''\<rparr>"

lemma queue_new_result:
  assumes "limit_one pick" and "message_db_ok db" and "c \<in> keys_of (t_conversations db)"
    and "\<forall>(_, r)\<in>set (t_messages db). \<not> has_marker origin r"
    and "m = outgoing_message c to body encryption reply_to origin timestamp"
    and "queue_outgoing pick c to body encryption reply_to origin timestamp db = (res, db')"
  shows "res = Inr (Some (msg_seq db + 1, queued_row m))"
    and "t_messages db' = t_messages db @ [(msg_seq db + 1, queued_row m)]"
    and "\<And>k. account_of_conversation k db' = account_of_conversation k db"
proof -
  have none: "existing_message pick m db = None"
    using assms(4) by (auto simp: existing_message_None[OF assms(1)] assms(5) same_message_def
        has_marker_def outgoing_message_def)
  have unmarked: "update_where (\<lambda>_. has_marker origin) f (t_messages db) = t_messages db" for f
    unfolding update_where_def using assms(4) by (intro map_idI) auto
  have m: "new_conversation_id m = c" "has_marker origin (stored_row m)"
    by (simp_all add: assms(5) outgoing_message_def stored_row_def has_marker_def)
  define db1 where "db1 = snd (insert_message pick m db)"
  have ins: "insert_message pick m db = (Inr (Some (msg_seq db + 1)), db1)"
    and msgs: "t_messages db1 = t_messages db @ [(msg_seq db + 1, stored_row m)]"
    and convs: "t_conversations db1 = tbl_update c
        (\<lambda>r. r\<lparr>conv_last_active := Some (new_timestamp m)\<rparr>) (t_conversations db)"
    using none assms(3) m(1) by (simp_all add: db1_def insert_message_def Let_def)
  define db2 where "db2 = set_message_state origin ''pending'' db1"
  have msgs2: "t_messages db2 = t_messages db @ [(msg_seq db + 1, queued_row m)]"
    using unmarked m(2) by (simp add: db2_def set_message_state_def msgs queued_row_def)
      (simp add: update_where_def)
  have "filter (\<lambda>(_, r). msg_conversation r = c \<and> has_marker origin r) (t_messages db) = []"
    using assms(4) by (auto simp: filter_empty_conv)
  moreover have "msg_conversation (queued_row m) = c" "has_marker origin (queued_row m)"
    using m by (simp_all add: queued_row_def has_marker_def stored_row_def)
  ultimately have "filter (\<lambda>(_, r). msg_conversation r = c \<and> has_marker origin r) (t_messages db2)
      = [(msg_seq db + 1, queued_row m)]"
    unfolding msgs2 by simp
  then have look: "message_by_marker c origin db2 = Some (msg_seq db + 1, queued_row m)"
    unfolding message_by_marker_def by (rule first_desc_unique)
  have q: "queue_outgoing pick c to body encryption reply_to origin timestamp db
      = (Inr (message_by_marker c origin db2), db2)"
    by (simp add: queue_outgoing_def act_simps assms(5)[symmetric] ins db2_def)
  with assms(6) look show "res = Inr (Some (msg_seq db + 1, queued_row m))" by simp
  from q assms(6) msgs2 show "t_messages db' = t_messages db @ [(msg_seq db + 1, queued_row m)]"
    by simp
  have "t_conversations db' = t_conversations db1"
    using q assms(6) by (auto simp: db2_def set_message_state_def)
  then show "account_of_conversation k db' = account_of_conversation k db" for k
    by (simp add: account_of_conversation_def convs map_of_tbl_update option.map_comp o_def)
qed

text \<open>
  Composing a message offline queues it: with an origin id no stored message carries,
  \<open>queue_outgoing\<close> returns the stored row in state \<open>pending\<close> and the outbox of the conversation's
  account ends with exactly this message, after everything queued before, while the outbox of every
  other account is unchanged.
\<close>

theorem queue_outgoing_enqueues:
  assumes "limit_one pick" and "message_db_ok db" and "account_of_conversation c db = Some a"
    and "\<forall>(_, r)\<in>set (t_messages db). \<not> has_marker origin r"
    and "queue_outgoing pick c to body encryption reply_to origin timestamp db = (res, db')"
  shows "(\<exists>i r. res = Inr (Some (i, r)) \<and> msg_state r = ''pending'' \<and> msg_body r = Some body)
    \<and> (\<forall>b. pending_messages b db' = pending_messages b db @ (if b = a then
        [\<lparr>pend_origin_id = origin, pend_to = to, pend_body = body, pend_encryption = encryption,
          pend_reply_to = reply_to\<rparr>] else []))"
proof -
  define m where "m = outgoing_message c to body encryption reply_to origin timestamp"
  have c: "c \<in> keys_of (t_conversations db)"
    using assms(3) unfolding account_of_conversation_def
    by (metis fold_keys_of map_of_eq_None_iff option.distinct(1) option.simps(8))
  note q = queue_new_result[OF assms(1,2) c assms(4) m_def assms(5)]
  have pend: "is_pending b db' = is_pending b db" for b
    by (rule ext) (simp add: is_pending_def q(3))
  have "\<forall>y\<in>set (t_messages db). fst y \<le> msg_seq db + 1"
    using assms(2) in_keys_of[of _ _ "t_messages db"] by (fastforce simp: ok_defs)
  then have "sort_key fst (filter (\<lambda>(_, r). is_pending b db r) (t_messages db) @ [(msg_seq db + 1, queued_row m)])
      = sort_key fst (filter (\<lambda>(_, r). is_pending b db r) (t_messages db)) @ [(msg_seq db + 1, queued_row m)]" for b
    by (intro sort_key_snoc) auto
  moreover have "is_pending b db (queued_row m) \<longleftrightarrow> b = a" for b
    using assms(3) by (auto simp: is_pending_def queued_row_def stored_row_def m_def outgoing_message_def)
  moreover have "pending_view (queued_row m) = \<lparr>pend_origin_id = origin, pend_to = to, pend_body = body,
      pend_encryption = encryption, pend_reply_to = reply_to\<rparr>"
    by (simp add: pending_view_def queued_row_def stored_row_def m_def outgoing_message_def)
  ultimately have "pending_messages b db' = pending_messages b db @ (if b = a then
        [\<lparr>pend_origin_id = origin, pend_to = to, pend_body = body, pend_encryption = encryption,
          pend_reply_to = reply_to\<rparr>] else [])" for b
    unfolding pending_messages_def q(2) pend by simp
  then show ?thesis
    by (simp add: q(1) queued_row_def stored_row_def m_def outgoing_message_def)
qed

theorem queue_outgoing_enqueues_witness:
  "pending_messages 7 (snd (queue_outgoing first_row 1 ''bob@x'' ''hi'' ''omemo2'' None ''q1'' ''2025'' toy_stored))
    = pending_messages 7 toy_stored @ [\<lparr>pend_origin_id = ''q1'', pend_to = ''bob@x'', pend_body = ''hi'',
       pend_encryption = ''omemo2'', pend_reply_to = None\<rparr>]"
proof -
  have "account_of_conversation 1 toy_stored = Some 7" by code_simp
  moreover have "\<forall>(_, r)\<in>set (t_messages toy_stored). \<not> has_marker ''q1'' r" by code_simp
  ultimately show ?thesis
    using queue_outgoing_enqueues[OF limit_one_first_row message_db_invariant[OF toy_stored_run] _ _
        surjective_pairing, of 1 7 "''q1''"] by simp
qed

subsection \<open>Retraction, reactions and deletion\<close>

lemma message_by_marker_SomeD:
  assumes "message_by_marker c marker db = Some (i, r)"
  shows "(i, r) \<in> set (t_messages db)" and "msg_conversation r = c" and "has_marker marker r"
  using first_desc_SomeD[OF assms[unfolded message_by_marker_def]] by auto

lemma no_reactions: "\<forall>k\<in>keys_of (t_reactions db). fst k \<noteq> i \<Longrightarrow> reactions i db = []"
proof -
  assume "\<forall>k\<in>keys_of (t_reactions db). fst k \<noteq> i"
  then have "filter (\<lambda>((m, _, _), _). m = i) (t_reactions db) = []"
    by (fastforce simp: filter_empty_conv dest: in_keys_of)
  then show ?thesis by (simp add: reactions_def sort_desc_def)
qed

lemma reactions_cong:
  assumes "filter (\<lambda>((m, _, _), _). m = i) (t_reactions db') = filter (\<lambda>((m, _, _), _). m = i) (t_reactions db)"
  shows "reactions i db' = reactions i db"
proof -
  have two: "filter (\<lambda>((m, _, e), _). m = i \<and> e = x) (t_reactions d)
      = filter (\<lambda>((_, _, e), _). e = x) (filter (\<lambda>((m, _, _), _). m = i) (t_reactions d))" for d :: message_db and x
    unfolding filter_filter by (rule filter_cong) auto
  have "reaction_tally i x db' = reaction_tally i x db" for x
    by (simp only: reaction_tally_def two assms)
  then show ?thesis by (simp add: reactions_def assms)
qed

text \<open>
  A retraction leaves a stub: the targeted row keeps its place but loses body, attachment, edit
  and reply links and fingerprint, its reactions are gone, the caller gets the body it had, every
  other row and every other message's reactions stay as they were; a second retraction of the
  same marker finds nothing left to return.
\<close>

theorem retract_message_erases:
  assumes "message_db_ok db" and "retract_message c target db = (Inr (Some (i, old)), db')"
  shows "(\<exists>r. map_of (t_messages db) i = Some r \<and> msg_conversation r = c \<and> has_marker target r
      \<and> old = msg_body r \<and> map_of (t_messages db') i = Some (tombstone r))
    \<and> reactions i db' = []
    \<and> (\<forall>j. j \<noteq> i \<longrightarrow> map_of (t_messages db') j = map_of (t_messages db) j
         \<and> reactions j db' = reactions j db)
    \<and> fst (retract_message c target db') = Inr (Some (i, None))"
proof -
  obtain r where r: "message_by_marker c target db = Some (i, r)" "old = msg_body r"
    and db': "db' = db\<lparr>t_messages := tbl_update i tombstone (t_messages db),
       t_reactions := tbl_delete (\<lambda>k. fst k = i) (t_reactions db)\<rparr>"
    using assms(2) by (auto simp: retract_message_def split: option.split_asm)
  note m = message_by_marker_SomeD[OF r(1)]
  have ok: "tbl_ok (t_messages db)" using assms(1) by (simp add: ok_defs)
  then have row: "map_of (t_messages db) i = Some r" using m(1) by (simp add: in_table_iff)
  have gone: "reactions i db' = []" by (rule no_reactions) (auto simp: db')
  have other: "reactions j db' = reactions j db" if "j \<noteq> i" for j
    by (rule reactions_cong) (use that in \<open>auto simp: db' tbl_delete_def intro: filter_cong\<close>)
  have "filter (\<lambda>(_, r). msg_conversation r = c \<and> has_marker target r) (tbl_update i tombstone (t_messages db))
      = tbl_update i tombstone (filter (\<lambda>(_, r). msg_conversation r = c \<and> has_marker target r) (t_messages db))"
    unfolding tbl_update_def filter_map
    by (rule arg_cong[where f = "map _"], rule filter_cong) (auto simp: has_marker_def split: if_splits)
  moreover have "sort_desc fst (tbl_update i tombstone xs) = tbl_update i tombstone (sort_desc fst xs)" for xs
  proof -
    have "insort_key fst (f x) (map f ys) = map f (insort_key fst x ys)" if "\<And>x. fst (f x) = fst x"
      for f :: "message \<Rightarrow> message" and x ys by (induction ys) (simp_all add: that)
    then have "sort_key fst (map f ys) = map f (sort_key fst ys)" if "\<And>x. fst (f x) = fst x"
      for f :: "message \<Rightarrow> message" and ys by (induction ys) (simp_all add: that)
    then show ?thesis by (simp add: sort_desc_def tbl_update_def rev_map split: prod.split)
  qed
  ultimately have again: "message_by_marker c target db' = Some (i, tombstone r)"
    using r(1) by (auto simp: message_by_marker_def db' first_desc_def tbl_update_def split: list.splits)
  show ?thesis
    using row m r(2) gone other again
    by (auto simp: db' map_of_tbl_update retract_message_def tombstone_def)
qed

theorem retract_message_erases_witness:
  "reactions 1 (snd (retract_message 1 ''s1'' (snd (set_reactions 1 ''eve'' None [''x''] toy_stored)))) = []
   \<and> reactions 1 (snd (set_reactions 1 ''eve'' None [''x''] toy_stored)) = [(''x'', 1, [])]"
proof -
  have ok: "message_db_ok (snd (set_reactions 1 ''eve'' None [''x''] toy_stored))"
    using message_db_invariant[OF toy_stored_run] by (rule set_reactions_ok)
  have "retract_message 1 ''s1'' (snd (set_reactions 1 ''eve'' None [''x''] toy_stored))
      = (Inr (Some (1, Some ''100%'')), snd (retract_message 1 ''s1'' (snd (set_reactions 1 ''eve'' None [''x''] toy_stored))))"
    unfolding prod_eq_iff by (intro conjI) (code_simp, simp)
  note r = retract_message_erases[OF ok this]
  have "reactions 1 (snd (set_reactions 1 ''eve'' None [''x''] toy_stored)) = [(''x'', 1, [])]"
    by code_simp
  with r show ?thesis by blast
qed

lemma reactions_of_rows:
  "e \<in> set (reactions_of i x db) \<longleftrightarrow> (i, x, e) \<in> keys_of (t_reactions db)"
  by (force simp: reactions_of_def keys_of_def simp del: fold_keys_of)

text \<open>
  Reactions have replace semantics: after \<open>set_reactions\<close> succeeded, the reactor's emojis on the
  message are exactly the new ones, whatever they were, and no other reactor's or other message's
  reactions changed.  It fails, changing nothing, only for an unknown message.
\<close>

theorem set_reactions_replaces:
  assumes "message_db_ok db" and "set_reactions i x nick emojis db = (res, db')"
  shows "(res = Inr () \<longrightarrow> set (reactions_of i x db') = set emojis
      \<and> (\<forall>j y. (j, y) \<noteq> (i, x) \<longrightarrow> set (reactions_of j y db') = set (reactions_of j y db)))
    \<and> (res = Inl Foreign_Key \<longleftrightarrow> emojis \<noteq> [] \<and> i \<notin> keys_of (t_messages db))
    \<and> (res \<noteq> Inr () \<longrightarrow> db' = db)"
proof (cases "emojis \<noteq> [] \<and> i \<notin> keys_of (t_messages db)")
  case False
  let ?t = "tbl_delete (\<lambda>(m, y, _). m = i \<and> y = x) (t_reactions db)"
  have "tbl_ok ?t" using assms(1) by (simp add: ok_defs)
  note f = react_fold[OF this, of i x nick emojis]
  have d: "res = Inr ()" "keys_of (t_reactions db') = (\<lambda>e. (i, x, e)) ` set emojis \<union> keys_of ?t"
    using False assms(2) f by (auto simp: set_reactions_def)
  have "e \<in> set (reactions_of i x db') \<longleftrightarrow> e \<in> set emojis" for e
    by (auto simp: reactions_of_rows d(2))
  moreover have "e \<in> set (reactions_of j y db') \<longleftrightarrow> e \<in> set (reactions_of j y db)"
    if "(j, y) \<noteq> (i, x)" for e j y using that by (auto simp: reactions_of_rows d(2))
  ultimately show ?thesis using False d(1) by auto
qed (use assms(2) in \<open>auto simp: set_reactions_def\<close>)

theorem set_reactions_replaces_witness:
  "set (reactions_of 1 ''eve'' (snd (set_reactions 1 ''eve'' None [''y''] (snd (set_reactions 1 ''eve'' None [''x''] toy_stored))))) = {''y''}"
proof -
  have ok: "message_db_ok (snd (set_reactions 1 ''eve'' None [''x''] toy_stored))"
    using message_db_invariant[OF toy_stored_run] by (rule set_reactions_ok)
  have "fst (set_reactions 1 ''eve'' None [''y''] (snd (set_reactions 1 ''eve'' None [''x''] toy_stored))) = Inr ()"
    by code_simp
  with set_reactions_replaces[OF ok surjective_pairing] show ?thesis by force
qed

end
