(* ===== verification/Sce_Binding.thy ===== *)
theory Sce_Binding
  imports Stanza Sce
begin

text \<open>
  What the receiver checks of a decrypted envelope before it believes it
  (\<open>crates/mxc-proto/src/xeps/messaging.rs\<close>): the sender, the recipient and the sending time of the
  envelope (\<open>check_sce_binding\<close>), the instant that time is compared with (\<open>sce_time_reference\<close>) and
  the elements an envelope may not hold (\<open>strip_server_processed\<close>).  The record \<open>chrono\<close> is the
  time library: instants are nanoseconds since 1970 in UTC; \<open>chrono_sound\<close> is what it documents of
  printing and parsing.  The texts of the rejections are the constructors of \<open>binding_error\<close>.
\<close>

record chrono =
  ck_parse :: "string \<Rightarrow> int option"
  ck_show :: "int \<Rightarrow> string"

text \<open>\<open>rfc3339_now\<close>: milliseconds, so what is finer is cut off.\<close>

definition rfc3339_now :: "('z) chrono_scheme \<Rightarrow> int \<Rightarrow> string" where
  "rfc3339_now c now = ck_show c now"

definition chrono_sound :: "('z) chrono_scheme \<Rightarrow> bool" where
  "chrono_sound c \<longleftrightarrow> (\<forall>t. 0 \<le> t \<and> t < 2 ^ 63 \<longrightarrow> ck_parse c (ck_show c t) = Some (t - t mod 10 ^ 6))"

text \<open>\<open>TimeDelta::num_seconds\<close>: whole seconds, rounded towards zero.\<close>

definition num_seconds :: "int \<Rightarrow> int" where
  "num_seconds dt = (if dt < 0 then - (- dt div 10 ^ 9) else dt div 10 ^ 9)"

definition SCE_MAX_SKEW_DAYS :: int where "SCE_MAX_SKEW_DAYS = 7"

definition max_skew :: int where "max_skew = SCE_MAX_SKEW_DAYS * 24 * 60 * 60"

datatype binding_error = Sender_Mismatch | Recipient_Mismatch | Time_Missing | Time_Unparseable
  | Time_In_Future | Time_Inconsistent

definition check_sce_binding :: "('z) chrono_scheme \<Rightarrow> int \<Rightarrow> envelope \<Rightarrow> string \<Rightarrow> string option
    \<Rightarrow> string option \<Rightarrow> binding_error + unit" where
  "check_sce_binding c now env sender_bare expected_to stanza_ts =
     (if \<not> eq_ignore_ascii_case (env_from env) sender_bare then Inl Sender_Mismatch
      else if (case expected_to of None \<Rightarrow> False | Some e \<Rightarrow> \<not> eq_ignore_ascii_case (env_to env) e)
        then Inl Recipient_Mismatch
      else (case env_time env of
          None \<Rightarrow> Inl Time_Missing
        | Some stamp \<Rightarrow> (case ck_parse c stamp of
            None \<Rightarrow> Inl Time_Unparseable
          | Some t \<Rightarrow>
              if max_skew < num_seconds (t - now) then Inl Time_In_Future
              else
                let ref = (case Option.bind stanza_ts (ck_parse c) of None \<Rightarrow> now | Some r \<Rightarrow> r) in
                if max_skew < \<bar>num_seconds (t - ref)\<bar> then Inl Time_Inconsistent else Inr ())))"

subsection \<open>The reference time\<close>

fun delay_of_another :: "('e, 'z) dom_scheme \<Rightarrow> string option \<Rightarrow> 'e list \<Rightarrow> string option" where
  "delay_of_another d sender_bare [] = None"
| "delay_of_another d sender_bare (e # es) =
     (case d_attr d e ''stamp'' of
        None \<Rightarrow> delay_of_another d sender_bare es
      | Some stamp \<Rightarrow> (case d_attr d e ''from'' of
          None \<Rightarrow> delay_of_another d sender_bare es
        | Some f \<Rightarrow>
            if Some (to_ascii_lowercase (to_bare f)) = sender_bare
            then delay_of_another d sender_bare es
            else Some stamp))"

definition delays :: "('e, 'z) dom_scheme \<Rightarrow> 'e \<Rightarrow> 'e list" where
  "delays d msg = filter (\<lambda>c. d_is d c ''delay'' NS_DELAY) (d_children d msg)"

definition bare_sender :: "('e, 'z) dom_scheme \<Rightarrow> 'e \<Rightarrow> string option" where
  "bare_sender d msg = map_option (\<lambda>f. to_ascii_lowercase (to_bare f)) (d_attr d msg ''from'')"

definition sce_time_reference ::
  "('e, 'z) dom_scheme \<Rightarrow> ('c) chrono_scheme \<Rightarrow> int \<Rightarrow> 'e \<Rightarrow> bool \<Rightarrow> string \<Rightarrow> string" where
  "sce_time_reference d c now msg live stored_ts =
     (if \<not> live \<or> is_type d msg ''groupchat'' then stored_ts
      else (case delay_of_another d (bare_sender d msg) (delays d msg) of
              Some stamp \<Rightarrow> stamp | None \<Rightarrow> rfc3339_now c now))"

subsection \<open>Elements the server reads\<close>

definition server_processed :: "('e, 'z) dom_scheme \<Rightarrow> 'e \<Rightarrow> bool" where
  "server_processed d e \<longleftrightarrow>
     d_ns d e = ''urn:xmpp:hints''
     \<or> d_ns d e = NS_SID \<and> d_name d e \<in> {''stanza-id'', ''origin-id''}
     \<or> d_ns d e = ''http://jabber.org/protocol/address''
     \<or> d_ns d e = ''urn:xmpp:eme:0'' \<and> d_name d e = ''encryption''"

definition strip_server_processed :: "('e, 'z) dom_scheme \<Rightarrow> 'e \<Rightarrow> 'e" where
  "strip_server_processed d content =
     (if \<not> list_ex (server_processed d) (d_children d content) then content
      else fold (\<lambda>child out. if server_processed d child then out else d_with_child d child out)
             (d_children d content) (d_bare d (d_name d content) (d_ns d content)))"

lemma strip_server_processed_children [simp]:
  assumes "dom_sound d"
  shows "d_children d (strip_server_processed d content)
    = filter (\<lambda>c. \<not> server_processed d c) (d_children d content)"
proof -
  have "d_children d (fold (\<lambda>child out. if server_processed d child then out else d_with_child d child out) cs e)
      = d_children d e @ filter (\<lambda>c. \<not> server_processed d c) cs" for cs e
    using assms by (induction cs arbitrary: e) simp_all
  moreover have "filter (\<lambda>c. \<not> server_processed d c) cs = cs" if "\<not> list_ex (server_processed d) cs" for cs
    using that by (induction cs) auto
  ultimately show ?thesis using assms by (simp add: strip_server_processed_def)
qed

subsection \<open>What passes the check\<close>

lemma num_seconds_bound: "\<bar>num_seconds dt\<bar> \<le> k \<Longrightarrow> \<bar>dt\<bar> < (k + 1) * 10 ^ 9"
  by (auto simp: num_seconds_def split: if_splits)

lemma num_seconds_le: "num_seconds dt \<le> k \<Longrightarrow> 0 \<le> k \<Longrightarrow> dt < (k + 1) * 10 ^ 9"
  by (auto simp: num_seconds_def split: if_splits)

lemma check_accepts_iff:
  "check_sce_binding c now env sender expected ts = Inr () \<longleftrightarrow>
     eq_ignore_ascii_case (env_from env) sender
     \<and> (\<forall>e. expected = Some e \<longrightarrow> eq_ignore_ascii_case (env_to env) e)
     \<and> (\<exists>t. Option.bind (env_time env) (ck_parse c) = Some t \<and> num_seconds (t - now) \<le> max_skew
        \<and> \<bar>num_seconds (t - (case Option.bind ts (ck_parse c) of None \<Rightarrow> now | Some r \<Rightarrow> r))\<bar> \<le> max_skew)"
  by (auto simp: check_sce_binding_def Let_def not_less split: option.splits)

lemma delay_of_another_None:
  "delay_of_another d sender es = None \<longleftrightarrow>
     (\<forall>e\<in>set es. \<forall>stamp f. d_attr d e ''stamp'' = Some stamp \<and> d_attr d e ''from'' = Some f
        \<longrightarrow> sender = Some (to_ascii_lowercase (to_bare f)))"
  by (induction es) (auto split: option.splits)


definition toy_chrono :: chrono where
  "toy_chrono = \<lparr>ck_parse = (\<lambda>s. map_option int (parse_usize s)),
     ck_show = (\<lambda>t. show_nat (nat (t - t mod 10 ^ 6)))\<rparr>"

lemma toy_chrono_sound: "chrono_sound toy_chrono"
  unfolding chrono_sound_def
proof (intro allI impI)
  fix t :: int assume t: "0 \<le> t \<and> t < 2 ^ 63"
  have le: "t mod 10 ^ 6 \<le> t" using t by (simp add: zmod_le_nonneg_dividend)
  moreover obtain m where m: "t mod 10 ^ 6 = m" "0 \<le> m" by simp
  ultimately have "nat (t - t mod 10 ^ 6) < 2 ^ 64" using t by (simp add: nat_less_iff)
  then show "ck_parse toy_chrono (ck_show toy_chrono t) = Some (t - t mod 10 ^ 6)"
    using le by (simp add: toy_chrono_def)
qed

text \<open>Noon of a day in 2026, and a delay stamp a stanza may carry.\<close>

definition noon :: int where "noon = 1783425600 * 10 ^ 9"

definition delayed :: "string \<Rightarrow> string \<Rightarrow> tree" where
  "delayed by stamp = Tree ''message'' NS_CLIENT [(''from'', ''eve@x/r'')]
     [Tree ''delay'' NS_DELAY [(''from'', by), (''stamp'', stamp)] [] []] []"

definition sealed_at :: "string \<Rightarrow> envelope" where
  "sealed_at stamp = \<lparr>env_content_inner = [], env_from = ''eve@x'', env_to = ''me@y'', env_time = Some stamp\<rparr>"


text \<open>
  What the check does not stop: a sender who writes a delay naming anybody else moves the
  reference onto the replay.  An envelope sealed at any time that is not in the future is then
  accepted as live, however old it is.
\<close>

theorem forged_delay_admits_replay:
  assumes "delays d msg = delay # rest" and "d_attr d delay ''stamp'' = Some stamp"
    and "d_attr d delay ''from'' = Some other"
    and "bare_sender d msg \<noteq> Some (to_ascii_lowercase (to_bare other))"
    and "\<not> is_type d msg ''groupchat''"
    and "env_time env = Some stamp" and "ck_parse c stamp = Some t" and "t \<le> now2"
    and "env_from env = sender" and "env_to env = us"
  shows "check_sce_binding c now2 env sender (Some us)
      (Some (sce_time_reference d c now1 msg True stored_ts)) = Inr ()"
proof -
  have "sce_time_reference d c now1 msg True stored_ts = stamp"
    using assms(1-5) by (auto simp: sce_time_reference_def)
  moreover have "num_seconds (t - now2) \<le> max_skew"
    using assms(8) pos_imp_zdiv_nonneg_iff[of "10 ^ 9" "now2 - t"]
    by (auto simp: num_seconds_def max_skew_def SCE_MAX_SKEW_DAYS_def)
  moreover have "num_seconds 0 = 0" "0 \<le> max_skew"
    by (simp_all add: num_seconds_def max_skew_def SCE_MAX_SKEW_DAYS_def)
  ultimately show ?thesis using assms(6,7,9,10) by (simp add: check_accepts_iff)
qed

lemma forged_delay_admits_replay_witness:
  "check_sce_binding toy_chrono noon (sealed_at ''5'') ''eve@x'' (Some ''me@y'')
     (Some (sce_time_reference tree_dom toy_chrono noon (delayed ''z'' ''5'') True ''5'')) = Inr ()"
proof (rule forged_delay_admits_replay)
  let ?delay = "Tree ''delay'' NS_DELAY [(''from'', ''z''), (''stamp'', ''5'')] [] []"
  show "delays tree_dom (delayed ''z'' ''5'') = [?delay]" by code_simp
  show "d_attr tree_dom ?delay ''stamp'' = Some ''5''" and "d_attr tree_dom ?delay ''from'' = Some ''z''"
    by (simp_all add: tree_dom_def)
  show "bare_sender tree_dom (delayed ''z'' ''5'') \<noteq> Some (to_ascii_lowercase (to_bare ''z''))" by code_simp
  show "\<not> is_type tree_dom (delayed ''z'' ''5'') ''groupchat''" by code_simp
  show "ck_parse toy_chrono ''5'' = Some 5" by code_simp
qed (simp_all add: sealed_at_def noon_def)

end
