(* ===== verification/Bob.thy ===== *)
theory Bob
  imports Stanza Xml
begin

text \<open>
  Stickers carried as Bits of Binary (\<open>crates/mxc-proto/src/xeps/bob.rs\<close>): content ids, the
  elements that carry the bytes, and the cache on disk.  SHA-256 is a function parameter, base64 the
  record of \<open>Xml\<close>.  Paths are their text and are joined as \<open>PathBuf::join\<close> does on Unix.  Of the file
  system the model keeps the files the program writes (\<open>fs_files\<close>), what else exists (\<open>fs_entry\<close>) and
  where creating a file fails (\<open>fs_refuses\<close>).
\<close>

record cache_env =
  xdg_cache_home :: "string option"
  home_dir :: "string option"

record file_sys =
  fs_files :: "string \<Rightarrow> bytes option"
  fs_entry :: "string \<Rightarrow> bool"
  fs_refuses :: "string \<Rightarrow> bool"

definition NS_BOB :: string where "NS_BOB = ''urn:xmpp:bob''"
definition NS_XHTML :: string where "NS_XHTML = ''http://www.w3.org/1999/xhtml''"
definition NS_XHTML_IM :: string where "NS_XHTML_IM = ''http://jabber.org/protocol/xhtml-im''"

subsection \<open>Content ids and elements\<close>

definition cid_ssp :: "(bytes \<Rightarrow> bytes) \<Rightarrow> bytes \<Rightarrow> string" where
  "cid_ssp sha256 bs = ''sha-256+'' @ hex_encode (sha256 bs) @ ''@bob.xmpp.org''"

definition cid_uri :: "(bytes \<Rightarrow> bytes) \<Rightarrow> bytes \<Rightarrow> string" where
  "cid_uri sha256 bs = ''cid:'' @ cid_ssp sha256 bs"

definition data_element :: "('e, 'z) dom_scheme \<Rightarrow> base64 \<Rightarrow> string \<Rightarrow> string \<Rightarrow> bytes \<Rightarrow> 'e" where
  "data_element d b ssp mime bs =
     d_with_text d (b64_encode b bs)
       (d_with_attr d ''max-age'' ''86400''
         (d_with_attr d ''type'' mime (d_with_attr d ''cid'' ssp (d_bare d ''data'' NS_BOB))))"

definition xhtml_img :: "('e, 'z) dom_scheme \<Rightarrow> string \<Rightarrow> 'e" where
  "xhtml_img d uri =
     d_with_child d
       (d_with_child d (d_with_attr d ''src'' uri (d_bare d ''img'' NS_XHTML)) (d_bare d ''body'' NS_XHTML))
       (d_bare d ''html'' NS_XHTML_IM)"

definition parse_data :: "('e, 'z) dom_scheme \<Rightarrow> base64 \<Rightarrow> 'e \<Rightarrow> (string \<times> bytes) option" where
  "parse_data d b el =
     (if d_name d el \<noteq> ''data'' \<or> d_ns d el \<noteq> NS_BOB then None
      else (case d_attr d el ''cid'' of
          None \<Rightarrow> None
        | Some cid \<Rightarrow> (case b64_decode b (str_trim (d_text d el)) of
            Inl _ \<Rightarrow> None | Inr bs \<Rightarrow> Some (cid, bs))))"

text \<open>The walk over the XHTML payload; its fuel is the nesting depth.\<close>

definition note_img ::
  "('e, 'z) dom_scheme \<Rightarrow> 'e \<Rightarrow> (string \<times> string option) list \<Rightarrow> (string \<times> string option) list" where
  "note_img d el out =
     (if d_name d el \<noteq> ''img'' then out
      else (case Option.bind (d_attr d el ''src'') (\<lambda>s. strip_prefix s ''cid:'') of
          None \<Rightarrow> out
        | Some ssp \<Rightarrow>
            if ssp \<in> set (map fst out) then out
            else out @ [(ssp, if d_attr d el ''alt'' = Some [] then None else d_attr d el ''alt'')]))"

fun img_walk :: "('e, 'z) dom_scheme \<Rightarrow> nat \<Rightarrow> 'e
    \<Rightarrow> (string \<times> string option) list \<Rightarrow> (string \<times> string option) list" where
  "img_walk d 0 el out = out"
| "img_walk d (Suc fuel) el out = fold (img_walk d fuel) (d_children d el) (note_img d el out)"

definition img_refs :: "('e, 'z) dom_scheme \<Rightarrow> 'e \<Rightarrow> (string \<times> string option) list" where
  "img_refs d content =
     (case get_child d content ''html'' NS_XHTML_IM of
        None \<Rightarrow> [] | Some html \<Rightarrow> img_walk d (Suc (d_depth d html)) html [])"

definition img_cids :: "('e, 'z) dom_scheme \<Rightarrow> 'e \<Rightarrow> string list" where
  "img_cids d content = map fst (img_refs d content)"

subsection \<open>The cache\<close>

definition cid_hex :: "string \<Rightarrow> string option" where
  "cid_hex cid =
     (let ssp = (case strip_prefix cid ''cid:'' of None \<Rightarrow> cid | Some s \<Rightarrow> s) in
      case split_once CHR ''+'' ssp of
        None \<Rightarrow> None
      | Some (algo, rest) \<Rightarrow>
          if \<not> eq_ignore_ascii_case algo ''sha-256'' then None
          else let hex = takeWhile (\<lambda>c. c \<noteq> CHR ''@'') rest in
            if hex = [] then None else Some (to_ascii_lowercase hex))"

definition path_join :: "string \<Rightarrow> string \<Rightarrow> string" where
  "path_join base p =
     (if starts_with p ''/'' then p
      else if base = [] \<or> last base = CHR ''/'' then base @ p else base @ ''/'' @ p)"

definition cache_dir :: "cache_env \<Rightarrow> string" where
  "cache_dir env =
     (let base = (case xdg_cache_home env of
          Some (c # cs) \<Rightarrow> c # cs
        | _ \<Rightarrow> path_join (case home_dir env of None \<Rightarrow> [] | Some h \<Rightarrow> h) ''.cache'')
      in path_join (path_join base ''monocles-chat'') ''bob'')"

definition cache_path :: "cache_env \<Rightarrow> string \<Rightarrow> string option" where
  "cache_path env cid = map_option (path_join (cache_dir env)) (cid_hex cid)"

definition fs_exists :: "file_sys \<Rightarrow> string \<Rightarrow> bool" where
  "fs_exists fs p \<longleftrightarrow> fs_files fs p \<noteq> None \<or> fs_entry fs p"

definition is_cached :: "cache_env \<Rightarrow> string \<Rightarrow> file_sys \<Rightarrow> bool" where
  "is_cached env cid fs = (case cache_path env cid of None \<Rightarrow> False | Some p \<Rightarrow> fs_exists fs p)"

definition bob_save :: "cache_env \<Rightarrow> string \<Rightarrow> bytes \<Rightarrow> (file_sys, unit, unit) act" where
  "bob_save env cid bs fs =
     (case cache_path env cid of
        None \<Rightarrow> (Inr (), fs)
      | Some p \<Rightarrow>
          if fs_exists fs p then (Inr (), fs)
          else if fs_refuses fs p then (Inl (), fs)
          else (Inr (), fs\<lparr>fs_files := (fs_files fs)(p \<mapsto> bs)\<rparr>))"

subsection \<open>Sending and receiving\<close>

lemma path_join_inj:
  "\<not> starts_with a ''/'' \<Longrightarrow> \<not> starts_with b ''/'' \<Longrightarrow> path_join base a = path_join base b \<Longrightarrow> a = b"
  by (simp add: path_join_def split: if_splits)

lemma lower_hex_not_special: "lower_hex c \<Longrightarrow> c \<noteq> CHR ''@'' \<and> c \<noteq> CHR ''/'' \<and> c \<noteq> CHR ''+''"
  by (auto simp: lower_hex_def in_range_def byte_of_def)

lemma lower_hex_plain: "list_all lower_hex s \<Longrightarrow> to_ascii_lowercase s = s"
  by (induction s) (simp_all add: to_ascii_lowercase_def lower_hex_lower)

lemma cid_hex_own:
  assumes "list_all lower_hex h" and "h \<noteq> []" and "pre = [] \<or> pre = ''cid:''"
  shows "cid_hex (pre @ ''sha-256+'' @ h @ ''@bob.xmpp.org'') = Some h"
proof -
  have tw: "takeWhile (\<lambda>c. c \<noteq> CHR ''@'') (h @ CHR ''@'' # r) = h" for r
    using assms(1) lower_hex_not_special by (auto simp: list_all_iff takeWhile_append)
  have sp: "split_once CHR ''+'' (''sha-256'' @ CHR ''+'' # r) = Some (''sha-256'', r)" for r
    by (rule split_once_append) simp
  have "(case strip_prefix (pre @ ''sha-256+'' @ h @ ''@bob.xmpp.org'') ''cid:'' of
      None \<Rightarrow> pre @ ''sha-256+'' @ h @ ''@bob.xmpp.org'' | Some s \<Rightarrow> s)
      = ''sha-256'' @ CHR ''+'' # h @ ''@bob.xmpp.org''"
    using assms(3) by (auto simp: strip_prefix_def)
  then show ?thesis
    unfolding cid_hex_def Let_def using sp[of "h @ ''@bob.xmpp.org''"] tw[of "''bob.xmpp.org''"] assms(1,2)
    by (simp add: lower_hex_plain)
qed

lemma own_cache_path:
  assumes "sha256 bs \<noteq> []"
  shows "cache_path env (cid_uri sha256 bs) = Some (path_join (cache_dir env) (hex_encode (sha256 bs)))"
    and "cache_path env (cid_ssp sha256 bs) = Some (path_join (cache_dir env) (hex_encode (sha256 bs)))"
proof -
  have "hex_encode (sha256 bs) \<noteq> []"
    using assms length_hex_encode[of "sha256 bs"] by (metis length_0_conv mult_eq_0_iff numeral_neq_zero)
  then show "cache_path env (cid_uri sha256 bs) = Some (path_join (cache_dir env) (hex_encode (sha256 bs)))"
    and "cache_path env (cid_ssp sha256 bs) = Some (path_join (cache_dir env) (hex_encode (sha256 bs)))"
    using cid_hex_own[OF hex_encode_lower, of "sha256 bs" "''cid:''"]
      cid_hex_own[OF hex_encode_lower, of "sha256 bs" "[]"]
    by (simp_all add: cache_path_def cid_uri_def cid_ssp_def)
qed

lemma hex_no_slash: "\<not> starts_with (hex_encode bs) ''/''"
proof
  assume "starts_with (hex_encode bs) ''/''"
  then have "CHR ''/'' \<in> set (hex_encode bs)" by (auto simp: starts_with_iff)
  then show False using hex_encode_lower[of bs] lower_hex_not_special by (auto simp: list_all_iff)
qed

lemma parse_data_element:
  assumes "dom_sound d" and "b64_sound b"
  shows "parse_data d b (data_element d b ssp mime bs) = Some (ssp, bs)"
  using assms by (simp add: parse_data_def data_element_def b64_sound_def)

lemma save_cached:
  "cache_path env cid = Some p \<Longrightarrow> \<not> fs_refuses fs p \<Longrightarrow> is_cached env cid (snd (bob_save env cid bs fs))"
  by (simp add: bob_save_def is_cached_def fs_exists_def)

lemma save_frame: "cache_path env cid \<noteq> Some p \<Longrightarrow> fs_files (snd (bob_save env cid bs fs)) p = fs_files fs p"
  by (auto simp: bob_save_def split: option.split)

lemma save_keeps: "fs_exists fs p \<Longrightarrow> fs_files (snd (bob_save env cid bs fs)) p = fs_files fs p"
  by (auto simp: bob_save_def split: option.split)

text \<open>
  A sticker survives the wire: the element built for it is read back to the same content id and
  bytes, and saving what was read puts exactly these bytes in the cache file of the sticker's own
  reference (when the file can be written and is not there), and changes no other file; stickers
  with different digests never share a file.
\<close>

theorem sticker_roundtrip:
  assumes "dom_sound d" and "b64_sound b" and "sha256 bs \<noteq> []"
    and "cache_path env (cid_uri sha256 bs) = Some p" and "\<not> fs_exists fs p" and "\<not> fs_refuses fs p"
  shows "\<exists>cid bs'. parse_data d b (data_element d b (cid_ssp sha256 bs) mime bs) = Some (cid, bs')
      \<and> fs_files (snd (bob_save env cid bs' fs)) = (fs_files fs)(p \<mapsto> bs)
      \<and> (\<forall>other. sha256 other \<noteq> [] \<and> sha256 other \<noteq> sha256 bs
           \<longrightarrow> cache_path env (cid_uri sha256 other) \<noteq> Some p)"
proof -
  have p: "p = path_join (cache_dir env) (hex_encode (sha256 bs))"
    using own_cache_path(1)[of sha256 bs env] assms(3,4) by simp
  have "cache_path env (cid_uri sha256 other) \<noteq> Some p"
    if "sha256 other \<noteq> []" "sha256 other \<noteq> sha256 bs" for other
    using that own_cache_path(1)[of sha256 other env] path_join_inj[OF hex_no_slash hex_no_slash] hex_encode_inj
    by (auto simp: p)
  then show ?thesis
    using parse_data_element[OF assms(1,2)] own_cache_path(2)[of sha256 bs env] assms(3,5,6)
    by (auto simp: p bob_save_def)
qed

definition toy_sha :: "bytes \<Rightarrow> bytes" where
  "toy_sha bs = take 32 (bs @ replicate 32 (word_of_nat (length bs)))"

definition toy_env :: cache_env where
  "toy_env = \<lparr>xdg_cache_home = None, home_dir = Some ''/home/u''\<rparr>"

definition toy_fs :: file_sys where
  "toy_fs = \<lparr>fs_files = (\<lambda>_. None), fs_entry = (\<lambda>p. p = ''/''), fs_refuses = (\<lambda>_. False)\<rparr>"

lemma sticker_roundtrip_witness:
  "\<exists>p cid bs. cache_path toy_env (cid_uri toy_sha [1, 2]) = Some p
     \<and> parse_data tree_dom toy_base64 (data_element tree_dom toy_base64 (cid_ssp toy_sha [1, 2]) ''image/png'' [1, 2])
        = Some (cid, bs)
     \<and> fs_files (snd (bob_save toy_env cid bs toy_fs)) p = Some [1, 2]"
proof -
  let ?p = "path_join (cache_dir toy_env) (hex_encode (toy_sha [1, 2]))"
  have ne: "toy_sha [1, 2] \<noteq> []" by (simp add: toy_sha_def)
  have "?p \<noteq> ''/''" by code_simp
  then have "\<not> fs_exists toy_fs ?p" "\<not> fs_refuses toy_fs ?p" by (simp_all add: fs_exists_def toy_fs_def)
  from sticker_roundtrip[OF tree_dom_sound toy_b64_sound ne own_cache_path(1)[of toy_sha "[1, 2]" toy_env, OF ne] this, of "''image/png''"]
  show ?thesis using own_cache_path(1)[of toy_sha "[1, 2]" toy_env, OF ne] by auto
qed

subsection \<open>What the cache trusts\<close>

text \<open>
  The digest part of a content id is never checked to be one.  An id whose digest part is an
  absolute path (in lower case, without \<open>@\<close>) makes the cache write the sender's bytes to that path,
  outside the cache, wherever no file exists yet: any correspondent can create a file with chosen
  name and contents anywhere the user may write.
\<close>

theorem sticker_writes_anywhere:
  assumes "starts_with p ''/''" and "CHR ''@'' \<notin> set p" and "to_ascii_lowercase p = p"
    and "\<not> fs_exists fs p" and "\<not> fs_refuses fs p"
  shows "fs_files (snd (bob_save env (''sha-256+'' @ p @ ''@bob.xmpp.org'') bs fs)) p = Some bs"
proof -
  have tw: "takeWhile (\<lambda>c. c \<noteq> CHR ''@'') (p @ CHR ''@'' # r) = p" for r
    using assms(2) by (auto simp: takeWhile_append)
  have sp: "split_once CHR ''+'' (''sha-256'' @ CHR ''+'' # r) = Some (''sha-256'', r)" for r
    by (rule split_once_append) simp
  have "p \<noteq> []" using assms(1) by (auto simp: starts_with_iff)
  moreover have "strip_prefix (''sha-256+'' @ r) ''cid:'' = None" for r
    by (simp add: strip_prefix_def)
  ultimately have "cid_hex (''sha-256+'' @ p @ ''@bob.xmpp.org'') = Some p"
    unfolding cid_hex_def Let_def using sp[of "p @ ''@bob.xmpp.org''"] tw assms(3) by simp
  then have "cache_path env (''sha-256+'' @ p @ ''@bob.xmpp.org'') = Some p"
    using assms(1) by (simp add: cache_path_def path_join_def)
  then show ?thesis using assms(4,5) by (simp add: bob_save_def)
qed

lemma sticker_writes_anywhere_witness:
  "fs_files (snd (bob_save toy_env ''sha-256+/home/u/.config/autostart/x.desktop@bob.xmpp.org'' [7] toy_fs))
     ''/home/u/.config/autostart/x.desktop'' = Some [7]"
proof -
  have "starts_with ''/home/u/.config/autostart/x.desktop'' ''/''"
    "CHR ''@'' \<notin> set ''/home/u/.config/autostart/x.desktop''"
    "to_ascii_lowercase ''/home/u/.config/autostart/x.desktop'' = ''/home/u/.config/autostart/x.desktop''"
    "\<not> fs_exists toy_fs ''/home/u/.config/autostart/x.desktop''"
    "\<not> fs_refuses toy_fs ''/home/u/.config/autostart/x.desktop''"
    by code_simp+
  from sticker_writes_anywhere[OF this, of toy_env "[7]"] show ?thesis by simp
qed

text \<open>What is saved first under an id stays: the bytes are never compared with the digest.\<close>

lemma sticker_first_save_wins:
  assumes "cache_path env cid = Some p" and "\<not> fs_exists fs p" and "\<not> fs_refuses fs p"
  shows "fs_files (snd (bob_save env cid genuine (snd (bob_save env cid forged fs)))) p = Some forged"
  using assms by (simp add: bob_save_def fs_exists_def)

subsection \<open>References\<close>

text \<open>More fuel than the nesting depth changes nothing.\<close>

lemma img_walk_fuel:
  assumes "dom_sound d"
  shows "d_depth d el < n \<Longrightarrow> d_depth d el < m \<Longrightarrow> img_walk d n el out = img_walk d m el out"
proof (induction n arbitrary: m el out)
  case (Suc n)
  then obtain m' where m: "m = Suc m'" by (cases m) auto
  have "fold (img_walk d n) cs out = fold (img_walk d m') cs out" if "set cs \<subseteq> set (d_children d el)" for cs out
    using that
  proof (induction cs arbitrary: out)
    case (Cons c cs)
    have "d_depth d c < d_depth d el" using dom_depth[OF assms] Cons.prems by simp
    then have "img_walk d n c out = img_walk d m' c out" using Suc.prems m by (intro Suc.IH) simp_all
    then show ?case using Cons by simp
  qed simp
  then show ?case by (simp add: m)
qed simp

lemma img_walk_distinct: "distinct (map fst out) \<Longrightarrow> distinct (map fst (img_walk d n el out))"
proof (induction n arbitrary: el out)
  case (Suc n)
  have "distinct (map fst (fold (img_walk d n) cs out))" if "distinct (map fst out)" for cs out
    using that by (induction cs arbitrary: out) (simp_all add: Suc.IH)
  moreover have "distinct (map fst (note_img d el out))"
    using Suc.prems by (auto simp: note_img_def split: option.split)
  ultimately show ?case by simp
qed simp

lemma img_refs_distinct: "distinct (img_cids d content)"
  using img_walk_distinct[of "[]" d] by (simp add: img_cids_def img_refs_def del: img_walk.simps split: option.split)

end
