(* ===== verification/Pep.thy ===== *)
theory Pep
  imports Msg_Text
begin

text \<open>
  The PubSub requests of \<open>crates/mxc-proto/src/xeps/pep.rs\<close> and their answers: stories, bookmarks
  and the device lists and bundles of OMEMO travel in them.  Request ids (\<open>new_id\<close>) are arguments;
  sending and waiting is \<open>xeps/iq.rs\<close>.
\<close>

subsection \<open>PubSub requests\<close>

definition NS_PUBSUB :: string where "NS_PUBSUB = ''http://jabber.org/protocol/pubsub''"
definition NS_PUBSUB_EVENT :: string where "NS_PUBSUB_EVENT = ''http://jabber.org/protocol/pubsub#event''"
definition NS_XDATA :: string where "NS_XDATA = ''jabber:x:data''"
definition NS_PUBLISH_OPTIONS :: string where
  "NS_PUBLISH_OPTIONS = ''http://jabber.org/protocol/pubsub#publish-options''"

definition pep_iq :: "('e, 'z) dom_scheme \<Rightarrow> string \<Rightarrow> string \<Rightarrow> string option \<Rightarrow> 'e \<Rightarrow> 'e" where
  "pep_iq d ty req_id jid pubsub =
     (let iq = d_with_attr d ''id'' req_id (d_with_attr d ''type'' ty (d_bare d ''iq'' NS_CLIENT));
          iq = (case jid of None \<Rightarrow> iq | Some j \<Rightarrow> d_with_attr d ''to'' j iq)
      in d_with_child d pubsub iq)"

definition pep_publish ::
  "('e, 'z) dom_scheme \<Rightarrow> string \<Rightarrow> string \<Rightarrow> string option \<Rightarrow> 'e \<Rightarrow> 'e option \<Rightarrow> 'e" where
  "pep_publish d req_id node item_id payload options =
     (let item = d_bare d ''item'' NS_PUBSUB;
          item = (case item_id of None \<Rightarrow> item | Some i \<Rightarrow> d_with_attr d ''id'' i item);
          item = d_with_child d payload item;
          publish = d_with_child d item (d_with_attr d ''node'' node (d_bare d ''publish'' NS_PUBSUB));
          pubsub = d_with_child d publish (d_bare d ''pubsub'' NS_PUBSUB);
          pubsub = (case options of None \<Rightarrow> pubsub | Some opts \<Rightarrow> d_with_child d opts pubsub)
      in pep_iq d ''set'' req_id None pubsub)"

definition pep_retract :: "('e, 'z) dom_scheme \<Rightarrow> string \<Rightarrow> string \<Rightarrow> string \<Rightarrow> 'e" where
  "pep_retract d req_id node item_id =
     pep_iq d ''set'' req_id None
       (d_with_child d
         (d_with_child d (d_with_attr d ''id'' item_id (d_bare d ''item'' NS_PUBSUB))
           (d_with_attr d ''notify'' ''true'' (d_with_attr d ''node'' node (d_bare d ''retract'' NS_PUBSUB))))
         (d_bare d ''pubsub'' NS_PUBSUB))"

definition pep_items ::
  "('e, 'z) dom_scheme \<Rightarrow> string \<Rightarrow> string option \<Rightarrow> string \<Rightarrow> u32 option \<Rightarrow> 'e" where
  "pep_items d req_id jid node max_items =
     (let items = d_with_attr d ''node'' node (d_bare d ''items'' NS_PUBSUB);
          items = (case max_items of None \<Rightarrow> items
                   | Some m \<Rightarrow> d_with_attr d ''max_items'' (show_nat (unat m)) items)
      in pep_iq d ''get'' req_id jid (d_with_child d items (d_bare d ''pubsub'' NS_PUBSUB)))"

definition pep_item ::
  "('e, 'z) dom_scheme \<Rightarrow> string \<Rightarrow> string option \<Rightarrow> string \<Rightarrow> string \<Rightarrow> 'e" where
  "pep_item d req_id jid node item_id =
     pep_iq d ''get'' req_id jid
       (d_with_child d
         (d_with_child d (d_with_attr d ''id'' item_id (d_bare d ''item'' NS_PUBSUB))
           (d_with_attr d ''node'' node (d_bare d ''items'' NS_PUBSUB)))
         (d_bare d ''pubsub'' NS_PUBSUB))"

definition extract_items :: "('e, 'z) dom_scheme \<Rightarrow> 'e \<Rightarrow> (string option \<times> 'e) list" where
  "extract_items d reply =
     (case Option.bind (get_child d reply ''pubsub'' NS_PUBSUB) (\<lambda>p. get_child d p ''items'' NS_PUBSUB) of
        None \<Rightarrow> []
      | Some items \<Rightarrow> List.map_filter (\<lambda>item. case d_children d item of
            [] \<Rightarrow> None | payload # _ \<Rightarrow> Some (d_attr d item ''id'', payload)) (named d ''item'' items))"

definition xdata_field :: "('e, 'z) dom_scheme \<Rightarrow> string \<Rightarrow> string \<Rightarrow> 'e" where
  "xdata_field d var v =
     d_with_child d (text_element d ''value'' NS_XDATA v)
       (d_with_attr d ''var'' var (d_bare d ''field'' NS_XDATA))"

definition pep_publish_options :: "('e, 'z) dom_scheme \<Rightarrow> string \<Rightarrow> 'e" where
  "pep_publish_options d access_model =
     d_with_child d
       (d_with_child d (xdata_field d ''pubsub#access_model'' access_model)
         (d_with_child d
           (d_with_child d (text_element d ''value'' NS_XDATA NS_PUBLISH_OPTIONS)
             (d_with_attr d ''type'' ''hidden''
               (d_with_attr d ''var'' ''FORM_TYPE'' (d_bare d ''field'' NS_XDATA))))
           (d_with_attr d ''type'' ''submit'' (d_bare d ''x'' NS_XDATA))))
       (d_bare d ''publish-options'' NS_PUBSUB)"

end
