(* ===== verification/Client_Store.thy ===== *)
theory Client_Store
  imports Message_Store
begin

text \<open>
  The remaining tables of the store: accounts (\<open>crates/mxc-store/src/accounts.rs\<close>), the roster and the
  presence cache (\<open>roster.rs\<close>), the settings (\<open>settings.rs\<close>) and the call history (\<open>calls.rs\<close>), under
  their primary keys, with the foreign keys of the migrations \<open>0001\<close>, \<open>0006\<close> and \<open>0009\<close> (the call log
  has none).  The settings the OMEMO layer reads are in \<open>Omemo_Store\<close>, under other keys.  Columns no
  statement of the source reads (\<open>created_at\<close>, \<open>updated_at\<close>) are left out.
\<close>

record account_row =
  acc_jid :: string
  acc_has_secret :: bool
  acc_resource :: "string option"
  acc_enabled :: bool
  acc_omemo_device_id :: "i64 option"
  acc_display_name :: "string option"

record roster_item =
  ros_jid :: string
  ros_name :: "string option"
  ros_subscription :: string
  ros_ask :: "string option"
  ros_groups :: "string option"

record presence_row =
  pre_show :: "string option"
  pre_status :: "string option"
  pre_priority :: i64
  pre_caps_hash :: "string option"

record call_log_entry =
  log_peer :: string
  log_direction :: string
  log_video :: bool
  log_answered :: bool
  log_timestamp :: string

record client_db =
  cdb_accounts :: "(i64, account_row) table"
  cdb_account_seq :: i64
  cdb_roster :: "(i64 \<times> string, roster_item) table"
  cdb_presence :: "(i64 \<times> string, presence_row) table"
  cdb_settings :: "(string, string) table"
  cdb_calls :: "(i64 \<times> call_log_entry) list"

type_synonym 'a client_act = "(client_db, store_error, 'a) act"

subsection \<open>Accounts\<close>

definition find_account :: "string \<Rightarrow> client_db \<Rightarrow> (i64 \<times> account_row) option" where
  "find_account jid db = find (\<lambda>(_, r). acc_jid r = jid) (cdb_accounts db)"

definition upsert_account :: "string \<Rightarrow> i64 client_act" where
  "upsert_account jid db = (case find_account jid db of
     Some (i, _) \<Rightarrow> (Inr i, db)
   | None \<Rightarrow> let i = cdb_account_seq db + 1 in
       (Inr i, db\<lparr>cdb_account_seq := i, cdb_accounts := cdb_accounts db @
         [(i, \<lparr>acc_jid = jid, acc_has_secret = False, acc_resource = None, acc_enabled = True,
               acc_omemo_device_id = None, acc_display_name = None\<rparr>)]\<rparr>))"

definition account_by_jid :: "string \<Rightarrow> client_db \<Rightarrow> (i64 \<times> account_row) option" where
  "account_by_jid jid db = find_account jid db"

definition enabled_accounts :: "client_db \<Rightarrow> (i64 \<times> account_row) list" where
  "enabled_accounts db = sort_key fst (filter (\<lambda>(_, r). acc_enabled r) (cdb_accounts db))"

definition update_account :: "i64 \<Rightarrow> (account_row \<Rightarrow> account_row) \<Rightarrow> client_db \<Rightarrow> client_db" where
  "update_account a f db = db\<lparr>cdb_accounts := tbl_update a f (cdb_accounts db)\<rparr>"

definition account_set_device_id :: "i64 \<Rightarrow> i64 \<Rightarrow> client_db \<Rightarrow> client_db" where
  "account_set_device_id a dev = update_account a (\<lambda>r. r\<lparr>acc_omemo_device_id := Some dev\<rparr>)"

definition mark_has_secret :: "i64 \<Rightarrow> bool \<Rightarrow> client_db \<Rightarrow> client_db" where
  "mark_has_secret a has = update_account a (\<lambda>r. r\<lparr>acc_has_secret := has\<rparr>)"

definition set_account_enabled :: "i64 \<Rightarrow> bool \<Rightarrow> client_db \<Rightarrow> client_db" where
  "set_account_enabled a on = update_account a (\<lambda>r. r\<lparr>acc_enabled := on\<rparr>)"

definition autologin_account :: "client_db \<Rightarrow> (i64 \<times> account_row) option" where
  "autologin_account db =
     (case sort_key fst (filter (\<lambda>(_, r). acc_enabled r \<and> acc_has_secret r) (cdb_accounts db)) of
        [] \<Rightarrow> None | x # _ \<Rightarrow> Some x)"

definition account_known :: "i64 \<Rightarrow> client_db \<Rightarrow> bool" where
  "account_known a db \<longleftrightarrow> a \<in> set (map fst (cdb_accounts db))"

subsection \<open>Roster and presence\<close>

definition replace_roster_item :: "i64 \<Rightarrow> roster_item \<Rightarrow> unit client_act" where
  "replace_roster_item a item db =
     (if \<not> account_known a db then (Inl Foreign_Key, db)
      else (Inr (), db\<lparr>cdb_roster := tbl_upsert (a, ros_jid item) item (\<lambda>_. item) (cdb_roster db)\<rparr>))"

definition remove_roster_item :: "i64 \<Rightarrow> string \<Rightarrow> client_db \<Rightarrow> client_db" where
  "remove_roster_item a jid db = db\<lparr>cdb_roster := tbl_delete (\<lambda>k. k = (a, jid)) (cdb_roster db)\<rparr>"

definition roster_item_of :: "i64 \<Rightarrow> string \<Rightarrow> client_db \<Rightarrow> roster_item option" where
  "roster_item_of a jid db = map_of (cdb_roster db) (a, jid)"

definition roster :: "i64 \<Rightarrow> client_db \<Rightarrow> roster_item list" where
  "roster a db = sort_key (\<lambda>r. coalesce (ros_name r) (Some (ros_jid r)))
     (map snd (account_rows a (cdb_roster db)))"

definition set_presence ::
  "i64 \<Rightarrow> string \<Rightarrow> string option \<Rightarrow> string option \<Rightarrow> i64 \<Rightarrow> string option \<Rightarrow> unit client_act" where
  "set_presence a full_jid shown status priority caps db =
     (if \<not> account_known a db then (Inl Foreign_Key, db)
      else let row = \<lparr>pre_show = shown, pre_status = status, pre_priority = priority, pre_caps_hash = caps\<rparr> in
        (Inr (), db\<lparr>cdb_presence := tbl_upsert (a, full_jid) row (\<lambda>_. row) (cdb_presence db)\<rparr>))"

definition clear_presence :: "i64 \<Rightarrow> string \<Rightarrow> client_db \<Rightarrow> client_db" where
  "clear_presence a full_jid db = db\<lparr>cdb_presence := tbl_delete (\<lambda>k. k = (a, full_jid)) (cdb_presence db)\<rparr>"

subsection \<open>Settings\<close>

definition setting :: "string \<Rightarrow> client_db \<Rightarrow> string option" where
  "setting k db = map_of (cdb_settings db) k"

definition put_setting :: "string \<Rightarrow> string \<Rightarrow> client_db \<Rightarrow> client_db" where
  "put_setting k v db = db\<lparr>cdb_settings := tbl_upsert k v (\<lambda>_. v) (cdb_settings db)\<rparr>"

definition drop_setting :: "string \<Rightarrow> client_db \<Rightarrow> client_db" where
  "drop_setting k db = db\<lparr>cdb_settings := tbl_delete (\<lambda>k'. k' = k) (cdb_settings db)\<rparr>"

definition setting_or :: "string \<Rightarrow> string \<Rightarrow> client_db \<Rightarrow> string" where
  "setting_or dflt k db = (case setting k db of None \<Rightarrow> dflt | Some v \<Rightarrow> v)"

definition DONATION_SNOOZE_SECS :: i64 where "DONATION_SNOOZE_SECS = 7 * 24 * 60 * 60"

definition donation_banner_due :: "i64 \<Rightarrow> client_db \<Rightarrow> bool" where
  "donation_banner_due now db \<longleftrightarrow>
     (case Option.bind (setting ''donation_snooze_until'' db) parse_i64 of None \<Rightarrow> 0 | Some t \<Rightarrow> t) \<le> now"

definition snooze_donation_banner :: "i64 \<Rightarrow> client_db \<Rightarrow> client_db" where
  "snooze_donation_banner now = put_setting ''donation_snooze_until'' (show_int (now + DONATION_SNOOZE_SECS))"

definition support_room_key :: "i64 \<Rightarrow> string" where
  "support_room_key a = ''support_room_dismissed:'' @ show_int a"

definition support_room_dismissed :: "i64 \<Rightarrow> client_db \<Rightarrow> bool" where
  "support_room_dismissed a db \<longleftrightarrow> setting (support_room_key a) db = Some ''1''"

definition dismiss_support_room :: "i64 \<Rightarrow> client_db \<Rightarrow> client_db" where
  "dismiss_support_room a = put_setting (support_room_key a) ''1''"

definition chat_background :: "client_db \<Rightarrow> string \<times> string" where
  "chat_background db = (setting_or ''default'' ''chat_bg_mode'' db, setting_or [] ''chat_bg_custom_path'' db)"

definition set_chat_bg_mode :: "string \<Rightarrow> client_db \<Rightarrow> client_db" where
  "set_chat_bg_mode mode = put_setting ''chat_bg_mode'' mode"

definition set_chat_bg_custom_path :: "string \<Rightarrow> client_db \<Rightarrow> client_db" where
  "set_chat_bg_custom_path path = put_setting ''chat_bg_custom_path'' path"

definition preferred_camera :: "client_db \<Rightarrow> string" where
  "preferred_camera = setting_or [] ''preferred_camera''"

definition set_preferred_camera :: "string \<Rightarrow> client_db \<Rightarrow> client_db" where
  "set_preferred_camera path = put_setting ''preferred_camera'' path"

definition own_presence :: "client_db \<Rightarrow> string \<times> string" where
  "own_presence db = (setting_or [] ''presence_show'' db, setting_or [] ''presence_status'' db)"

definition set_own_presence :: "string \<Rightarrow> string \<Rightarrow> client_db \<Rightarrow> client_db" where
  "set_own_presence shown status db =
     put_setting ''presence_status'' status (put_setting ''presence_show'' shown db)"

text \<open>Pre-approved presence subscriptions.\<close>

definition preapproval_key :: "i64 \<Rightarrow> string \<Rightarrow> string" where
  "preapproval_key a jid = ''preapprove:'' @ show_int a @ '':'' @ jid"

definition preapproved :: "i64 \<Rightarrow> string \<Rightarrow> client_db \<Rightarrow> bool" where
  "preapproved a jid db \<longleftrightarrow> setting (preapproval_key a jid) db \<noteq> None"

definition set_presence_preapproval :: "i64 \<Rightarrow> string \<Rightarrow> client_db \<Rightarrow> client_db" where
  "set_presence_preapproval a jid = put_setting (preapproval_key a jid) ''1''"

definition take_presence_preapproval :: "i64 \<Rightarrow> string \<Rightarrow> client_db \<Rightarrow> bool \<times> client_db" where
  "take_presence_preapproval a jid db = (preapproved a jid db, drop_setting (preapproval_key a jid) db)"

definition clear_presence_preapproval :: "i64 \<Rightarrow> string \<Rightarrow> client_db \<Rightarrow> client_db" where
  "clear_presence_preapproval a jid = drop_setting (preapproval_key a jid)"

subsection \<open>Call history\<close>

definition insert_call_log :: "i64 \<Rightarrow> call_log_entry \<Rightarrow> client_db \<Rightarrow> client_db" where
  "insert_call_log a e db = db\<lparr>cdb_calls := cdb_calls db @ [(a, e)]\<rparr>"

definition recent_calls :: "i64 \<Rightarrow> i64 \<Rightarrow> client_db \<Rightarrow> call_log_entry list" where
  "recent_calls a limit db =
     sql_limit limit (sort_desc log_timestamp (map snd (filter (\<lambda>(a', _). a' = a) (cdb_calls db))))"

subsection \<open>What the operations do to each lookup\<close>

lemma setting_ops [simp]:
  "setting k (put_setting k' v db) = (if k = k' then Some v else setting k db)"
  "setting k (drop_setting k' db) = (if k = k' then None else setting k db)"
  by (auto simp: setting_def put_setting_def drop_setting_def store_simps split: option.split)

lemma roster_item_ops [simp]:
  "account_known a db \<Longrightarrow> roster_item_of b jid (snd (replace_roster_item a item db)) =
     (if (b, jid) = (a, ros_jid item) then Some item else roster_item_of b jid db)"
  "roster_item_of b jid (remove_roster_item a jid' db) =
     (if (b, jid) = (a, jid') then None else roster_item_of b jid db)"
  by (auto simp: roster_item_of_def replace_roster_item_def remove_roster_item_def store_simps split: option.split)

lemma show_int_no_colon: "CHR '':'' \<notin> set (show_int a)"
  by (simp add: show_int_def show_nat_not_in byte_of_def in_range_def)

lemma show_nat_inj: "show_nat m = show_nat n \<longleftrightarrow> m = n"
  by (metis digits_val_show_nat option.inject)

lemma show_int_eq_iff: "show_int a = show_int b \<longleftrightarrow> a = b"
proof -
  have "hd (show_nat n) \<noteq> CHR ''-''" for n
    by (rule hd_show_nat_not) (simp add: byte_of_def in_range_def)
  then have "show_nat n \<noteq> CHR ''-'' # s" "CHR ''-'' # s \<noteq> show_nat n" for n s
    by (metis list.sel(1))+
  then show ?thesis by (auto simp: show_int_def show_nat_inj)
qed

text \<open>The settings of different accounts and contacts never share a key.\<close>

lemma preapproval_key_inj [simp]: "preapproval_key a j = preapproval_key b k \<longleftrightarrow> a = b \<and> j = k"
proof
  assume "preapproval_key a j = preapproval_key b k"
  then have "show_int a @ CHR '':'' # j = show_int b @ CHR '':'' # k"
    by (simp add: preapproval_key_def)
  then have "Some (show_int a, j) = Some (show_int b, k)"
    by (metis show_int_no_colon split_once_append)
  then show "a = b \<and> j = k" by (simp add: show_int_eq_iff)
qed simp

lemma preapproval_key_other [simp]:
  "''preapprove:'' @ r \<noteq> support_room_key a" "preapproval_key a j \<noteq> support_room_key b"
  "preapproval_key a j \<noteq> ''presence_show''" "preapproval_key a j \<noteq> ''presence_status''"
  "''presence_show'' \<noteq> preapproval_key a j" "''presence_status'' \<noteq> preapproval_key a j"
  by (simp_all add: preapproval_key_def support_room_key_def)

lemma preapproved_ops [simp]:
  "preapproved b k (set_presence_preapproval a j db) \<longleftrightarrow> (b, k) = (a, j) \<or> preapproved b k db"
  "preapproved b k (clear_presence_preapproval a j db) \<longleftrightarrow> (b, k) \<noteq> (a, j) \<and> preapproved b k db"
  "fst (take_presence_preapproval a j db) = preapproved a j db"
  "preapproved b k (snd (take_presence_preapproval a j db)) \<longleftrightarrow> (b, k) \<noteq> (a, j) \<and> preapproved b k db"
  "preapproved b k (set_own_presence sh st db) = preapproved b k db"
  by (auto simp: preapproved_def set_presence_preapproval_def clear_presence_preapproval_def
      take_presence_preapproval_def set_own_presence_def)

lemma donation_snoozed:
  assumes "0 \<le> now" "now + DONATION_SNOOZE_SECS < 2 ^ 63"
  shows "donation_banner_due t (snooze_donation_banner now db) \<longleftrightarrow> now + DONATION_SNOOZE_SECS \<le> t"
  using assms by (simp add: donation_banner_due_def snooze_donation_banner_def DONATION_SNOOZE_SECS_def)

lemma find_append: "find P (xs @ ys) = (case find P xs of None \<Rightarrow> find P ys | Some x \<Rightarrow> Some x)"
  by (induction xs) auto

lemma upsert_account_idempotent: 
  "upsert_account jid (snd (upsert_account jid db)) = (fst (upsert_account jid db), snd (upsert_account jid db))"
  by (auto simp: upsert_account_def find_account_def Let_def find_append split: option.splits)

end
