(* ===== verification/Ui_Event.thy ===== *)
theory Ui_Event
  imports Client_Store
begin

text \<open>
  The events the protocol layer sends to the user interface (\<open>crates/mxc-proto/src/event.rs\<close>), all
  but those of the calls (\<open>Calls\<close>).  Sending on the channel never fails while the interface
  runs and its result is ignored, so a handler appends to the list of events.
\<close>

record feed_post =
  post_id :: string
  post_author :: string
  post_title :: string
  post_content :: string
  post_published :: i64
  post_link :: string
  post_attachment_url :: string
  post_attachment_type :: string

record device_key =
  dk_device_id :: i64
  dk_fingerprint :: string
  dk_trust :: i64
  dk_active :: bool

datatype connection_state = Connecting | Online string | Disconnected string

datatype event =
    Message_Stored i64 i64 message bool bool bool
      \<comment> \<open>account, conversation, message, live, mentioned, reply to me\<close>
  | Message_Edited i64 i64 message
  | Message_Retracted i64 i64 i64 "string option"
  | Send_Failed i64 string string string
  | Reactions_Updated i64 i64 i64 "(string \<times> i64 \<times> string) list"
  | Conversations_Updated i64 "conversation list"
  | Message_State string string
  | Chat_State string string
  | Webxdc_Update i64 string i64
  | Webxdc_Realtime i64 string string
  | Webxdc_Notify i64 string string
  | Stories_Updated i64
  | Omemo_Device_Seen i64 string i64 string
  | Connection connection_state
  | Roster_Updated i64 "roster_item list"
  | Presence i64 string "string option" "string option"
  | Avatar i64 string bytes
  | Muc_Avatar i64 string string bytes
  | Muc_Privacy i64 string bool
  | Own_Keys i64 string i64 string string "device_key list" bool string string
      \<comment> \<open>account, bare JID, device, fingerprint, verification URI, other devices, auto-trust, presence\<close>
  | Contact_Keys i64 string "device_key list"
  | Subscription_Request i64 string "string option"
  | Subscription i64 string string "string option"
  | Vcard i64 string bytes "(string \<times> string) list"
  | Nick_Updated i64 string string
  | File_Saved i64 string string
  | Feed_Posts i64 string "feed_post list"
  | Feed_Comments i64 string "feed_post list"
  | Toast string bool

end
