(* ===== verification/Stories.thy ===== *)
theory Stories
  imports Pep Sce_Binding Ui_Event
begin

text \<open>
  Stories, media posts that live for a day: the cache (\<open>crates/mxc-store/src/stories.rs\<close>, migration
  \<open>0010\<close>) and their protocol (\<open>crates/mxc-proto/src/xeps/stories.rs\<close>).  Request ids (\<open>new_id\<close>) and the
  clock are arguments; waiting for the server's reply is not modelled, the reply is an argument.
\<close>

record story_row =
  story_account :: i64
  story_contact :: string
  story_url :: string
  story_type :: string
  story_title :: "string option"
  story_published :: i64

type_synonym story_db = "(string, story_row) table"

subsection \<open>The cache\<close>

definition STORY_TTL_SECS :: i64 where "STORY_TTL_SECS = 86400"

definition upsert_story ::
  "i64 \<Rightarrow> string \<Rightarrow> string \<Rightarrow> string \<Rightarrow> string \<Rightarrow> string option \<Rightarrow> i64 \<Rightarrow> story_db \<Rightarrow> story_db" where
  "upsert_story a uuid contact url ty title published =
     tbl_upsert uuid
       \<lparr>story_account = a, story_contact = contact, story_url = url, story_type = ty,
        story_title = title, story_published = published\<rparr>
       (\<lambda>r. r\<lparr>story_url := url, story_type := ty, story_title := title, story_published := published\<rparr>)"

definition recent_stories :: "i64 \<Rightarrow> i64 \<Rightarrow> story_db \<Rightarrow> (string \<times> story_row) list" where
  "recent_stories a now db = sort_desc (\<lambda>(_, r). story_published r)
     (filter (\<lambda>(_, r). story_account r = a \<and> now - STORY_TTL_SECS \<le> story_published r) db)"

definition expire_stories :: "i64 \<Rightarrow> story_db \<Rightarrow> story_db" where
  "expire_stories now db = filter (\<lambda>(_, r). \<not> story_published r < now - STORY_TTL_SECS) db"

definition delete_story :: "string \<Rightarrow> story_db \<Rightarrow> story_db" where
  "delete_story uuid = tbl_delete (\<lambda>k. k = uuid)"

subsection \<open>Publishing\<close>

definition NS_STORIES :: string where "NS_STORIES = ''urn:xmpp:pubsub-social-feed:stories:0''"
definition NS_ATOM :: string where "NS_ATOM = ''http://www.w3.org/2005/Atom''"

definition story_publish_options :: "('e, 'z) dom_scheme \<Rightarrow> 'e" where
  "story_publish_options d =
     fold (d_with_child d)
       [xdata_field d ''FORM_TYPE'' NS_PUBLISH_OPTIONS, xdata_field d ''pubsub#access_model'' ''presence'',
        xdata_field d ''pubsub#persist_items'' ''true'', xdata_field d ''pubsub#max_items'' ''120'',
        xdata_field d ''pubsub#item_expire'' ''86400'',
        xdata_field d ''pubsub#send_last_published_item'' ''on_sub_and_presence'']
       (d_with_attr d ''type'' ''submit'' (d_bare d ''x'' NS_XDATA))"

text \<open>
  The entry \<open>publish\<close> sends; \<open>dated\<close> is the minute printed in the title of a story without one.
\<close>

definition story_title_or :: "string \<Rightarrow> string \<Rightarrow> string" where
  "story_title_or dated title = (if str_trim title = [] then ''Story '' @ dated else title)"

definition story_entry ::
  "('e, 'z) dom_scheme \<Rightarrow> string \<Rightarrow> string \<Rightarrow> string \<Rightarrow> string \<Rightarrow> string \<Rightarrow> string \<Rightarrow> 'e" where
  "story_entry d our_bare uuid ts url media_type title =
     fold (d_with_child d)
       [text_element d ''id'' NS_ATOM (''urn:uuid:'' @ uuid), text_element d ''title'' NS_ATOM title,
        text_element d ''updated'' NS_ATOM ts, text_element d ''published'' NS_ATOM ts,
        d_with_child d (text_element d ''uri'' NS_ATOM (''xmpp:'' @ our_bare)) (d_bare d ''author'' NS_ATOM),
        d_with_attr d ''title'' title (d_with_attr d ''type'' media_type (d_with_attr d ''href'' url
          (d_with_attr d ''rel'' ''enclosure'' (d_bare d ''link'' NS_ATOM))))]
       (d_bare d ''entry'' NS_ATOM)"

definition publish_story ::
  "('e, 'z) dom_scheme \<Rightarrow> string \<Rightarrow> string \<Rightarrow> string \<Rightarrow> string \<Rightarrow> string \<Rightarrow> string \<Rightarrow> string \<Rightarrow> string \<Rightarrow> 'e" where
  "publish_story d our_bare req_id uuid ts dated url media_type title =
     pep_publish d req_id NS_STORIES (Some uuid)
       (story_entry d our_bare uuid ts url media_type (story_title_or dated title))
       (Some (story_publish_options d))"

subsection \<open>Receiving\<close>

record parsed_story =
  ps_uuid :: string
  ps_url :: string
  ps_type :: string
  ps_title :: "string option"
  ps_published :: i64

definition author_matches :: "('e, 'z) dom_scheme \<Rightarrow> 'e \<Rightarrow> string \<Rightarrow> bool" where
  "author_matches d entry contact =
     (case Option.bind (get_child d entry ''author'' NS_ATOM) (\<lambda>a. child_text d a ''uri'' NS_ATOM) of
        None \<Rightarrow> True
      | Some uri \<Rightarrow> (case strip_prefix uri ''xmpp:'' of
          None \<Rightarrow> True
        | Some jid \<Rightarrow> eq_ignore_ascii_case (to_bare jid) contact))"

definition story_link :: "('e, 'z) dom_scheme \<Rightarrow> 'e \<Rightarrow> 'e option" where
  "story_link d entry =
     find (\<lambda>c. d_name d c = ''link'' \<and> d_attr d c ''rel'' = Some ''enclosure'') (d_children d entry)"

definition story_time :: "('e, 'z) dom_scheme \<Rightarrow> ('c) chrono_scheme \<Rightarrow> int \<Rightarrow> 'e \<Rightarrow> i64" where
  "story_time d c now entry =
     (let el = (case get_child d entry ''published'' NS_ATOM of
          None \<Rightarrow> get_child d entry ''updated'' NS_ATOM | Some e \<Rightarrow> Some e) in
      case Option.bind el (\<lambda>e. ck_parse c (str_trim (d_text d e))) of
        None \<Rightarrow> now div 10 ^ 9 | Some t \<Rightarrow> t div 10 ^ 9)"

definition story_uuid :: "('e, 'z) dom_scheme \<Rightarrow> string option \<Rightarrow> 'e \<Rightarrow> string option" where
  "story_uuid d item_id entry =
     (case item_id of
        Some i \<Rightarrow> Some i
      | None \<Rightarrow> non_empty (map_option (\<lambda>t. case strip_prefix (str_trim t) ''urn:uuid:'' of
            None \<Rightarrow> str_trim t | Some u \<Rightarrow> u) (child_text d entry ''id'' NS_ATOM)))"

definition parse_story :: "('e, 'z) dom_scheme \<Rightarrow> ('c) chrono_scheme \<Rightarrow> int
    \<Rightarrow> string option \<Rightarrow> 'e \<Rightarrow> string \<Rightarrow> parsed_story option" where
  "parse_story d c now item_id entry contact =
     (if \<not> author_matches d entry contact then None
      else Option.bind (story_link d entry) (\<lambda>link. Option.bind (d_attr d link ''href'') (\<lambda>url.
        map_option (\<lambda>uuid.
          \<lparr>ps_uuid = uuid, ps_url = url,
           ps_type = (case d_attr d link ''type'' of None \<Rightarrow> ''application/octet-stream'' | Some t \<Rightarrow> t),
           ps_title = non_empty (child_text d entry ''title'' NS_ATOM),
           ps_published = story_time d c now entry\<rparr>)
        (story_uuid d item_id entry))))"

text \<open>\<open>store_items\<close>: the write cannot fail short of an I/O error, so every parsed item counts.\<close>

fun store_items :: "('e, 'z) dom_scheme \<Rightarrow> ('c) chrono_scheme \<Rightarrow> int \<Rightarrow> i64 \<Rightarrow> string
    \<Rightarrow> (string option \<times> 'e) list \<Rightarrow> story_db \<Rightarrow> nat \<times> story_db" where
  "store_items d c now a contact [] db = (0, db)"
| "store_items d c now a contact ((item_id, entry) # items) db =
     (case parse_story d c now item_id entry contact of
        None \<Rightarrow> store_items d c now a contact items db
      | Some p \<Rightarrow>
          let (n, db) = store_items d c now a contact items
                (upsert_story a (ps_uuid p) contact (ps_url p) (ps_type p) (ps_title p) (ps_published p) db)
          in (Suc n, db))"

definition fetch_stories :: "('e, 'z) dom_scheme \<Rightarrow> ('c) chrono_scheme \<Rightarrow> int \<Rightarrow> i64 \<Rightarrow> string
    \<Rightarrow> string option \<Rightarrow> 'e option \<Rightarrow> story_db \<Rightarrow> story_db" where
  "fetch_stories d c now a our_bare jid reply db =
     (case reply of
        None \<Rightarrow> db
      | Some r \<Rightarrow> snd (store_items d c now a (case jid of None \<Rightarrow> our_bare | Some j \<Rightarrow> j)
          (extract_items d r) db))"

definition story_event_items :: "('e, 'z) dom_scheme \<Rightarrow> 'e \<Rightarrow> 'e option" where
  "story_event_items d msg =
     (case Option.bind (get_child d msg ''event'' NS_PUBSUB_EVENT)
             (\<lambda>ev. get_child d ev ''items'' NS_PUBSUB_EVENT) of
        None \<Rightarrow> None
      | Some items \<Rightarrow> if d_attr d items ''node'' = Some NS_STORIES then Some items else None)"

definition published_items :: "('e, 'z) dom_scheme \<Rightarrow> 'e \<Rightarrow> (string option \<times> 'e) list" where
  "published_items d items = List.map_filter
     (\<lambda>c. map_option (\<lambda>e. (d_attr d c ''id'', e)) (get_child d c ''entry'' NS_ATOM)) (named d ''item'' items)"

definition retracted_ids :: "('e, 'z) dom_scheme \<Rightarrow> 'e \<Rightarrow> string list" where
  "retracted_ids d items = List.map_filter (\<lambda>c. d_attr d c ''id'') (named d ''retract'' items)"

definition story_handle_event :: "('e, 'z) dom_scheme \<Rightarrow> ('c) chrono_scheme \<Rightarrow> int \<Rightarrow> i64
    \<Rightarrow> 'e \<Rightarrow> story_db \<Rightarrow> (bool \<times> event list) \<times> story_db" where
  "story_handle_event d c now a msg db =
     (case story_event_items d msg of
        None \<Rightarrow> ((False, []), db)
      | Some items \<Rightarrow>
          let contact = to_bare (attr_or_empty d msg ''from'');
              db = fold delete_story (retracted_ids d items) db;
              (stored, db) = store_items d c now a contact (published_items d items) db
          in ((True, if 0 < stored \<or> named d ''retract'' items \<noteq> [] then [Stories_Updated a] else []), db))"

text \<open>Retracting our own story: the server's answer is what the local copy waits for.\<close>

datatype iq_reply = Reply_Ok | Reply_Error string

definition retract_story :: "string \<Rightarrow> iq_reply \<Rightarrow> (story_db, string, unit) act" where
  "retract_story uuid reply db =
     (case reply of
        Reply_Ok \<Rightarrow> (Inr (), delete_story uuid db)
      | Reply_Error e \<Rightarrow>
          if contains_str e ''item-not-found'' then (Inr (), delete_story uuid db) else (Inl e, db))"

subsection \<open>What the cache shows\<close>

lemma story_table_ok [simp]:
  "tbl_ok db \<Longrightarrow> tbl_ok (upsert_story a u contact url ty title t db)"
  "tbl_ok db \<Longrightarrow> tbl_ok (delete_story u db)"
  by (simp_all add: upsert_story_def delete_story_def)

text \<open>
  The story view is exactly the account's stories of the last 24 hours, newest first, and
  clearing the expired ones never removes a story that is still shown.
\<close>

theorem recent_stories_exact:
  assumes "tbl_ok db"
  shows "(\<forall>u r. (u, r) \<in> set (recent_stories a now db) \<longleftrightarrow>
        map_of db u = Some r \<and> story_account r = a \<and> now - 86400 \<le> story_published r)
    \<and> sorted_wrt (\<lambda>(_, r) (_, r'). story_published r' \<le> story_published r) (recent_stories a now db)
    \<and> recent_stories a now (expire_stories now db) = recent_stories a now db"
proof -
  have "filter (\<lambda>(_, r). story_account r = a \<and> now - STORY_TTL_SECS \<le> story_published r)
      (filter (\<lambda>(_, r). \<not> story_published r < now - STORY_TTL_SECS) db)
    = filter (\<lambda>(_, r). story_account r = a \<and> now - STORY_TTL_SECS \<le> story_published r) db"
    by (simp only: filter_filter) (rule filter_cong, auto)
  then have "recent_stories a now (expire_stories now db) = recent_stories a now db"
    by (simp add: recent_stories_def expire_stories_def)
  moreover have "sorted_wrt (\<lambda>(_, r) (_, r'). story_published r' \<le> story_published r) (recent_stories a now db)"
    unfolding recent_stories_def by (rule sorted_wrt_mono_rel[OF _ sorted_sort_desc]) auto
  ultimately show ?thesis
    using in_table_iff[OF assms] by (auto simp: recent_stories_def STORY_TTL_SECS_def)
qed

definition toy_story :: "i64 \<Rightarrow> story_row" where
  "toy_story t = \<lparr>story_account = 1, story_contact = ''ann@x'', story_url = ''https://x/a'',
     story_type = ''image/png'', story_title = None, story_published = t\<rparr>"

lemma recent_stories_exact_witness:
  "recent_stories 1 100000 [(''a'', toy_story 20000), (''b'', toy_story 5), (''c'', toy_story 30000)]
     = [(''c'', toy_story 30000), (''a'', toy_story 20000)]
   \<and> (\<forall>u r. (u, r) \<in> set (recent_stories 1 100000 [(''a'', toy_story 20000), (''b'', toy_story 5), (''c'', toy_story 30000)])
       \<longleftrightarrow> map_of [(''a'', toy_story 20000), (''b'', toy_story 5), (''c'', toy_story 30000)] u = Some r
         \<and> story_account r = 1 \<and> 100000 - 86400 \<le> story_published r)"
proof -
  have "tbl_ok [(''a'', toy_story 20000), (''b'', toy_story 5), (''c'', toy_story 30000)]"
    by (simp add: tbl_ok_def)
  from recent_stories_exact[OF this, of 1 100000] show ?thesis
    by (simp add: recent_stories_def toy_story_def sort_desc_def STORY_TTL_SECS_def)
qed

subsection \<open>Publishing reaches the contacts\<close>

lemma fold_children:
  assumes "dom_sound d"
  shows "d_children d (fold (d_with_child d) cs e) = d_children d e @ cs"
    and "d_name d (fold (d_with_child d) cs e) = d_name d e"
    and "d_ns d (fold (d_with_child d) cs e) = d_ns d e"
  using assms by (induction cs arbitrary: e) simp_all

lemma text_element_parts [simp]:
  assumes "dom_sound d"
  shows "d_name d (text_element d n ns t) = n" "d_ns d (text_element d n ns t) = ns"
    "d_text d (text_element d n ns t) = t"
  using assms by (simp_all add: text_element_def)

lemmas child_lookup = get_child_def child_attr_def child_text_def d_is_def

lemma parse_story_entry:
  assumes "dom_sound d" and "eq_ignore_ascii_case (to_bare our_bare) contact" and "title \<noteq> []"
  shows "parse_story d c now (Some uuid) (story_entry d our_bare uid ts url ty title) contact
    = Some \<lparr>ps_uuid = uuid, ps_url = url, ps_type = ty, ps_title = Some title,
        ps_published = (case ck_parse c (str_trim ts) of None \<Rightarrow> now div 10 ^ 9 | Some t \<Rightarrow> t div 10 ^ 9)\<rparr>"
  using assms
  by (simp add: parse_story_def author_matches_def story_link_def story_time_def story_uuid_def
      story_entry_def fold_children child_lookup NS_ATOM_def non_empty_def strip_prefix_def del: fold.simps)

text \<open>
  What is published is what contacts see: when the entry built for a story comes back as the
  only item of a notification from the publisher, the receiver caches exactly its address, type,
  title and time under the item's id, attributed to the publisher, and tells the interface; other
  cached stories stay as they were.
\<close>

theorem published_story_received:
  assumes "dom_sound d" and "story_event_items d msg = Some items"
    and "named d ''retract'' items = []"
    and "published_items d items = [(Some uuid, story_entry d us uuid ts url ty (story_title_or dated title))]"
    and "to_bare (attr_or_empty d msg ''from'') = us" and "map_of db uuid = None"
  shows "\<exists>db'. story_handle_event d c now a msg db = ((True, [Stories_Updated a]), db')
    \<and> (\<forall>u. u \<noteq> uuid \<longrightarrow> map_of db' u = map_of db u)
    \<and> map_of db' uuid = Some \<lparr>story_account = a, story_contact = us, story_url = url, story_type = ty,
         story_title = Some (story_title_or dated title),
         story_published = (case ck_parse c (str_trim ts) of None \<Rightarrow> now div 10 ^ 9 | Some t \<Rightarrow> t div 10 ^ 9)\<rparr>"
proof -
  have "eq_ignore_ascii_case (to_bare us) us" using assms(5) by (metis eq_ignore_ascii_case_refl to_bare_idem)
  moreover have "story_title_or dated title \<noteq> []" by (auto simp: story_title_or_def str_trim_def drop_ws_end_def)
  ultimately have parsed: "parse_story d c now (Some uuid)
      (story_entry d us uuid ts url ty (story_title_or dated title)) us
    = Some \<lparr>ps_uuid = uuid, ps_url = url, ps_type = ty, ps_title = Some (story_title_or dated title),
        ps_published = (case ck_parse c (str_trim ts) of None \<Rightarrow> now div 10 ^ 9 | Some t \<Rightarrow> t div 10 ^ 9)\<rparr>"
    using parse_story_entry[OF assms(1)] by blast
  have "retracted_ids d items = []" by (simp add: retracted_ids_def assms(3) List.map_filter_simps)
  then show ?thesis
    using assms(6) by (simp add: story_handle_event_def assms(2-5) parsed upsert_story_def store_simps)
qed

definition story_message :: "string \<Rightarrow> tree \<Rightarrow> tree" where
  "story_message from item = Tree ''message'' NS_CLIENT [(''from'', from)]
     [Tree ''event'' NS_PUBSUB_EVENT []
       [Tree ''items'' NS_PUBSUB_EVENT [(''node'', NS_STORIES)] [item] []] []] []"

definition story_item :: "string \<Rightarrow> string \<Rightarrow> string \<Rightarrow> tree" where
  "story_item author uuid url = Tree ''item'' NS_PUBSUB_EVENT [(''id'', uuid)]
     [story_entry tree_dom author uuid ''1000000000000'' url ''image/png'' ''t''] []"

lemma story_message_items:
  "story_event_items tree_dom (story_message from item)
     = Some (Tree ''items'' NS_PUBSUB_EVENT [(''node'', NS_STORIES)] [item] [])"
  by (simp add: story_event_items_def story_message_def child_lookup tree_dom_def NS_PUBSUB_EVENT_def)

lemma story_item_published:
  "published_items tree_dom (Tree ''items'' NS_PUBSUB_EVENT [(''node'', NS_STORIES)] [story_item author uuid url] [])
     = [(Some uuid, story_entry tree_dom author uuid ''1000000000000'' url ''image/png'' ''t'')]"
  by (simp add: published_items_def named_def List.map_filter_simps child_lookup tree_dom_def story_item_def
      story_entry_def)

lemma story_item_no_retract:
  "named tree_dom ''retract'' (Tree n ns as [story_item author uuid url] t) = []"
  by (simp add: named_def tree_dom_def story_item_def)

lemma published_story_received_witness:
  "\<exists>db'. story_handle_event tree_dom toy_chrono noon 1 (story_message ''ann@x/r'' (story_item ''ann@x'' ''s1'' ''u'')) []
      = ((True, [Stories_Updated 1]), db')
     \<and> map_option story_url (map_of db' ''s1'') = Some ''u''"
proof -
  have t: "story_title_or ''d'' ''t'' = ''t''" by code_simp
  have f: "to_bare (attr_or_empty tree_dom (story_message ''ann@x/r'' i) ''from'') = ''ann@x''" for i
    by (simp add: story_message_def tree_dom_def attr_or_empty_def to_bare_def)
  have p: "published_items tree_dom (Tree ''items'' NS_PUBSUB_EVENT [(''node'', NS_STORIES)] [story_item ''ann@x'' ''s1'' ''u''] [])
      = [(Some ''s1'', story_entry tree_dom ''ann@x'' ''s1'' ''1000000000000'' ''u'' ''image/png'' (story_title_or ''d'' ''t''))]"
    unfolding t by (rule story_item_published)
  from published_story_received[OF tree_dom_sound story_message_items story_item_no_retract p f, of "[]" toy_chrono noon 1]
  show ?thesis by auto
qed

subsection \<open>Whose story it is\<close>

lemma store_items_owner:
  "map_of (snd (store_items d c now a contact items db)) u = Some r \<Longrightarrow>
     (story_contact r, story_account r) = (case map_of db u of
        None \<Rightarrow> (contact, a) | Some old \<Rightarrow> (story_contact old, story_account old))"
proof (induction items arbitrary: db)
  case (Cons x items)
  obtain item_id entry where x: "x = (item_id, entry)" by (cases x)
  show ?case
  proof (cases "parse_story d c now item_id entry contact")
    case None
    then show ?thesis using Cons by (simp add: x)
  next
    case (Some p)
    then show ?thesis using Cons
      by (fastforce simp: x case_prod_beta Let_def upsert_story_def store_simps split: option.splits if_splits)
  qed
qed simp

lemma fold_delete_story: "map_of (fold delete_story ids db) u = (if u \<in> set ids then None else map_of db u)"
  by (induction ids arbitrary: db) (auto simp: delete_story_def store_simps)

text \<open>
  A notification can only add stories under its sender's own name: whatever it holds, a story
  in the cache afterwards is the sender's and the account's, or was in the cache before under the
  same id with the same contact and account.
\<close>

theorem story_attribution:
  assumes "map_of (snd (story_handle_event d c now a msg db)) u = Some r"
  shows "(story_contact r, story_account r) = (to_bare (attr_or_empty d msg ''from''), a)
    \<or> (\<exists>old. map_of db u = Some old
         \<and> (story_contact r, story_account r) = (story_contact old, story_account old))"
proof (cases "story_event_items d msg")
  case None
  then show ?thesis using assms by (simp add: story_handle_event_def)
next
  case (Some items)
  with assms show ?thesis
    using store_items_owner[of d c now a "to_bare (attr_or_empty d msg ''from'')" "published_items d items"
        "fold delete_story (retracted_ids d items) db" u r]
    by (auto simp: story_handle_event_def Let_def case_prod_beta fold_delete_story split: option.splits if_splits)
qed

lemma story_attribution_witness:
  "\<exists>r. map_of (snd (story_handle_event tree_dom toy_chrono noon 1
       (story_message ''ann@x/r'' (story_item ''ann@x'' ''s1'' ''u'')) [])) ''s1'' = Some r
     \<and> story_contact r = ''ann@x''"
proof -
  let ?db = "snd (story_handle_event tree_dom toy_chrono noon 1
       (story_message ''ann@x/r'' (story_item ''ann@x'' ''s1'' ''u'')) [])"
  have "map_option story_url (map_of ?db ''s1'') = Some ''u''" by code_simp
  then obtain r where r: "map_of ?db ''s1'' = Some r" by auto
  have "to_bare (attr_or_empty tree_dom (story_message ''ann@x/r'' i) ''from'') = ''ann@x''" for i
    by (simp add: story_message_def tree_dom_def attr_or_empty_def to_bare_def)
  with story_attribution[OF r] r show ?thesis by simp
qed

text \<open>
  What the cache does not check is who owns an id.  Any contact that publishes an entry under
  the id of somebody else's cached story replaces its address, type, title and time, while it is
  still shown as that other contact's story.
\<close>

theorem story_hijacked:
  assumes "dom_sound d" and "story_event_items d msg = Some items"
    and "named d ''retract'' items = []"
    and "published_items d items = [(Some uuid, story_entry d attacker uuid ts url ty title)]"
    and "to_bare (attr_or_empty d msg ''from'') = attacker" and "title \<noteq> []"
    and "map_of db uuid = Some r"
  shows "\<exists>r'. map_of (snd (story_handle_event d c now a msg db)) uuid = Some r'
    \<and> story_contact r' = story_contact r \<and> story_url r' = url \<and> story_title r' = Some title"
proof -
  have e: "eq_ignore_ascii_case (to_bare attacker) attacker"
    using assms(5) by (metis eq_ignore_ascii_case_refl to_bare_idem)
  have "\<exists>p. parse_story d c now (Some uuid) (story_entry d attacker uuid ts url ty title) attacker = Some p
      \<and> ps_uuid p = uuid \<and> ps_url p = url \<and> ps_title p = Some title"
    by (simp add: parse_story_entry[OF assms(1) e assms(6)])
  moreover have "retracted_ids d items = []" by (simp add: retracted_ids_def assms(3) List.map_filter_simps)
  ultimately show ?thesis
    using assms(7) by (auto simp: story_handle_event_def assms(2-5) upsert_story_def store_simps)
qed

lemma story_hijacked_witness:
  "\<exists>r. map_of (snd (story_handle_event tree_dom toy_chrono noon 1
       (story_message ''eve@y/r'' (story_item ''eve@y'' ''s1'' ''https://evil'')) [(''s1'', toy_story 5)])) ''s1'' = Some r
     \<and> story_contact r = ''ann@x'' \<and> story_url r = ''https://evil''"
proof -
  have f: "to_bare (attr_or_empty tree_dom (story_message ''eve@y/r'' i) ''from'') = ''eve@y''" for i
    by (simp add: story_message_def tree_dom_def attr_or_empty_def to_bare_def)
  from story_hijacked[OF tree_dom_sound story_message_items story_item_no_retract
      story_item_published[of "''eve@y''" "''s1''" "''https://evil''"] f,
      of "[(''s1'', toy_story 5)]" "toy_story 5" toy_chrono noon 1] show ?thesis by (auto simp: toy_story_def)
qed

end
