(* ===== verification/Webxdc.thy ===== *)
theory Webxdc
  imports Msg_Text Ui_Event Xml
begin

text \<open>
  Shared mini-apps: the log of status updates (\<open>crates/mxc-store/src/webxdc.rs\<close>, migration \<open>0012\<close>)
  and their protocol (\<open>crates/mxc-proto/src/xeps/webxdc.rs\<close>).  \<open>serde\<close> is the JSON library, reduced
  to the one question the code asks it: the string member \<open>key\<close> of the object a text parses to.
  The row's \<open>created_at\<close> is an argument.
\<close>

record serde =
  js_string_member :: "string \<Rightarrow> string \<Rightarrow> string option"

record update_row =
  up_account :: i64
  up_thread :: string
  up_message_id :: "string option"
  up_sender :: "string option"
  up_info :: "string option"
  up_document :: "string option"
  up_summary :: "string option"
  up_payload :: "string option"
  up_created :: string

record webxdc_db =
  t_updates :: "(i64, update_row) table"
  update_seq :: i64

subsection \<open>The update log\<close>

definition of_thread :: "i64 \<Rightarrow> string \<Rightarrow> update_row \<Rightarrow> bool" where
  "of_thread a thread r \<longleftrightarrow> up_account r = a \<and> up_thread r = thread"

definition known_update ::
  "((i64 \<times> update_row) list \<Rightarrow> (i64 \<times> update_row) option) \<Rightarrow> update_row \<Rightarrow> webxdc_db
    \<Rightarrow> (i64 \<times> update_row) option" where
  "known_update pick row db =
     (if up_message_id row = None then None
      else pick (filter (\<lambda>(_, r). of_thread (up_account row) (up_thread row) r
             \<and> up_message_id r = up_message_id row) (t_updates db)))"

definition insert_webxdc_update ::
  "((i64 \<times> update_row) list \<Rightarrow> (i64 \<times> update_row) option) \<Rightarrow> update_row \<Rightarrow> webxdc_db
    \<Rightarrow> i64 \<times> webxdc_db" where
  "insert_webxdc_update pick row db =
     (case known_update pick row db of
        Some (serial, _) \<Rightarrow> (serial, db)
      | None \<Rightarrow>
          let serial = update_seq db + 1 in
          (serial, db\<lparr>t_updates := t_updates db @ [(serial, row)], update_seq := serial\<rparr>))"

definition webxdc_updates_since :: "i64 \<Rightarrow> string \<Rightarrow> i64 \<Rightarrow> webxdc_db \<Rightarrow> (i64 \<times> update_row) list" where
  "webxdc_updates_since a thread after db =
     sort_key fst (filter (\<lambda>(serial, r). of_thread a thread r \<and> after < serial) (t_updates db))"

definition webxdc_max_serial :: "i64 \<Rightarrow> string \<Rightarrow> webxdc_db \<Rightarrow> i64" where
  "webxdc_max_serial a thread db =
     coalesce_max (map fst (filter (\<lambda>(_, r). of_thread a thread r) (t_updates db)))"

subsection \<open>Elements\<close>

definition NS_WEBXDC :: string where "NS_WEBXDC = ''urn:xmpp:webxdc:0''"
definition NS_JSON :: string where "NS_JSON = ''urn:xmpp:json:0''"

definition append_opt :: "('e, 'z) dom_scheme \<Rightarrow> string \<Rightarrow> string \<Rightarrow> string option \<Rightarrow> 'e \<Rightarrow> 'e" where
  "append_opt d n ns v e = (case v of None \<Rightarrow> e | Some t \<Rightarrow> d_with_child d (text_element d n ns t) e)"

definition build_update_x :: "('e, 'z) dom_scheme \<Rightarrow> string option \<Rightarrow> string option \<Rightarrow> string option
    \<Rightarrow> string option \<Rightarrow> 'e" where
  "build_update_x d payload document summary notify =
     append_opt d ''notify'' NS_WEBXDC (non_empty notify)
       (append_opt d ''summary'' NS_WEBXDC summary
         (append_opt d ''document'' NS_WEBXDC document
           (append_opt d ''json'' NS_JSON payload (d_bare d ''x'' NS_WEBXDC))))"

definition build_realtime_x :: "('e, 'z) dom_scheme \<Rightarrow> string \<Rightarrow> 'e" where
  "build_realtime_x d data = d_with_child d (text_element d ''data'' NS_WEBXDC data) (d_bare d ''x'' NS_WEBXDC)"

definition thread_element :: "('e, 'z) dom_scheme \<Rightarrow> string \<Rightarrow> 'e" where
  "thread_element d thread = text_element d ''thread'' NS_CLIENT thread"

definition notify_text_for :: "serde \<Rightarrow> string \<Rightarrow> string \<Rightarrow> string option" where
  "notify_text_for js notify bare =
     (case List.map_filter (\<lambda>key. non_empty (js_string_member js notify key)) [''xmpp:'' @ bare, bare, ''*''] of
        [] \<Rightarrow> None | text # _ \<Rightarrow> Some text)"

subsection \<open>JSON for the app\<close>

definition quote_char :: "char \<Rightarrow> string" where
  "quote_char c =
     (if c = CHR 0x22 then [CHR 0x5C, CHR 0x22]
      else if c = CHR 0x5C then [CHR 0x5C, CHR 0x5C]
      else if c = CHR 0x0A then [CHR 0x5C, CHR ''n'']
      else if c = CHR 0x0D then [CHR 0x5C, CHR ''r'']
      else if c = CHR 0x09 then [CHR 0x5C, CHR ''t'']
      else if byte_of c < 0x20 then [CHR 0x5C, CHR ''u'', CHR ''0'', CHR ''0''] @ hex_byte (word_of_nat (byte_of c))
      else [c])"

definition json_quote :: "string \<Rightarrow> string" where
  "json_quote s = [CHR 0x22] @ concat (map quote_char s) @ [CHR 0x22]"

definition json_member :: "string \<Rightarrow> string option \<Rightarrow> string" where
  "json_member key v = (case v of None \<Rightarrow> []
     | Some t \<Rightarrow> '','' @ [CHR 0x22] @ key @ [CHR 0x22] @ '':'' @ json_quote t)"

definition update_json :: "i64 \<Rightarrow> i64 \<Rightarrow> string option \<Rightarrow> string option \<Rightarrow> string option
    \<Rightarrow> string option \<Rightarrow> string option \<Rightarrow> string" where
  "update_json serial max_serial sender info document summary payload =
     ''{'' @ [CHR 0x22] @ ''serial'' @ [CHR 0x22] @ '':'' @ show_int serial
     @ '','' @ [CHR 0x22] @ ''max_serial'' @ [CHR 0x22] @ '':'' @ show_int max_serial
     @ json_member ''sender'' sender @ json_member ''info'' info
     @ json_member ''document'' document @ json_member ''summary'' summary
     @ (case payload of None \<Rightarrow> [] | Some p \<Rightarrow> '','' @ [CHR 0x22] @ ''payload'' @ [CHR 0x22] @ '':'' @ p)
     @ ''}''"

subsection \<open>Receiving\<close>

definition sub_text :: "('e, 'z) dom_scheme \<Rightarrow> 'e \<Rightarrow> string \<Rightarrow> string \<Rightarrow> string option" where
  "sub_text d x n ns = non_empty (child_text d x n ns)"

definition update_notification ::
  "('e, 'z) dom_scheme \<Rightarrow> serde \<Rightarrow> i64 \<Rightarrow> string \<Rightarrow> string \<Rightarrow> string \<Rightarrow> 'e \<Rightarrow> event list" where
  "update_notification d js a our_bare thread sender x =
     (if eq_ignore_ascii_case sender our_bare then []
      else (case Option.bind (sub_text d x ''notify'' NS_WEBXDC) (\<lambda>n. notify_text_for js n our_bare) of
          None \<Rightarrow> [] | Some text \<Rightarrow> [Webxdc_Notify a thread text]))"

definition handle_incoming_update ::
  "('e, 'z) dom_scheme \<Rightarrow> serde \<Rightarrow> ((i64 \<times> update_row) list \<Rightarrow> (i64 \<times> update_row) option) \<Rightarrow> string
    \<Rightarrow> i64 \<Rightarrow> string \<Rightarrow> string \<Rightarrow> string \<Rightarrow> string option \<Rightarrow> 'e \<Rightarrow> string option
    \<Rightarrow> webxdc_db \<Rightarrow> event list \<times> webxdc_db" where
  "handle_incoming_update d js pick now a our_bare thread sender message_id x info db =
     (case sub_text d x ''data'' NS_WEBXDC of
        Some data \<Rightarrow> ([Webxdc_Realtime a thread data], db)
      | None \<Rightarrow>
          let note = update_notification d js a our_bare thread sender x;
              row = \<lparr>up_account = a, up_thread = thread, up_message_id = message_id,
                up_sender = Some sender, up_info = non_empty info,
                up_document = sub_text d x ''document'' NS_WEBXDC, up_summary = sub_text d x ''summary'' NS_WEBXDC,
                up_payload = sub_text d x ''json'' NS_JSON, up_created = now\<rparr> in
          if up_document row = None \<and> up_summary row = None \<and> up_payload row = None \<and> up_info row = None
          then (note, db)
          else let (serial, db) = insert_webxdc_update pick row db
            in (note @ [Webxdc_Update a thread serial], db))"

definition webxdc_b64_decode :: "base64 \<Rightarrow> string \<Rightarrow> bytes option" where
  "webxdc_b64_decode b s = (case b64_decode b (str_trim s) of Inl _ \<Rightarrow> None | Inr bs \<Rightarrow> Some bs)"

subsection \<open>Reading the log\<close>

text \<open>Serials are handed out once and grow.\<close>

definition webxdc_ok :: "webxdc_db \<Rightarrow> bool" where
  "webxdc_ok db \<longleftrightarrow> tbl_ok (t_updates db) \<and> 0 \<le> update_seq db
     \<and> (\<forall>i\<in>set (map fst (t_updates db)). 0 < i \<and> i \<le> update_seq db)"

lemma insert_update_ok: "webxdc_ok db \<Longrightarrow> webxdc_ok (snd (insert_webxdc_update pick row db))"
  by (fastforce simp: webxdc_ok_def insert_webxdc_update_def tbl_ok_def Let_def split: option.split)

lemma coalesce_max_bound: "(\<And>i. i \<in> set is \<Longrightarrow> i \<le> n) \<Longrightarrow> 0 \<le> n \<Longrightarrow> coalesce_max is \<le> n"
proof -
  assume a: "\<And>i. i \<in> set is \<Longrightarrow> i \<le> n" "0 \<le> n"
  have "fold max xs i \<le> n" if "i \<le> n" "\<And>x. x \<in> set xs \<Longrightarrow> x \<le> n" for xs i
    using that by (induction xs arbitrary: i) auto
  with a show ?thesis by (cases "is") (auto simp: coalesce_max_def)
qed

lemma sort_key_single: "filter P xs = [x] \<Longrightarrow> sort_key f (filter P xs) = [x]"
  by simp

text \<open>
  A reader that pages with the greatest serial it has seen misses nothing and reads nothing
  twice: when an update that is not a repetition is stored, reading after the greatest serial the
  thread had before gives exactly that update, with the serial that was returned, and a repetition
  (the same message id) changes nothing and gives the serial of the first copy.
\<close>

theorem webxdc_paging_complete:
  assumes "webxdc_ok db" and "\<And>xs. pick xs = None \<longleftrightarrow> xs = []" and "\<And>xs x. pick xs = Some x \<Longrightarrow> x \<in> set xs"
    and "insert_webxdc_update pick row db = (serial, db')"
  shows "if \<exists>i r. (i, r) \<in> set (t_updates db) \<and> of_thread (up_account row) (up_thread row) r
        \<and> up_message_id r = up_message_id row \<and> up_message_id row \<noteq> None
    then db' = db \<and> (\<exists>r. (serial, r) \<in> set (t_updates db) \<and> up_message_id r = up_message_id row)
    else webxdc_updates_since (up_account row) (up_thread row)
        (webxdc_max_serial (up_account row) (up_thread row) db) db' = [(serial, row)]
      \<and> webxdc_max_serial (up_account row) (up_thread row) db < serial"
proof (cases "known_update pick row db")
  case (Some x)
  obtain i r where x: "x = (i, r)" by (cases x)
  have ne: "up_message_id row \<noteq> None" and pk: "pick (filter (\<lambda>(_, r). of_thread (up_account row) (up_thread row) r
      \<and> up_message_id r = up_message_id row) (t_updates db)) = Some (i, r)"
    using Some by (simp_all add: x known_update_def split: if_splits)
  have mem: "(i, r) \<in> set (t_updates db)" "of_thread (up_account row) (up_thread row) r"
      "up_message_id r = up_message_id row" "up_message_id row \<noteq> None"
    using assms(3)[OF pk] ne by simp_all
  moreover have "serial = i" "db' = db" using assms(4) Some by (simp_all add: x insert_webxdc_update_def)
  ultimately show ?thesis by auto
next
  case None
  then have new: "\<not> (\<exists>i r. (i, r) \<in> set (t_updates db) \<and> of_thread (up_account row) (up_thread row) r
        \<and> up_message_id r = up_message_id row \<and> up_message_id row \<noteq> None)"
    using assms(2) by (fastforce simp: known_update_def filter_empty_conv split: if_splits)
  let ?m = "webxdc_max_serial (up_account row) (up_thread row) db"
  have db': "serial = update_seq db + 1" "t_updates db' = t_updates db @ [(serial, row)]"
    using assms(4) None by (auto simp: insert_webxdc_update_def Let_def)
  have "?m \<le> update_seq db" using assms(1) unfolding webxdc_max_serial_def
    by (intro coalesce_max_bound) (auto simp: webxdc_ok_def)
  then have lt: "?m < serial" using db' by simp
  have "i \<le> ?m" if "(i, r) \<in> set (t_updates db)" "of_thread (up_account row) (up_thread row) r" for i r
    unfolding webxdc_max_serial_def using that by (intro coalesce_max_ge) force
  then have "filter (\<lambda>(serial, r). of_thread (up_account row) (up_thread row) r \<and> ?m < serial) (t_updates db) = []"
    by (fastforce simp: filter_empty_conv)
  with lt db' have since: "webxdc_updates_since (up_account row) (up_thread row) ?m db' = [(serial, row)]"
    by (simp add: webxdc_updates_since_def of_thread_def)
  show ?thesis unfolding if_not_P[OF new] using since lt by blast
qed

definition toy_update :: "string option \<Rightarrow> string \<Rightarrow> update_row" where
  "toy_update mid p = \<lparr>up_account = 1, up_thread = ''t'', up_message_id = mid, up_sender = Some ''ann@x'',
     up_info = None, up_document = None, up_summary = None, up_payload = Some p, up_created = ''now''\<rparr>"

definition first_update :: "(i64 \<times> update_row) list \<Rightarrow> (i64 \<times> update_row) option" where
  "first_update xs = (case xs of [] \<Rightarrow> None | x # _ \<Rightarrow> Some x)"

lemma webxdc_paging_complete_witness:
  "let db = \<lparr>t_updates = [(1, toy_update (Some ''m1'') ''1'')], update_seq = 1\<rparr>;
       (serial, db') = insert_webxdc_update first_update (toy_update (Some ''m2'') ''2'') db
   in webxdc_updates_since 1 ''t'' (webxdc_max_serial 1 ''t'' db) db' = [(serial, toy_update (Some ''m2'') ''2'')]"
proof -
  define db where "db = \<lparr>t_updates = [(1, toy_update (Some ''m1'') ''1'')], update_seq = 1\<rparr>"
  obtain serial db' where ins: "insert_webxdc_update first_update (toy_update (Some ''m2'') ''2'') db = (serial, db')"
    by fastforce
  have "webxdc_ok db" by (simp add: db_def webxdc_ok_def tbl_ok_def)
  moreover have "(first_update xs = None) = (xs = [])" "first_update xs = Some x \<Longrightarrow> x \<in> set xs" for xs x
    by (auto simp: first_update_def split: list.splits)
  ultimately show ?thesis
    using webxdc_paging_complete[OF _ _ _ ins] ins by (simp add: db_def[symmetric]) (simp add: db_def toy_update_def)
qed

subsection \<open>Quoting\<close>

text \<open>
  How a JSON reader reads a string: escapes are undone, a raw control character is an error, the
  first quote that is not escaped ends the string.  The rest of the input is returned.
\<close>

fun json_read :: "string \<Rightarrow> (string \<times> string) option" where
  "json_read [] = None"
| "json_read (c # s) =
     (if c = CHR 0x22 then Some ([], s)
      else if byte_of c < 0x20 then None
      else if c \<noteq> CHR 0x5C then map_option (\<lambda>(t, r). (c # t, r)) (json_read s)
      else (case s of
          [] \<Rightarrow> None
        | e # s' \<Rightarrow>
            if e = CHR ''u'' then (case s' of
                a # b # h # l # s2 \<Rightarrow>
                  (case (hex_digit_val a, hex_digit_val b, hex_digit_val h, hex_digit_val l) of
                     (Some i, Some j, Some x, Some y) \<Rightarrow>
                       if i = 0 \<and> j = 0 then map_option (\<lambda>(t, r). (char_of (16 * x + y) # t, r)) (json_read s2)
                       else None
                   | _ \<Rightarrow> None)
              | _ \<Rightarrow> None)
            else if e = CHR 0x22 \<or> e = CHR 0x5C then map_option (\<lambda>(t, r). (e # t, r)) (json_read s')
            else if e = CHR ''n'' then map_option (\<lambda>(t, r). (CHR 0x0A # t, r)) (json_read s')
            else if e = CHR ''r'' then map_option (\<lambda>(t, r). (CHR 0x0D # t, r)) (json_read s')
            else if e = CHR ''t'' then map_option (\<lambda>(t, r). (CHR 0x09 # t, r)) (json_read s')
            else None))"

lemma json_read_quote_char:
  "json_read (quote_char c @ s) = map_option (\<lambda>(t, r). (c # t, r)) (json_read s)"
proof (cases "c \<in> {CHR 0x22, CHR 0x5C, CHR 0x0A, CHR 0x0D, CHR 0x09}")
  case True
  then show ?thesis by (auto simp: quote_char_def byte_of_def)
next
  case False
  show ?thesis
  proof (cases "byte_of c < 0x20")
    case True
    have u: "unat (word_of_nat (byte_of c) :: u8) = byte_of c"
      using True by (simp add: unat_of_nat take_bit_eq_mod)
    have d: "byte_of c div 16 < 16" "byte_of c mod 16 < 16" using True by simp_all
    have "16 * (byte_of c div 16) + byte_of c mod 16 = byte_of c" by simp
    moreover have "char_of (byte_of c) = c" by (simp add: byte_of_def)
    moreover have "hex_digit_val CHR ''0'' = Some 0" by code_simp
    ultimately show ?thesis
      using False True d by (simp add: quote_char_def hex_byte_def u byte_of_def[of "CHR 0x5C"])
  next
    case nc: False
    then show ?thesis using False by (simp add: quote_char_def)
  qed
qed

text \<open>
  Whatever the text, the quoted string is one JSON string: a JSON reader that starts after the
  opening quote reads back exactly the text and stops exactly at the closing quote, so no member of
  an update can break out of its quotes into the script the app is fed.
\<close>

theorem json_quote_roundtrip:
  "\<exists>q. json_quote s @ rest = CHR 0x22 # q \<and> json_read q = Some (s, rest)"
proof -
  have "json_read (concat (map quote_char s) @ CHR 0x22 # rest) = Some (s, rest)"
    by (induction s) (simp_all add: json_read_quote_char del: json_read.simps, simp)
  then show ?thesis by (simp add: json_quote_def)
qed

end
