(* ===== verification/World.thy ===== *)
theory World
  imports Sce_Binding Bob Stories Webxdc Bundle
begin

text \<open>
  What the message handlers of \<open>crates/mxc-proto/src/xeps/messaging.rs\<close> work on: the tables of the
  store they write, the sticker cache, the stanzas queued for the connection and the events sent to
  the interface, with the shared steps at the end of the file (\<open>fetch_row\<close>, \<open>persist_and_emit\<close>) and
  in its middle (\<open>is_omemo\<close>, \<open>encrypt_envelope\<close>, \<open>send_meta\<close>).

  A panic of a handler is the error \<open>Panicked\<close>; the writes made before it stay.

  \<open>services\<close> holds what the handlers call outside the modelled files: the libraries, the clock
  (\<open>sv_now i\<close> is the \<open>i\<close>-th time the handling reads it), the random bytes, the upload server, and the
  OMEMO engine and the calls, which keep a state of their own, \<open>w_engine\<close>, and never write the tables
  of this record.
\<close>

datatype app_error = Store_Error store_error | App_Error string | Panicked

record decrypted =
  dec_envelope :: string
  dec_fingerprint :: string
  dec_key_transport :: bool
  dec_was_kex :: bool
  dec_heartbeat_due :: bool
  dec_sender_device :: u32

record ('e, 'o) services =
  sv_dom :: "'e dom"
  sv_chrono :: chrono
  sv_xml :: quick_xml
  sv_json :: serde
  sv_b64 :: base64
  sv_sha256 :: "bytes \<Rightarrow> bytes"
  sv_cache :: cache_env
  sv_account :: i64
  sv_bare :: string
  sv_now :: "nat \<Rightarrow> int"
  sv_rng :: "nat \<Rightarrow> u32"
  sv_pick :: "message list \<Rightarrow> message option"
  sv_pick_xdc :: "(i64 \<times> update_row) list \<Rightarrow> (i64 \<times> update_row) option"
  sv_json_file :: "string \<Rightarrow> string \<Rightarrow> string"
  sv_json_files :: "shared_file list \<Rightarrow> string"
  sv_alphanumeric :: "string \<Rightarrow> bool"
  sv_connected :: bool
  sv_read_file :: "string \<Rightarrow> string + bytes"
  sv_upload :: "bytes \<Rightarrow> string \<Rightarrow> string \<Rightarrow> 'o \<Rightarrow> (string + string) \<times> 'o"
  sv_bob_fetch :: "string \<Rightarrow> string \<Rightarrow> 'o \<Rightarrow> (string + bytes) \<times> 'o"
  sv_encrypt :: "string list \<Rightarrow> string option \<Rightarrow> string \<Rightarrow> 'o \<Rightarrow> (string + 'e) \<times> 'o"
  sv_decrypt :: "'e \<Rightarrow> string \<Rightarrow> string option \<Rightarrow> 'o \<Rightarrow> (string + decrypted) \<times> 'o"
  sv_maintain :: "'o \<Rightarrow> 'o"
  sv_heartbeat :: "string \<Rightarrow> u32 \<Rightarrow> 'o \<Rightarrow> 'o"
  sv_reconcile :: "string \<Rightarrow> u32 \<Rightarrow> 'o \<Rightarrow> 'o"
  sv_forget_failures :: "string \<Rightarrow> 'o \<Rightarrow> 'o"
  sv_heal :: "string \<Rightarrow> u32 \<Rightarrow> 'o \<Rightarrow> 'o"
  sv_call_message :: "'e \<Rightarrow> 'o \<Rightarrow> bool \<times> 'o"

record ('e, 'o) world =
  w_messages :: message_db
  w_stories :: story_db
  w_webxdc :: webxdc_db
  w_files :: file_sys
  w_sent :: "'e list"
  w_events :: "event list"
  w_engine :: 'o

type_synonym ('e, 'o, 'a) app = "(('e, 'o) world, app_error, 'a) act"

subsection \<open>Steps\<close>

definition on_messages :: "'a store_act \<Rightarrow> ('e, 'o, 'a) app" where
  "on_messages m w = (case m (w_messages w) of
     (Inl e, db) \<Rightarrow> (Inl (Store_Error e), w\<lparr>w_messages := db\<rparr>)
   | (Inr x, db) \<Rightarrow> (Inr x, w\<lparr>w_messages := db\<rparr>))"

definition read_messages :: "(message_db \<Rightarrow> 'a) \<Rightarrow> ('e, 'o, 'a) app" where
  "read_messages f = act_read (\<lambda>w. f (w_messages w))"

definition write_messages :: "(message_db \<Rightarrow> message_db) \<Rightarrow> ('e, 'o, unit) app" where
  "write_messages f = act_modify (\<lambda>w. w\<lparr>w_messages := f (w_messages w)\<rparr>)"

definition emit :: "event \<Rightarrow> ('e, 'o, unit) app" where
  "emit ev = act_modify (\<lambda>w. w\<lparr>w_events := w_events w @ [ev]\<rparr>)"

text \<open>\<open>w.send\<close> fails once the connection's queue is closed.\<close>

definition send_stanza :: "('e, 'o) services \<Rightarrow> 'e \<Rightarrow> ('e, 'o, unit) app" where
  "send_stanza sv el =
     (if sv_connected sv then act_modify (\<lambda>w. w\<lparr>w_sent := w_sent w @ [el]\<rparr>)
      else act_throw (App_Error ''connection writer closed''))"

definition on_engine :: "('o \<Rightarrow> 'a \<times> 'o) \<Rightarrow> ('e, 'o, 'a) app" where
  "on_engine f w = (let (x, o') = f (w_engine w) in (Inr x, w\<lparr>w_engine := o'\<rparr>))"

definition run_engine :: "('o \<Rightarrow> 'o) \<Rightarrow> ('e, 'o, unit) app" where
  "run_engine f = act_modify (\<lambda>w. w\<lparr>w_engine := f (w_engine w)\<rparr>)"

definition fallible :: "(string + 'a) \<Rightarrow> ('e, 'o, 'a) app" where
  "fallible r = (case r of Inl e \<Rightarrow> act_throw (App_Error e) | Inr x \<Rightarrow> act_ret x)"

text \<open>\<open>let _ = m\<close> and \<open>if let Err(e) = m\<close> with a log line: the error is dropped, the writes stay.\<close>

definition ignore_error :: "('e, 'o, 'a) app \<Rightarrow> ('e, 'o, unit) app" where
  "ignore_error m w = (Inr (), snd (m w))"

definition act_seq :: "('s, 'e, 'b) act \<Rightarrow> ('s, 'e, 'a) act \<Rightarrow> ('s, 'e, 'a) act" where
  "act_seq m n = act_bind m (\<lambda>_. n)"

definition act_when :: "bool \<Rightarrow> ('s, 'e, unit) act \<Rightarrow> ('s, 'e, unit) act" where
  "act_when b m = (if b then m else act_ret ())"

lemma world_eval [act_simps]:
  "read_messages f w = (Inr (f (w_messages w)), w)"
  "write_messages g w = (Inr (), w\<lparr>w_messages := g (w_messages w)\<rparr>)"
  "emit ev w = (Inr (), w\<lparr>w_events := w_events w @ [ev]\<rparr>)"
  "ignore_error m w = (Inr (), snd (m w))"
  "run_engine h w = (Inr (), w\<lparr>w_engine := h (w_engine w)\<rparr>)"
  "act_seq m' n w' = (case m' w' of (Inl e, t) \<Rightarrow> (Inl e, t) | (Inr x, t) \<Rightarrow> n t)"
  by (simp_all add: read_messages_def write_messages_def emit_def ignore_error_def run_engine_def
      act_seq_def act_simps)

lemma act_keeps_seq [intro]: "act_keeps P m \<Longrightarrow> act_keeps P n \<Longrightarrow> act_keeps P (act_seq m n)"
  unfolding act_seq_def by (rule act_keeps_bind) auto

lemma act_keeps_when [intro]: "(b \<Longrightarrow> act_keeps P m) \<Longrightarrow> act_keeps P (act_when b m)"
  by (simp add: act_when_def)

lemma act_keeps_ignore [intro]: "act_keeps P m \<Longrightarrow> act_keeps P (ignore_error m)"
  by (simp add: act_keeps_def ignore_error_def)

lemma act_keeps_read_messages [simp, intro]: "act_keeps P (read_messages f)"
  by (simp add: read_messages_def)

lemma act_keeps_fallible [simp, intro]: "act_keeps P (fallible r)"
  by (simp add: fallible_def split: sum.split)

subsection \<open>Storing a message\<close>

definition fetch_row :: "i64 \<Rightarrow> i64 \<Rightarrow> message_db \<Rightarrow> message option" where
  "fetch_row conv i db = find (\<lambda>(j, _). j = i) (recent_messages conv 200 db)"

definition persist_and_emit ::
  "('e, 'o) services \<Rightarrow> i64 \<Rightarrow> new_message \<Rightarrow> bool \<Rightarrow> bool \<Rightarrow> bool \<Rightarrow> bool \<Rightarrow> ('e, 'o, unit) app" where
  "persist_and_emit sv conv msg bump live mentioned reply_to_me =
     act_bind (on_messages (insert_message (sv_pick sv) msg)) (\<lambda>inserted. case inserted of
       None \<Rightarrow> act_ret ()
     | Some i \<Rightarrow>
         act_seq (case new_attachment msg of None \<Rightarrow> act_ret ()
                  | Some att \<Rightarrow> write_messages (set_attachment i att))
        (act_seq (act_when bump (write_messages (bump_unread conv)))
        (act_seq (act_bind (read_messages (fetch_row conv i)) (\<lambda>row. case row of
             None \<Rightarrow> act_ret ()
           | Some r \<Rightarrow> emit (Message_Stored (sv_account sv) conv r live mentioned reply_to_me)))
        (act_bind (read_messages (conversations (sv_account sv)))
           (\<lambda>items. emit (Conversations_Updated (sv_account sv) items))))))"

definition conv_kind_name :: "string option \<Rightarrow> string" where
  "conv_kind_name kind =
     (if kind = Some ''muc'' then ''muc'' else if kind = Some ''muc_pm'' then ''muc_pm'' else ''chat'')"

definition now_text :: "('e, 'o) services \<Rightarrow> nat \<Rightarrow> string" where
  "now_text sv i = rfc3339_now (sv_chrono sv) (sv_now sv i)"

subsection \<open>Encrypting for a conversation\<close>

datatype encryption = Encryption_None | Encryption_Omemo2

fun enc_str :: "encryption \<Rightarrow> string" where
  "enc_str Encryption_None = ''none''"
| "enc_str Encryption_Omemo2 = ''omemo2''"

definition eme_hint :: "('e, 'z) dom_scheme \<Rightarrow> 'e" where
  "eme_hint d = d_with_attr d ''namespace'' NS_OMEMO2
     (d_with_attr d ''name'' ''PQ-OMEMO2'' (d_bare d ''encryption'' ''urn:xmpp:eme:0''))"

definition is_omemo :: "('e, 'o) services \<Rightarrow> string \<Rightarrow> message_db \<Rightarrow> bool" where
  "is_omemo sv to_jid db \<longleftrightarrow> conversation_encryption (sv_account sv) to_jid db = Some ''omemo2''"

definition encrypt_envelope ::
  "('e, 'o) services \<Rightarrow> string \<Rightarrow> bool \<Rightarrow> string option \<Rightarrow> string \<Rightarrow> ('e, 'o, 'e) app" where
  "encrypt_envelope sv to_jid is_muc binding_to envelope =
     (if is_muc then
        act_bind (on_messages (conversation_id (sv_account sv) to_jid ''muc'')) (\<lambda>conv.
        act_bind (read_messages (muc_member_jids conv (sv_bare sv))) (\<lambda>members.
          if members = [] then act_throw (App_Error ''no known members to encrypt to'')
          else act_bind (on_engine (sv_encrypt sv members binding_to envelope)) fallible))
      else act_bind (on_engine (sv_encrypt sv [to_jid] binding_to envelope)) fallible)"

text \<open>The parts every outgoing message starts with.\<close>

definition msg_type :: "string option \<Rightarrow> string" where
  "msg_type kind = (if kind = Some ''muc'' then ''groupchat'' else ''chat'')"

definition message_to :: "('e, 'z) dom_scheme \<Rightarrow> string option \<Rightarrow> string \<Rightarrow> 'e" where
  "message_to d kind to_jid = d_with_attr d ''type'' (msg_type kind)
     (d_with_attr d ''to'' to_jid (d_bare d ''message'' NS_CLIENT))"

definition with_id :: "('e, 'z) dom_scheme \<Rightarrow> string \<Rightarrow> 'e \<Rightarrow> 'e" where
  "with_id d origin_id msg =
     d_with_child d (d_with_attr d ''id'' origin_id (d_bare d ''origin-id'' NS_SID))
       (d_with_attr d ''id'' origin_id msg)"

definition hint :: "('e, 'z) dom_scheme \<Rightarrow> string \<Rightarrow> 'e" where
  "hint d name = d_bare d name NS_HINTS"

definition pm_mark :: "('e, 'z) dom_scheme \<Rightarrow> string option \<Rightarrow> 'e list" where
  "pm_mark d kind = (if kind = Some ''muc_pm'' then [d_bare d ''x'' NS_MUC_USER] else [])"

definition receipt_marks :: "('e, 'z) dom_scheme \<Rightarrow> string option \<Rightarrow> 'e list" where
  "receipt_marks d kind =
     (if kind = Some ''muc'' then []
      else [d_bare d ''request'' NS_RECEIPTS, d_bare d ''markable'' NS_MARKERS])"

definition fallback_body :: "('e, 'z) dom_scheme \<Rightarrow> 'e" where
  "fallback_body d = text_element d ''body'' NS_CLIENT ''This message is PQ OMEMO2 encrypted.''"

definition binding_of :: "string option \<Rightarrow> string \<Rightarrow> string option" where
  "binding_of kind to_jid = (if kind = Some ''muc_pm'' then None else Some to_jid)"

definition seal ::
  "('e, 'o) services \<Rightarrow> string option \<Rightarrow> string \<Rightarrow> envelope \<Rightarrow> ('e, 'o, 'e) app" where
  "seal sv kind to_jid env = encrypt_envelope sv to_jid (kind = Some ''muc'') (binding_of kind to_jid)
     (envelope_to_xml (sv_xml sv) (sv_rng sv) env)"

definition send_meta :: "('e, 'o) services \<Rightarrow> string \<Rightarrow> 'e list \<Rightarrow> bool \<Rightarrow> ('e, 'o, unit) app" where
  "send_meta sv to_jid elements archive =
     (let d = sv_dom sv; h = hint d (if archive then ''store'' else ''no-store'') in
      act_bind (read_messages (conversation_kind (sv_account sv) to_jid)) (\<lambda>kind.
      act_bind (read_messages (is_omemo sv to_jid)) (\<lambda>encrypted.
        if encrypted then
          act_bind (seal sv kind to_jid (envelope_with_content (concat (map (d_show d) elements))
              (sv_bare sv) to_jid (Some (now_text sv 0)))) (\<lambda>enc.
            send_stanza sv (with_children d [enc, eme_hint d, h] (message_to d kind to_jid)))
        else send_stanza sv (with_children d (h # elements) (message_to d kind to_jid)))))"

end
