(* ===== verification/Outgoing.thy ===== *)
theory Outgoing
  imports World
begin

text \<open>
  Sending (\<open>crates/mxc-proto/src/xeps/messaging.rs\<close>): texts, the offline outbox, chat states,
  reactions, corrections, retractions, files, stickers and mini-app updates.  Generated ids
  (\<open>new_id\<close>) are arguments.  Each function is the whole of its source function: the store, the
  stanza, the row, the events.
\<close>

subsection \<open>Texts\<close>

text \<open>The reply element of an encrypted text, formatted as text; nothing is escaped.\<close>

definition reply_xml :: "string option \<Rightarrow> string \<Rightarrow> string" where
  "reply_xml reply_to to_jid =
     (case reply_to of None \<Rightarrow> []
      | Some rid \<Rightarrow> ''<reply xmlns='' @ quoted NS_REPLY @ '' id='' @ quoted rid
          @ '' to='' @ quoted to_jid @ ''/>'')"

definition text_envelope ::
  "('e, 'o) services \<Rightarrow> string \<Rightarrow> string \<Rightarrow> string option \<Rightarrow> 'e list \<Rightarrow> envelope" where
  "text_envelope sv to_jid body reply_to payloads =
     envelope_new (sv_xml sv) body (sv_bare sv) to_jid (Some (now_text sv 0))
       (reply_xml reply_to to_jid @ concat (map (d_show (sv_dom sv)) payloads))"

definition chat_message :: "('e, 'z) dom_scheme \<Rightarrow> string option \<Rightarrow> string \<Rightarrow> string \<Rightarrow> 'e" where
  "chat_message d kind to_jid origin_id =
     with_children d (pm_mark d kind @ receipt_marks d kind) (with_id d origin_id (message_to d kind to_jid))"

definition sealed_parts :: "('e, 'z) dom_scheme \<Rightarrow> 'e \<Rightarrow> 'e list" where
  "sealed_parts d enc = [enc, eme_hint d, hint d ''store'', fallback_body d]"

definition reply_element :: "('e, 'z) dom_scheme \<Rightarrow> string option \<Rightarrow> string \<Rightarrow> 'e list" where
  "reply_element d reply_to to_jid =
     (case reply_to of None \<Rightarrow> []
      | Some rid \<Rightarrow> [d_with_attr d ''to'' to_jid (d_with_attr d ''id'' rid (d_bare d ''reply'' NS_REPLY))])"

definition send_text_stanza :: "('e, 'o) services \<Rightarrow> string \<Rightarrow> string \<Rightarrow> encryption \<Rightarrow> string option
    \<Rightarrow> string \<Rightarrow> 'e list \<Rightarrow> ('e, 'o, unit) app" where
  "send_text_stanza sv to_jid body enc reply_to origin_id payloads =
     (let d = sv_dom sv in
      act_bind (read_messages (conversation_kind (sv_account sv) to_jid)) (\<lambda>kind.
        let msg = chat_message d kind to_jid origin_id in
        case enc of
          Encryption_None \<Rightarrow> send_stanza sv (with_children d
            (reply_element d reply_to to_jid @ [text_element d ''body'' NS_CLIENT body] @ payloads) msg)
        | Encryption_Omemo2 \<Rightarrow>
            act_bind (seal sv kind to_jid (text_envelope sv to_jid body reply_to payloads)) (\<lambda>e.
              send_stanza sv (with_children d (sealed_parts d e) msg))))"

text \<open>The row of our own message, and the end all the sending functions share.\<close>

definition own_message :: "('e, 'o) services \<Rightarrow> i64 \<Rightarrow> string \<Rightarrow> string \<Rightarrow> encryption \<Rightarrow> string option
    \<Rightarrow> string \<Rightarrow> string option \<Rightarrow> string option \<Rightarrow> new_message" where
  "own_message sv conv to_jid body enc reply_to origin_id attachment thread =
     \<lparr>new_conversation_id = conv, new_stanza_id = None, new_origin_id = Some origin_id,
      new_counterpart = to_jid, new_direction = Out, new_body = Some body,
      new_encryption = enc_str enc, new_reply_to = reply_to, new_fingerprint = None,
      new_attachment = attachment, new_occupant_id = None, new_timestamp = now_text sv 1,
      new_thread = thread\<rparr>"

definition announce_state :: "string \<Rightarrow> string \<Rightarrow> ('e, 'o, unit) app" where
  "announce_state marker st =
     act_seq (write_messages (set_message_state marker st)) (emit (Message_State marker st))"

definition persist_own :: "('e, 'o) services \<Rightarrow> string \<Rightarrow> string \<Rightarrow> encryption \<Rightarrow> string option
    \<Rightarrow> string \<Rightarrow> string option \<Rightarrow> string option \<Rightarrow> string \<Rightarrow> ('e, 'o, unit) app" where
  "persist_own sv to_jid body enc reply_to origin_id attachment thread st =
     act_bind (read_messages (conversation_kind (sv_account sv) to_jid)) (\<lambda>kind.
     act_bind (on_messages (conversation_id (sv_account sv) to_jid (conv_kind_name kind))) (\<lambda>conv.
     act_seq (persist_and_emit sv conv
         (own_message sv conv to_jid body enc reply_to origin_id attachment thread) False True False False)
       (announce_state origin_id st)))"

definition send_message :: "('e, 'o) services \<Rightarrow> string \<Rightarrow> string \<Rightarrow> encryption \<Rightarrow> string option
    \<Rightarrow> bool \<Rightarrow> string \<Rightarrow> ('e, 'o, unit) app" where
  "send_message sv to_jid body enc reply_to online origin_id =
     act_seq (act_when online (send_text_stanza sv to_jid body enc reply_to origin_id []))
       (persist_own sv to_jid body enc reply_to origin_id None None
         (if online then ''sent'' else ''pending''))"

subsection \<open>The outbox\<close>

definition pend_enc :: "pending_message \<Rightarrow> encryption" where
  "pend_enc m = (if pend_encryption m = ''omemo2'' then Encryption_Omemo2 else Encryption_None)"

definition resend :: "('e, 'o) services \<Rightarrow> pending_message \<Rightarrow> ('e, 'o, unit) app" where
  "resend sv m = send_text_stanza sv (pend_to m) (pend_body m) (pend_enc m) (pend_reply_to m)
     (pend_origin_id m) []"

text \<open>One round of the loop; a message that cannot be sent is skipped (\<open>continue\<close>).\<close>

definition flush_one :: "('e, 'o) services \<Rightarrow> pending_message \<Rightarrow> ('e, 'o, unit) app" where
  "flush_one sv m w = (case resend sv m w of
     (Inl _, w') \<Rightarrow> (Inr (), w')
   | (Inr _, w') \<Rightarrow> announce_state (pend_origin_id m) ''sent'' w')"

definition flush_outbox :: "('e, 'o) services \<Rightarrow> ('e, 'o, unit) app" where
  "flush_outbox sv = act_bind (read_messages (pending_messages (sv_account sv))) (act_iter (flush_one sv))"

subsection \<open>Chat states, markers and reactions\<close>

definition send_chat_state :: "('e, 'o) services \<Rightarrow> string \<Rightarrow> string \<Rightarrow> ('e, 'o, unit) app" where
  "send_chat_state sv to_jid st = send_meta sv to_jid [d_bare (sv_dom sv) st NS_CHATSTATES] False"

definition send_read_marker :: "('e, 'o) services \<Rightarrow> string \<Rightarrow> string \<Rightarrow> ('e, 'o, unit) app" where
  "send_read_marker sv to_jid stanza_id =
     send_meta sv to_jid [d_with_attr (sv_dom sv) ''id'' stanza_id (d_bare (sv_dom sv) ''displayed'' NS_MARKERS)] False"

definition reactions_element :: "('e, 'z) dom_scheme \<Rightarrow> string \<Rightarrow> string list \<Rightarrow> 'e" where
  "reactions_element d target_id emojis =
     with_children d (map (text_element d ''reaction'' NS_REACTIONS) emojis)
       (d_with_attr d ''id'' target_id (d_bare d ''reactions'' NS_REACTIONS))"

definition send_reaction_stanza ::
  "('e, 'o) services \<Rightarrow> string \<Rightarrow> bool \<Rightarrow> string \<Rightarrow> string \<Rightarrow> string list \<Rightarrow> ('e, 'o, unit) app" where
  "send_reaction_stanza sv to_jid is_muc rx_id ref_id emojis =
     (let d = sv_dom sv; el = reactions_element d ref_id emojis in
      act_bind (read_messages (is_omemo sv to_jid)) (\<lambda>encrypted.
        if is_muc \<and> \<not> encrypted then
          send_stanza sv (with_children d [el, hint d ''store'']
            (d_with_attr d ''id'' rx_id (message_to d (Some ''muc'') to_jid)))
        else send_meta sv to_jid [el] True))"

text \<open>Toggling: an emoji already set is removed, a new one is put at the end.\<close>

definition toggle :: "string \<Rightarrow> string list \<Rightarrow> string list" where
  "toggle e xs = (if e \<in> set xs then remove1 e xs else xs @ [e])"

definition react :: "('e, 'o) services \<Rightarrow> string \<Rightarrow> string \<Rightarrow> string \<Rightarrow> string list \<Rightarrow> ('e, 'o, unit) app" where
  "react sv to_jid rx_id target_id emojis =
     act_bind (read_messages (conversation_kind (sv_account sv) to_jid)) (\<lambda>k.
       let is_muc = (k = Some ''muc'') in
       act_bind (on_messages (conversation_id (sv_account sv) to_jid (if is_muc then ''muc'' else ''chat''))) (\<lambda>conv.
       act_bind (read_messages (message_by_marker conv target_id)) (\<lambda>target. case target of
         None \<Rightarrow> send_reaction_stanza sv to_jid is_muc rx_id target_id emojis
       | Some (i, r) \<Rightarrow>
           let ref_id = (if is_muc then (case msg_stanza_id r of None \<Rightarrow> target_id | Some s \<Rightarrow> s) else target_id) in
           act_bind (if is_muc then read_messages (muc_self_occupant conv) else act_ret None) (\<lambda>occ.
             let reactor = (case occ of None \<Rightarrow> sv_bare sv | Some x \<Rightarrow> x) in
             act_bind (read_messages (\<lambda>db. fold toggle emojis (reactions_of i reactor db))) (\<lambda>desired.
             act_seq (send_reaction_stanza sv to_jid is_muc rx_id ref_id desired)
            (act_seq (on_messages (set_reactions i reactor (Some ''You'') desired))
            (act_bind (read_messages (reactions i)) (\<lambda>tallies.
               emit (Reactions_Updated (sv_account sv) conv i tallies)))))))))"

subsection \<open>Corrections and retractions\<close>

definition emit_edited :: "('e, 'o) services \<Rightarrow> i64 \<Rightarrow> i64 \<Rightarrow> ('e, 'o, unit) app" where
  "emit_edited sv conv i = act_bind (read_messages (fetch_row conv i)) (\<lambda>row. case row of
     None \<Rightarrow> act_ret () | Some r \<Rightarrow> emit (Message_Edited (sv_account sv) conv r))"

definition send_correction ::
  "('e, 'o) services \<Rightarrow> string \<Rightarrow> string \<Rightarrow> string \<Rightarrow> i64 \<Rightarrow> ('e, 'o, unit) app" where
  "send_correction sv to_jid target_id new_text conv =
     (let d = sv_dom sv in
      act_seq (send_meta sv to_jid
          [d_with_attr d ''id'' target_id (d_bare d ''replace'' NS_CORRECT),
           text_element d ''body'' NS_CLIENT new_text] True)
        (act_bind (on_messages (apply_correction conv target_id new_text)) (\<lambda>m. case m of
           None \<Rightarrow> act_ret () | Some i \<Rightarrow> emit_edited sv conv i)))"

definition send_retraction ::
  "('e, 'o) services \<Rightarrow> string \<Rightarrow> string \<Rightarrow> i64 \<Rightarrow> ('e, 'o, unit) app" where
  "send_retraction sv to_jid target_id conv =
     (let d = sv_dom sv in
      act_seq (send_meta sv to_jid
          [d_with_attr d ''id'' target_id (d_bare d ''retract'' NS_RETRACT),
           d_with_attr d ''for'' NS_RETRACT (d_bare d ''fallback'' NS_FALLBACK),
           text_element d ''body'' NS_CLIENT ''[This message was retracted]''] True)
        (act_bind (on_messages (retract_message conv target_id)) (\<lambda>m. case m of
           None \<Rightarrow> act_ret ()
         | Some (i, old) \<Rightarrow> emit (Message_Retracted (sv_account sv) conv i old))))"

end
