(* ===== verification/File_Sending.thy ===== *)
theory File_Sending
  imports Outgoing
begin

text \<open>
  Sending files, stickers and mini-apps, and where a download is put
  (\<open>crates/mxc-proto/src/xeps/messaging.rs\<close>).  Reading a file and the encrypted upload
  (\<open>xeps/http_upload.rs\<close>) are services.
\<close>

subsection \<open>Names\<close>

text \<open>\<open>Path::file_name\<close> of a Unix path\<close>

definition path_file_name :: "string \<Rightarrow> string option" where
  "path_file_name p =
     (case rev (filter (\<lambda>c. c \<noteq> [] \<and> c \<noteq> ''.'') (split_on CHR ''/'' p)) of
        [] \<Rightarrow> None | c # _ \<Rightarrow> if c = ''..'' then None else Some c)"

definition file_name_or :: "string \<Rightarrow> string \<Rightarrow> string" where
  "file_name_or dflt p = (case path_file_name p of None \<Rightarrow> dflt | Some n \<Rightarrow> n)"

definition trimmed_caption :: "string option \<Rightarrow> string option" where
  "trimmed_caption caption = non_empty (map_option str_trim caption)"

definition upload_of :: "('e, 'o) services \<Rightarrow> bytes \<Rightarrow> string \<Rightarrow> string \<Rightarrow> ('e, 'o, string) app" where
  "upload_of sv bs name mime = act_bind (on_engine (sv_upload sv bs name mime)) fallible"

definition chat_encryption :: "('e, 'o) services \<Rightarrow> string \<Rightarrow> ('e, 'o, encryption) app" where
  "chat_encryption sv to_jid = read_messages (\<lambda>db. if is_omemo sv to_jid db then Encryption_Omemo2 else Encryption_None)"

definition attachment_json :: "('e, 'o) services \<Rightarrow> string \<Rightarrow> string" where
  "attachment_json sv url = sv_json_file sv url (guess_mime (url_file_name url))"

definition attachment_json_files :: "('e, 'o) services \<Rightarrow> shared_file list \<Rightarrow> string option" where
  "attachment_json_files sv files = (if files = [] then None else Some (sv_json_files sv files))"

subsection \<open>Files\<close>

definition caption_span :: "string \<Rightarrow> string \<Rightarrow> nat \<times> nat" where
  "caption_span caption url = (let start = count_chars caption + 1 in (start, start + count_chars url))"

definition send_file ::
  "('e, 'o) services \<Rightarrow> string \<Rightarrow> string \<Rightarrow> string option \<Rightarrow> string \<Rightarrow> ('e, 'o, unit) app" where
  "send_file sv to_jid path caption origin_id =
     act_bind (fallible (sv_read_file sv path)) (\<lambda>bs.
       let name = file_name_or ''file'' path in
       act_bind (upload_of sv bs name (guess_mime name)) (\<lambda>url.
       act_bind (chat_encryption sv to_jid) (\<lambda>enc.
         case trimmed_caption caption of
           None \<Rightarrow>
             act_seq (send_text_stanza sv to_jid url enc None origin_id [])
               (persist_own sv to_jid url enc None origin_id None None ''sent'')
         | Some c \<Rightarrow>
             act_seq (send_text_stanza sv to_jid (c @ '' '' @ url) enc None origin_id
                 (build_file_oob (sv_dom sv) url (Some (caption_span c url))))
               (persist_own sv to_jid c enc None origin_id (Some (attachment_json sv url)) None ''sent''))))"

definition upload_path :: "('e, 'o) services \<Rightarrow> string \<Rightarrow> ('e, 'o, shared_file) app" where
  "upload_path sv path =
     act_bind (fallible (sv_read_file sv path)) (\<lambda>bs.
       let name = file_name_or ''file'' path; mime = guess_mime name in
       act_bind (upload_of sv bs name mime) (\<lambda>url.
         act_ret \<lparr>sf_url = url, sf_mime = mime, sf_name = name, sf_size = Some (int (length bs)),
           sf_width = None, sf_height = None, sf_duration = None\<rparr>))"

definition send_files ::
  "('e, 'o) services \<Rightarrow> string \<Rightarrow> string list \<Rightarrow> string option \<Rightarrow> string \<Rightarrow> ('e, 'o, unit) app" where
  "send_files sv to_jid paths caption origin_id =
     (let caption = trimmed_caption caption in
      case paths of
        [] \<Rightarrow> act_ret ()
      | [one] \<Rightarrow> send_file sv to_jid one caption origin_id
      | _ \<Rightarrow>
          act_bind (act_map (upload_path sv) paths) (\<lambda>files.
          act_bind (chat_encryption sv to_jid) (\<lambda>enc.
            let (body, spans) = build_multi_file_body caption (map sf_url files) in
            act_seq (send_text_stanza sv to_jid body enc None origin_id
                (build_multi_file_payloads (sv_dom sv) files spans origin_id))
              (persist_own sv to_jid (case caption of None \<Rightarrow> [] | Some c \<Rightarrow> c) enc None origin_id
                (attachment_json_files sv files) None ''sent''))))"

subsection \<open>Stickers\<close>

definition MAX_INLINE :: nat where "MAX_INLINE = 100 * 1024"

definition send_plain_sticker_stanza :: "('e, 'o) services \<Rightarrow> string \<Rightarrow> string \<Rightarrow> string \<Rightarrow> string
    \<Rightarrow> bytes \<Rightarrow> string \<Rightarrow> ('e, 'o, unit) app" where
  "send_plain_sticker_stanza sv to_jid uri ssp mime bs origin_id =
     (let d = sv_dom sv in
      act_bind (read_messages (conversation_kind (sv_account sv) to_jid)) (\<lambda>kind.
        send_stanza sv (with_children d
          [text_element d ''body'' NS_CLIENT uri, xhtml_img d uri, data_element d (sv_b64 sv) ssp mime bs,
           hint d ''store''] (chat_message d kind to_jid origin_id))))"

definition save_sticker :: "('e, 'o) services \<Rightarrow> string \<Rightarrow> bytes \<Rightarrow> ('e, 'o, unit) app" where
  "save_sticker sv cid bs = act_modify (\<lambda>w. w\<lparr>w_files := snd (bob_save (sv_cache sv) cid bs (w_files w))\<rparr>)"

definition send_sticker :: "('e, 'o) services \<Rightarrow> string \<Rightarrow> string \<Rightarrow> string \<Rightarrow> ('e, 'o, unit) app" where
  "send_sticker sv to_jid path origin_id =
     act_bind (fallible (sv_read_file sv path)) (\<lambda>bs.
       let name = file_name_or ''sticker'' path; mime = guess_mime name in
       act_bind (read_messages (is_omemo sv to_jid)) (\<lambda>encrypted.
         if encrypted \<or> MAX_INLINE < length bs then
           act_bind (upload_of sv bs name mime) (\<lambda>url.
           act_bind (chat_encryption sv to_jid) (\<lambda>enc.
             send_message sv to_jid url enc None True origin_id))
         else
           let ssp = cid_ssp (sv_sha256 sv) bs; uri = ''cid:'' @ ssp in
           act_seq (save_sticker sv uri bs)
          (act_seq (send_plain_sticker_stanza sv to_jid uri ssp mime bs origin_id)
             (persist_own sv to_jid uri Encryption_None None origin_id None None ''sent''))))"

subsection \<open>Mini-apps\<close>

definition send_webxdc_file ::
  "('e, 'o) services \<Rightarrow> string \<Rightarrow> string \<Rightarrow> string \<Rightarrow> string \<Rightarrow> ('e, 'o, unit) app" where
  "send_webxdc_file sv to_jid path thread origin_id =
     (let d = sv_dom sv in
      act_bind (fallible (sv_read_file sv path)) (\<lambda>bs.
      act_bind (upload_of sv bs (file_name_or ''app.xdc'' path) ''application/webxdc+zip'') (\<lambda>url.
      act_bind (chat_encryption sv to_jid) (\<lambda>enc.
      act_bind (read_messages (conversation_kind (sv_account sv) to_jid)) (\<lambda>kind.
        let msg = chat_message d kind to_jid origin_id; thread_el = thread_element d thread in
        act_seq (case enc of
            Encryption_None \<Rightarrow>
              send_stanza sv (with_children d [text_element d ''body'' NS_CLIENT url, thread_el] msg)
          | Encryption_Omemo2 \<Rightarrow>
              act_bind (seal sv kind to_jid (envelope_new (sv_xml sv) url (sv_bare sv) to_jid
                  (Some (now_text sv 0)) (d_show d thread_el))) (\<lambda>e.
                send_stanza sv (with_children d (sealed_parts d e) msg)))
          (act_bind (on_messages (conversation_id (sv_account sv) to_jid (conv_kind_name kind))) (\<lambda>conv.
           act_seq (persist_and_emit sv conv (own_message sv conv to_jid url enc None origin_id None (Some thread))
               False True False False)
             (announce_state origin_id ''sent''))))))))"

definition store_update :: "('e, 'o) services \<Rightarrow> update_row \<Rightarrow> ('e, 'o, i64) app" where
  "store_update sv row w =
     (let (serial, db) = insert_webxdc_update (sv_pick_xdc sv) row (w_webxdc w)
      in (Inr serial, w\<lparr>w_webxdc := db\<rparr>))"

definition send_webxdc_update :: "('e, 'o) services \<Rightarrow> string \<Rightarrow> string \<Rightarrow> string option \<Rightarrow> string option
    \<Rightarrow> string option \<Rightarrow> string option \<Rightarrow> string option \<Rightarrow> string \<Rightarrow> ('e, 'o, unit) app" where
  "send_webxdc_update sv to_jid thread payload info document summary notify origin_id =
     (let d = sv_dom sv; x = build_update_x d payload document summary notify;
          thread_el = thread_element d thread in
      act_bind (read_messages (conversation_kind (sv_account sv) to_jid)) (\<lambda>kind.
      act_bind (read_messages (is_omemo sv to_jid)) (\<lambda>encrypted.
        let msg = with_children d (pm_mark d kind) (with_id d origin_id (message_to d kind to_jid)) in
        act_seq (if encrypted then
            act_bind (seal sv kind to_jid (envelope_new (sv_xml sv) (case info of None \<Rightarrow> [] | Some i \<Rightarrow> i)
                (sv_bare sv) to_jid (Some (now_text sv 0)) (d_show d x @ d_show d thread_el))) (\<lambda>e.
              send_stanza sv (with_children d (sealed_parts d e) msg))
          else send_stanza sv (with_children d
              ((case non_empty info of None \<Rightarrow> [] | Some i \<Rightarrow> [text_element d ''body'' NS_CLIENT i])
               @ [x, thread_el, hint d ''store'']) msg))
       (act_bind (store_update sv \<lparr>up_account = sv_account sv, up_thread = thread,
            up_message_id = Some origin_id, up_sender = Some (sv_bare sv), up_info = info,
            up_document = document, up_summary = summary, up_payload = payload,
            up_created = now_text sv 2\<rparr>) (\<lambda>serial.
        act_seq (emit (Webxdc_Update (sv_account sv) thread serial))
          (case non_empty info of
             None \<Rightarrow> act_ret ()
           | Some i \<Rightarrow>
               act_bind (on_messages (conversation_id (sv_account sv) to_jid (conv_kind_name kind))) (\<lambda>conv.
               act_bind (chat_encryption sv to_jid) (\<lambda>enc.
               act_seq (persist_and_emit sv conv (own_message sv conv to_jid i enc None origin_id None (Some thread))
                   False True False False)
                 (announce_state origin_id ''sent'')))))))))"

definition send_webxdc_realtime ::
  "('e, 'o) services \<Rightarrow> string \<Rightarrow> string \<Rightarrow> string \<Rightarrow> ('e, 'o, unit) app" where
  "send_webxdc_realtime sv to_jid thread data =
     (let d = sv_dom sv; x = build_realtime_x d data; thread_el = thread_element d thread in
      act_bind (read_messages (conversation_kind (sv_account sv) to_jid)) (\<lambda>kind.
      act_bind (read_messages (is_omemo sv to_jid)) (\<lambda>encrypted.
        let msg = with_children d (pm_mark d kind) (message_to d kind to_jid) in
        if encrypted then
          act_bind (seal sv kind to_jid (envelope_with_content (d_show d x @ d_show d thread_el)
              (sv_bare sv) to_jid (Some (now_text sv 0)))) (\<lambda>e.
            send_stanza sv (with_children d [e, eme_hint d, hint d ''no-store''] msg))
        else send_stanza sv (with_children d [x, thread_el, hint d ''no-store''] msg))))"

subsection \<open>Downloads\<close>

text \<open>\<open>filename.rsplit_once('.')\<close>\<close>

definition stem_and_ext :: "string \<Rightarrow> string \<times> string" where
  "stem_and_ext name =
     (case split_once CHR ''.'' (rev name) of
        None \<Rightarrow> (name, []) | Some (e, s) \<Rightarrow> (rev s, ''.'' @ rev e))"

definition numbered_path :: "string \<Rightarrow> string \<Rightarrow> nat \<Rightarrow> string" where
  "numbered_path dir name n =
     (let (stem, ext) = stem_and_ext name in path_join dir (stem @ '' ('' @ show_nat n @ '')'' @ ext))"

definition unique_path :: "file_sys \<Rightarrow> string \<Rightarrow> string \<Rightarrow> string" where
  "unique_path fs dir name =
     (let candidate = path_join dir name in
      if \<not> fs_exists fs candidate then candidate
      else (case find (\<lambda>n. \<not> fs_exists fs (numbered_path dir name n)) [1..<1000] of
              None \<Rightarrow> candidate | Some n \<Rightarrow> numbered_path dir name n))"

definition download_dir :: "string option \<Rightarrow> string option \<Rightarrow> string" where
  "download_dir xdg home =
     (case non_empty xdg of Some p \<Rightarrow> p
      | None \<Rightarrow> path_join (case home of None \<Rightarrow> ''.'' | Some h \<Rightarrow> h) ''Downloads'')"

text \<open>\<open>download_file\<close>, after the download: where the bytes are written, unless that fails.\<close>

definition save_download :: "string \<Rightarrow> string \<Rightarrow> bytes \<Rightarrow> (file_sys, unit, string) act" where
  "save_download dir name bs fs =
     (let p = unique_path fs dir name in
      if fs_refuses fs p then (Inl (), fs) else (Inr p, fs\<lparr>fs_files := (fs_files fs)(p \<mapsto> bs)\<rparr>))"

text \<open>
  A download overwrites nothing: as long as one of the first thousand names for it is free,
  every file that existed before still has its contents, and the download is under the returned
  path.
\<close>

theorem download_keeps_files:
  assumes "save_download dir name bs fs = (Inr p, fs')"
    and "\<not> fs_exists fs (path_join dir name) \<or> (\<exists>n. 1 \<le> n \<and> n < 1000 \<and> \<not> fs_exists fs (numbered_path dir name n))"
  shows "fs_files fs' p = Some bs \<and> (\<forall>q bs'. fs_files fs q = Some bs' \<longrightarrow> fs_files fs' q = Some bs')"
proof -
  have p: "p = unique_path fs dir name" and fs': "fs' = fs\<lparr>fs_files := (fs_files fs)(p \<mapsto> bs)\<rparr>"
    using assms(1) by (auto simp: save_download_def Let_def split: if_splits)
  have "\<not> fs_exists fs (unique_path fs dir name)"
  proof (cases "fs_exists fs (path_join dir name)")
    case True
    then have "find (\<lambda>n. \<not> fs_exists fs (numbered_path dir name n)) [1..<1000] \<noteq> None"
      using assms(2) by (simp add: find_None_iff)
    then show ?thesis using True
      by (auto simp: unique_path_def Let_def find_Some_iff split: option.splits)
  qed (simp add: unique_path_def Let_def)
  then show ?thesis by (auto simp: fs' p fs_exists_def)
qed

lemma download_keeps_files_witness:
  "\<exists>p fs'. save_download ''/d'' ''a.txt'' [1] (toy_fs\<lparr>fs_files := [''/d/a.txt'' \<mapsto> [9]]\<rparr>) = (Inr p, fs')
     \<and> p = ''/d/a (1).txt'' \<and> fs_files fs' p = Some [1] \<and> fs_files fs' ''/d/a.txt'' = Some [9]"
proof -
  let ?fs = "toy_fs\<lparr>fs_files := [''/d/a.txt'' \<mapsto> [9]]\<rparr>"
  have one: "numbered_path ''/d'' ''a.txt'' 1 = ''/d/a (1).txt''" by code_simp
  have base: "path_join ''/d'' ''a.txt'' = ''/d/a.txt''" by code_simp
  have free: "\<not> fs_exists ?fs (numbered_path ''/d'' ''a.txt'' 1)" and taken: "fs_exists ?fs ''/d/a.txt''"
    unfolding one by (simp_all add: fs_exists_def toy_fs_def)
  have l: "[1..<1000] = (1::nat) # [Suc 1..<1000]" by (rule upt_conv_Cons) simp
  have u: "unique_path ?fs ''/d'' ''a.txt'' = ''/d/a (1).txt''"
    unfolding unique_path_def Let_def base l using free taken one by simp
  have nr: "\<not> fs_refuses ?fs ''/d/a (1).txt''" by (simp add: toy_fs_def)
  obtain fs' where s: "save_download ''/d'' ''a.txt'' [1] ?fs = (Inr ''/d/a (1).txt'', fs')"
    using nr by (simp add: save_download_def u Let_def)
  have "fs_files fs' ''/d/a (1).txt'' = Some [1]
      \<and> (\<forall>q bs'. fs_files ?fs q = Some bs' \<longrightarrow> fs_files fs' q = Some bs')"
    using download_keeps_files[OF s] free by fastforce
  with s show ?thesis by auto
qed

end
