(* ===== verification/Incoming.thy ===== *)
theory Incoming
  imports File_Sending
begin

text \<open>
  Receiving (\<open>handle_incoming\<close> and \<open>process_payload\<close> of
  \<open>crates/mxc-proto/src/xeps/messaging.rs\<close>): carbons and archive copies are unwrapped, the
  conversation is found, an encrypted payload is decrypted and its envelope checked, and then the
  content is a receipt, a chat state, a reaction, a retraction, a mini-app update, a correction or a
  message to store.  \<open>process_payload\<close> is cut at its comments into definitions that hand on what the
  rest of the function uses, \<open>incoming_ctx\<close>.
\<close>

subsection \<open>Where a message belongs\<close>

definition after_slash :: "string \<Rightarrow> string option" where
  "after_slash jid = (case split_on CHR ''/'' jid of _ # n # _ \<Rightarrow> Some n | _ \<Rightarrow> None)"

definition direction_of :: "('e, 'z) dom_scheme \<Rightarrow> 'e \<Rightarrow> string \<Rightarrow> direction" where
  "direction_of d msg our_bare =
     (if eq_ignore_ascii_case (to_bare (attr_or_empty d msg ''from'')) our_bare then Out else In)"

record incoming_ctx =
  cx_from :: string
  cx_counterpart :: string
  cx_bare :: string
  cx_kind :: string
  cx_conv :: i64
  cx_ts :: string
  cx_direction :: direction
  cx_live :: bool
  cx_occupant :: "string option"

text \<open>The key of the conversation and its kind: a private message has the occupant's.\<close>

definition is_private_message ::
  "('e, 'o) services \<Rightarrow> 'e \<Rightarrow> string \<Rightarrow> string \<Rightarrow> message_db \<Rightarrow> bool" where
  "is_private_message sv msg counterpart bare db \<longleftrightarrow>
     \<not> is_type (sv_dom sv) msg ''groupchat'' \<and> CHR ''/'' \<in> set counterpart
     \<and> (has_child (sv_dom sv) msg ''x'' NS_MUC_USER
        \<or> conversation_kind (sv_account sv) bare db = Some ''muc'')"

definition conv_key_kind ::
  "('e, 'o) services \<Rightarrow> 'e \<Rightarrow> string \<Rightarrow> string \<Rightarrow> message_db \<Rightarrow> string \<times> string" where
  "conv_key_kind sv msg counterpart bare db =
     (if is_private_message sv msg counterpart bare db then (counterpart, ''muc_pm'')
      else if is_type (sv_dom sv) msg ''groupchat'' then (bare, ''muc'')
      else (bare, ''chat''))"

definition origin_id_of :: "('e, 'z) dom_scheme \<Rightarrow> 'e \<Rightarrow> string option" where
  "origin_id_of d msg = child_attr d msg ''origin-id'' NS_SID ''id''"

definition stanza_ids :: "('e, 'z) dom_scheme \<Rightarrow> 'e \<Rightarrow> 'e list" where
  "stanza_ids d msg = filter (\<lambda>c. d_is d c ''stanza-id'' NS_SID) (d_children d msg)"

definition first_id :: "('e, 'z) dom_scheme \<Rightarrow> 'e list \<Rightarrow> string option" where
  "first_id d els = (case els of [] \<Rightarrow> None | e # _ \<Rightarrow> d_attr d e ''id'')"

definition stanza_id_by :: "('e, 'z) dom_scheme \<Rightarrow> 'e \<Rightarrow> string \<Rightarrow> string option" where
  "stanza_id_by d msg who =
     Option.bind (find (\<lambda>c. d_attr d c ''by'' = Some who) (stanza_ids d msg)) (\<lambda>e. d_attr d e ''id'')"

subsection \<open>The room: occupants, own echoes, subject\<close>

definition muc_item :: "('e, 'z) dom_scheme \<Rightarrow> 'e \<Rightarrow> 'e option" where
  "muc_item d msg =
     Option.bind (get_child d msg ''x'' NS_MUC_USER) (\<lambda>x. get_child d x ''item'' NS_MUC_USER)"

definition note_occupant ::
  "('e, 'o) services \<Rightarrow> 'e \<Rightarrow> i64 \<Rightarrow> string \<Rightarrow> ('e, 'o, unit) app" where
  "note_occupant sv msg conv nick =
     (case Option.bind (muc_item (sv_dom sv) msg) (\<lambda>i. d_attr (sv_dom sv) i ''jid'') of
        None \<Rightarrow> act_ret ()
      | Some real \<Rightarrow> ignore_error (on_messages (upsert_muc_occupant conv nick (Some (to_bare real))
          (Option.bind (muc_item (sv_dom sv) msg) (\<lambda>i. d_attr (sv_dom sv) i ''affiliation'')))))"

text \<open>The real address of the sender (for OMEMO), and whether the message is our own echo.\<close>

definition muc_sender ::
  "('e, 'o) services \<Rightarrow> 'e \<Rightarrow> i64 \<Rightarrow> string \<Rightarrow> string option \<Rightarrow> bool \<Rightarrow> string
    \<Rightarrow> ('e, 'o, string \<times> bool) app" where
  "muc_sender sv msg conv from occupant live sender_bare =
     (let d = sv_dom sv; nick = (case after_slash from of None \<Rightarrow> [] | Some n \<Rightarrow> n);
          item_jid = Option.bind (muc_item d msg) (\<lambda>i. d_attr d i ''jid'') in
      act_seq (act_when (nick \<noteq> []) (note_occupant sv msg conv nick))
     (act_bind (read_messages (muc_occupant_real_jid conv nick)) (\<lambda>known.
      act_bind (read_messages (muc_nick conv)) (\<lambda>our_nick.
        let own = (nick \<noteq> [] \<and> our_nick = Some nick);
            resolved = (case item_jid of Some j \<Rightarrow> Some (to_bare j) | None \<Rightarrow> known);
            real = (if nick = [] then sender_bare else case resolved of None \<Rightarrow> sender_bare | Some r \<Rightarrow> r) in
        act_seq (case occupant of
            None \<Rightarrow> act_ret ()
          | Some occ \<Rightarrow> act_when own (write_messages (set_muc_self_occupant conv occ)))
       (act_seq (case child_text d msg ''subject'' NS_CLIENT of
            None \<Rightarrow> act_ret ()
          | Some subject \<Rightarrow> act_when live (write_messages (set_muc_subject conv subject)))
        (act_ret (real, own)))))))"

definition backfill_echo :: "('e, 'o) services \<Rightarrow> 'e \<Rightarrow> incoming_ctx \<Rightarrow> ('e, 'o, unit) app" where
  "backfill_echo sv msg cx =
     (case (origin_id_of (sv_dom sv) msg, stanza_id_by (sv_dom sv) msg (cx_bare cx)) of
        (Some origin, Some sid) \<Rightarrow> write_messages (backfill_stanza_id (cx_conv cx) origin sid (cx_occupant cx))
      | _ \<Rightarrow> act_ret ())"

subsection \<open>Decryption\<close>

definition expected_to :: "('e, 'o) services \<Rightarrow> incoming_ctx \<Rightarrow> string option" where
  "expected_to sv cx =
     (if cx_kind cx = ''muc'' then Some (cx_bare cx)
      else if cx_kind cx = ''muc_pm'' then None
      else if cx_direction cx = Out then Some (cx_bare cx)
      else Some (sv_bare sv))"

definition UNDECRYPTABLE :: string where
  "UNDECRYPTABLE = [CHR 0xE2, CHR 0x9A, CHR 0xA0] @ '' This message could not be decrypted.''"

definition failure_row :: "('e, 'o) services \<Rightarrow> 'e \<Rightarrow> incoming_ctx \<Rightarrow> new_message" where
  "failure_row sv msg cx =
     \<lparr>new_conversation_id = cx_conv cx, new_stanza_id = first_id (sv_dom sv) (stanza_ids (sv_dom sv) msg),
      new_origin_id = origin_id_of (sv_dom sv) msg, new_counterpart = cx_counterpart cx,
      new_direction = cx_direction cx, new_body = Some UNDECRYPTABLE,
      new_encryption = ''omemo2-failed'', new_reply_to = None, new_fingerprint = None,
      new_attachment = None, new_occupant_id = cx_occupant cx, new_timestamp = cx_ts cx,
      new_thread = None\<rparr>"

definition persist_decrypt_failure :: "('e, 'o) services \<Rightarrow> 'e \<Rightarrow> incoming_ctx \<Rightarrow> ('e, 'o, unit) app" where
  "persist_decrypt_failure sv msg cx =
     (if \<not> has_child (sv_dom sv) msg ''body'' NS_CLIENT then act_ret ()
      else ignore_error (persist_and_emit sv (cx_conv cx) (failure_row sv msg cx)
        (cx_direction cx = In \<and> cx_live cx) (cx_live cx) False False))"

definition engine_upkeep :: "('e, 'o) services \<Rightarrow> string \<Rightarrow> decrypted \<Rightarrow> ('e, 'o, unit) app" where
  "engine_upkeep sv sender dec =
     act_seq (act_when (dec_was_kex dec) (run_engine (sv_maintain sv)))
    (act_seq (act_when (dec_heartbeat_due dec) (run_engine (sv_heartbeat sv sender (dec_sender_device dec))))
      (run_engine (sv_reconcile sv sender (dec_sender_device dec))))"

definition engine_heal :: "('e, 'o) services \<Rightarrow> string \<Rightarrow> 'e \<Rightarrow> ('e, 'o, unit) app" where
  "engine_heal sv sender enc_el =
     act_seq (run_engine (sv_forget_failures sv sender))
       (case Option.bind (child_attr (sv_dom sv) enc_el ''header'' NS_OMEMO2 ''sid'') parse_u32 of
          None \<Rightarrow> act_ret () | Some sid \<Rightarrow> run_engine (sv_heal sv sender sid))"

text \<open>What the envelope holds, when it is whole, bound to this stanza and readable.\<close>

definition opened :: "('e, 'o) services \<Rightarrow> 'e \<Rightarrow> incoming_ctx \<Rightarrow> string \<Rightarrow> decrypted \<Rightarrow> 'e option" where
  "opened sv msg cx sender dec =
     (case envelope_from_xml (sv_xml sv) (utf8_lossy (dec_envelope dec)) of
        Inl _ \<Rightarrow> None
      | Inr env \<Rightarrow>
          (case check_sce_binding (sv_chrono sv) (sv_now sv 2) env sender (expected_to sv cx)
              (Some (sce_time_reference (sv_dom sv) (sv_chrono sv) (sv_now sv 1) msg (cx_live cx) (cx_ts cx))) of
             Inl _ \<Rightarrow> None
           | Inr _ \<Rightarrow> map_option (strip_server_processed (sv_dom sv))
               (d_parse (sv_dom sv) (''<content xmlns='' @ quoted NS_CLIENT @ ''>''
                  @ env_content_inner env @ ''</content>''))))"

text \<open>The content, its encryption and fingerprint; \<open>None\<close> is the early return.\<close>

definition recover_content :: "('e, 'o) services \<Rightarrow> 'e \<Rightarrow> incoming_ctx \<Rightarrow> string
    \<Rightarrow> ('e, 'o, ('e \<times> string \<times> string option) option) app" where
  "recover_content sv msg cx sender =
     (case get_child (sv_dom sv) msg ''encrypted'' NS_OMEMO2 of
        None \<Rightarrow> act_ret (Some (msg, ''none'', None))
      | Some enc_el \<Rightarrow>
          act_bind (on_engine (sv_decrypt sv enc_el sender (expected_to sv cx))) (\<lambda>res. case res of
            Inl _ \<Rightarrow>
              act_seq (persist_decrypt_failure sv msg cx)
             (act_seq (engine_heal sv sender enc_el) (act_ret None))
          | Inr dec \<Rightarrow>
              act_seq (engine_upkeep sv sender dec)
               (if dec_key_transport dec then act_ret None
                else (case opened sv msg cx sender dec of
                    None \<Rightarrow> act_seq (persist_decrypt_failure sv msg cx) (act_ret None)
                  | Some content \<Rightarrow> act_ret (Some (content, ''omemo2'', Some (dec_fingerprint dec)))))))"

subsection \<open>Receipts, chat states, reactions, retractions\<close>

definition note_receipt :: "('e, 'o) services \<Rightarrow> 'e \<Rightarrow> string \<Rightarrow> string \<Rightarrow> ('e, 'o, unit) app" where
  "note_receipt sv content name ns =
     (case child_attr (sv_dom sv) content name ns ''id'' of
        None \<Rightarrow> act_ret () | Some i \<Rightarrow> announce_state i name)"

definition note_chat_states :: "('e, 'o) services \<Rightarrow> 'e \<Rightarrow> string \<Rightarrow> ('e, 'o, unit) app" where
  "note_chat_states sv content from =
     act_iter (\<lambda>st. act_when (has_child (sv_dom sv) content st NS_CHATSTATES) (emit (Chat_State from st)))
       [''composing'', ''paused'', ''active'', ''gone'', ''inactive'']"

definition reactor_key :: "('e, 'o) services \<Rightarrow> incoming_ctx \<Rightarrow> string" where
  "reactor_key sv cx =
     (if cx_kind cx = ''muc'' then (case cx_occupant cx of Some occ \<Rightarrow> occ | None \<Rightarrow> cx_from cx)
      else if cx_direction cx = Out then sv_bare sv else cx_bare cx)"

definition reactor_nick :: "incoming_ctx \<Rightarrow> string option \<Rightarrow> string" where
  "reactor_nick cx self_occupant =
     (if cx_direction cx = Out
         \<or> cx_kind cx = ''muc'' \<and> cx_occupant cx \<noteq> None \<and> self_occupant = cx_occupant cx then ''You''
      else if cx_kind cx = ''muc'' then (case after_slash (cx_from cx) of None \<Rightarrow> cx_from cx | Some n \<Rightarrow> n)
      else cx_bare cx)"

definition apply_reactions :: "('e, 'o) services \<Rightarrow> 'e \<Rightarrow> incoming_ctx \<Rightarrow> ('e, 'o, unit) app" where
  "apply_reactions sv el cx =
     (case d_attr (sv_dom sv) el ''id'' of
        None \<Rightarrow> act_ret ()
      | Some target \<Rightarrow>
          act_bind (read_messages (muc_self_occupant (cx_conv cx))) (\<lambda>self.
          act_bind (read_messages (message_by_marker (cx_conv cx) target)) (\<lambda>m. case m of
            None \<Rightarrow> act_ret ()
          | Some (i, _) \<Rightarrow>
              act_seq (on_messages (set_reactions i (reactor_key sv cx) (Some (reactor_nick cx self))
                  (map (d_text (sv_dom sv)) (named (sv_dom sv) ''reaction'' el))))
               (act_bind (read_messages (reactions i)) (\<lambda>tallies.
                  emit (Reactions_Updated (sv_account sv) (cx_conv cx) i tallies))))))"

definition apply_retraction :: "('e, 'o) services \<Rightarrow> 'e \<Rightarrow> incoming_ctx \<Rightarrow> ('e, 'o, unit) app" where
  "apply_retraction sv el cx =
     (case d_attr (sv_dom sv) el ''id'' of
        None \<Rightarrow> act_ret ()
      | Some target \<Rightarrow>
          act_bind (on_messages (retract_message (cx_conv cx) target)) (\<lambda>m. case m of
            None \<Rightarrow> act_ret ()
          | Some (i, old) \<Rightarrow> emit (Message_Retracted (sv_account sv) (cx_conv cx) i old)))"

subsection \<open>Mini-apps\<close>

text \<open>True when the message is consumed: an update without a line for the chat.\<close>

definition webxdc_step :: "('e, 'o) services \<Rightarrow> 'e \<Rightarrow> 'e \<Rightarrow> string \<Rightarrow> ('e, 'o, bool) app" where
  "webxdc_step sv msg content sender =
     (let d = sv_dom sv in
      case (get_child d content ''x'' NS_WEBXDC, non_empty (child_text d content ''thread'' NS_CLIENT)) of
        (Some x, Some thread) \<Rightarrow>
          let info = non_empty (child_text d content ''body'' NS_CLIENT) in
          act_seq (\<lambda>w. let (evs, db) = handle_incoming_update d (sv_json sv) (sv_pick_xdc sv) (now_text sv 3)
                  (sv_account sv) (sv_bare sv) thread sender (origin_id_of d msg) x info (w_webxdc w)
                in (Inr (), w\<lparr>w_webxdc := db, w_events := w_events w @ evs\<rparr>))
            (act_ret (info = None))
      | _ \<Rightarrow> act_ret False)"

subsection \<open>Stickers\<close>

text \<open>\<open>split_whitespace\<close>\<close>

fun split_ws :: "string \<Rightarrow> string list \<Rightarrow> string list" where
  "split_ws acc [] = (if acc = [] then [] else [acc])"
| "split_ws acc (c # cs) =
     (if is_whitespace c then (if acc = [] then split_ws [] cs else acc # split_ws [] cs)
      else split_ws (acc @ c) cs)"

definition is_shortcode :: "(string \<Rightarrow> bool) \<Rightarrow> string \<Rightarrow> bool" where
  "is_shortcode alnum tok \<longleftrightarrow> 2 \<le> length tok \<and> hd tok = CHR '':'' \<and> last tok = CHR '':''
     \<and> list_all (\<lambda>c. alnum c \<or> c \<in> {''_'', ''-'', ''+''}) (str_chars (butlast (tl tok)))"

definition is_shortcode_only :: "(string \<Rightarrow> bool) \<Rightarrow> string \<Rightarrow> bool" where
  "is_shortcode_only alnum s \<longleftrightarrow> list_all (is_shortcode alnum) (split_ws [] (str_chars (str_trim s)))"

definition bob_elements :: "('e, 'o) services \<Rightarrow> 'e \<Rightarrow> 'e list" where
  "bob_elements sv content = filter (\<lambda>c. d_is (sv_dom sv) c ''data'' NS_BOB) (d_children (sv_dom sv) content)"

definition save_inline :: "('e, 'o) services \<Rightarrow> 'e \<Rightarrow> ('e, 'o, unit) app" where
  "save_inline sv content = act_iter (\<lambda>el. case parse_data (sv_dom sv) (sv_b64 sv) el of
     None \<Rightarrow> act_ret () | Some (cid, bs) \<Rightarrow> save_sticker sv cid bs) (bob_elements sv content)"

definition add_ref :: "string option \<Rightarrow> (string \<times> string option) list \<Rightarrow> (string \<times> string option) list" where
  "add_ref cid refs = (case cid of None \<Rightarrow> refs
     | Some c \<Rightarrow> if c \<in> set (map fst refs) then refs else refs @ [(c, None)])"

definition sticker_refs :: "('e, 'o) services \<Rightarrow> 'e \<Rightarrow> (string \<times> string option) list" where
  "sticker_refs sv content =
     fold (\<lambda>el. add_ref (d_attr (sv_dom sv) el ''cid'')) (bob_elements sv content) (img_refs (sv_dom sv) content)"

definition sticker_uri :: "string \<Rightarrow> string" where
  "sticker_uri ssp = ''cid:'' @ ssp"

text \<open>The clear-text fetch, for messages that were not encrypted.\<close>

definition fetch_sticker :: "('e, 'o) services \<Rightarrow> string \<Rightarrow> string \<Rightarrow> string \<Rightarrow> ('e, 'o, unit) app" where
  "fetch_sticker sv from enc ssp =
     act_bind (act_read (\<lambda>w. is_cached (sv_cache sv) (sticker_uri ssp) (w_files w))) (\<lambda>cached.
       if \<not> cached \<and> enc \<noteq> ''omemo2'' then
         act_bind (on_engine (sv_bob_fetch sv from ssp)) (\<lambda>res. case res of
           Inl _ \<Rightarrow> act_ret () | Inr bs \<Rightarrow> save_sticker sv (sticker_uri ssp) bs)
       else act_ret ())"

definition place_sticker :: "string \<times> string option \<Rightarrow> string \<Rightarrow> string" where
  "place_sticker = (\<lambda>(ssp, alt) b.
     let uri = sticker_uri ssp in
     case Option.bind alt (\<lambda>a. map_option (\<lambda>p. (p, length a)) (find_str a b)) of
       Some (p, n) \<Rightarrow> take p b @ uri @ drop (p + n) b
     | None \<Rightarrow> if contains_str b uri then b else (if b = [] then b else b @ '' '') @ uri)"

definition sticker_body ::
  "(string \<Rightarrow> bool) \<Rightarrow> string option \<Rightarrow> (string \<times> string option) list \<Rightarrow> string option" where
  "sticker_body alnum raw_body cached =
     (if cached = [] then None
      else let raw = (case raw_body of None \<Rightarrow> [] | Some b \<Rightarrow> b); trimmed = str_trim raw in
        if length cached = 1
            \<and> (trimmed = [] \<or> starts_with trimmed ''cid:'' \<or> is_shortcode_only alnum trimmed)
        then Some (sticker_uri (fst (hd cached)))
        else Some (fold place_sticker cached raw))"

text \<open>The body to show: the sticker's, else the message's.\<close>

definition sticker_step :: "('e, 'o) services \<Rightarrow> 'e \<Rightarrow> string \<Rightarrow> string \<Rightarrow> ('e, 'o, string option) app" where
  "sticker_step sv content from enc =
     (let refs = sticker_refs sv content; raw = child_text (sv_dom sv) content ''body'' NS_CLIENT in
      act_seq (save_inline sv content)
     (act_seq (act_iter (\<lambda>(ssp, _). fetch_sticker sv from enc ssp) refs)
     (act_bind (act_read (\<lambda>w. filter (\<lambda>(ssp, _). is_cached (sv_cache sv) (sticker_uri ssp) (w_files w)) refs))
        (\<lambda>cached. act_ret (case sticker_body (sv_alphanumeric sv) raw cached of
           Some b \<Rightarrow> Some b | None \<Rightarrow> raw)))))"

subsection \<open>The message itself\<close>

definition body_and_files :: "('e, 'o) services \<Rightarrow> 'e \<Rightarrow> string \<Rightarrow> string \<times> string option" where
  "body_and_files sv content raw_body =
     (let d = sv_dom sv; body = strip_reply_fallback d content raw_body; sfs = sfs_files d content in
      case attachment_json_files sv sfs of
        Some json \<Rightarrow> (strip_file_urls (strip_fallback_spans d content body [NS_OOB, NS_SFS]) sfs, Some json)
      | None \<Rightarrow> (case oob_file_url d content of
          Some url \<Rightarrow> (strip_fallback_for d content body NS_OOB, Some (attachment_json sv url))
        | None \<Rightarrow> (body, None)))"

text \<open>True when the message corrected one we have.\<close>

definition correction_step :: "('e, 'o) services \<Rightarrow> 'e \<Rightarrow> incoming_ctx \<Rightarrow> string \<Rightarrow> ('e, 'o, bool) app" where
  "correction_step sv content cx body =
     (case child_attr (sv_dom sv) content ''replace'' NS_CORRECT ''id'' of
        None \<Rightarrow> act_ret False
      | Some target \<Rightarrow>
          act_bind (on_messages (apply_correction (cx_conv cx) target body)) (\<lambda>m. case m of
            None \<Rightarrow> act_ret False
          | Some i \<Rightarrow> act_seq (emit_edited sv (cx_conv cx) i) (act_ret True)))"

definition stanza_id_for :: "('e, 'o) services \<Rightarrow> 'e \<Rightarrow> incoming_ctx \<Rightarrow> string option \<Rightarrow> string option" where
  "stanza_id_for sv msg cx mam_id =
     (let d = sv_dom sv; want_by = (if cx_kind cx = ''muc'' then cx_bare cx else sv_bare sv) in
      case stanza_id_by d msg want_by of
        Some i \<Rightarrow> Some i
      | None \<Rightarrow> (case mam_id of Some i \<Rightarrow> Some i | None \<Rightarrow> first_id d (stanza_ids d msg)))"

definition our_names :: "string option \<Rightarrow> string \<Rightarrow> string list" where
  "our_names nick bare =
     (let names = (case non_empty nick of None \<Rightarrow> [] | Some n \<Rightarrow> [n]);
          display = takeWhile (\<lambda>c. c \<noteq> CHR ''@'') bare
      in if display \<noteq> [] \<and> display \<notin> set names then names @ [display] else names)"

fun mentions_any :: "string \<Rightarrow> string list \<Rightarrow> bool run" where
  "mentions_any body [] = Return False"
| "mentions_any body (n # ns) = (case mentions_nick body n of
     Panic \<Rightarrow> Panic | Return True \<Rightarrow> Return True | Return False \<Rightarrow> mentions_any body ns)"

definition run_act :: "'a run \<Rightarrow> ('e, 'o, 'a) app" where
  "run_act r = (case r of Panic \<Rightarrow> act_throw Panicked | Return x \<Rightarrow> act_ret x)"

text \<open>Is it a highlight, and does it answer one of our messages?\<close>

definition highlight_step :: "('e, 'o) services \<Rightarrow> 'e \<Rightarrow> 'e \<Rightarrow> incoming_ctx \<Rightarrow> string \<Rightarrow> string option
    \<Rightarrow> ('e, 'o, bool \<times> bool) app" where
  "highlight_step sv msg content cx body reply_to =
     (let d = sv_dom sv in
      if \<not> (cx_direction cx = In \<and> cx_kind cx = ''muc'') then act_ret (False, False)
      else
        act_bind (read_messages (muc_nick (cx_conv cx))) (\<lambda>nick.
        act_bind (if has_child d content ''attention'' NS_ATTENTION \<or> has_child d msg ''attention'' NS_ATTENTION
            then act_ret True else run_act (mentions_any body (our_names nick (sv_bare sv)))) (\<lambda>mentioned.
        act_bind (read_messages (\<lambda>db. Option.bind reply_to (\<lambda>t. message_by_marker (cx_conv cx) t db))) (\<lambda>replied.
          act_ret (mentioned, case replied of None \<Rightarrow> False | Some (_, r) \<Rightarrow> msg_direction r = ''out'')))))"

definition receipt_step ::
  "('e, 'o) services \<Rightarrow> 'e \<Rightarrow> incoming_ctx \<Rightarrow> string option \<Rightarrow> ('e, 'o, unit) app" where
  "receipt_step sv msg cx rid =
     (case rid of
        None \<Rightarrow> act_ret ()
      | Some i \<Rightarrow>
          act_when (cx_live cx \<and> cx_direction cx = In \<and> cx_kind cx \<in> {''chat'', ''muc_pm''}
              \<and> has_child (sv_dom sv) msg ''request'' NS_RECEIPTS)
            (ignore_error (send_meta sv (if cx_kind cx = ''muc_pm'' then cx_counterpart cx else cx_bare cx)
              [d_with_attr (sv_dom sv) ''id'' i (d_bare (sv_dom sv) ''received'' NS_RECEIPTS)] False)))"

definition incoming_message :: "('e, 'o) services \<Rightarrow> 'e \<Rightarrow> 'e \<Rightarrow> incoming_ctx \<Rightarrow> string \<Rightarrow> string option
    \<Rightarrow> string option \<Rightarrow> string option \<Rightarrow> string \<Rightarrow> string option \<Rightarrow> new_message" where
  "incoming_message sv msg content cx enc fingerprint stanza_id reply_to body attachment =
     \<lparr>new_conversation_id = cx_conv cx, new_stanza_id = stanza_id,
      new_origin_id = origin_id_of (sv_dom sv) msg, new_counterpart = cx_counterpart cx,
      new_direction = cx_direction cx, new_body = Some body, new_encryption = enc,
      new_reply_to = reply_to, new_fingerprint = fingerprint, new_attachment = attachment,
      new_occupant_id = cx_occupant cx, new_timestamp = cx_ts cx,
      new_thread = non_empty (child_text (sv_dom sv) content ''thread'' NS_CLIENT)\<rparr>"

definition message_step :: "('e, 'o) services \<Rightarrow> 'e \<Rightarrow> 'e \<Rightarrow> incoming_ctx \<Rightarrow> string \<Rightarrow> string option
    \<Rightarrow> string option \<Rightarrow> string \<Rightarrow> ('e, 'o, unit) app" where
  "message_step sv msg content cx enc fingerprint mam_id raw_body =
     (let (body, attachment) = body_and_files sv content raw_body;
          stanza_id = stanza_id_for sv msg cx mam_id;
          reply_to = child_attr (sv_dom sv) content ''reply'' NS_REPLY ''id'' in
      act_bind (correction_step sv content cx body) (\<lambda>corrected.
        if corrected then act_ret ()
        else
          act_bind (highlight_step sv msg content cx body reply_to) (\<lambda>(mentioned, reply_to_me).
          act_seq (receipt_step sv msg cx
              (case origin_id_of (sv_dom sv) msg of Some i \<Rightarrow> Some i | None \<Rightarrow> stanza_id))
            (persist_and_emit sv (cx_conv cx)
              (incoming_message sv msg content cx enc fingerprint stanza_id reply_to body attachment)
              (cx_direction cx = In \<and> cx_live cx) (cx_live cx) mentioned reply_to_me))))"

subsection \<open>The whole handler\<close>

text \<open>What is done with recovered content, from the receipts on.\<close>

definition content_step :: "('e, 'o) services \<Rightarrow> 'e \<Rightarrow> incoming_ctx \<Rightarrow> string \<Rightarrow> string option
    \<Rightarrow> 'e \<Rightarrow> string \<Rightarrow> string option \<Rightarrow> ('e, 'o, unit) app" where
  "content_step sv msg cx sender mam_id content enc fingerprint =
     (let d = sv_dom sv in
      act_seq (note_receipt sv content ''received'' NS_RECEIPTS)
     (act_seq (note_receipt sv content ''displayed'' NS_MARKERS)
     (act_seq (act_when (cx_live cx) (note_chat_states sv content (cx_from cx)))
       (case get_child d content ''reactions'' NS_REACTIONS of
          Some el \<Rightarrow> apply_reactions sv el cx
        | None \<Rightarrow> (case get_child d content ''retract'' NS_RETRACT of
            Some el \<Rightarrow> apply_retraction sv el cx
          | None \<Rightarrow>
              act_bind (webxdc_step sv msg content sender) (\<lambda>consumed.
                if consumed then act_ret ()
                else act_bind (sticker_step sv content (cx_from cx) enc) (\<lambda>raw. case raw of
                    None \<Rightarrow> act_ret ()
                  | Some raw_body \<Rightarrow>
                      message_step sv msg content cx enc fingerprint mam_id raw_body)))))))"

definition process_payload :: "('e, 'o) services \<Rightarrow> 'e \<Rightarrow> direction \<Rightarrow> string option \<Rightarrow> bool
    \<Rightarrow> string option \<Rightarrow> ('e, 'o, unit) app" where
  "process_payload sv msg dir ts_override live mam_id =
     (let d = sv_dom sv; from = attr_or_empty d msg ''from''; to_jid = attr_or_empty d msg ''to'';
          counterpart = (case dir of In \<Rightarrow> from | Out \<Rightarrow> to_jid); bare = to_bare counterpart in
      if bare = [] then act_ret ()
      else act_bind (read_messages (conv_key_kind sv msg counterpart bare)) (\<lambda>(conv_key, kind).
        act_bind (on_messages (conversation_id (sv_account sv) conv_key kind)) (\<lambda>conv.
          let occupant = child_attr d msg ''occupant-id'' NS_OCCUPANT ''id'';
              cx = \<lparr>cx_from = from, cx_counterpart = counterpart, cx_bare = bare, cx_kind = kind,
                cx_conv = conv, cx_ts = (case ts_override of Some t \<Rightarrow> t | None \<Rightarrow> now_text sv 0),
                cx_direction = dir, cx_live = live, cx_occupant = occupant\<rparr> in
          act_bind (if kind = ''muc'' then muc_sender sv msg conv from occupant live (to_bare from)
                    else act_ret (to_bare from, False)) (\<lambda>(sender, own_echo).
            if own_echo \<and> has_child d msg ''encrypted'' NS_OMEMO2 then backfill_echo sv msg cx
            else act_bind (recover_content sv msg cx sender) (\<lambda>rec. case rec of
                None \<Rightarrow> act_ret ()
              | Some (content, enc, fingerprint) \<Rightarrow>
                  content_step sv msg cx sender mam_id content enc fingerprint)))))"

definition story_step :: "('e, 'o) services \<Rightarrow> 'e \<Rightarrow> ('e, 'o, bool) app" where
  "story_step sv msg w =
     (let ((consumed, evs), db) = story_handle_event (sv_dom sv) (sv_chrono sv) (sv_now sv 4)
            (sv_account sv) msg (w_stories w)
      in (Inr consumed, w\<lparr>w_stories := db, w_events := w_events w @ evs\<rparr>))"

definition handle_incoming :: "('e, 'o) services \<Rightarrow> 'e \<Rightarrow> ('e, 'o, unit) app" where
  "handle_incoming sv msg =
     (let d = sv_dom sv in
      act_bind (on_engine (sv_call_message sv msg)) (\<lambda>call.
        if call then act_ret ()
        else act_bind (story_step sv msg) (\<lambda>story.
          if story then act_ret ()
          else (case carbons_unwrap d msg (sv_bare sv) of
              Some (inner, Sent) \<Rightarrow> process_payload sv inner Out None False None
            | Some (inner, Received) \<Rightarrow> process_payload sv inner In None False None
            | None \<Rightarrow> (case get_child d msg ''result'' NS_MAM of
                Some result \<Rightarrow>
                  (case Option.bind (get_child d result ''forwarded'' NS_FORWARD) (\<lambda>fwd.
                      map_option (\<lambda>inner. (fwd, inner)) (get_child d fwd ''message'' NS_CLIENT)) of
                     None \<Rightarrow> act_ret ()
                   | Some (fwd, inner) \<Rightarrow>
                       process_payload sv inner (direction_of d inner (sv_bare sv)) (delay_stamp d fwd) False
                         (d_attr d result ''id''))
              | None \<Rightarrow> process_payload sv msg (direction_of d msg (sv_bare sv)) (delay_stamp d msg) True None)))))"

end
