(* ===== verification/World_Laws.thy ===== *)
theory World_Laws
  imports Incoming Message_Laws
begin

text \<open>
  What the handlers do to the state, proved once for every relation that holds between the states
  before and after a step: the locale \<open>effect_order\<close> lifts a reflexive and transitive relation from
  the steps to whole actions.  It is interpreted three times: the tables change only by statements of
  the store (\<open>tables\<close>), the stanzas queued before stay in front (\<open>queue\<close>), and the texts shown come
  from the rows before or satisfy a given predicate (\<open>texts\<close>).
\<close>

definition act_within :: "('s \<Rightarrow> 's \<Rightarrow> bool) \<Rightarrow> ('s, 'e, 'a) act \<Rightarrow> bool" where
  "act_within le m \<longleftrightarrow> (\<forall>s. le s (snd (m s)))"

lemma act_withinD: "act_within le m \<Longrightarrow> le s (snd (m s))"
  by (simp add: act_within_def)

locale effect_order =
  fixes le :: "'s \<Rightarrow> 's \<Rightarrow> bool"
  assumes le_refl: "le s s" and le_trans: "le s t \<Longrightarrow> le t u \<Longrightarrow> le s u"
begin

lemma within_pure: "act_within le (act_ret x)" "act_within le (act_throw e)"
    "act_within le (act_read g)" "act_within le (act_lift r)"
  by (simp_all add: act_within_def act_simps le_refl)

lemma within_modify: "(\<And>s. le s (f s)) \<Longrightarrow> act_within le (act_modify f)"
  by (simp add: act_within_def act_simps)

lemma within_bind: "act_within le m \<Longrightarrow> (\<And>x. act_within le (k x)) \<Longrightarrow> act_within le (act_bind m k)"
  unfolding act_within_def act_bind_def
  by (auto split: prod.split sum.split) (metis le_trans snd_conv)+

lemma within_seq: "act_within le m \<Longrightarrow> act_within le n \<Longrightarrow> act_within le (act_seq m n)"
  unfolding act_seq_def by (rule within_bind)

lemma within_when: "act_within le m \<Longrightarrow> act_within le (act_when b m)"
  by (simp add: act_when_def within_pure)

lemma within_iter: "(\<And>x. act_within le (f x)) \<Longrightarrow> act_within le (act_iter f xs)"
  by (induction xs) (auto intro!: within_bind within_pure)

lemma within_map: "(\<And>x. act_within le (f x)) \<Longrightarrow> act_within le (act_map f xs)"
  by (induction xs) (auto intro!: within_bind within_pure)

end

lemma within_cases:
  "(b \<Longrightarrow> act_within le m) \<Longrightarrow> (\<not> b \<Longrightarrow> act_within le n) \<Longrightarrow> act_within le (if b then m else n)"
  "act_within le m' \<Longrightarrow> (\<And>x. act_within le (n' x)) \<Longrightarrow>
     act_within le (case ov of None \<Rightarrow> m' | Some x \<Rightarrow> n' x)"
  "(\<And>e. act_within le (f e)) \<Longrightarrow> (\<And>x. act_within le (g x)) \<Longrightarrow>
     act_within le (case sv of Inl e \<Rightarrow> f e | Inr x \<Rightarrow> g x)"
  "(\<And>x y. act_within le (h x y)) \<Longrightarrow> act_within le (case pv of (x, y) \<Rightarrow> h x y)"
  "act_within le k \<Longrightarrow> (\<And>x xs. act_within le (l x xs)) \<Longrightarrow>
     act_within le (case lv of [] \<Rightarrow> k | x # xs \<Rightarrow> l x xs)"
  "act_within le p \<Longrightarrow> (\<And>x. act_within le (q x)) \<Longrightarrow>
     act_within le (case rv of Panic \<Rightarrow> p | Return x \<Rightarrow> q x)"
  by (simp_all split: option.split sum.split prod.split list.split run.split)

subsection \<open>The three relations\<close>

definition tables_le :: "('e, 'o) world \<Rightarrow> ('e, 'o) world \<Rightarrow> bool" where
  "tables_le w w' \<longleftrightarrow> store_step\<^sup>*\<^sup>* (w_messages w) (w_messages w')"

definition queue_le :: "('e, 'o) world \<Rightarrow> ('e, 'o) world \<Rightarrow> bool" where
  "queue_le w w' \<longleftrightarrow> (\<exists>els. w_sent w' = w_sent w @ els)"

definition row_text :: "message_row \<Rightarrow> string option \<times> string" where
  "row_text r = (msg_body r, msg_encryption r)"

definition texts_le ::
  "(string option \<times> string \<Rightarrow> bool) \<Rightarrow> ('e, 'o) world \<Rightarrow> ('e, 'o) world \<Rightarrow> bool" where
  "texts_le P w w' \<longleftrightarrow> (\<forall>(i, r)\<in>set (t_messages (w_messages w')).
     P (row_text r) \<or> (\<exists>r0. (i, r0) \<in> set (t_messages (w_messages w)) \<and> row_text r = row_text r0))"

interpretation tables: effect_order tables_le
  by unfold_locales (auto simp: tables_le_def)

interpretation queue: effect_order queue_le
  by unfold_locales (auto simp: queue_le_def)

interpretation texts: effect_order "texts_le P" for P
proof unfold_locales
  fix w t u :: "('e, 'o) world"
  assume a: "texts_le P w t" "texts_le P t u"
  show "texts_le P w u"
    unfolding texts_le_def
  proof clarify
    fix i r
    assume "(i, r) \<in> set (t_messages (w_messages u))" and np: "\<nexists>r0. (i, r0) \<in> set (t_messages (w_messages w)) \<and> row_text r = row_text r0"
    with a(2) have "P (row_text r) \<or> (\<exists>r0. (i, r0) \<in> set (t_messages (w_messages t)) \<and> row_text r = row_text r0)"
      by (auto simp: texts_le_def)
    then show "P (row_text r)"
    proof
      assume "\<exists>r0. (i, r0) \<in> set (t_messages (w_messages t)) \<and> row_text r = row_text r0"
      then obtain r0 where "(i, r0) \<in> set (t_messages (w_messages t))" "row_text r = row_text r0" by blast
      with a(1) np show ?thesis by (fastforce simp: texts_le_def)
    qed
  qed
qed (auto simp: texts_le_def)

lemmas within_rules = tables.within_pure tables.within_bind tables.within_seq tables.within_when
  tables.within_iter tables.within_map within_cases

text \<open>Steps that leave the tables alone.\<close>

definition untouched :: "(('e, 'o) world \<Rightarrow> 'v) \<Rightarrow> ('e, 'o, 'a) app \<Rightarrow> bool" where
  "untouched f m \<longleftrightarrow> (\<forall>w. f (snd (m w)) = f w)"

lemma untouched_basic [simp]:
  "untouched w_messages (emit ev)" "untouched w_messages (send_stanza sv el)"
  "untouched w_messages (on_engine g)" "untouched w_messages (run_engine h)"
  "untouched w_messages (read_messages q)" "untouched w_messages (fallible r)"
  "untouched w_sent (emit ev)" "untouched w_sent (on_engine g)" "untouched w_sent (run_engine h)"
  "untouched w_sent (read_messages q)" "untouched w_sent (fallible r)"
  "untouched w_sent (write_messages u)"
  by (auto simp: untouched_def act_simps send_stanza_def on_engine_def fallible_def case_prod_beta Let_def
      split: sum.splits)

lemma untouched_on_messages [simp]: "untouched w_sent (on_messages m)"
  by (auto simp: untouched_def on_messages_def split: prod.splits sum.splits)

lemma tables_untouched: "untouched w_messages m \<Longrightarrow> act_within tables_le m"
  and texts_untouched: "untouched w_messages m \<Longrightarrow> act_within (texts_le P) m"
  and queue_untouched: "untouched w_sent m \<Longrightarrow> act_within queue_le m"
  by (auto simp: untouched_def act_within_def tables_le_def texts_le_def queue_le_def)

subsection \<open>The tables change only by statements of the store\<close>

lemma store_stepI: "message_write first_row db db' \<Longrightarrow> store_step db db'"
  unfolding store_step_def using limit_one_first_row by blast

lemma snd_on_messages [simp]: "w_messages (snd (on_messages m w)) = snd (m (w_messages w))"
  by (auto simp: on_messages_def split: prod.split sum.split)

lemma tables_on_messages: "(\<And>db. store_step db (snd (m db))) \<Longrightarrow> act_within tables_le (on_messages m)"
  by (auto simp: act_within_def tables_le_def)

lemma tables_write_messages: "(\<And>db. store_step db (f db)) \<Longrightarrow> act_within tables_le (write_messages f)"
  by (auto simp: act_within_def tables_le_def act_simps)

lemma tables_ignore: "act_within tables_le m \<Longrightarrow> act_within tables_le (ignore_error m)"
  by (simp add: act_within_def ignore_error_def)

lemmas tables_free = untouched_basic(1-6)[THEN tables_untouched]

lemma tables_statements:
  "act_within tables_le (on_messages (conversation_id a jid kind))"
  "act_within tables_le (on_messages (apply_correction c target new))"
  "act_within tables_le (on_messages (retract_message c target))"
  "act_within tables_le (on_messages (set_reactions i x nick es))"
  "act_within tables_le (on_messages (upsert_muc_occupant c n real aff))"
  "act_within tables_le (write_messages (backfill_stanza_id c origin stanza occ))"
  "act_within tables_le (write_messages (set_message_state marker st))"
  "act_within tables_le (write_messages (set_attachment i json))"
  "act_within tables_le (write_messages (bump_unread c))"
  "act_within tables_le (write_messages (set_muc_self_occupant c oc))"
  "act_within tables_le (write_messages (set_muc_subject c subject))"
  by (intro tables_on_messages tables_write_messages store_stepI message_write.intros)+

lemma tables_insert:
  "limit_one pick \<Longrightarrow> act_within tables_le (on_messages (insert_message pick m))"
  by (rule tables_on_messages) (auto simp: store_step_def intro: message_write.intros)

lemmas tables_intros = within_rules tables_free tables_statements tables_insert tables_ignore

lemma tables_shared:
  assumes "limit_one (sv_pick sv)"
  shows "act_within tables_le (persist_and_emit sv c m bump live me re)"
    and "act_within tables_le (encrypt_envelope sv to_jid muc b x)"
    and "act_within tables_le (seal sv kind to_jid env)"
    and "act_within tables_le (announce_state marker st)"
    and "act_within tables_le (emit_edited sv c i)"
  using assms by (auto simp: persist_and_emit_def encrypt_envelope_def seal_def announce_state_def
      emit_edited_def intro!: tables_intros)

lemma tables_send:
  assumes "limit_one (sv_pick sv)"
  shows "act_within tables_le (send_meta sv to_jid els archive)"
    and "act_within tables_le (send_text_stanza sv to_jid body enc reply_to oid payloads)"
    and "act_within tables_le (persist_own sv to_jid body enc reply_to oid att thr st)"
  using assms by (auto simp: send_meta_def send_text_stanza_def persist_own_def Let_def
      intro!: tables_intros tables_shared split: encryption.split)

lemma tables_send_message:
  assumes "limit_one (sv_pick sv)"
  shows "act_within tables_le (send_message sv to_jid body enc reply_to online oid)"
  unfolding send_message_def by (intro tables_intros tables_send assms)

lemma tables_flush:
  assumes "limit_one (sv_pick sv)"
  shows "act_within tables_le (flush_outbox sv)"
proof -
  have "act_within tables_le (flush_one sv m)" for m
    unfolding act_within_def
  proof
    fix w
    have sent: "tables_le w (snd (resend sv m w))"
      unfolding resend_def by (rule act_withinD[OF tables_send(2)[OF assms]])
    have "tables_le t (snd (announce_state (pend_origin_id m) ''sent'' t))" for t :: "('a, 'b) world"
      by (rule act_withinD[OF tables_shared(4)[OF assms]])
    from tables.le_trans[OF sent this] sent show "tables_le w (snd (flush_one sv m w))"
      by (cases "resend sv m w") (auto simp: flush_one_def split: sum.split)
  qed
  then show ?thesis unfolding flush_outbox_def by (intro tables_intros)
qed

lemma tables_reactions:
  assumes "limit_one (sv_pick sv)"
  shows "act_within tables_le (send_reaction_stanza sv to_jid muc rx r es)"
    and "act_within tables_le (react sv to_jid rx target es)"
    and "act_within tables_le (send_correction sv to_jid target new c)"
    and "act_within tables_le (send_retraction sv to_jid target c)"
  using assms by (auto simp: send_reaction_stanza_def react_def send_correction_def send_retraction_def
      Let_def intro!: tables_intros tables_send tables_shared)

text \<open>Files, stickers and mini-apps touch the tables through the shared steps only.\<close>

lemma untouched_files [simp]:
  "untouched w_messages (save_sticker sv cid bs)" "untouched w_messages (store_update sv row)"
  "untouched w_sent (save_sticker sv cid bs)" "untouched w_sent (store_update sv row)"
  by (simp_all add: untouched_def save_sticker_def store_update_def act_simps case_prod_beta Let_def)

lemmas tables_files = tables_intros tables_send tables_shared tables_send_message
  untouched_files(1,2)[THEN tables_untouched]

lemma tables_uploads:
  "act_within tables_le (upload_of sv bs name mime)" "act_within tables_le (chat_encryption sv to_jid)"
  "act_within tables_le (upload_path sv path)"
  by (auto simp: upload_of_def chat_encryption_def upload_path_def Let_def intro!: tables_intros)

lemma tables_file_sending:
  assumes "limit_one (sv_pick sv)"
  shows "act_within tables_le (send_file sv to_jid path caption oid)"
    and "act_within tables_le (send_sticker sv to_jid path oid)"
    and "act_within tables_le (send_webxdc_file sv to_jid path thread oid)"
    and "act_within tables_le (send_webxdc_update sv to_jid thread pl info doc sm nt oid)"
    and "act_within tables_le (send_webxdc_realtime sv to_jid thread data)"
  using assms by (auto simp: send_file_def send_sticker_def send_plain_sticker_stanza_def send_webxdc_file_def
      send_webxdc_update_def send_webxdc_realtime_def Let_def
      intro!: tables_files tables_uploads split: encryption.split)

lemma tables_send_files:
  assumes "limit_one (sv_pick sv)"
  shows "act_within tables_le (send_files sv to_jid paths caption oid)"
  using assms by (auto simp: send_files_def Let_def intro!: tables_files tables_uploads tables_file_sending
      split: list.split)

subsection \<open>A client to try the handlers on\<close>

text \<open>
  An engine that encrypts everything to one element and decrypts nothing, no calls, no network
  failures; a database with one account.
\<close>

definition toy_cipher :: tree where "toy_cipher = Tree ''encrypted'' NS_OMEMO2 [] [] []"

definition toy_sv :: "(tree, unit) services" where
  "toy_sv = \<lparr>sv_dom = tree_dom, sv_chrono = toy_chrono, sv_xml = toy_sce_reader [] [],
     sv_json = \<lparr>js_string_member = \<lambda>_ _. None\<rparr>, sv_b64 = toy_base64, sv_sha256 = toy_sha,
     sv_cache = toy_env, sv_account = 7, sv_bare = ''me@y'', sv_now = (\<lambda>_. 0), sv_rng = (\<lambda>_. 0),
     sv_pick = first_row, sv_pick_xdc = first_update, sv_json_file = (\<lambda>u m. u), sv_json_files = (\<lambda>fs. ''files''),
     sv_alphanumeric = (\<lambda>c. False), sv_connected = True, sv_read_file = (\<lambda>_. Inl ''no file''),
     sv_upload = (\<lambda>_ _ _ o'. (Inr ''https://h/f'', o')), sv_bob_fetch = (\<lambda>_ _ o'. (Inl ''offline'', o')),
     sv_encrypt = (\<lambda>_ _ _ o'. (Inr toy_cipher, o')), sv_decrypt = (\<lambda>_ _ _ o'. (Inl ''no session'', o')),
     sv_maintain = id, sv_heartbeat = (\<lambda>_ _. id), sv_reconcile = (\<lambda>_ _. id),
     sv_forget_failures = (\<lambda>_. id), sv_heal = (\<lambda>_ _. id), sv_call_message = (\<lambda>_ o'. (False, o'))\<rparr>"

definition toy_world :: "message_db \<Rightarrow> (tree, unit) world" where
  "toy_world db = \<lparr>w_messages = db, w_stories = [], w_webxdc = \<lparr>t_updates = [], update_seq = 0\<rparr>,
     w_files = toy_fs, w_sent = [], w_events = [], w_engine = ()\<rparr>"

lemma toy_sv_pick [simp]: "limit_one (sv_pick toy_sv)"
  by (simp add: toy_sv_def)

end
