(* ===== verification/Outgoing_Laws.thy ===== *)
theory Outgoing_Laws
  imports World_Laws
begin

text \<open>
  What sending guarantees: in an encrypted chat the wire sees of a text or of metadata only what the
  engine made of it; a text written offline waits in the outbox and a flush sends every waiting text
  once, in order; and what is not checked when a reply is formatted into an envelope.
\<close>

subsection \<open>Nothing of an encrypted text is on the outer stanza\<close>

text \<open>The ciphertext came from the engine, for the recipients of the conversation.\<close>

definition engine_answer ::
  "('e, 'o) services \<Rightarrow> string option \<Rightarrow> string \<Rightarrow> string \<Rightarrow> message_db \<Rightarrow> 'e \<Rightarrow> bool" where
  "engine_answer sv kind to_jid envelope db e \<longleftrightarrow>
     (\<exists>recipients eng. fst (sv_encrypt sv recipients (binding_of kind to_jid) envelope eng) = Inr e
        \<and> (kind \<noteq> Some ''muc'' \<longrightarrow> recipients = [to_jid])
        \<and> (kind = Some ''muc'' \<longrightarrow> recipients \<noteq> [] \<and>
             (\<exists>conv db'. conversation_id (sv_account sv) to_jid ''muc'' db = (Inr conv, db')
                \<and> recipients = muc_member_jids conv (sv_bare sv) db')))"

lemma engine_then_fallible:
  "fst (act_bind (on_engine f) fallible w) = Inr e \<Longrightarrow> fst (f (w_engine w)) = Inr e"
  "w_sent (snd (act_bind (on_engine f) fallible w)) = w_sent w"
  "w_messages (snd (act_bind (on_engine f) fallible w)) = w_messages w"
  by (auto simp: act_bind_def on_engine_def fallible_def act_simps Let_def case_prod_beta split: sum.splits)

lemma seal_result:
  assumes "seal sv kind to_jid env w = (Inr e, w')"
  shows "engine_answer sv kind to_jid (envelope_to_xml (sv_xml sv) (sv_rng sv) env) (w_messages w) e"
    and "w_sent w' = w_sent w"
proof -
  let ?x = "envelope_to_xml (sv_xml sv) (sv_rng sv) env"
  have "engine_answer sv kind to_jid ?x (w_messages w) e \<and> w_sent w' = w_sent w"
  proof (cases "kind = Some ''muc''")
    case False
    then have run: "act_bind (on_engine (sv_encrypt sv [to_jid] (binding_of kind to_jid) ?x)) fallible w = (Inr e, w')"
      using assms by (simp add: seal_def encrypt_envelope_def)
    show ?thesis
      using engine_then_fallible(1,2)[of "sv_encrypt sv [to_jid] (binding_of kind to_jid) ?x" w] False
      unfolding run engine_answer_def by auto
  next
    case True
    obtain r db where cid: "conversation_id (sv_account sv) to_jid ''muc'' (w_messages w) = (r, db)" by fastforce
    then obtain conv where r: "r = Inr conv"
      using assms True by (cases r) (simp_all add: seal_def encrypt_envelope_def act_bind_def on_messages_def)
    let ?m = "muc_member_jids conv (sv_bare sv) db"
    have run: "(if ?m = [] then act_throw (App_Error ''no known members to encrypt to'')
        else act_bind (on_engine (sv_encrypt sv ?m (binding_of kind to_jid) ?x)) fallible) (w\<lparr>w_messages := db\<rparr>) = (Inr e, w')"
      using assms True cid r unfolding seal_def encrypt_envelope_def
      by (simp add: act_bind_def[of "on_messages _"] act_bind_def[of "read_messages _"] on_messages_def
          world_eval(1) split del: if_split cong: if_cong)
    then have ne: "?m \<noteq> []" by (auto simp: act_eval)
    with run have run': "act_bind (on_engine (sv_encrypt sv ?m (binding_of kind to_jid) ?x)) fallible (w\<lparr>w_messages := db\<rparr>) = (Inr e, w')"
      by simp
    show ?thesis
      using engine_then_fallible(1,2)[of "sv_encrypt sv ?m (binding_of kind to_jid) ?x" "w\<lparr>w_messages := db\<rparr>"]
        True ne cid r unfolding run' engine_answer_def by auto
  qed
  then show "engine_answer sv kind to_jid ?x (w_messages w) e" and "w_sent w' = w_sent w" by blast+
qed

text \<open>
  C28: In an encrypted chat the stanza for a text is fixed up to the ciphertext: whatever the text,
  the reply and the files, what is queued is one stanza made of the address, the type, the id, the
  receipt requests, the engine's ciphertext, the two hints and the fixed fallback body.
\<close>

theorem encrypted_text_hides_content:
  assumes "send_text_stanza sv to_jid body Encryption_Omemo2 reply_to origin_id payloads w = (Inr (), w')"
  shows "\<exists>e. w_sent w' = w_sent w @ [with_children (sv_dom sv) (sealed_parts (sv_dom sv) e)
        (chat_message (sv_dom sv) (conversation_kind (sv_account sv) to_jid (w_messages w)) to_jid origin_id)]
    \<and> engine_answer sv (conversation_kind (sv_account sv) to_jid (w_messages w)) to_jid
        (envelope_to_xml (sv_xml sv) (sv_rng sv) (text_envelope sv to_jid body reply_to payloads)) (w_messages w) e"
proof -
  let ?kind = "conversation_kind (sv_account sv) to_jid (w_messages w)"
  let ?seal = "seal sv ?kind to_jid (text_envelope sv to_jid body reply_to payloads) w"
  have run: "(case ?seal of (Inl e, t) \<Rightarrow> (Inl e, t) | (Inr e, t) \<Rightarrow>
      send_stanza sv (with_children (sv_dom sv) (sealed_parts (sv_dom sv) e)
        (chat_message (sv_dom sv) ?kind to_jid origin_id)) t) = (Inr (), w')"
    using assms by (simp add: send_text_stanza_def Let_def act_simps)
  then obtain e t where s: "?seal = (Inr e, t)" by (cases ?seal) (auto split: sum.splits)
  with run seal_result[OF s] show ?thesis
    by (auto simp: send_stanza_def act_simps split: if_splits)
qed

text \<open>
  The same for metadata (receipts, markers, chat states, reactions, corrections, retractions):
  when the chat is encrypted none of the elements is on the outer stanza.
\<close>

theorem encrypted_metadata_hides_elements:
  assumes "is_omemo sv to_jid (w_messages w)" and "send_meta sv to_jid elements archive w = (Inr (), w')"
  shows "\<exists>e. w_sent w' = w_sent w @ [with_children (sv_dom sv)
        [e, eme_hint (sv_dom sv), hint (sv_dom sv) (if archive then ''store'' else ''no-store'')]
        (message_to (sv_dom sv) (conversation_kind (sv_account sv) to_jid (w_messages w)) to_jid)]
    \<and> engine_answer sv (conversation_kind (sv_account sv) to_jid (w_messages w)) to_jid
        (envelope_to_xml (sv_xml sv) (sv_rng sv) (envelope_with_content (concat (map (d_show (sv_dom sv)) elements))
          (sv_bare sv) to_jid (Some (now_text sv 0)))) (w_messages w) e"
proof -
  let ?kind = "conversation_kind (sv_account sv) to_jid (w_messages w)"
  let ?seal = "seal sv ?kind to_jid (envelope_with_content (concat (map (d_show (sv_dom sv)) elements))
          (sv_bare sv) to_jid (Some (now_text sv 0))) w"
  have run: "(case ?seal of (Inl e, t) \<Rightarrow> (Inl e, t) | (Inr e, t) \<Rightarrow>
      send_stanza sv (with_children (sv_dom sv)
        [e, eme_hint (sv_dom sv), hint (sv_dom sv) (if archive then ''store'' else ''no-store'')]
        (message_to (sv_dom sv) ?kind to_jid)) t) = (Inr (), w')"
    using assms by (simp add: send_meta_def Let_def act_simps)
  then obtain e t where s: "?seal = (Inr e, t)" by (cases ?seal) (auto split: sum.splits)
  with run seal_result[OF s] show ?thesis
    by (auto simp: send_stanza_def act_simps split: if_splits)
qed

subsection \<open>The outbox\<close>

lemma conversation_id_found:
  assumes "message_db_ok db" and "a \<in> set (t_accounts db)"
  obtains c db1 where "conversation_id a jid kind db = (Inr c, db1)" and "t_messages db1 = t_messages db"
    and "account_of_conversation c db1 = Some a" and "msg_seq db1 = msg_seq db" and "message_db_ok db1"
proof (cases "find_conversation a jid db")
  case (Some x)
  obtain c r where x: "x = (c, r)" by (cases x)
  have "(c, r) \<in> set (t_conversations db)" "conv_account r = a"
    using find_conversation_SomeD[of a jid db c r] Some by (auto simp: x at_address_def)
  moreover have "tbl_ok (t_conversations db)" using assms(1) by (simp add: ok_defs)
  ultimately have "account_of_conversation c db = Some a"
    by (simp add: account_of_conversation_def in_table_iff)
  with that[of c db] Some assms(1) show ?thesis by (simp add: conversation_id_def x)
next
  case None
  define row where "row = (default_conversation a jid kind)
    \<lparr>conv_encryption := (if kind = ''chat'' then ''omemo2'' else ''none''),
     conv_notify := (if kind = ''muc'' then ''mentioned'' else ''all'')\<rparr>"
  define db1 where "db1 = db\<lparr>t_conversations := t_conversations db @ [(conv_seq db + 1, row)], conv_seq := conv_seq db + 1\<rparr>"
  have acc: "conv_account row = a" by (simp add: row_def default_conversation_def)
  have cid: "conversation_id a jid kind db = (Inr (conv_seq db + 1), db1)"
    using None assms(2) acc by (simp add: conversation_id_def row_def[symmetric] insert_conversation_def db1_def Let_def)
  then have ok: "message_db_ok db1" using conversation_id_ok[OF assms(1), of a jid kind] by simp
  then have "tbl_ok (t_conversations db1)" by (simp add: ok_defs)
  moreover have "(conv_seq db + 1, row) \<in> set (t_conversations db1)" by (simp add: db1_def)
  ultimately have "account_of_conversation (conv_seq db + 1) db1 = Some a"
    by (simp add: account_of_conversation_def in_table_iff acc)
  with that[OF cid] ok show ?thesis by (simp add: db1_def)
qed

lemma account_kept:
  "account_of_conversation c (set_message_state mk st db) = account_of_conversation c db"
  "account_of_conversation c (db\<lparr>t_messages := ms, msg_seq := n, t_conversations :=
     tbl_update k (\<lambda>r. r\<lparr>conv_last_active := ts\<rparr>) (t_conversations db)\<rparr>) = account_of_conversation c db"
  by (auto simp: account_of_conversation_def set_message_state_def map_of_tbl_update option.map_comp comp_def
      split: option.split)

lemma in_pending:
  "(i, r) \<in> set (t_messages db) \<Longrightarrow> is_pending a db r \<Longrightarrow> pending_view r \<in> set (pending_messages a db)"
  by (force simp: pending_messages_def)

text \<open>Storing our own new message and giving it a state.\<close>

lemma persist_own_new:
  assumes "limit_one (sv_pick sv)" and "message_db_ok (w_messages w)"
    and "sv_account sv \<in> set (t_accounts (w_messages w))"
    and "\<forall>(_, r)\<in>set (t_messages (w_messages w)). \<not> has_marker origin_id r"
  obtains c w' where "persist_own sv to_jid body enc reply_to origin_id None thr st w = (Inr (), w')"
    and "w_sent w' = w_sent w"
    and "account_of_conversation c (w_messages w') = Some (sv_account sv)"
    and "(msg_seq (w_messages w) + 1, (stored_row (own_message sv c to_jid body enc reply_to origin_id None thr))
            \<lparr>msg_state := st\<rparr>) \<in> set (t_messages (w_messages w'))"
proof -
  let ?db = "w_messages w" and ?k = "conv_kind_name (conversation_kind (sv_account sv) to_jid (w_messages w))"
  obtain c db1 where cid: "conversation_id (sv_account sv) to_jid ?k ?db = (Inr c, db1)"
    and db1: "t_messages db1 = t_messages ?db" "account_of_conversation c db1 = Some (sv_account sv)"
      "msg_seq db1 = msg_seq ?db" "message_db_ok db1"
    by (rule conversation_id_found[OF assms(2,3)])
  define m where "m = own_message sv c to_jid body enc reply_to origin_id None thr"
  define db2 where "db2 = db1\<lparr>t_messages := t_messages db1 @ [(msg_seq db1 + 1, stored_row m)], msg_seq := msg_seq db1 + 1,
     t_conversations := tbl_update c (\<lambda>r. r\<lparr>conv_last_active := Some (new_timestamp m)\<rparr>) (t_conversations db1)\<rparr>"
  have "existing_message (sv_pick sv) m db1 = None"
    using assms(4) unfolding existing_message_None[OF assms(1)] db1(1)
    by (auto simp: same_message_def m_def own_message_def has_marker_def)
  moreover have "c \<in> set (map fst (t_conversations db1))"
    using db1(2) map_of_eq_None_iff[of "t_conversations db1" c]
    by (cases "map_of (t_conversations db1) c") (auto simp: account_of_conversation_def)
  ultimately have ins: "insert_message (sv_pick sv) m db1 = (Inr (Some (msg_seq db1 + 1)), db2)"
    by (simp add: insert_message_def Let_def db2_def m_def own_message_def)
  obtain evs where p: "persist_and_emit sv c m False True False False (w\<lparr>w_messages := db1\<rparr>)
      = (Inr (), w\<lparr>w_messages := db2, w_events := evs\<rparr>)"
  proof -
    have att: "new_attachment m = None" by (simp add: m_def own_message_def)
    have "\<exists>evs. persist_and_emit sv c m False True False False (w\<lparr>w_messages := db1\<rparr>)
        = (Inr (), w\<lparr>w_messages := db2, w_events := evs\<rparr>)"
      by (cases "fetch_row c (msg_seq db1 + 1) db2";
          simp add: persist_and_emit_def act_simps on_messages_def ins act_when_def att; rule exI; rule refl)
    with that show ?thesis by blast
  qed
  define w' where "w' = w\<lparr>w_messages := set_message_state origin_id st db2, w_events := evs @ [Message_State origin_id st]\<rparr>"
  have "persist_own sv to_jid body enc reply_to origin_id None thr st w = (Inr (), w')"
    by (simp add: persist_own_def act_simps on_messages_def cid m_def[symmetric] p announce_state_def w'_def)
  moreover have "account_of_conversation c (w_messages w') = Some (sv_account sv)"
    using db1(2) by (simp add: w'_def account_kept(1)) (simp add: db2_def account_kept(2))
  moreover have "has_marker origin_id (stored_row m)" by (simp add: m_def own_message_def stored_row_def has_marker_def)
  then have "(msg_seq ?db + 1, (stored_row m)\<lparr>msg_state := st\<rparr>) \<in> set (t_messages (w_messages w'))"
    by (force simp: w'_def set_message_state_def update_where_def db2_def db1)
  ultimately show ?thesis using that by (simp add: m_def w'_def)
qed

text \<open>
  A text written while offline is queued, not lost and not sent: nothing goes on the wire, and
  the outbox then holds a message with its id, recipient, text, encryption and reply, which the next
  flush takes up.
\<close>

theorem offline_text_queued:
  assumes "limit_one (sv_pick sv)" and "message_db_ok (w_messages w)"
    and "sv_account sv \<in> set (t_accounts (w_messages w))"
    and "\<forall>(_, r)\<in>set (t_messages (w_messages w)). \<not> has_marker origin_id r"
  shows "\<exists>w'. send_message sv to_jid body enc reply_to False origin_id w = (Inr (), w')
    \<and> w_sent w' = w_sent w
    \<and> \<lparr>pend_origin_id = origin_id, pend_to = to_jid, pend_body = body, pend_encryption = enc_str enc,
         pend_reply_to = reply_to\<rparr> \<in> set (pending_messages (sv_account sv) (w_messages w'))"
proof -
  obtain c w' where run: "persist_own sv to_jid body enc reply_to origin_id None None ''pending'' w = (Inr (), w')"
    and sent: "w_sent w' = w_sent w"
    and acc: "account_of_conversation c (w_messages w') = Some (sv_account sv)"
    and row: "(msg_seq (w_messages w) + 1, (stored_row (own_message sv c to_jid body enc reply_to origin_id None None))
            \<lparr>msg_state := ''pending''\<rparr>) \<in> set (t_messages (w_messages w'))"
    by (rule persist_own_new[OF assms])
  have "send_message sv to_jid body enc reply_to False origin_id w = (Inr (), w')"
    by (simp add: send_message_def act_when_def act_simps run)
  moreover have "pending_view ((stored_row (own_message sv c to_jid body enc reply_to origin_id None None))
            \<lparr>msg_state := ''pending''\<rparr>) \<in> set (pending_messages (sv_account sv) (w_messages w'))"
    using acc by (intro in_pending[OF row]) (simp add: is_pending_def stored_row_def own_message_def)
  ultimately show ?thesis using sent by (simp add: pending_view_def stored_row_def own_message_def)
qed

text \<open>Sending what waits.\<close>

lemma chat_message_attrs [simp]:
  assumes "dom_sound d"
  shows "d_attr d (chat_message d kind to_jid oid) ''id'' = Some oid"
    and "d_attr d (chat_message d kind to_jid oid) ''to'' = Some to_jid"
  using assms by (simp_all add: chat_message_def with_id_def message_to_def)

text \<open>The chat can be written to: in plain text, or with a session for a contact.\<close>

definition sendable :: "('e, 'o) services \<Rightarrow> message_db \<Rightarrow> pending_message \<Rightarrow> bool" where
  "sendable sv db m \<longleftrightarrow> pend_encryption m \<noteq> ''omemo2''
     \<or> (conversation_kind (sv_account sv) (pend_to m) db \<noteq> Some ''muc''
        \<and> (\<forall>b x eng. \<exists>e. fst (sv_encrypt sv [pend_to m] b x eng) = Inr e))"

lemma resend_queues:
  assumes "dom_sound (sv_dom sv)" and "sv_connected sv" and "sendable sv (w_messages w) m"
  obtains el t where "resend sv m w = (Inr (), t)" and "w_sent t = w_sent w @ [el]"
    and "w_messages t = w_messages w"
    and "d_attr (sv_dom sv) el ''id'' = Some (pend_origin_id m)"
    and "d_attr (sv_dom sv) el ''to'' = Some (pend_to m)"
proof (cases "pend_encryption m = ''omemo2''")
  case False
  with assms(1,2) that show ?thesis
    by (simp add: resend_def pend_enc_def send_text_stanza_def Let_def act_simps send_stanza_def)
next
  case True
  let ?k = "conversation_kind (sv_account sv) (pend_to m) (w_messages w)"
  let ?env = "text_envelope sv (pend_to m) (pend_body m) (pend_reply_to m) []"
  have k: "?k \<noteq> Some ''muc''" and enc: "\<exists>e. fst (sv_encrypt sv [pend_to m] b x eng) = Inr e" for b x eng
    using assms(3) True by (auto simp: sendable_def)
  obtain e eng where e: "sv_encrypt sv [pend_to m] (binding_of ?k (pend_to m))
      (envelope_to_xml (sv_xml sv) (sv_rng sv) ?env) (w_engine w) = (Inr e, eng)"
    using enc by (metis prod.collapse)
  have "seal sv ?k (pend_to m) ?env w = (Inr e, w\<lparr>w_engine := eng\<rparr>)"
    using k by (simp add: seal_def encrypt_envelope_def act_simps on_engine_def e fallible_def)
  with assms(1,2) that True show ?thesis
    by (simp add: resend_def pend_enc_def send_text_stanza_def Let_def act_simps send_stanza_def)
qed

definition mark_sent :: "pending_message \<Rightarrow> message_db \<Rightarrow> message_db" where
  "mark_sent m = set_message_state (pend_origin_id m) ''sent''"

lemma flush_all:
  assumes "dom_sound (sv_dom sv)" and "sv_connected sv" and "\<forall>m\<in>set ms. sendable sv (w_messages w) m"
  shows "\<exists>w' els. act_iter (flush_one sv) ms w = (Inr (), w')
    \<and> w_messages w' = fold mark_sent ms (w_messages w) \<and> w_sent w' = w_sent w @ els
    \<and> map (\<lambda>el. (d_attr (sv_dom sv) el ''to'', d_attr (sv_dom sv) el ''id'')) els
        = map (\<lambda>m. (Some (pend_to m), Some (pend_origin_id m))) ms"
  using assms(3)
proof (induction ms arbitrary: w)
  case (Cons m ms)
  obtain el t where r: "resend sv m w = (Inr (), t)" "w_sent t = w_sent w @ [el]" "w_messages t = w_messages w"
    and el: "d_attr (sv_dom sv) el ''id'' = Some (pend_origin_id m)" "d_attr (sv_dom sv) el ''to'' = Some (pend_to m)"
    using Cons.prems by (auto intro: resend_queues[OF assms(1,2), of w m])
  let ?t = "t\<lparr>w_messages := mark_sent m (w_messages w), w_events := w_events t @ [Message_State (pend_origin_id m) ''sent'']\<rparr>"
  have one: "flush_one sv m w = (Inr (), ?t)"
    by (simp add: flush_one_def r announce_state_def act_simps mark_sent_def)
  have "sendable sv (mark_sent m (w_messages w)) = sendable sv (w_messages w)"
    by (rule ext) (simp add: sendable_def conversation_kind_def find_conversation_def mark_sent_def set_message_state_def)
  with Cons.prems have "\<forall>m\<in>set ms. sendable sv (w_messages ?t) m" by simp
  from Cons.IH[OF this] obtain w' els where "act_iter (flush_one sv) ms ?t = (Inr (), w')"
    "w_messages w' = fold mark_sent ms (mark_sent m (w_messages w))" "w_sent w' = w_sent t @ els"
    "map (\<lambda>el. (d_attr (sv_dom sv) el ''to'', d_attr (sv_dom sv) el ''id'')) els
        = map (\<lambda>m. (Some (pend_to m), Some (pend_origin_id m))) ms" by auto
  then show ?case
    by (intro exI[of _ w'] exI[of _ "el # els"]) (simp add: act_bind_def one r el)
qed (simp add: act_simps)

lemma marked_rows:
  "(i, r) \<in> set (t_messages (fold mark_sent ms db)) \<Longrightarrow> msg_state r = ''pending'' \<Longrightarrow>
     (i, r) \<in> set (t_messages db) \<and> (\<forall>m\<in>set ms. \<not> has_marker (pend_origin_id m) r)"
proof (induction ms arbitrary: db)
  case (Cons m ms)
  then have "(i, r) \<in> set (t_messages (mark_sent m db))" "\<forall>m\<in>set ms. \<not> has_marker (pend_origin_id m) r" by auto
  with Cons.prems(2) show ?case
    by (auto simp: mark_sent_def set_message_state_def update_where_def split: if_splits)
qed simp

lemma mark_sent_conversations: "t_conversations (fold mark_sent ms db) = t_conversations db"
  by (induction ms arbitrary: db) (simp_all add: mark_sent_def set_message_state_def)

text \<open>
  C27: Reconnecting empties the outbox: when the connection takes stanzas and every waiting chat can
  be written to, \<open>flush_outbox\<close> queues one stanza per waiting message, with its recipient and id, in
  the order the messages were written, and no message waits afterwards.
\<close>

theorem flush_outbox_delivers:
  assumes "dom_sound (sv_dom sv)" and "sv_connected sv"
    and "\<forall>m\<in>set (pending_messages (sv_account sv) (w_messages w)). sendable sv (w_messages w) m"
  shows "\<exists>w' els. flush_outbox sv w = (Inr (), w') \<and> w_sent w' = w_sent w @ els
    \<and> map (\<lambda>el. (d_attr (sv_dom sv) el ''to'', d_attr (sv_dom sv) el ''id'')) els
        = map (\<lambda>m. (Some (pend_to m), Some (pend_origin_id m))) (pending_messages (sv_account sv) (w_messages w))
    \<and> pending_messages (sv_account sv) (w_messages w') = []"
proof -
  let ?ms = "pending_messages (sv_account sv) (w_messages w)"
  obtain w' els where run: "act_iter (flush_one sv) ?ms w = (Inr (), w')"
    and db: "w_messages w' = fold mark_sent ?ms (w_messages w)" and sent: "w_sent w' = w_sent w @ els"
      "map (\<lambda>el. (d_attr (sv_dom sv) el ''to'', d_attr (sv_dom sv) el ''id'')) els
        = map (\<lambda>m. (Some (pend_to m), Some (pend_origin_id m))) ?ms"
    using flush_all[OF assms] by blast
  have "\<not> is_pending (sv_account sv) (w_messages w') r" if in': "(i, r) \<in> set (t_messages (w_messages w'))" for i r
  proof
    assume p: "is_pending (sv_account sv) (w_messages w') r"
    then have "is_pending (sv_account sv) (w_messages w) r"
      by (simp add: is_pending_def account_of_conversation_def db mark_sent_conversations)
    moreover have "(i, r) \<in> set (t_messages (w_messages w))" "\<forall>m\<in>set ?ms. \<not> has_marker (pend_origin_id m) r"
      using marked_rows[OF in'[unfolded db]] p by (simp_all add: is_pending_def)
    ultimately show False
      using in_pending[of i r "w_messages w" "sv_account sv"] by (auto simp: pending_view_def has_marker_def is_pending_def)
  qed
  then have "filter (\<lambda>(_, r). is_pending (sv_account sv) (w_messages w') r) (t_messages (w_messages w')) = []"
    by (auto simp: filter_empty_conv)
  then have "pending_messages (sv_account sv) (w_messages w') = []" by (simp add: pending_messages_def)
  with run sent show ?thesis by (auto simp: flush_outbox_def act_simps)
qed

definition toy_outbox :: message_db where
  "toy_outbox = (empty_message_db [7])
     \<lparr>t_conversations := [(1, (default_conversation 7 ''bob@x'' ''chat'')\<lparr>conv_encryption := ''omemo2''\<rparr>)],
      t_messages := [(4, (stored_row (outgoing_message 1 ''bob@x'' ''hi'' ''omemo2'' None ''m1'' ''now''))\<lparr>msg_state := ''pending''\<rparr>)],
      conv_seq := 1, msg_seq := 4\<rparr>"

lemma toy_outbox_waits:
  "pending_messages 7 toy_outbox = [\<lparr>pend_origin_id = ''m1'', pend_to = ''bob@x'', pend_body = ''hi'',
     pend_encryption = ''omemo2'', pend_reply_to = None\<rparr>]"
  "conversation_kind 7 ''bob@x'' toy_outbox = Some ''chat''"
  by code_simp+

lemma toy_sv_fields [simp]:
  "sv_dom toy_sv = tree_dom" "sv_connected toy_sv" "sv_account toy_sv = 7"
  "sv_encrypt toy_sv rs b x eng = (Inr toy_cipher, eng)"
  by (simp_all add: toy_sv_def)

lemma toy_world_fields [simp]: "w_messages (toy_world db) = db" "w_sent (toy_world db) = []"
  by (simp_all add: toy_world_def)

lemma flush_outbox_delivers_witness:
  "\<exists>w' el. flush_outbox toy_sv (toy_world toy_outbox) = (Inr (), w') \<and> w_sent w' = [el]
     \<and> d_attr tree_dom el ''id'' = Some ''m1'' \<and> pending_messages 7 (w_messages w') = []"
proof -
  have "\<forall>m\<in>set (pending_messages (sv_account toy_sv) (w_messages (toy_world toy_outbox))).
      sendable toy_sv (w_messages (toy_world toy_outbox)) m"
    by (simp add: toy_outbox_waits sendable_def)
  from flush_outbox_delivers[OF _ _ this]
  show ?thesis by (auto simp: toy_outbox_waits)
qed

lemma offline_text_queued_witness:
  "\<exists>w'. send_message toy_sv ''bob@x'' ''hi'' Encryption_None None False ''m1'' (toy_world (empty_message_db [7]))
      = (Inr (), w') \<and> w_sent w' = []
     \<and> ''hi'' \<in> pend_body ` set (pending_messages 7 (w_messages w'))"
proof -
  let ?w = "toy_world (empty_message_db [7])"
  have ok: "message_db_ok (w_messages ?w)" by simp
  have "sv_account toy_sv \<in> set (t_accounts (w_messages ?w))"
    "\<forall>(_, r)\<in>set (t_messages (w_messages ?w)). \<not> has_marker ''m1'' r"
    by (simp_all add: empty_message_db_def)
  from offline_text_queued[OF toy_sv_pick ok this, of "''bob@x''" "''hi''" Encryption_None None]
  show ?thesis by (force simp: toy_sv_def toy_world_def)
qed

lemma encrypted_text_hides_content_witness:
  "\<exists>w'. send_text_stanza toy_sv ''bob@x'' ''secret'' Encryption_Omemo2 None ''m1'' [] (toy_world toy_outbox) = (Inr (), w')
     \<and> length (w_sent w') = 1"
proof -
  let ?run = "send_text_stanza toy_sv ''bob@x'' ''secret'' Encryption_Omemo2 None ''m1'' [] (toy_world toy_outbox)"
  have "fst ?run = Inr ()" by code_simp
  then have "?run = (Inr (), snd ?run)" by (simp add: prod_eq_iff)
  with encrypted_text_hides_content[OF this] show ?thesis by (auto simp: toy_world_def)
qed

lemma encrypted_metadata_hides_elements_witness:
  "\<exists>w'. send_chat_state toy_sv ''bob@x'' ''composing'' (toy_world toy_outbox) = (Inr (), w')
     \<and> length (w_sent w') = 1"
proof -
  let ?els = "[d_bare (sv_dom toy_sv) ''composing'' NS_CHATSTATES]"
  let ?run = "send_meta toy_sv ''bob@x'' ?els False (toy_world toy_outbox)"
  have "fst ?run = Inr ()" by code_simp
  then have run: "?run = (Inr (), snd ?run)" by (simp add: prod_eq_iff)
  have "is_omemo toy_sv ''bob@x'' (w_messages (toy_world toy_outbox))" by code_simp
  from encrypted_metadata_hides_elements[OF this run]
  have "length (w_sent (snd ?run)) = 1" by auto
  with run show ?thesis unfolding send_chat_state_def by blast
qed

subsection \<open>What a reply can carry\<close>

text \<open>
  The id of the message replied to is chosen by the peer and is written into the envelope
  unescaped: an id with a quote closes the attribute, and whatever markup \<open>x\<close> it goes on with stands in
  our sealed content between two well-formed elements.
\<close>

theorem reply_id_injects_markup:
  "env_content_inner (text_envelope sv to_jid body
        (Some (''a'' @ [CHR 0x27] @ ''/>'' @ x @ ''<reply id='' @ [CHR 0x27] @ ''b'')) [])
    = env_content_inner (text_envelope sv to_jid body None [])
      @ ''<reply xmlns='' @ quoted NS_REPLY @ '' id='' @ quoted ''a'' @ ''/>''
      @ x @ ''<reply id='' @ quoted ''b'' @ '' to='' @ quoted to_jid @ ''/>''"
  by (simp add: text_envelope_def reply_xml_def envelope_new_def quoted_def)

end
