(* ===== verification/Incoming_Laws.thy ===== *)
theory Incoming_Laws
  imports Outgoing_Laws
begin

text \<open>
  What receiving guarantees: the tables stay well-formed however sending and receiving interleave,
  a stanza that does not decrypt shows nothing of itself, encrypted stickers are never fetched in
  the clear; and what it does not check: who sent an archive copy, a correction or a receipt.
\<close>

subsection \<open>The tables under any interleaving\<close>

lemma tables_muc_sender: "act_within tables_le (muc_sender sv msg c from occ live sb)"
  unfolding muc_sender_def note_occupant_def Let_def
  by (auto intro!: tables_intros)

lemma tables_failure:
  "limit_one (sv_pick sv) \<Longrightarrow> act_within tables_le (persist_decrypt_failure sv msg cx)"
  by (auto simp: persist_decrypt_failure_def intro!: tables_intros tables_shared)

lemma tables_engine:
  "act_within tables_le (engine_upkeep sv sender dec)" "act_within tables_le (engine_heal sv sender el)"
  by (auto simp: engine_upkeep_def engine_heal_def intro!: tables_intros)

lemma tables_recover:
  "limit_one (sv_pick sv) \<Longrightarrow> act_within tables_le (recover_content sv msg cx sender)"
  unfolding recover_content_def
  by (auto intro!: tables_intros tables_failure tables_engine)

lemma tables_webxdc: "act_within tables_le (webxdc_step sv msg content sender)"
proof -
  have "act_within tables_le (\<lambda>w. let (evs, db) = f w in (Inr (), w\<lparr>w_webxdc := db, w_events := w_events w @ evs\<rparr>))"
    for f :: "('a, 'b) world \<Rightarrow> event list \<times> webxdc_db"
    by (simp add: act_within_def tables_le_def Let_def case_prod_beta)
  then show ?thesis unfolding webxdc_step_def Let_def
    by (auto intro!: tables_intros simp: Let_def split: option.split)
qed

lemma tables_stickers: "act_within tables_le (sticker_step sv content from enc)"
  by (auto simp: sticker_step_def save_inline_def fetch_sticker_def Let_def
      intro!: tables_intros untouched_files(1)[THEN tables_untouched] split: option.split)

lemma tables_message_step:
  "limit_one (sv_pick sv) \<Longrightarrow> act_within tables_le (message_step sv msg content cx enc fp mam raw)"
  by (auto simp: message_step_def correction_step_def highlight_step_def receipt_step_def run_act_def Let_def
      intro!: tables_intros tables_shared tables_send split: prod.split run.split)

lemma tables_content_step:
  "limit_one (sv_pick sv) \<Longrightarrow> act_within tables_le (content_step sv msg cx sender mam content enc fp)"
  by (auto simp: content_step_def note_receipt_def note_chat_states_def apply_reactions_def
      apply_retraction_def Let_def
      intro!: tables_intros tables_shared tables_webxdc tables_stickers tables_message_step
      simp del: act_iter.simps split: option.split)

lemma tables_process:
  assumes "limit_one (sv_pick sv)"
  shows "act_within tables_le (process_payload sv msg dir ts live mam)"
  unfolding process_payload_def Let_def backfill_echo_def
  by (auto intro!: tables_intros tables_muc_sender tables_recover[OF assms] tables_content_step[OF assms]
      split: prod.split option.split)

lemma tables_handle_incoming:
  assumes "limit_one (sv_pick sv)"
  shows "act_within tables_le (handle_incoming sv msg)"
proof -
  have "act_within tables_le (story_step sv msg)"
    by (simp add: act_within_def tables_le_def story_step_def case_prod_beta Let_def)
  then show ?thesis unfolding handle_incoming_def Let_def
    by (auto intro!: tables_intros tables_process[OF assms] split: option.split prod.split carbon_kind.split)
qed

text \<open>
  One operation of the client, with whatever clock, random bytes and answers of the services; the
  actor runs them one at a time, in any order.
\<close>

inductive app_step :: "('e, 'o) world \<Rightarrow> ('e, 'o) world \<Rightarrow> bool" where
  "limit_one (sv_pick sv) \<Longrightarrow> app_step w (snd (handle_incoming sv msg w))"
| "limit_one (sv_pick sv) \<Longrightarrow> app_step w (snd (send_message sv to_jid body enc reply_to online oid w))"
| "limit_one (sv_pick sv) \<Longrightarrow> app_step w (snd (flush_outbox sv w))"
| "limit_one (sv_pick sv) \<Longrightarrow> app_step w (snd (send_chat_state sv to_jid st w))"
| "limit_one (sv_pick sv) \<Longrightarrow> app_step w (snd (send_read_marker sv to_jid i w))"
| "limit_one (sv_pick sv) \<Longrightarrow> app_step w (snd (react sv to_jid rx target es w))"
| "limit_one (sv_pick sv) \<Longrightarrow> app_step w (snd (send_correction sv to_jid target new c w))"
| "limit_one (sv_pick sv) \<Longrightarrow> app_step w (snd (send_retraction sv to_jid target c w))"
| "limit_one (sv_pick sv) \<Longrightarrow> app_step w (snd (send_files sv to_jid paths caption oid w))"
| "limit_one (sv_pick sv) \<Longrightarrow> app_step w (snd (send_sticker sv to_jid path oid w))"
| "limit_one (sv_pick sv) \<Longrightarrow> app_step w (snd (send_webxdc_file sv to_jid path thread oid w))"
| "limit_one (sv_pick sv) \<Longrightarrow> app_step w (snd (send_webxdc_update sv to_jid thread pl info doc sm nt oid w))"
| "limit_one (sv_pick sv) \<Longrightarrow> app_step w (snd (send_webxdc_realtime sv to_jid thread data w))"

lemma tables_metas:
  assumes "limit_one (sv_pick sv)"
  shows "act_within tables_le (send_chat_state sv to_jid st)"
    and "act_within tables_le (send_read_marker sv to_jid i)"
  unfolding send_chat_state_def send_read_marker_def by (intro tables_send(1)[OF assms])+

lemmas operations_tables = tables_handle_incoming[THEN act_withinD] tables_send_message[THEN act_withinD]
  tables_flush[THEN act_withinD] tables_metas[THEN act_withinD] tables_reactions(2-4)[THEN act_withinD]
  tables_send_files[THEN act_withinD] tables_file_sending[THEN act_withinD]

lemma app_step_tables: "app_step w w' \<Longrightarrow> tables_le w w'"
  by (induction rule: app_step.induct) (erule operations_tables)+

interpretation app: invariant_machine app_step "\<lambda>w. message_db_ok (w_messages w)"
  by unfold_locales (auto dest!: app_step_tables simp: tables_le_def intro: messages.run_inv)

interpretation app_row: invariant_machine app_step "\<lambda>w. identified i m (w_messages w)" for i m
  by unfold_locales (auto dest!: app_step_tables simp: tables_le_def intro: row.run_inv)

text \<open>
  C25: However sending, flushing the outbox and handling stanzas follow each other, and whatever the
  peers, the server and the engine answer, the message tables stay well-formed from a fresh database
  on: unique ids, one conversation per address, one message per conversation and origin id, no row
  without its parent.
\<close>

theorem client_run_keeps_store:
  assumes "w_messages w = empty_message_db accounts" and "app_step\<^sup>*\<^sup>* w w'"
  shows "message_db_ok (w_messages w')"
  using app.run_inv[OF assms(2)] assms(1) by simp

lemma client_run_keeps_store_witness:
  "\<exists>w'. app_step\<^sup>*\<^sup>* (toy_world (empty_message_db [7])) w' \<and> message_db_ok (w_messages w')
     \<and> t_messages (w_messages w') \<noteq> []"
proof -
  let ?w = "toy_world (empty_message_db [7])"
  have ok: "message_db_ok (w_messages ?w)" by simp
  have "sv_account toy_sv \<in> set (t_accounts (w_messages ?w))"
    "\<forall>(_, r)\<in>set (t_messages (w_messages ?w)). \<not> has_marker ''m1'' r"
    by (simp_all add: empty_message_db_def)
  from persist_own_new[OF toy_sv_pick ok this, of "''bob@x''" "''hi''" Encryption_None None None "''pending''"]
  obtain w' where "persist_own toy_sv ''bob@x'' ''hi'' Encryption_None None ''m1'' None None ''pending'' ?w = (Inr (), w')"
    and rows: "t_messages (w_messages w') \<noteq> []" by (metis empty_iff list.set(1))
  then have "snd (send_message toy_sv ''bob@x'' ''hi'' Encryption_None None False ''m1'' ?w) = w'"
    by (simp add: send_message_def act_when_def act_simps)
  then have run: "app_step\<^sup>*\<^sup>* ?w w'"
    using app_step.intros(2)[OF toy_sv_pick, of ?w "''bob@x''" "''hi''" Encryption_None None False "''m1''"] by auto
  from client_run_keeps_store[OF _ run] run rows show ?thesis by auto
qed

subsection \<open>What does not decrypt shows nothing\<close>

definition failed_text :: "string option \<times> string \<Rightarrow> bool" where
  "failed_text t \<longleftrightarrow> t = (Some UNDECRYPTABLE, ''omemo2-failed'')"

text \<open>Nothing the engine answers for this stanza opens to a bound, readable envelope.\<close>

definition undecryptable :: "('e, 'o) services \<Rightarrow> 'e \<Rightarrow> bool" where
  "undecryptable sv msg \<longleftrightarrow> (\<exists>el. get_child (sv_dom sv) msg ''encrypted'' NS_OMEMO2 = Some el
     \<and> (\<forall>sender to_jid eng dec. fst (sv_decrypt sv el sender to_jid eng) = Inr dec \<longrightarrow>
          dec_key_transport dec \<or> (\<forall>cx. opened sv msg cx sender dec = None)))"

lemma texts_same_rows:
  "(\<And>db. \<forall>(i, r)\<in>set (t_messages (f db)). \<exists>r0. (i, r0) \<in> set (t_messages db) \<and> row_text r = row_text r0)
    \<Longrightarrow> act_within (texts_le P) (write_messages f)"
  unfolding act_within_def texts_le_def by (fastforce simp: act_simps)

lemma texts_on_messages:
  "(\<And>db. \<forall>(i, r)\<in>set (t_messages (snd (m db))). P (row_text r)
       \<or> (\<exists>r0. (i, r0) \<in> set (t_messages db) \<and> row_text r = row_text r0))
    \<Longrightarrow> act_within (texts_le P) (on_messages m)"
  by (simp add: act_within_def texts_le_def)

lemma texts_rewrite:
  assumes "\<And>k r. row_text (g k r) = row_text r"
  shows "\<forall>(i, r)\<in>set (rewrite g t). \<exists>r0. (i, r0) \<in> set t \<and> row_text r = row_text r0"
  using assms by (auto simp: rewrite_def)

lemma texts_statements:
  "act_within (texts_le P) (on_messages (conversation_id a jid kind))"
  "act_within (texts_le P) (on_messages (upsert_muc_occupant c n real aff))"
  "act_within (texts_le P) (write_messages (backfill_stanza_id c origin stanza occ))"
  "act_within (texts_le P) (write_messages (set_message_state marker st))"
  "act_within (texts_le P) (write_messages (set_attachment i json))"
  "act_within (texts_le P) (write_messages (bump_unread c))"
  "act_within (texts_le P) (write_messages (set_muc_self_occupant c oc))"
  "act_within (texts_le P) (write_messages (set_muc_subject c subject))"
proof -
  show "act_within (texts_le P) (on_messages (conversation_id a jid kind))"
    by (rule texts_on_messages) (auto simp: conversation_id_def insert_conversation_def Let_def split: option.split)
  show "act_within (texts_le P) (on_messages (upsert_muc_occupant c n real aff))"
    by (rule texts_on_messages) (auto simp: upsert_muc_occupant_def)
next
  show "act_within (texts_le P) (write_messages (backfill_stanza_id c origin stanza occ))"
    "act_within (texts_le P) (write_messages (set_message_state marker st))"
    "act_within (texts_le P) (write_messages (set_attachment i json))"
    by (rule texts_same_rows; simp add: message_updates as_rewrite;
        rule texts_rewrite; simp add: row_text_def backfill_def)+
next
  show "act_within (texts_le P) (write_messages (bump_unread c))"
    "act_within (texts_le P) (write_messages (set_muc_self_occupant c oc))"
    "act_within (texts_le P) (write_messages (set_muc_subject c subject))"
    by (rule texts_same_rows; simp add: conversation_updates update_conversation_def; blast)+
qed

lemma texts_insert:
  assumes "limit_one pick" and "P (new_body m, new_encryption m)"
  shows "act_within (texts_le P) (on_messages (insert_message pick m))"
proof (rule texts_on_messages)
  fix db
  show "\<forall>(i, r)\<in>set (t_messages (snd (insert_message pick m db))). P (row_text r)
       \<or> (\<exists>r0. (i, r0) \<in> set (t_messages db) \<and> row_text r = row_text r0)"
  proof (cases "existing_message pick m db")
    case None
    then show ?thesis using assms(2) by (auto simp: insert_message_def Let_def stored_row_def row_text_def)
  next
    case (Some x)
    then show ?thesis
      using texts_rewrite[of "\<lambda>k r. if k = fst x then backfill (new_stanza_id m) (new_occupant_id m) r else r" "t_messages db"]
      by (cases x) (fastforce simp: insert_message_def tbl_update_rewrite row_text_def backfill_def)
  qed
qed

lemmas texts_rules = texts.within_pure texts.within_bind texts.within_seq texts.within_when
  texts.within_iter texts.within_map within_cases untouched_basic(1-6)[THEN texts_untouched] texts_statements

lemma texts_failure:
  assumes "limit_one (sv_pick sv)"
  shows "act_within (texts_le failed_text) (persist_decrypt_failure sv msg cx)"
proof -
  have ignore: "act_within (texts_le failed_text) m \<Longrightarrow> act_within (texts_le failed_text) (ignore_error m)" for m
    by (simp add: act_within_def ignore_error_def)
  show ?thesis unfolding persist_decrypt_failure_def persist_and_emit_def
    by (intro ignore texts_rules texts_insert[OF assms]) (simp add: failed_text_def failure_row_def)
qed

lemma fst_act_bind: "fst (act_bind m k w) = (case fst (m w) of Inl e \<Rightarrow> Inl e | Inr x \<Rightarrow> fst (k x (snd (m w))))"
  by (auto simp: act_bind_def split: prod.split sum.split)

lemma fst_act_seq: "fst (act_seq m n w) = (case fst (m w) of Inl e \<Rightarrow> Inl e | Inr _ \<Rightarrow> fst (n (snd (m w))))"
  by (simp add: act_seq_def fst_act_bind)

lemma undecryptable_result:
  assumes "undecryptable sv msg" and "limit_one (sv_pick sv)"
  shows "act_within (texts_le failed_text) (recover_content sv msg cx sender)"
    and "fst (recover_content sv msg cx sender w) = Inr None"
proof -
  obtain el where el: "get_child (sv_dom sv) msg ''encrypted'' NS_OMEMO2 = Some el"
    and fail: "\<And>sender to_jid eng dec. fst (sv_decrypt sv el sender to_jid eng) = Inr dec \<Longrightarrow>
          dec_key_transport dec \<or> (\<forall>cx. opened sv msg cx sender dec = None)"
    using assms(1) unfolding undecryptable_def by blast
  show "act_within (texts_le failed_text) (recover_content sv msg cx sender)"
    unfolding recover_content_def engine_upkeep_def engine_heal_def
    by (intro texts_rules texts_failure[OF assms(2)])
  have fr: "fst (persist_decrypt_failure sv msg cx t) = Inr ()" for t
    by (simp add: persist_decrypt_failure_def act_simps)
  have fu: "fst (engine_upkeep sv sender dec t) = Inr ()" "fst (engine_heal sv sender el t) = Inr ()" for dec t
    by (simp_all add: engine_upkeep_def engine_heal_def act_when_def act_simps split: option.split)
  have dec: "fst (sv_decrypt sv el sender (expected_to sv cx) (w_engine w)) = Inr dec \<Longrightarrow>
      dec_key_transport dec \<or> opened sv msg cx sender dec = None" for dec
    using fail[of sender "expected_to sv cx" "w_engine w" dec] by auto
  show "fst (recover_content sv msg cx sender w) = Inr None"
    using dec by (cases "fst (sv_decrypt sv el sender (expected_to sv cx) (w_engine w))")
      (auto simp: recover_content_def el fst_act_bind fst_act_seq fr fu on_engine_def Let_def case_prod_beta act_simps)
qed

lemma within_bind_const:
  assumes "act_within (texts_le P) m" and "\<And>w. fst (m w) = Inr x" and "act_within (texts_le P) (k x)"
  shows "act_within (texts_le P) (act_bind m k)"
proof -
  have "act_bind m k w = k x (snd (m w))" for w
    using assms(2)[of w] by (cases "m w") (auto simp: act_bind_def)
  then show ?thesis
    using assms(1,3) texts.le_trans unfolding act_within_def by metis
qed

lemma undecryptable_process:
  assumes "undecryptable sv msg" and "limit_one (sv_pick sv)"
  shows "act_within (texts_le failed_text) (process_payload sv msg dir ts live mam)"
proof -
  have ignore: "act_within (texts_le failed_text) m \<Longrightarrow> act_within (texts_le failed_text) (ignore_error m)" for m
    by (simp add: act_within_def ignore_error_def)
  have sender: "act_within (texts_le failed_text) (muc_sender sv msg c frm occ live sb)" for c frm occ sb
    unfolding muc_sender_def note_occupant_def Let_def
    by (auto intro!: texts_rules ignore)
  have opened_rest: "act_within (texts_le failed_text) (act_bind (recover_content sv msg cx sdr)
      (\<lambda>rec. case rec of None \<Rightarrow> act_ret () | Some (content, enc, fp) \<Rightarrow> K content enc fp))" for cx sdr K
    by (rule within_bind_const[OF undecryptable_result(1)[OF assms] undecryptable_result(2)[OF assms]])
       (simp add: texts.within_pure)
  have echo: "act_within (texts_le failed_text) (backfill_echo sv msg cx)" for cx
    unfolding backfill_echo_def by (auto intro!: texts_rules split: option.split)
  show ?thesis
    unfolding process_payload_def Let_def by (rule opened_rest sender echo | rule texts_rules)+
qed


definition toy_sealed :: tree where
  "toy_sealed = Tree ''message'' NS_CLIENT [(''from'', ''eve@x'')]
     [Tree ''encrypted'' NS_OMEMO2 [] [] [], Tree ''body'' NS_CLIENT [] [] ''pay me''] []"


subsection \<open>Stickers of encrypted messages stay local\<close>

lemma untouched_iter:
  assumes "\<And>x. untouched f (g x)"
  shows "untouched f (act_iter g xs)"
proof (induction xs)
  case (Cons x xs)
  have "f (snd (g x w)) = f w" for w using assms by (simp add: untouched_def)
  with Cons.IH show ?case
    by (auto simp: untouched_def act_bind_def split: prod.split sum.split) (metis snd_conv)+
qed (simp add: untouched_def act_simps)

lemma untouched_save_inline:
  "untouched w_engine (save_inline sv content)" "untouched w_sent (save_inline sv content)"
  unfolding save_inline_def
  by (rule untouched_iter; simp add: untouched_def save_sticker_def case_prod_beta Let_def act_simps
      split: option.split)+

lemma encrypted_fetch_nothing:
  "act_iter (\<lambda>(ssp, _). fetch_sticker sv from ''omemo2'' ssp) refs t = (Inr (), t)"
  by (induction refs) (auto simp: act_bind_def fetch_sticker_def act_simps)

text \<open>
  A sticker named by an encrypted message is only looked up in the cache or taken from the
  payload: handling it asks the sender for nothing and puts nothing on the wire, whatever the
  references.
\<close>

theorem encrypted_sticker_not_fetched:
  "w_engine (snd (sticker_step sv content from ''omemo2'' w)) = w_engine w
    \<and> w_sent (snd (sticker_step sv content from ''omemo2'' w)) = w_sent w"
  using untouched_save_inline[of sv content]
  by (cases "save_inline sv content w")
     (auto simp: untouched_def sticker_step_def Let_def act_seq_def act_bind_def encrypted_fetch_nothing
       act_simps split: sum.split dest: spec[of _ w])

subsection \<open>What is not checked\<close>

text \<open>
  A correction is applied whoever sent it: for every sender, direction and occupant of the same
  conversation a stanza that names one of its messages replaces that message's text, our own
  messages included, and the row keeps its direction, sender, encryption and fingerprint.
\<close>

theorem correction_from_anyone:
  assumes "message_db_ok (w_messages w)" and "message_by_marker (cx_conv cx) target (w_messages w) = Some (i, r)"
    and "child_attr (sv_dom sv) content ''replace'' NS_CORRECT ''id'' = Some target"
  shows "fst (correction_step sv content cx body w) = Inr True
    \<and> map_of (t_messages (w_messages (snd (correction_step sv content cx body w)))) i
        = Some (r\<lparr>msg_body := Some body, msg_edited_of := Some target\<rparr>)"
proof -
  have "map_of (t_messages (w_messages w)) i = Some r"
    using assms(1) message_by_marker_SomeD(1)[OF assms(2)] by (simp add: ok_defs in_table_iff)
  then show ?thesis
    using assms(2,3) by (simp add: correction_step_def act_simps on_messages_def apply_correction_def
        emit_edited_def map_of_tbl_update split: option.split)
qed

text \<open>
  Nothing checks who sent an archive copy: a stanza from somebody else, neither a call nor a story,
  that wraps a message as an archive result is processed like a message of our own archive, with
  the sender, direction, time and id written inside.
\<close>

theorem archive_copy_from_anyone:
  assumes "\<not> eq_ignore_ascii_case (to_bare (attr_or_empty (sv_dom sv) msg ''from'')) (sv_bare sv)"
    and "sv_call_message sv msg (w_engine w) = (False, eng)"
    and "story_event_items (sv_dom sv) msg = None"
    and "get_child (sv_dom sv) msg ''result'' NS_MAM = Some result"
    and "get_child (sv_dom sv) result ''forwarded'' NS_FORWARD = Some fwd"
    and "get_child (sv_dom sv) fwd ''message'' NS_CLIENT = Some inner"
  shows "handle_incoming sv msg w = process_payload sv inner (direction_of (sv_dom sv) inner (sv_bare sv))
      (delay_stamp (sv_dom sv) fwd) False (d_attr (sv_dom sv) result ''id'') (w\<lparr>w_engine := eng\<rparr>)"
  using assms
  by (simp add: handle_incoming_def Let_def act_simps on_engine_def story_step_def story_handle_event_def
      carbons_unwrap_def)

definition toy_inner :: tree where
  "toy_inner = Tree ''message'' NS_CLIENT [(''from'', ''boss@x''), (''to'', ''me@y'')]
     [Tree ''body'' NS_CLIENT [] [] ''pay eve''] []"

definition toy_forged :: tree where
  "toy_forged = Tree ''message'' NS_CLIENT [(''from'', ''eve@z'')]
     [Tree ''result'' NS_MAM [(''id'', ''9'')] [Tree ''forwarded'' NS_FORWARD [] [toy_inner] []] []] []"

lemma archive_copy_from_anyone_witness:
  "handle_incoming toy_sv toy_forged (toy_world db)
    = process_payload toy_sv toy_inner In None False (Some ''9'') (toy_world db)"
proof -
  let ?fwd = "Tree ''forwarded'' NS_FORWARD [] [toy_inner] []"
  have "\<not> eq_ignore_ascii_case (to_bare (attr_or_empty tree_dom toy_forged ''from'')) (sv_bare toy_sv)"
    "story_event_items tree_dom toy_forged = None"
    "get_child tree_dom toy_forged ''result'' NS_MAM = Some (Tree ''result'' NS_MAM [(''id'', ''9'')] [?fwd] [])"
    "get_child tree_dom (Tree ''result'' NS_MAM [(''id'', ''9'')] [?fwd] []) ''forwarded'' NS_FORWARD = Some ?fwd"
    "get_child tree_dom ?fwd ''message'' NS_CLIENT = Some toy_inner"
    "direction_of tree_dom toy_inner (sv_bare toy_sv) = In" "delay_stamp tree_dom ?fwd = None"
    "d_attr tree_dom (Tree ''result'' NS_MAM [(''id'', ''9'')] [?fwd] []) ''id'' = Some ''9''"
    by code_simp+
  note p = this
  have call: "sv_call_message toy_sv toy_forged (w_engine (toy_world db)) = (False, ())" by (simp add: toy_sv_def)
  show ?thesis
    using archive_copy_from_anyone[of toy_sv toy_forged "toy_world db", unfolded toy_sv_fields(1),
        OF p(1) call p(2,3,4,5)] p(6,7,8) by (simp add: toy_world_def)
qed

lemma correction_from_anyone_witness:
  "\<exists>r. map_of (t_messages (w_messages (snd (correction_step toy_sv
       (Tree ''message'' [] [] [Tree ''replace'' NS_CORRECT [(''id'', ''m1'')] [] []] [])
       \<lparr>cx_from = ''eve@z'', cx_counterpart = ''eve@z'', cx_bare = ''eve@z'', cx_kind = ''chat'', cx_conv = 1,
          cx_ts = [], cx_direction = In, cx_live = True, cx_occupant = None\<rparr> ''forged'' (toy_world toy_outbox))))) 4 = Some r
     \<and> msg_direction r = ''out'' \<and> msg_encryption r = ''omemo2'' \<and> msg_body r = Some ''forged''"
proof -
  define row where "row = (stored_row (outgoing_message 1 ''bob@x'' ''hi'' ''omemo2'' None ''m1'' ''now''))\<lparr>msg_state := ''pending''\<rparr>"
  have "message_by_marker 1 ''m1'' toy_outbox = Some (4, row)" unfolding row_def by code_simp
  moreover have "message_db_ok toy_outbox" by code_simp
  moreover have "child_attr tree_dom (Tree ''message'' [] [] [Tree ''replace'' NS_CORRECT [(''id'', ''m1'')] [] []] [])
      ''replace'' NS_CORRECT ''id'' = Some ''m1''" by code_simp
  ultimately show ?thesis
    by (simp add: correction_from_anyone[where target = "''m1''" and r = row and i = 4])
      (simp add: row_def stored_row_def outgoing_message_def)
qed

end
