(* ===== verification/Engine.thy ===== *)
theory Engine
  imports World Omemo_Session Pep
begin

text \<open>
  The OMEMO engine (\<open>crates/mxc-proto/src/xeps/omemo.rs\<close>): the account's key pairs, the device lists
  and bundles published and fetched over PubSub, the sessions of a set of recipients, the
  \<open><encrypted>\<close> element, healing, heartbeats and the pins, with the process-wide caches that hold
  back repeated attempts.  Requests are sent and answered by \<open>xeps/iq.rs\<close>.

  The server's answers, generated ids, the clocks and the key generators are fields of \<open>engine_env\<close>;
  what is read from them is numbered by the tick of the world below it (\<open>Omemo_Maint\<close>).  The secret
  service is a map; that it can refuse is not modelled.
\<close>

datatype engine_error = Omemo_Failure omemo_error | Engine_Error string

type_synonym fail_key = "i64 \<times> string \<times> u32"

record ('o, 'e) engine_env =
  ee_dom :: "'e dom"
  ee_session :: "'o session_env"
  ee_crypto :: crypto
  ee_b64 :: base64
  ee_xml :: quick_xml
  ee_chrono :: chrono
  ee_account :: i64
  ee_bare :: string
  ee_jid :: string
  ee_now :: "nat \<Rightarrow> int"
  ee_instant :: "nat \<Rightarrow> nat"
  ee_pad :: "nat \<Rightarrow> nat \<Rightarrow> u32"
  ee_new_id :: "nat \<Rightarrow> string"
  ee_reply :: "nat \<Rightarrow> 'e \<Rightarrow> string + 'e"
  ee_connected :: bool
  ee_new_pq :: "nat \<Rightarrow> bytes"
  ee_new_identity :: "nat \<Rightarrow> bytes \<times> bytes \<times> u32"
  ee_identity_de :: "bytes \<Rightarrow> omemo_error + 'o"
  ee_pq_de :: "bytes \<Rightarrow> omemo_error + 'o"

record ('o, 'e) engine =
  en_world :: Omemo_Maint.world
  en_stores :: "i64 \<Rightarrow> 'o omemo_stores option"
  en_failures :: "fail_key \<Rightarrow> nat option"
  en_seen :: "i64 \<times> string \<Rightarrow> u32 list option"
  en_heals :: "fail_key \<Rightarrow> nat option"
  en_reconciled :: "fail_key list"
  en_heartbeats :: "fail_key \<Rightarrow> bytes option"
  en_secrets :: "string \<times> string \<Rightarrow> bytes option"
  en_device_ids :: "i64 \<Rightarrow> i64 option"
  en_requests :: "'e list"
  en_queue :: "'e list"
  en_events :: "event list"

type_synonym ('o, 'e, 'a) eng = "(('o, 'e) engine, engine_error, 'a) act"

text \<open>\<open>let _ = m\<close>, \<open>match m\<close>, \<open>m.unwrap_or_default()\<close>: the error is a value, the writes stay.\<close>

definition attempt :: "('s, 'e, 'a) act \<Rightarrow> ('s, 'x, 'e + 'a) act" where
  "attempt m s = (case m s of (r, s') \<Rightarrow> (Inr r, s'))"

definition or_default :: "'a \<Rightarrow> 'e + 'a \<Rightarrow> 'a" where
  "or_default x r = (case r of Inl _ \<Rightarrow> x | Inr y \<Rightarrow> y)"

definition on_maint :: "'a maint \<Rightarrow> ('o, 'e, 'a) eng" where
  "on_maint m s = (case m (en_world s) of (r, w) \<Rightarrow> (map_err Omemo_Failure r, s\<lparr>en_world := w\<rparr>))"

definition key_of :: "('o, 'e) engine_env \<Rightarrow> string \<Rightarrow> u32 \<Rightarrow> fail_key" where
  "key_of env jid dev = (ee_account env, jid, dev)"

subsection \<open>The caches\<close>

definition ESTABLISH_RETRY_BACKOFF :: nat where "ESTABLISH_RETRY_BACKOFF = 600 * 10 ^ 9"
definition HEAL_COOLDOWN :: nat where "HEAL_COOLDOWN = 300 * 10 ^ 9"
definition HEARTBEAT_COUNTER_THRESHOLD :: u32 where "HEARTBEAT_COUNTER_THRESHOLD = 53"

text \<open>\<open>Instant::elapsed\<close> is zero for a time that has not come.\<close>

definition elapsed_under :: "('o, 'e) engine_env \<Rightarrow> nat \<Rightarrow> nat \<Rightarrow> ('o, 'e, bool) eng" where
  "elapsed_under env limit t = act_bind (on_maint (draw (ee_instant env))) (\<lambda>now. act_ret (now - t < limit))"

definition recently_failed :: "('o, 'e) engine_env \<Rightarrow> string \<Rightarrow> u32 \<Rightarrow> ('o, 'e, bool) eng" where
  "recently_failed env jid dev =
     (let k = key_of env jid dev in
      act_bind (act_read (\<lambda>s. en_failures s k)) (\<lambda>found. case found of
        None \<Rightarrow> act_ret False
      | Some t \<Rightarrow> act_bind (elapsed_under env ESTABLISH_RETRY_BACKOFF t) (\<lambda>young.
          if young then act_ret True
          else act_bind (act_modify (\<lambda>s. s\<lparr>en_failures := (en_failures s)(k := None)\<rparr>)) (\<lambda>_. act_ret False))))"

definition note_establish_failure :: "('o, 'e) engine_env \<Rightarrow> string \<Rightarrow> u32 \<Rightarrow> ('o, 'e, unit) eng" where
  "note_establish_failure env jid dev = act_bind (on_maint (draw (ee_instant env))) (\<lambda>now.
     act_modify (\<lambda>s. s\<lparr>en_failures := (en_failures s)(key_of env jid dev \<mapsto> now)\<rparr>))"

definition note_establish_success :: "('o, 'e) engine_env \<Rightarrow> string \<Rightarrow> u32 \<Rightarrow> ('o, 'e, unit) eng" where
  "note_establish_success env jid dev =
     act_modify (\<lambda>s. s\<lparr>en_failures := (en_failures s)(key_of env jid dev := None)\<rparr>)"

definition forget_failures_of :: "i64 \<Rightarrow> string \<Rightarrow> ('o, 'e) engine \<Rightarrow> ('o, 'e) engine" where
  "forget_failures_of a jid s =
     s\<lparr>en_failures := (\<lambda>(b, j, dev). if b = a \<and> j = jid then None else en_failures s (b, j, dev))\<rparr>"

definition refresh_device_list :: "('o, 'e) engine_env \<Rightarrow> string \<Rightarrow> u32 list \<Rightarrow> ('o, 'e, unit) eng" where
  "refresh_device_list env jid devices = act_modify (\<lambda>s.
     let sorted = sort devices; k = (ee_account env, jid);
         changed = (case en_seen s k of None \<Rightarrow> True | Some prev \<Rightarrow> prev \<noteq> sorted);
         s = s\<lparr>en_seen := (en_seen s)(k \<mapsto> sorted)\<rparr>
     in if changed then forget_failures_of (ee_account env) jid s else s)"

definition forget_caches :: "('o, 'e) engine_env \<Rightarrow> ('o, 'e, unit) eng" where
  "forget_caches env = act_modify (\<lambda>s. let a = ee_account env in
     s\<lparr>en_failures := (\<lambda>(b, k). if b = a then None else en_failures s (b, k)),
       en_seen := (\<lambda>(b, k). if b = a then None else en_seen s (b, k)),
       en_heartbeats := (\<lambda>(b, k). if b = a then None else en_heartbeats s (b, k))\<rparr>)"

definition forget_stores :: "('o, 'e) engine_env \<Rightarrow> ('o, 'e, unit) eng" where
  "forget_stores env = act_modify (\<lambda>s. s\<lparr>en_stores := (en_stores s)(ee_account env := None)\<rparr>)"

definition forget_jid_failures :: "('o, 'e) engine_env \<Rightarrow> string \<Rightarrow> ('o, 'e, unit) eng" where
  "forget_jid_failures env jid = act_modify (forget_failures_of (ee_account env) jid)"

definition may_heal :: "('o, 'e) engine_env \<Rightarrow> string \<Rightarrow> u32 \<Rightarrow> ('o, 'e, bool) eng" where
  "may_heal env jid dev =
     (let k = key_of env jid dev;
          go = act_bind (on_maint (draw (ee_instant env))) (\<lambda>now.
            act_bind (act_modify (\<lambda>s. s\<lparr>en_heals := (en_heals s)(k \<mapsto> now)\<rparr>)) (\<lambda>_. act_ret True)) in
      act_bind (act_read (\<lambda>s. en_heals s k)) (\<lambda>found. case found of
        None \<Rightarrow> go
      | Some t \<Rightarrow> act_bind (elapsed_under env HEAL_COOLDOWN t) (\<lambda>young. if young then act_ret False else go)))"

definition heartbeat_due ::
  "('o, 'e) engine_env \<Rightarrow> string \<Rightarrow> u32 \<Rightarrow> u32 \<Rightarrow> bytes \<Rightarrow> ('o, 'e, bool) eng" where
  "heartbeat_due env jid dev counter ratchet_key =
     (if counter < HEARTBEAT_COUNTER_THRESHOLD then act_ret False
      else let k = key_of env jid dev in
        act_bind (act_read (\<lambda>s. en_heartbeats s k)) (\<lambda>prev.
          if prev = Some ratchet_key then act_ret False
          else act_bind (act_modify (\<lambda>s. s\<lparr>en_heartbeats := (en_heartbeats s)(k \<mapsto> ratchet_key)\<rparr>))
            (\<lambda>_. act_ret True)))"

subsection \<open>Requests\<close>

text \<open>\<open>iq::request\<close>: the id, the queue, the answer, which is an error when it says so.\<close>

definition iq_request :: "('o, 'e) engine_env \<Rightarrow> (string \<Rightarrow> 'e) \<Rightarrow> ('o, 'e, 'e) eng" where
  "iq_request env build =
     act_bind (on_maint (draw (\<lambda>n. n))) (\<lambda>n.
       let req = build (ee_new_id env n) in
       if \<not> ee_connected env then act_throw (Engine_Error ''connection writer closed'')
       else act_bind (act_modify (\<lambda>s. s\<lparr>en_requests := en_requests s @ [req]\<rparr>)) (\<lambda>_.
         case ee_reply env n req of
           Inl e \<Rightarrow> act_throw (Engine_Error e)
         | Inr reply \<Rightarrow>
             if d_attr (ee_dom env) reply ''type'' = Some ''error'' then act_throw (Engine_Error ''iq error'')
             else act_ret reply))"

definition queue_stanza :: "('o, 'e) engine_env \<Rightarrow> 'e \<Rightarrow> ('o, 'e, unit) eng" where
  "queue_stanza env el =
     (if ee_connected env then act_modify (\<lambda>s. s\<lparr>en_queue := en_queue s @ [el]\<rparr>)
      else act_throw (Engine_Error ''connection writer closed''))"

definition NODE_DEVICES :: string where "NODE_DEVICES = ''urn:monocles:omemo-pq:1:devices''"
definition NODE_BUNDLES :: string where "NODE_BUNDLES = ''urn:monocles:omemo-pq:1:bundles''"
definition PREKEY_COUNT :: u32 where "PREKEY_COUNT = 100"
definition SIGNED_PREKEY_ID :: u32 where "SIGNED_PREKEY_ID = 1"
definition KEM_SIGNED_ID :: u32 where "KEM_SIGNED_ID = 1"
definition FIRST_PREKEY_ID :: u32 where "FIRST_PREKEY_ID = 100"
definition PREKEY_LOW_WATER :: u32 where "PREKEY_LOW_WATER = 50"
definition MAX_DEVICES_PER_JID :: nat where "MAX_DEVICES_PER_JID = 128"
definition MAX_KEY_CANDIDATES :: nat where "MAX_KEY_CANDIDATES = 8"

fun take_ids :: "('e, 'z) dom_scheme \<Rightarrow> 'e list \<Rightarrow> u32 list \<Rightarrow> u32 list" where
  "take_ids d [] out = out"
| "take_ids d (el # els) out =
     (if MAX_DEVICES_PER_JID \<le> length out then out
      else take_ids d els (case Option.bind (d_attr d el ''id'') parse_u32 of None \<Rightarrow> out | Some i \<Rightarrow> out @ [i]))"

definition device_ids :: "('e, 'z) dom_scheme \<Rightarrow> 'e \<Rightarrow> u32 list" where
  "device_ids d reply = fold (\<lambda>(_, payload) out.
      if d_name d payload = ''devices'' then take_ids d (named d ''device'' payload) out else out)
     (extract_items d reply) []"

definition fetch_device_list :: "('o, 'e) engine_env \<Rightarrow> string \<Rightarrow> ('o, 'e, u32 list) eng" where
  "fetch_device_list env jid =
     act_bind (iq_request env (\<lambda>i. pep_items (ee_dom env) i (Some jid) NODE_DEVICES (Some 1)))
       (\<lambda>reply. act_ret (device_ids (ee_dom env) reply))"

definition fetch_bundle :: "('o, 'e) engine_env \<Rightarrow> string \<Rightarrow> u32 \<Rightarrow> ('o, 'e, omemo_bundle) eng" where
  "fetch_bundle env jid dev =
     act_bind (iq_request env (\<lambda>i. pep_item (ee_dom env) i (Some jid) NODE_BUNDLES (show_u32 dev))) (\<lambda>reply.
       case extract_items (ee_dom env) reply of
         [] \<Rightarrow> act_throw (Engine_Error ''no bundle'')
       | (_, payload) # _ \<Rightarrow> act_lift (map_err Omemo_Failure
           (bundle_from_xml (ee_xml env) (ee_b64 env) (d_show (ee_dom env) payload))))"

subsection \<open>The account's own identity\<close>

definition OMEMO_IDENTITY :: string where "OMEMO_IDENTITY = ''omemo2-identity''"
definition OMEMO_PQ_IDENTITY :: string where "OMEMO_PQ_IDENTITY = ''omemo2-pq-identity''"

definition secret :: "('o, 'e) engine_env \<Rightarrow> string \<Rightarrow> ('o, 'e, bytes option) eng" where
  "secret env kind = act_read (\<lambda>s. en_secrets s (kind, ee_jid env))"

definition set_secret :: "('o, 'e) engine_env \<Rightarrow> string \<Rightarrow> bytes option \<Rightarrow> ('o, 'e, unit) eng" where
  "set_secret env kind v = act_modify (\<lambda>s. s\<lparr>en_secrets := (en_secrets s)((kind, ee_jid env) := v)\<rparr>)"

definition stores_from_identity ::
  "('o, 'e) engine_env \<Rightarrow> bytes \<Rightarrow> bytes \<Rightarrow> u32 \<Rightarrow> omemo_error + 'o omemo_stores" where
  "stores_from_identity env identity_bytes pq_bytes dev =
     res_bind (ee_identity_de env identity_bytes) (\<lambda>i.
     res_bind (ee_pq_de env pq_bytes) (\<lambda>p.
       Inr \<lparr>os_account_id = ee_account env, os_identity = i, os_registration_id = dev, os_pq_identity = p\<rparr>))"

definition own_pq_pub :: "('o, 'e) engine_env \<Rightarrow> 'o omemo_stores \<Rightarrow> bytes" where
  "own_pq_pub env st = se_pq_public (ee_session env) (os_pq_identity st)"

definition load_identity ::
  "('o, 'e) engine_env \<Rightarrow> i64 \<Rightarrow> bytes \<Rightarrow> bytes option \<Rightarrow> ('o, 'e, 'o omemo_stores) eng" where
  "load_identity env dev id_bytes pq =
     act_bind (case pq of
         Some p \<Rightarrow> act_ret p
       | None \<Rightarrow> act_bind (on_maint (draw (ee_new_pq env))) (\<lambda>p.
           act_bind (set_secret env OMEMO_PQ_IDENTITY (Some p)) (\<lambda>_. act_ret p))) (\<lambda>pq_bytes.
     act_bind (act_lift (map_err Omemo_Failure (stores_from_identity env id_bytes pq_bytes (as_u32 dev)))) (\<lambda>st.
     act_bind (on_maint (db_write (set_omemo_own_pq_identity_pub (ee_account env) (own_pq_pub env st))))
       (\<lambda>_. act_ret st)))"

definition create_identity :: "('o, 'e) engine_env \<Rightarrow> ('o, 'e, 'o omemo_stores) eng" where
  "create_identity env =
     act_bind (on_maint (draw (ee_new_identity env))) (\<lambda>(id_bytes, pq_bytes, random).
       let dev = device_id_of_random random; a = ee_account env in
       act_bind (set_secret env OMEMO_IDENTITY (Some id_bytes)) (\<lambda>_.
       act_bind (set_secret env OMEMO_PQ_IDENTITY (Some pq_bytes)) (\<lambda>_.
       act_bind (act_lift (map_err Omemo_Failure (stores_from_identity env id_bytes pq_bytes dev))) (\<lambda>st.
       act_bind (on_maint (db_write (set_omemo_own_identity a (id_i64 dev)
           (se_identity_public (ee_session env) (os_identity st)) True))) (\<lambda>_.
       act_bind (on_maint (db_write (set_omemo_own_pq_identity_pub a (own_pq_pub env st)))) (\<lambda>_.
       act_bind (act_modify (\<lambda>s. s\<lparr>en_device_ids := (en_device_ids s)(a \<mapsto> id_i64 dev)\<rparr>)) (\<lambda>_.
       act_ret st)))))))"

definition load_or_create :: "('o, 'e) engine_env \<Rightarrow> ('o, 'e, 'o omemo_stores \<times> bool) eng" where
  "load_or_create env =
     act_bind (act_read (\<lambda>s. en_stores s (ee_account env))) (\<lambda>cached. case cached of
       Some st \<Rightarrow> act_ret (st, False)
     | None \<Rightarrow>
         act_bind (on_maint (db_read (omemo_own_device_id (ee_account env)))) (\<lambda>dev.
         act_bind (secret env OMEMO_IDENTITY) (\<lambda>id_bytes.
         act_bind (secret env OMEMO_PQ_IDENTITY) (\<lambda>pq.
         act_bind (case (dev, id_bytes) of
             (Some i, Some b) \<Rightarrow> act_bind (load_identity env i b pq) (\<lambda>st. act_ret (st, False))
           | _ \<Rightarrow> act_bind (create_identity env) (\<lambda>st. act_ret (st, True))) (\<lambda>(st, fresh).
         act_bind (act_modify (\<lambda>s. s\<lparr>en_stores := (en_stores s)(ee_account env \<mapsto> st)\<rparr>)) (\<lambda>_.
         act_ret (st, fresh)))))))"

definition own_stores :: "('o, 'e) engine_env \<Rightarrow> ('o, 'e, 'o omemo_stores) eng" where
  "own_stores env = act_bind (load_or_create env) (\<lambda>(st, _). act_ret st)"

definition own_device_id :: "('o, 'e) engine_env \<Rightarrow> ('o, 'e, u32) eng" where
  "own_device_id env = act_bind (own_stores env) (\<lambda>st. act_ret (os_registration_id st))"

end
