(* ===== verification/Engine_Crypt.thy ===== *)
theory Engine_Crypt
  imports Engine
begin

text \<open>
  The second half of \<open>crates/mxc-proto/src/xeps/omemo.rs\<close>: publishing, sessions for a set of
  recipients, the \<open><encrypted>\<close> element, decryption, healing, pins and heartbeats.
\<close>

subsection \<open>Publishing\<close>

definition publish_bundle_xml :: "('o, 'e) engine_env \<Rightarrow> u32 \<Rightarrow> string \<Rightarrow> ('o, 'e, unit) eng" where
  "publish_bundle_xml env dev xml =
     (let d = ee_dom env in
      case d_parse d xml of
        None \<Rightarrow> act_throw (Engine_Error ''serialize bundle'')
      | Some payload \<Rightarrow>
          act_bind (iq_request env (\<lambda>i. pep_publish d i NODE_BUNDLES (Some (show_u32 dev)) payload
              (Some (pep_publish_options d ''open'')))) (\<lambda>_. act_ret ()))"

definition maintain_and_republish :: "('o, 'e) engine_env \<Rightarrow> ('o, 'e, u32) eng" where
  "maintain_and_republish env =
     act_bind (own_stores env) (\<lambda>st.
     let dev = os_registration_id st in
     act_bind (on_maint (maintain_bundle (ee_session env) st SIGNED_PREKEY_ID KEM_SIGNED_ID FIRST_PREKEY_ID
         PREKEY_COUNT PREKEY_LOW_WATER)) (\<lambda>b.
     act_bind (on_maint (db_write (set_omemo_bundle_xml (ee_account env) (bundle_to_xml (ee_b64 env) b)))) (\<lambda>_.
     act_bind (publish_bundle_xml env dev (bundle_to_xml (ee_b64 env) b)) (\<lambda>_. act_ret dev))))"

definition devices_element :: "('e, 'z) dom_scheme \<Rightarrow> u32 list \<Rightarrow> 'e" where
  "devices_element d ids = fold (\<lambda>i. d_with_child d (d_with_attr d ''id'' (show_u32 i) (d_bare d ''device'' NS_OMEMO2)))
     ids (d_bare d ''devices'' NS_OMEMO2)"

definition listed_ids :: "u32 \<Rightarrow> u32 option \<Rightarrow> u32 list \<Rightarrow> u32 list" where
  "listed_ids dev remove ids =
     (let ids = (case remove of None \<Rightarrow> ids | Some old \<Rightarrow> filter (\<lambda>i. i \<noteq> old) ids)
      in if dev \<in> set ids then ids else ids @ [dev])"

definition publish_device_list_replacing ::
  "('o, 'e) engine_env \<Rightarrow> u32 \<Rightarrow> u32 option \<Rightarrow> ('o, 'e, unit) eng" where
  "publish_device_list_replacing env dev remove =
     (let d = ee_dom env in
      act_bind (attempt (fetch_device_list env (ee_bare env))) (\<lambda>fetched.
      act_bind (iq_request env (\<lambda>i. pep_publish d i NODE_DEVICES (Some ''current'')
          (devices_element d (listed_ids dev remove (or_default [] fetched)))
          (Some (pep_publish_options d ''open'')))) (\<lambda>_. act_ret ())))"

definition publish_device_list :: "('o, 'e) engine_env \<Rightarrow> u32 \<Rightarrow> ('o, 'e, unit) eng" where
  "publish_device_list env dev = publish_device_list_replacing env dev None"

definition ensure_initialized :: "('o, 'e) engine_env \<Rightarrow> ('o, 'e, unit) eng" where
  "ensure_initialized env = act_bind (maintain_and_republish env) (publish_device_list env)"

definition regenerate_own_identity :: "('o, 'e) engine_env \<Rightarrow> ('o, 'e, unit) eng" where
  "regenerate_own_identity env =
     (let a = ee_account env; d = ee_dom env in
      act_bind (on_maint (db_read (omemo_own_device_id a))) (\<lambda>own.
      let old = map_option as_u32 own in
      act_bind (on_maint (db_write (reset_omemo2_own_state a))) (\<lambda>_.
      act_bind (on_maint (db_write (reset_omemo2_peer_state a))) (\<lambda>_.
      act_bind (set_secret env OMEMO_IDENTITY None) (\<lambda>_.
      act_bind (set_secret env OMEMO_PQ_IDENTITY None) (\<lambda>_.
      act_bind (forget_stores env) (\<lambda>_.
      act_bind (forget_caches env) (\<lambda>_.
      act_bind (case old of
          None \<Rightarrow> act_ret ()
        | Some o' \<Rightarrow> act_bind (attempt (iq_request env (\<lambda>i. pep_retract d i NODE_BUNDLES (show_u32 o'))))
            (\<lambda>_ :: engine_error + 'e. act_ret ())) (\<lambda>_.
      act_bind (maintain_and_republish env) (\<lambda>dev. publish_device_list_replacing env dev old))))))))))"

subsection \<open>Sessions for a recipient\<close>

definition trusted :: "omemo_identity option \<Rightarrow> bool" where
  "trusted r \<longleftrightarrow> (case r of None \<Rightarrow> False | Some i \<Rightarrow> oi_trust i = 1 \<or> oi_trust i = 3)"

definition device_trusted :: "i64 \<Rightarrow> omemo_db \<Rightarrow> device_addr \<Rightarrow> bool" where
  "device_trusted a db addr \<longleftrightarrow> trusted (omemo_identity a (da_jid addr) (id_i64 (da_device_id addr)) db)"

text \<open>Whether a session stands afterwards: the device is skipped when not.\<close>

definition ensure_session ::
  "('o, 'e) engine_env \<Rightarrow> 'o omemo_stores \<Rightarrow> u32 \<Rightarrow> device_addr \<Rightarrow> ('o, 'e, bool) eng" where
  "ensure_session env st our_device addr =
     (let jid = da_jid addr; dev = da_device_id addr;
          failed = act_bind (note_establish_failure env jid dev) (\<lambda>_. act_ret False) in
      act_bind (recently_failed env jid dev) (\<lambda>skip.
        if skip then act_ret False
        else act_bind (attempt (fetch_bundle env jid dev)) (\<lambda>fetched. case fetched of
            Inl _ \<Rightarrow> failed
          | Inr b \<Rightarrow>
              act_bind (attempt (on_maint (establish_session (ee_session env) st (ee_bare env) our_device addr b)))
                (\<lambda>r. case r of
                   Inl (_ :: engine_error) \<Rightarrow> failed
                 | Inr _ \<Rightarrow> act_bind (note_establish_success env jid dev) (\<lambda>_. act_ret True)))))"

definition session_for ::
  "('o, 'e) engine_env \<Rightarrow> 'o omemo_stores \<Rightarrow> string \<Rightarrow> u32 \<Rightarrow> u32 \<Rightarrow> ('o, 'e, device_addr option) eng" where
  "session_for env st jid our_device dev =
     (let addr = \<lparr>da_jid = jid, da_device_id = dev\<rparr>; a = ee_account env in
      if jid = ee_bare env \<and> dev = our_device then act_ret None
      else
        act_bind (on_maint (db_read (load_omemo_session a jid (id_i64 dev)))) (\<lambda>session.
        act_bind (if session \<noteq> None then act_ret True else ensure_session env st our_device addr) (\<lambda>ready.
          if \<not> ready then act_ret None
          else act_bind (on_maint (db_read (omemo_identity a jid (id_i64 dev)))) (\<lambda>i.
            act_ret (if trusted i then Some addr else None)))))"

definition sessions_for ::
  "('o, 'e) engine_env \<Rightarrow> 'o omemo_stores \<Rightarrow> string \<Rightarrow> u32 \<Rightarrow> ('o, 'e, device_addr list) eng" where
  "sessions_for env st jid our_device =
     act_bind (attempt (fetch_device_list env jid)) (\<lambda>fetched.
     let devices = or_default [] (fetched :: engine_error + u32 list) in
     act_bind (refresh_device_list env jid devices) (\<lambda>_.
     act_bind (act_map (session_for env st jid our_device) devices) (\<lambda>addrs.
       act_ret (List.map_filter id addrs))))"

subsection \<open>The encrypted element\<close>

definition key_element :: "('e, 'z) dom_scheme \<Rightarrow> base64 \<Rightarrow> wrapped_key \<Rightarrow> 'e" where
  "key_element d c k =
     (let el = d_with_attr d ''rid'' (show_u32 (wk_device_id k)) (d_bare d ''key'' NS_OMEMO2);
          el = (if wk_kex k then d_with_attr d ''kex'' ''true'' el else el)
      in d_with_text d (b64_encode c (wk_data k)) el)"

definition keys_element :: "('e, 'z) dom_scheme \<Rightarrow> base64 \<Rightarrow> string \<Rightarrow> wrapped_key list \<Rightarrow> 'e" where
  "keys_element d c jid ks = with_children d (map (key_element d c) ks)
     (d_with_attr d ''jid'' jid (d_bare d ''keys'' NS_OMEMO2))"

text \<open>The map of addresses to their keys is walked in the order of the addresses.\<close>

definition build_header :: "('e, 'z) dom_scheme \<Rightarrow> base64 \<Rightarrow> wrapped_key list \<Rightarrow> u32 \<Rightarrow> 'e" where
  "build_header d c keys sender_device =
     with_children d (map (\<lambda>jid. keys_element d c jid (filter (\<lambda>k. wk_jid k = jid) keys))
         (sort (remdups (map wk_jid keys))))
       (d_with_attr d ''sid'' (show_u32 sender_device) (d_bare d ''header'' NS_OMEMO2))"

definition build_encrypted :: "('e, 'z) dom_scheme \<Rightarrow> base64 \<Rightarrow> encrypted_message \<Rightarrow> u32 \<Rightarrow> 'e" where
  "build_encrypted d c enc sender_device = with_children d
     [build_header d c (em_keys enc) sender_device,
      text_element d ''payload'' NS_OMEMO2 (b64_encode c (em_payload enc)),
      text_element d ''commit'' NS_OMEMO2 (b64_encode c (em_commit enc))]
     (d_bare d ''encrypted'' NS_OMEMO2)"

definition encrypt_for_recipients ::
  "('o, 'e) engine_env \<Rightarrow> string list \<Rightarrow> string option \<Rightarrow> bytes \<Rightarrow> ('o, 'e, 'e) eng" where
  "encrypt_for_recipients env recipients binding_to envelope_xml =
     act_bind (own_stores env) (\<lambda>st.
     let our_device = os_registration_id st; ours = eq_ignore_ascii_case (ee_bare env) in
     act_bind (act_map (\<lambda>jid. sessions_for env st jid our_device) (filter (\<lambda>j. \<not> ours j) recipients)) (\<lambda>theirs.
     act_bind (sessions_for env st (ee_bare env) our_device) (\<lambda>own.
       let note_to_self = (recipients \<noteq> [] \<and> list_all ours recipients) in
       if concat theirs = [] \<and> \<not> note_to_self
       then act_throw (Engine_Error ''no trusted OMEMO2 device for the recipient(s)'')
       else act_bind (on_maint (omemo_encrypt (ee_session env) (ee_crypto env) st (ee_bare env) our_device
                (concat theirs @ own) binding_to envelope_xml)) (\<lambda>enc.
              act_ret (build_encrypted (ee_dom env) (ee_b64 env) enc our_device)))))"

text \<open>An empty envelope for one device: what heals and heartbeats carry.\<close>

definition build_empty_omemo2 ::
  "('o, 'e) engine_env \<Rightarrow> 'o omemo_stores \<Rightarrow> u32 \<Rightarrow> string \<Rightarrow> device_addr \<Rightarrow> ('o, 'e, 'e) eng" where
  "build_empty_omemo2 env st our_device peer addr =
     act_bind (on_maint (draw (\<lambda>n. n))) (\<lambda>n.
       let envelope = envelope_with_content [] (ee_bare env) peer
             (Some (rfc3339_now (ee_chrono env) (ee_now env n))) in
       act_bind (on_maint (omemo_encrypt (ee_session env) (ee_crypto env) st (ee_bare env) our_device [addr]
           (Some peer) (str_bytes (envelope_to_xml (ee_xml env) (ee_pad env n) envelope)))) (\<lambda>enc.
         act_ret (build_encrypted (ee_dom env) (ee_b64 env) enc our_device)))"

definition empty_message :: "('o, 'e) engine_env \<Rightarrow> string \<Rightarrow> string \<Rightarrow> 'e \<Rightarrow> 'e" where
  "empty_message env peer mid enc_el =
     (let d = ee_dom env in with_children d [enc_el, eme_hint d, hint d ''no-store'']
        (d_with_attr d ''id'' mid (message_to d (Some ''chat'') peer)))"

definition send_empty ::
  "('o, 'e) engine_env \<Rightarrow> 'o omemo_stores \<Rightarrow> u32 \<Rightarrow> string \<Rightarrow> device_addr \<Rightarrow> ('o, 'e, unit) eng" where
  "send_empty env st our_device peer addr =
     act_bind (build_empty_omemo2 env st our_device peer addr) (\<lambda>enc_el.
     act_bind (on_maint (draw (ee_new_id env))) (\<lambda>mid.
       queue_stanza env (empty_message env peer mid enc_el)))"

subsection \<open>Healing, pins, heartbeats\<close>

definition if_trusted :: "('o, 'e) engine_env \<Rightarrow> device_addr \<Rightarrow> ('o, 'e, unit) eng \<Rightarrow> ('o, 'e, unit) eng" where
  "if_trusted env addr m =
     act_bind (on_maint (db_read (omemo_identity (ee_account env) (da_jid addr) (id_i64 (da_device_id addr)))))
       (\<lambda>i. if trusted i then m else act_ret ())"

definition heal_session :: "('o, 'e) engine_env \<Rightarrow> string \<Rightarrow> u32 \<Rightarrow> ('o, 'e, unit) eng" where
  "heal_session env sender dev =
     act_bind (may_heal env sender dev) (\<lambda>may.
     if \<not> may then act_ret ()
     else act_bind (own_stores env) (\<lambda>st.
       let our_device = os_registration_id st; addr = \<lparr>da_jid = sender, da_device_id = dev\<rparr> in
       if sender = ee_bare env \<and> dev = our_device then act_ret ()
       else
         act_bind (forget_jid_failures env sender) (\<lambda>_.
         act_bind (attempt (fetch_bundle env sender dev)) (\<lambda>fetched. case fetched of
             Inl (_ :: engine_error) \<Rightarrow> note_establish_failure env sender dev
           | Inr b \<Rightarrow>
               act_bind (attempt (on_maint (establish_session (ee_session env) st (ee_bare env) our_device addr b)))
                 (\<lambda>r. case r of
                    Inl (_ :: engine_error) \<Rightarrow> note_establish_failure env sender dev
                  | Inr _ \<Rightarrow> if_trusted env addr (send_empty env st our_device sender addr))))))"

definition reconcile_pq_pin_if_missing :: "('o, 'e) engine_env \<Rightarrow> string \<Rightarrow> u32 \<Rightarrow> ('o, 'e, unit) eng" where
  "reconcile_pq_pin_if_missing env sender dev =
     act_bind (own_stores env) (\<lambda>st.
       let a = ee_account env; k = key_of env sender dev; addr = \<lparr>da_jid = sender, da_device_id = dev\<rparr> in
       if sender = ee_bare env \<and> dev = os_registration_id st then act_ret ()
       else act_bind (act_read (\<lambda>s. k \<in> set (en_reconciled s))) (\<lambda>again.
         if again then act_ret ()
         else
           act_bind (act_modify (\<lambda>s. s\<lparr>en_reconciled := k # en_reconciled s\<rparr>)) (\<lambda>_.
           act_bind (on_maint (db_read (omemo_identity a sender (id_i64 dev)))) (\<lambda>i. case i of
               None \<Rightarrow> act_ret ()
             | Some rec \<Rightarrow>
                 act_bind (on_maint (db_read (get_pinned_omemo2_pq_identity a sender (pq_pin_key (oi_identity_key rec)))))
                   (\<lambda>pinned.
                     if pinned \<noteq> None then act_ret ()
                     else act_bind (attempt (fetch_bundle env sender dev)) (\<lambda>fetched. case fetched of
                         Inl (_ :: engine_error) \<Rightarrow> act_ret ()
                       | Inr b \<Rightarrow> act_bind (attempt (on_maint (reconcile_pq_pin (ee_session env) st addr b
                             (oi_identity_key rec)))) (\<lambda>_ :: engine_error + bool. act_ret ())))))))"

definition send_heartbeat :: "('o, 'e) engine_env \<Rightarrow> string \<Rightarrow> u32 \<Rightarrow> ('o, 'e, unit) eng" where
  "send_heartbeat env sender dev =
     act_bind (own_stores env) (\<lambda>st.
       let our_device = os_registration_id st; addr = \<lparr>da_jid = sender, da_device_id = dev\<rparr> in
       if sender = ee_bare env \<and> dev = our_device then act_ret ()
       else if_trusted env addr (send_empty env st our_device sender addr))"

subsection \<open>Decryption\<close>

definition keys_block_is_ours :: "string option \<Rightarrow> string \<Rightarrow> bool" where
  "keys_block_is_ours jid_attr our_bare =
     (case jid_attr of None \<Rightarrow> False | Some jid \<Rightarrow> eq_ignore_ascii_case (to_bare jid) our_bare)"

definition candidate_of :: "('e, 'z) dom_scheme \<Rightarrow> base64 \<Rightarrow> 'e \<Rightarrow> (bytes \<times> bool) option" where
  "candidate_of d c k = (case b64_decode c (str_trim (d_text d k)) of
     Inl _ \<Rightarrow> None | Inr w \<Rightarrow> Some (w, d_attr d k ''kex'' = Some ''true''))"

definition our_wraps ::
  "('e, 'z) dom_scheme \<Rightarrow> base64 \<Rightarrow> 'e \<Rightarrow> string \<Rightarrow> u32 \<Rightarrow> (bytes \<times> bool) list" where
  "our_wraps d c header our_bare our_device =
     List.map_filter (candidate_of d c)
       (filter (\<lambda>k. d_attr d k ''rid'' = Some (show_u32 our_device))
         (concat (map (named d ''key'')
           (filter (\<lambda>ks. d_name d ks = ''keys'' \<and> keys_block_is_ours (d_attr d ks ''jid'') our_bare)
             (d_children d header)))))"

definition select_key_candidates ::
  "('e, 'z) dom_scheme \<Rightarrow> base64 \<Rightarrow> 'e \<Rightarrow> string \<Rightarrow> u32 \<Rightarrow> (bytes \<times> bool) list \<times> bool" where
  "select_key_candidates d c header our_bare our_device =
     (let candidates = take (MAX_KEY_CANDIDATES + 1) (our_wraps d c header our_bare our_device);
          truncated = MAX_KEY_CANDIDATES < length candidates
      in (if truncated then take MAX_KEY_CANDIDATES candidates else candidates, truncated))"

text \<open>The candidates in turn; a failure of the payload (\<open>Aead\<close>) is final.\<close>

fun try_candidates ::
  "(bytes \<times> bool \<Rightarrow> bytes maint) \<Rightarrow> (bytes \<times> bool) list \<Rightarrow> omemo_error option \<Rightarrow>
   ('o, 'e, bytes \<times> bytes \<times> bool) eng" where
  "try_candidates f [] last_err =
     act_throw (case last_err of Some e \<Rightarrow> Omemo_Failure e | None \<Rightarrow> Engine_Error ''panic'')"
| "try_candidates f ((wrapped, kex) # cs) last_err =
     act_bind (attempt (on_maint (f (wrapped, kex)))) (\<lambda>r. case r of
       Inr env \<Rightarrow> act_ret (env, wrapped, kex)
     | Inl (Omemo_Failure (Aead e)) \<Rightarrow> act_throw (Omemo_Failure (Aead e))
     | Inl (Omemo_Failure e) \<Rightarrow> try_candidates f cs (Some e)
     | Inl e \<Rightarrow> act_throw e)"

definition decode_child :: "('o, 'e) engine_env \<Rightarrow> 'e \<Rightarrow> string \<Rightarrow> ('o, 'e, bytes option) eng" where
  "decode_child env encrypted n =
     (case get_child (ee_dom env) encrypted n NS_OMEMO2 of
        None \<Rightarrow> act_ret None
      | Some p \<Rightarrow> (case b64_decode (ee_b64 env) (str_trim (d_text (ee_dom env) p)) of
          Inl e \<Rightarrow> act_throw (Engine_Error e) | Inr b \<Rightarrow> act_ret (Some b)))"

text \<open>The bytes of a decrypted payload as the caller reads them.\<close>

definition bytes_str :: "bytes \<Rightarrow> string" where
  "bytes_str bs = map (\<lambda>b. char_of (unat b)) bs"

definition decrypt_message ::
  "('o, 'e) engine_env \<Rightarrow> 'e \<Rightarrow> string \<Rightarrow> string option \<Rightarrow> ('o, 'e, decrypted) eng" where
  "decrypt_message env encrypted sender expected_to =
     (let d = ee_dom env; a = ee_account env in
      case get_child d encrypted ''header'' NS_OMEMO2 of
        None \<Rightarrow> act_throw (Engine_Error ''omemo: no <header>'')
      | Some header \<Rightarrow>
      (case Option.bind (d_attr d header ''sid'') parse_u32 of
        None \<Rightarrow> act_throw (Engine_Error ''omemo: bad sid'')
      | Some dev \<Rightarrow>
        act_bind (decode_child env encrypted ''payload'') (\<lambda>payload.
        act_bind (decode_child env encrypted ''commit'') (\<lambda>commit.
        act_bind (own_stores env) (\<lambda>st.
        let our_device = os_registration_id st;
            (candidates, _) = select_key_candidates d (ee_b64 env) header (ee_bare env) our_device;
            from = \<lparr>da_jid = sender, da_device_id = dev\<rparr> in
        if candidates = [] then act_throw (Engine_Error ''omemo: no key for our device'')
        else
          act_bind (try_candidates (\<lambda>(wrapped, kex). omemo_decrypt (ee_session env) (ee_crypto env) st
              (ee_bare env) our_device from expected_to wrapped kex
              (case payload of None \<Rightarrow> [] | Some p \<Rightarrow> p) commit) candidates None) (\<lambda>(opened, wrapped, kex).
          act_bind (case whisper_ratchet_counter (ee_session env) wrapped kex of
              None \<Rightarrow> act_ret False
            | Some (counter, ratchet_key) \<Rightarrow> heartbeat_due env sender dev counter ratchet_key) (\<lambda>due.
          act_bind (on_maint (db_read (omemo_identity a sender (id_i64 dev)))) (\<lambda>i.
          let fp = (case i of None \<Rightarrow> [] | Some rec \<Rightarrow> fingerprint (oi_identity_key rec)) in
          act_bind (act_modify (\<lambda>s. s\<lparr>en_events := en_events s @ [Omemo_Device_Seen a sender (id_i64 dev) fp]\<rparr>)) (\<lambda>_.
          act_ret \<lparr>dec_envelope = bytes_str opened, dec_fingerprint = fp, dec_key_transport = (payload = None),
            dec_was_kex = kex, dec_heartbeat_due = due, dec_sender_device = dev\<rparr>)))))))))"

end
