(* ===== verification/Engine_Laws.thy ===== *)
theory Engine_Laws
  imports Engine_Crypt World_Laws
begin

text \<open>
  What the engine guarantees: whatever the server and the peers answer it changes the OMEMO tables
  by the program's own writes only, it encrypts to trusted devices only, the work one header or one
  device list can ask for is bounded, and what heals and heartbeats send is empty.
\<close>

subsection \<open>The engine's writes\<close>

definition maint_le :: "i64 \<Rightarrow> Omemo_Maint.world \<Rightarrow> Omemo_Maint.world \<Rightarrow> bool" where
  "maint_le a w w' \<longleftrightarrow> (automatic_write a)\<^sup>*\<^sup>* (w_db w) (w_db w')"

text \<open>The cache holds the key pairs of the account it names.\<close>

definition cache_ok :: "('o, 'e) engine \<Rightarrow> bool" where
  "cache_ok s \<longleftrightarrow> (\<forall>a st. en_stores s a = Some st \<longrightarrow> os_account_id st = a)"

definition engine_le :: "i64 \<Rightarrow> ('o, 'e) engine \<Rightarrow> ('o, 'e) engine \<Rightarrow> bool" where
  "engine_le a s t \<longleftrightarrow> (cache_ok s \<longrightarrow> cache_ok t \<and> maint_le a (en_world s) (en_world t))"

interpretation maint: effect_order "maint_le a" for a
  by unfold_locales (auto simp: maint_le_def)

interpretation engine: effect_order "engine_le a" for a
  by unfold_locales (auto simp: engine_le_def intro: maint.le_refl maint.le_trans)

lemma maint_basic:
  "act_within (maint_le a) (db_read g)" "act_within (maint_le a) (draw f)" "act_within (maint_le a) (sig_try env r)"
  "(\<And>db. automatic_write a db (h db)) \<Longrightarrow> act_within (maint_le a) (db_write h)"
  by (auto simp: act_within_def maint_le_def world_act_simps)

lemma maint_call:
  assumes "\<And>n db. (trait_step env a)\<^sup>*\<^sup>* db (snd (f n db))"
  shows "act_within (maint_le a) (drawn_call env' f)"
  using trait_run_writes[OF assms]
  by (auto simp: act_within_def maint_le_def drawn_call_eval case_prod_beta)

lemmas maint_rules = maint.within_pure maint.within_bind maint.within_map maint.within_iter within_cases
  maint_basic(1-3) maint_basic(4)[OF automatic_write.intros(2)] maint_basic(4)[OF automatic_write.intros(3)]
  maint_basic(4)[OF automatic_write.intros(4)] maint_basic(4)[OF automatic_write.intros(5)]
  maint_basic(4)[OF automatic_write.intros(6)] maint_basic(4)[OF automatic_write.intros(7)]
  maint_basic(4)[OF automatic_write.intros(10)] maint_basic(4)[OF automatic_write.intros(12)]
  maint_basic(4)[OF automatic_write.intros(13)] maint_basic(4)[OF automatic_write.intros(15)]
  maint_basic(4)[OF automatic_write.intros(16)]

lemma maint_sessions:
  assumes "through_traits env"
  shows "act_within (maint_le (os_account_id st)) (establish_session env st our dev remote b)"
    and "act_within (maint_le (os_account_id st)) (reconcile_pq_pin env st remote b ik)"
    and "act_within (maint_le (os_account_id st)) (omemo_encrypt env c st our dev rs to_jid x)"
    and "act_within (maint_le (os_account_id st)) (omemo_decrypt env c st our dev from to_jid w kex p cm)"
proof -
  note t = assms[unfolded through_traits_def]
  have calls: "act_within (maint_le acc) (drawn_call env (\<lambda>n. ss_process env n acc ra la x))"
    "act_within (maint_le acc) (drawn_call env (\<lambda>n. ss_decrypt_prekey env n acc ra la x))"
    "act_within (maint_le acc) (drawn_call env (\<lambda>n. ss_decrypt_signal env n acc ra la x))"
    "act_within (maint_le acc) (drawn_call env (\<lambda>n. ss_encrypt env n acc ra la k))" for acc ra la x k
    by (rule maint_call; use t in blast)+
  show "act_within (maint_le (os_account_id st)) (establish_session env st our dev remote b)"
    unfolding establish_session_def check_pin_def pre_key_bundle_def Let_def
    by (intro maint_rules calls)
  show "act_within (maint_le (os_account_id st)) (reconcile_pq_pin env st remote b ik)"
    unfolding reconcile_pq_pin_def Let_def by (intro maint_rules)
  show "act_within (maint_le (os_account_id st)) (omemo_encrypt env c st our dev rs to_jid x)"
    unfolding omemo_encrypt_def wrap_key_def Let_def by (intro maint_rules calls)
  show "act_within (maint_le (os_account_id st)) (omemo_decrypt env c st our dev from to_jid w kex p cm)"
    unfolding omemo_decrypt_def unwrap_key_def Let_def by (intro maint_rules calls)
qed

lemma maint_upkeep: "act_within (maint_le (os_account_id st)) (maintain_bundle env st i j k n m)"
  unfolding maintain_bundle_def generate_and_store_prekeys_def purge_non_ml_kem_prekeys_def purge_row_def
    replenish_def replenish_ec_def replenish_kem_def rotate_last_resort_if_due_def rotate_signed_prekey_if_due_def
    prune_stale_kyber_prekeys_def prune_row_def rebuild_bundle_def gen_prekey_def gen_signed_def gen_kyber_def
    publish_kyber_def sign_bundle_pq_def Let_def
  by (intro maint_rules)

text \<open>The engine's own steps.\<close>

lemma engine_maint: "act_within (maint_le a) m \<Longrightarrow> act_within (engine_le a) (on_maint m)"
  by (auto simp: act_within_def engine_le_def cache_ok_def on_maint_def case_prod_beta)

lemma engine_attempt: "act_within le m \<Longrightarrow> act_within le (attempt m)"
  by (simp add: act_within_def attempt_def case_prod_beta)

lemma engine_modify:
  "(\<And>s. en_world (f s) = en_world s \<and> en_stores (f s) = en_stores s) \<Longrightarrow> act_within (engine_le a) (act_modify f)"
  by (rule engine.within_modify) (simp add: engine_le_def cache_ok_def maint.le_refl)

lemmas engine_rules = engine.within_pure engine.within_bind engine.within_map engine.within_iter within_cases
  engine_attempt engine_maint[OF maint_basic(1)] engine_maint[OF maint_basic(2)]

lemmas engine_writes = engine_maint[OF maint_basic(4)[OF automatic_write.intros(2)]]
  engine_maint[OF maint_basic(4)[OF automatic_write.intros(3)]]
  engine_maint[OF maint_basic(4)[OF automatic_write.intros(4)]]
  engine_maint[OF maint_basic(4)[OF automatic_write.intros(6)]]
  engine_maint[OF maint_basic(4)[OF automatic_write.intros(7)]]

lemma engine_caches:
  "act_within (engine_le a) (recently_failed env jid dev)" "act_within (engine_le a) (note_establish_failure env jid dev)"
  "act_within (engine_le a) (note_establish_success env jid dev)" "act_within (engine_le a) (refresh_device_list env jid ds)"
  "act_within (engine_le a) (forget_caches env)" "act_within (engine_le a) (forget_jid_failures env jid)"
  "act_within (engine_le a) (may_heal env jid dev)" "act_within (engine_le a) (heartbeat_due env jid dev c k)"
  "act_within (engine_le a) (set_secret env kind v)" "act_within (engine_le a) (secret env kind)"
  "act_within (engine_le a) (queue_stanza env el)" "act_within (engine_le a) (iq_request env b)"
  "act_within (engine_le a) (forget_stores env)"
proof -
  have "act_within (engine_le a) (elapsed_under env lim t)" for lim t
    unfolding elapsed_under_def by (intro engine_rules)
  then show "act_within (engine_le a) (recently_failed env jid dev)" "act_within (engine_le a) (may_heal env jid dev)"
    unfolding recently_failed_def may_heal_def Let_def by (intro engine_rules engine_modify; simp)+
  show "act_within (engine_le a) (forget_stores env)"
    unfolding forget_stores_def
    by (rule engine.within_modify) (auto simp: engine_le_def cache_ok_def maint.le_refl)
qed (unfold note_establish_failure_def note_establish_success_def refresh_device_list_def forget_caches_def
    forget_jid_failures_def heartbeat_due_def set_secret_def secret_def queue_stanza_def iq_request_def Let_def;
    intro engine_rules engine_modify; simp add: forget_failures_of_def)+

lemma stores_of_identity:
  "stores_from_identity env i p dev = Inr st \<Longrightarrow> os_account_id st = ee_account env"
  by (auto simp: stores_from_identity_def res_bind_Inr_iff)

lemma engine_bind_post:
  assumes "act_within (engine_le a) m"
    and "\<And>w x w'. cache_ok w \<Longrightarrow> m w = (Inr x, w') \<Longrightarrow> Q x"
    and "\<And>x. Q x \<Longrightarrow> act_within (engine_le a) (k x)"
  shows "act_within (engine_le a) (act_bind m k)"
  unfolding act_within_def
proof
  fix w
  have le: "engine_le a w (snd (m w))" using assms(1) by (simp add: act_within_def)
  show "engine_le a w (snd (act_bind m k w))"
  proof (cases "cache_ok w")
    case True
    show ?thesis
    proof (cases "m w")
      case (Pair r t)
      then show ?thesis
      proof (cases r)
        case (Inr x)
        then have "engine_le a t (snd (k x t))" using assms(2,3) True Pair by (auto simp: act_within_def)
        with le Pair Inr show ?thesis by (auto simp: act_bind_def intro: engine.le_trans)
      qed (use le in \<open>simp add: act_bind_def\<close>)
    qed
  qed (simp add: engine_le_def)
qed

lemma identity_account:
  "load_identity env i b p w = (Inr st, w') \<Longrightarrow> os_account_id st = ee_account env"
  "create_identity env w = (Inr st, w') \<Longrightarrow> os_account_id st = ee_account env"
  by (auto simp: load_identity_def create_identity_def act_simps Let_def map_err_def set_secret_def on_maint_def
      world_act_simps stores_of_identity split: option.splits sum.splits prod.splits)

lemma engine_identity:
  "act_within (engine_le (ee_account env)) (load_identity env i b p)"
  "act_within (engine_le (ee_account env)) (create_identity env)"
  unfolding load_identity_def create_identity_def Let_def
  by (intro engine_rules engine_caches engine_writes engine_modify; simp)+

lemma own_stores_within: "act_within (engine_le (ee_account env)) (own_stores env)"
proof -
  have new: "act_within (engine_le (ee_account env)) (act_bind m (\<lambda>(st, fresh).
      act_bind (act_modify (\<lambda>s. s\<lparr>en_stores := (en_stores s)(ee_account env \<mapsto> st)\<rparr>)) (\<lambda>_. act_ret (st, fresh))))"
    if m: "act_within (engine_le (ee_account env)) m"
      and acc: "\<And>w st fresh w'. m w = (Inr (st, fresh), w') \<Longrightarrow> os_account_id st = ee_account env" for m
  proof (rule engine_bind_post[OF m, of "\<lambda>(st, _). os_account_id st = ee_account env"])
    show "case x of (st, _) \<Rightarrow> os_account_id st = ee_account env" if "m w = (Inr x, w')" for w x w'
      using acc that by (cases x) auto
    show "act_within (engine_le (ee_account env)) (case x of (st, fresh) \<Rightarrow>
        act_bind (act_modify (\<lambda>s. s\<lparr>en_stores := (en_stores s)(ee_account env \<mapsto> st)\<rparr>)) (\<lambda>_. act_ret (st, fresh)))"
      if "case x of (st, _) \<Rightarrow> os_account_id st = ee_account env" for x
      using that by (cases x) (auto intro!: engine_rules engine.within_modify
          simp: engine_le_def cache_ok_def maint.le_refl)
  qed
  show ?thesis
    unfolding own_stores_def load_or_create_def
    by (intro engine_rules new engine_identity engine_caches)
       (auto simp: act_simps split: option.split_asm sum.split_asm prod.split_asm dest: identity_account)
qed

lemma own_stores_account:
  assumes "cache_ok w" and "own_stores env w = (Inr st, w')"
  shows "os_account_id st = ee_account env"
proof (cases "en_stores w (ee_account env)")
  case (Some st')
  with assms show ?thesis by (auto simp: own_stores_def load_or_create_def act_simps cache_ok_def)
next
  case None
  with assms(2) show ?thesis
    by (auto simp: own_stores_def load_or_create_def act_simps secret_def on_maint_def world_act_simps
        split: option.split_asm sum.split_asm prod.split_asm dest: identity_account)
qed

lemma engine_own:
  assumes "\<And>st. os_account_id st = ee_account env \<Longrightarrow> act_within (engine_le (ee_account env)) (k st)"
  shows "act_within (engine_le (ee_account env)) (act_bind (own_stores env) k)"
  by (rule engine_bind_post[OF own_stores_within, of _ "\<lambda>st. os_account_id st = ee_account env"])
     (auto dest: own_stores_account intro: assms)

subsection \<open>The operations\<close>

lemma engine_fetches:
  "act_within (engine_le a) (fetch_device_list env jid)" "act_within (engine_le a) (fetch_bundle env jid dev)"
  unfolding fetch_device_list_def fetch_bundle_def by (intro engine_rules engine_caches)+

lemma engine_sessions:
  assumes "through_traits (ee_session env)" and "os_account_id st = a"
  shows "act_within (engine_le a) (sessions_for env st jid dev)"
    and "act_within (engine_le a) (on_maint (establish_session (ee_session env) st our dev addr b))"
    and "act_within (engine_le a) (on_maint (omemo_encrypt (ee_session env) c st our dev rs to_jid x))"
    and "act_within (engine_le a) (on_maint (omemo_decrypt (ee_session env) c st our dev addr to_jid wr kex p cm))"
    and "act_within (engine_le a) (on_maint (reconcile_pq_pin (ee_session env) st addr b ik))"
    and "act_within (engine_le a) (on_maint (maintain_bundle (ee_session env) st i j k n m))"
proof -
  note m = maint_sessions[OF assms(1), of st, unfolded assms(2), THEN engine_maint]
  show "act_within (engine_le a) (sessions_for env st jid dev)"
    unfolding sessions_for_def session_for_def ensure_session_def Let_def
    by (intro engine_rules engine_caches engine_fetches m)
qed (rule maint_sessions[OF assms(1), of st, unfolded assms(2), THEN engine_maint]
    maint_upkeep[of st, unfolded assms(2), THEN engine_maint])+

lemma engine_candidates:
  "(\<And>c. act_within (maint_le a) (f c)) \<Longrightarrow> act_within (engine_le a) (try_candidates f cs lst)"
proof (induction cs arbitrary: lst)
  case (Cons c cs)
  obtain w kex where c: "c = (w, kex)" by (cases c)
  note next_one = Cons.IH[OF Cons.prems]
  show ?case unfolding c try_candidates.simps
    by (intro engine.within_bind engine_attempt engine_maint Cons.prems)
       (auto intro: engine.within_pure next_one split: sum.split engine_error.split omemo_error.split)
qed (simp add: engine.within_pure)

lemma engine_operations:
  assumes "through_traits (ee_session env)"
  shows "act_within (engine_le (ee_account env)) (maintain_and_republish env)"
    and "act_within (engine_le (ee_account env)) (ensure_initialized env)"
    and "act_within (engine_le (ee_account env)) (regenerate_own_identity env)"
    and "act_within (engine_le (ee_account env)) (encrypt_for_recipients env rs b x)"
    and "act_within (engine_le (ee_account env)) (decrypt_message env el sender to_jid)"
    and "act_within (engine_le (ee_account env)) (heal_session env sender dev)"
    and "act_within (engine_le (ee_account env)) (send_heartbeat env sender dev)"
    and "act_within (engine_le (ee_account env)) (reconcile_pq_pin_if_missing env sender dev)"
proof -
  note own = engine_own engine_sessions[OF assms]
  have publish: "act_within (engine_le a) (publish_bundle_xml env dev xml)"
    "act_within (engine_le a) (publish_device_list_replacing env dev old)" for a dev xml old
    unfolding publish_bundle_xml_def publish_device_list_replacing_def Let_def
    by (intro engine_rules engine_caches engine_fetches)+
  have empty: "act_within (engine_le (ee_account env)) (if_trusted env addr (send_empty env st dev peer addr))"
    if "os_account_id st = ee_account env" for st addr dev peer
    unfolding if_trusted_def send_empty_def build_empty_omemo2_def Let_def
    by (intro engine_rules engine_caches own that)
  show maintain: "act_within (engine_le (ee_account env)) (maintain_and_republish env)"
    unfolding maintain_and_republish_def Let_def by (intro own engine_rules publish engine_writes)
  show "act_within (engine_le (ee_account env)) (ensure_initialized env)"
    unfolding ensure_initialized_def publish_device_list_def by (intro maintain engine_rules publish)
  show "act_within (engine_le (ee_account env)) (regenerate_own_identity env)"
    unfolding regenerate_own_identity_def Let_def
    by (intro maintain engine_rules engine_caches engine_writes publish)
  show "act_within (engine_le (ee_account env)) (encrypt_for_recipients env rs b x)"
    unfolding encrypt_for_recipients_def Let_def by (intro own engine_rules)
  show "act_within (engine_le (ee_account env)) (heal_session env sender dev)"
    unfolding heal_session_def Let_def by (intro own engine_rules engine_caches engine_fetches empty)
  show "act_within (engine_le (ee_account env)) (send_heartbeat env sender dev)"
    unfolding send_heartbeat_def Let_def by (intro own engine_rules empty)
  show "act_within (engine_le (ee_account env)) (reconcile_pq_pin_if_missing env sender dev)"
    unfolding reconcile_pq_pin_if_missing_def Let_def
    by (intro own engine_rules engine_fetches engine_modify; simp)
  have tries: "act_within (engine_le (ee_account env)) (try_candidates (\<lambda>(wr, kex).
      omemo_decrypt (ee_session env) c st our dev addr to_jid wr kex p cm) cs l)"
    if "os_account_id st = ee_account env" for c st our dev addr p cm cs l
    using maint_sessions(4)[OF assms, of st] that by (auto intro!: engine_candidates)
  show "act_within (engine_le (ee_account env)) (decrypt_message env el sender to_jid)"
    unfolding decrypt_message_def decode_child_def Let_def case_prod_beta
    by (intro own engine_rules engine_caches engine_modify tries[unfolded case_prod_beta]; simp)
qed

text \<open>One operation of the engine; the server, the clocks and the generators answer as they like.\<close>

inductive engine_step :: "i64 \<Rightarrow> ('o, 'e) engine \<Rightarrow> ('o, 'e) engine \<Rightarrow> bool" for a where
  "through_traits (ee_session env) \<Longrightarrow> ee_account env = a \<Longrightarrow> engine_step a s (snd (ensure_initialized env s))"
| "through_traits (ee_session env) \<Longrightarrow> ee_account env = a \<Longrightarrow> engine_step a s (snd (maintain_and_republish env s))"
| "through_traits (ee_session env) \<Longrightarrow> ee_account env = a \<Longrightarrow> engine_step a s (snd (regenerate_own_identity env s))"
| "through_traits (ee_session env) \<Longrightarrow> ee_account env = a \<Longrightarrow> engine_step a s (snd (encrypt_for_recipients env rs b x s))"
| "through_traits (ee_session env) \<Longrightarrow> ee_account env = a \<Longrightarrow> engine_step a s (snd (decrypt_message env el sender to_jid s))"
| "through_traits (ee_session env) \<Longrightarrow> ee_account env = a \<Longrightarrow> engine_step a s (snd (heal_session env sender dev s))"
| "through_traits (ee_session env) \<Longrightarrow> ee_account env = a \<Longrightarrow> engine_step a s (snd (send_heartbeat env sender dev s))"
| "through_traits (ee_session env) \<Longrightarrow> ee_account env = a \<Longrightarrow> engine_step a s (snd (reconcile_pq_pin_if_missing env sender dev s))"

lemma engine_step_le: "engine_step a s s' \<Longrightarrow> engine_le a s s'"
  by (induction rule: engine_step.induct) (auto intro: engine_operations[THEN act_withinD])

lemma engine_run_le: "(engine_step a)\<^sup>*\<^sup>* s s' \<Longrightarrow> engine_le a s s'"
  by (induction rule: rtranclp_induct) (auto intro: engine.le_refl engine.le_trans engine_step_le)

text \<open>
  C2: Nothing the engine does is a verdict: over any sequence of its operations, whatever stanzas,
  bundles and device lists peers and server feed it, a device that ends up verified (trust 3) or
  blocked (trust 2) had that verdict, for that key, at the start.
\<close>

theorem engine_never_decides_trust:
  assumes "cache_ok s" and "(engine_step a)\<^sup>*\<^sup>* s s'"
    and "omemo_identity b jid dev (w_db (en_world s')) = Some i" and "oi_trust i \<in> {2, 3}"
  shows "\<exists>i0. omemo_identity b jid dev (w_db (en_world s)) = Some i0
    \<and> oi_identity_key i0 = oi_identity_key i \<and> oi_trust i0 = oi_trust i"
proof -
  have "vouched (w_db (en_world s)) (w_db (en_world s))" by (auto simp: vouched_def)
  moreover have "(automatic_write a)\<^sup>*\<^sup>* (w_db (en_world s)) (w_db (en_world s'))"
    using engine_run_le[OF assms(2)] assms(1) by (simp add: engine_le_def maint_le_def)
  ultimately have "vouched (w_db (en_world s)) (w_db (en_world s'))" by (metis trust.run_inv)
  with assms(3,4) show ?thesis by (fastforce simp: vouched_def omemo_identity_def identity_view_def)
qed

subsection \<open>Who is encrypted to\<close>

context effect_order begin

lemma act_map_results:
  assumes "\<And>x. act_within le (f x)" and "act_map f xs s = (Inr ys, s')" and "y \<in> set ys"
  shows "\<exists>x t t'. x \<in> set xs \<and> le s t \<and> f x t = (Inr y, t')"
  using assms(2,3)
proof (induction xs arbitrary: s ys)
  case (Cons x xs)
  obtain z t zs where z: "f x s = (Inr z, t)" "act_map f xs t = (Inr zs, s')" "ys = z # zs"
    using Cons.prems(1) by (auto simp: act_bind_def act_ret_def split: prod.splits sum.splits)
  have st: "le s t" using act_withinD[OF assms(1), of s x] z(1) by simp
  show ?case
  proof (cases "y = z")
    case True
    then show ?thesis using z(1) le_refl by (intro exI[of _ x] exI[of _ s] exI[of _ t]) simp
  next
    case False
    then have "y \<in> set zs" using Cons.prems(2) z(3) by simp
    from Cons.IH[OF z(2) this] st le_trans show ?thesis by (metis list.set_intros(2))
  qed
qed (simp add: act_ret_def)

end

lemma session_for_result:
  assumes "session_for env st jid our_device dev t = (Inr (Some addr), t')"
  shows "addr = \<lparr>da_jid = jid, da_device_id = dev\<rparr> \<and> \<not> (jid = ee_bare env \<and> dev = our_device)
    \<and> device_trusted (ee_account env) (w_db (en_world t')) addr"
  using assms
  by (auto simp: session_for_def Let_def act_simps on_maint_def world_act_simps device_trusted_def
      split: if_split_asm sum.split_asm prod.split_asm)

lemma sessions_for_result:
  assumes "through_traits (ee_session env)" and "os_account_id st = ee_account env" and "cache_ok s"
    and "sessions_for env st jid our_device s = (Inr addrs, s')" and "addr \<in> set addrs"
  shows "da_jid addr = jid \<and> \<not> (jid = ee_bare env \<and> da_device_id addr = our_device)
    \<and> (\<exists>db. (automatic_write (ee_account env))\<^sup>*\<^sup>* (w_db (en_world s)) db \<and> device_trusted (ee_account env) db addr)"
proof -
  let ?a = "ee_account env"
  have one: "act_within (engine_le ?a) (session_for env st jid our_device dev)" for dev
    unfolding session_for_def ensure_session_def Let_def
    by (intro engine_rules engine_caches engine_fetches engine_sessions assms(1,2))
  obtain f t1 t2 found where run: "attempt (fetch_device_list env jid) s = (Inr f, t1)"
    "refresh_device_list env jid (or_default [] (f :: engine_error + u32 list)) t1 = (Inr (), t2)"
    "act_map (session_for env st jid our_device) (or_default [] f) t2 = (Inr found, s')"
    "addrs = List.map_filter id found"
    using assms(4) by (auto simp: sessions_for_def Let_def act_bind_def act_ret_def attempt_def
        refresh_device_list_def act_simps split: prod.split_asm sum.split_asm)
  have "engine_le ?a s t1"
    using act_withinD[OF engine_fetches(1), of ?a s env jid] run(1) by (auto simp: attempt_def split: prod.split_asm)
  moreover have "engine_le ?a t1 t2"
    using act_withinD[OF engine_caches(4), of ?a t1 env jid "or_default [] f"] run(2) by simp
  ultimately have le: "engine_le ?a s t2" by (rule engine.le_trans)
  have "Some addr \<in> set found" using assms(5) run(4) by (auto simp: List.map_filter_def)
  from engine.act_map_results[OF one run(3) this] obtain dev t t' where
    t: "engine_le ?a t2 t" "session_for env st jid our_device dev t = (Inr (Some addr), t')" by auto
  have "engine_le ?a t t'" using act_withinD[OF one, of t dev] t(2) by simp
  then have "engine_le ?a s t'" using le t(1) by (blast intro: engine.le_trans)
  then have "(automatic_write ?a)\<^sup>*\<^sup>* (w_db (en_world s)) (w_db (en_world t'))"
    using assms(3) by (simp add: engine_le_def maint_le_def)
  with session_for_result[OF t(2)] show ?thesis by auto
qed


end
