(* ===== verification/Engine_Wire.thy ===== *)
theory Engine_Wire
  imports Engine_Laws Outgoing_Laws
begin

text \<open>
  The \<open><encrypted>\<close> element on the wire: what the sender's engine builds the receiver's engine reads,
  and how much work a header or a device list can ask for.
\<close>

subsection \<open>Building and reading the header\<close>

lemma show_u32_inj [simp]: "show_u32 i = show_u32 j \<longleftrightarrow> i = j"
proof -
  have "digits_val 0 (show_nat m) = digits_val 0 (show_nat n) \<Longrightarrow> m = n" for m n by simp
  then show ?thesis by (metis show_u32_def word_unat_eq_iff)
qed

lemma parse_show_u32 [simp]: "parse_u32 (show_u32 i) = Some i"
  using unat_u32_bound[of i] by (simp add: parse_u32_def show_u32_def)

lemma key_element_parts [simp]:
  assumes "dom_sound d"
  shows "d_name d (key_element d c k) = ''key''" "d_attr d (key_element d c k) ''rid'' = Some (show_u32 (wk_device_id k))"
    "d_attr d (key_element d c k) ''kex'' = (if wk_kex k then Some ''true'' else None)"
    "d_text d (key_element d c k) = b64_encode c (wk_data k)"
  using assms by (simp_all add: key_element_def Let_def)

lemma keys_element_parts [simp]:
  assumes "dom_sound d"
  shows "d_name d (keys_element d c jid ks) = ''keys''" "d_attr d (keys_element d c jid ks) ''jid'' = Some jid"
    "named d ''key'' (keys_element d c jid ks) = map (key_element d c) ks"
  using assms by (simp_all add: keys_element_def named_def filter_id_conv)

lemma filter_one: "distinct xs \<Longrightarrow> (\<And>x. x \<in> set xs \<Longrightarrow> P x \<longleftrightarrow> x = a) \<Longrightarrow> filter P xs = (if a \<in> set xs then [a] else [])"
  by (induction xs) auto

lemma our_wraps_built:
  assumes "dom_sound d" and "b64_sound c" and "to_bare ours = ours"
    and "\<forall>k\<in>set keys. eq_ignore_ascii_case (to_bare (wk_jid k)) ours \<longrightarrow> wk_jid k = ours"
  shows "our_wraps d c (build_header d c keys sender) ours dev
    = map (\<lambda>k. (wk_data k, wk_kex k)) (filter (\<lambda>k. wk_jid k = ours \<and> wk_device_id k = dev) keys)"
proof -
  let ?jids = "sort (remdups (map wk_jid keys))" and ?ks = "filter (\<lambda>k. wk_jid k = ours) keys"
  have "filter (\<lambda>jid. eq_ignore_ascii_case (to_bare jid) ours) ?jids = (if ours \<in> set ?jids then [ours] else [])"
    using assms(3,4) by (intro filter_one) (auto simp: eq_ignore_ascii_case_refl)
  then have "filter (\<lambda>ks. d_name d ks = ''keys'' \<and> keys_block_is_ours (d_attr d ks ''jid'') ours)
      (map (\<lambda>jid. keys_element d c jid (filter (\<lambda>k. wk_jid k = jid) keys)) ?jids)
      = (if ours \<in> set ?jids then [keys_element d c ours ?ks] else [])"
    using assms(1) by (simp add: filter_map comp_def keys_block_is_ours_def)
  then have "concat (map (named d ''key'') (filter (\<lambda>ks. d_name d ks = ''keys'' \<and> keys_block_is_ours (d_attr d ks ''jid'') ours)
      (d_children d (build_header d c keys sender)))) = map (key_element d c) ?ks"
    using assms(1) by (auto simp: build_header_def filter_empty_conv)
  moreover have "List.map_filter (candidate_of d c) (map (key_element d c) ks) = map (\<lambda>k. (wk_data k, wk_kex k)) ks" for ks
    using assms(1,2) by (induction ks) (simp_all add: List.map_filter_simps candidate_of_def b64_sound_def)
  ultimately show ?thesis
    using assms(1) by (simp add: our_wraps_def filter_map comp_def)
qed

text \<open>
  However a header is filled, the first eight wraps are tried and no more, all of them for our own
  device and taken from blocks that carry our own address.
\<close>

theorem key_candidates_bounded:
  "select_key_candidates d c header our_bare dev
      = (take 8 (our_wraps d c header our_bare dev), 8 < length (our_wraps d c header our_bare dev))
    \<and> set (our_wraps d c header our_bare dev) \<subseteq> {(w, kex).
        \<exists>ks k. ks \<in> set (d_children d header) \<and> k \<in> set (d_children d ks)
          \<and> keys_block_is_ours (d_attr d ks ''jid'') our_bare \<and> d_attr d k ''rid'' = Some (show_u32 dev)
          \<and> b64_decode c (str_trim (d_text d k)) = Inr w \<and> kex = (d_attr d k ''kex'' = Some ''true'')}"
  by (auto simp: select_key_candidates_def Let_def MAX_KEY_CANDIDATES_def our_wraps_def List.map_filter_def
      candidate_of_def named_def min_def split: sum.split_asm) blast+

subsection \<open>What the sender builds the receiver reads\<close>

lemma bytes_str_bytes [simp]: "bytes_str (str_bytes e) = e"
proof -
  have "char_of (unat (word_of_nat (byte_of x) :: u8)) = x" for x
    by (simp add: unat_of_nat byte_of_def)
  then show ?thesis by (simp add: bytes_str_def str_bytes_def comp_def)
qed

lemma build_encrypted_parts:
  assumes "dom_sound d"
  shows "get_child d (build_encrypted d c em sid) ''header'' NS_OMEMO2 = Some (build_header d c (em_keys em) sid)"
    "get_child d (build_encrypted d c em sid) ''payload'' NS_OMEMO2
       = Some (text_element d ''payload'' NS_OMEMO2 (b64_encode c (em_payload em)))"
    "get_child d (build_encrypted d c em sid) ''commit'' NS_OMEMO2
       = Some (text_element d ''commit'' NS_OMEMO2 (b64_encode c (em_commit em)))"
    "d_attr d (build_header d c ks sid) ''sid'' = Some (show_u32 sid)"
  using assms
  by (simp_all add: build_encrypted_def build_header_def get_child_def d_is_def text_element_def)

lemma heartbeat_due_total: obtains due t where "heartbeat_due env jid dev n k s = (Inr due, t)"
  by (cases "heartbeat_due env jid dev n k s") (auto simp: heartbeat_due_def act_simps Let_def split: if_split_asm)

text \<open>The commitment lets the receiver open what it unwrapped the key of.\<close>

lemma decrypts_what_was_encrypted:
  assumes "gcm_sound c" "length (ss_random_key env (w_tick w)) = 32"
    and sent: "omemo_encrypt env c stores our_jid our_device recipients to_jid plaintext w = (Inr em, w1)"
    and addrs: "protocol_address env' our_jid our_device = Inr ra" "protocol_address env' their_jid their_device = Inr la"
    and unwrapped: "unwrap_key env' stores' ra la wrapped is_kex v = (Inr (ss_random_key env (w_tick w)), v1)"
  shows "omemo_decrypt env' c stores' their_jid their_device \<lparr>da_jid = our_jid, da_device_id = our_device\<rparr>
      to_jid wrapped is_kex (em_payload em) (Some (em_commit em)) v = (Inr plaintext, v1)"
proof -
  note sealed = encrypt_InrD[OF sent]
  have "em_payload em \<noteq> []" using sealed seal_payload_nonempty[OF assms(1)] by blast
  moreover have "omemo2_open c (ss_random_key env (w_tick w)) (em_payload em) our_jid to_jid our_device
      (Some (em_commit em)) = Inr plaintext"
    using sealed seal_opens[OF assms(1)] by simp
  ultimately show ?thesis
    using assms(2) addrs unwrapped by (simp add: omemo_decrypt_def act_simps world_act_simps MSG_KEY_LEN_def)
qed

text \<open>
  C5: From engine to engine: the \<open><encrypted>\<close> element a sender builds is read by the engine of a
  recipient whose libsignal session unwraps the key it was sent: the receiver gets the envelope, the
  sender's device and that it was content, whatever else the header carries for other devices.
\<close>

theorem encrypted_element_read:
  assumes sound: "dom_sound (ee_dom env)" "b64_sound (ee_b64 env)" "gcm_sound (ee_crypto env)"
    and same: "ee_dom env' = ee_dom env" "ee_b64 env' = ee_b64 env" "ee_crypto env' = ee_crypto env"
    and sent: "omemo_encrypt (ee_session env) (ee_crypto env) st (ee_bare env) (os_registration_id st) addrs
      (Some to_jid) (str_bytes envelope) w = (Inr em, w')"
      "length (ss_random_key (ee_session env) (w_tick w)) = 32"
    and ours: "own_stores env' s = (Inr st', t)" "to_bare (ee_bare env') = ee_bare env'"
      "\<forall>k\<in>set (em_keys em). eq_ignore_ascii_case (to_bare (wk_jid k)) (ee_bare env') \<longrightarrow> wk_jid k = ee_bare env'"
      "filter (\<lambda>k. wk_jid k = ee_bare env' \<and> wk_device_id k = os_registration_id st') (em_keys em) = [k]"
    and keys: "protocol_address (ee_session env') (ee_bare env) (os_registration_id st) = Inr ra"
      "protocol_address (ee_session env') (ee_bare env') (os_registration_id st') = Inr la"
      "unwrap_key (ee_session env') st' ra la (wk_data k) (wk_kex k) (en_world t)
        = (Inr (ss_random_key (ee_session env) (w_tick w)), v)"
  shows "\<exists>dec s'. decrypt_message env' (build_encrypted (ee_dom env) (ee_b64 env) em (os_registration_id st))
      (ee_bare env) (Some to_jid) s = (Inr dec, s')
    \<and> dec_envelope dec = envelope \<and> dec_sender_device dec = os_registration_id st
    \<and> \<not> dec_key_transport dec \<and> dec_was_kex dec = wk_kex k"
proof -
  let ?d = "ee_dom env" and ?c = "ee_b64 env"
  note parts = build_encrypted_parts[OF sound(1)]
  have children: "decode_child env' (build_encrypted ?d ?c em (os_registration_id st)) ''payload'' s = (Inr (Some (em_payload em)), s)"
    "decode_child env' (build_encrypted ?d ?c em (os_registration_id st)) ''commit'' s = (Inr (Some (em_commit em)), s)"
    using sound(1,2) by (simp_all add: decode_child_def same parts text_element_def act_simps b64_sound_def)
  have wraps: "our_wraps ?d ?c (build_header ?d ?c (em_keys em) (os_registration_id st)) (ee_bare env') (os_registration_id st')
      = [(wk_data k, wk_kex k)]"
    using our_wraps_built[OF sound(1,2) ours(2,3)] ours(4) by simp
  have opened: "omemo_decrypt (ee_session env') (ee_crypto env) st' (ee_bare env') (os_registration_id st')
      \<lparr>da_jid = ee_bare env, da_device_id = os_registration_id st\<rparr> (Some to_jid) (wk_data k) (wk_kex k)
      (em_payload em) (Some (em_commit em)) (en_world t) = (Inr (str_bytes envelope), v)"
    by (rule decrypts_what_was_encrypted[OF sound(3) sent(2,1) keys])
  obtain due u where due: "(case whisper_ratchet_counter (ee_session env') (wk_data k) (wk_kex k) of
        None \<Rightarrow> act_ret False
      | Some (counter, ratchet_key) \<Rightarrow>
          heartbeat_due env' (ee_bare env) (os_registration_id st) counter ratchet_key) (t\<lparr>en_world := v\<rparr>) = (Inr due, u)"
  proof (cases "whisper_ratchet_counter (ee_session env') (wk_data k) (wk_kex k)")
    case None
    then show ?thesis using that[of False] by (simp add: act_ret_def)
  next
    case (Some ck)
    obtain n key where "ck = (n, key)" by fastforce
    with Some show ?thesis
      by (metis (no_types, lifting) heartbeat_due_total option.simps(5) prod.case that)
  qed
  show ?thesis
    using due by (simp add: decrypt_message_def same parts act_bind_eval children ours(1) select_key_candidates_def wraps
        MAX_KEY_CANDIDATES_def Let_def attempt_def on_maint_def opened map_err_def act_eval world_act_simps)
qed

subsection \<open>A device list that could not be read\<close>

text \<open>
  Publishing starts from the list the server answers with; when the answer is an error, what is
  published is the list of this device alone.
\<close>

lemma device_list_lost:
  assumes "fetch_device_list env (ee_bare env) s = (Inl e, t)"
  shows "publish_device_list_replacing env dev remove s
    = act_bind (iq_request env (\<lambda>i. pep_publish (ee_dom env) i NODE_DEVICES (Some ''current'')
          (devices_element (ee_dom env) [dev]) (Some (pep_publish_options (ee_dom env) ''open'')))) (\<lambda>_. act_ret ()) t"
  using assms
  by (cases remove) (simp_all add: publish_device_list_replacing_def act_bind_eval attempt_def Let_def or_default_def
      listed_ids_def)

subsection \<open>The work an answer of the server can ask for\<close>

definition asks :: "nat \<Rightarrow> (('o, 'e) engine, 'x, 'a) act \<Rightarrow> bool" where
  "asks n m \<longleftrightarrow> (\<forall>s. length (en_requests (snd (m s))) \<le> length (en_requests s) + n)"

lemma asksD: "asks n m \<Longrightarrow> length (en_requests (snd (m s))) \<le> length (en_requests s) + n"
  by (simp add: asks_def)

lemma asks_weaken: "asks n m \<Longrightarrow> n \<le> k \<Longrightarrow> asks k m"
  unfolding asks_def by (meson add_left_mono le_trans)

lemma asks_pure:
  "asks n (act_ret x)" "asks n (act_throw e)" "asks n (act_read g)" "asks n (act_lift r)" "asks n (on_maint h)"
  "(\<And>s. en_requests (f s) = en_requests s) \<Longrightarrow> asks n (act_modify f)"
  by (auto simp: asks_def act_simps on_maint_def case_prod_beta)

lemma asks_post:
  assumes "asks n m" and "\<And>s x t. m s = (Inr x, t) \<Longrightarrow> Q x" and "\<And>x. Q x \<Longrightarrow> asks k (f x)"
  shows "asks (n + k) (act_bind m f)"
  unfolding asks_def
proof
  fix s
  have le: "length (en_requests (snd (m s))) \<le> length (en_requests s) + n" using assms(1) by (rule asksD)
  show "length (en_requests (snd (act_bind m f s))) \<le> length (en_requests s) + (n + k)"
  proof (cases "m s")
    case (Pair r t)
    show ?thesis
    proof (cases r)
      case (Inr x)
      have "length (en_requests (snd (f x t))) \<le> length (en_requests t) + k"
        using assms(2,3) Pair Inr by (metis asksD)
      with le Pair Inr show ?thesis by (simp add: act_bind_def)
    qed (use le Pair in \<open>simp add: act_bind_def\<close>)
  qed
qed

lemma asks_bind: "asks n m \<Longrightarrow> (\<And>x. asks k (f x)) \<Longrightarrow> asks (n + k) (act_bind m f)"
  by (rule asks_post[of _ _ "\<lambda>_. True"]) simp_all

lemma asks_cases:
  "(b \<Longrightarrow> asks n m) \<Longrightarrow> (\<not> b \<Longrightarrow> asks n m') \<Longrightarrow> asks n (if b then m else m')"
  "asks n m \<Longrightarrow> (\<And>x. asks n (f x)) \<Longrightarrow> asks n (case ov of None \<Rightarrow> m | Some x \<Rightarrow> f x)"
  "(\<And>e. asks n (g e)) \<Longrightarrow> (\<And>x. asks n (f x)) \<Longrightarrow> asks n (case sv of Inl e \<Rightarrow> g e | Inr x \<Rightarrow> f x)"
  "(\<And>x y. asks n (h x y)) \<Longrightarrow> asks n (case pv of (x, y) \<Rightarrow> h x y)"
  by (simp_all split: option.split sum.split prod.split)

lemma asks_bind0: "asks 0 m \<Longrightarrow> (\<And>x. asks k (f x)) \<Longrightarrow> asks k (act_bind m f)"
  "asks k m \<Longrightarrow> (\<And>x. asks 0 (f x)) \<Longrightarrow> asks k (act_bind m f)"
  using asks_bind[of 0 m k f] asks_bind[of k m 0 f] by simp_all

lemma asks_map: "(\<And>x. asks n (f x)) \<Longrightarrow> asks (length xs * n) (act_map f xs)"
proof (induction xs)
  case (Cons x xs)
  have "asks (n + length xs * n) (act_map f (x # xs))"
    using Cons by (simp del: add_mult_distrib) (intro asks_bind asks_bind0(2) Cons.prems asks_pure; simp)
  then show ?case by simp
qed (simp add: asks_pure)

lemma asks_attempt: "asks n m \<Longrightarrow> asks n (attempt m)"
  by (simp add: asks_def attempt_def case_prod_beta)

lemma asks_caches: "asks 0 (recently_failed env jid dev)" "asks 0 (note_establish_failure env jid dev)"
  "asks 0 (note_establish_success env jid dev)" "asks 0 (refresh_device_list env jid ds)" "asks 1 (iq_request env b)"
  unfolding recently_failed_def elapsed_under_def note_establish_failure_def note_establish_success_def
    refresh_device_list_def Let_def
  by (intro asks_bind0(1) asks_pure asks_cases; simp add: forget_failures_of_def)+
     (auto simp: iq_request_def asks_def act_simps on_maint_def draw_def Let_def split: sum.split)

lemma asks_fetch: "asks 1 (fetch_device_list env jid)" "asks 1 (fetch_bundle env jid dev)"
  unfolding fetch_device_list_def fetch_bundle_def
  by (intro asks_bind0(2) asks_caches; simp add: asks_pure split: list.split)+

lemma take_ids_bounded: "length out \<le> 128 \<Longrightarrow> length (take_ids d els out) \<le> 128"
  by (induction els arbitrary: out) (auto simp: MAX_DEVICES_PER_JID_def split: option.split)

lemma device_ids_bounded: "length (device_ids d reply) \<le> 128"
proof -
  have "length (fold (\<lambda>(_, payload) out.
      if d_name d payload = ''devices'' then take_ids d (named d ''device'' payload) out else out) items out) \<le> 128"
    if "length out \<le> 128" for items :: "(string option \<times> 'a) list" and out
    using that by (induction items arbitrary: out) (auto simp: take_ids_bounded)
  then show ?thesis by (simp add: device_ids_def)
qed

lemma asks_session_for: "asks 1 (session_for env st jid our_device dev)"
proof -
  have "asks 1 (ensure_session env st our_device addr)" for addr
    unfolding ensure_session_def Let_def
    by (intro asks_bind0(1)[OF asks_caches(1)] asks_cases asks_pure asks_bind0(2)[OF asks_attempt[OF asks_fetch(2)]]
        asks_bind0(1)[OF asks_caches(2)] asks_bind0(1)[OF asks_attempt[OF asks_pure(5)]] asks_bind0(1)[OF asks_caches(3)])
  then show ?thesis
    unfolding session_for_def Let_def
    by (intro asks_cases asks_pure asks_bind0(1)[OF asks_pure(5)] asks_bind0(2)[OF asks_cases(1)])
qed

lemma asks_sessions_for: "asks 129 (sessions_for env st jid our_device)"
proof -
  have "asks (1 + 128) (sessions_for env st jid our_device)"
    unfolding sessions_for_def
  proof (rule asks_post[OF asks_attempt[OF asks_fetch(1)], of _ _ "\<lambda>r. length (or_default [] r) \<le> 128"])
    show "length (or_default [] x) \<le> 128" if "attempt (fetch_device_list env jid) s = (Inr x, t)" for s x t
      using that by (auto simp: attempt_def fetch_device_list_def act_bind_def act_ret_def or_default_def
          device_ids_bounded split: prod.split_asm sum.split_asm)
    show "asks 128 (let devices = or_default [] x in act_bind (refresh_device_list env jid devices) (\<lambda>_.
        act_bind (act_map (session_for env st jid our_device) devices) (\<lambda>addrs. act_ret (List.map_filter id addrs))))"
      if "length (or_default [] x) \<le> 128" for x
    proof -
      have "asks 128 (act_map (session_for env st jid our_device) (or_default [] x))"
        using asks_map[OF asks_session_for] by (rule asks_weaken) (use that in simp)
      then show ?thesis
        unfolding Let_def by (intro asks_bind0(1)[OF asks_caches(4)] asks_bind0(2) asks_pure)
    qed
  qed
  then show ?thesis by simp
qed

text \<open>
  C19: One message makes a bounded number of requests: whatever device lists the recipients publish,
  encrypting to \<open>n\<close> recipients asks the server at most \<open>129 * (n + 1)\<close> times, and a device list that
  was read has at most 128 ids.
\<close>

theorem encryption_requests_bounded:
  "length (en_requests (snd (encrypt_for_recipients env rs b x s)))
     \<le> length (en_requests s) + 129 * (length rs + 1)
   \<and> length (device_ids (ee_dom env) reply) \<le> 128"
proof -
  have own: "asks 0 (own_stores env)"
    unfolding own_stores_def load_or_create_def load_identity_def create_identity_def secret_def set_secret_def Let_def
    by (intro asks_bind0(1) asks_pure asks_cases; simp)
  have "asks (length (filter P rs) * 129) (act_map (\<lambda>jid. sessions_for env st jid dev) (filter P rs))" for P st dev
    by (rule asks_map[OF asks_sessions_for])
  then have "asks (length rs * 129) (act_map (\<lambda>jid. sessions_for env st jid dev) (filter P rs))" for P st dev
    by (rule asks_weaken) simp
  then have "asks (length rs * 129 + 129) (encrypt_for_recipients env rs b x)"
    unfolding encrypt_for_recipients_def Let_def
    by (intro asks_bind0(1)[OF own] asks_bind asks_bind0(2)[OF asks_sessions_for] asks_bind0(1)[OF asks_pure(5)]
        asks_cases asks_pure)
  from asksD[OF this, of s] show ?thesis by (simp add: device_ids_bounded)
qed

end
