(* ===== verification/Engine_Replies.thy ===== *)
theory Engine_Replies
  imports Engine_Wire
begin

text \<open>
  What the engine sends of its own accord, and runs of the engine: healing a session and the
  heartbeat answer a peer's message without the user, so they may only reach devices the user's
  settings trust, and they say nothing.  The second part is an engine to try the operations on.
\<close>

subsection \<open>Stanzas the engine queues\<close>

definition quiet :: "('o, 'e) engine \<Rightarrow> ('o, 'e) engine \<Rightarrow> bool" where
  "quiet s t \<longleftrightarrow> en_queue t = en_queue s"

interpretation quiet: effect_order quiet
  by unfold_locales (auto simp: quiet_def)

lemma quiet_maint: "act_within quiet (on_maint m)"
  by (auto simp: act_within_def quiet_def on_maint_def case_prod_beta)

lemma quiet_modify: "(\<And>s. en_queue (f s) = en_queue s) \<Longrightarrow> act_within quiet (act_modify f)"
  by (rule quiet.within_modify) (simp add: quiet_def)

lemmas quiet_rules = quiet.within_pure quiet.within_bind quiet.within_map within_cases engine_attempt quiet_maint

lemma quiet_operations:
  "act_within quiet (may_heal env jid dev)" "act_within quiet (own_stores env)"
  "act_within quiet (forget_jid_failures env jid)" "act_within quiet (fetch_bundle env jid dev)"
  "act_within quiet (note_establish_failure env jid dev)"
  unfolding may_heal_def elapsed_under_def own_stores_def load_or_create_def load_identity_def create_identity_def
    secret_def set_secret_def forget_jid_failures_def fetch_bundle_def iq_request_def note_establish_failure_def Let_def
  by (intro quiet_rules quiet_modify; simp add: forget_failures_of_def)+

text \<open>An action that queues nothing, or one stanza for which \<open>Q\<close> holds of the state it began in.\<close>

definition sends_one :: "(('o, 'e) engine \<Rightarrow> 'e \<Rightarrow> bool) \<Rightarrow> (('o, 'e) engine, 'x, 'a) act \<Rightarrow> bool" where
  "sends_one Q m \<longleftrightarrow> (\<forall>s. cache_ok s \<longrightarrow> en_queue (snd (m s)) = en_queue s
     \<or> (\<exists>el. Q s el \<and> en_queue (snd (m s)) = en_queue s @ [el]))"

lemma sends_none: "act_within quiet m \<Longrightarrow> sends_one Q m"
  by (simp add: act_within_def quiet_def sends_one_def)

lemma within_sends:
  "(b \<Longrightarrow> sends_one Q m) \<Longrightarrow> (\<not> b \<Longrightarrow> sends_one Q n) \<Longrightarrow> sends_one Q (if b then m else n)"
  "(\<And>e. sends_one Q (f e)) \<Longrightarrow> (\<And>x. sends_one Q (g x)) \<Longrightarrow> sends_one Q (case sv of Inl e \<Rightarrow> f e | Inr x \<Rightarrow> g x)"
  by (simp_all split: sum.split)

lemma sends_after:
  assumes "act_within quiet m" and "act_within (engine_le a) m"
    and "\<And>s x t. cache_ok s \<Longrightarrow> m s = (Inr x, t) \<Longrightarrow> R x"
    and "\<And>x. R x \<Longrightarrow> sends_one Q (k x)" and "\<And>s t el. engine_le a s t \<Longrightarrow> cache_ok s \<Longrightarrow> Q t el \<Longrightarrow> Q s el"
  shows "sends_one Q (act_bind m k)"
  unfolding sends_one_def
proof (intro allI impI)
  fix s :: "('a, 'b) engine" assume ok: "cache_ok s"
  have le: "quiet s (snd (m s))" "engine_le a s (snd (m s))"
    using assms(1,2) by (auto dest: act_withinD)
  show "en_queue (snd (act_bind m k s)) = en_queue s
     \<or> (\<exists>el. Q s el \<and> en_queue (snd (act_bind m k s)) = en_queue s @ [el])"
  proof (cases "m s")
    case (Pair r t)
    show ?thesis
    proof (cases r)
      case (Inl e)
      then show ?thesis using Pair le by (simp add: act_bind_def quiet_def)
    next
      case (Inr x)
      have "sends_one Q (k x)" using assms(3,4) ok Pair Inr by blast
      moreover have "cache_ok t" "en_queue t = en_queue s" using le Pair ok by (auto simp: engine_le_def quiet_def)
      ultimately show ?thesis
        using assms(5)[of s t] le Pair Inr ok unfolding sends_one_def by (auto simp: act_bind_def)
    qed
  qed
qed

text \<open>An envelope without content, encrypted to one device that is trusted.\<close>

definition empty_stanza :: "('o, 'e) engine_env \<Rightarrow> device_addr \<Rightarrow> 'e \<Rightarrow> bool" where
  "empty_stanza env addr el \<longleftrightarrow> (\<exists>st time n w enc w' mid.
     omemo_encrypt (ee_session env) (ee_crypto env) st (ee_bare env) (os_registration_id st) [addr] (Some (da_jid addr))
       (str_bytes (envelope_to_xml (ee_xml env) (ee_pad env n)
         (envelope_with_content [] (ee_bare env) (da_jid addr) (Some time)))) w = (Inr enc, w')
   \<and> el = empty_message env (da_jid addr) mid (build_encrypted (ee_dom env) (ee_b64 env) enc (os_registration_id st)))"

definition empty_reply :: "('o, 'e) engine_env \<Rightarrow> device_addr \<Rightarrow> ('o, 'e) engine \<Rightarrow> 'e \<Rightarrow> bool" where
  "empty_reply env addr s el \<longleftrightarrow> empty_stanza env addr el
   \<and> (\<exists>db. (automatic_write (ee_account env))\<^sup>*\<^sup>* (w_db (en_world s)) db \<and> device_trusted (ee_account env) db addr)"

lemma empty_reply_earlier:
  "engine_le (ee_account env) s t \<Longrightarrow> cache_ok s \<Longrightarrow> empty_reply env addr t el \<Longrightarrow> empty_reply env addr s el"
  by (auto simp: empty_reply_def engine_le_def maint_le_def intro: rtranclp_trans)

lemma reply_after:
  assumes "act_within quiet m" and "act_within (engine_le (ee_account env)) m"
    and "\<And>s x t. cache_ok s \<Longrightarrow> m s = (Inr x, t) \<Longrightarrow> R x"
    and "\<And>x. R x \<Longrightarrow> sends_one (empty_reply env addr) (k x)"
  shows "sends_one (empty_reply env addr) (act_bind m k)"
  by (rule sends_after[OF assms]) (auto intro: empty_reply_earlier)

lemmas reply_next = reply_after[where R = "\<lambda>_. True", OF _ _ TrueI]

lemma send_empty_queue:
  "en_queue (snd (send_empty env st (os_registration_id st) (da_jid addr) addr s)) = en_queue s
   \<or> (\<exists>el. empty_stanza env addr el
        \<and> en_queue (snd (send_empty env st (os_registration_id st) (da_jid addr) addr s)) = en_queue s @ [el])"
proof (cases "send_empty env st (os_registration_id st) (da_jid addr) addr s")
  case (Pair r t)
  have "en_queue t = en_queue s \<or> (\<exists>enc time n w w' mid.
     omemo_encrypt (ee_session env) (ee_crypto env) st (ee_bare env) (os_registration_id st) [addr] (Some (da_jid addr))
       (str_bytes (envelope_to_xml (ee_xml env) (ee_pad env n)
         (envelope_with_content [] (ee_bare env) (da_jid addr) (Some time)))) w = (Inr enc, w')
     \<and> en_queue t = en_queue s @ [empty_message env (da_jid addr) mid
          (build_encrypted (ee_dom env) (ee_b64 env) enc (os_registration_id st))])"
    using Pair by (fastforce simp: send_empty_def build_empty_omemo2_def act_bind_def act_ret_def act_throw_def
        act_modify_def on_maint_def Let_def map_err_def queue_stanza_def draw_def
        split: prod.split_asm sum.split_asm if_split_asm)
  then show ?thesis unfolding Pair empty_stanza_def snd_conv by metis
qed

lemma sends_empty: "sends_one (empty_reply env addr)
    (if_trusted env addr (send_empty env st (os_registration_id st) (da_jid addr) addr))"
  unfolding sends_one_def
proof (intro allI impI)
  fix s :: "('a, 'b) engine"
  let ?m = "send_empty env st (os_registration_id st) (da_jid addr) addr"
  have run: "if_trusted env addr ?m s
      = (if device_trusted (ee_account env) (w_db (en_world s)) addr then ?m s else (Inr (), s))"
    by (simp add: if_trusted_def act_simps on_maint_def world_act_simps device_trusted_def map_err_def)
  show "en_queue (snd (if_trusted env addr ?m s)) = en_queue s \<or>
      (\<exists>el. empty_reply env addr s el \<and> en_queue (snd (if_trusted env addr ?m s)) = en_queue s @ [el])"
  proof (cases "device_trusted (ee_account env) (w_db (en_world s)) addr")
    case True
    then show ?thesis
      using send_empty_queue[of env st addr s] unfolding run empty_reply_def by auto
  qed (simp add: run)
qed


subsection \<open>An engine to run\<close>

text \<open>
  An account \<open>p@q\<close> whose server answers every query for devices with the one device 4, whose tables
  hold a session with the device 4 of \<open>a@b\<close>, trusted, and the same of an untrusted \<open>c@d\<close>.
\<close>

definition toy_answer :: "nat \<Rightarrow> tree \<Rightarrow> string + tree" where
  "toy_answer n req = (if d_attr tree_dom req ''to'' = Some ''p@q'' then Inl ''offline''
     else Inr (Tree ''iq'' NS_CLIENT [(''type'', ''result'')]
       [Tree ''pubsub'' NS_PUBSUB [] [Tree ''items'' NS_PUBSUB [] [Tree ''item'' NS_PUBSUB []
         [Tree ''devices'' NS_OMEMO2 [] [Tree ''device'' NS_OMEMO2 [(''id'', ''4'')] [] []] []] []] []] []] []))"

definition toy_engine_env :: "(bytes, tree) engine_env" where
  "toy_engine_env = \<lparr>ee_dom = tree_dom, ee_session = toy_session_env, ee_crypto = toy_crypto, ee_b64 = toy_base64,
     ee_xml = toy_sce_reader [] [], ee_chrono = toy_chrono, ee_account = 1, ee_bare = ''p@q'', ee_jid = ''p@q/x'',
     ee_now = (\<lambda>_. 0), ee_instant = (\<lambda>_. 0), ee_pad = (\<lambda>_ _. 0), ee_new_id = show_nat, ee_reply = toy_answer,
     ee_connected = True, ee_new_pq = (\<lambda>_. [6]), ee_new_identity = (\<lambda>_. ([5], [6], 9)),
     ee_identity_de = Inr, ee_pq_de = Inr\<rparr>"

definition toy_engine_db :: omemo_db where
  "toy_engine_db = empty_omemo_db\<lparr>
     t_identities := [((1, ''a@b'', 4), \<lparr>id_key = [3], id_trust = 3, id_seen_at = [], id_active = True\<rparr>),
       ((1, ''c@d'', 4), \<lparr>id_key = [4], id_trust = 0, id_seen_at = [], id_active = True\<rparr>)],
     t_sessions := [((1, ''a@b'', 4), [1]), ((1, ''c@d'', 4), [1])]\<rparr>"

definition toy_engine :: "(bytes, tree) engine" where
  "toy_engine = \<lparr>en_world = \<lparr>w_db = toy_engine_db, w_tick = 0\<rparr>, en_stores = [1 \<mapsto> toy_stores],
     en_failures = (\<lambda>_. None), en_seen = (\<lambda>_. None), en_heals = (\<lambda>_. None), en_reconciled = [],
     en_heartbeats = (\<lambda>_. None), en_secrets = (\<lambda>_. None), en_device_ids = (\<lambda>_. None), en_requests = [],
     en_queue = [], en_events = []\<rparr>"


abbreviation toy_encrypt :: "(bytes, tree) engine \<Rightarrow> (engine_error + tree) \<times> (bytes, tree) engine" where
  "toy_encrypt \<equiv> encrypt_for_recipients toy_engine_env [''a@b''] (Some ''a@b'') (str_bytes ''hi'')"

lemma toy_engine_fields [simp]: "ee_session toy_engine_env = toy_session_env" "ee_account toy_engine_env = 1"
  "ee_bare toy_engine_env = ''p@q''" "ee_dom toy_engine_env = tree_dom" "ee_b64 toy_engine_env = toy_base64"
  "ee_crypto toy_engine_env = toy_crypto" "en_world toy_engine = \<lparr>w_db = toy_engine_db, w_tick = 0\<rparr>"
  by (simp_all add: toy_engine_env_def toy_engine_def)

lemma toy_cache_ok: "cache_ok toy_engine"
  by (simp add: cache_ok_def toy_engine_def toy_stores_def)

lemma toy_wraps: obtains em w' where
  "omemo_encrypt toy_session_env toy_crypto toy_stores ours 9 [\<lparr>da_jid = jid, da_device_id = 4\<rparr>] b x w = (Inr em, w')"
  "w_db w' = w_db w"
  by (simp add: omemo_encrypt_def act_simps world_act_simps Let_def omemo2_seal_def case_prod_beta
      toy_crypto_def wrap_key_def protocol_address_def toy_session_env_def session_env.defs signal_env.defs
      toy_env_def libsignal.defs raw_libsignal_def act_ret_def)

lemma toy_own_stores: "own_stores toy_engine_env toy_engine = (Inr toy_stores, toy_engine)"
  by (simp add: own_stores_def load_or_create_def act_simps toy_engine_def)

lemma toy_offline: obtains s' where "sessions_for toy_engine_env st ''p@q'' dev s = (Inr [], s')"
  "w_db (en_world s') = w_db (en_world s)"
proof -
  have to: "d_attr tree_dom (pep_items tree_dom i (Some ''p@q'') NODE_DEVICES (Some 1)) ''to'' = Some ''p@q''" for i
    by (simp add: pep_items_def pep_iq_def)
  show ?thesis
    using that by (simp add: sessions_for_def fetch_device_list_def iq_request_def attempt_def on_maint_def draw_def
        act_simps Let_def toy_answer_def to or_default_def refresh_device_list_def forget_failures_of_def
        toy_engine_env_def map_err_def List.map_filter_simps split: if_split_asm)
qed

lemma toy_encrypts_message: obtains el s' where "toy_encrypt toy_engine = (Inr el, s')"
  "w_db (en_world s') = toy_engine_db"
proof -
  let ?one = "sessions_for toy_engine_env toy_stores ''a@b'' 9 toy_engine"
  have "fst ?one = Inr [\<lparr>da_jid = ''a@b'', da_device_id = 4\<rparr>] \<and> w_db (en_world (snd ?one)) = toy_engine_db" by code_simp
  then obtain t where t: "?one = (Inr [\<lparr>da_jid = ''a@b'', da_device_id = 4\<rparr>], t)" "w_db (en_world t) = toy_engine_db"
    by (cases ?one) auto
  obtain u where u: "sessions_for toy_engine_env toy_stores ''p@q'' 9 t = (Inr [], u)" "w_db (en_world u) = w_db (en_world t)"
    by (rule toy_offline)
  obtain em w' where enc: "omemo_encrypt toy_session_env toy_crypto toy_stores ''p@q'' 9 [\<lparr>da_jid = ''a@b'', da_device_id = 4\<rparr>]
      (Some ''a@b'') (str_bytes ''hi'') (en_world u) = (Inr em, w')" "w_db w' = w_db (en_world u)"
    by (rule toy_wraps)
  have "os_registration_id toy_stores = 9" "\<not> eq_ignore_ascii_case ''p@q'' ''a@b''" by code_simp+
  then show ?thesis
    using that t u enc by (simp add: encrypt_for_recipients_def act_simps Let_def toy_own_stores on_maint_def map_err_def)
qed


theorem engine_never_decides_trust_witness:
  "\<exists>i0. omemo_identity 1 ''a@b'' 4 (w_db (en_world toy_engine)) = Some i0 \<and> oi_identity_key i0 = [3] \<and> oi_trust i0 = 3"
proof -
  let ?s = "snd (toy_encrypt toy_engine)"
  have "engine_step 1 toy_engine ?s"
    by (rule engine_step.intros(4)) (simp_all add: toy_through_traits)
  then have run: "(engine_step 1)\<^sup>*\<^sup>* toy_engine ?s" by simp
  have "w_db (en_world ?s) = toy_engine_db" by (rule toy_encrypts_message) simp
  moreover have "map_option (\<lambda>i. (oi_identity_key i, oi_trust i)) (omemo_identity 1 ''a@b'' 4 toy_engine_db) = Some ([3], 3)"
    by code_simp
  ultimately have "map_option (\<lambda>i. (oi_identity_key i, oi_trust i)) (omemo_identity 1 ''a@b'' 4 (w_db (en_world ?s))) = Some ([3], 3)"
    by simp
  then obtain i where i: "omemo_identity 1 ''a@b'' 4 (w_db (en_world ?s)) = Some i" "oi_identity_key i = [3]" "oi_trust i = 3"
    by auto
  from engine_never_decides_trust[OF toy_cache_ok run i(1)] i(2,3) show ?thesis by simp
qed


definition toy_sender_env :: "(bytes, tree) engine_env" where
  "toy_sender_env = toy_engine_env\<lparr>ee_bare := ''a@b''\<rparr>"

definition toy_message :: encrypted_message where
  "toy_message = (case fst (omemo_encrypt toy_session_env toy_crypto toy_stores ''a@b'' 9 [\<lparr>da_jid = ''p@q'', da_device_id = 4\<rparr>]
     (Some ''p@q'') (str_bytes ''hi'') (en_world toy_engine)) of Inr em \<Rightarrow> em | Inl _ \<Rightarrow> \<lparr>em_payload = [], em_keys = [], em_commit = []\<rparr>)"

definition toy_reader :: "bytes omemo_stores" where
  "toy_reader = toy_stores\<lparr>os_registration_id := 4\<rparr>"

definition toy_receiver :: "(bytes, tree) engine" where
  "toy_receiver = toy_engine\<lparr>en_stores := [1 \<mapsto> toy_reader]\<rparr>"

theorem encrypted_element_read_witness:
  "\<exists>dec s'. decrypt_message toy_engine_env (build_encrypted tree_dom toy_base64 toy_message 9) ''a@b'' (Some ''p@q'') toy_receiver
      = (Inr dec, s') \<and> dec_envelope dec = ''hi''"
proof -
  let ?run = "omemo_encrypt toy_session_env toy_crypto toy_stores ''a@b'' 9 [\<lparr>da_jid = ''p@q'', da_device_id = 4\<rparr>]
     (Some ''p@q'') (str_bytes ''hi'') (en_world toy_engine)"
  define k where "k = \<lparr>wk_jid = ''p@q'', wk_device_id = 4, wk_data = replicate 32 0, wk_kex = False\<rparr>"
  obtain em w' where run: "?run = (Inr em, w')" by (rule toy_wraps)
  then have sent: "?run = (Inr toy_message, w')" by (simp add: toy_message_def)
  have key: "ss_random_key toy_session_env (w_tick (en_world toy_engine)) = replicate 32 0"
    unfolding toy_engine_fields by code_simp
  have keys: "em_keys toy_message = [k]"
    using sent by (auto simp: k_def omemo_encrypt_def act_simps world_act_simps Let_def omemo2_seal_def case_prod_beta
      toy_crypto_def wrap_key_def protocol_address_def toy_session_env_def session_env.defs signal_env.defs
      toy_env_def libsignal.defs raw_libsignal_def act_ret_def
      dest!: arg_cong[of _ toy_message em_keys])
  have ids: "os_registration_id toy_stores = 9" "os_registration_id toy_reader = 4" by code_simp+
  have own: "own_stores toy_engine_env toy_receiver = (Inr toy_reader, toy_receiver)"
    by (simp add: own_stores_def load_or_create_def act_simps toy_receiver_def)
  have unwrapped: "unwrap_key toy_session_env toy_reader \<lparr>pa_name = ''a@b'', pa_device = 9\<rparr>
      \<lparr>pa_name = ''p@q'', pa_device = 4\<rparr> (wk_data k) (wk_kex k) (en_world toy_receiver)
      = (Inr (ss_random_key toy_session_env (w_tick (en_world toy_engine))), \<lparr>w_db = toy_engine_db, w_tick = 1\<rparr>)"
    unfolding key
    by (simp add: k_def unwrap_key_def act_simps world_act_simps toy_session_env_def session_env.defs signal_env.defs
        act_ret_def toy_receiver_def)
  have addrs: "protocol_address toy_session_env ''a@b'' 9 = Inr \<lparr>pa_name = ''a@b'', pa_device = 9\<rparr>"
    "protocol_address toy_session_env ''p@q'' 4 = Inr \<lparr>pa_name = ''p@q'', pa_device = 4\<rparr>" by code_simp+
  have bare: "to_bare ''p@q'' = ''p@q''" by code_simp
  have "\<exists>dec s'. decrypt_message toy_engine_env (build_encrypted (ee_dom toy_sender_env) (ee_b64 toy_sender_env) toy_message
       (os_registration_id toy_stores)) (ee_bare toy_sender_env) (Some ''p@q'') toy_receiver = (Inr dec, s')
     \<and> dec_envelope dec = ''hi'' \<and> dec_sender_device dec = os_registration_id toy_stores
     \<and> \<not> dec_key_transport dec \<and> dec_was_kex dec = wk_kex k"
    by (rule encrypted_element_read[OF _ _ _ _ _ _ _ _ own, where w = "en_world toy_engine"])
       (use sent keys ids key addrs unwrapped bare toy_gcm_sound toy_b64_sound in
         \<open>simp_all add: toy_sender_env_def k_def\<close>)
  then show ?thesis unfolding ids by (auto simp: toy_sender_env_def)
qed

end
