(* ===== verification/Sdp.thy ===== *)
theory Sdp
  imports Stanza
begin

text \<open>
  The translation between SDP, which the media engine speaks, and Jingle, which the peers speak
  (\<open>crates/mxc-proto/src/xeps/jingle_sdp.rs\<close>): the media sections of an SDP as \<open><content>\<close> elements,
  an SDP rebuilt from such elements, and ICE candidates both ways.  Unicode lower case is an argument
  (\<open>lower\<close>), as is the random id of a candidate.
\<close>

subsection \<open>Rust's lines and words\<close>

definition LF :: char where "LF = CHR 0x0A"
definition CR :: char where "CR = CHR 0x0D"

text \<open>\<open>str::lines\<close>, \<open>str::trim_end\<close>, \<open>str::split_whitespace\<close>\<close>

definition strip_cr :: "string \<Rightarrow> string" where
  "strip_cr l = (if l \<noteq> [] \<and> last l = CR then butlast l else l)"

definition str_lines :: "string \<Rightarrow> string list" where
  "str_lines s = (let ps = split_on LF s in
     map strip_cr (butlast ps) @ (if last ps = [] then [] else [last ps]))"

definition trim_end :: "string \<Rightarrow> string" where
  "trim_end s = concat (drop_ws_end (str_chars s))"

fun ws_words :: "string list \<Rightarrow> string \<Rightarrow> string list" where
  "ws_words [] w = (if w = [] then [] else [w])"
| "ws_words (c # cs) w =
     (if is_whitespace c then (if w = [] then ws_words cs [] else w # ws_words cs [])
      else ws_words cs (w @ c))"

definition split_whitespace :: "string \<Rightarrow> string list" where
  "split_whitespace s = ws_words (str_chars s) []"

subsection \<open>Media sections\<close>

definition NS_JINGLE :: string where "NS_JINGLE = ''urn:xmpp:jingle:1''"
definition NS_RTP :: string where "NS_RTP = ''urn:xmpp:jingle:apps:rtp:1''"
definition NS_ICE :: string where "NS_ICE = ''urn:xmpp:jingle:transports:ice-udp:1''"
definition NS_DTLS :: string where "NS_DTLS = ''urn:xmpp:jingle:apps:dtls:0''"
definition NS_GROUP :: string where "NS_GROUP = ''urn:xmpp:jingle:apps:grouping:0''"
definition NS_RTCP_FB :: string where "NS_RTCP_FB = ''urn:xmpp:jingle:apps:rtp:rtcp-fb:0''"
definition NS_SSMA :: string where "NS_SSMA = ''urn:xmpp:jingle:apps:rtp:ssma:0''"

record media =
  md_kind :: string
  md_mid :: string
  md_ufrag :: string
  md_pwd :: string
  md_fingerprint_hash :: string
  md_fingerprint :: string
  md_setup :: string
  md_rtpmap :: "(string \<times> string) list"
  md_fmtp :: "(string \<times> string) list"
  md_rtcp_fb :: "(string \<times> string) list"
  md_ssrc :: "string option"
  md_cname :: "string option"
  md_candidates :: "string list"

definition media_default :: media where
  "media_default = \<lparr>md_kind = [], md_mid = [], md_ufrag = [], md_pwd = [], md_fingerprint_hash = [],
     md_fingerprint = [], md_setup = [], md_rtpmap = [], md_fmtp = [], md_rtcp_fb = [], md_ssrc = None,
     md_cname = None, md_candidates = []\<rparr>"

definition SP :: char where "SP = CHR 0x20"

definition or_insert :: "'a \<Rightarrow> 'a option \<Rightarrow> 'a option" where
  "or_insert x v = (case v of None \<Rightarrow> Some x | Some y \<Rightarrow> Some y)"

text \<open>One attribute of a section, \<open>a=key:val\<close>.\<close>

definition media_attr :: "string \<Rightarrow> string \<Rightarrow> media \<Rightarrow> media" where
  "media_attr key val m =
     (if key = ''mid'' then m\<lparr>md_mid := val\<rparr>
      else if key = ''ice-ufrag'' then m\<lparr>md_ufrag := val\<rparr>
      else if key = ''ice-pwd'' then m\<lparr>md_pwd := val\<rparr>
      else if key = ''setup'' then m\<lparr>md_setup := val\<rparr>
      else if key = ''fingerprint'' then (case split_once SP val of
          None \<Rightarrow> m | Some (hash, fp) \<Rightarrow> m\<lparr>md_fingerprint_hash := hash, md_fingerprint := fp\<rparr>)
      else if key = ''rtpmap'' then (case split_once SP val of
          None \<Rightarrow> m | Some p \<Rightarrow> m\<lparr>md_rtpmap := md_rtpmap m @ [p]\<rparr>)
      else if key = ''fmtp'' then (case split_once SP val of
          None \<Rightarrow> m | Some p \<Rightarrow> m\<lparr>md_fmtp := md_fmtp m @ [p]\<rparr>)
      else if key = ''rtcp-fb'' then (case split_once SP val of
          None \<Rightarrow> m | Some p \<Rightarrow> m\<lparr>md_rtcp_fb := md_rtcp_fb m @ [p]\<rparr>)
      else if key = ''ssrc'' then (case split_once SP val of
          None \<Rightarrow> m
        | Some (i, rest) \<Rightarrow>
            let m = m\<lparr>md_ssrc := or_insert i (md_ssrc m)\<rparr> in
            (case strip_prefix rest ''cname:'' of
               None \<Rightarrow> m | Some cname \<Rightarrow> m\<lparr>md_cname := or_insert cname (md_cname m)\<rparr>))
      else if key = ''candidate'' then m\<lparr>md_candidates := md_candidates m @ [val]\<rparr>
      else m)"

fun update_last :: "('a \<Rightarrow> 'a) \<Rightarrow> 'a list \<Rightarrow> 'a list" where
  "update_last f [] = []"
| "update_last f [x] = [f x]"
| "update_last f (x # y # xs) = x # update_last f (y # xs)"

definition media_line :: "string \<Rightarrow> media list \<Rightarrow> media list" where
  "media_line line out =
     (let line = trim_end line in
      case strip_prefix line ''m='' of
        Some rest \<Rightarrow> out @ [media_default\<lparr>md_kind := (case split_whitespace rest of [] \<Rightarrow> [] | k # _ \<Rightarrow> k)\<rparr>]
      | None \<Rightarrow>
          (case strip_prefix line ''a='' of
             None \<Rightarrow> out
           | Some attr \<Rightarrow>
               (case split_once (CHR '':'') attr of
                  None \<Rightarrow> update_last (media_attr attr []) out
                | Some (key, val) \<Rightarrow> update_last (media_attr key val) out)))"

definition parse_media :: "string \<Rightarrow> media list" where
  "parse_media sdp = fold media_line (str_lines sdp) []"

subsection \<open>Candidates\<close>

fun attr_pairs :: "'a list \<Rightarrow> ('a \<times> 'a) list" where
  "attr_pairs (k # v # r) = (k, v) # attr_pairs r"
| "attr_pairs _ = []"

definition with_opt_attr :: "('e, 'z) dom_scheme \<Rightarrow> string \<Rightarrow> string option \<Rightarrow> 'e \<Rightarrow> 'e" where
  "with_opt_attr d key v e = (case v of None \<Rightarrow> e | Some x \<Rightarrow> d_with_attr d key x e)"

definition candidate_to_jingle ::
  "('e, 'z) dom_scheme \<Rightarrow> (string \<Rightarrow> string) \<Rightarrow> string \<Rightarrow> string \<Rightarrow> 'e option" where
  "candidate_to_jingle d lower new_id val =
     (case split_whitespace val of
        foundation # component # protocol # priority # ip # port # rest \<Rightarrow>
          (let extra = map_of (rev (attr_pairs rest));
               c = d_bare d ''candidate'' NS_ICE;
               c = d_with_attr d ''foundation'' foundation c;
               c = d_with_attr d ''component'' component c;
               c = d_with_attr d ''protocol'' (lower protocol) c;
               c = d_with_attr d ''priority'' priority c;
               c = d_with_attr d ''ip'' ip c;
               c = d_with_attr d ''port'' port c;
               c = d_with_attr d ''id'' new_id c;
               c = with_opt_attr d ''type'' (extra ''typ'') c;
               c = with_opt_attr d ''rel-addr'' (extra ''raddr'') c;
               c = with_opt_attr d ''rel-port'' (extra ''rport'') c
           in Some (with_opt_attr d ''generation'' (extra ''generation'') c))
      | _ \<Rightarrow> None)"

definition opt_text :: "string \<Rightarrow> string option \<Rightarrow> string" where
  "opt_text pre v = (case v of None \<Rightarrow> [] | Some x \<Rightarrow> pre @ x)"

definition candidate_to_sdp :: "('e, 'z) dom_scheme \<Rightarrow> 'e \<Rightarrow> string option" where
  "candidate_to_sdp d c =
     Option.bind (d_attr d c ''foundation'') (\<lambda>foundation.
     Option.bind (d_attr d c ''component'') (\<lambda>component.
     Option.bind (d_attr d c ''protocol'') (\<lambda>protocol.
     Option.bind (d_attr d c ''priority'') (\<lambda>priority.
     Option.bind (d_attr d c ''ip'') (\<lambda>ip.
     Option.bind (d_attr d c ''port'') (\<lambda>port.
       Some (join_with [SP] [foundation, component, protocol, priority, ip, port]
         @ opt_text '' typ '' (d_attr d c ''type'')
         @ opt_text '' raddr '' (d_attr d c ''rel-addr'')
         @ opt_text '' rport '' (d_attr d c ''rel-port'')
         @ '' generation '' @ (case d_attr d c ''generation'' of None \<Rightarrow> ''0'' | Some g \<Rightarrow> g))))))))"

subsection \<open>From SDP to Jingle\<close>

definition fmtp_element :: "('e, 'z) dom_scheme \<Rightarrow> string \<Rightarrow> 'e option" where
  "fmtp_element d kv = map_option (\<lambda>(k, v).
      d_with_attr d ''value'' v (d_with_attr d ''name'' k (d_bare d ''parameter'' NS_RTP)))
     (split_once (CHR ''='') (str_trim kv))"

definition fb_element :: "('e, 'z) dom_scheme \<Rightarrow> string \<Rightarrow> 'e" where
  "fb_element d fb =
     (let ws = split_whitespace fb;
          el = d_with_attr d ''type'' (case ws of [] \<Rightarrow> [] | ty # _ \<Rightarrow> ty) (d_bare d ''rtcp-fb'' NS_RTCP_FB)
      in (case ws of _ # sub # _ \<Rightarrow> d_with_attr d ''subtype'' sub el | _ \<Rightarrow> el))"

definition payload_element :: "('e, 'z) dom_scheme \<Rightarrow> media \<Rightarrow> string \<times> string \<Rightarrow> 'e" where
  "payload_element d m p = (case p of (i, rtpmap) \<Rightarrow>
     (let parts = split_on (CHR ''/'') rtpmap;
          clockrate = (case parts of _ # c # _ \<Rightarrow> c | _ \<Rightarrow> []);
          pt = d_with_attr d ''name'' (hd parts) (d_with_attr d ''id'' i (d_bare d ''payload-type'' NS_RTP));
          pt = (if clockrate = [] then pt else d_with_attr d ''clockrate'' clockrate pt);
          pt = (case parts of _ # _ # ch # _ \<Rightarrow> d_with_attr d ''channels'' ch pt | _ \<Rightarrow> pt);
          pt = (case map_of (md_fmtp m) i of
                  None \<Rightarrow> pt
                | Some params \<Rightarrow> with_children d (List.map_filter (fmtp_element d) (split_on (CHR '';'') params)) pt)
      in with_children d (map (\<lambda>(_, fb). fb_element d fb) (filter (\<lambda>(fid, _). fid = i) (md_rtcp_fb m))) pt))"

definition source_element :: "('e, 'z) dom_scheme \<Rightarrow> string \<Rightarrow> string \<Rightarrow> 'e" where
  "source_element d ssrc cname =
     d_with_child d (d_with_attr d ''value'' cname (d_with_attr d ''name'' ''cname'' (d_bare d ''parameter'' NS_SSMA)))
       (d_with_attr d ''ssrc'' ssrc (d_bare d ''source'' NS_SSMA))"

definition description_element :: "('e, 'z) dom_scheme \<Rightarrow> media \<Rightarrow> 'e" where
  "description_element d m =
     with_children d
       (map (payload_element d m) (md_rtpmap m) @ [d_bare d ''rtcp-mux'' NS_RTP]
        @ (case (md_ssrc m, md_cname m) of (Some ssrc, Some cname) \<Rightarrow> [source_element d ssrc cname] | _ \<Rightarrow> []))
       (d_with_attr d ''media'' (md_kind m) (d_bare d ''description'' NS_RTP))"

definition fingerprint_element :: "('e, 'z) dom_scheme \<Rightarrow> media \<Rightarrow> 'e" where
  "fingerprint_element d m =
     (let fp = d_with_attr d ''hash'' (md_fingerprint_hash m) (d_bare d ''fingerprint'' NS_DTLS);
          fp = (if md_setup m = [] then fp else d_with_attr d ''setup'' (md_setup m) fp)
      in d_with_text d (md_fingerprint m) fp)"

definition transport_element ::
  "('e, 'z) dom_scheme \<Rightarrow> (string \<Rightarrow> string) \<Rightarrow> (string \<Rightarrow> string) \<Rightarrow> media \<Rightarrow> 'e" where
  "transport_element d lower new_id m =
     with_children d
       ((if md_fingerprint m = [] then [] else [fingerprint_element d m])
        @ List.map_filter (\<lambda>cand. candidate_to_jingle d lower (new_id cand) cand) (md_candidates m))
       (d_with_attr d ''pwd'' (md_pwd m) (d_with_attr d ''ufrag'' (md_ufrag m) (d_bare d ''transport'' NS_ICE)))"

definition media_name :: "media \<Rightarrow> string" where
  "media_name m = (if md_mid m = [] then md_kind m else md_mid m)"

definition media_to_content ::
  "('e, 'z) dom_scheme \<Rightarrow> (string \<Rightarrow> string) \<Rightarrow> (string \<Rightarrow> string) \<Rightarrow> media \<Rightarrow> 'e" where
  "media_to_content d lower new_id m =
     with_children d [description_element d m, transport_element d lower new_id m]
       (d_with_attr d ''senders'' ''both'' (d_with_attr d ''name'' (media_name m)
         (d_with_attr d ''creator'' ''initiator'' (d_bare d ''content'' NS_JINGLE))))"

definition sdp_to_contents ::
  "('e, 'z) dom_scheme \<Rightarrow> (string \<Rightarrow> string) \<Rightarrow> (string \<Rightarrow> string) \<Rightarrow> string \<Rightarrow> 'e list \<times> string list" where
  "sdp_to_contents d lower new_id sdp =
     (let media = parse_media sdp in (map (media_to_content d lower new_id) media, map media_name media))"

subsection \<open>From Jingle to SDP\<close>

definition attr_or :: "('e, 'z) dom_scheme \<Rightarrow> 'e \<Rightarrow> string \<Rightarrow> string \<Rightarrow> string" where
  "attr_or d e key x = (case d_attr d e key of None \<Rightarrow> x | Some v \<Rightarrow> v)"

definition fb_line :: "('e, 'z) dom_scheme \<Rightarrow> string \<Rightarrow> 'e \<Rightarrow> string" where
  "fb_line d i fb = ''a=rtcp-fb:'' @ i @ [SP] @ attr_or d fb ''type'' []
     @ (case d_attr d fb ''subtype'' of None \<Rightarrow> [] | Some sub \<Rightarrow> [SP] @ sub)"

definition payload_params :: "('e, 'z) dom_scheme \<Rightarrow> 'e \<Rightarrow> string list" where
  "payload_params d pt = List.map_filter (\<lambda>p.
      Option.bind (d_attr d p ''name'') (\<lambda>n. map_option (\<lambda>v. n @ ''='' @ v) (d_attr d p ''value'')))
     (named d ''parameter'' pt)"

definition payload_lines :: "('e, 'z) dom_scheme \<Rightarrow> 'e \<Rightarrow> string list" where
  "payload_lines d pt =
     (let i = attr_or d pt ''id'' []; params = payload_params d pt in
      [''a=rtpmap:'' @ i @ [SP] @ attr_or d pt ''name'' [] @ ''/'' @ attr_or d pt ''clockrate'' ''90000''
         @ (case d_attr d pt ''channels'' of None \<Rightarrow> [] | Some ch \<Rightarrow> ''/'' @ ch)]
      @ (if params = [] then [] else [''a=fmtp:'' @ i @ [SP] @ join_with '';'' params])
      @ map (fb_line d i) (named d ''rtcp-fb'' pt))"

definition source_lines :: "('e, 'z) dom_scheme \<Rightarrow> 'e \<Rightarrow> string list" where
  "source_lines d desc =
     (case Option.bind (get_child d desc ''source'' NS_SSMA) (\<lambda>src. map_option (Pair src) (d_attr d src ''ssrc'')) of
        None \<Rightarrow> []
      | Some (src, ssrc) \<Rightarrow>
          let cname = Option.bind (find (\<lambda>p. d_name d p = ''parameter'' \<and> d_attr d p ''name'' = Some ''cname'')
                (d_children d src)) (\<lambda>p. d_attr d p ''value'')
          in [''a=ssrc:'' @ ssrc @ '' cname:'' @ (case cname of None \<Rightarrow> ''mxc'' | Some c \<Rightarrow> c)])"

text \<open>The first transport with credentials; every section carries its credentials.\<close>

definition primary_transport :: "('e, 'z) dom_scheme \<Rightarrow> 'e list \<Rightarrow> 'e option" where
  "primary_transport d contents = find (\<lambda>t. attr_or d t ''ufrag'' [] \<noteq> [])
     (List.map_filter (\<lambda>c. get_child d c ''transport'' NS_ICE) contents)"

definition bundle_lines :: "('e, 'z) dom_scheme \<Rightarrow> 'e option \<Rightarrow> string list" where
  "bundle_lines d primary =
     (let at = (\<lambda>key. case Option.bind primary (\<lambda>t. d_attr d t key) of None \<Rightarrow> [] | Some v \<Rightarrow> v) in
      [''a=ice-ufrag:'' @ at ''ufrag'', ''a=ice-pwd:'' @ at ''pwd'', ''a=ice-options:trickle'']
      @ (case Option.bind primary (\<lambda>t. get_child d t ''fingerprint'' NS_DTLS) of
           None \<Rightarrow> []
         | Some fp \<Rightarrow> [''a=fingerprint:'' @ attr_or d fp ''hash'' ''sha-256'' @ [SP] @ d_text d fp,
                       ''a=setup:'' @ attr_or d fp ''setup'' ''active'']))"

definition content_lines :: "('e, 'z) dom_scheme \<Rightarrow> 'e option \<Rightarrow> 'e \<Rightarrow> string list" where
  "content_lines d primary content =
     (case (get_child d content ''description'' NS_RTP, get_child d content ''transport'' NS_ICE) of
        (Some desc, Some transport) \<Rightarrow>
          (let payloads = named d ''payload-type'' desc in
           [''m='' @ attr_or d desc ''media'' ''audio'' @ '' 9 UDP/TLS/RTP/SAVPF ''
              @ join_with [SP] (List.map_filter (\<lambda>p. d_attr d p ''id'') payloads),
            ''c=IN IP4 0.0.0.0'', ''a=rtcp-mux'']
           @ bundle_lines d primary
           @ [''a=mid:'' @ attr_or d content ''name'' ''0'', ''a=sendrecv'']
           @ concat (map (payload_lines d) payloads)
           @ source_lines d desc
           @ List.map_filter (\<lambda>c. map_option (\<lambda>l. ''a=candidate:'' @ l) (candidate_to_sdp d c))
               (named d ''candidate'' transport))
      | _ \<Rightarrow> [])"

definition crlf :: "string list \<Rightarrow> string" where
  "crlf ls = concat (map (\<lambda>l. l @ [CR, LF]) ls)"

definition contents_to_sdp :: "('e, 'z) dom_scheme \<Rightarrow> 'e list \<Rightarrow> string option" where
  "contents_to_sdp d contents =
     (if contents = [] then None
      else Some (crlf
        ([''v=0'', ''o=- 8770656990916039506 2 IN IP4 127.0.0.1'', ''s=-'', ''t=0 0'',
          ''a=group:BUNDLE '' @ join_with [SP] (map (\<lambda>c. attr_or d c ''name'' ''0'') contents),
          ''a=msid-semantic: WMS'']
         @ concat (map (content_lines d (primary_transport d contents)) contents))))"

end
