(* ===== verification/Sdp_Laws.thy ===== *)
theory Sdp_Laws
  imports Sdp
begin

text \<open>
  What survives the translation: an SDP turned into Jingle contents and back describes the same
  sections, and a candidate the same address.  The texts of both are graphic ASCII tokens.
\<close>

subsection \<open>Tokens and lines\<close>

definition graphic :: "char \<Rightarrow> bool" where
  "graphic c \<longleftrightarrow> 33 \<le> byte_of c \<and> byte_of c < 127"

definition token :: "string \<Rightarrow> bool" where
  "token s \<longleftrightarrow> s \<noteq> [] \<and> list_all graphic s"

definition printable :: "string \<Rightarrow> bool" where
  "printable s \<longleftrightarrow> list_all (\<lambda>c. graphic c \<or> c = SP) s"

text \<open>A line as both sides write it: printable, ending in a graphic character.\<close>

definition plain_line :: "string \<Rightarrow> bool" where
  "plain_line l \<longleftrightarrow> l \<noteq> [] \<and> printable l \<and> graphic (last l)"

lemma byte_of_SP [simp]: "byte_of SP = 32" "byte_of LF = 10" "byte_of CR = 13"
  by (simp_all add: SP_def LF_def CR_def byte_of_def)

lemma not_graphic [simp]: "\<not> graphic SP" "\<not> graphic LF" "\<not> graphic CR" "SP \<noteq> LF" "SP \<noteq> CR" "LF \<noteq> SP" "CR \<noteq> LF" "LF \<noteq> CR"
  by (simp_all add: graphic_def) (simp_all add: SP_def LF_def CR_def)

lemma graphic_ws: "graphic c \<Longrightarrow> \<not> is_whitespace [c]"
  by (auto simp: graphic_def is_whitespace_def bytes_of_str_def in_range_def)

lemma SP_ws [simp]: "is_whitespace [SP]"
  by (simp add: is_whitespace_def bytes_of_str_def)

lemma printable_chars: "printable s \<Longrightarrow> str_chars s = map (\<lambda>c. [c]) s"
  by (rule str_chars_ascii) (auto simp: printable_def is_ascii_def graphic_def list_all_iff)

lemma printable_simps [simp]:
  "printable []" "printable (c # s) \<longleftrightarrow> (graphic c \<or> c = SP) \<and> printable s"
  "printable (s @ t) \<longleftrightarrow> printable s \<and> printable t"
  by (simp_all add: printable_def)

lemma token_printable [simp]: "token s \<Longrightarrow> printable s"
  by (auto simp: token_def printable_def list_all_iff)

lemma token_nonempty: "token s \<Longrightarrow> s \<noteq> []"
  by (simp add: token_def)

lemma token_not_in [simp]: "token s \<Longrightarrow> SP \<notin> set s" "token s \<Longrightarrow> LF \<notin> set s"
  by (auto simp: token_def list_all_iff)

lemma token_last: "token s \<Longrightarrow> graphic (last s)"
  by (auto simp: token_def list_all_iff)

lemma plain_line_end: "plain_line l \<Longrightarrow> trim_end l = l"
proof -
  assume a: "plain_line l"
  then obtain k c where l: "l = k @ [c]" "graphic c"
    unfolding plain_line_def by (cases l rule: rev_cases) auto
  with a have "str_chars l = map (\<lambda>c. [c]) l" by (intro printable_chars) (simp add: plain_line_def)
  then show ?thesis using l graphic_ws by (simp add: trim_end_def drop_ws_end_def)
qed

lemma plain_line_no_lf: "plain_line l \<Longrightarrow> LF \<notin> set l"
  by (auto simp: plain_line_def printable_def list_all_iff)

lemma split_crlf: "list_all plain_line ls \<Longrightarrow> split_on LF (crlf ls) = map (\<lambda>l. l @ [CR]) ls @ [[]]"
proof (induction ls)
  case (Cons l ls)
  have "LF \<notin> set (l @ [CR])" using Cons.prems plain_line_no_lf[of l] by simp
  from split_on_piece[OF this, of "crlf ls"] Cons show ?case by (simp add: crlf_def)
qed (simp add: crlf_def)

lemma lines_crlf: "list_all plain_line ls \<Longrightarrow> str_lines (crlf ls) = ls"
  by (induction ls) (simp_all add: str_lines_def split_crlf strip_cr_def comp_def)

text \<open>Words.\<close>

lemma ws_words_token: "token s \<Longrightarrow> ws_words (map (\<lambda>c. [c]) s @ cs) w = ws_words cs (w @ s)"
proof -
  have "list_all graphic s \<Longrightarrow> ws_words (map (\<lambda>c. [c]) s @ cs) w = ws_words cs (w @ s)"
    by (induction s arbitrary: w) (simp_all add: graphic_ws)
  then show "token s \<Longrightarrow> ?thesis" by (simp add: token_def)
qed

lemma words_cons: "token s \<Longrightarrow> printable r \<Longrightarrow> split_whitespace (s @ SP # r) = s # split_whitespace r"
proof -
  assume a: "token s" "printable r"
  have "str_chars (s @ SP # r) = map (\<lambda>c. [c]) s @ [SP] # map (\<lambda>c. [c]) r"
    using a printable_chars[of "s @ SP # r"] by simp
  then show ?thesis
    using a ws_words_token[OF a(1)] token_nonempty[OF a(1)] by (simp add: split_whitespace_def printable_chars)
qed

lemma words_token: "token s \<Longrightarrow> split_whitespace s = [s]"
  using ws_words_token[of s "[]" "[]"] by (simp add: split_whitespace_def printable_chars token_nonempty)

lemma words_join: "list_all token ws \<Longrightarrow> split_whitespace (join_with [SP] ws) = ws"
proof -
  have "list_all token ws \<Longrightarrow> printable (join_with [SP] ws)" for ws
    by (induction "[SP]" ws rule: join_with.induct) auto
  then show "list_all token ws \<Longrightarrow> ?thesis"
    by (induction "[SP]" ws rule: join_with.induct)
       (auto simp: words_token words_cons split_whitespace_def[of "[]"])
qed

lemma words_tokens: "printable s \<Longrightarrow> list_all token (split_whitespace s)"
proof -
  have "list_all (\<lambda>c. graphic c \<or> c = SP) s \<Longrightarrow> list_all graphic w \<Longrightarrow>
      list_all token (ws_words (map (\<lambda>c. [c]) s) w)" for w
    by (induction s arbitrary: w) (auto simp: token_def)
  then show "printable s \<Longrightarrow> ?thesis" by (simp add: split_whitespace_def printable_chars) (simp add: printable_def)
qed

subsection \<open>Candidates\<close>

definition candidate_line :: "string \<Rightarrow> string \<Rightarrow> string \<Rightarrow> string \<Rightarrow> string \<Rightarrow> string \<Rightarrow> string option \<Rightarrow> string option \<Rightarrow>
    string option \<Rightarrow> string \<Rightarrow> string" where
  "candidate_line foundation component protocol priority ip port typ raddr rport generation =
     join_with [SP] [foundation, component, protocol, priority, ip, port]
     @ opt_text '' typ '' typ @ opt_text '' raddr '' raddr @ opt_text '' rport '' rport
     @ '' generation '' @ generation"

text \<open>What an SDP candidate is after Jingle: six fields, then the four properties Jingle has names for.\<close>

definition norm_candidate :: "(string \<Rightarrow> string) \<Rightarrow> string \<Rightarrow> string option" where
  "norm_candidate lower val =
     (case split_whitespace val of
        foundation # component # protocol # priority # ip # port # rest \<Rightarrow>
          (let extra = map_of (rev (attr_pairs rest)) in
           Some (candidate_line foundation component (lower protocol) priority ip port
             (extra ''typ'') (extra ''raddr'') (extra ''rport'')
             (case extra ''generation'' of None \<Rightarrow> ''0'' | Some g \<Rightarrow> g)))
      | _ \<Rightarrow> None)"

lemma with_opt_attr_parts [simp]:
  assumes "dom_sound d"
  shows "d_name d (with_opt_attr d k v e) = d_name d e" "d_ns d (with_opt_attr d k v e) = d_ns d e"
    "d_children d (with_opt_attr d k v e) = d_children d e"
    "d_attr d (with_opt_attr d k v e) l = (if l = k \<and> v \<noteq> None then v else d_attr d e l)"
  using assms by (auto simp: with_opt_attr_def split: option.split)

lemma candidate_there_and_back:
  assumes "dom_sound d"
  shows "Option.bind (candidate_to_jingle d lower new_id val) (candidate_to_sdp d) = norm_candidate lower val"
    and "candidate_to_jingle d lower new_id val = Some c \<Longrightarrow> d_name d c = ''candidate''"
  using assms
  by (auto simp: candidate_to_jingle_def norm_candidate_def candidate_to_sdp_def candidate_line_def Let_def
      split: list.split_asm list.split option.split)

lemma attr_pairs_values: "(k, v) \<in> set (attr_pairs xs) \<Longrightarrow> v \<in> set xs"
  by (induction xs rule: attr_pairs.induct) auto

text \<open>On character literals.\<close>

lemma graphic_iff: "graphic c \<longleftrightarrow> 33 \<le> (of_char c :: nat) \<and> (of_char c :: nat) < 127"
  by (simp add: graphic_def byte_of_def)

lemma plain_candidate_line:
  assumes "list_all token [f, c, pr, prio, ip, port, g]" and "\<And>x. typ = Some x \<Longrightarrow> token x"
    and "\<And>x. ra = Some x \<Longrightarrow> token x" and "\<And>x. rp = Some x \<Longrightarrow> token x"
  shows "plain_line (candidate_line f c pr prio ip port typ ra rp g)"
proof -
  have opt: "printable (opt_text '' typ '' typ)" "printable (opt_text '' raddr '' ra)" "printable (opt_text '' rport '' rp)"
    using assms(2-4) by (auto simp: opt_text_def graphic_iff SP_def split: option.split)
  have "last (candidate_line f c pr prio ip port typ ra rp g) = last g"
    using assms(1) by (simp add: candidate_line_def token_nonempty)
  with opt assms(1) show ?thesis
    by (simp add: plain_line_def token_last) (simp add: candidate_line_def graphic_iff SP_def)
qed

lemma lower_token:
  assumes "\<And>s. list_all is_ascii s \<Longrightarrow> lower s = to_ascii_lowercase s" and "token s"
  shows "token (lower s)"
proof -
  have "list_all is_ascii s" using assms(2) by (auto simp: token_def list_all_iff is_ascii_def graphic_def)
  moreover have "graphic c \<Longrightarrow> graphic (ascii_lower c)" for c
    by (auto simp: graphic_def ascii_lower_def in_range_def byte_of_char_of)
  ultimately show ?thesis using assms by (auto simp: token_def to_ascii_lowercase_def list_all_iff)
qed

lemma norm_candidate_plain:
  assumes lower: "\<And>s. list_all is_ascii s \<Longrightarrow> lower s = to_ascii_lowercase s"
    and "printable val" and "norm_candidate lower val = Some l"
  shows "plain_line l"
proof -
  obtain f c pr prio ip port rest where w: "split_whitespace val = f # c # pr # prio # ip # port # rest"
    using assms(3) by (auto simp: norm_candidate_def split: list.split_asm)
  have toks: "list_all token (f # c # pr # prio # ip # port # rest)" using words_tokens[OF assms(2)] w by simp
  have extra: "token x" if "map_of (rev (attr_pairs rest)) k = Some x" for k x
    using that toks attr_pairs_values[of k x rest] by (auto dest: map_of_SomeD simp: list_all_iff)
  have "token (case map_of (rev (attr_pairs rest)) ''generation'' of None \<Rightarrow> ''0'' | Some g \<Rightarrow> g)"
    using extra by (auto simp: token_def graphic_iff split: option.split)
  then show ?thesis
    using assms(3) w toks extra lower_token[OF lower] by (auto simp: norm_candidate_def Let_def intro!: plain_candidate_line)
qed

text \<open>
  ICE candidates survive: a candidate in the form both sides write, six fields and the properties
  type, related address, related port and generation, is a Jingle candidate that is written back as
  the same line; the protocol name in lower case.
\<close>

theorem candidate_roundtrip:
  assumes "dom_sound d"
    and "list_all token [foundation, component, protocol, priority, ip, port, generation]"
    and "\<forall>x. typ = Some x \<longrightarrow> token x" and "\<forall>x. raddr = Some x \<longrightarrow> token x" and "\<forall>x. rport = Some x \<longrightarrow> token x"
  shows "\<exists>c. candidate_to_jingle d lower new_id
        (candidate_line foundation component protocol priority ip port typ raddr rport generation) = Some c
    \<and> candidate_to_sdp d c
        = Some (candidate_line foundation component (lower protocol) priority ip port typ raddr rport generation)
    \<and> d_attr d c ''ip'' = Some ip \<and> d_attr d c ''port'' = Some port \<and> d_attr d c ''rel-addr'' = raddr"
proof -
  let ?opt = "\<lambda>k v. case v of None \<Rightarrow> [] | Some x \<Rightarrow> [k, x]"
  let ?words = "[foundation, component, protocol, priority, ip, port] @ ?opt ''typ'' typ @ ?opt ''raddr'' raddr
      @ ?opt ''rport'' rport @ [''generation'', generation]"
  have "list_all token ?words"
    using assms(2-5) by (auto simp: token_def graphic_iff split: option.split)
  moreover have "candidate_line foundation component protocol priority ip port typ raddr rport generation = join_with [SP] ?words"
    by (cases "typ"; cases raddr; cases rport) (simp_all add: candidate_line_def opt_text_def SP_def)
  ultimately have words: "split_whitespace
      (candidate_line foundation component protocol priority ip port typ raddr rport generation) = ?words"
    by (simp only: words_join)
  show ?thesis
    unfolding candidate_to_jingle_def words
    using assms(1) by (cases "typ"; cases raddr; cases rport) (simp_all add: candidate_to_sdp_def candidate_line_def)
qed

subsection \<open>Sections\<close>

definition codec_ok :: "string \<Rightarrow> bool" where
  "codec_ok v \<longleftrightarrow> token v \<and> (case split_on (CHR ''/'') v of
     [n, c] \<Rightarrow> c \<noteq> [] | [n, c, ch] \<Rightarrow> c \<noteq> [] | _ \<Rightarrow> False)"

definition params_ok :: "string \<Rightarrow> bool" where
  "params_ok v \<longleftrightarrow> token v \<and> list_all (\<lambda>kv. CHR ''='' \<in> set kv) (split_on (CHR '';'') v)"

definition fb_ok :: "string \<Rightarrow> bool" where
  "fb_ok v \<longleftrightarrow> (case split_whitespace v of
     [ty] \<Rightarrow> token ty \<and> v = ty | [ty, sub] \<Rightarrow> token ty \<and> token sub \<and> v = ty @ [SP] @ sub | _ \<Rightarrow> False)"

text \<open>A section as media engines write it: its fields are tokens, none is missing.\<close>

definition media_ok :: "media \<Rightarrow> bool" where
  "media_ok m \<longleftrightarrow> list_all token [md_kind m, md_mid m, md_ufrag m, md_pwd m, md_fingerprint_hash m,
       md_fingerprint m, md_setup m]
     \<and> md_rtpmap m \<noteq> [] \<and> list_all (\<lambda>(i, v). token i \<and> codec_ok v) (md_rtpmap m)
     \<and> list_all (\<lambda>(i, v). token i \<and> params_ok v) (md_fmtp m)
     \<and> list_all (\<lambda>(i, v). token i \<and> fb_ok v) (md_rtcp_fb m)
     \<and> list_all token (List.map_filter id [md_ssrc m, md_cname m])
     \<and> list_all printable (md_candidates m)"

text \<open>
  The section the other side reads: the credentials of the first section, parameters and feedback in
  the order of the codecs, a source only with its name, candidates as Jingle has them.
\<close>

definition section_back :: "(string \<Rightarrow> string) \<Rightarrow> media \<Rightarrow> media \<Rightarrow> media" where
  "section_back lower first m = m\<lparr>
     md_ufrag := md_ufrag first, md_pwd := md_pwd first, md_fingerprint_hash := md_fingerprint_hash first,
     md_fingerprint := md_fingerprint first, md_setup := md_setup first,
     md_fmtp := List.map_filter (\<lambda>(i, _). map_option (Pair i) (map_of (md_fmtp m) i)) (md_rtpmap m),
     md_rtcp_fb := concat (map (\<lambda>(i, _). filter (\<lambda>(fid, _). fid = i) (md_rtcp_fb m)) (md_rtpmap m)),
     md_ssrc := Option.bind (md_cname m) (\<lambda>_. md_ssrc m), md_cname := Option.bind (md_ssrc m) (\<lambda>_. md_cname m),
     md_candidates := List.map_filter (norm_candidate lower) (md_candidates m)\<rparr>"

definition attr_line :: "string \<Rightarrow> media \<Rightarrow> media" where
  "attr_line line m =
     (case strip_prefix line ''a='' of
        None \<Rightarrow> m
      | Some attr \<Rightarrow> (case split_once (CHR '':'') attr of
            None \<Rightarrow> media_attr attr [] m | Some (key, val) \<Rightarrow> media_attr key val m))"

lemma update_last_snoc [simp]: "update_last f (xs @ [x]) = xs @ [f x]"
  by (induction f xs rule: update_last.induct) auto

lemma fold_attr_lines:
  "list_all (\<lambda>l. plain_line l \<and> \<not> starts_with l ''m='') ls \<Longrightarrow>
     fold media_line ls (out @ [m]) = out @ [fold attr_line ls m]"
proof (induction ls arbitrary: m)
  case (Cons l ls)
  then have "media_line l (out @ [m]) = out @ [attr_line l m]"
    by (auto simp: media_line_def attr_line_def plain_line_end strip_prefix_def split: option.split)
  with Cons show ?case by simp
qed simp

lemma attr_line_eval:
  assumes "SP \<notin> set i"
  shows "attr_line (''a=rtpmap:'' @ i @ SP # v) m = m\<lparr>md_rtpmap := md_rtpmap m @ [(i, v)]\<rparr>"
    "attr_line (''a=fmtp:'' @ i @ SP # v) m = m\<lparr>md_fmtp := md_fmtp m @ [(i, v)]\<rparr>"
    "attr_line (''a=rtcp-fb:'' @ i @ SP # v) m = m\<lparr>md_rtcp_fb := md_rtcp_fb m @ [(i, v)]\<rparr>"
    "attr_line (''a=fingerprint:'' @ i @ SP # v) m = m\<lparr>md_fingerprint_hash := i, md_fingerprint := v\<rparr>"
    "attr_line (''a=ssrc:'' @ i @ '' cname:'' @ v) m
       = m\<lparr>md_ssrc := or_insert i (md_ssrc m), md_cname := or_insert v (md_cname m)\<rparr>"
    "attr_line (''a=candidate:'' @ v) m = m\<lparr>md_candidates := md_candidates m @ [v]\<rparr>"
    "attr_line (''a=mid:'' @ v) m = m\<lparr>md_mid := v\<rparr>" "attr_line (''a=setup:'' @ v) m = m\<lparr>md_setup := v\<rparr>"
    "attr_line (''a=ice-ufrag:'' @ v) m = m\<lparr>md_ufrag := v\<rparr>" "attr_line (''a=ice-pwd:'' @ v) m = m\<lparr>md_pwd := v\<rparr>"
    "attr_line ''a=ice-options:trickle'' m = m" "attr_line ''a=sendrecv'' m = m" "attr_line ''a=rtcp-mux'' m = m"
    "attr_line ''c=IN IP4 0.0.0.0'' m = m"
proof -
  have "split_once SP (i @ SP # v) = Some (i, v)" "split_once SP (i @ CHR '' '' # v) = Some (i, v)" for v
    using split_once_append[OF assms] by (simp_all add: SP_def)
  then show "attr_line (''a=rtpmap:'' @ i @ SP # v) m = m\<lparr>md_rtpmap := md_rtpmap m @ [(i, v)]\<rparr>"
    "attr_line (''a=fmtp:'' @ i @ SP # v) m = m\<lparr>md_fmtp := md_fmtp m @ [(i, v)]\<rparr>"
    "attr_line (''a=rtcp-fb:'' @ i @ SP # v) m = m\<lparr>md_rtcp_fb := md_rtcp_fb m @ [(i, v)]\<rparr>"
    "attr_line (''a=fingerprint:'' @ i @ SP # v) m = m\<lparr>md_fingerprint_hash := i, md_fingerprint := v\<rparr>"
    "attr_line (''a=ssrc:'' @ i @ '' cname:'' @ v) m
       = m\<lparr>md_ssrc := or_insert i (md_ssrc m), md_cname := or_insert v (md_cname m)\<rparr>"
    by (simp_all add: attr_line_def strip_prefix_def media_attr_def)
qed (simp_all add: attr_line_def strip_prefix_def media_attr_def)

subsection \<open>The lines of a section\<close>

lemma named_map [simp]:
  assumes "dom_sound d"
  shows "named d n (with_children d els e) = filter (\<lambda>c. d_name d c = n) (d_children d e @ els)"
  using assms by (simp add: named_def)

lemma fmtp_elements:
  assumes "dom_sound d" and "token ps" and "list_all (\<lambda>kv. CHR ''='' \<in> set kv) kvs" and "list_all token kvs"
  shows "List.map_filter (\<lambda>p. Option.bind (d_attr d p ''name'') (\<lambda>n. map_option (\<lambda>v. n @ ''='' @ v) (d_attr d p ''value'')))
      (List.map_filter (fmtp_element d) kvs) = kvs"
    and "filter (\<lambda>c. d_name d c = n) (List.map_filter (fmtp_element d) kvs)
      = (if n = ''parameter'' then List.map_filter (fmtp_element d) kvs else [])"
proof -
  have trim: "str_trim kv = kv" if "token kv" for kv
  proof (rule str_trim_id)
    have "str_chars kv = map (\<lambda>c. [c]) kv" using that by (simp add: printable_chars)
    with that show "\<not> is_whitespace (hd (str_chars kv))" "\<not> is_whitespace (last (str_chars kv))"
      by (auto simp: token_def list_all_iff hd_map last_map graphic_ws)
  qed (use that in \<open>simp add: token_nonempty\<close>)
  have el: "\<exists>k v. fmtp_element d kv = Some (d_with_attr d ''value'' v (d_with_attr d ''name'' k (d_bare d ''parameter'' NS_RTP)))
      \<and> kv = k @ ''='' @ v" if "CHR ''='' \<in> set kv" "token kv" for kv
    using that trim[of kv] split_once_None[of "CHR ''=''" kv] split_once_SomeD[of "CHR ''=''" kv]
    by (cases "split_once (CHR ''='') kv") (auto simp: fmtp_element_def)
  show "List.map_filter (\<lambda>p. Option.bind (d_attr d p ''name'') (\<lambda>n. map_option (\<lambda>v. n @ ''='' @ v) (d_attr d p ''value'')))
      (List.map_filter (fmtp_element d) kvs) = kvs"
    using assms(3,4)
  proof (induction kvs)
    case (Cons kv kvs)
    then obtain k v where "fmtp_element d kv = Some (d_with_attr d ''value'' v (d_with_attr d ''name'' k (d_bare d ''parameter'' NS_RTP)))"
      "kv = k @ ''='' @ v" using el[of kv] by auto
    with Cons assms(1) show ?case by (simp add: List.map_filter_simps)
  qed (simp add: List.map_filter_simps)
  show "filter (\<lambda>c. d_name d c = n) (List.map_filter (fmtp_element d) kvs)
      = (if n = ''parameter'' then List.map_filter (fmtp_element d) kvs else [])"
    using assms(1) by (induction kvs) (auto simp: List.map_filter_simps fmtp_element_def split: option.split)
qed

lemma fb_element_parts:
  assumes "dom_sound d" and "fb_ok fb"
  shows "d_name d (fb_element d fb) = ''rtcp-fb''" "fb_line d i (fb_element d fb) = ''a=rtcp-fb:'' @ i @ [SP] @ fb"
  using assms by (auto simp: fb_element_def fb_line_def fb_ok_def attr_or_def Let_def split: list.split_asm)

lemma fb_elements:
  assumes "dom_sound d" and "list_all (\<lambda>(i, v). token i \<and> fb_ok v) fbs"
  shows "filter (\<lambda>c. d_name d c = n) (map (\<lambda>(_, fb). fb_element d fb) fbs)
      = (if n = ''rtcp-fb'' then map (\<lambda>(_, fb). fb_element d fb) fbs else [])"
    and "map (fb_line d i) (map (\<lambda>(_, fb). fb_element d fb) fbs) = map (\<lambda>(_, fb). ''a=rtcp-fb:'' @ i @ [SP] @ fb) fbs"
  using assms by (induction fbs) (auto simp: fb_element_parts)

lemma join_split: "join_with [c] (split_on c s) = s"
proof (induction s)
  case (Cons x s)
  obtain p ps where split: "split_on c s = p # ps" using split_on_nonempty[of c s] by (cases "split_on c s") auto
  have "join_with [c] ((x # p) # ps) = x # join_with [c] (p # ps)" by (cases ps) simp_all
  with Cons split show ?case by simp
qed simp

lemma codec_text:
  assumes "codec_ok v"
  shows "hd (split_on (CHR ''/'') v) @ ''/'' @ (case split_on (CHR ''/'') v of _ # c # _ \<Rightarrow> c | _ \<Rightarrow> [])
      @ (case split_on (CHR ''/'') v of _ # _ # ch # _ \<Rightarrow> ''/'' @ ch | _ \<Rightarrow> []) = v"
    "(case split_on (CHR ''/'') v of _ # c # _ \<Rightarrow> c | _ \<Rightarrow> []) \<noteq> []"
  using assms join_split[of "CHR ''/''" v] by (auto simp: codec_ok_def split: list.split_asm)

lemma split_tokens:
  assumes "token v" and "x \<in> set (split_on c v)" and "x \<noteq> []"
  shows "token x"
proof -
  have "y \<in> set (split_on c v) \<Longrightarrow> set y \<subseteq> set v" for y v
    by (induction v arbitrary: y) (fastforce split: list.split_asm if_split_asm)+
  from this[OF assms(2)] assms(1,3) show ?thesis by (auto simp: token_def list_all_iff)
qed

lemma payload_lines_built:
  assumes d: "dom_sound d" and v: "codec_ok v"
    and fmtp: "list_all (\<lambda>(i, v). token i \<and> params_ok v) (md_fmtp m)"
    and fb: "list_all (\<lambda>(i, v). token i \<and> fb_ok v) (md_rtcp_fb m)"
  shows "payload_lines d (payload_element d m (i, v)) =
      [''a=rtpmap:'' @ i @ SP # v]
      @ (case map_of (md_fmtp m) i of None \<Rightarrow> [] | Some ps \<Rightarrow> [''a=fmtp:'' @ i @ SP # ps])
      @ map (\<lambda>(_, fb). ''a=rtcp-fb:'' @ i @ SP # fb) (filter (\<lambda>(fid, _). fid = i) (md_rtcp_fb m))"
    and "d_name d (payload_element d m (i, v)) = ''payload-type''" "d_attr d (payload_element d m (i, v)) ''id'' = Some i"
proof -
  let ?fbs = "filter (\<lambda>(fid, _). fid = i) (md_rtcp_fb m)" and ?pt = "payload_element d m (i, v)"
  let ?ps = "case map_of (md_fmtp m) i of None \<Rightarrow> [] | Some ps \<Rightarrow> List.map_filter (fmtp_element d) (split_on (CHR '';'') ps)"
  have fbs: "list_all (\<lambda>(i, v). token i \<and> fb_ok v) ?fbs" using fb by (auto simp: list_all_iff)
  have kvs: "list_all (\<lambda>kv. CHR ''='' \<in> set kv) (split_on (CHR '';'') ps)" "list_all token (split_on (CHR '';'') ps)"
      "token ps" if "map_of (md_fmtp m) i = Some ps" for ps
  proof -
    have ok: "token ps" "list_all (\<lambda>kv. CHR ''='' \<in> set kv) (split_on (CHR '';'') ps)"
      using map_of_SomeD[OF that] fmtp by (auto simp: list_all_iff params_ok_def)
    then show "list_all (\<lambda>kv. CHR ''='' \<in> set kv) (split_on (CHR '';'') ps)" "token ps" by auto
    show "list_all token (split_on (CHR '';'') ps)"
      using ok split_tokens[OF ok(1)] by (fastforce simp: list_all_iff)
  qed
  have parts: "d_children d ?pt = ?ps @ map (\<lambda>(_, fb). fb_element d fb) ?fbs" "d_attr d ?pt ''id'' = Some i"
    "d_name d ?pt = ''payload-type''" "attr_or d ?pt ''name'' [] = hd (split_on (CHR ''/'') v)"
    "attr_or d ?pt ''clockrate'' ''90000'' = (case split_on (CHR ''/'') v of _ # c # _ \<Rightarrow> c | _ \<Rightarrow> [])"
    "d_attr d ?pt ''channels'' = (case split_on (CHR ''/'') v of _ # _ # ch # _ \<Rightarrow> Some ch | _ \<Rightarrow> None)"
    using d codec_text(2)[OF v]
    by (auto simp: payload_element_def Let_def attr_or_def split: option.split list.split)
  then show "d_name d ?pt = ''payload-type''" "d_attr d ?pt ''id'' = Some i" by simp_all
  have params: "payload_params d ?pt = (case map_of (md_fmtp m) i of None \<Rightarrow> [] | Some ps \<Rightarrow> split_on (CHR '';'') ps)"
    using fmtp_elements[OF d _ kvs(1,2)] kvs(3) fb_elements(1)[OF d fbs]
    by (auto simp: payload_params_def named_def parts(1) List.map_filter_simps split: option.split)
  have "named d ''rtcp-fb'' ?pt = map (\<lambda>(_, fb). fb_element d fb) ?fbs"
    using fmtp_elements(2)[OF d _ kvs(1,2)] kvs(3) fb_elements(1)[OF d fbs]
    by (auto simp: named_def parts(1) split: option.split)
  then show "payload_lines d ?pt = [''a=rtpmap:'' @ i @ SP # v]
      @ (case map_of (md_fmtp m) i of None \<Rightarrow> [] | Some ps \<Rightarrow> [''a=fmtp:'' @ i @ SP # ps])
      @ map (\<lambda>(_, fb). ''a=rtcp-fb:'' @ i @ SP # fb) ?fbs"
    using codec_text(1)[OF v] fb_elements(2)[OF d fbs, of i] params join_split
    by (auto simp: payload_lines_def Let_def attr_or_def[of d ?pt "''id''"] parts split_on_nonempty
        split: option.split list.split)
qed

text \<open>Reading the lines of the codecs back.\<close>

lemma payload_lines_read:
  assumes "dom_sound d" and "list_all (\<lambda>(i, v). token i \<and> codec_ok v) ps"
    and "list_all (\<lambda>(i, v). token i \<and> params_ok v) (md_fmtp m)"
    and "list_all (\<lambda>(i, v). token i \<and> fb_ok v) (md_rtcp_fb m)"
  shows "fold attr_line (concat (map (payload_lines d) (map (payload_element d m) ps))) x = x\<lparr>
      md_rtpmap := md_rtpmap x @ ps,
      md_fmtp := md_fmtp x @ List.map_filter (\<lambda>(i, _). map_option (Pair i) (map_of (md_fmtp m) i)) ps,
      md_rtcp_fb := md_rtcp_fb x @ concat (map (\<lambda>(i, _). filter (\<lambda>(fid, _). fid = i) (md_rtcp_fb m)) ps)\<rparr>"
  using assms(2)
proof (induction ps arbitrary: x)
  case (Cons p ps)
  obtain i v where p: "p = (i, v)" "token i" "codec_ok v" using Cons.prems by (cases p) auto
  have sp: "SP \<notin> set i" using p(2) by simp
  have fbs: "fold attr_line (map (\<lambda>(_, fb). ''a=rtcp-fb:'' @ i @ SP # fb) (filter (\<lambda>(fid, _). fid = i) fs)) y
      = y\<lparr>md_rtcp_fb := md_rtcp_fb y @ filter (\<lambda>(fid, _). fid = i) fs\<rparr>" for fs y
    using attr_line_eval(3)[OF sp] by (induction fs arbitrary: y) (auto simp del: append.simps)
  have "fold attr_line (payload_lines d (payload_element d m p)) x = x\<lparr>
      md_rtpmap := md_rtpmap x @ [p],
      md_fmtp := md_fmtp x @ (case map_of (md_fmtp m) i of None \<Rightarrow> [] | Some w \<Rightarrow> [(i, w)]),
      md_rtcp_fb := md_rtcp_fb x @ filter (\<lambda>(fid, _). fid = i) (md_rtcp_fb m)\<rparr>"
    unfolding p(1) payload_lines_built(1)[OF assms(1) p(3) assms(3,4)] fold_append comp_apply fbs
    by (simp del: append.simps(2) add: append.simps(1) attr_line_eval[OF sp] split: option.split)
  then show ?case
    using Cons by (simp add: p(1) List.map_filter_simps split: option.split)
qed (simp add: List.map_filter_simps)

subsection \<open>A whole description\<close>

lemma content_parts:
  assumes "dom_sound d"
  shows "get_child d (media_to_content d lower new_id m) ''description'' NS_RTP = Some (description_element d m)"
    "get_child d (media_to_content d lower new_id m) ''transport'' NS_ICE = Some (transport_element d lower new_id m)"
    "d_attr d (media_to_content d lower new_id m) ''name'' = Some (media_name m)"
    "d_attr d (description_element d m) ''media'' = Some (md_kind m)"
    "d_attr d (transport_element d lower new_id m) ''ufrag'' = Some (md_ufrag m)"
    "d_attr d (transport_element d lower new_id m) ''pwd'' = Some (md_pwd m)"
  using assms
  by (simp_all add: media_to_content_def get_child_def d_is_def description_element_def transport_element_def)

lemma fingerprint_parts:
  assumes "dom_sound d" and "media_ok m"
  shows "get_child d (transport_element d lower new_id m) ''fingerprint'' NS_DTLS = Some (fingerprint_element d m)"
    "d_attr d (fingerprint_element d m) ''hash'' = Some (md_fingerprint_hash m)"
    "d_attr d (fingerprint_element d m) ''setup'' = Some (md_setup m)"
    "d_text d (fingerprint_element d m) = md_fingerprint m"
  using assms by (auto simp: transport_element_def get_child_def d_is_def fingerprint_element_def Let_def
      media_ok_def token_nonempty)

lemma candidate_children:
  assumes "dom_sound d"
  shows "named d ''candidate'' (transport_element d lower new_id m)
      = List.map_filter (\<lambda>c. candidate_to_jingle d lower (new_id c) c) (md_candidates m)"
    and "List.map_filter (\<lambda>c. map_option (\<lambda>l. ''a=candidate:'' @ l) (candidate_to_sdp d c))
        (List.map_filter (\<lambda>c. candidate_to_jingle d lower (new_id c) c) cs)
      = map ((@) ''a=candidate:'') (List.map_filter (norm_candidate lower) cs)"
proof -
  have "filter (\<lambda>c. d_name d c = ''candidate'') (List.map_filter (\<lambda>c. candidate_to_jingle d lower (new_id c) c) cs)
      = List.map_filter (\<lambda>c. candidate_to_jingle d lower (new_id c) c) cs" for cs
    using candidate_there_and_back(2)[OF assms] by (induction cs) (auto simp: List.map_filter_simps split: option.split)
  with assms show "named d ''candidate'' (transport_element d lower new_id m)
      = List.map_filter (\<lambda>c. candidate_to_jingle d lower (new_id c) c) (md_candidates m)"
    by (simp add: transport_element_def fingerprint_element_def Let_def)
  show "List.map_filter (\<lambda>c. map_option (\<lambda>l. ''a=candidate:'' @ l) (candidate_to_sdp d c))
        (List.map_filter (\<lambda>c. candidate_to_jingle d lower (new_id c) c) cs)
      = map ((@) ''a=candidate:'') (List.map_filter (norm_candidate lower) cs)"
  proof (induction cs)
    case (Cons c cs)
    have "norm_candidate lower c = Option.bind (candidate_to_jingle d lower (new_id c) c) (candidate_to_sdp d)"
      by (rule candidate_there_and_back(1)[OF assms, symmetric])
    with Cons show ?case
      by (cases "candidate_to_jingle d lower (new_id c) c") (auto simp: List.map_filter_simps split: option.split)
  qed (simp add: List.map_filter_simps)
qed

lemma description_children:
  assumes "dom_sound d" and "media_ok m"
  shows "named d ''payload-type'' (description_element d m) = map (payload_element d m) (md_rtpmap m)"
    "List.map_filter (\<lambda>p. d_attr d p ''id'') (map (payload_element d m) (md_rtpmap m)) = map fst (md_rtpmap m)"
    "source_lines d (description_element d m) = (case (md_ssrc m, md_cname m) of
        (Some ssrc, Some cname) \<Rightarrow> [''a=ssrc:'' @ ssrc @ '' cname:'' @ cname] | _ \<Rightarrow> [])"
proof -
  have pts: "d_name d (payload_element d m p) = ''payload-type''" "d_attr d (payload_element d m p) ''id'' = Some (fst p)"
    if "p \<in> set (md_rtpmap m)" for p
  proof -
    have "codec_ok (snd p)" using that assms(2) by (auto simp: media_ok_def list_all_iff)
    from payload_lines_built(2,3)[OF assms(1) this, of m "fst p"] assms(2)
    show "d_name d (payload_element d m p) = ''payload-type''" "d_attr d (payload_element d m p) ''id'' = Some (fst p)"
      by (simp_all add: media_ok_def)
  qed
  have "filter (\<lambda>c. d_name d c = ''payload-type'') (map (payload_element d m) (md_rtpmap m)) = map (payload_element d m) (md_rtpmap m)"
    using pts by (auto simp: filter_id_conv)
  with assms(1) show "named d ''payload-type'' (description_element d m) = map (payload_element d m) (md_rtpmap m)"
    by (simp add: description_element_def source_element_def split: option.split)
  have "\<forall>p\<in>set ps. d_attr d (payload_element d m p) ''id'' = Some (fst p) \<Longrightarrow>
      List.map_filter (\<lambda>p. d_attr d p ''id'') (map (payload_element d m) ps) = map fst ps" for ps
    by (induction ps) (auto simp: List.map_filter_simps)
  with pts(2) show "List.map_filter (\<lambda>p. d_attr d p ''id'') (map (payload_element d m) (md_rtpmap m)) = map fst (md_rtpmap m)"
    by blast
  have "\<forall>p\<in>set ps. d_name d (payload_element d m p) = ''payload-type'' \<Longrightarrow>
      find (\<lambda>c. d_name d c = ''source'' \<and> d_ns d c = NS_SSMA) (map (payload_element d m) ps @ els)
      = find (\<lambda>c. d_name d c = ''source'' \<and> d_ns d c = NS_SSMA) els" for ps els
    by (induction ps) auto
  with pts(1) have "find (\<lambda>c. d_name d c = ''source'' \<and> d_ns d c = NS_SSMA) (map (payload_element d m) (md_rtpmap m) @ els)
      = find (\<lambda>c. d_name d c = ''source'' \<and> d_ns d c = NS_SSMA) els" for els by blast
  with assms(1) show "source_lines d (description_element d m) = (case (md_ssrc m, md_cname m) of
        (Some ssrc, Some cname) \<Rightarrow> [''a=ssrc:'' @ ssrc @ '' cname:'' @ cname] | _ \<Rightarrow> [])"
    by (auto simp: source_lines_def description_element_def get_child_def d_is_def source_element_def Let_def
        split: option.split)
qed

lemma content_lines_built:
  assumes d: "dom_sound d" and m: "media_ok m" and first: "media_ok first"
  shows "content_lines d (Some (transport_element d lower new_id first)) (media_to_content d lower new_id m) =
      (''m='' @ md_kind m @ '' 9 UDP/TLS/RTP/SAVPF '' @ join_with [SP] (map fst (md_rtpmap m)))
      # [''c=IN IP4 0.0.0.0'', ''a=rtcp-mux'', ''a=ice-ufrag:'' @ md_ufrag first, ''a=ice-pwd:'' @ md_pwd first,
         ''a=ice-options:trickle'', ''a=fingerprint:'' @ md_fingerprint_hash first @ SP # md_fingerprint first,
         ''a=setup:'' @ md_setup first, ''a=mid:'' @ md_mid m, ''a=sendrecv'']
      @ concat (map (payload_lines d) (map (payload_element d m) (md_rtpmap m)))
      @ (case (md_ssrc m, md_cname m) of
          (Some ssrc, Some cname) \<Rightarrow> [''a=ssrc:'' @ ssrc @ '' cname:'' @ cname] | _ \<Rightarrow> [])
      @ map ((@) ''a=candidate:'') (List.map_filter (norm_candidate lower) (md_candidates m))"
  using m token_nonempty unfolding content_lines_def
  by (auto simp: content_parts[OF d] attr_or_def candidate_children[OF d] description_children[OF d m]
      bundle_lines_def fingerprint_parts[OF d first] Let_def media_name_def media_ok_def)

definition attr_text :: "string \<Rightarrow> bool" where
  "attr_text l \<longleftrightarrow> plain_line l \<and> \<not> starts_with l ''m=''"

lemma attr_texts_plain: "list_all attr_text ls \<Longrightarrow> list_all plain_line ls"
  by (simp add: list_all_iff attr_text_def)

lemma fold_attr_texts:
  "list_all attr_text ls \<Longrightarrow> fold media_line ls (out @ [m]) = out @ [fold attr_line ls m]"
  by (rule fold_attr_lines) (simp add: list_all_iff attr_text_def)

lemma attr_textI:
  "token v \<Longrightarrow> attr_text (''a='' @ k @ v)" if "printable k" for k
proof -
  assume v: "token v"
  have "printable (''a='' @ k @ v)" using that v by (simp add: graphic_iff)
  moreover have "last (''a='' @ k @ v) = last v" using token_nonempty[OF v] by simp
  ultimately show ?thesis using token_last[OF v] unfolding attr_text_def plain_line_def by simp
qed

lemma attr_text_lines:
  assumes lower: "\<And>s. list_all is_ascii s \<Longrightarrow> lower s = to_ascii_lowercase s" and d: "dom_sound d" and m: "media_ok m"
  shows "list_all attr_text (concat (map (payload_lines d) (map (payload_element d m) (md_rtpmap m))))"
    and "list_all attr_text (case (md_ssrc m, md_cname m) of
        (Some ssrc, Some cname) \<Rightarrow> [''a=ssrc:'' @ ssrc @ '' cname:'' @ cname] | _ \<Rightarrow> [])"
    and "list_all attr_text (map ((@) ''a=candidate:'') (List.map_filter (norm_candidate lower) (md_candidates m)))"
proof -
  note ok = m[unfolded media_ok_def]
  have one: "list_all attr_text (payload_lines d (payload_element d m (i, v)))" if iv: "(i, v) \<in> set (md_rtpmap m)" for i v
  proof -
    have v: "codec_ok v" "token i" "token v" using iv ok by (auto simp: list_all_iff codec_ok_def)
    have "attr_text (''a=rtpmap:'' @ i @ SP # v)"
      using attr_textI[of "''rtpmap:'' @ i @ [SP]" v] v by (simp add: graphic_iff)
    moreover have "attr_text (''a=fmtp:'' @ i @ SP # ps)" if "map_of (md_fmtp m) i = Some ps" for ps
    proof -
      have "token ps" using map_of_SomeD[OF that] ok by (auto simp: list_all_iff params_ok_def)
      then show ?thesis using attr_textI[of "''fmtp:'' @ i @ [SP]" ps] v by (simp add: graphic_iff)
    qed
    moreover have "attr_text (''a=rtcp-fb:'' @ i @ SP # fb)" if "(i, fb) \<in> set (md_rtcp_fb m)" for fb
    proof -
      have "fb_ok fb" using that ok by (auto simp: list_all_iff)
      then consider "token fb" | ty sub where "token ty" "token sub" "fb = ty @ [SP] @ sub"
        by (auto simp: fb_ok_def split: list.split_asm)
      then show ?thesis
        by cases (use attr_textI[of "''rtcp-fb:'' @ i @ [SP]" fb] attr_textI[of "''rtcp-fb:'' @ i @ [SP] @ _ @ [SP]"] v in
          \<open>simp_all add: graphic_iff\<close>)
    qed
    ultimately show ?thesis
      using ok payload_lines_built(1)[OF d v(1), of m i] by (auto simp: list_all_iff split: option.split)
  qed
  then show "list_all attr_text (concat (map (payload_lines d) (map (payload_element d m) (md_rtpmap m))))"
    by (auto simp: list_all_iff)
  have "attr_text (''a=ssrc:'' @ ssrc @ '' cname:'' @ cname)" if "token ssrc" "token cname" for ssrc cname
    using attr_textI[of "''ssrc:'' @ ssrc @ '' cname:''" cname] that by (simp add: graphic_iff SP_def)
  with ok show "list_all attr_text (case (md_ssrc m, md_cname m) of
        (Some ssrc, Some cname) \<Rightarrow> [''a=ssrc:'' @ ssrc @ '' cname:'' @ cname] | _ \<Rightarrow> [])"
    by (auto simp: List.map_filter_simps split: option.split)
  have "attr_text (''a=candidate:'' @ l)" if "plain_line l" for l
  proof -
    have "printable (''a=candidate:'' @ l)" using that by (simp add: graphic_iff plain_line_def)
    then show ?thesis using that unfolding attr_text_def plain_line_def by simp
  qed
  moreover have "plain_line l" if "l \<in> set (List.map_filter (norm_candidate lower) (md_candidates m))" for l
    using that ok norm_candidate_plain[OF lower] by (auto simp: List.map_filter_def list_all_iff)
  ultimately show "list_all attr_text (map ((@) ''a=candidate:'') (List.map_filter (norm_candidate lower) (md_candidates m)))"
    by (simp add: list_all_iff del: append.simps)
qed

lemma token_join: "ws \<noteq> [] \<Longrightarrow> list_all token ws \<Longrightarrow> plain_line (join_with [SP] ws)"
proof (induction "[SP]" ws rule: join_with.induct)
  case (3 x y ys)
  then have "join_with [SP] (y # ys) \<noteq> []" by (simp add: plain_line_def)
  with 3 show ?case by (simp add: plain_line_def)
qed (auto simp: plain_line_def token_nonempty token_last)

lemma plain_after: "printable p \<Longrightarrow> plain_line l \<Longrightarrow> plain_line (p @ l)"
  by (simp add: plain_line_def)

lemma section_read:
  assumes lower: "\<And>s. list_all is_ascii s \<Longrightarrow> lower s = to_ascii_lowercase s" and d: "dom_sound d"
    and m: "media_ok m" and first: "media_ok first"
  shows "fold media_line (content_lines d (Some (transport_element d lower new_id first)) (media_to_content d lower new_id m)) out
      = out @ [section_back lower first m]"
    and "list_all plain_line (content_lines d (Some (transport_element d lower new_id first)) (media_to_content d lower new_id m))"
proof -
  let ?head = "''m='' @ md_kind m @ '' 9 UDP/TLS/RTP/SAVPF '' @ join_with [SP] (map fst (md_rtpmap m))"
  let ?creds = "[''c=IN IP4 0.0.0.0'', ''a=rtcp-mux'', ''a=ice-ufrag:'' @ md_ufrag first, ''a=ice-pwd:'' @ md_pwd first,
         ''a=ice-options:trickle'', ''a=fingerprint:'' @ md_fingerprint_hash first @ SP # md_fingerprint first,
         ''a=setup:'' @ md_setup first, ''a=mid:'' @ md_mid m, ''a=sendrecv'']"
  let ?codecs = "concat (map (payload_lines d) (map (payload_element d m) (md_rtpmap m)))"
  let ?source = "case (md_ssrc m, md_cname m) of
          (Some ssrc, Some cname) \<Rightarrow> [''a=ssrc:'' @ ssrc @ '' cname:'' @ cname] | _ \<Rightarrow> []"
  let ?cands = "map ((@) ''a=candidate:'') (List.map_filter (norm_candidate lower) (md_candidates m))"
  note built = content_lines_built[OF d m first, of lower new_id]
  have toks: "token (md_kind m)" "token (md_mid m)" "token (md_ufrag first)" "token (md_pwd first)"
    "token (md_fingerprint_hash first)" "token (md_fingerprint first)" "token (md_setup first)"
    "\<And>x. md_ssrc m = Some x \<Longrightarrow> token x"
    using m first by (auto simp: media_ok_def List.map_filter_simps)
  have "plain_line (join_with [SP] (map fst (md_rtpmap m)))"
    using m by (intro token_join) (auto simp: media_ok_def list_all_iff)
  then have tail: "plain_line (''9 UDP/TLS/RTP/SAVPF '' @ join_with [SP] (map fst (md_rtpmap m)))"
    by (intro plain_after) (simp add: graphic_iff SP_def)
  have head: "plain_line ?head"
    using plain_after[OF _ tail, of "''m='' @ md_kind m @ [SP]"] toks(1) by (simp add: graphic_iff SP_def)
  have "attr_text l" if "l \<in> {''a=rtcp-mux'', ''a=ice-options:trickle'', ''a=sendrecv'', ''c=IN IP4 0.0.0.0''}" for l
    using that by (auto simp: attr_text_def plain_line_def graphic_iff SP_def)
  then have creds: "list_all attr_text ?creds"
    using attr_textI[of "''ice-ufrag:''" "md_ufrag first"] attr_textI[of "''ice-pwd:''" "md_pwd first"]
      attr_textI[of "''fingerprint:'' @ md_fingerprint_hash first @ [SP]" "md_fingerprint first"]
      attr_textI[of "''setup:''" "md_setup first"] attr_textI[of "''mid:''" "md_mid m"] toks
    by (simp add: graphic_iff)
  note lines = attr_text_lines[OF lower d m]
  show "list_all plain_line (content_lines d (Some (transport_element d lower new_id first)) (media_to_content d lower new_id m))"
    using head creds[THEN attr_texts_plain] lines[THEN attr_texts_plain]
    unfolding built list.pred_inject list_all_append by blast
  have "split_whitespace (md_kind m @ SP # ''9 UDP/TLS/RTP/SAVPF '' @ join_with [SP] (map fst (md_rtpmap m)))
      = md_kind m # split_whitespace (''9 UDP/TLS/RTP/SAVPF '' @ join_with [SP] (map fst (md_rtpmap m)))"
    using toks(1) tail by (intro words_cons) (auto simp: plain_line_def)
  then have start: "media_line ?head out = out @ [media_default\<lparr>md_kind := md_kind m\<rparr>]"
    using plain_line_end[OF head] by (simp add: media_line_def strip_prefix_def SP_def)
  have creds_read: "fold attr_line ?creds x = x\<lparr>md_ufrag := md_ufrag first, md_pwd := md_pwd first,
      md_fingerprint_hash := md_fingerprint_hash first, md_fingerprint := md_fingerprint first,
      md_setup := md_setup first, md_mid := md_mid m\<rparr>" for x
    using toks(5) by (simp del: append.simps(2) add: append.simps(1) attr_line_eval(4) attr_line_eval(7-14)[of "[]"])
  have source_read: "fold attr_line ?source x = x\<lparr>md_ssrc := Option.bind (md_cname m) (\<lambda>_. md_ssrc m),
      md_cname := Option.bind (md_ssrc m) (\<lambda>_. md_cname m)\<rparr>" if "md_ssrc x = None" "md_cname x = None" for x
    using toks(8) that by (auto simp del: append.simps(2) simp add: append.simps(1) attr_line_eval or_insert_def
        split: option.split)
  have cands_read: "fold attr_line (map ((@) ''a=candidate:'') cs) x = x\<lparr>md_candidates := md_candidates x @ cs\<rparr>" for cs x
    by (induction cs arbitrary: x) (simp_all del: append.simps(2) add: attr_line_eval(6)[of "[]"])
  have codecs_read: "fold attr_line ?codecs x = x\<lparr>
      md_rtpmap := md_rtpmap x @ md_rtpmap m,
      md_fmtp := md_fmtp x @ List.map_filter (\<lambda>(i, _). map_option (Pair i) (map_of (md_fmtp m) i)) (md_rtpmap m),
      md_rtcp_fb := md_rtcp_fb x @ concat (map (\<lambda>(i, _). filter (\<lambda>(fid, _). fid = i) (md_rtcp_fb m)) (md_rtpmap m))\<rparr>" for x
    using m by (intro payload_lines_read[OF d]) (auto simp: media_ok_def)
  have rest: "list_all attr_text (?creds @ ?codecs @ ?source @ ?cands)"
    using creds lines unfolding list_all_append by blast
  have "fold media_line (?head # (?creds @ ?codecs @ ?source @ ?cands)) out
      = out @ [fold attr_line (?creds @ ?codecs @ ?source @ ?cands) (media_default\<lparr>md_kind := md_kind m\<rparr>)]"
    unfolding fold_simps start comp_apply by (rule fold_attr_texts[OF rest])
  also have "fold attr_line (?creds @ ?codecs @ ?source @ ?cands) (media_default\<lparr>md_kind := md_kind m\<rparr>) = section_back lower first m"
    unfolding fold_append comp_apply creds_read cands_read codecs_read
    by (simp add: media_default_def section_back_def source_read[unfolded prod.case])
  finally show "fold media_line (content_lines d (Some (transport_element d lower new_id first)) (media_to_content d lower new_id m)) out
      = out @ [section_back lower first m]"
    unfolding built .
qed

lemma no_media_line: "plain_line l \<Longrightarrow> \<not> starts_with l ''m='' \<Longrightarrow> media_line l [] = []"
  by (auto simp: media_line_def plain_line_end strip_prefix_def split: option.split)

lemma primary_built:
  assumes "dom_sound d" and "ms \<noteq> []" and "media_ok (hd ms)"
  shows "primary_transport d (map (media_to_content d lower new_id) ms) = Some (transport_element d lower new_id (hd ms))"
proof -
  have transports: "List.map_filter (\<lambda>c. get_child d c ''transport'' NS_ICE) (map (media_to_content d lower new_id) ms)
      = map (transport_element d lower new_id) ms" for ms
    by (induction ms) (simp_all add: List.map_filter_simps content_parts[OF assms(1)])
  have "md_ufrag (hd ms) \<noteq> []" using assms(3) by (auto simp: media_ok_def token_nonempty)
  with assms(2) show ?thesis
    unfolding primary_transport_def transports by (cases ms) (auto simp: attr_or_def content_parts[OF assms(1)])
qed

text \<open>
  C37: A call's description survives Jingle: the sections of an SDP, turned into \<open><content>\<close> elements
  and back into an SDP, are read as the same sections in the same order, with their codecs,
  parameters, feedback, sources and candidates, all under the credentials of the first.
\<close>

theorem sdp_jingle_roundtrip:
  assumes "dom_sound d" and "\<And>s. list_all is_ascii s \<Longrightarrow> lower s = to_ascii_lowercase s"
    and "parse_media sdp = ms" and "ms \<noteq> []" and "list_all media_ok ms"
  shows "\<exists>sdp'. contents_to_sdp d (fst (sdp_to_contents d lower new_id sdp)) = Some sdp'
    \<and> parse_media sdp' = map (section_back lower (hd ms)) ms"
proof -
  let ?contents = "map (media_to_content d lower new_id) ms"
  let ?lines = "\<lambda>m. content_lines d (Some (transport_element d lower new_id (hd ms))) (media_to_content d lower new_id m)"
  let ?group = "''a=group:BUNDLE '' @ join_with [SP] (map (\<lambda>c. attr_or d c ''name'' ''0'') ?contents)"
  let ?head = "[''v=0'', ''o=- 8770656990916039506 2 IN IP4 127.0.0.1'', ''s=-'', ''t=0 0'', ?group, ''a=msid-semantic: WMS'']"
  have hd: "media_ok (hd ms)" using assms(4,5) by (cases ms) auto
  have names: "map (\<lambda>c. attr_or d c ''name'' ''0'') ?contents = map md_mid ms"
    using assms(5) by (auto simp: attr_or_def content_parts[OF assms(1)] media_name_def list_all_iff media_ok_def token_nonempty)
  have "plain_line (join_with [SP] (map md_mid ms))"
    using assms(4,5) by (intro token_join) (auto simp: list_all_iff media_ok_def)
  then have "plain_line ?group" unfolding names by (intro plain_after) (simp add: graphic_iff SP_def)
  moreover have "plain_line l \<and> \<not> starts_with l ''m=''" if "l \<in> {''v=0'', ''o=- 8770656990916039506 2 IN IP4 127.0.0.1'',
      ''s=-'', ''t=0 0'', ''a=msid-semantic: WMS''}" for l
    using that by (auto simp: plain_line_def graphic_iff SP_def)
  ultimately have head: "list_all (\<lambda>l. plain_line l \<and> \<not> starts_with l ''m='') ?head" by simp
  have head_read: "fold media_line ls [] = []" if "list_all (\<lambda>l. plain_line l \<and> \<not> starts_with l ''m='') ls" for ls
    using that by (induction ls) (simp_all add: no_media_line)
  have heads_plain: "list_all (\<lambda>l. plain_line l \<and> \<not> starts_with l ''m='') ls \<Longrightarrow> list_all plain_line ls" for ls
    by (simp add: list_all_iff)
  note read = section_read[OF assms(2,1) _ hd, of _ new_id]
  have body: "fold media_line (concat (map ?lines ns)) out = out @ map (section_back lower (hd ms)) ns
      \<and> list_all plain_line (concat (map ?lines ns))" if "list_all media_ok ns" for ns out
    using that by (induction ns arbitrary: out) (simp_all add: read)
  have plain: "list_all plain_line (?head @ concat (map ?lines ms))"
    using heads_plain[OF head] body[OF assms(5)] unfolding list_all_append by blast
  have contents: "fst (sdp_to_contents d lower new_id sdp) = ?contents"
    using assms(3) by (simp add: sdp_to_contents_def Let_def)
  have built: "contents_to_sdp d ?contents = Some (crlf (?head @ concat (map ?lines ms)))"
  proof -
    have "?contents \<noteq> []" using assms(4) by simp
    then show ?thesis
      by (simp only: contents_to_sdp_def primary_built[OF assms(1,4) hd] map_map comp_def if_False)
  qed
  have parsed: "parse_media (crlf (?head @ concat (map ?lines ms))) = map (section_back lower (hd ms)) ms"
  proof -
    have "parse_media (crlf (?head @ concat (map ?lines ms)))
        = fold media_line (concat (map ?lines ms)) (fold media_line ?head [])"
      by (simp only: parse_media_def lines_crlf[OF plain] fold_append comp_apply)
    also have "\<dots> = fold media_line (concat (map ?lines ms)) []" unfolding head_read[OF head] ..
    also have "\<dots> = map (section_back lower (hd ms)) ms" using conjunct1[OF body[OF assms(5), of "[]"]] unfolding append_Nil .
    finally show ?thesis .
  qed
  show ?thesis unfolding contents by (intro exI conjI; rule built parsed)
qed

subsection \<open>A call to translate\<close>

definition toy_sdp :: string where
  "toy_sdp = crlf [''v=0'', ''m=audio 9 UDP/TLS/RTP/SAVPF 111'', ''a=ice-ufrag:au'', ''a=ice-pwd:pw'',
     ''a=fingerprint:sha-256 AA:BB'', ''a=setup:actpass'', ''a=mid:0'', ''a=rtpmap:111 opus/48000/2'',
     ''a=fmtp:111 minptime=10;useinbandfec=1'', ''a=rtcp-fb:111 nack pli'', ''a=ssrc:42 cname:c'',
     ''a=candidate:1 1 udp 21 10.0.0.1 5000 typ host'']"

theorem sdp_jingle_roundtrip_witness:
  "\<exists>sdp'. contents_to_sdp tree_dom (fst (sdp_to_contents tree_dom to_ascii_lowercase id toy_sdp)) = Some sdp'
    \<and> map md_candidates (parse_media sdp') = [[''1 1 udp 21 10.0.0.1 5000 typ host generation 0'']]
    \<and> map md_rtpmap (parse_media sdp') = [[(''111'', ''opus/48000/2'')]]"
proof -
  define ms where "ms = parse_media toy_sdp"
  have ok: "ms \<noteq> []" "list_all media_ok ms" unfolding ms_def by code_simp+
  obtain sdp' where "contents_to_sdp tree_dom (fst (sdp_to_contents tree_dom to_ascii_lowercase id toy_sdp)) = Some sdp'"
    "parse_media sdp' = map (section_back to_ascii_lowercase (hd ms)) ms"
    using sdp_jingle_roundtrip[OF tree_dom_sound _ ms_def[symmetric] ok, of to_ascii_lowercase id] by auto
  moreover have "map md_candidates (map (section_back to_ascii_lowercase (hd ms)) ms)
      = [[''1 1 udp 21 10.0.0.1 5000 typ host generation 0'']]
      \<and> map md_rtpmap (map (section_back to_ascii_lowercase (hd ms)) ms) = [[(''111'', ''opus/48000/2'')]]"
    unfolding ms_def by code_simp
  ultimately show ?thesis by metis
qed

theorem candidate_roundtrip_witness:
  "\<exists>c. candidate_to_jingle tree_dom to_ascii_lowercase ''x'' ''1 1 UDP 21 10.0.0.1 5000 typ host generation 0'' = Some c
    \<and> candidate_to_sdp tree_dom c = Some ''1 1 udp 21 10.0.0.1 5000 typ host generation 0''"
proof -
  have toks: "list_all token [''1'', ''1'', ''UDP'', ''21'', ''10.0.0.1'', ''5000'', ''0'']" "token ''host''" by code_simp+
  have lines: "candidate_line ''1'' ''1'' ''UDP'' ''21'' ''10.0.0.1'' ''5000'' (Some ''host'') None None ''0''
      = ''1 1 UDP 21 10.0.0.1 5000 typ host generation 0''"
    "candidate_line ''1'' ''1'' (to_ascii_lowercase ''UDP'') ''21'' ''10.0.0.1'' ''5000'' (Some ''host'') None None ''0''
      = ''1 1 udp 21 10.0.0.1 5000 typ host generation 0''" by code_simp+
  from candidate_roundtrip[OF tree_dom_sound toks(1), of "Some ''host''" None None to_ascii_lowercase "''x''"] toks(2)
  show ?thesis unfolding lines by auto
qed

text \<open>
  A peer's text reaches the SDP as it is: with a line break in an attribute, the peer's \<open><content>\<close>
  writes lines of its own into the description the media engine reads.
\<close>

lemma remote_content_injects_lines:
  "\<exists>c :: tree. Option.bind (contents_to_sdp tree_dom [c]) (\<lambda>s. Some (md_pwd (hd (parse_media s)))) = Some ''theirs''
     \<and> Option.bind (get_child tree_dom c ''transport'' NS_ICE) (\<lambda>t. d_attr tree_dom t ''pwd'') = Some ''ours''"
proof -
  define c where "c = media_to_content tree_dom id id (media_default\<lparr>md_kind := ''audio'', md_mid := ''0'' @ [LF] @ ''a=ice-pwd:theirs'',
     md_ufrag := ''u'', md_pwd := ''ours'', md_rtpmap := [(''0'', ''PCMU/8000'')]\<rparr>)"
  have "Option.bind (contents_to_sdp tree_dom [c]) (\<lambda>s. Some (md_pwd (hd (parse_media s)))) = Some ''theirs''
     \<and> Option.bind (get_child tree_dom c ''transport'' NS_ICE) (\<lambda>t. d_attr tree_dom t ''pwd'') = Some ''ours''"
    unfolding c_def by code_simp
  then show ?thesis by blast
qed

end
