(* ===== verification/Disco.thy ===== *)
theory Disco
  imports Bundle Sql_Table Stanza
begin

text \<open>
  Service discovery (\<open>crates/mxc-proto/src/xeps/disco.rs\<close>) and the entity capabilities computed over it
  (\<open>xeps/caps.rs\<close>): what the client says it supports, and the hash peers cache that answer under.
  SHA-1 and base64 are arguments.
\<close>

definition NS_INFO :: string where "NS_INFO = ''http://jabber.org/protocol/disco#info''"
definition NS_ITEMS :: string where "NS_ITEMS = ''http://jabber.org/protocol/disco#items''"
definition NS_CAPS :: string where "NS_CAPS = ''http://jabber.org/protocol/caps''"
definition CLIENT_CATEGORY :: string where "CLIENT_CATEGORY = ''client''"
definition CLIENT_TYPE :: string where "CLIENT_TYPE = ''pc''"
definition CLIENT_NAME :: string where "CLIENT_NAME = ''monocles chat''"
definition NODE :: string where "NODE = ''https://monocles.eu/chat''"

definition FEATURES :: "string list" where
  "FEATURES = [
     ''http://jabber.org/protocol/caps'',
     ''http://jabber.org/protocol/chatstates'',
     ''http://jabber.org/protocol/disco#info'',
     ''http://jabber.org/protocol/disco#items'',
     ''jabber:iq:version'',
     ''jabber:x:oob'',
     ''urn:monocles:omemo-pq:1'',
     ''urn:monocles:omemo-pq:1:devices+notify'',
     ''urn:monocles:omemo-pq:1:pqxdh'',
     ''urn:monocles:omemo-pq:1:spqr'',
     ''urn:xmpp:chat-markers:0'',
     ''urn:xmpp:jingle-message:0'',
     ''urn:xmpp:jingle:1'',
     ''urn:xmpp:jingle:apps:dtls:0'',
     ''urn:xmpp:jingle:apps:rtp:1'',
     ''urn:xmpp:jingle:apps:rtp:audio'',
     ''urn:xmpp:jingle:apps:rtp:video'',
     ''urn:xmpp:jingle:muji:0'',
     ''urn:xmpp:jingle:transports:ice-udp:1'',
     ''urn:xmpp:message-correct:0'',
     ''urn:xmpp:message-retract:1'',
     ''urn:xmpp:ping'',
     ''urn:xmpp:pubsub-social-feed:stories:0+notify'',
     ''urn:xmpp:reactions:0'',
     ''urn:xmpp:receipts'',
     ''urn:xmpp:reply:0'',
     ''urn:xmpp:sid:0'']"

definition info_query :: "('e, 'z) dom_scheme \<Rightarrow> 'e" where
  "info_query d = with_children d
     (d_with_attr d ''name'' CLIENT_NAME (d_with_attr d ''type'' CLIENT_TYPE
        (d_with_attr d ''category'' CLIENT_CATEGORY (d_bare d ''identity'' NS_INFO)))
      # map (\<lambda>f. d_with_attr d ''var'' f (d_bare d ''feature'' NS_INFO)) FEATURES)
     (d_bare d ''query'' NS_INFO)"

text \<open>The id and the sender of the request go back; \<open>payload\<close> is the body.\<close>

definition mirrored :: "('e, 'z) dom_scheme \<Rightarrow> (string \<times> string) list \<Rightarrow> 'e \<Rightarrow> 'e \<Rightarrow> 'e" where
  "mirrored d keys req e = fold (\<lambda>(from, to) e. case d_attr d req from of None \<Rightarrow> e | Some v \<Rightarrow> d_with_attr d to v e) keys e"

definition result_iq :: "('e, 'z) dom_scheme \<Rightarrow> 'e \<Rightarrow> 'e \<Rightarrow> 'e" where
  "result_iq d req payload = d_with_child d payload
     (mirrored d [(''id'', ''id''), (''from'', ''to'')] req (d_with_attr d ''type'' ''result'' (d_bare d ''iq'' NS_CLIENT)))"

definition answer_info :: "('e, 'z) dom_scheme \<Rightarrow> 'e \<Rightarrow> 'e" where
  "answer_info d req = result_iq d req (info_query d)"

definition answer_items :: "('e, 'z) dom_scheme \<Rightarrow> 'e \<Rightarrow> 'e" where
  "answer_items d req = result_iq d req (d_bare d ''query'' NS_ITEMS)"

subsection \<open>Capabilities\<close>

definition ver_string :: string where
  "ver_string = CLIENT_CATEGORY @ ''/'' @ CLIENT_TYPE @ ''//'' @ CLIENT_NAME @ ''<'' @ concat (map (\<lambda>f. f @ ''<'') FEATURES)"

definition ver_hash :: "(bytes \<Rightarrow> bytes) \<Rightarrow> base64 \<Rightarrow> string" where
  "ver_hash sha1 c = b64_encode c (sha1 (str_bytes ver_string))"

definition caps_element :: "('e, 'z) dom_scheme \<Rightarrow> (bytes \<Rightarrow> bytes) \<Rightarrow> base64 \<Rightarrow> 'e" where
  "caps_element d sha1 c = d_with_attr d ''ver'' (ver_hash sha1 c)
     (d_with_attr d ''node'' NODE (d_with_attr d ''hash'' ''sha-1'' (d_bare d ''c'' NS_CAPS)))"

subsection \<open>What a peer computes\<close>

text \<open>
  The verification string of XEP-0115 of a \<open>disco#info\<close> answer: the identities, then the features in
  byte order, each with a closing bracket.
\<close>

definition identity_text :: "('e, 'z) dom_scheme \<Rightarrow> 'e \<Rightarrow> string" where
  "identity_text d i = join_with ''/'' (map (attr_or_empty d i) [''category'', ''type'', ''xml:lang'', ''name''])"

definition peer_ver :: "('e, 'z) dom_scheme \<Rightarrow> (bytes \<Rightarrow> bytes) \<Rightarrow> base64 \<Rightarrow> 'e \<Rightarrow> string" where
  "peer_ver d sha1 c q = b64_encode c (sha1 (str_bytes (concat (map (\<lambda>s. s @ ''<'')
     (sort (map (identity_text d) (named d ''identity'' q))
      @ sort (map (\<lambda>f. attr_or_empty d f ''var'') (named d ''feature'' q)))))))"

lemma features_sorted: "sorted FEATURES \<and> distinct FEATURES"
  by (simp only: FEATURES_def) code_simp

lemma answer_query: "dom_sound d \<Longrightarrow> get_child d (answer_info d req) ''query'' NS_INFO = Some (info_query d)"
proof -
  assume d: "dom_sound d"
  have children: "d_children d (mirrored d keys req e) = d_children d e" for keys e
    unfolding mirrored_def using d by (induction keys arbitrary: e) (auto split: option.split)
  show ?thesis using d by (simp add: answer_info_def result_iq_def get_child_def children d_is_def info_query_def)
qed

text \<open>
  The hash in our presence is the one a peer computes over our answer to his query, so the answer
  is believed: the list of features stands in the order the hash is taken in.
\<close>

theorem caps_hash_matches_answer:
  assumes "dom_sound d"
  shows "Option.bind (get_child d (answer_info d req) ''query'' NS_INFO) (\<lambda>q. Some (peer_ver d sha1 c q))
     = d_attr d (caps_element d sha1 c) ''ver''"
proof -
  let ?i = "d_with_attr d ''name'' CLIENT_NAME (d_with_attr d ''type'' CLIENT_TYPE
        (d_with_attr d ''category'' CLIENT_CATEGORY (d_bare d ''identity'' NS_INFO)))"
  have ids: "named d ''identity'' (info_query d) = [?i]"
    and fts: "named d ''feature'' (info_query d) = map (\<lambda>f. d_with_attr d ''var'' f (d_bare d ''feature'' NS_INFO)) FEATURES"
    using assms by (simp_all add: named_def info_query_def filter_map comp_def)
  have "map (\<lambda>f. attr_or_empty d f ''var'') (named d ''feature'' (info_query d)) = FEATURES"
    using assms by (simp add: fts comp_def attr_or_empty_def)
  moreover have "sort FEATURES = FEATURES" using features_sorted by (simp add: sort_key_id_if_sorted)
  moreover have "identity_text d ?i = CLIENT_CATEGORY @ ''/'' @ CLIENT_TYPE @ ''//'' @ CLIENT_NAME"
    using assms by (simp add: identity_text_def attr_or_empty_def)
  ultimately have "peer_ver d sha1 c (info_query d) = ver_hash sha1 c"
    by (simp add: peer_ver_def ids ver_hash_def ver_string_def)
  then show ?thesis using assms by (simp add: answer_query caps_element_def)
qed

theorem caps_hash_matches_answer_witness:
  "Option.bind (get_child tree_dom (answer_info tree_dom (Tree ''iq'' NS_CLIENT [(''id'', ''7'')] [] [])) ''query'' NS_INFO)
     (\<lambda>q. Some (peer_ver tree_dom id \<lparr>b64_encode = map (\<lambda>b. char_of (unat b)), b64_decode = \<lambda>_. Inl []\<rparr> q))
   = d_attr tree_dom (caps_element tree_dom id \<lparr>b64_encode = map (\<lambda>b. char_of (unat b)), b64_decode = \<lambda>_. Inl []\<rparr>) ''ver''"
  by (rule caps_hash_matches_answer) simp

end
