(* ===== verification/Calls.thy ===== *)
theory Calls
  imports World Sdp Disco
begin

text \<open>
  Calls (\<open>crates/mxc-proto/src/xeps/jingle.rs\<close>): the registry of an account's calls, ringing
  (XEP-0353), the Jingle stanzas, and the DTLS fingerprints authenticated with OMEMO.

  The media engine (\<open>crates/mxc-media\<close>) is a number: what is asked of it is logged in \<open>cl_media\<close>, and
  \<open>ce_media_ok\<close> says whether the \<open>n\<close>-th request succeeds.  OMEMO is a state \<open>'o\<close> of its own with the
  operations \<open>ce_encrypt\<close>, \<open>ce_decrypt\<close>, \<open>ce_trust\<close> and \<open>ce_own_device\<close>; \<open>Calls_Laws\<close> puts the modelled
  engine there.  Clocks and drawn ids are numbered by \<open>cl_tick\<close>.  A hash map is a keyed list;
  \<open>ce_order\<close> is the order in which one is iterated.  An \<open>async fn\<close> is one step of the account's task.
\<close>

subsection \<open>The registry\<close>

datatype role = Caller | Callee
datatype sdp_kind = Offer | Answer

datatype media_cmd =
    Engine_New role bool bool \<comment> \<open>role, video, shared camera\<close>
  | Set_Remote sdp_kind string
  | Apply_Video_Offer string
  | Add_Remote_Ice nat string
  | Set_Mic_Muted bool
  | Set_Video_Enabled bool
  | Upgrade_To_Video
  | Start_Screen nat
  | Stop_Screen
  | Engine_Hang_Up

record 'e active_call =
  ac_engine :: nat
  ac_peer_full :: string
  ac_remote_contents :: "'e list"
  ac_video :: bool
  ac_pending_video :: "'e list"
  ac_peer_used_omemo :: bool
  ac_room :: "string option"

datatype member_state = M_Connecting | M_Active | M_Ended

definition member_state_str :: "member_state \<Rightarrow> string" where
  "member_state_str s = (case s of M_Connecting \<Rightarrow> ''connecting'' | M_Active \<Rightarrow> ''active'' | M_Ended \<Rightarrow> ''ended'')"

record member =
  mb_occupant_jid :: string
  mb_real_jid :: string
  mb_sid :: "string option"
  mb_state :: member_state
  mb_connecting_since :: nat

datatype muji_state = Preparing | Ready

record muji_peer =
  mp_state :: muji_state
  mp_real_jid :: string

record conference =
  cf_nick :: string
  cf_our_occupant :: string
  cf_video :: bool
  cf_muted :: bool
  cf_camera_enabled :: bool
  cf_screen :: "nat option"
  cf_members :: "(string, member) table"

record call_meta =
  cm_peer :: string
  cm_outgoing :: bool
  cm_video :: bool
  cm_answered :: bool
  cm_ts :: string

record call_log_entry =
  cle_peer :: string
  cle_direction :: string
  cle_video :: bool
  cle_answered :: bool
  cle_timestamp :: string

datatype call_state = Call_Incoming | Call_Outgoing | Call_Connecting | Call_Active | Call_Ended string

record conf_participant =
  cp_jid :: string
  cp_name :: string
  cp_state :: string
  cp_sid :: string

datatype call_event =
    Call_Update i64 string string bool call_state \<comment> \<open>account, sid, peer, video, state\<close>
  | Call_Video_Upgrade_Request i64 string string
  | Call_Verified i64 string string i64 i64 \<comment> \<open>account, sid, fingerprint, device, trust\<close>
  | Call_Screen_Share i64 string bool
  | Conference_Screen_Share i64 string bool
  | Conference_Invite i64 string string
  | Conference_Invite_Cancelled i64 string
  | Conference_Update i64 string bool bool "conf_participant list"

text \<open>The variables of the task that turns the events of one engine into stanzas.\<close>

record pump =
  pu_sid :: string
  pu_peer_full :: string
  pu_room :: "string option"
  pu_initiator :: string
  pu_video :: bool
  pu_ufrag :: string
  pu_pwd :: string
  pu_mid :: string

record ('e, 'o) calls =
  cl_active :: "(string, 'e active_call) table"
  cl_proposed :: "(string, bool) table"
  cl_incoming :: "(string, string \<times> bool) table"
  cl_meta :: "(string, call_meta) table"
  cl_conferences :: "(string, conference) table"
  cl_muji_seen :: "(string, (string, muji_peer) table) table"
  cl_invited :: "string list"
  cl_pumps :: "(nat, pump) table"
  cl_media :: "(nat \<times> media_cmd) list"
  cl_log :: "(i64 \<times> call_log_entry) list"
  cl_messages :: message_db
  cl_sent :: "'e list"
  cl_events :: "call_event list"
  cl_tick :: nat
  cl_omemo :: 'o

record ('e, 'o) call_env =
  ce_dom :: "'e dom"
  ce_attrs :: "'e \<Rightarrow> (string \<times> string) list"
  ce_xml :: quick_xml
  ce_chrono :: chrono
  ce_b64 :: base64
  ce_sha1 :: "bytes \<Rightarrow> bytes"
  ce_lower :: "string \<Rightarrow> string"
  ce_account :: i64
  ce_bare :: string
  ce_now :: "nat \<Rightarrow> int"
  ce_instant :: "nat \<Rightarrow> nat"
  ce_new_id :: "string \<Rightarrow> nat \<Rightarrow> string"
  ce_candidate_id :: "nat \<Rightarrow> string \<Rightarrow> string"
  ce_pad :: "nat \<Rightarrow> nat \<Rightarrow> u32"
  ce_connected :: bool
  ce_media_ok :: "nat \<Rightarrow> media_cmd \<Rightarrow> bool"
  ce_order :: "nat \<Rightarrow> string list \<Rightarrow> string list"
  ce_encrypt :: "string \<Rightarrow> string \<Rightarrow> 'o \<Rightarrow> (string + 'e) \<times> 'o"
  ce_decrypt :: "'e \<Rightarrow> string \<Rightarrow> string option \<Rightarrow> 'o \<Rightarrow> (string + decrypted) \<times> 'o"
  ce_trust :: "string \<Rightarrow> i64 \<Rightarrow> 'o \<Rightarrow> i64 option"
  ce_own_device :: "'o \<Rightarrow> (string + u32) \<times> 'o"

type_synonym ('e, 'o, 'a) cact = "(('e, 'o) calls, string, 'a) act"

definition registry :: "message_db \<Rightarrow> 'o \<Rightarrow> ('e, 'o) calls" where
  "registry db om = \<lparr>cl_active = [], cl_proposed = [], cl_incoming = [], cl_meta = [], cl_conferences = [],
     cl_muji_seen = [], cl_invited = [], cl_pumps = [], cl_media = [], cl_log = [], cl_messages = db,
     cl_sent = [], cl_events = [], cl_tick = 0, cl_omemo = om\<rparr>"

subsection \<open>Steps\<close>

text \<open>\<open>HashMap::insert\<close>, \<open>HashMap::remove\<close>, \<open>entry().or_insert\<close> and iteration\<close>

definition hm_insert :: "'k \<Rightarrow> 'v \<Rightarrow> ('k, 'v) table \<Rightarrow> ('k, 'v) table" where
  "hm_insert k v t = tbl_upsert k v (\<lambda>_. v) t"

definition hm_remove :: "'k \<Rightarrow> ('k, 'v) table \<Rightarrow> ('k, 'v) table" where
  "hm_remove k t = tbl_delete (\<lambda>k'. k' = k) t"

definition hm_iter :: "('e, 'o) call_env \<Rightarrow> ('e, 'o) calls \<Rightarrow> (string, 'v) table \<Rightarrow> (string \<times> 'v) list" where
  "hm_iter env s t = List.map_filter (\<lambda>k. map_option (Pair k) (map_of t k)) (ce_order env (cl_tick s) (map fst t))"

definition hm_has :: "'k \<Rightarrow> ('k, 'v) table \<Rightarrow> bool" where
  "hm_has k t \<longleftrightarrow> map_of t k \<noteq> None"

lemma map_of_hm [simp]:
  "map_of (hm_insert k v t) k' = (if k' = k then Some v else map_of t k')"
  "map_of (hm_remove k t) k' = (if k' = k then None else map_of t k')"
  by (auto simp: hm_insert_def hm_remove_def store_simps split: option.split)

lemma hm_iter_sound: "(k, v) \<in> set (hm_iter env s t) \<Longrightarrow> map_of t k = Some v"
  by (auto simp: hm_iter_def List.map_filter_def)

text \<open>Reading the clock or drawing an id; a stanza whose loss is ignored; an event; a media request.\<close>

definition tick :: "('e, 'o) calls \<Rightarrow> ('e, 'o) calls" where
  "tick s = s\<lparr>cl_tick := Suc (cl_tick s)\<rparr>"

definition post :: "('e, 'o) call_env \<Rightarrow> 'e \<Rightarrow> ('e, 'o) calls \<Rightarrow> ('e, 'o) calls" where
  "post env el s = (if ce_connected env then s\<lparr>cl_sent := cl_sent s @ [el]\<rparr> else s)"

definition send_call :: "('e, 'o) call_env \<Rightarrow> 'e \<Rightarrow> ('e, 'o, unit) cact" where
  "send_call env el s = (if ce_connected env then Inr () else Inl ''connection writer closed'', post env el s)"

definition tell :: "call_event \<Rightarrow> ('e, 'o) calls \<Rightarrow> ('e, 'o) calls" where
  "tell ev s = s\<lparr>cl_events := cl_events s @ [ev]\<rparr>"

definition media :: "nat \<Rightarrow> media_cmd \<Rightarrow> ('e, 'o) calls \<Rightarrow> ('e, 'o) calls" where
  "media eng cmd s = s\<lparr>cl_media := cl_media s @ [(eng, cmd)]\<rparr>"

definition media_ok :: "('e, 'o) call_env \<Rightarrow> media_cmd \<Rightarrow> ('e, 'o) calls \<Rightarrow> bool" where
  "media_ok env cmd s = ce_media_ok env (length (cl_media s)) cmd"

definition emit_call :: "('e, 'o) call_env \<Rightarrow> string \<Rightarrow> string \<Rightarrow> bool \<Rightarrow> call_state \<Rightarrow> ('e, 'o) calls \<Rightarrow> ('e, 'o) calls" where
  "emit_call env sid peer video state = tell (Call_Update (ce_account env) sid peer video state)"

definition now_stamp :: "('e, 'o) call_env \<Rightarrow> ('e, 'o) calls \<Rightarrow> string" where
  "now_stamp env s = rfc3339_now (ce_chrono env) (ce_now env (cl_tick s))"

definition on_call :: "string \<Rightarrow> ('e active_call \<Rightarrow> 'e active_call) \<Rightarrow> ('e, 'o) calls \<Rightarrow> ('e, 'o) calls" where
  "on_call sid f s = s\<lparr>cl_active := tbl_update sid f (cl_active s)\<rparr>"

definition drop_active :: "string \<Rightarrow> ('e, 'o) calls \<Rightarrow> ('e, 'o) calls" where
  "drop_active sid s = s\<lparr>cl_active := hm_remove sid (cl_active s)\<rparr>"

subsection \<open>The call history\<close>

definition insert_call_log :: "i64 \<Rightarrow> string \<Rightarrow> string \<Rightarrow> bool \<Rightarrow> bool \<Rightarrow> string \<Rightarrow> (i64 \<times> call_log_entry) list
    \<Rightarrow> (i64 \<times> call_log_entry) list" where
  "insert_call_log account peer direction video answered ts log = log @ [(account,
     \<lparr>cle_peer = peer, cle_direction = direction, cle_video = video, cle_answered = answered, cle_timestamp = ts\<rparr>)]"

definition recent_calls :: "i64 \<Rightarrow> nat \<Rightarrow> (i64 \<times> call_log_entry) list \<Rightarrow> call_log_entry list" where
  "recent_calls account limit log =
     take limit (sort_desc cle_timestamp (map snd (filter (\<lambda>(a, _). a = account) log)))"

definition mark_answered :: "string \<Rightarrow> ('e, 'o) calls \<Rightarrow> ('e, 'o) calls" where
  "mark_answered sid s = s\<lparr>cl_meta := tbl_update sid (\<lambda>m. m\<lparr>cm_answered := True\<rparr>) (cl_meta s)\<rparr>"

definition log_call_end :: "('e, 'o) call_env \<Rightarrow> string \<Rightarrow> ('e, 'o) calls \<Rightarrow> ('e, 'o) calls" where
  "log_call_end env sid s =
     (case map_of (cl_meta s) sid of
        None \<Rightarrow> s
      | Some m \<Rightarrow> s\<lparr>cl_meta := hm_remove sid (cl_meta s),
          cl_log := insert_call_log (ce_account env) (cm_peer m) (if cm_outgoing m then ''out'' else ''in'')
            (cm_video m) (cm_answered m) (cm_ts m) (cl_log s)\<rparr>)"

subsection \<open>Ringing\<close>

definition NS_JMI :: string where "NS_JMI = ''urn:xmpp:jingle-message:0''"
definition NS_OMEMO_DTLS :: string where
  "NS_OMEMO_DTLS = ''http://gultsch.de/xmpp/drafts/omemo/dlts-srtp-verification''"

definition chat_to :: "('e, 'z) dom_scheme \<Rightarrow> string \<Rightarrow> 'e" where
  "chat_to d to = d_with_attr d ''type'' ''chat'' (d_with_attr d ''to'' to (d_bare d ''message'' NS_CLIENT))"

definition jmi_with_device :: "('e, 'z) dom_scheme \<Rightarrow> string \<Rightarrow> string \<Rightarrow> string \<Rightarrow> u32 option \<Rightarrow> 'e" where
  "jmi_with_device d to action sid own_device =
     (let intent = d_with_attr d ''id'' sid (d_bare d action NS_JMI);
          intent = (case own_device of None \<Rightarrow> intent
            | Some dev \<Rightarrow> d_with_child d (d_with_attr d ''id'' (show_u32 dev) (d_bare d ''device'' NS_OMEMO_DTLS)) intent)
      in with_children d [intent, hint d ''store''] (chat_to d to))"

definition jmi :: "('e, 'z) dom_scheme \<Rightarrow> string \<Rightarrow> string \<Rightarrow> string \<Rightarrow> 'e" where
  "jmi d to action sid = jmi_with_device d to action sid None"

definition new_meta :: "('e, 'o) call_env \<Rightarrow> string \<Rightarrow> string \<Rightarrow> bool \<Rightarrow> bool \<Rightarrow> ('e, 'o) calls \<Rightarrow> ('e, 'o) calls" where
  "new_meta env sid peer outgoing video s = tick (s\<lparr>cl_meta := hm_insert sid
     \<lparr>cm_peer = peer, cm_outgoing = outgoing, cm_video = video, cm_answered = False, cm_ts = now_stamp env s\<rparr>
     (cl_meta s)\<rparr>)"

definition rtp_description :: "('e, 'z) dom_scheme \<Rightarrow> string \<Rightarrow> 'e" where
  "rtp_description d m = d_with_attr d ''media'' m (d_bare d ''description'' NS_RTP)"

definition propose :: "('e, 'o) call_env \<Rightarrow> string \<Rightarrow> string \<Rightarrow> bool \<Rightarrow> ('e, 'o, unit) cact" where
  "propose env to sid video =
     (let d = ce_dom env;
          p = with_children d (rtp_description d ''audio'' # (if video then [rtp_description d ''video''] else []))
                (d_with_attr d ''id'' sid (d_bare d ''propose'' NS_JMI)) in
      act_bind (act_modify (\<lambda>s. new_meta env sid (to_bare to) True video
          (s\<lparr>cl_proposed := hm_insert sid video (cl_proposed s)\<rparr>))) (\<lambda>_.
        send_call env (with_children d [p, d_bare d ''request'' NS_RECEIPTS, hint d ''store''] (chat_to d to))))"

definition reject :: "('e, 'o) call_env \<Rightarrow> string \<Rightarrow> string \<Rightarrow> string \<Rightarrow> ('e, 'o, unit) cact" where
  "reject env caller own_bare sid =
     act_bind (act_modify (\<lambda>s. log_call_end env sid (s\<lparr>cl_incoming := hm_remove sid (cl_incoming s)\<rparr>))) (\<lambda>_.
     act_bind (send_call env (jmi (ce_dom env) caller ''reject'' sid)) (\<lambda>_.
       send_call env (jmi (ce_dom env) own_bare ''reject'' sid)))"

definition retract :: "('e, 'o) call_env \<Rightarrow> string \<Rightarrow> string \<Rightarrow> ('e, 'o, unit) cact" where
  "retract env to sid =
     act_bind (act_modify (\<lambda>s. s\<lparr>cl_proposed := hm_remove sid (cl_proposed s)\<rparr>)) (\<lambda>_.
       send_call env (jmi (ce_dom env) to ''retract'' sid))"

subsection \<open>Jingle stanzas\<close>

definition jingle_iq :: "('e, 'z) dom_scheme \<Rightarrow> string \<Rightarrow> string \<Rightarrow> string \<Rightarrow> string \<Rightarrow> string \<Rightarrow> 'e list \<Rightarrow> 'e" where
  "jingle_iq d req_id to sid initiator action body =
     d_with_child d
       (with_children d body (d_with_attr d ''initiator'' initiator (d_with_attr d ''sid'' sid
          (d_with_attr d ''action'' action (d_bare d ''jingle'' NS_JINGLE)))))
       (d_with_attr d ''id'' req_id (d_with_attr d ''to'' to (d_with_attr d ''type'' ''set'' (d_bare d ''iq'' NS_CLIENT))))"

definition send_jingle :: "('e, 'o) call_env \<Rightarrow> string \<Rightarrow> string \<Rightarrow> string \<Rightarrow> string \<Rightarrow> 'e list
    \<Rightarrow> ('e, 'o) calls \<Rightarrow> ('e, 'o) calls" where
  "send_jingle env to sid initiator action body s =
     post env (jingle_iq (ce_dom env) (ce_new_id env ''jingle'' (cl_tick s)) to sid initiator action body) (tick s)"

definition ack :: "('e, 'o) call_env \<Rightarrow> 'e \<Rightarrow> ('e, 'o) calls \<Rightarrow> ('e, 'o) calls" where
  "ack env iq = post env (let d = ce_dom env in
     mirrored d [(''from'', ''to''), (''id'', ''id'')] iq (d_with_attr d ''type'' ''result'' (d_bare d ''iq'' NS_CLIENT)))"

definition end_reason :: "('e, 'z) dom_scheme \<Rightarrow> string \<Rightarrow> 'e" where
  "end_reason d condition = d_with_child d (d_bare d condition NS_JINGLE) (d_bare d ''reason'' NS_JINGLE)"

definition terminate :: "('e, 'o) call_env \<Rightarrow> string \<Rightarrow> string \<Rightarrow> string \<Rightarrow> ('e, 'o) calls \<Rightarrow> ('e, 'o) calls" where
  "terminate env to sid condition = send_jingle env to sid [] ''session-terminate'' [end_reason (ce_dom env) condition]"

text \<open>Username, password and first section of our own description.\<close>

definition first_set :: "string \<Rightarrow> string \<Rightarrow> string" where
  "first_set cur v = (if cur = [] then str_trim v else cur)"

definition transport_line :: "string \<Rightarrow> string \<times> string \<times> string \<Rightarrow> string \<times> string \<times> string" where
  "transport_line line acc = (case acc of (ufrag, pwd, mid) \<Rightarrow>
     (case strip_prefix line ''a=ice-ufrag:'' of
        Some v \<Rightarrow> (first_set ufrag v, pwd, mid)
      | None \<Rightarrow> (case strip_prefix line ''a=ice-pwd:'' of
          Some v \<Rightarrow> (ufrag, first_set pwd v, mid)
        | None \<Rightarrow> (case strip_prefix line ''a=mid:'' of
            Some v \<Rightarrow> (ufrag, pwd, first_set mid v)
          | None \<Rightarrow> (ufrag, pwd, mid)))))"

definition local_transport :: "string \<Rightarrow> string \<times> string \<times> string" where
  "local_transport sdp = (case fold transport_line (str_lines sdp) ([], [], []) of
     (ufrag, pwd, mid) \<Rightarrow> (ufrag, pwd, if mid = [] then ''0'' else mid))"

definition terminate_local :: "string \<Rightarrow> ('e, 'o) calls \<Rightarrow> ('e, 'o) calls" where
  "terminate_local sid s = (case map_of (cl_active s) sid of
     None \<Rightarrow> s | Some c \<Rightarrow> media (ac_engine c) Engine_Hang_Up (drop_active sid s))"

text \<open>A leg of a conference is ended with a reason to the peer, if it is there.\<close>

definition end_leg :: "('e, 'o) call_env \<Rightarrow> string \<Rightarrow> string \<Rightarrow> ('e, 'o) calls \<Rightarrow> ('e, 'o) calls" where
  "end_leg env sid addr s = (case map_of (cl_active s) sid of
     None \<Rightarrow> s | Some c \<Rightarrow> media (ac_engine c) Engine_Hang_Up (terminate env addr sid ''success'' (drop_active sid s)))"

subsection \<open>A media session\<close>

definition start_call :: "('e, 'o) call_env \<Rightarrow> string \<Rightarrow> string \<Rightarrow> role \<Rightarrow> bool \<Rightarrow> string option \<Rightarrow> string
    \<Rightarrow> ('e, 'o, unit) cact" where
  "start_call env sid peer_full role video room initiator s =
     (let eng = cl_tick s; cmd = Engine_New role video (room \<noteq> None); ok = media_ok env cmd s;
          s = tick (media eng cmd s) in
      if \<not> ok then (Inl ''media engine'', s)
      else (Inr (), s\<lparr>
        cl_active := hm_insert sid \<lparr>ac_engine = eng, ac_peer_full = peer_full, ac_remote_contents = [],
            ac_video = video, ac_pending_video = [], ac_peer_used_omemo = False, ac_room = room\<rparr> (cl_active s),
        cl_pumps := hm_insert eng \<lparr>pu_sid = sid, pu_peer_full = peer_full, pu_room = room, pu_initiator = initiator,
            pu_video = video, pu_ufrag = [], pu_pwd = [], pu_mid = ''0''\<rparr> (cl_pumps s)\<rparr>))"

subsection \<open>Microphone and camera\<close>

definition on_engine_of :: "string \<Rightarrow> media_cmd \<Rightarrow> ('e, 'o) calls \<Rightarrow> ('e, 'o) calls" where
  "on_engine_of sid cmd s = (case map_of (cl_active s) sid of None \<Rightarrow> s | Some c \<Rightarrow> media (ac_engine c) cmd s)"

definition set_mute :: "string \<Rightarrow> bool \<Rightarrow> ('e, 'o) calls \<Rightarrow> ('e, 'o) calls" where
  "set_mute sid muted = on_engine_of sid (Set_Mic_Muted muted)"

definition set_camera :: "string \<Rightarrow> bool \<Rightarrow> ('e, 'o) calls \<Rightarrow> ('e, 'o) calls" where
  "set_camera sid enabled = on_engine_of sid (Set_Video_Enabled enabled)"

definition start_screen_share :: "string \<Rightarrow> nat \<Rightarrow> ('e, 'o) calls \<Rightarrow> ('e, 'o) calls" where
  "start_screen_share sid screen = on_engine_of sid (Start_Screen screen)"

definition stop_screen_share :: "string \<Rightarrow> ('e, 'o) calls \<Rightarrow> ('e, 'o) calls" where
  "stop_screen_share sid = on_engine_of sid Stop_Screen"

definition upgrade_to_video :: "string \<Rightarrow> ('e, 'o) calls \<Rightarrow> ('e, 'o) calls" where
  "upgrade_to_video sid s = (case map_of (cl_active s) sid of
     None \<Rightarrow> s | Some c \<Rightarrow> if ac_video c then s else media (ac_engine c) Upgrade_To_Video s)"

end
