(* ===== verification/Call_Trust.thy ===== *)
theory Call_Trust
  imports Calls
begin

text \<open>
  The DTLS fingerprints of a call, authenticated with OMEMO (\<open>crates/mxc-proto/src/xeps/jingle.rs\<close>): our
  own put into an envelope encrypted to the peer, the peer's taken out of one and put where the media
  engine looks for it, with the trust the store has in the device it came from.
\<close>

text \<open>Name, namespace and attributes of an element, without its children.\<close>

definition shell :: "('e, 'o) call_env \<Rightarrow> string \<Rightarrow> 'e \<Rightarrow> 'e" where
  "shell env name e = fold (\<lambda>(k, v). d_with_attr (ce_dom env) k v) (ce_attrs env e) (d_bare (ce_dom env) name (d_ns (ce_dom env) e))"

definition replace_child :: "('e, 'o) call_env \<Rightarrow> string \<Rightarrow> string \<Rightarrow> 'e \<Rightarrow> 'e \<Rightarrow> 'e" where
  "replace_child env name child e new_child = with_children (ce_dom env)
     (filter (\<lambda>c. d_name (ce_dom env) c \<noteq> child) (d_children (ce_dom env) e) @ [new_child]) (shell env name e)"

definition transport_with_fingerprint :: "('e, 'o) call_env \<Rightarrow> 'e \<Rightarrow> 'e \<Rightarrow> 'e" where
  "transport_with_fingerprint env transport new_fp = replace_child env ''transport'' ''fingerprint'' transport new_fp"

definition content_with_transport :: "('e, 'o) call_env \<Rightarrow> 'e \<Rightarrow> 'e \<Rightarrow> 'e" where
  "content_with_transport env content new_transport = replace_child env ''content'' ''transport'' content new_transport"

definition dtls_fingerprint :: "('e, 'z) dom_scheme \<Rightarrow> string \<Rightarrow> string \<Rightarrow> string \<Rightarrow> 'e" where
  "dtls_fingerprint d setup hash text =
     d_with_text d text (d_with_attr d ''hash'' hash (d_with_attr d ''setup'' setup (d_bare d ''fingerprint'' NS_DTLS)))"

subsection \<open>Ours\<close>

definition fp_inner :: "string \<Rightarrow> string \<Rightarrow> string \<Rightarrow> string" where
  "fp_inner hash setup hex =
     (let q = [CHR 0x27] in
      ''<fingerprint xmlns='' @ q @ NS_DTLS @ q @ '' hash='' @ q @ hash @ q @ '' setup='' @ q @ setup @ q @ ''>''
      @ str_trim hex @ ''</fingerprint>'')"

definition encrypt_one_fingerprint :: "('e, 'o) call_env \<Rightarrow> string \<Rightarrow> 'e \<Rightarrow> ('e, 'o) calls \<Rightarrow> 'e \<times> ('e, 'o) calls" where
  "encrypt_one_fingerprint env peer_bare content s =
     (let d = ce_dom env in
      case get_child d content ''transport'' NS_ICE of
        None \<Rightarrow> (content, s)
      | Some transport \<Rightarrow>
      (case get_child d transport ''fingerprint'' NS_DTLS of
        None \<Rightarrow> (content, s)
      | Some fp \<Rightarrow>
         (let setup = attr_or d fp ''setup'' ''actpass''; hash = attr_or d fp ''hash'' ''sha-256'';
              envelope = envelope_with_content (fp_inner hash setup (d_text d fp)) (ce_bare env) peer_bare
                (Some (now_stamp env s));
              xml = envelope_to_xml (ce_xml env) (ce_pad env (cl_tick s)) envelope;
              (r, om) = ce_encrypt env peer_bare xml (cl_omemo s);
              s = (tick s)\<lparr>cl_omemo := om\<rparr>
          in case r of
               Inl _ \<Rightarrow> (content, s)
             | Inr encrypted \<Rightarrow>
                 (content_with_transport env content (transport_with_fingerprint env transport
                    (d_with_child d encrypted (d_with_attr d ''hash'' hash (d_with_attr d ''setup'' setup
                      (d_bare d ''fingerprint'' NS_OMEMO_DTLS))))), s))))"

fun encrypt_call_fingerprints :: "('e, 'o) call_env \<Rightarrow> string \<Rightarrow> 'e list \<Rightarrow> ('e, 'o) calls \<Rightarrow> 'e list \<times> ('e, 'o) calls" where
  "encrypt_call_fingerprints env peer_bare [] s = ([], s)"
| "encrypt_call_fingerprints env peer_bare (c # cs) s =
     (let (c', s) = encrypt_one_fingerprint env peer_bare c s;
          (cs', s) = encrypt_call_fingerprints env peer_bare cs s in (c' # cs', s))"

subsection \<open>The peer's\<close>

type_synonym verified = "string \<times> i64 \<times> i64"

text \<open>Decryption of the element in a transport, if it has one, and the envelope in it.\<close>

definition omemo_fingerprint :: "('e, 'z) dom_scheme \<Rightarrow> 'e \<Rightarrow> ('e \<times> 'e \<times> 'e) option" where
  "omemo_fingerprint d content =
     Option.bind (get_child d content ''transport'' NS_ICE) (\<lambda>transport.
     Option.bind (get_child d transport ''fingerprint'' NS_OMEMO_DTLS) (\<lambda>ofp.
     Option.bind (find (\<lambda>c. d_name d c = ''encrypted'') (d_children d ofp)) (\<lambda>encrypted.
       Some (transport, ofp, encrypted))))"

definition inner_fingerprint :: "('e, 'o) call_env \<Rightarrow> decrypted \<Rightarrow> (envelope \<times> 'e) option" where
  "inner_fingerprint env dec =
     (case envelope_from_xml (ce_xml env) (utf8_lossy (dec_envelope dec)) of
        Inl _ \<Rightarrow> None
      | Inr e \<Rightarrow> Option.bind (d_parse (ce_dom env) (''<c xmlns='' @ [CHR 0x27] @ ''urn:x'' @ [CHR 0x27] @ ''>'' @ env_content_inner e @ ''</c>''))
          (\<lambda>parsed. map_option (Pair e) (get_child (ce_dom env) parsed ''fingerprint'' NS_DTLS)))"

definition call_trust :: "bool \<Rightarrow> i64 option \<Rightarrow> i64" where
  "call_trust bound store_trust =
     (if \<not> bound then 0 else if store_trust = Some 1 then 1 else if store_trust = Some 3 then 2 else 0)"

definition decrypt_one_fingerprint :: "('e, 'o) call_env \<Rightarrow> string \<Rightarrow> 'e \<Rightarrow> ('e, 'o) calls
    \<Rightarrow> ('e \<times> verified option) \<times> ('e, 'o) calls" where
  "decrypt_one_fingerprint env sender_bare content s =
     (let d = ce_dom env in
      case omemo_fingerprint d content of
        None \<Rightarrow> ((content, None), s)
      | Some (transport, ofp, encrypted) \<Rightarrow>
         (let setup = attr_or d ofp ''setup'' ''active''; hash = attr_or d ofp ''hash'' ''sha-256'';
              (r, om) = ce_decrypt env encrypted sender_bare (Some (ce_bare env)) (cl_omemo s);
              s = s\<lparr>cl_omemo := om\<rparr>
          in case r of
               Inl _ \<Rightarrow> ((content, None), s)
             | Inr dec \<Rightarrow>
             (case inner_fingerprint env dec of
               None \<Rightarrow> ((content, None), s)
             | Some (e, fpe) \<Rightarrow>
                 (let bound = (case verify_binding e (ce_bare env) sender_bare of Inl _ \<Rightarrow> False | Inr _ \<Rightarrow> True);
                      new_fp = dtls_fingerprint d (attr_or d fpe ''setup'' setup) (attr_or d fpe ''hash'' hash)
                        (str_trim (d_text d fpe));
                      dev = uint (dec_sender_device dec);
                      level = call_trust bound (ce_trust env sender_bare dev (cl_omemo s))
                  in ((content_with_transport env content (transport_with_fingerprint env transport new_fp),
                       Some (dec_fingerprint dec, dev, level)), s)))))"

text \<open>All contents; the verdict is that of the last content that has one.\<close>

fun decrypt_call_fingerprints :: "('e, 'o) call_env \<Rightarrow> string \<Rightarrow> 'e list \<Rightarrow> verified option \<Rightarrow> ('e, 'o) calls
    \<Rightarrow> ('e list \<times> verified option) \<times> ('e, 'o) calls" where
  "decrypt_call_fingerprints env sender_bare [] verified s = (([], verified), s)"
| "decrypt_call_fingerprints env sender_bare (c # cs) verified s =
     (let ((c', v), s) = decrypt_one_fingerprint env sender_bare c s;
          ((cs', verified), s) = decrypt_call_fingerprints env sender_bare cs (if v = None then verified else v) s
      in ((c' # cs', verified), s))"

end
