(* ===== verification/Conference.thy ===== *)
theory Conference
  imports Calls
begin

text \<open>
  Group calls: the coordination through room presence (\<open>crates/mxc-proto/src/xeps/muji.rs\<close>) and the mesh
  of sessions between the participants (the second half of \<open>xeps/jingle.rs\<close>).
\<close>

definition NS_MUJI :: string where "NS_MUJI = ''urn:xmpp:jingle:muji:0''"

subsection \<open>Presence\<close>

definition payload_type :: "('e, 'z) dom_scheme \<Rightarrow> (string \<times> string) list \<Rightarrow> 'e" where
  "payload_type d attrs = fold (\<lambda>(k, v). d_with_attr d k v) attrs (d_bare d ''payload-type'' NS_RTP)"

definition muji_content :: "('e, 'z) dom_scheme \<Rightarrow> string \<Rightarrow> string \<Rightarrow> (string \<times> string) list \<Rightarrow> 'e" where
  "muji_content d name kind params =
     d_with_child d (d_with_child d (payload_type d params) (rtp_description d kind))
       (d_with_attr d ''name'' name (d_with_attr d ''creator'' ''initiator'' (d_bare d ''content'' NS_MUJI)))"

definition muji_payload :: "('e, 'z) dom_scheme \<Rightarrow> bool \<Rightarrow> bool \<Rightarrow> u32 option \<Rightarrow> 'e" where
  "muji_payload d prepared video device =
     (let muji = d_bare d ''muji'' NS_MUJI;
          muji = (case device of None \<Rightarrow> muji | Some dev \<Rightarrow> d_with_attr d ''device'' (show_u32 dev) muji) in
      if \<not> prepared then d_with_child d (d_bare d ''preparing'' NS_MUJI) muji
      else with_children d
        (muji_content d ''voice'' ''audio''
           [(''id'', ''111''), (''name'', ''opus''), (''clockrate'', ''48000''), (''channels'', ''2'')]
         # (if video then [muji_content d ''webcam'' ''video''
             [(''id'', ''96''), (''name'', ''VP8''), (''clockrate'', ''90000'')]] else []))
        muji)"

definition occupant_jid :: "string \<Rightarrow> string \<Rightarrow> string" where
  "occupant_jid room nick = room @ ''/'' @ nick"

definition send_muji_presence :: "('e, 'o) call_env \<Rightarrow> string \<Rightarrow> string \<Rightarrow> 'e option \<Rightarrow> ('e, 'o) calls \<Rightarrow> ('e, 'o) calls" where
  "send_muji_presence env room nick muji =
     (let d = ce_dom env in
      post env (with_children d (caps_element d (ce_sha1 env) (ce_b64 env) # (case muji of None \<Rightarrow> [] | Some m \<Rightarrow> [m]))
        (d_with_attr d ''to'' (occupant_jid room nick) (d_bare d ''presence'' NS_CLIENT))))"

definition parse_muji_state :: "('e, 'z) dom_scheme \<Rightarrow> 'e \<Rightarrow> muji_state option" where
  "parse_muji_state d presence = map_option (\<lambda>muji.
     if get_child d muji ''preparing'' NS_MUJI \<noteq> None then Preparing
     else if list_ex (\<lambda>c. d_name d c = ''content'') (d_children d muji) then Ready
     else Preparing) (get_child d presence ''muji'' NS_MUJI)"

text \<open>Of two participants the one with the greater name begins.\<close>

definition should_initiate :: "string \<Rightarrow> string \<Rightarrow> bool" where
  "should_initiate mine theirs \<longleftrightarrow> theirs < mine"

subsection \<open>Members\<close>

definition after_slash :: "string \<Rightarrow> string" where
  "after_slash s = last (split_on (CHR ''/'') s)"

definition participant :: "member \<Rightarrow> conf_participant" where
  "participant m = \<lparr>cp_jid = mb_occupant_jid m, cp_name = after_slash (mb_occupant_jid m),
     cp_state = member_state_str (mb_state m), cp_sid = (case mb_sid m of None \<Rightarrow> [] | Some sid \<Rightarrow> sid)\<rparr>"

definition emit_conference :: "('e, 'o) call_env \<Rightarrow> string \<Rightarrow> ('e, 'o) calls \<Rightarrow> ('e, 'o) calls" where
  "emit_conference env room s = tell (case map_of (cl_conferences s) room of
       None \<Rightarrow> Conference_Update (ce_account env) room False False []
     | Some conf \<Rightarrow> Conference_Update (ce_account env) room True (cf_video conf)
         (map (\<lambda>(_, m). participant m) (hm_iter env s (cf_members conf)))) s"

definition on_conf :: "string \<Rightarrow> (conference \<Rightarrow> conference) \<Rightarrow> ('e, 'o) calls \<Rightarrow> ('e, 'o) calls" where
  "on_conf room f s = s\<lparr>cl_conferences := tbl_update room f (cl_conferences s)\<rparr>"

definition on_members :: "((string, member) table \<Rightarrow> (string, member) table) \<Rightarrow> conference \<Rightarrow> conference" where
  "on_members f conf = conf\<lparr>cf_members := f (cf_members conf)\<rparr>"

definition fresh_member :: "string \<Rightarrow> string \<Rightarrow> nat \<Rightarrow> member" where
  "fresh_member occupant real_jid now = \<lparr>mb_occupant_jid = occupant, mb_real_jid = real_jid, mb_sid = None,
     mb_state = M_Connecting, mb_connecting_since = now\<rparr>"

definition instant :: "('e, 'o) call_env \<Rightarrow> ('e, 'o) calls \<Rightarrow> nat" where
  "instant env s = ce_instant env (cl_tick s)"

definition ensure_member :: "('e, 'o) call_env \<Rightarrow> string \<Rightarrow> string \<Rightarrow> string \<Rightarrow> ('e, 'o) calls \<Rightarrow> ('e, 'o) calls" where
  "ensure_member env room occupant real_jid s = tick (on_conf room (on_members
     (tbl_upsert occupant (fresh_member occupant real_jid (instant env s)) (\<lambda>m. m))) s)"

definition register_member_session :: "('e, 'o) call_env \<Rightarrow> string \<Rightarrow> string \<Rightarrow> string \<Rightarrow> string \<Rightarrow> ('e, 'o) calls
    \<Rightarrow> ('e, 'o) calls" where
  "register_member_session env room occupant real_jid sid s =
     (let begun = (\<lambda>m. m\<lparr>mb_real_jid := real_jid, mb_sid := Some sid, mb_state := M_Connecting,
        mb_connecting_since := instant env s\<rparr>) in
      tick (on_conf room (on_members
        (tbl_upsert occupant (begun (fresh_member occupant real_jid (instant env s))) begun)) s))"

definition apply_conf_state_to_leg :: "string \<Rightarrow> string \<Rightarrow> ('e, 'o) calls \<Rightarrow> ('e, 'o) calls" where
  "apply_conf_state_to_leg room sid s =
     (case map_of (cl_conferences s) room of
        None \<Rightarrow> s
      | Some conf \<Rightarrow>
          (let s = (if cf_muted conf then set_mute sid True s else s) in
           if cf_camera_enabled conf then s else set_camera sid False s))"

definition owners_of :: "('e, 'o) call_env \<Rightarrow> string \<Rightarrow> ('e, 'o) calls \<Rightarrow> (string \<times> string) list" where
  "owners_of env sid s = [(room, occ). (room, conf) \<leftarrow> hm_iter env s (cl_conferences s),
     (occ, m) \<leftarrow> hm_iter env s (cf_members conf), mb_sid m = Some sid]"

definition set_member_state :: "('e, 'o) call_env \<Rightarrow> string \<Rightarrow> member_state \<Rightarrow> ('e, 'o) calls \<Rightarrow> ('e, 'o) calls" where
  "set_member_state env sid st s =
     (case owners_of env sid s of
        [] \<Rightarrow> s
      | (room, occ) # _ \<Rightarrow> on_conf room (on_members (tbl_update occ (\<lambda>m. m\<lparr>mb_state := st\<rparr>))) s)"

subsection \<open>Sessions with the others\<close>

definition has_connecting_leg :: "string \<Rightarrow> ('e, 'o) calls \<Rightarrow> bool" where
  "has_connecting_leg room s = (case map_of (cl_conferences s) room of
     None \<Rightarrow> False
   | Some conf \<Rightarrow> list_ex (\<lambda>(_, m). mb_sid m \<noteq> None \<and> mb_state m = M_Connecting) (cf_members conf))"

definition has_session :: "conference \<Rightarrow> string \<Rightarrow> bool" where
  "has_session conf occupant \<longleftrightarrow> Option.bind (map_of (cf_members conf) occupant) mb_sid \<noteq> None"

definition initiate_leg :: "('e, 'o) call_env \<Rightarrow> string \<Rightarrow> string \<Rightarrow> string \<Rightarrow> bool \<Rightarrow> string \<Rightarrow> ('e, 'o) calls
    \<Rightarrow> ('e, 'o) calls" where
  "initiate_leg env room peer_occupant peer_addr video our_occ s =
     (let sid = ce_new_id env ''muji'' (cl_tick s) in
      case start_call env sid peer_addr Caller video (Some room) our_occ (tick s) of
        (Inl _, s) \<Rightarrow> s
      | (Inr _, s) \<Rightarrow> apply_conf_state_to_leg room sid (register_member_session env room peer_occupant peer_addr sid s))"

definition maybe_initiate :: "('e, 'o) call_env \<Rightarrow> string \<Rightarrow> string \<Rightarrow> string \<Rightarrow> bool \<Rightarrow> ('e, 'o) calls
    \<Rightarrow> ('e, 'o) calls" where
  "maybe_initiate env room peer_occupant peer_addr video s =
     (case map_of (cl_conferences s) room of
        None \<Rightarrow> s
      | Some conf \<Rightarrow>
          if has_session conf peer_occupant then s
          else if should_initiate (cf_our_occupant conf) peer_occupant then
            (if has_connecting_leg room s then s
             else emit_conference env room (initiate_leg env room peer_occupant peer_addr video (cf_our_occupant conf) s))
          else emit_conference env room (ensure_member env room peer_occupant peer_addr s))"

definition seen_in :: "('e, 'o) call_env \<Rightarrow> string \<Rightarrow> ('e, 'o) calls \<Rightarrow> (string \<times> muji_peer) list" where
  "seen_in env room s = (case map_of (cl_muji_seen s) room of None \<Rightarrow> [] | Some seen \<Rightarrow> hm_iter env s seen)"

definition ready_peers :: "('e, 'o) call_env \<Rightarrow> string \<Rightarrow> ('e, 'o) calls \<Rightarrow> (string \<times> string) list" where
  "ready_peers env room s = map (\<lambda>(occ, p). (occ, mp_real_jid p)) (filter (\<lambda>(_, p). mp_state p = Ready) (seen_in env room s))"

definition initiate_next_pending :: "('e, 'o) call_env \<Rightarrow> string \<Rightarrow> bool \<Rightarrow> ('e, 'o) calls \<Rightarrow> ('e, 'o) calls" where
  "initiate_next_pending env room video s =
     (if has_connecting_leg room s then s
      else case map_of (cl_conferences s) room of
        None \<Rightarrow> s
      | Some conf \<Rightarrow>
          (case filter (\<lambda>(occ, _). should_initiate (cf_our_occupant conf) occ \<and> \<not> has_session conf occ)
              (ready_peers env room s) of
             [] \<Rightarrow> s
           | (occ, addr) # _ \<Rightarrow> maybe_initiate env room occ addr video s))"

definition initiate_all :: "('e, 'o) call_env \<Rightarrow> string \<Rightarrow> bool \<Rightarrow> (string \<times> string) list \<Rightarrow> ('e, 'o) calls
    \<Rightarrow> ('e, 'o) calls" where
  "initiate_all env room video = fold (\<lambda>(occ, addr). maybe_initiate env room occ addr video)"

definition STUCK_AFTER :: nat where "STUCK_AFTER = 12 * 10 ^ 9"

definition stale :: "('e, 'o) call_env \<Rightarrow> ('e, 'o) calls \<Rightarrow> member \<Rightarrow> bool" where
  "stale env s m \<longleftrightarrow> mb_state m = M_Ended
     \<or> mb_state m = M_Connecting \<and> STUCK_AFTER < instant env s - mb_connecting_since m"

definition drop_member :: "('e, 'o) call_env \<Rightarrow> string \<Rightarrow> string \<times> member \<Rightarrow> ('e, 'o) calls \<Rightarrow> ('e, 'o) calls" where
  "drop_member env room om s = (case om of (occ, m) \<Rightarrow>
     (let s = on_conf room (on_members (hm_remove occ)) s in
      case mb_sid m of None \<Rightarrow> s | Some sid \<Rightarrow> end_leg env sid (mb_real_jid m) s))"

definition remesh :: "('e, 'o) call_env \<Rightarrow> string \<Rightarrow> ('e, 'o) calls \<Rightarrow> ('e, 'o) calls" where
  "remesh env room s =
     (case map_of (cl_conferences s) room of
        None \<Rightarrow> s
      | Some conf \<Rightarrow>
          (let to_drop = filter (\<lambda>(_, m). stale env s m) (hm_iter env s (cf_members conf));
               s = fold (drop_member env room) to_drop (tick s);
               video = (case map_of (cl_conferences s) room of None \<Rightarrow> False | Some c \<Rightarrow> cf_video c);
               s = initiate_all env room video (ready_peers env room s) s
           in if to_drop = [] then s else emit_conference env room s))"

definition remove_member :: "('e, 'o) call_env \<Rightarrow> string \<Rightarrow> string \<Rightarrow> ('e, 'o) calls \<Rightarrow> ('e, 'o) calls" where
  "remove_member env room occupant s =
     (case Option.bind (map_of (cl_conferences s) room) (\<lambda>conf. map_of (cf_members conf) occupant) of
        None \<Rightarrow> s
      | Some m \<Rightarrow> drop_member env room (occupant, m) s)"

subsection \<open>Joining and leaving\<close>

definition place_group_call :: "('e, 'o) call_env \<Rightarrow> string \<Rightarrow> bool \<Rightarrow> ('e, 'o) calls \<Rightarrow> ('e, 'o) calls" where
  "place_group_call env room video s =
     (if \<not> muc_omemo_capable (ce_account env) room (cl_messages s) then s
      else case muc_nick_by_jid (ce_account env) room (cl_messages s) of
        None \<Rightarrow> s
      | Some nick \<Rightarrow>
          (let d = ce_dom env; had_invite = (room \<in> set (cl_invited s));
               s = s\<lparr>cl_conferences := hm_insert room \<lparr>cf_nick = nick, cf_our_occupant = occupant_jid room nick,
                     cf_video = video, cf_muted = False, cf_camera_enabled = True, cf_screen = None, cf_members = []\<rparr>
                     (cl_conferences s),
                   cl_invited := removeAll room (cl_invited s)\<rparr>;
               s = (if had_invite then tell (Conference_Invite_Cancelled (ce_account env) room) s else s);
               (own, om) = ce_own_device env (cl_omemo s);
               s = s\<lparr>cl_omemo := om\<rparr>;
               device = (case own of Inl _ \<Rightarrow> None | Inr dev \<Rightarrow> Some dev);
               s = send_muji_presence env room nick (Some (muji_payload d False video device)) s;
               s = send_muji_presence env room nick (Some (muji_payload d True video device)) s;
               s = initiate_all env room video (ready_peers env room s) s
           in emit_conference env room s))"

text \<open>Every eight seconds while the conference is there.\<close>

definition remesh_tick :: "('e, 'o) call_env \<Rightarrow> string \<Rightarrow> ('e, 'o) calls \<Rightarrow> ('e, 'o) calls" where
  "remesh_tick env room s = (if hm_has room (cl_conferences s) then remesh env room s else s)"

definition sessions_of :: "('e, 'o) call_env \<Rightarrow> ('e, 'o) calls \<Rightarrow> conference \<Rightarrow> (string \<times> string) list" where
  "sessions_of env s conf = List.map_filter (\<lambda>(_, m). map_option (\<lambda>sid. (sid, mb_real_jid m)) (mb_sid m))
     (hm_iter env s (cf_members conf))"

definition leave_group_call :: "('e, 'o) call_env \<Rightarrow> string \<Rightarrow> ('e, 'o) calls \<Rightarrow> ('e, 'o) calls" where
  "leave_group_call env room s =
     emit_conference env room (case map_of (cl_conferences s) room of
        None \<Rightarrow> s
      | Some conf \<Rightarrow> fold (\<lambda>(sid, addr). end_leg env sid addr) (sessions_of env s conf)
          (send_muji_presence env room (cf_nick conf) None
            (s\<lparr>cl_conferences := hm_remove room (cl_conferences s)\<rparr>)))"

subsection \<open>Microphone, camera, screen\<close>

definition each_leg :: "('e, 'o) call_env \<Rightarrow> string \<Rightarrow> (string \<Rightarrow> ('e, 'o) calls \<Rightarrow> ('e, 'o) calls) \<Rightarrow> ('e, 'o) calls
    \<Rightarrow> ('e, 'o) calls" where
  "each_leg env room f s = (case map_of (cl_conferences s) room of
     None \<Rightarrow> s | Some conf \<Rightarrow> fold (\<lambda>(sid, _). f sid) (sessions_of env s conf) s)"

definition set_group_mute :: "('e, 'o) call_env \<Rightarrow> string \<Rightarrow> bool \<Rightarrow> ('e, 'o) calls \<Rightarrow> ('e, 'o) calls" where
  "set_group_mute env room muted s =
     each_leg env room (\<lambda>sid. set_mute sid muted) (on_conf room (\<lambda>c. c\<lparr>cf_muted := muted\<rparr>) s)"

definition set_group_camera :: "('e, 'o) call_env \<Rightarrow> string \<Rightarrow> bool \<Rightarrow> ('e, 'o) calls \<Rightarrow> ('e, 'o) calls" where
  "set_group_camera env room enabled s =
     each_leg env room (\<lambda>sid. set_camera sid enabled) (on_conf room (\<lambda>c. c\<lparr>cf_camera_enabled := enabled\<rparr>) s)"

text \<open>The shared camera hub of \<open>mxc_media\<close> takes the screen; whether it can is an argument.\<close>

definition start_group_screen_share :: "string \<Rightarrow> nat \<Rightarrow> bool \<Rightarrow> ('e, 'o) calls \<Rightarrow> ('e, 'o) calls" where
  "start_group_screen_share room screen hub_ok s =
     (if \<not> hm_has room (cl_conferences s) then s
      else let s = on_conf room (\<lambda>c. c\<lparr>cf_screen := Some screen\<rparr>) s in
        if hub_ok then s else on_conf room (\<lambda>c. c\<lparr>cf_screen := None\<rparr>) s)"

definition stop_group_screen_share :: "string \<Rightarrow> ('e, 'o) calls \<Rightarrow> ('e, 'o) calls" where
  "stop_group_screen_share room = on_conf room (\<lambda>c. c\<lparr>cf_screen := None\<rparr>)"

definition group_screen_sharing :: "string \<Rightarrow> ('e, 'o) calls \<Rightarrow> bool" where
  "group_screen_sharing room s \<longleftrightarrow> Option.bind (map_of (cl_conferences s) room) cf_screen \<noteq> None"

subsection \<open>Presence of the others\<close>

definition self_presence :: "('e, 'z) dom_scheme \<Rightarrow> 'e \<Rightarrow> bool" where
  "self_presence d pres = (case get_child d pres ''x'' NS_MUC_USER of
     None \<Rightarrow> False
   | Some x \<Rightarrow> list_ex (\<lambda>c. d_name d c = ''status'' \<and> d_attr d c ''code'' = Some ''110'') (d_children d x))"

definition presence_real_jid :: "('e, 'z) dom_scheme \<Rightarrow> 'e \<Rightarrow> string" where
  "presence_real_jid d pres =
     (case Option.bind (get_child d pres ''x'' NS_MUC_USER) (\<lambda>x. Option.bind (get_child d x ''item'' NS_MUC_USER)
        (\<lambda>item. d_attr d item ''jid'')) of None \<Rightarrow> [] | Some j \<Rightarrow> j)"

definition see :: "string \<Rightarrow> string \<Rightarrow> muji_state option \<Rightarrow> string \<Rightarrow> ('e, 'o) calls \<Rightarrow> ('e, 'o) calls" where
  "see room occupant state addr s = s\<lparr>cl_muji_seen := (case state of
       Some st \<Rightarrow> (let p = \<lparr>mp_state = st, mp_real_jid = addr\<rparr> in
         tbl_upsert room [(occupant, p)] (hm_insert occupant p) (cl_muji_seen s))
     | None \<Rightarrow> tbl_update room (hm_remove occupant) (cl_muji_seen s))\<rparr>"

definition invite_step :: "('e, 'o) call_env \<Rightarrow> string \<Rightarrow> string \<Rightarrow> ('e, 'o) calls \<Rightarrow> ('e, 'o) calls" where
  "invite_step env room occupant s =
     (let any_participant = (case map_of (cl_muji_seen s) room of None \<Rightarrow> False | Some m \<Rightarrow> m \<noteq> []);
          already_invited = (room \<in> set (cl_invited s)) in
      if any_participant \<and> \<not> already_invited then
        tell (Conference_Invite (ce_account env) room (after_slash occupant))
          (s\<lparr>cl_invited := List.insert room (cl_invited s)\<rparr>)
      else if \<not> any_participant \<and> already_invited then
        tell (Conference_Invite_Cancelled (ce_account env) room) (s\<lparr>cl_invited := removeAll room (cl_invited s)\<rparr>)
      else s)"

definition observe_muji_presence :: "('e, 'o) call_env \<Rightarrow> 'e \<Rightarrow> ('e, 'o) calls \<Rightarrow> ('e, 'o) calls" where
  "observe_muji_presence env pres s =
     (let d = ce_dom env in
      case d_attr d pres ''from'' of
        None \<Rightarrow> s
      | Some occupant \<Rightarrow>
      (case split_once (CHR ''/'') occupant of
        None \<Rightarrow> s
      | Some (room, _) \<Rightarrow>
        if self_presence d pres then s
        else let state = (if attr_or d pres ''type'' ''available'' = ''unavailable'' then None else parse_muji_state d pres);
                 real_jid = presence_real_jid d pres;
                 addr = (if real_jid = [] then occupant else real_jid);
                 s = see room occupant state addr s in
          (case map_of (cl_conferences s) room of
             None \<Rightarrow> invite_step env room occupant s
           | Some conf \<Rightarrow>
              (case state of
                 Some Ready \<Rightarrow> maybe_initiate env room occupant addr (cf_video conf) s
               | Some Preparing \<Rightarrow> emit_conference env room (ensure_member env room occupant addr s)
               | None \<Rightarrow> emit_conference env room (remove_member env room occupant s)))))"

end
