(* ===== verification/Call_Session.thy ===== *)
theory Call_Session
  imports Call_Trust Conference
begin

text \<open>
  The life of a call (\<open>crates/mxc-proto/src/xeps/jingle.rs\<close>): the task that sends what a media engine
  produces, accepting and hanging up, the stanzas of the peer, and the upgrade to video.  A pump
  outlives the entry in the registry, as events of the engine may still be waiting when it goes.
\<close>

subsection \<open>What the engine produces\<close>

datatype engine_event =
    Local_Description sdp_kind string bool
  | Ice_Candidate string
  | Engine_Connected
  | Engine_Failed string

definition group_element :: "('e, 'z) dom_scheme \<Rightarrow> string list \<Rightarrow> 'e" where
  "group_element d mids = with_children d
     (map (\<lambda>name. d_with_attr d ''name'' name (d_bare d ''content'' NS_JINGLE)) mids)
     (d_with_attr d ''semantics'' ''BUNDLE'' (d_bare d ''group'' NS_GROUP))"

definition is_video_content :: "('e, 'z) dom_scheme \<Rightarrow> 'e \<Rightarrow> bool" where
  "is_video_content d c \<longleftrightarrow> Option.bind (get_child d c ''description'' NS_RTP) (\<lambda>x. d_attr d x ''media'') = Some ''video''"

definition peer_used_omemo :: "string \<Rightarrow> ('e, 'o) calls \<Rightarrow> bool" where
  "peer_used_omemo sid s \<longleftrightarrow> (case map_of (cl_active s) sid of None \<Rightarrow> False | Some c \<Rightarrow> ac_peer_used_omemo c)"

definition maybe_encrypt :: "('e, 'o) call_env \<Rightarrow> bool \<Rightarrow> string \<Rightarrow> 'e list \<Rightarrow> ('e, 'o) calls \<Rightarrow> 'e list \<times> ('e, 'o) calls" where
  "maybe_encrypt env b peer_bare contents s =
     (if b then encrypt_call_fingerprints env peer_bare contents s else (contents, s))"

definition muji_tag :: "('e, 'z) dom_scheme \<Rightarrow> sdp_kind \<Rightarrow> string option \<Rightarrow> 'e list" where
  "muji_tag d kind room = (case (kind, room) of
     (Offer, Some r) \<Rightarrow> [d_with_attr d ''room'' r (d_bare d ''muji'' NS_MUJI)] | _ \<Rightarrow> [])"

definition pump_contents :: "('e, 'o) call_env \<Rightarrow> string \<Rightarrow> ('e, 'o) calls \<Rightarrow> 'e list \<times> string list" where
  "pump_contents env sdp s = sdp_to_contents (ce_dom env) (ce_lower env) (ce_candidate_id env (cl_tick s)) sdp"

definition send_renegotiation :: "('e, 'o) call_env \<Rightarrow> pump \<Rightarrow> sdp_kind \<Rightarrow> string \<Rightarrow> ('e, 'o) calls \<Rightarrow> ('e, 'o) calls" where
  "send_renegotiation env p kind sdp s =
     (let d = ce_dom env; (contents, mids) = pump_contents env sdp s; s = tick s;
          video = filter (is_video_content d) contents in
      if video = [] then s
      else let (video, s) = maybe_encrypt env (peer_used_omemo (pu_sid p) s) (to_bare (pu_peer_full p)) video s in
        send_jingle env (pu_peer_full p) (pu_sid p) (pu_initiator p)
          (case kind of Offer \<Rightarrow> ''content-add'' | Answer \<Rightarrow> ''content-accept'') (video @ [group_element d mids]) s)"

definition send_description :: "('e, 'o) call_env \<Rightarrow> pump \<Rightarrow> sdp_kind \<Rightarrow> string \<Rightarrow> ('e, 'o) calls \<Rightarrow> ('e, 'o) calls" where
  "send_description env p kind sdp s =
     (let d = ce_dom env; (contents, mids) = pump_contents env sdp s; s = tick s in
      if contents = [] then s
      else let (contents, s) = maybe_encrypt env (kind = Offer \<or> peer_used_omemo (pu_sid p) s)
                 (to_bare (pu_peer_full p)) contents s in
        send_jingle env (pu_peer_full p) (pu_sid p) (pu_initiator p)
          (case kind of Offer \<Rightarrow> ''session-initiate'' | Answer \<Rightarrow> ''session-accept'')
          (contents @ [group_element d mids] @ muji_tag d kind (pu_room p)) s)"

definition send_candidate :: "('e, 'o) call_env \<Rightarrow> pump \<Rightarrow> string \<Rightarrow> ('e, 'o) calls \<Rightarrow> ('e, 'o) calls" where
  "send_candidate env p candidate s =
     (let d = ce_dom env; v = (case strip_prefix candidate ''candidate:'' of None \<Rightarrow> candidate | Some v \<Rightarrow> v) in
      case candidate_to_jingle d (ce_lower env) (ce_candidate_id env (cl_tick s) v) v of
        None \<Rightarrow> s
      | Some cand \<Rightarrow>
          (let transport = d_with_child d cand (d_with_attr d ''pwd'' (pu_pwd p) (d_with_attr d ''ufrag'' (pu_ufrag p)
                 (d_bare d ''transport'' NS_ICE)));
               content = d_with_child d transport (d_with_attr d ''name'' (pu_mid p)
                 (d_with_attr d ''creator'' ''initiator'' (d_bare d ''content'' NS_JINGLE)))
           in send_jingle env (pu_peer_full p) (pu_sid p) (pu_initiator p) ''transport-info'' [content] (tick s)))"

definition leg_settled :: "('e, 'o) call_env \<Rightarrow> string \<Rightarrow> string \<Rightarrow> bool \<Rightarrow> member_state \<Rightarrow> ('e, 'o) calls \<Rightarrow> ('e, 'o) calls" where
  "leg_settled env sid room video st s =
     initiate_next_pending env room video (emit_conference env room (set_member_state env sid st s))"

definition pump_event :: "('e, 'o) call_env \<Rightarrow> nat \<Rightarrow> engine_event \<Rightarrow> ('e, 'o) calls \<Rightarrow> ('e, 'o) calls" where
  "pump_event env eng ev s =
     (case map_of (cl_pumps s) eng of
        None \<Rightarrow> s
      | Some p \<Rightarrow>
          (let sid = pu_sid p; peer_bare = to_bare (pu_peer_full p) in
           case ev of
             Local_Description kind sdp renegotiation \<Rightarrow>
               (let (u, w, m) = local_transport sdp;
                    p = p\<lparr>pu_ufrag := u, pu_pwd := w, pu_mid := m\<rparr>;
                    s = s\<lparr>cl_pumps := hm_insert eng p (cl_pumps s)\<rparr>
                in if renegotiation then send_renegotiation env p kind sdp s else send_description env p kind sdp s)
           | Ice_Candidate candidate \<Rightarrow> send_candidate env p candidate s
           | Engine_Connected \<Rightarrow>
               (let s = mark_answered sid s in
                case pu_room p of
                  Some room \<Rightarrow> leg_settled env sid room (pu_video p) M_Active s
                | None \<Rightarrow> emit_call env sid peer_bare (pu_video p) Call_Active s)
           | Engine_Failed reason \<Rightarrow>
               (let s = log_call_end env sid (drop_active sid s);
                    s = s\<lparr>cl_pumps := hm_remove eng (cl_pumps s)\<rparr> in
                case pu_room p of
                  Some room \<Rightarrow> leg_settled env sid room (pu_video p) M_Ended s
                | None \<Rightarrow> emit_call env sid peer_bare (pu_video p) (Call_Ended reason) s)))"

subsection \<open>Accepting and hanging up\<close>

definition accept :: "('e, 'o) call_env \<Rightarrow> string \<Rightarrow> string \<Rightarrow> u32 option \<Rightarrow> ('e, 'o, unit) cact" where
  "accept env sid peer_hint own_device =
     act_bind (act_read (\<lambda>s. case map_of (cl_incoming s) sid of None \<Rightarrow> (peer_hint, False) | Some c \<Rightarrow> c)) (\<lambda>(caller_full, video).
     act_bind (act_modify (\<lambda>s. mark_answered sid (s\<lparr>cl_incoming := hm_remove sid (cl_incoming s)\<rparr>))) (\<lambda>_.
     act_bind (start_call env sid caller_full Callee video None (ce_bare env)) (\<lambda>_.
     act_bind (send_call env (jmi_with_device (ce_dom env) caller_full ''proceed'' sid own_device)) (\<lambda>_.
       send_call env (jmi (ce_dom env) (ce_bare env) ''accept'' sid)))))"

definition hang_up :: "('e, 'o) call_env \<Rightarrow> string \<Rightarrow> string \<Rightarrow> ('e, 'o, unit) cact" where
  "hang_up env peer_hint sid =
     act_bind (act_read (\<lambda>s. map_of (cl_active s) sid)) (\<lambda>active.
     act_bind (act_modify (\<lambda>s. log_call_end env sid (s\<lparr>cl_active := hm_remove sid (cl_active s),
         cl_proposed := hm_remove sid (cl_proposed s), cl_incoming := hm_remove sid (cl_incoming s)\<rparr>))) (\<lambda>_.
       case active of
         Some c \<Rightarrow> act_modify (\<lambda>s. media (ac_engine c) Engine_Hang_Up (terminate env (ac_peer_full c) sid ''success'' s))
       | None \<Rightarrow> send_call env (jmi (ce_dom env) peer_hint ''retract'' sid)))"

subsection \<open>Ringing by the peer\<close>

definition jmi_actions :: "string list" where
  "jmi_actions = [''propose'', ''proceed'', ''reject'', ''retract'', ''accept'', ''finish'']"

definition ended_step :: "('e, 'o) call_env \<Rightarrow> string \<Rightarrow> string \<Rightarrow> bool \<Rightarrow> string \<Rightarrow> ('e, 'o) calls \<Rightarrow> ('e, 'o) calls" where
  "ended_step env sid peer video reason s = emit_call env sid peer video (Call_Ended reason) (log_call_end env sid s)"

definition jmi_step :: "('e, 'o) call_env \<Rightarrow> string \<Rightarrow> string \<Rightarrow> string \<Rightarrow> bool \<Rightarrow> ('e, 'o) calls \<Rightarrow> ('e, 'o) calls" where
  "jmi_step env action sid from video s =
     (let peer = to_bare from in
      if eq_ignore_ascii_case peer (ce_bare env) \<and> (action = ''accept'' \<or> action = ''reject'') then
        ended_step env sid peer video ''Handled on another device'' (s\<lparr>cl_incoming := hm_remove sid (cl_incoming s)\<rparr>)
      else if action = ''propose'' then
        emit_call env sid peer video Call_Incoming
          (new_meta env sid peer False video (s\<lparr>cl_incoming := hm_insert sid (from, video) (cl_incoming s)\<rparr>))
      else if action = ''proceed'' then
        (case map_of (cl_proposed s) sid of
           None \<Rightarrow> s
         | Some video \<Rightarrow> emit_call env sid peer video Call_Connecting
             (snd (start_call env sid from Caller video None (ce_bare env)
               (mark_answered sid (s\<lparr>cl_proposed := hm_remove sid (cl_proposed s)\<rparr>)))))
      else if action = ''reject'' then ended_step env sid peer video ''Call declined'' (terminate_local sid s)
      else if action = ''retract'' \<or> action = ''finish'' then
        ended_step env sid peer video ''Caller cancelled''
          ((terminate_local sid s)\<lparr>cl_incoming := hm_remove sid (cl_incoming s)\<rparr>)
      else s)"

definition handle_message :: "('e, 'o) call_env \<Rightarrow> 'e \<Rightarrow> ('e, 'o) calls \<Rightarrow> bool \<times> ('e, 'o) calls" where
  "handle_message env msg s =
     (let d = ce_dom env in
      case find (\<lambda>c. d_ns d c = NS_JMI \<and> d_name d c \<in> set jmi_actions) (d_children d msg) of
        None \<Rightarrow> (False, s)
      | Some el \<Rightarrow>
      (case d_attr d el ''id'' of
        None \<Rightarrow> (True, s)
      | Some sid \<Rightarrow>
          (True, jmi_step env (d_name d el) sid (attr_or_empty d msg ''from'')
             (list_ex (\<lambda>c. d_name d c = ''description'' \<and> d_attr d c ''media'' = Some ''video'') (d_children d el)) s)))"

subsection \<open>Session stanzas of the peer\<close>

text \<open>A session that belongs to a group call; \<open>None\<close> when the stanza is done with.\<close>

definition muji_participant :: "('e, 'o) call_env \<Rightarrow> string \<Rightarrow> string \<Rightarrow> ('e, 'o) calls \<Rightarrow> string option" where
  "muji_participant env room from s = map_option fst
     (find (\<lambda>(occ, p). to_bare (mp_real_jid p) = to_bare from \<or> to_bare occ = to_bare from) (seen_in env room s))"

definition muji_leg :: "('e, 'o) call_env \<Rightarrow> string \<Rightarrow> string \<Rightarrow> string \<Rightarrow> ('e, 'o) calls \<Rightarrow> bool \<times> ('e, 'o) calls" where
  "muji_leg env room sid from s =
     (if hm_has sid (cl_active s) then (True, s)
      else case map_of (cl_conferences s) room of
        None \<Rightarrow> (False, s)
      | Some conf \<Rightarrow>
          (case muji_participant env room from s of
             None \<Rightarrow> (False, terminate env from sid ''security-error'' s)
           | Some occupant \<Rightarrow>
               (case start_call env sid from Callee (cf_video conf) (Some room) (cf_our_occupant conf) s of
                  (Inl _, s) \<Rightarrow> (True, s)
                | (Inr _, s) \<Rightarrow> (True, apply_conf_state_to_leg room sid
                    (register_member_session env room occupant from sid s)))))"

definition muji_room_of :: "('e, 'z) dom_scheme \<Rightarrow> 'e \<Rightarrow> string option" where
  "muji_room_of d jingle = Option.bind (get_child d jingle ''muji'' NS_MUJI) (\<lambda>m. d_attr d m ''room'')"

definition set_remote :: "('e, 'o) call_env \<Rightarrow> sdp_kind \<Rightarrow> string \<Rightarrow> 'e list \<Rightarrow> bool \<Rightarrow> ('e, 'o) calls \<Rightarrow> ('e, 'o) calls" where
  "set_remote env kind sid contents verified s =
     (case (contents_to_sdp (ce_dom env) contents, map_of (cl_active s) sid) of
        (Some sdp, Some call) \<Rightarrow>
          on_call sid (\<lambda>c. c\<lparr>ac_remote_contents := contents, ac_peer_used_omemo := verified\<rparr>)
            (media (ac_engine call) (Set_Remote kind sdp) s)
      | _ \<Rightarrow> s)"

definition note_verified :: "('e, 'o) call_env \<Rightarrow> string \<Rightarrow> verified option \<Rightarrow> ('e, 'o) calls \<Rightarrow> ('e, 'o) calls" where
  "note_verified env sid v s = (case v of
     None \<Rightarrow> s | Some (fp, dev, trust) \<Rightarrow> tell (Call_Verified (ce_account env) sid fp dev trust) s)"

definition on_description :: "('e, 'o) call_env \<Rightarrow> sdp_kind \<Rightarrow> string \<Rightarrow> string \<Rightarrow> 'e \<Rightarrow> ('e, 'o) calls \<Rightarrow> ('e, 'o) calls" where
  "on_description env kind sid from jingle s =
     (let d = ce_dom env;
          (go, s) = (case (kind, muji_room_of d jingle) of
             (Offer, Some room) \<Rightarrow> muji_leg env room sid from s | _ \<Rightarrow> (True, s)) in
      if \<not> go then s
      else let ((contents, verified), s) = decrypt_call_fingerprints env (to_bare from) (named d ''content'' jingle) None s
        in note_verified env sid verified (set_remote env kind sid contents (verified \<noteq> None) s))"

definition merged_sdp :: "('e, 'o) call_env \<Rightarrow> 'e active_call \<Rightarrow> 'e list \<Rightarrow> string option" where
  "merged_sdp env call new_contents = contents_to_sdp (ce_dom env) (ac_remote_contents call @ new_contents)"

definition content_accept :: "('e, 'o) call_env \<Rightarrow> string \<Rightarrow> string \<Rightarrow> 'e \<Rightarrow> ('e, 'o) calls \<Rightarrow> ('e, 'o) calls" where
  "content_accept env sid from jingle s =
     (let ((new_contents, _), s) = decrypt_call_fingerprints env (to_bare from) (named (ce_dom env) ''content'' jingle) None s in
      case map_of (cl_active s) sid of
        None \<Rightarrow> s
      | Some call \<Rightarrow>
          (case merged_sdp env call new_contents of
             None \<Rightarrow> s
           | Some sdp \<Rightarrow>
               (let cmd = Set_Remote Answer sdp; ok = media_ok env cmd s; s = media (ac_engine call) cmd s in
                if ok then emit_call env sid (to_bare from) True Call_Active
                  (on_call sid (\<lambda>c. c\<lparr>ac_remote_contents := ac_remote_contents call @ new_contents, ac_video := True\<rparr>) s)
                else s)))"

definition content_add :: "('e, 'o) call_env \<Rightarrow> string \<Rightarrow> string \<Rightarrow> 'e \<Rightarrow> ('e, 'o) calls \<Rightarrow> ('e, 'o) calls" where
  "content_add env sid from jingle s =
     (let ((new_contents, _), s) = decrypt_call_fingerprints env (to_bare from) (named (ce_dom env) ''content'' jingle) None s in
      case map_of (cl_active s) sid of
        None \<Rightarrow> s
      | Some call \<Rightarrow>
          if \<not> ac_video call \<and> new_contents \<noteq> [] then
            tell (Call_Video_Upgrade_Request (ce_account env) sid (to_bare from))
              (on_call sid (\<lambda>c. c\<lparr>ac_pending_video := new_contents\<rparr>) s)
          else s)"

definition transport_info :: "('e, 'o) call_env \<Rightarrow> string \<Rightarrow> 'e \<Rightarrow> ('e, 'o) calls \<Rightarrow> ('e, 'o) calls" where
  "transport_info env sid jingle s =
     (let d = ce_dom env in
      case (Option.bind (get_child d jingle ''content'' NS_JINGLE) (\<lambda>c. get_child d c ''transport'' NS_ICE),
            map_of (cl_active s) sid) of
        (Some transport, Some call) \<Rightarrow>
          fold (\<lambda>line. media (ac_engine call) (Add_Remote_Ice 0 (''candidate:'' @ line)))
            (List.map_filter (candidate_to_sdp d) (named d ''candidate'' transport)) s
      | _ \<Rightarrow> s)"

definition session_terminate :: "('e, 'o) call_env \<Rightarrow> string \<Rightarrow> string \<Rightarrow> ('e, 'o) calls \<Rightarrow> ('e, 'o) calls" where
  "session_terminate env sid from s =
     (let muji_room = Option.bind (map_of (cl_active s) sid) ac_room;
          s = log_call_end env sid (terminate_local sid s) in
      case muji_room of
        Some room \<Rightarrow> emit_conference env room (set_member_state env sid M_Ended s)
      | None \<Rightarrow> emit_call env sid (to_bare from) False (Call_Ended ''Call ended'') s)"

definition jingle_step :: "('e, 'o) call_env \<Rightarrow> string \<Rightarrow> string \<Rightarrow> string \<Rightarrow> 'e \<Rightarrow> ('e, 'o) calls \<Rightarrow> ('e, 'o) calls" where
  "jingle_step env action sid from jingle s =
     (if action = ''session-initiate'' then on_description env Offer sid from jingle s
      else if action = ''session-accept'' then on_description env Answer sid from jingle s
      else if action = ''content-accept'' then content_accept env sid from jingle s
      else if action = ''content-add'' then content_add env sid from jingle s
      else if action = ''transport-info'' then transport_info env sid jingle s
      else if action = ''session-terminate'' then session_terminate env sid from s
      else s)"

definition handle_iq :: "('e, 'o) call_env \<Rightarrow> 'e \<Rightarrow> ('e, 'o) calls \<Rightarrow> bool \<times> ('e, 'o) calls" where
  "handle_iq env iq s =
     (let d = ce_dom env in
      case get_child d iq ''jingle'' NS_JINGLE of
        None \<Rightarrow> (False, s)
      | Some jingle \<Rightarrow>
          (let s = ack env iq s in
           case d_attr d jingle ''sid'' of
             None \<Rightarrow> (True, s)
           | Some sid \<Rightarrow> (True, jingle_step env (attr_or_empty d jingle ''action'') sid (attr_or_empty d iq ''from'') jingle s)))"

subsection \<open>The upgrade to video\<close>

definition accept_video_upgrade :: "('e, 'o) call_env \<Rightarrow> string \<Rightarrow> ('e, 'o) calls \<Rightarrow> ('e, 'o) calls" where
  "accept_video_upgrade env sid s =
     (case map_of (cl_active s) sid of
        None \<Rightarrow> s
      | Some call \<Rightarrow>
          if ac_video call \<or> ac_pending_video call = [] then s
          else let s = on_call sid (\<lambda>c. c\<lparr>ac_pending_video := []\<rparr>) s in
          (case merged_sdp env call (ac_pending_video call) of
             None \<Rightarrow> s
           | Some sdp \<Rightarrow>
               (let cmd = Apply_Video_Offer sdp; ok = media_ok env cmd s; s = media (ac_engine call) cmd s in
                if ok then emit_call env sid (to_bare (ac_peer_full call)) True Call_Active
                  (on_call sid (\<lambda>c. c\<lparr>ac_remote_contents := ac_remote_contents call @ ac_pending_video call,
                     ac_video := True\<rparr>) s)
                else s)))"

definition decline_video_upgrade :: "('e, 'o) call_env \<Rightarrow> string \<Rightarrow> string \<Rightarrow> ('e, 'o) calls \<Rightarrow> ('e, 'o) calls" where
  "decline_video_upgrade env initiator sid s =
     (case map_of (cl_active s) sid of
        None \<Rightarrow> s
      | Some call \<Rightarrow>
          let s = on_call sid (\<lambda>c. c\<lparr>ac_pending_video := []\<rparr>) s in
          if ac_pending_video call = [] then s
          else send_jingle env (ac_peer_full call) sid initiator ''content-reject'' (ac_pending_video call) s)"

end
