(* ===== verification/Call_Machine.thy ===== *)
theory Call_Machine
  imports Call_Session
begin

text \<open>
  The account's task as far as calls go: the commands of the interface (\<open>client.rs\<close>), the stanzas the
  router hands over (\<open>xeps/router.rs\<close>), the events of the media engines and the eight-second timer of
  a conference, in any order.  \<open>run_calls\<close> is a run of it.
\<close>

datatype call_command =
    Place_Call string bool
  | Accept_Call string string
  | Decline_Call string string
  | Cancel_Call string string
  | Set_Call_Mute string bool
  | Set_Call_Camera string bool
  | Set_Call_Screen_Share string bool "nat option" \<comment> \<open>what the portal picker gives\<close>
  | Upgrade_Call_To_Video string
  | Accept_Video_Upgrade string
  | Decline_Video_Upgrade string
  | Place_Group_Call string bool
  | Leave_Group_Call string
  | Set_Group_Call_Mute string bool
  | Set_Group_Call_Camera string bool
  | Set_Group_Call_Screen_Share string bool "nat option" bool \<comment> \<open>and whether the hub takes it\<close>

definition place_call :: "('e, 'o) call_env \<Rightarrow> string \<Rightarrow> bool \<Rightarrow> ('e, 'o, unit) cact" where
  "place_call env to video =
     act_bind (act_read (\<lambda>s. ce_new_id env ''call'' (cl_tick s))) (\<lambda>sid.
     act_bind (act_modify tick) (\<lambda>_.
     act_bind (propose env to sid video) (\<lambda>_.
       act_modify (emit_call env sid to video Call_Outgoing))))"

definition accept_call :: "('e, 'o) call_env \<Rightarrow> string \<Rightarrow> string \<Rightarrow> ('e, 'o, unit) cact" where
  "accept_call env sid peer =
     act_bind (act_read (\<lambda>s. ce_own_device env (cl_omemo s))) (\<lambda>(own, om).
     act_bind (act_modify (\<lambda>s. s\<lparr>cl_omemo := om\<rparr>)) (\<lambda>_.
       accept env sid peer (case own of Inl _ \<Rightarrow> None | Inr dev \<Rightarrow> Some dev)))"

definition screen_share :: "('e, 'o) call_env \<Rightarrow> string \<Rightarrow> bool \<Rightarrow> nat option \<Rightarrow> ('e, 'o) calls \<Rightarrow> ('e, 'o) calls" where
  "screen_share env sid enabled picked s =
     (let (active, s) = (if \<not> enabled then (False, stop_screen_share sid s)
        else case picked of None \<Rightarrow> (False, s) | Some screen \<Rightarrow> (True, start_screen_share sid screen s)) in
      tell (Call_Screen_Share (ce_account env) sid active) s)"

definition group_screen_share :: "('e, 'o) call_env \<Rightarrow> string \<Rightarrow> bool \<Rightarrow> nat option \<Rightarrow> bool \<Rightarrow> ('e, 'o) calls
    \<Rightarrow> ('e, 'o) calls" where
  "group_screen_share env room enabled picked hub_ok s =
     (let (active, s) = (if \<not> enabled then (False, stop_group_screen_share room s)
        else case picked of None \<Rightarrow> (False, s)
          | Some screen \<Rightarrow> (let s = start_group_screen_share room screen hub_ok s in (group_screen_sharing room s, s))) in
      tell (Conference_Screen_Share (ce_account env) room active) s)"

fun run_call_command :: "('e, 'o) call_env \<Rightarrow> call_command \<Rightarrow> ('e, 'o, unit) cact" where
  "run_call_command env (Place_Call to video) = place_call env to video"
| "run_call_command env (Accept_Call sid peer) = accept_call env sid peer"
| "run_call_command env (Decline_Call sid peer) = reject env peer (ce_bare env) sid"
| "run_call_command env (Cancel_Call sid peer) = hang_up env peer sid"
| "run_call_command env (Set_Call_Mute sid muted) = act_modify (set_mute sid muted)"
| "run_call_command env (Set_Call_Camera sid enabled) = act_modify (set_camera sid enabled)"
| "run_call_command env (Set_Call_Screen_Share sid enabled picked) = act_modify (screen_share env sid enabled picked)"
| "run_call_command env (Upgrade_Call_To_Video sid) = act_modify (upgrade_to_video sid)"
| "run_call_command env (Accept_Video_Upgrade sid) = act_modify (accept_video_upgrade env sid)"
| "run_call_command env (Decline_Video_Upgrade sid) = act_modify (decline_video_upgrade env (ce_bare env) sid)"
| "run_call_command env (Place_Group_Call room video) = act_modify (place_group_call env room video)"
| "run_call_command env (Leave_Group_Call room) = act_modify (leave_group_call env room)"
| "run_call_command env (Set_Group_Call_Mute room muted) = act_modify (set_group_mute env room muted)"
| "run_call_command env (Set_Group_Call_Camera room enabled) = act_modify (set_group_camera env room enabled)"
| "run_call_command env (Set_Group_Call_Screen_Share room enabled picked hub_ok) =
     act_modify (group_screen_share env room enabled picked hub_ok)"

datatype 'e call_input =
    User call_command
  | Message_In 'e
  | Iq_In 'e
  | Presence_In 'e
  | From_Engine nat engine_event
  | Timer string

fun call_input_step :: "('e, 'o) call_env \<Rightarrow> 'e call_input \<Rightarrow> ('e, 'o) calls \<Rightarrow> ('e, 'o) calls" where
  "call_input_step env (User c) s = snd (run_call_command env c s)"
| "call_input_step env (Message_In msg) s = snd (handle_message env msg s)"
| "call_input_step env (Iq_In iq) s = snd (handle_iq env iq s)"
| "call_input_step env (Presence_In pres) s = observe_muji_presence env pres s"
| "call_input_step env (From_Engine eng ev) s = pump_event env eng ev s"
| "call_input_step env (Timer room) s = remesh_tick env room s"

definition run_calls :: "('e, 'o) call_env \<Rightarrow> 'e call_input list \<Rightarrow> ('e, 'o) calls \<Rightarrow> ('e, 'o) calls" where
  "run_calls env = fold (call_input_step env)"

end
