(* ===== verification/Calls_Laws.thy ===== *)
theory Calls_Laws
  imports Call_Machine
begin

text \<open>
  What holds over every run of the calls of an account: media engines are asked only what a living
  engine can be asked, nobody but the user brings one up, and a group call is left completely.
\<close>

named_theorems call_frames \<open>fields of the registry a step leaves alone\<close>

subsection \<open>Media engines\<close>

text \<open>What is asked of an engine: its creation first, and nothing after it has hung up.\<close>

definition started :: "(nat \<times> media_cmd) list \<Rightarrow> nat set" where
  "started log = {e. \<exists>r v sh. (e, Engine_New r v sh) \<in> set log}"

definition ended :: "(nat \<times> media_cmd) list \<Rightarrow> nat set" where
  "ended log = {e. (e, Engine_Hang_Up) \<in> set log}"

fun is_new :: "media_cmd \<Rightarrow> bool" where
  "is_new (Engine_New r v sh) = True"
| "is_new _ = False"

inductive orderly :: "(nat \<times> media_cmd) list \<Rightarrow> bool" where
  orderly_start: "orderly []"
| orderly_new: "orderly log \<Longrightarrow> e \<notin> fst ` set log \<Longrightarrow> orderly (log @ [(e, Engine_New r v sh)])"
| orderly_use: "orderly log \<Longrightarrow> e \<in> started log - ended log \<Longrightarrow> \<not> is_new cmd \<Longrightarrow> orderly (log @ [(e, cmd)])"

inductive_cases orderly_snocE: "orderly (log @ [x])"

definition engine_of :: "('e, 'o) calls \<Rightarrow> string \<Rightarrow> nat option" where
  "engine_of s sid = map_option ac_engine (map_of (cl_active s) sid)"

definition proper :: "(string \<Rightarrow> nat option) \<Rightarrow> (nat \<times> media_cmd) list \<Rightarrow> nat \<Rightarrow> bool" where
  "proper m log n \<longleftrightarrow> orderly log \<and> fst ` set log \<subseteq> {..<n} \<and> ran m \<subseteq> started log - ended log \<and> inj_on m (dom m)"

definition sessions_ok :: "('e, 'o) calls \<Rightarrow> bool" where
  "sessions_ok s \<longleftrightarrow> proper (engine_of s) (cl_media s) (cl_tick s)"

lemma started_append [simp]: "started (log @ [(e, cmd)]) = started log \<union> (if is_new cmd then {e} else {})"
  by (cases cmd) (auto simp: started_def)

lemma ended_append [simp]: "ended (log @ [(e, cmd)]) = ended log \<union> (if cmd = Engine_Hang_Up then {e} else {})"
  by (auto simp: ended_def)

lemma started_logged: "e \<in> started log \<Longrightarrow> e \<in> fst ` set log" "e \<in> ended log \<Longrightarrow> e \<in> fst ` set log"
  by (force simp: started_def ended_def)+

lemma proper_later: "proper m log n \<Longrightarrow> n \<le> n' \<Longrightarrow> proper m log n'"
  by (auto simp: proper_def)

lemma proper_drop: "proper m log n \<Longrightarrow> proper (m(k := None)) log n"
  by (auto simp: proper_def ran_def inj_on_def split: if_splits)

lemma proper_live: "proper m log n \<Longrightarrow> m k = Some e \<Longrightarrow> e \<in> started log - ended log \<and> e < n"
  using started_logged(1)[of e log] by (auto simp: proper_def ran_def)

lemma proper_use:
  "proper m log n \<Longrightarrow> m k = Some e \<Longrightarrow> \<not> is_new cmd \<Longrightarrow> cmd \<noteq> Engine_Hang_Up \<Longrightarrow> proper m (log @ [(e, cmd)]) n"
  using proper_live[of m log n k e] by (auto simp: proper_def intro: orderly_use)

lemma proper_end:
  assumes "proper m log n" and "m k = Some e"
  shows "proper (m(k := None)) (log @ [(e, Engine_Hang_Up)]) n"
proof -
  have "orderly (log @ [(e, Engine_Hang_Up)])"
    using assms proper_live[OF assms] by (intro orderly_use) (auto simp: proper_def)
  moreover have "e \<notin> ran (m(k := None))"
    using assms by (auto simp: proper_def ran_def inj_on_def dom_def split: if_splits)
  moreover have "ran (m(k := None)) \<subseteq> ran m" by (auto simp: ran_def split: if_splits)
  ultimately show ?thesis
    using assms proper_live[OF assms] proper_drop[OF assms(1), of k] by (auto simp: proper_def)
qed

lemma proper_new:
  assumes "proper m log n"
  shows "proper m (log @ [(n, Engine_New r v sh)]) (Suc n)" "proper (m(k \<mapsto> n)) (log @ [(n, Engine_New r v sh)]) (Suc n)"
proof -
  have new: "n \<notin> fst ` set log" using assms by (auto simp: proper_def)
  then have no: "n \<notin> ended log" using started_logged(2) by blast
  have logs: "orderly (log @ [(n, Engine_New r v sh)])" "fst ` set (log @ [(n, Engine_New r v sh)]) \<subseteq> {..<Suc n}"
    using assms new by (auto simp: proper_def intro: orderly_new)
  have "n \<notin> ran m" using assms new started_logged(1) by (auto simp: proper_def)
  then have "inj_on (m(k \<mapsto> n)) (dom (m(k \<mapsto> n)))"
    using assms by (auto simp: proper_def inj_on_def ran_def)
  then show "proper m (log @ [(n, Engine_New r v sh)]) (Suc n)" "proper (m(k \<mapsto> n)) (log @ [(n, Engine_New r v sh)]) (Suc n)"
    using assms logs no by (auto simp: proper_def ran_def)
qed

lemma proper_start: "proper Map.empty [] n"
  by (simp add: proper_def orderly_start)

lemma engine_of_fields [simp]:
  "engine_of (s\<lparr>cl_proposed := a\<rparr>) = engine_of s" "engine_of (s\<lparr>cl_incoming := b\<rparr>) = engine_of s"
  "engine_of (s\<lparr>cl_meta := c\<rparr>) = engine_of s" "engine_of (s\<lparr>cl_conferences := d\<rparr>) = engine_of s"
  "engine_of (s\<lparr>cl_muji_seen := e\<rparr>) = engine_of s" "engine_of (s\<lparr>cl_invited := f\<rparr>) = engine_of s"
  "engine_of (s\<lparr>cl_pumps := g\<rparr>) = engine_of s" "engine_of (s\<lparr>cl_log := h\<rparr>) = engine_of s"
  "engine_of (s\<lparr>cl_sent := i\<rparr>) = engine_of s" "engine_of (s\<lparr>cl_events := j\<rparr>) = engine_of s"
  "engine_of (s\<lparr>cl_omemo := k\<rparr>) = engine_of s" "engine_of (s\<lparr>cl_tick := n\<rparr>) = engine_of s"
  "engine_of (s\<lparr>cl_media := l\<rparr>) = engine_of s"
  by (simp_all add: engine_of_def fun_eq_iff)

lemma engine_of_active [simp]:
  "engine_of (s\<lparr>cl_active := hm_remove sid (cl_active s)\<rparr>) = (engine_of s)(sid := None)"
  "engine_of (s\<lparr>cl_active := hm_insert sid x (cl_active s)\<rparr>) = (engine_of s)(sid \<mapsto> ac_engine x)"
  "(\<And>c. ac_engine (u c) = ac_engine c) \<Longrightarrow> engine_of (s\<lparr>cl_active := tbl_update sid u (cl_active s)\<rparr>) = engine_of s"
  by (auto simp: engine_of_def fun_eq_iff store_simps option.map_comp comp_def)

lemma sessions_registry [simp]: "sessions_ok (registry db om)"
proof -
  have "engine_of (registry db om :: ('a, 'b) calls) = Map.empty" by (simp add: fun_eq_iff engine_of_def registry_def)
  then show ?thesis by (simp add: sessions_ok_def proper_start) (simp add: registry_def proper_start)
qed

lemma sessions_fields [simp]:
  "sessions_ok (s\<lparr>cl_proposed := a\<rparr>) = sessions_ok s" "sessions_ok (s\<lparr>cl_incoming := b\<rparr>) = sessions_ok s"
  "sessions_ok (s\<lparr>cl_meta := c\<rparr>) = sessions_ok s" "sessions_ok (s\<lparr>cl_conferences := d\<rparr>) = sessions_ok s"
  "sessions_ok (s\<lparr>cl_muji_seen := e\<rparr>) = sessions_ok s" "sessions_ok (s\<lparr>cl_invited := f\<rparr>) = sessions_ok s"
  "sessions_ok (s\<lparr>cl_pumps := g\<rparr>) = sessions_ok s" "sessions_ok (s\<lparr>cl_log := h\<rparr>) = sessions_ok s"
  "sessions_ok (s\<lparr>cl_sent := i\<rparr>) = sessions_ok s" "sessions_ok (s\<lparr>cl_events := j\<rparr>) = sessions_ok s"
  "sessions_ok (s\<lparr>cl_omemo := k\<rparr>) = sessions_ok s"
  by (simp_all add: sessions_ok_def)

lemma sessions_tick [simp]: "sessions_ok s \<Longrightarrow> sessions_ok (tick s)"
  by (auto simp: sessions_ok_def tick_def intro: proper_later)

lemma sessions_quiet [simp]:
  "sessions_ok (post env el s) = sessions_ok s" "sessions_ok (tell ev s) = sessions_ok s"
  "sessions_ok (emit_call env sid peer video st s) = sessions_ok s"
  "sessions_ok (mark_answered sid s) = sessions_ok s" "sessions_ok (log_call_end env sid s) = sessions_ok s"
  "sessions_ok (ack env iq s) = sessions_ok s" "sessions_ok (on_conf room f s) = sessions_ok s"
  "sessions_ok (send_muji_presence env room nick m s) = sessions_ok s"
  "sessions_ok (emit_conference env room s) = sessions_ok s" "sessions_ok (see room occ mst addr s) = sessions_ok s"
  "sessions_ok (set_member_state env sid ms s) = sessions_ok s" "sessions_ok (invite_step env room occ s) = sessions_ok s"
  "sessions_ok (note_verified env sid v s) = sessions_ok s"
  by (simp_all add: post_def tell_def emit_call_def mark_answered_def log_call_end_def ack_def Let_def on_conf_def
      send_muji_presence_def emit_conference_def see_def set_member_state_def invite_step_def note_verified_def
      split: option.split list.split prod.split)

lemma sessions_ticking [simp]:
  "sessions_ok s \<Longrightarrow> sessions_ok (send_jingle env to sid ini act body s)"
  "sessions_ok s \<Longrightarrow> sessions_ok (terminate env to sid cond s)"
  "sessions_ok s \<Longrightarrow> sessions_ok (new_meta env sid peer out video s)"
  "sessions_ok s \<Longrightarrow> sessions_ok (ensure_member env room occ jid s)"
  "sessions_ok s \<Longrightarrow> sessions_ok (register_member_session env room occ jid sid s)"
  by (simp_all add: send_jingle_def terminate_def new_meta_def ensure_member_def register_member_session_def Let_def)

lemma active_quiet [call_frames]:
  "cl_active (tick s) = cl_active s" "cl_active (post env el s) = cl_active s" "cl_active (tell ev s) = cl_active s"
  "cl_active (media eng cmd s) = cl_active s" "cl_active (send_jingle env to sid ini act body s) = cl_active s"
  "cl_active (terminate env to sid cond s) = cl_active s" "cl_active (drop_active sid s) = hm_remove sid (cl_active s)"
  "cl_active (register_member_session env room occ jid sid s) = cl_active s"
  "cl_active (log_call_end env sid s) = cl_active s" "cl_active (on_conf room f s) = cl_active s"
  "cl_active (ack env iq s) = cl_active s" "cl_active (emit_call env sid peer video st s) = cl_active s"
  by (simp_all add: tick_def post_def tell_def media_def send_jingle_def terminate_def drop_active_def Let_def
      register_member_session_def log_call_end_def on_conf_def ack_def emit_call_def split: option.split)

lemma sessions_drop [simp]: "sessions_ok s \<Longrightarrow> sessions_ok (drop_active sid s)"
  by (simp add: sessions_ok_def drop_active_def proper_drop)

lemma sessions_use:
  "sessions_ok s \<Longrightarrow> map_of (cl_active s) sid = Some c \<Longrightarrow> \<not> is_new cmd \<Longrightarrow> cmd \<noteq> Engine_Hang_Up \<Longrightarrow>
     sessions_ok (media (ac_engine c) cmd s)"
  by (auto simp: sessions_ok_def media_def intro!: proper_use[where k = sid] simp: engine_of_def[of s])

text \<open>Hanging up: the entry goes first, then the engine.\<close>

lemma sessions_hang_up:
  assumes "sessions_ok s" and "map_of (cl_active s) sid = Some c"
    and "cl_active t = hm_remove sid (cl_active s)" and "cl_media t = cl_media s" and "cl_tick s \<le> cl_tick t"
  shows "sessions_ok (media (ac_engine c) Engine_Hang_Up t)"
proof -
  have "proper ((engine_of s)(sid := None)) (cl_media s @ [(ac_engine c, Engine_Hang_Up)]) (cl_tick t)"
    using assms by (intro proper_later[OF proper_end assms(5)]) (auto simp: sessions_ok_def engine_of_def)
  moreover have "engine_of t = (engine_of s)(sid := None)"
    using assms(3) by (auto simp: engine_of_def fun_eq_iff)
  ultimately show ?thesis using assms(4) by (simp add: sessions_ok_def media_def)
qed

lemma ending_fields [simp]:
  "cl_media (drop_active sid s) = cl_media s" "cl_tick (drop_active sid s) = cl_tick s"
  "cl_media (terminate env to sid cond s) = cl_media s"
  "cl_tick (terminate env to sid cond s) = Suc (cl_tick s)" "cl_media (log_call_end env sid s) = cl_media s"
  "cl_tick (log_call_end env sid s) = cl_tick s"
  by (simp_all add: drop_active_def terminate_def send_jingle_def post_def tick_def log_call_end_def split: option.split)

lemma sessions_ending [simp]:
  "sessions_ok s \<Longrightarrow> sessions_ok (terminate_local sid s)"
  "sessions_ok s \<Longrightarrow> sessions_ok (end_leg env sid addr s)"
  by (auto simp: terminate_local_def end_leg_def call_frames split: option.split intro!: sessions_hang_up[of s sid])

lemma sessions_start [simp]:
  "sessions_ok s \<Longrightarrow> sessions_ok (snd (start_call env sid peer role video room ini s))"
proof -
  assume ok: "sessions_ok s"
  have "engine_of (s\<lparr>cl_media := l, cl_tick := n, cl_active := hm_insert sid x (cl_active s), cl_pumps := p\<rparr>)
      = (engine_of s)(sid \<mapsto> ac_engine x)" for l n x p
    by (simp add: engine_of_def fun_eq_iff)
  then show ?thesis using ok by (auto simp: sessions_ok_def start_call_def Let_def media_def tick_def proper_new)
qed

lemma sessions_startD: "start_call env sid peer role video room ini s = (r, t) \<Longrightarrow> sessions_ok s \<Longrightarrow> sessions_ok t"
  by (drule sessions_start[of s env sid peer role video room ini]) simp

lemma sessions_on_call [simp]:
  "(\<And>c. ac_engine (f c) = ac_engine c) \<Longrightarrow> sessions_ok (on_call sid f s) = sessions_ok s"
  by (simp add: sessions_ok_def on_call_def)

lemma sessions_use_on_call:
  assumes "sessions_ok s" and "map_of (cl_active s) sid = Some c" and "\<not> is_new cmd" and "cmd \<noteq> Engine_Hang_Up"
    and "\<And>c. ac_engine (f c) = ac_engine c"
  shows "sessions_ok (media (ac_engine c) cmd (on_call sid f s))"
proof -
  have "map_of (cl_active (on_call sid f s)) sid = Some (f c)" using assms(2) by (simp add: on_call_def store_simps)
  from sessions_use[OF _ this, of cmd] show ?thesis using assms by simp
qed

subsection \<open>Every handler\<close>

lemma fold_keeps: "(\<And>x s. P s \<Longrightarrow> P (f x s)) \<Longrightarrow> P s \<Longrightarrow> P (fold f xs s)"
  by (induction xs arbitrary: s) auto

lemma sessions_on_engine [simp]:
  assumes "sessions_ok s"
  shows "\<not> is_new cmd \<Longrightarrow> cmd \<noteq> Engine_Hang_Up \<Longrightarrow> sessions_ok (on_engine_of sid cmd s)"
    "sessions_ok (set_mute sid b s)" "sessions_ok (set_camera sid b s)" "sessions_ok (start_screen_share sid n s)"
    "sessions_ok (stop_screen_share sid s)" "sessions_ok (upgrade_to_video sid s)"
    "sessions_ok (apply_conf_state_to_leg room sid s)"
proof -
  have ok: "sessions_ok (on_engine_of sid cmd s)" if "\<not> is_new cmd" "cmd \<noteq> Engine_Hang_Up" "sessions_ok s" for sid cmd s
    using that by (auto simp: on_engine_of_def sessions_use split: option.split)
  then show "\<not> is_new cmd \<Longrightarrow> cmd \<noteq> Engine_Hang_Up \<Longrightarrow> sessions_ok (on_engine_of sid cmd s)" using assms by blast
  have mute: "sessions_ok (set_mute sid b s)" "sessions_ok (set_camera sid b s)" if "sessions_ok s" for b s
    using that by (auto simp: set_mute_def set_camera_def intro!: ok)
  then show "sessions_ok (set_mute sid b s)" "sessions_ok (set_camera sid b s)" "sessions_ok (apply_conf_state_to_leg room sid s)"
    using assms by (auto simp: apply_conf_state_to_leg_def Let_def split: option.split)
  show "sessions_ok (start_screen_share sid n s)" "sessions_ok (stop_screen_share sid s)" "sessions_ok (upgrade_to_video sid s)"
    using assms by (auto simp: start_screen_share_def stop_screen_share_def upgrade_to_video_def sessions_use split: option.split intro!: ok)
qed

lemma sessions_fingerprints [simp]:
  assumes "sessions_ok s"
  shows "sessions_ok (snd (encrypt_one_fingerprint env peer c s))" "sessions_ok (snd (encrypt_call_fingerprints env peer cs s))"
    "sessions_ok (snd (maybe_encrypt env b peer cs s))"
    "sessions_ok (snd (decrypt_one_fingerprint env peer c s))" "sessions_ok (snd (decrypt_call_fingerprints env peer cs v s))"
proof -
  have one: "sessions_ok (snd (encrypt_one_fingerprint env peer c s))" if "sessions_ok s" for c s
    using that by (auto simp: encrypt_one_fingerprint_def Let_def split: option.split prod.split sum.split)
  have all: "sessions_ok (snd (encrypt_call_fingerprints env peer cs s))" if "sessions_ok s" for cs s
    using that by (induction cs arbitrary: s) (simp_all add: case_prod_beta Let_def one)
  have dec: "sessions_ok (snd (decrypt_one_fingerprint env peer c s))" if "sessions_ok s" for c s
    using that by (auto simp: decrypt_one_fingerprint_def Let_def split: option.split prod.split sum.split)
  have "sessions_ok (snd (decrypt_call_fingerprints env peer cs v s))" if "sessions_ok s" for cs v s
    using that by (induction cs arbitrary: v s) (simp_all add: case_prod_beta Let_def dec)
  with one all dec show "sessions_ok (snd (encrypt_one_fingerprint env peer c s))"
    "sessions_ok (snd (encrypt_call_fingerprints env peer cs s))" "sessions_ok (snd (maybe_encrypt env b peer cs s))"
    "sessions_ok (snd (decrypt_one_fingerprint env peer c s))" "sessions_ok (snd (decrypt_call_fingerprints env peer cs v s))"
    using assms by (auto simp: maybe_encrypt_def)
qed

lemma sessions_mesh [simp]:
  assumes "sessions_ok s"
  shows "sessions_ok (initiate_leg env room occ addr video our s)" "sessions_ok (maybe_initiate env room occ addr video s)"
    "sessions_ok (initiate_next_pending env room video s)" "sessions_ok (initiate_all env room video ps s)"
    "sessions_ok (drop_member env room om s)" "sessions_ok (remesh env room s)" "sessions_ok (remesh_tick env room s)"
    "sessions_ok (remove_member env room occ s)"
proof -
  have leg: "sessions_ok (initiate_leg env room occ addr video our s)" if "sessions_ok s" for room occ addr video our s
    using that by (auto simp: initiate_leg_def Let_def split: prod.split sum.split dest: sessions_startD)
  have may: "sessions_ok (maybe_initiate env room occ addr video s)" if "sessions_ok s" for room occ addr video s
    using that leg by (auto simp: maybe_initiate_def split: option.split)
  have all: "sessions_ok (initiate_all env room video ps s)" if "sessions_ok s" for video ps s
    unfolding initiate_all_def using that may by (intro fold_keeps[of sessions_ok]) auto
  have drop: "sessions_ok (drop_member env room om s)" if "sessions_ok s" for om s
    using that by (auto simp: drop_member_def Let_def split: prod.split option.split)
  then have drops: "sessions_ok (fold (drop_member env room) oms s)" if "sessions_ok s" for oms s
    using that by (intro fold_keeps[of sessions_ok])
  have re: "sessions_ok (remesh env room s)" if "sessions_ok s" for s
    using that all drops by (auto simp: remesh_def Let_def split: option.split)
  show "sessions_ok (initiate_leg env room occ addr video our s)" "sessions_ok (maybe_initiate env room occ addr video s)"
    "sessions_ok (initiate_all env room video ps s)" "sessions_ok (drop_member env room om s)" "sessions_ok (remesh env room s)"
    "sessions_ok (remesh_tick env room s)" "sessions_ok (remove_member env room occ s)"
    using assms leg may all drop re by (auto simp: remesh_tick_def remove_member_def split: option.split)
  show "sessions_ok (initiate_next_pending env room video s)"
    using assms may by (auto simp: initiate_next_pending_def split: option.split list.split)
qed

lemma sessions_groups [simp]:
  assumes "sessions_ok s"
  shows "sessions_ok (place_group_call env room video s)" "sessions_ok (leave_group_call env room s)"
    "sessions_ok (set_group_mute env room b s)" "sessions_ok (set_group_camera env room b s)"
    "sessions_ok (start_group_screen_share room n b s)" "sessions_ok (stop_group_screen_share room s)"
    "sessions_ok (observe_muji_presence env pres s)"
proof -
  show "sessions_ok (place_group_call env room video s)"
    using assms by (auto simp: place_group_call_def Let_def split: option.split prod.split)
  have legs: "sessions_ok (fold (\<lambda>(sid, addr). end_leg env sid addr) ls s)" if "sessions_ok s" for ls s
    using that by (intro fold_keeps[of sessions_ok]) auto
  show "sessions_ok (leave_group_call env room s)"
    using assms by (auto simp: leave_group_call_def split: option.split intro!: legs)
  have each: "sessions_ok (each_leg env room f s)" if "\<And>sid s. sessions_ok s \<Longrightarrow> sessions_ok (f sid s)" "sessions_ok s" for f s
    using that by (auto simp: each_leg_def split: option.split intro!: fold_keeps[of sessions_ok])
  show "sessions_ok (set_group_mute env room b s)" "sessions_ok (set_group_camera env room b s)"
    using assms by (auto simp: set_group_mute_def set_group_camera_def intro!: each)
  show "sessions_ok (start_group_screen_share room n b s)" "sessions_ok (stop_group_screen_share room s)"
    using assms by (auto simp: start_group_screen_share_def stop_group_screen_share_def Let_def)
  show "sessions_ok (observe_muji_presence env pres s)"
    using assms by (auto simp: observe_muji_presence_def Let_def split: option.split prod.split muji_state.split)
qed

lemma sessions_pump [simp]: "sessions_ok s \<Longrightarrow> sessions_ok (pump_event env eng ev s)"
proof -
  have ren: "sessions_ok (send_renegotiation env p kind sdp s)" "sessions_ok (send_description env p kind sdp s)"
    "sessions_ok (send_candidate env p cand s)" if "sessions_ok s" for p kind sdp cand s
    using that by (auto simp: send_renegotiation_def send_description_def send_candidate_def Let_def case_prod_beta split: option.split)
  have settled: "sessions_ok (leg_settled env sid room video st s)" if "sessions_ok s" for sid room video st s
    using that by (simp add: leg_settled_def)
  show "sessions_ok s \<Longrightarrow> sessions_ok (pump_event env eng ev s)"
    by (auto simp: pump_event_def Let_def ren settled split: option.split engine_event.split prod.split)
qed

lemma keeps_send_call [intro]: "act_keeps sessions_ok (send_call env el)"
  by (auto simp: act_keeps_def send_call_def)

lemma keeps_sessions_modify [intro]:
  "(\<And>s. sessions_ok s \<Longrightarrow> sessions_ok (f s)) \<Longrightarrow> act_keeps sessions_ok (act_modify f)"
  by (rule act_keeps_modify)

lemma keeps_start_call [intro]: "act_keeps sessions_ok (start_call env sid peer role video room ini)"
  by (auto simp: act_keeps_def)

lemma sessions_removed [simp]: "sessions_ok s \<Longrightarrow> sessions_ok (s\<lparr>cl_active := hm_remove sid (cl_active s)\<rparr>)"
  using sessions_drop[of s sid] by (simp add: drop_active_def)

lemma sessions_hang_up_call [simp]: "sessions_ok s \<Longrightarrow> sessions_ok (snd (hang_up env peer sid s))"
  by (cases "map_of (cl_active s) sid")
    (auto simp: hang_up_def act_simps send_call_def call_frames intro!: sessions_hang_up[of s sid])

lemma sessions_incoming [simp]:
  assumes "sessions_ok s"
  shows "sessions_ok (snd (handle_message env msg s))" "sessions_ok (snd (handle_iq env iq s))"
    "sessions_ok (accept_video_upgrade env sid s)" "sessions_ok (decline_video_upgrade env ini sid s)"
proof -
  have jmi: "sessions_ok (jmi_step env action sid from video s)" if "sessions_ok s" for action sid "from" video s
    using that by (simp add: jmi_step_def Let_def ended_step_def split: option.split)
  then show "sessions_ok (snd (handle_message env msg s))"
    using assms by (auto simp: handle_message_def Let_def split: option.split)
  have leg: "sessions_ok (snd (muji_leg env room sid from s))" if "sessions_ok s" for room sid "from" s
    using that by (auto simp: muji_leg_def split: option.split prod.split sum.split dest: sessions_startD)
  have remote: "sessions_ok (set_remote env kind sid cs b s)" if "sessions_ok s" for kind sid cs b s
    using that by (auto simp: set_remote_def sessions_use split: option.split)
  have describe: "sessions_ok (on_description env kind sid from jingle s)" if "sessions_ok s" for kind sid "from" jingle s
    using that leg by (auto simp: on_description_def Let_def case_prod_beta remote split: option.split sdp_kind.split)
  have decrypt: "decrypt_call_fingerprints env peer cs v s = ((a, b), t) \<Longrightarrow> sessions_ok s \<Longrightarrow> sessions_ok t" for peer cs v s a b t
    using sessions_fingerprints(5)[of s env peer cs v] by simp
  have upgrade: "sessions_ok (content_accept env sid from jingle s)" "sessions_ok (content_add env sid from jingle s)"
    if "sessions_ok s" for sid "from" jingle s
    using that by (auto simp: content_accept_def content_add_def Let_def sessions_use
        split: option.split prod.split dest: decrypt)
  have ice: "sessions_ok (fold (\<lambda>l. media (ac_engine c) (Add_Remote_Ice 0 (f l))) ls s) \<and>
      map_of (cl_active (fold (\<lambda>l. media (ac_engine c) (Add_Remote_Ice 0 (f l))) ls s)) sid = Some c"
    if "sessions_ok s \<and> map_of (cl_active s) sid = Some c" for sid c f ls s
    using that by (intro fold_keeps[of "\<lambda>s. sessions_ok s \<and> map_of (cl_active s) sid = Some c"])
      (auto simp: call_frames sessions_use)
  have info: "sessions_ok (transport_info env sid jingle s)" "sessions_ok (session_terminate env sid from s)"
    if "sessions_ok s" for sid "from" jingle s
    using that unfolding transport_info_def session_terminate_def Let_def
    by (auto split: option.split intro!: conjunct1[OF ice[of s sid]])
  show "sessions_ok (snd (handle_iq env iq s))"
    using assms by (auto simp: handle_iq_def Let_def jingle_step_def describe upgrade info split: option.split)
  show "sessions_ok (decline_video_upgrade env ini sid s)"
    using assms by (auto simp: decline_video_upgrade_def Let_def split: option.split)
  show "sessions_ok (accept_video_upgrade env sid s)"
    using assms sessions_use_on_call[of s sid]
    by (auto simp: accept_video_upgrade_def Let_def split: option.split)
qed

lemma sessions_commands: "act_keeps sessions_ok (run_call_command env c)"
proof (cases c)
  case (Place_Call to video)
  then show ?thesis unfolding Place_Call run_call_command.simps place_call_def propose_def Let_def
    by (intro act_keeps_bind act_keeps_basic keeps_sessions_modify keeps_send_call) simp_all
next
  case (Accept_Call sid peer)
  then show ?thesis unfolding Accept_Call run_call_command.simps accept_call_def accept_def case_prod_unfold
    by (intro act_keeps_bind act_keeps_basic keeps_sessions_modify keeps_send_call keeps_start_call) simp_all
next
  case (Decline_Call sid peer)
  then show ?thesis unfolding Decline_Call run_call_command.simps reject_def
    by (intro act_keeps_bind act_keeps_basic keeps_sessions_modify keeps_send_call) simp_all
next
  case (Cancel_Call sid peer)
  then show ?thesis by (auto simp: act_keeps_def)
qed (auto simp: screen_share_def group_screen_share_def Let_def split: option.split prod.split)

interpretation calls: invariant_machine "\<lambda>s t. \<exists>i. t = call_input_step env i s" sessions_ok
proof (unfold_locales, elim exE)
  fix s t i assume "sessions_ok s" "t = call_input_step env i s"
  then show "sessions_ok t" using sessions_commands act_keepsD by (cases i) fastforce+
qed

lemma run_calls_steps: "(\<lambda>s t. \<exists>i. t = call_input_step env i s)\<^sup>*\<^sup>* s (run_calls env is s)"
  unfolding run_calls_def
  by (induction "is" arbitrary: s) (auto intro: converse_rtranclp_into_rtranclp)

text \<open>
  C8: Media engines are used in order: over every run of commands, stanzas, engine events and timers,
  an engine is created once, asked things only after that, and never touched again once it has hung
  up, whatever sessions the peers open, replace and end.
\<close>

theorem engines_used_in_order: "orderly (cl_media (run_calls env is (registry db om)))"
proof -
  have "sessions_ok (run_calls env is (registry db om))"
    by (rule calls.run_inv[OF run_calls_steps]) simp
  then show ?thesis by (simp add: sessions_ok_def proper_def)
qed

subsection \<open>Who brings up an engine\<close>

definition engines_made :: "('e, 'o) calls \<Rightarrow> (nat \<times> media_cmd) list" where
  "engines_made s = filter (\<lambda>(_, cmd). is_new cmd) (cl_media s)"

text \<open>No call was placed that nobody has answered, and no group call joined.\<close>

definition idle :: "(nat \<times> media_cmd) list \<Rightarrow> ('e, 'o) calls \<Rightarrow> bool" where
  "idle log s \<longleftrightarrow> cl_proposed s = [] \<and> cl_conferences s = [] \<and> engines_made s = log"

lemma engines_made_fields [simp]:
  "engines_made (s\<lparr>cl_active := a\<rparr>) = engines_made s" "engines_made (s\<lparr>cl_incoming := b\<rparr>) = engines_made s"
  "engines_made (s\<lparr>cl_meta := c\<rparr>) = engines_made s" "engines_made (s\<lparr>cl_muji_seen := e\<rparr>) = engines_made s"
  "engines_made (s\<lparr>cl_invited := f\<rparr>) = engines_made s" "engines_made (s\<lparr>cl_pumps := g\<rparr>) = engines_made s"
  "engines_made (s\<lparr>cl_log := h\<rparr>) = engines_made s" "engines_made (s\<lparr>cl_sent := i\<rparr>) = engines_made s"
  "engines_made (s\<lparr>cl_events := j\<rparr>) = engines_made s" "engines_made (s\<lparr>cl_omemo := k\<rparr>) = engines_made s"
  "engines_made (s\<lparr>cl_tick := n\<rparr>) = engines_made s" "engines_made (s\<lparr>cl_proposed := l\<rparr>) = engines_made s"
  "engines_made (s\<lparr>cl_conferences := m\<rparr>) = engines_made s"
  by (simp_all add: engines_made_def)

lemma idle_fields [simp]:
  "idle log (s\<lparr>cl_active := a\<rparr>) = idle log s" "idle log (s\<lparr>cl_incoming := b\<rparr>) = idle log s"
  "idle log (s\<lparr>cl_meta := c\<rparr>) = idle log s" "idle log (s\<lparr>cl_muji_seen := e\<rparr>) = idle log s"
  "idle log (s\<lparr>cl_invited := f\<rparr>) = idle log s" "idle log (s\<lparr>cl_pumps := g\<rparr>) = idle log s"
  "idle log (s\<lparr>cl_log := h\<rparr>) = idle log s" "idle log (s\<lparr>cl_sent := i\<rparr>) = idle log s"
  "idle log (s\<lparr>cl_events := j\<rparr>) = idle log s" "idle log (s\<lparr>cl_omemo := k\<rparr>) = idle log s"
  "idle log (s\<lparr>cl_tick := n\<rparr>) = idle log s"
  "\<not> is_new cmd \<Longrightarrow> idle log (media eng cmd s) = idle log s"
  by (simp_all add: idle_def media_def) (simp add: engines_made_def)

lemma idle_basic [simp]:
  "idle log (tick s) = idle log s" "idle log (post env el s) = idle log s" "idle log (tell ev s) = idle log s"
  "idle log (emit_call env sid peer video st s) = idle log s" "idle log (mark_answered sid s) = idle log s"
  "idle log (log_call_end env sid s) = idle log s" "idle log (ack env iq s) = idle log s"
  "idle log (drop_active sid s) = idle log s" "idle log (on_call sid f s) = idle log s"
  "idle log (send_jingle env to sid ini act body s) = idle log s" "idle log (terminate env to sid cond s) = idle log s"
  "idle log (new_meta env sid peer out video s) = idle log s" "idle log (emit_conference env room s) = idle log s"
  "idle log (see room occ mst addr s) = idle log s" "idle log (invite_step env room occ s) = idle log s"
  "idle log (note_verified env sid v s) = idle log s" "idle log (terminate_local sid s) = idle log s"
  by (simp_all add: tick_def post_def tell_def emit_call_def mark_answered_def log_call_end_def ack_def drop_active_def
      on_call_def send_jingle_def terminate_def new_meta_def emit_conference_def see_def invite_step_def note_verified_def
      terminate_local_def Let_def split: option.split prod.split)

lemma idle_no_conference [simp]: "idle log s \<Longrightarrow> map_of (cl_conferences s) room = None" "idle log s \<Longrightarrow> map_of (cl_proposed s) sid = None"
  by (simp_all add: idle_def)

lemma idle_members [simp]: "idle log s \<Longrightarrow> set_member_state env sid ms s = s"
  by (simp add: idle_def set_member_state_def owners_of_def hm_iter_def List.map_filter_def)

lemma idle_mesh [simp]:
  "idle log s \<Longrightarrow> initiate_next_pending env room video s = s" "idle log s \<Longrightarrow> remesh_tick env room s = s"
  by (simp_all add: initiate_next_pending_def has_connecting_leg_def remesh_tick_def hm_has_def)

lemma idle_fingerprints [simp]:
  "idle log (snd (encrypt_one_fingerprint env peer c s)) = idle log s"
  "idle log (snd (encrypt_call_fingerprints env peer cs s)) = idle log s"
  "idle log (snd (maybe_encrypt env b peer cs s)) = idle log s"
  "idle log (snd (decrypt_one_fingerprint env peer c s)) = idle log s"
  "idle log (snd (decrypt_call_fingerprints env peer cs v s)) = idle log s"
proof -
  have one: "idle log (snd (encrypt_one_fingerprint env peer c s)) = idle log s" for c s
    by (auto simp: encrypt_one_fingerprint_def Let_def split: option.split prod.split sum.split)
  then have all: "idle log (snd (encrypt_call_fingerprints env peer cs s)) = idle log s" for cs s
    by (induction cs arbitrary: s) (simp_all add: case_prod_beta Let_def)
  have dec: "idle log (snd (decrypt_one_fingerprint env peer c s)) = idle log s" for c s
    by (auto simp: decrypt_one_fingerprint_def Let_def split: option.split prod.split sum.split)
  then show "idle log (snd (decrypt_call_fingerprints env peer cs v s)) = idle log s"
    by (induction cs arbitrary: v s) (simp_all add: case_prod_beta Let_def)
  from one all dec show "idle log (snd (encrypt_one_fingerprint env peer c s)) = idle log s"
    "idle log (snd (encrypt_call_fingerprints env peer cs s)) = idle log s"
    "idle log (snd (maybe_encrypt env b peer cs s)) = idle log s"
    "idle log (snd (decrypt_one_fingerprint env peer c s)) = idle log s"
    by (simp_all add: maybe_encrypt_def)
qed

lemma idle_pump [simp]: "idle log s \<Longrightarrow> idle log (pump_event env eng ev s)"
  by (auto simp: pump_event_def Let_def send_renegotiation_def send_description_def send_candidate_def leg_settled_def
      case_prod_beta split: option.split engine_event.split)

lemma idle_message [simp]: "idle log s \<Longrightarrow> idle log (snd (handle_message env msg s))"
  by (auto simp: handle_message_def Let_def jmi_step_def ended_step_def split: option.split)

lemma idle_iq [simp]:
  assumes "idle log s" shows "idle log (snd (handle_iq env iq s))"
proof -
  have remote: "idle log (set_remote env kind sid cs b s) = idle log s" for kind sid cs b and s :: "('a, 'b) calls"
    by (auto simp: set_remote_def split: option.split)
  have leg: "idle log (snd (muji_leg env room sid from s))" if "idle log s" for room sid "from" and s :: "('a, 'b) calls"
    using that by (simp add: muji_leg_def)
  have describe: "idle log (on_description env kind sid from jingle s)" if "idle log s" for kind sid "from" jingle s
    using that leg by (auto simp: on_description_def Let_def case_prod_beta remote split: option.split sdp_kind.split)
  have upgrade: "idle log (content_accept env sid from jingle s)" "idle log (content_add env sid from jingle s)"
    if "idle log s" for sid "from" jingle s
    using that by (auto simp: content_accept_def content_add_def Let_def case_prod_beta split: option.split)
  have info: "idle log (transport_info env sid jingle s)" "idle log (session_terminate env sid from s)"
    if "idle log s" for sid "from" jingle s
    using that unfolding transport_info_def session_terminate_def Let_def
    by (auto split: option.split intro!: fold_keeps[of "idle log"])
  show ?thesis
    using assms by (auto simp: handle_iq_def Let_def jingle_step_def describe upgrade info split: option.split)
qed

lemma idle_presence [simp]: "idle log s \<Longrightarrow> idle log (observe_muji_presence env pres s)"
  by (auto simp: observe_muji_presence_def Let_def split: option.split prod.split)

fun from_user :: "'e call_input \<Rightarrow> bool" where
  "from_user (User c) = True"
| "from_user _ = False"

text \<open>
  C7: Nobody calls us without our doing: as long as the user neither places a call, accepts one nor
  joins a group call, no sequence of stanzas, whoever sends them, of engine events and of timers
  brings up a media engine, so no stanza turns on the microphone or the camera.
\<close>

theorem peers_open_no_media:
  assumes "cl_proposed s = []" and "cl_conferences s = []" and "list_all (\<lambda>i. \<not> from_user i) is"
  shows "engines_made (run_calls env is s) = engines_made s"
proof -
  have "idle (engines_made s) (call_input_step env i t)" if "\<not> from_user i" "idle (engines_made s) t" for i t
    using that by (cases i) simp_all
  then have "idle (engines_made s) t \<Longrightarrow> list_all (\<lambda>i. \<not> from_user i) is \<Longrightarrow> idle (engines_made s) (run_calls env is t)" for t
    unfolding run_calls_def by (induction "is" arbitrary: t) simp_all
  with assms show ?thesis by (simp add: idle_def)
qed

end
