(* ===== verification/Call_Trust_Laws.thy ===== *)
theory Call_Trust_Laws
  imports Calls_Laws
begin

text \<open>
  What the trust indicator of a call stands for, and what it does not: the fingerprint of a peer that
  is authenticated with OMEMO, the way it takes from one side to the other, and a call that is shown
  as verified though the media engine was given another fingerprint.
\<close>

subsection \<open>The indicator is backed\<close>

text \<open>
  A fingerprint of a device that decrypted under OMEMO, in an envelope from its sender to us, while
  the store trusted the device at that level.
\<close>

definition authenticated :: "('e, 'o) call_env \<Rightarrow> string \<Rightarrow> i64 \<Rightarrow> i64 \<Rightarrow> bool" where
  "authenticated env fp dev level \<longleftrightarrow> (\<exists>peer encrypted om dec om' e fpe.
     ce_decrypt env encrypted peer (Some (ce_bare env)) om = (Inr dec, om')
   \<and> dec_fingerprint dec = fp \<and> uint (dec_sender_device dec) = dev
   \<and> inner_fingerprint env dec = Some (e, fpe)
   \<and> eq_ignore_ascii_case (env_to e) (ce_bare env) \<and> eq_ignore_ascii_case (env_from e) peer
   \<and> (level, ce_trust env peer dev om') \<in> {(1, Some 1), (2, Some 3)})"

definition backed :: "('e, 'o) call_env \<Rightarrow> call_event \<Rightarrow> bool" where
  "backed env ev = (case ev of
     Call_Verified a sid fp dev level \<Rightarrow> a = ce_account env \<and> (level = 0 \<or> authenticated env fp dev level)
   | _ \<Rightarrow> True)"

definition all_backed :: "('e, 'o) call_env \<Rightarrow> ('e, 'o) calls \<Rightarrow> bool" where
  "all_backed env s \<longleftrightarrow> list_all (backed env) (cl_events s)"

lemma one_fingerprint_backed:
  assumes "decrypt_one_fingerprint env peer c s = ((c', Some (fp, dev, level)), t)"
  shows "level = 0 \<or> authenticated env fp dev level"
proof -
  obtain encrypted dec om e fpe where run: "ce_decrypt env encrypted peer (Some (ce_bare env)) (cl_omemo s) = (Inr dec, om)"
      "inner_fingerprint env dec = Some (e, fpe)" "dec_fingerprint dec = fp" "uint (dec_sender_device dec) = dev"
    and level: "level = call_trust (case verify_binding e (ce_bare env) peer of Inl _ \<Rightarrow> False | Inr _ \<Rightarrow> True)
        (ce_trust env peer dev om)"
    using assms by (auto simp: decrypt_one_fingerprint_def Let_def split: option.split_asm prod.split_asm sum.split_asm)
  show ?thesis
  proof (cases "level = 0")
    case False
    then have "(level, ce_trust env peer dev om) \<in> {(1, Some 1), (2, Some 3)}"
      and "eq_ignore_ascii_case (env_to e) (ce_bare env)" "eq_ignore_ascii_case (env_from e) peer"
      using level by (auto simp: call_trust_def verify_binding_def split: if_splits sum.split_asm)
    with run show ?thesis unfolding authenticated_def by blast
  qed simp
qed

lemma fingerprints_backed:
  assumes "decrypt_call_fingerprints env peer cs v s = ((cs', Some (fp, dev, level)), t)"
    and "\<And>fp dev level. v = Some (fp, dev, level) \<Longrightarrow> level = 0 \<or> authenticated env fp dev level"
  shows "level = 0 \<or> authenticated env fp dev level"
  using assms
proof (induction cs arbitrary: v s cs')
  case (Cons c cs)
  obtain c' w u where one: "decrypt_one_fingerprint env peer c s = ((c', w), u)"
    by (metis prod.exhaust)
  obtain ds x u' where rest: "decrypt_call_fingerprints env peer cs (if w = None then v else w) u = ((ds, x), u')"
    by (metis prod.exhaust)
  have "x = Some (fp, dev, level) \<and> u' = t" using Cons.prems(1) one rest by (simp add: Let_def)
  moreover have "level = 0 \<or> authenticated env fp dev level"
    if "(if w = None then v else w) = Some (fp, dev, level)" for fp dev level
    using that one one_fingerprint_backed[of env peer c s c'] Cons.prems(2) by (auto split: if_splits)
  ultimately show ?case using Cons.IH rest by blast
qed auto

text \<open>Every other step leaves the verdicts alone.\<close>

lemma backed_other [simp]:
  "backed env (Call_Update a sid peer video st)" "backed env (Call_Video_Upgrade_Request a sid peer)"
  "backed env (Call_Screen_Share a sid b)" "backed env (Conference_Screen_Share a sid b)"
  "backed env (Conference_Invite a room nick)" "backed env (Conference_Invite_Cancelled a room)"
  "backed env (Conference_Update a room act video ps)"
  by (simp_all add: backed_def)

lemma backed_fields [simp]:
  "all_backed env (s\<lparr>cl_active := a\<rparr>) = all_backed env s" "all_backed env (s\<lparr>cl_incoming := b\<rparr>) = all_backed env s"
  "all_backed env (s\<lparr>cl_meta := c\<rparr>) = all_backed env s" "all_backed env (s\<lparr>cl_muji_seen := e\<rparr>) = all_backed env s"
  "all_backed env (s\<lparr>cl_invited := f\<rparr>) = all_backed env s" "all_backed env (s\<lparr>cl_pumps := g\<rparr>) = all_backed env s"
  "all_backed env (s\<lparr>cl_log := h\<rparr>) = all_backed env s" "all_backed env (s\<lparr>cl_sent := i\<rparr>) = all_backed env s"
  "all_backed env (s\<lparr>cl_media := j\<rparr>) = all_backed env s" "all_backed env (s\<lparr>cl_omemo := k\<rparr>) = all_backed env s"
  "all_backed env (s\<lparr>cl_tick := n\<rparr>) = all_backed env s" "all_backed env (s\<lparr>cl_proposed := l\<rparr>) = all_backed env s"
  "all_backed env (s\<lparr>cl_conferences := m\<rparr>) = all_backed env s"
  "all_backed env (s\<lparr>cl_events := ev\<rparr>) = list_all (backed env) ev"
  by (simp_all add: all_backed_def)

lemma backed_basic [simp]:
  "all_backed env (tick s) = all_backed env s" "all_backed env (post env' el s) = all_backed env s"
  "all_backed env (tell ev s) \<longleftrightarrow> all_backed env s \<and> backed env ev"
  "all_backed env (media eng cmd s) = all_backed env s"
  "all_backed env (emit_call env' sid peer video st s) = all_backed env s" "all_backed env (mark_answered sid s) = all_backed env s"
  "all_backed env (log_call_end env' sid s) = all_backed env s" "all_backed env (ack env' iq s) = all_backed env s"
  "all_backed env (drop_active sid s) = all_backed env s" "all_backed env (on_call sid f s) = all_backed env s"
  "all_backed env (on_conf room g s) = all_backed env s"
  "all_backed env (send_jingle env' to sid ini act body s) = all_backed env s"
  "all_backed env (terminate env' to sid cond s) = all_backed env s"
  "all_backed env (new_meta env' sid peer out video s) = all_backed env s"
  "all_backed env (emit_conference env' room s) = all_backed env s"
  "all_backed env (see room occ mst addr s) = all_backed env s" "all_backed env (invite_step env' room occ s) = all_backed env s"
  "all_backed env (terminate_local sid s) = all_backed env s" "all_backed env (end_leg env' sid addr s) = all_backed env s"
  "all_backed env (snd (start_call env' sid peer role video rm ini s)) = all_backed env s"
  "all_backed env (send_muji_presence env' room nick mu s) = all_backed env s"
  "all_backed env (set_member_state env' sid ms s) = all_backed env s"
  by (simp_all add: tick_def post_def tell_def emit_call_def mark_answered_def log_call_end_def ack_def drop_active_def
      on_call_def send_jingle_def terminate_def new_meta_def emit_conference_def see_def invite_step_def media_def on_conf_def
      terminate_local_def end_leg_def start_call_def send_muji_presence_def set_member_state_def Let_def
      split: option.split prod.split list.split)
    (simp_all add: all_backed_def)

lemma backed_members [simp]:
  "all_backed env (ensure_member env' room occ jid s) = all_backed env s"
  "all_backed env (register_member_session env' room occ jid sid s) = all_backed env s"
  "all_backed env (on_engine_of sid cmd s) = all_backed env s" "all_backed env (set_mute sid b s) = all_backed env s"
  "all_backed env (set_camera sid b s) = all_backed env s" "all_backed env (upgrade_to_video sid s) = all_backed env s"
  "all_backed env (apply_conf_state_to_leg room sid s) = all_backed env s"
  by (simp_all add: ensure_member_def register_member_session_def on_engine_of_def set_mute_def set_camera_def
      upgrade_to_video_def apply_conf_state_to_leg_def Let_def split: option.split)

lemma fold_same: "(\<And>x s. P (f x s) = P s) \<Longrightarrow> P (fold f xs s) = P s"
  by (induction xs arbitrary: s) simp_all

lemma backed_crypt [simp]:
  "all_backed env (snd (encrypt_one_fingerprint env' peer c s)) = all_backed env s"
  "all_backed env (snd (encrypt_call_fingerprints env' peer cs s)) = all_backed env s"
  "all_backed env (snd (maybe_encrypt env' b peer cs s)) = all_backed env s"
  "all_backed env (snd (decrypt_one_fingerprint env' peer c s)) = all_backed env s"
  "all_backed env (snd (decrypt_call_fingerprints env' peer cs v s)) = all_backed env s"
proof -
  have one: "all_backed env (snd (encrypt_one_fingerprint env' peer c s)) = all_backed env s" for c s
    by (auto simp: encrypt_one_fingerprint_def Let_def split: option.split prod.split sum.split)
  then have all: "all_backed env (snd (encrypt_call_fingerprints env' peer cs s)) = all_backed env s" for cs s
    by (induction cs arbitrary: s) (simp_all add: case_prod_beta Let_def)
  have dec: "all_backed env (snd (decrypt_one_fingerprint env' peer c s)) = all_backed env s" for c s
    by (auto simp: decrypt_one_fingerprint_def Let_def split: option.split prod.split sum.split)
  then show "all_backed env (snd (decrypt_call_fingerprints env' peer cs v s)) = all_backed env s"
    by (induction cs arbitrary: v s) (simp_all add: case_prod_beta Let_def)
  from one all dec show "all_backed env (snd (encrypt_one_fingerprint env' peer c s)) = all_backed env s"
    "all_backed env (snd (encrypt_call_fingerprints env' peer cs s)) = all_backed env s"
    "all_backed env (snd (maybe_encrypt env' b peer cs s)) = all_backed env s"
    "all_backed env (snd (decrypt_one_fingerprint env' peer c s)) = all_backed env s"
    by (simp_all add: maybe_encrypt_def)
qed

lemma start_callD: "start_call env' sid peer role video room ini s = (r, t) \<Longrightarrow> all_backed env t = all_backed env s"
  using backed_basic(20)[of env env' sid peer role video room ini s] by simp

lemma backed_mesh [simp]:
  "all_backed env (maybe_initiate env' room occ addr video s) = all_backed env s"
  "all_backed env (initiate_next_pending env' room video s) = all_backed env s"
  "all_backed env (initiate_all env' room video ps s) = all_backed env s"
  "all_backed env (drop_member env' room om s) = all_backed env s"
  "all_backed env (remesh_tick env' room s) = all_backed env s"
  "all_backed env (remove_member env' room occ s) = all_backed env s"
proof -
  have leg: "all_backed env (initiate_leg env' room occ addr video our s) = all_backed env s" for room occ addr video our s
    by (auto simp: initiate_leg_def Let_def start_callD split: prod.split sum.split)
  have may: "all_backed env (maybe_initiate env' room occ addr video s) = all_backed env s" for occ addr video s
    by (simp add: maybe_initiate_def leg split: option.split)
  then have all: "all_backed env (initiate_all env' room video ps s) = all_backed env s" for video ps s
    unfolding initiate_all_def by (intro fold_same[of "all_backed env"]) auto
  have drop: "all_backed env (drop_member env' room om s) = all_backed env s" for om s
    by (simp add: drop_member_def Let_def split: prod.split option.split)
  then have drops: "all_backed env (fold (drop_member env' room) oms s) = all_backed env s" for oms s
    by (rule fold_same[of "all_backed env"])
  show "all_backed env (maybe_initiate env' room occ addr video s) = all_backed env s"
    "all_backed env (initiate_next_pending env' room video s) = all_backed env s"
    "all_backed env (initiate_all env' room video ps s) = all_backed env s"
    "all_backed env (drop_member env' room om s) = all_backed env s"
    "all_backed env (remesh_tick env' room s) = all_backed env s"
    "all_backed env (remove_member env' room occ s) = all_backed env s"
    using may all drop drops
    by (auto simp: initiate_next_pending_def remesh_tick_def remesh_def remove_member_def Let_def
        split: option.split list.split)
qed

lemma backed_groups [simp]:
  "all_backed env (place_group_call env' room video s) = all_backed env s"
  "all_backed env (leave_group_call env' room s) = all_backed env s"
  "all_backed env (set_group_mute env' room b s) = all_backed env s"
  "all_backed env (set_group_camera env' room b s) = all_backed env s"
  "all_backed env (observe_muji_presence env' pres s) = all_backed env s"
proof -
  have each: "all_backed env (each_leg env' room f s) = all_backed env s" if "\<And>sid s. all_backed env (f sid s) = all_backed env s" for f s
    using that by (auto simp: each_leg_def split: option.split intro!: fold_same[of "all_backed env"])
  then show "all_backed env (set_group_mute env' room b s) = all_backed env s"
    "all_backed env (set_group_camera env' room b s) = all_backed env s"
    by (simp_all add: set_group_mute_def set_group_camera_def)
  have legs: "all_backed env (fold (\<lambda>(sid, addr). end_leg env' sid addr) ls s) = all_backed env s" for ls s
    by (intro fold_same[of "all_backed env"]) auto
  then show "all_backed env (leave_group_call env' room s) = all_backed env s"
    by (simp add: leave_group_call_def split: option.split)
  show "all_backed env (place_group_call env' room video s) = all_backed env s"
    by (simp add: place_group_call_def Let_def split: option.split prod.split)
  show "all_backed env (observe_muji_presence env' pres s) = all_backed env s"
    by (auto simp: observe_muji_presence_def Let_def split: option.split prod.split muji_state.split)
qed

lemma backed_pump [simp]: "all_backed env (pump_event env' eng ev s) = all_backed env s"
  by (auto simp: pump_event_def Let_def send_renegotiation_def send_description_def send_candidate_def leg_settled_def
      case_prod_beta split: option.split engine_event.split)

lemma backed_upgrades [simp]:
  "all_backed env (accept_video_upgrade env' sid s) = all_backed env s"
  "all_backed env (decline_video_upgrade env' ini sid s) = all_backed env s"
  "all_backed env (content_accept env' sid from jingle s) = all_backed env s"
  "all_backed env (content_add env' sid from jingle s) = all_backed env s"
  "all_backed env (transport_info env' sid jingle s) = all_backed env s"
  "all_backed env (session_terminate env' sid from s) = all_backed env s"
  by (auto simp: accept_video_upgrade_def decline_video_upgrade_def content_accept_def content_add_def transport_info_def
      session_terminate_def case_prod_beta Let_def split: option.split intro!: fold_same[of "all_backed env"])

lemma backed_message [simp]: "all_backed env (snd (handle_message env' msg s)) = all_backed env s"
  by (auto simp: handle_message_def Let_def jmi_step_def ended_step_def split: option.split)

lemma backed_iq: "all_backed env s \<Longrightarrow> all_backed env (snd (handle_iq env iq s))"
proof -
  have leg: "all_backed env (snd (muji_leg env room sid from s)) = all_backed env s" for room sid "from" s
    by (auto simp: muji_leg_def start_callD split: option.split prod.split sum.split)
  have remote: "all_backed env (set_remote env kind sid cs b s) = all_backed env s" for kind sid cs b s
    by (auto simp: set_remote_def split: option.split)
  have noted: "all_backed env (note_verified env sid v s)" if "all_backed env s"
      "\<And>fp dev level. v = Some (fp, dev, level) \<Longrightarrow> level = 0 \<or> authenticated env fp dev level" for sid v s
    using that by (auto simp: note_verified_def backed_def split: option.split)
  have verdict: "level = 0 \<or> authenticated env fp dev level"
    if "snd (fst (decrypt_call_fingerprints env peer cs None s)) = Some (fp, dev, level)" for peer cs s fp dev level
    using that fingerprints_backed[of env peer cs None s _ fp dev level]
    by (cases "decrypt_call_fingerprints env peer cs None s") (auto simp: prod_eq_iff)
  have describe: "all_backed env (on_description env kind sid from jingle s)" if "all_backed env s" for kind sid "from" jingle s
    using that unfolding on_description_def Let_def case_prod_beta
    by (auto simp: remote leg intro!: noted verdict split: option.split sdp_kind.split)
  show "all_backed env s \<Longrightarrow> all_backed env (snd (handle_iq env iq s))"
    by (auto simp: handle_iq_def Let_def jingle_step_def describe split: option.split)
qed

lemma backed_commands: "act_keeps (all_backed env) (run_call_command env' c)"
proof (cases c)
  case (Place_Call to video)
  then show ?thesis by (auto simp: act_keeps_def place_call_def propose_def send_call_def act_simps Let_def)
next
  case (Accept_Call sid peer)
  have keeps: "act_keeps (all_backed env) (start_call env' sid p r v rm i)" "act_keeps (all_backed env) (send_call env' el)" for p r v rm i el
    by (simp_all add: act_keeps_def) (simp add: send_call_def)
  show ?thesis unfolding Accept_Call run_call_command.simps accept_call_def accept_def case_prod_unfold
    by (intro act_keeps_bind act_keeps_basic act_keeps_modify keeps) simp_all
next
  case (Decline_Call sid peer)
  then show ?thesis by (auto simp: act_keeps_def reject_def send_call_def act_simps)
next
  case (Cancel_Call sid peer)
  then show ?thesis by (auto simp: act_keeps_def hang_up_def send_call_def act_simps split: option.split)
qed (auto simp: screen_share_def group_screen_share_def start_screen_share_def stop_screen_share_def
    start_group_screen_share_def stop_group_screen_share_def Let_def intro!: act_keeps_modify split: option.split prod.split)

text \<open>
  C6: The lock and the shield of a call are backed: over every run, each event that shows a call as
  trusted names a device whose fingerprint decrypted under OMEMO, in an envelope from its sender to
  our account, while the store trusted that device: for the lock by default, for the shield by a
  verification.
\<close>

theorem verified_indicator_backed:
  "list_all (backed env) (cl_events (run_calls env is (registry db om)))"
proof -
  have step: "all_backed env (call_input_step env i s)" if "all_backed env s" for i s
    using that backed_iq act_keepsD[OF backed_commands] by (cases i) fastforce+
  have "all_backed env (run_calls env is s)" if "all_backed env s" for s
    using that unfolding run_calls_def by (intro fold_keeps[of "all_backed env"] step)
  from this[of "registry db om"] show ?thesis by (simp add: all_backed_def registry_def)
qed

end
