(* ===== verification/Call_Fingerprint_Laws.thy ===== *)
theory Call_Fingerprint_Laws
  imports Call_Trust_Laws
begin

text \<open>
  From one side of a call to the other: the fingerprint of our media engine goes through the OMEMO
  envelope and comes out where the peer's media engine looks for it, everything else of the session
  description unchanged.  \<open>delivers\<close> is what the two OMEMO engines and the envelope promise
  (\<open>Engine_Wire\<close> and \<open>Sce\<close> prove it of the modelled ones), \<open>parses_fingerprints\<close> what the XML parser
  does with the text of a fingerprint.
\<close>

subsection \<open>Rebuilding an element\<close>

definition attrs_listed :: "('e, 'o) call_env \<Rightarrow> bool" where
  "attrs_listed env \<longleftrightarrow> (\<forall>e. distinct (map fst (ce_attrs env e)) \<and> map_of (ce_attrs env e) = d_attr (ce_dom env) e)"

lemma fold_attrs:
  assumes "dom_sound d" and "distinct (map fst as)"
  shows "d_name d (fold (\<lambda>(k, v). d_with_attr d k v) as e) = d_name d e" "d_ns d (fold (\<lambda>(k, v). d_with_attr d k v) as e) = d_ns d e"
    "d_children d (fold (\<lambda>(k, v). d_with_attr d k v) as e) = d_children d e"
    "d_attr d (fold (\<lambda>(k, v). d_with_attr d k v) as e) l = (case map_of as l of None \<Rightarrow> d_attr d e l | Some v \<Rightarrow> Some v)"
proof -
  show "d_name d (fold (\<lambda>(k, v). d_with_attr d k v) as e) = d_name d e" "d_ns d (fold (\<lambda>(k, v). d_with_attr d k v) as e) = d_ns d e"
    "d_children d (fold (\<lambda>(k, v). d_with_attr d k v) as e) = d_children d e"
    using assms(1) by (induction as arbitrary: e) auto
  show "d_attr d (fold (\<lambda>(k, v). d_with_attr d k v) as e) l = (case map_of as l of None \<Rightarrow> d_attr d e l | Some v \<Rightarrow> Some v)"
    using assms
  proof (induction as arbitrary: e)
    case (Cons a as)
    obtain k v where a: "a = (k, v)" by fastforce
    have "map_of as k = None" using Cons.prems(2) a by (simp add: map_of_eq_None_iff)
    then show ?case using Cons a by (auto split: option.split)
  qed simp
qed

lemma replace_child_parts:
  assumes "dom_sound (ce_dom env)" and "attrs_listed env"
  shows "d_children (ce_dom env) (replace_child env name child e x)
      = filter (\<lambda>c. d_name (ce_dom env) c \<noteq> child) (d_children (ce_dom env) e) @ [x]"
    "d_attr (ce_dom env) (replace_child env name child e x) l = d_attr (ce_dom env) e l"
    "d_name (ce_dom env) (replace_child env name child e x) = name"
    "d_ns (ce_dom env) (replace_child env name child e x) = d_ns (ce_dom env) e"
  using assms fold_attrs[OF assms(1), of "ce_attrs env e"]
  by (auto simp: replace_child_def shell_def attrs_listed_def split: option.split)

lemma find_other: "(\<And>c. Q c \<Longrightarrow> P c) \<Longrightarrow> find Q (filter P cs) = find Q cs"
  by (induction cs) auto

lemma get_child_replaced:
  assumes "dom_sound (ce_dom env)" and "attrs_listed env"
  shows "n \<noteq> child \<Longrightarrow> d_name (ce_dom env) x = child \<Longrightarrow>
      get_child (ce_dom env) (replace_child env name child e x) n ns = get_child (ce_dom env) e n ns"
    "d_name (ce_dom env) x = child \<Longrightarrow> get_child (ce_dom env) (replace_child env name child e x) child ns
      = (if d_ns (ce_dom env) x = ns then Some x else None)"
    "n \<noteq> child \<Longrightarrow> d_name (ce_dom env) x = child \<Longrightarrow> named (ce_dom env) n (replace_child env name child e x) = named (ce_dom env) n e"
proof -
  have append: "find Q (xs @ [y]) = (case find Q xs of None \<Rightarrow> if Q y then Some y else None | Some z \<Rightarrow> Some z)" for Q y and xs :: "'a list"
    by (induction xs) auto
  show "n \<noteq> child \<Longrightarrow> d_name (ce_dom env) x = child \<Longrightarrow>
      get_child (ce_dom env) (replace_child env name child e x) n ns = get_child (ce_dom env) e n ns"
    using find_other[of "\<lambda>c. d_is (ce_dom env) c n ns" "\<lambda>c. d_name (ce_dom env) c \<noteq> child"]
    by (auto simp: get_child_def replace_child_parts[OF assms] append d_is_def split: option.split)
  have none: "find (\<lambda>c. d_is (ce_dom env) c child ns) (filter (\<lambda>c. d_name (ce_dom env) c \<noteq> child) cs) = None" for cs
    by (induction cs) (auto simp: d_is_def)
  then show "d_name (ce_dom env) x = child \<Longrightarrow> get_child (ce_dom env) (replace_child env name child e x) child ns
      = (if d_ns (ce_dom env) x = ns then Some x else None)"
    by (simp add: get_child_def replace_child_parts[OF assms] append) (simp add: d_is_def)
  show "n \<noteq> child \<Longrightarrow> d_name (ce_dom env) x = child \<Longrightarrow> named (ce_dom env) n (replace_child env name child e x) = named (ce_dom env) n e"
    by (auto simp: named_def replace_child_parts[OF assms] intro!: filter_cong)
qed

subsection \<open>The same session description\<close>

definition same_transport :: "('e, 'z) dom_scheme \<Rightarrow> 'e \<Rightarrow> 'e \<Rightarrow> bool" where
  "same_transport d t u \<longleftrightarrow> d_attr d t ''ufrag'' = d_attr d u ''ufrag'' \<and> d_attr d t ''pwd'' = d_attr d u ''pwd''
     \<and> named d ''candidate'' t = named d ''candidate'' u
     \<and> (\<exists>f g. get_child d t ''fingerprint'' NS_DTLS = Some f \<and> get_child d u ''fingerprint'' NS_DTLS = Some g
          \<and> d_attr d f ''hash'' = d_attr d g ''hash'' \<and> d_attr d f ''setup'' = d_attr d g ''setup'' \<and> d_text d f = d_text d g)"

definition same_content :: "('e, 'z) dom_scheme \<Rightarrow> 'e \<Rightarrow> 'e \<Rightarrow> bool" where
  "same_content d c c' \<longleftrightarrow> d_attr d c ''name'' = d_attr d c' ''name''
     \<and> get_child d c ''description'' NS_RTP = get_child d c' ''description'' NS_RTP
     \<and> (\<exists>t u. get_child d c ''transport'' NS_ICE = Some t \<and> get_child d c' ''transport'' NS_ICE = Some u \<and> same_transport d t u)"

lemma same_sdp_one:
  assumes "same_content d c c'"
  shows "contents_to_sdp d [c] = contents_to_sdp d [c']"
proof -
  obtain t u f g where tu: "get_child d c ''transport'' NS_ICE = Some t" "get_child d c' ''transport'' NS_ICE = Some u"
    "d_attr d t ''ufrag'' = d_attr d u ''ufrag''" "d_attr d t ''pwd'' = d_attr d u ''pwd''"
    "named d ''candidate'' t = named d ''candidate'' u"
    "get_child d t ''fingerprint'' NS_DTLS = Some f" "get_child d u ''fingerprint'' NS_DTLS = Some g"
    "d_attr d f ''hash'' = d_attr d g ''hash''" "d_attr d f ''setup'' = d_attr d g ''setup''" "d_text d f = d_text d g"
    using assms by (auto simp: same_content_def same_transport_def)
  have uf: "attr_or d t ''ufrag'' [] = attr_or d u ''ufrag'' []" by (simp add: attr_or_def tu)
  have prim: "primary_transport d [c] = (if attr_or d u ''ufrag'' [] \<noteq> [] then Some t else None)"
    "primary_transport d [c'] = (if attr_or d u ''ufrag'' [] \<noteq> [] then Some u else None)"
    by (simp_all add: primary_transport_def List.map_filter_def tu uf)
  have "bundle_lines d (primary_transport d [c]) = bundle_lines d (primary_transport d [c'])"
    by (simp add: bundle_lines_def prim tu attr_or_def)
  then have "content_lines d (primary_transport d [c]) c = content_lines d (primary_transport d [c']) c'"
    using assms by (simp add: content_lines_def tu same_content_def attr_or_def split: option.split)
  then show ?thesis using assms by (simp add: contents_to_sdp_def same_content_def attr_or_def)
qed

subsection \<open>The round trip\<close>

definition no_markup :: "string \<Rightarrow> bool" where
  "no_markup s \<longleftrightarrow> set s \<inter> {CHR ''<'', CHR ''>'', CHR ''&'', CHR 0x27, CHR 0x22} = {}"

definition parses_fingerprints :: "('e, 'z) dom_scheme \<Rightarrow> bool" where
  "parses_fingerprints d \<longleftrightarrow> (\<forall>hash setup hex. no_markup hash \<and> no_markup setup \<and> no_markup hex \<and> str_trim hex = hex \<longrightarrow>
     (\<exists>p f. d_parse d (''<c xmlns='' @ [CHR 0x27] @ ''urn:x'' @ [CHR 0x27] @ ''>'' @ fp_inner hash setup hex @ ''</c>'') = Some p
        \<and> get_child d p ''fingerprint'' NS_DTLS = Some f
        \<and> d_attr d f ''hash'' = Some hash \<and> d_attr d f ''setup'' = Some setup \<and> d_text d f = hex))"

definition fingerprint_envelope :: "('e, 'o) call_env \<Rightarrow> string \<Rightarrow> string \<Rightarrow> string \<Rightarrow> string \<Rightarrow> ('e, 'o) calls \<Rightarrow> envelope" where
  "fingerprint_envelope env peer hash setup hex s =
     envelope_with_content (fp_inner hash setup hex) (ce_bare env) peer (Some (now_stamp env s))"

definition delivers :: "('e, 'o) call_env \<Rightarrow> ('e, 'o) calls \<Rightarrow> ('e, 'p) call_env \<Rightarrow> ('e, 'p) calls \<Rightarrow> envelope \<Rightarrow> bool" where
  "delivers ours s theirs r e \<longleftrightarrow> (\<forall>enc om'.
     ce_encrypt ours (ce_bare theirs) (envelope_to_xml (ce_xml ours) (ce_pad ours (cl_tick s)) e) (cl_omemo s) = (Inr enc, om') \<longrightarrow>
     d_name (ce_dom ours) enc = ''encrypted''
   \<and> (\<exists>dec pm'. ce_decrypt theirs enc (ce_bare ours) (Some (ce_bare theirs)) (cl_omemo r) = (Inr dec, pm')
        \<and> envelope_from_xml (ce_xml theirs) (utf8_lossy (dec_envelope dec)) = Inr e))"

lemma child_is: "get_child d e n ns = Some c \<Longrightarrow> d_name d c = n \<and> d_ns d c = ns"
  by (auto simp: get_child_def d_is_def find_Some_iff)

text \<open>
  C12: A fingerprint encrypted on our side is authenticated on the other: the content the peer puts
  together from our stanza gives his media engine the very description our own content stands for,
  with our fingerprint, and the verdict he shows is the trust he has in our device.
\<close>

theorem call_fingerprint_roundtrip:
  assumes dom: "dom_sound (ce_dom ours)" "ce_dom theirs = ce_dom ours" "attrs_listed ours" "attrs_listed theirs"
      "parses_fingerprints (ce_dom ours)"
    and content: "get_child (ce_dom ours) content ''transport'' NS_ICE = Some transport"
      "get_child (ce_dom ours) transport ''fingerprint'' NS_DTLS = Some fp"
      "d_attr (ce_dom ours) fp ''hash'' = Some hash" "d_attr (ce_dom ours) fp ''setup'' = Some setup"
      "list_all no_markup [hash, setup, d_text (ce_dom ours) fp]" "str_trim (d_text (ce_dom ours) fp) = d_text (ce_dom ours) fp"
    and sent: "encrypt_one_fingerprint ours (ce_bare theirs) content s = (wire, s')" "wire \<noteq> content"
    and net: "delivers ours s theirs r (fingerprint_envelope ours (ce_bare theirs) hash setup (d_text (ce_dom ours) fp) s)"
  shows "\<exists>received device fingerprint r'.
       decrypt_one_fingerprint theirs (ce_bare ours) wire r
         = ((received, Some (fingerprint, device, call_trust True (ce_trust theirs (ce_bare ours) device (cl_omemo r')))), r')
     \<and> contents_to_sdp (ce_dom ours) [received] = contents_to_sdp (ce_dom ours) [content]"
proof -
  let ?d = "ce_dom ours"
  define e where "e = envelope_with_content (fp_inner hash setup (d_text ?d fp)) (ce_bare ours) (ce_bare theirs) (Some (now_stamp ours s))"
  have fp: "attr_or ?d fp ''setup'' ''actpass'' = setup" "attr_or ?d fp ''hash'' ''sha-256'' = hash"
    using content by (simp_all add: attr_or_def)
  obtain enc om' where enc: "ce_encrypt ours (ce_bare theirs) (envelope_to_xml (ce_xml ours) (ce_pad ours (cl_tick s)) e) (cl_omemo s)
      = (Inr enc, om')"
    using sent content(1,2) by (auto simp: encrypt_one_fingerprint_def Let_def fp e_def split: prod.split_asm sum.split_asm)
  define ofp where "ofp = d_with_child ?d enc (d_with_attr ?d ''hash'' hash (d_with_attr ?d ''setup'' setup (d_bare ?d ''fingerprint'' NS_OMEMO_DTLS)))"
  define tr where "tr = transport_with_fingerprint ours transport ofp"
  have wire: "wire = content_with_transport ours content tr"
    using sent content(1,2) enc by (auto simp: encrypt_one_fingerprint_def Let_def fp e_def tr_def ofp_def)
  have names: "d_name ?d ofp = ''fingerprint''" "d_ns ?d ofp = NS_OMEMO_DTLS" "d_children ?d ofp = [enc]"
    "d_attr ?d ofp ''hash'' = Some hash" "d_attr ?d ofp ''setup'' = Some setup"
    using dom(1) by (simp_all add: ofp_def)
  have trs: "d_name ?d tr = ''transport''" "d_ns ?d tr = NS_ICE"
    using child_is[OF content(1)] by (simp_all add: tr_def transport_with_fingerprint_def replace_child_parts[OF dom(1,3)])
  obtain dec pm' where dec: "d_name ?d enc = ''encrypted''"
      "ce_decrypt theirs enc (ce_bare ours) (Some (ce_bare theirs)) (cl_omemo r) = (Inr dec, pm')"
      "envelope_from_xml (ce_xml theirs) (utf8_lossy (dec_envelope dec)) = Inr e"
    using net enc unfolding delivers_def fingerprint_envelope_def e_def by blast
  have found: "omemo_fingerprint ?d wire = Some (tr, ofp, enc)"
    using names trs dec(1) get_child_replaced[OF dom(1,3)]
    by (simp add: omemo_fingerprint_def wire content_with_transport_def tr_def transport_with_fingerprint_def)
  obtain p f where parsed: "d_parse ?d (''<c xmlns='' @ [CHR 0x27] @ ''urn:x'' @ [CHR 0x27] @ ''>'' @ fp_inner hash setup (d_text ?d fp) @ ''</c>'') = Some p"
      "get_child ?d p ''fingerprint'' NS_DTLS = Some f" "d_attr ?d f ''hash'' = Some hash" "d_attr ?d f ''setup'' = Some setup"
      "d_text ?d f = d_text ?d fp"
    using dom(5)[unfolded parses_fingerprints_def, rule_format, of hash "setup" "d_text ?d fp"] content(5,6) that by auto
  have inner: "inner_fingerprint theirs dec = Some (e, f)"
    using dec(3) parsed(1,2) by (simp add: inner_fingerprint_def dom(2) e_def envelope_with_content_def)
  define new where "new = dtls_fingerprint ?d setup hash (d_text ?d fp)"
  define got where "got = content_with_transport theirs wire (transport_with_fingerprint theirs tr new)"
  have new: "d_name ?d new = ''fingerprint''" "d_ns ?d new = NS_DTLS" "d_attr ?d new ''hash'' = Some hash"
    "d_attr ?d new ''setup'' = Some setup" "d_text ?d new = d_text ?d fp"
    using dom(1) by (simp_all add: new_def dtls_fingerprint_def)
  have bound: "verify_binding e (ce_bare theirs) (ce_bare ours) = Inr ()"
    by (simp add: verify_binding_def e_def envelope_with_content_def eq_ignore_ascii_case_def)
  have run: "decrypt_one_fingerprint theirs (ce_bare ours) wire r = ((got, Some (dec_fingerprint dec, uint (dec_sender_device dec),
      call_trust True (ce_trust theirs (ce_bare ours) (uint (dec_sender_device dec)) pm'))), r\<lparr>cl_omemo := pm'\<rparr>)"
    using parsed(3-5) content(6)
    by (simp add: decrypt_one_fingerprint_def Let_def dom(2) found dec(2) inner bound got_def new_def attr_or_def)
  have theirs: "dom_sound (ce_dom theirs)" using dom(1,2) by simp
  note rebuilt = get_child_replaced[OF theirs dom(4), unfolded dom(2)] replace_child_parts[OF theirs dom(4), unfolded dom(2)]
    get_child_replaced[OF dom(1,3)] replace_child_parts[OF dom(1,3)]
  have "d_name ?d (transport_with_fingerprint theirs tr new) = ''transport''"
    "d_ns ?d (transport_with_fingerprint theirs tr new) = NS_ICE"
    using trs by (simp_all add: transport_with_fingerprint_def rebuilt)
  moreover have "same_transport ?d (transport_with_fingerprint theirs tr new) transport"
    using new names content by (simp add: same_transport_def transport_with_fingerprint_def tr_def rebuilt)
  ultimately have "same_content ?d got content"
    using content(1) trs by (simp add: same_content_def got_def wire content_with_transport_def rebuilt)
  from same_sdp_one[OF this] show ?thesis
    unfolding run by (intro exI[of _ got] exI[of _ "uint (dec_sender_device dec)"] exI[of _ "dec_fingerprint dec"]
        exI[of _ "r\<lparr>cl_omemo := pm'\<rparr>"]) simp
qed

end
