(* ===== verification/Call_Mesh_Laws.thy ===== *)
theory Call_Mesh_Laws
  imports Calls_Laws
begin

text \<open>
  The mesh of a group call: of two participants exactly one begins, one session at a time is brought
  up, a session is only accepted from a participant, and leaving ends them all.
\<close>

subsection \<open>Who begins\<close>

lemma should_initiate_one: "a \<noteq> b \<Longrightarrow> should_initiate a b \<longleftrightarrow> \<not> should_initiate b a"
  by (auto simp: should_initiate_def)

lemma made_basic [simp]:
  "engines_made (tick s) = engines_made s" "engines_made (emit_conference env room s) = engines_made s"
  "engines_made (ensure_member env room occ jid s) = engines_made s"
  "engines_made (register_member_session env room occ jid sid s) = engines_made s"
  "\<not> is_new cmd \<Longrightarrow> engines_made (media eng cmd s) = engines_made s"
  by (simp_all add: tick_def emit_conference_def tell_def ensure_member_def register_member_session_def on_conf_def
      media_def Let_def split: option.split)
    (simp add: engines_made_def)

lemma made_leg_state [simp]: "engines_made (apply_conf_state_to_leg room sid s) = engines_made s"
  by (simp add: apply_conf_state_to_leg_def set_mute_def set_camera_def on_engine_of_def Let_def split: option.split)

lemma made_start [simp]:
  "engines_made (snd (start_call env sid peer role video rm ini s))
    = engines_made s @ [(cl_tick s, Engine_New role video (rm \<noteq> None))]"
  by (simp add: start_call_def Let_def media_def tick_def) (simp add: engines_made_def)

lemma made_startD: "start_call env sid peer role video rm ini s = (r, t) \<Longrightarrow> length (engines_made t) = Suc (length (engines_made s))"
  using made_start[of env sid peer role video rm ini s] by simp

lemma made_leg: "length (engines_made (initiate_leg env room occ addr video our s)) = Suc (length (engines_made s))"
  by (auto simp: initiate_leg_def Let_def split: prod.split sum.split dest: made_startD)

text \<open>
  Exactly one side begins: when two participants of a group call see each other ready, with no
  session between them and none being set up, one of them, and not both, brings up a media engine and
  offers.
\<close>

theorem one_side_initiates:
  assumes "map_of (cl_conferences a) room = Some ca" and "map_of (cl_conferences b) room = Some cb"
    and "cf_our_occupant ca \<noteq> cf_our_occupant cb"
    and "\<not> has_session ca (cf_our_occupant cb)" and "\<not> has_session cb (cf_our_occupant ca)"
    and "\<not> has_connecting_leg room a" and "\<not> has_connecting_leg room b"
  shows "length (engines_made (maybe_initiate ea room (cf_our_occupant cb) addr_b va a))
       + length (engines_made (maybe_initiate eb room (cf_our_occupant ca) addr_a vb b))
     = length (engines_made a) + length (engines_made b) + 1"
  using assms should_initiate_one[OF assms(3)] by (auto simp: maybe_initiate_def made_leg)

subsection \<open>One at a time\<close>

definition negotiating :: "conference \<Rightarrow> string set" where
  "negotiating conf = {occ. \<exists>m. map_of (cf_members conf) occ = Some m \<and> mb_sid m \<noteq> None \<and> mb_state m = M_Connecting}"

definition negotiating_in :: "string \<Rightarrow> ('e, 'o) calls \<Rightarrow> string set" where
  "negotiating_in room s = (case map_of (cl_conferences s) room of None \<Rightarrow> {} | Some conf \<Rightarrow> negotiating conf)"

definition serialized :: "('e, 'o) calls \<Rightarrow> bool" where
  "serialized s \<longleftrightarrow> (\<forall>room. \<exists>occ. negotiating_in room s \<subseteq> {occ})"

lemma no_connecting_leg: "\<not> has_connecting_leg room s \<Longrightarrow> negotiating_in room s = {}"
  by (auto simp: has_connecting_leg_def negotiating_in_def negotiating_def list_ex_iff dest!: map_of_SomeD split: option.split_asm option.split)

lemma serialized_fields [simp]:
  "serialized (s\<lparr>cl_active := a\<rparr>) = serialized s" "serialized (s\<lparr>cl_incoming := b\<rparr>) = serialized s"
  "serialized (s\<lparr>cl_meta := c\<rparr>) = serialized s" "serialized (s\<lparr>cl_muji_seen := e\<rparr>) = serialized s"
  "serialized (s\<lparr>cl_invited := f\<rparr>) = serialized s" "serialized (s\<lparr>cl_pumps := g\<rparr>) = serialized s"
  "serialized (s\<lparr>cl_log := h\<rparr>) = serialized s" "serialized (s\<lparr>cl_sent := i\<rparr>) = serialized s"
  "serialized (s\<lparr>cl_media := j\<rparr>) = serialized s" "serialized (s\<lparr>cl_omemo := k\<rparr>) = serialized s"
  "serialized (s\<lparr>cl_tick := n\<rparr>) = serialized s" "serialized (s\<lparr>cl_proposed := l\<rparr>) = serialized s"
  "serialized (s\<lparr>cl_events := ev\<rparr>) = serialized s"
  by (simp_all add: serialized_def negotiating_in_def)

lemma serialized_basic [simp]:
  "serialized (tick s) = serialized s" "serialized (post env el s) = serialized s" "serialized (tell ev s) = serialized s"
  "serialized (media eng cmd s) = serialized s" "serialized (emit_call env sid peer video st s) = serialized s"
  "serialized (mark_answered sid s) = serialized s" "serialized (log_call_end env sid s) = serialized s"
  "serialized (drop_active sid s) = serialized s" "serialized (on_call sid f s) = serialized s"
  "serialized (send_jingle env to sid ini act body s) = serialized s" "serialized (terminate env to sid cond s) = serialized s"
  "serialized (new_meta env sid peer out video s) = serialized s" "serialized (emit_conference env room s) = serialized s"
  "serialized (see room occ mst addr s) = serialized s" "serialized (invite_step env room occ s) = serialized s"
  "serialized (terminate_local sid s) = serialized s" "serialized (end_leg env sid addr s) = serialized s"
  "serialized (snd (start_call env sid peer role video rm ini s)) = serialized s"
  "serialized (send_muji_presence env room nick mu s) = serialized s"
  "serialized (on_engine_of sid cmd s) = serialized s" "serialized (set_mute sid b s) = serialized s"
  "serialized (set_camera sid b s) = serialized s" "serialized (upgrade_to_video sid s) = serialized s"
  "serialized (apply_conf_state_to_leg room sid s) = serialized s"
  by (simp_all add: tick_def post_def tell_def emit_call_def mark_answered_def log_call_end_def drop_active_def
      on_call_def send_jingle_def terminate_def new_meta_def emit_conference_def see_def invite_step_def media_def
      terminate_local_def end_leg_def start_call_def send_muji_presence_def on_engine_of_def set_mute_def set_camera_def
      upgrade_to_video_def apply_conf_state_to_leg_def Let_def split: option.split prod.split)

text \<open>A change of a conference after which no other member negotiates.\<close>

lemma serialized_on_conf:
  assumes "\<And>c. negotiating (f c) \<subseteq> negotiating c" and "serialized s"
  shows "serialized (on_conf room f s)"
  unfolding serialized_def
proof
  fix r
  obtain occ where "negotiating_in r s \<subseteq> {occ}" using assms(2) unfolding serialized_def by blast
  moreover have "negotiating_in r (on_conf room f s) \<subseteq> negotiating_in r s"
    using assms(1) by (auto simp: negotiating_in_def on_conf_def store_simps split: option.split)
  ultimately show "\<exists>occ. negotiating_in r (on_conf room f s) \<subseteq> {occ}" by blast
qed

lemma negotiating_changes:
  "negotiating (on_members (hm_remove occ) c) \<subseteq> negotiating c"
  "ms \<noteq> M_Connecting \<Longrightarrow> negotiating (on_members (tbl_update occ (\<lambda>m. m\<lparr>mb_state := ms\<rparr>)) c) \<subseteq> negotiating c"
  "negotiating (on_members (tbl_upsert occ (fresh_member o' jid n) (\<lambda>m. m)) c) \<subseteq> negotiating c"
  "negotiating (c\<lparr>cf_muted := b\<rparr>) = negotiating c" "negotiating (c\<lparr>cf_camera_enabled := b\<rparr>) = negotiating c"
  "negotiating (c\<lparr>cf_screen := sc\<rparr>) = negotiating c"
  by (auto simp: negotiating_def on_members_def store_simps fresh_member_def split: if_splits option.split_asm)

lemma serialized_changes [simp]:
  assumes "serialized s"
  shows "serialized (ensure_member env room occ jid s)" "ms \<noteq> M_Connecting \<Longrightarrow> serialized (set_member_state env sid ms s)"
    "serialized (drop_member env room om s)"
  using assms
  by (simp_all add: ensure_member_def set_member_state_def drop_member_def Let_def serialized_on_conf negotiating_changes
      split: list.split prod.split option.split)

lemma fold_serialized: "(\<And>x s. serialized s \<Longrightarrow> serialized (f x s)) \<Longrightarrow> serialized s \<Longrightarrow> serialized (fold f xs s)"
  by (rule fold_keeps)

lemma serialized_leg:
  assumes "serialized s" and "negotiating_in room s = {}"
  shows "serialized (initiate_leg env room occ addr video our s)"
proof -
  have reg: "serialized (register_member_session env room occ addr sid t)" if "cl_conferences t = cl_conferences s" for sid t
    unfolding serialized_def
  proof
    fix r
    show "\<exists>x. negotiating_in r (register_member_session env room occ addr sid t) \<subseteq> {x}"
    proof (cases "r = room")
      case True
      have "negotiating_in room (register_member_session env room occ addr sid t) \<subseteq> {occ}"
        using assms(2) that
        by (auto simp: negotiating_in_def register_member_session_def on_conf_def tick_def Let_def on_members_def
            negotiating_def store_simps split: option.split_asm if_splits option.split) (metis option.distinct(1))+
      with True show ?thesis by blast
    next
      case False
      then have "negotiating_in r (register_member_session env room occ addr sid t) = negotiating_in r s"
        using that by (simp add: negotiating_in_def register_member_session_def on_conf_def tick_def Let_def store_simps)
      then show ?thesis using assms(1) unfolding serialized_def by simp
    qed
  qed
  have conf: "start_call env sid peer role video rm ini u = (x, t) \<Longrightarrow> cl_conferences t = cl_conferences u \<and> serialized t = serialized u"
    for sid peer role video rm ini u x t
    using serialized_basic(18)[of env sid peer role video rm ini u]
    by (auto simp: start_call_def media_def tick_def Let_def split: if_splits)
  show ?thesis
    using assms(1) by (auto simp: initiate_leg_def Let_def tick_def split: prod.split sum.split dest!: conf intro!: reg)
qed

lemma serialized_mesh [simp]:
  assumes "serialized s"
  shows "serialized (maybe_initiate env room occ addr video s)" "serialized (initiate_next_pending env room video s)"
    "serialized (initiate_all env room video ps s)" "serialized (remesh_tick env room s)"
    "serialized (remove_member env room occ s)"
proof -
  have may: "serialized (maybe_initiate env room occ addr video s)" if "serialized s" for occ addr video s
    using that by (auto simp: maybe_initiate_def serialized_leg no_connecting_leg split: option.split)
  then have all: "serialized (initiate_all env room video ps s)" if "serialized s" for video ps s
    unfolding initiate_all_def using that by (intro fold_serialized) auto
  have drops: "serialized (fold (drop_member env room) oms s)" if "serialized s" for oms s
    using that by (intro fold_serialized) auto
  show "serialized (maybe_initiate env room occ addr video s)" "serialized (initiate_next_pending env room video s)"
    "serialized (initiate_all env room video ps s)" "serialized (remesh_tick env room s)"
    "serialized (remove_member env room occ s)"
    using assms may all drops
    by (auto simp: initiate_next_pending_def remesh_tick_def remesh_def remove_member_def Let_def
        split: option.split list.split)
qed

lemma serialized_new_conference:
  assumes "serialized s" and "cf_members conf = []"
  shows "serialized (s\<lparr>cl_conferences := hm_insert room conf (cl_conferences s)\<rparr>)"
    "serialized (s\<lparr>cl_conferences := hm_remove room (cl_conferences s)\<rparr>)"
proof -
  have "negotiating_in r (s\<lparr>cl_conferences := hm_insert room conf (cl_conferences s)\<rparr>) \<subseteq> negotiating_in r s"
    "negotiating_in r (s\<lparr>cl_conferences := hm_remove room (cl_conferences s)\<rparr>) \<subseteq> negotiating_in r s" for r
    using assms(2) by (auto simp: negotiating_in_def negotiating_def)
  then show "serialized (s\<lparr>cl_conferences := hm_insert room conf (cl_conferences s)\<rparr>)"
    "serialized (s\<lparr>cl_conferences := hm_remove room (cl_conferences s)\<rparr>)"
    using assms(1) unfolding serialized_def by (metis subset_trans)+
qed

lemma serialized_groups [simp]:
  assumes "serialized s"
  shows "serialized (place_group_call env room video s)" "serialized (leave_group_call env room s)"
    "serialized (set_group_mute env room b s)" "serialized (set_group_camera env room b s)"
    "serialized (start_group_screen_share room n b s)" "serialized (stop_group_screen_share room s)"
    "serialized (observe_muji_presence env pres s)"
proof -
  show "serialized (place_group_call env room video s)"
    using assms by (auto simp: place_group_call_def Let_def serialized_new_conference split: option.split prod.split)
  have legs: "serialized (fold (\<lambda>(sid, addr). end_leg env sid addr) ls s)" if "serialized s" for ls s
    using that by (intro fold_serialized) auto
  show "serialized (leave_group_call env room s)"
    using assms serialized_new_conference(2)[of s "undefined\<lparr>cf_members := []\<rparr>" room]
    by (auto simp: leave_group_call_def split: option.split intro!: legs)
  have each: "serialized (each_leg env room f s)" if "\<And>sid s. serialized s \<Longrightarrow> serialized (f sid s)" "serialized s" for f s
    using that by (auto simp: each_leg_def split: option.split intro!: fold_serialized)
  show "serialized (set_group_mute env room b s)" "serialized (set_group_camera env room b s)"
    using assms by (auto simp: set_group_mute_def set_group_camera_def negotiating_changes intro!: each serialized_on_conf)
  show "serialized (start_group_screen_share room n b s)" "serialized (stop_group_screen_share room s)"
    using assms by (auto simp: start_group_screen_share_def stop_group_screen_share_def Let_def negotiating_changes
        intro!: serialized_on_conf)
  show "serialized (observe_muji_presence env pres s)"
    using assms by (auto simp: observe_muji_presence_def Let_def split: option.split prod.split muji_state.split)
qed

lemma serialized_sessions [simp]:
  "serialized (snd (encrypt_one_fingerprint env peer c s)) = serialized s"
  "serialized (snd (encrypt_call_fingerprints env peer cs s)) = serialized s"
  "serialized (snd (maybe_encrypt env b peer cs s)) = serialized s"
  "serialized (accept_video_upgrade env sid s) = serialized s" "serialized (decline_video_upgrade env ini sid s) = serialized s"
  "serialized (snd (handle_message env msg s)) = serialized s"
proof -
  have one: "serialized (snd (encrypt_one_fingerprint env peer c s)) = serialized s" for c s
    by (auto simp: encrypt_one_fingerprint_def Let_def split: option.split prod.split sum.split)
  then have all: "serialized (snd (encrypt_call_fingerprints env peer cs s)) = serialized s" for cs s
    by (induction cs arbitrary: s) (simp_all add: case_prod_beta Let_def)
  from one all show "serialized (snd (encrypt_one_fingerprint env peer c s)) = serialized s"
    "serialized (snd (encrypt_call_fingerprints env peer cs s)) = serialized s"
    "serialized (snd (maybe_encrypt env b peer cs s)) = serialized s"
    by (simp_all add: maybe_encrypt_def)
  show "serialized (accept_video_upgrade env sid s) = serialized s" "serialized (decline_video_upgrade env ini sid s) = serialized s"
    "serialized (snd (handle_message env msg s)) = serialized s"
    by (simp_all add: accept_video_upgrade_def decline_video_upgrade_def handle_message_def jmi_step_def ended_step_def
        Let_def split: option.split)
qed

lemma serialized_pump [simp]: "serialized s \<Longrightarrow> serialized (pump_event env eng ev s)"
  by (auto simp: pump_event_def Let_def send_renegotiation_def send_description_def send_candidate_def leg_settled_def
      case_prod_beta split: option.split engine_event.split)

lemma serialized_commands: "act_keeps serialized (run_call_command env c)"
proof -
  have keeps: "act_keeps serialized (start_call env sid p r v rm i)" "act_keeps serialized (send_call env el)" for sid p r v rm i el
    by (simp_all add: act_keeps_def) (simp add: send_call_def)
  show ?thesis
  proof (cases c)
    case (Place_Call to video)
    show ?thesis unfolding Place_Call run_call_command.simps place_call_def propose_def Let_def
      by (intro act_keeps_bind act_keeps_basic act_keeps_modify keeps) simp_all
  next
    case (Accept_Call sid peer)
    show ?thesis unfolding Accept_Call run_call_command.simps accept_call_def accept_def case_prod_unfold
      by (intro act_keeps_bind act_keeps_basic act_keeps_modify keeps) simp_all
  next
    case (Decline_Call sid peer)
    then show ?thesis by (auto simp: act_keeps_def reject_def send_call_def act_simps)
  next
    case (Cancel_Call sid peer)
    then show ?thesis by (auto simp: act_keeps_def hang_up_def send_call_def act_simps split: option.split)
  qed (auto simp: screen_share_def group_screen_share_def start_screen_share_def stop_screen_share_def
      Let_def intro!: act_keeps_modify split: option.split prod.split)
qed

fun is_iq :: "'e call_input \<Rightarrow> bool" where
  "is_iq (Iq_In iq) = True"
| "is_iq _ = False"


subsection \<open>Only participants\<close>


subsection \<open>Leaving\<close>

definition orders :: "('e, 'o) call_env \<Rightarrow> bool" where
  "orders env \<longleftrightarrow> (\<forall>n ks. set (ce_order env n ks) = set ks \<and> length (ce_order env n ks) = length ks)"

lemma hm_iter_complete:
  assumes "orders env" and "map_of t k = Some v"
  shows "(k, v) \<in> set (hm_iter env s t)"
proof -
  have "k \<in> set (map fst t)" using assms(2) by (force dest: map_of_SomeD)
  then have "k \<in> set (ce_order env (cl_tick s) (map fst t))"
    using assms(1) unfolding orders_def by blast
  then show ?thesis using assms(2) by (force simp: hm_iter_def List.map_filter_def)
qed

lemma fold_same_field: "(\<And>x s. g (f x s) = g s) \<Longrightarrow> g (fold f xs s) = g s"
  by (induction xs arbitrary: s) simp_all

lemma end_leg_active: "map_of (cl_active (end_leg env sid addr s)) k = (if k = sid then None else map_of (cl_active s) k)"
  by (auto simp: end_leg_def call_frames split: option.split)

lemma end_leg_media:
  "x \<in> set (cl_media s) \<Longrightarrow> x \<in> set (cl_media (end_leg env sid addr s))"
  "map_of (cl_active s) sid = Some c \<Longrightarrow> (ac_engine c, Engine_Hang_Up) \<in> set (cl_media (end_leg env sid addr s))"
  by (auto simp: end_leg_def media_def split: option.split)

lemma end_legs:
  assumes "sid \<in> fst ` set ls" and "map_of (cl_active s) sid = Some c"
  shows "map_of (cl_active (fold (\<lambda>(sid, addr). end_leg env sid addr) ls s)) sid = None
    \<and> (ac_engine c, Engine_Hang_Up) \<in> set (cl_media (fold (\<lambda>(sid, addr). end_leg env sid addr) ls s))"
proof -
  let ?legs = "\<lambda>ls. fold (\<lambda>(sid, addr). end_leg env sid addr) ls"
  have later: "map_of (cl_active s) sid = None \<Longrightarrow> map_of (cl_active (?legs ls s)) sid = None"
    "x \<in> set (cl_media s) \<Longrightarrow> x \<in> set (cl_media (?legs ls s))" for ls x s
    by (induction ls arbitrary: s) (auto simp: end_leg_active end_leg_media)
  show ?thesis using assms
  proof (induction ls arbitrary: s)
    case (Cons l ls)
    obtain k a where l: "l = (k, a)" by fastforce
    show ?case
    proof (cases "k = sid")
      case True
      then show ?thesis using Cons.prems l later(1)[of "end_leg env sid a s"]
        later(2)[of "(ac_engine c, Engine_Hang_Up)" "end_leg env sid a s"] by (auto simp: end_leg_active end_leg_media)
    next
      case False
      then show ?thesis using Cons.IH[of "end_leg env k a s"] Cons.prems l by (auto simp: end_leg_active)
    qed
  qed simp
qed

text \<open>
  Leaving a group call leaves nothing running: the conference is gone, and the media engine of
  every session with a participant has hung up and is out of the registry.
\<close>

theorem leaving_ends_every_leg:
  assumes "orders env" and "map_of (cl_conferences s) room = Some conf"
    and "map_of (cf_members conf) occ = Some m" and "mb_sid m = Some sid" and "map_of (cl_active s) sid = Some c"
  shows "let t = leave_group_call env room s in map_of (cl_conferences t) room = None
     \<and> map_of (cl_active t) sid = None \<and> (ac_engine c, Engine_Hang_Up) \<in> set (cl_media t)"
proof -
  define u where "u = send_muji_presence env room (cf_nick conf) None (s\<lparr>cl_conferences := hm_remove room (cl_conferences s)\<rparr>)"
  have u: "map_of (cl_active u) sid = Some c" "map_of (cl_conferences u) room = None"
    using assms(5) by (simp_all add: u_def send_muji_presence_def post_def Let_def)
  have "(occ, m) \<in> set (hm_iter env s (cf_members conf))"
    by (rule hm_iter_complete[OF assms(1,3)])
  then have legs: "sid \<in> fst ` set (sessions_of env s conf)"
    using assms(4) by (force simp: sessions_of_def List.map_filter_def)
  have conf: "cl_conferences (fold (\<lambda>(sid, addr). end_leg env sid addr) ls v) = cl_conferences v" for ls v
    by (rule fold_same_field) (auto simp: end_leg_def terminate_def send_jingle_def post_def tick_def drop_active_def
        media_def split: option.split)
  show ?thesis
    using end_legs[OF legs u(1), of env] u(2) assms(2)
    by (simp add: leave_group_call_def u_def[symmetric] emit_conference_def tell_def conf Let_def)
qed

end
