(* ===== verification/Call_Runs.thy ===== *)
theory Call_Runs
  imports Call_Fingerprint_Laws Call_Mesh_Laws Message_Laws
begin

text \<open>
  Runs of the calls of an account: stanzas as trees, an OMEMO whose ciphertext is a mark, a store that
  trusts every device at one level (its state), and what follows from the code that its authors did
  not mean.
\<close>

subsection \<open>An account to run\<close>

text \<open>A parser that reads what \<open>fp_inner\<close> writes.\<close>

definition toy_parse :: "string \<Rightarrow> tree option" where
  "toy_parse s = (case split_on (CHR 0x27) s of
     [_, _, _, ns, _, hash, _, setup, rest] \<Rightarrow>
       Some (Tree ''c'' ''urn:x'' []
         [Tree ''fingerprint'' ns [(''hash'', hash), (''setup'', setup)] [] (takeWhile (\<lambda>c. c \<noteq> CHR ''<'') (tl rest))] [])
   | _ \<Rightarrow> None)"

definition call_dom :: "tree dom" where
  "call_dom = tree_dom\<lparr>d_parse := toy_parse\<rparr>"

lemma call_dom_sound [simp]: "dom_sound call_dom"
  by (simp add: dom_sound_def call_dom_def tree_dom_def tree_child_size)

lemma toy_parses: "parses_fingerprints call_dom"
  unfolding parses_fingerprints_def
proof (intro allI impI, elim conjE)
  fix hash "setup" hex assume plain: "no_markup hash" "no_markup setup" "no_markup hex" and trim: "str_trim hex = hex"
  let ?q = "CHR 0x27"
  have q: "?q \<notin> set hash" "?q \<notin> set setup" "?q \<notin> set hex" "CHR ''<'' \<notin> set hex" "?q \<notin> set NS_DTLS"
    using plain by (auto simp: no_markup_def NS_DTLS_def)
  have whole: "''<c xmlns='' @ [?q] @ ''urn:x'' @ [?q] @ ''>'' @ fp_inner hash setup hex @ ''</c>''
      = ''<c xmlns='' @ ?q # ''urn:x'' @ ?q # ''><fingerprint xmlns='' @ ?q # NS_DTLS @ ?q # '' hash='' @ ?q # hash @ ?q
        # '' setup='' @ ?q # setup @ ?q # (CHR ''>'' # hex @ ''</fingerprint></c>'')"
    by (simp add: fp_inner_def Let_def trim)
  have rest: "?q \<notin> set (CHR ''>'' # hex @ ''</fingerprint></c>'')" using q by simp
  have "split_on ?q (''<c xmlns='' @ [?q] @ ''urn:x'' @ [?q] @ ''>'' @ fp_inner hash setup hex @ ''</c>'')
      = [''<c xmlns='', ''urn:x'', ''><fingerprint xmlns='', NS_DTLS, '' hash='', hash, '' setup='', setup,
         CHR ''>'' # hex @ ''</fingerprint></c>'']"
    unfolding whole using q split_on_whole[OF rest] by (simp add: split_on_piece del: append_Cons) 
  moreover have "takeWhile (\<lambda>c. c \<noteq> CHR ''<'') (hex @ ''</fingerprint></c>'') = hex"
    using q by (simp add: takeWhile_append)
  ultimately have "toy_parse (''<c xmlns='' @ [?q] @ ''urn:x'' @ [?q] @ ''>'' @ fp_inner hash setup hex @ ''</c>'')
      = Some (Tree ''c'' ''urn:x'' [] [Tree ''fingerprint'' NS_DTLS [(''hash'', hash), (''setup'', setup)] [] hex] [])"
    by (simp add: toy_parse_def)
  then show "\<exists>p f. d_parse call_dom (''<c xmlns='' @ [?q] @ ''urn:x'' @ [?q] @ ''>'' @ fp_inner hash setup hex @ ''</c>'') = Some p
     \<and> get_child call_dom p ''fingerprint'' NS_DTLS = Some f
     \<and> d_attr call_dom f ''hash'' = Some hash \<and> d_attr call_dom f ''setup'' = Some setup \<and> d_text call_dom f = hex"
    by (simp add: call_dom_def tree_dom_def get_child_def d_is_def)
qed

definition toy_decrypted :: decrypted where
  "toy_decrypted = \<lparr>dec_envelope = ''sealed'', dec_fingerprint = ''F'', dec_key_transport = False, dec_was_kex = False,
     dec_heartbeat_due = False, dec_sender_device = 7\<rparr>"

definition toy_call_env :: "quick_xml \<Rightarrow> string \<Rightarrow> (tree, i64) call_env" where
  "toy_call_env q bare = \<lparr>ce_dom = call_dom, ce_attrs = (\<lambda>e. AList.clearjunk (t_attrs e)), ce_xml = q,
     ce_chrono = \<lparr>ck_parse = (\<lambda>_. None), ck_show = (\<lambda>_. ''now'')\<rparr>, ce_b64 = toy_base64, ce_sha1 = id, ce_lower = id,
     ce_account = 1, ce_bare = bare, ce_now = int, ce_instant = (\<lambda>n. n), ce_new_id = (\<lambda>pre n. pre @ show_nat n),
     ce_candidate_id = (\<lambda>n c. c), ce_pad = (\<lambda>_ _. 0), ce_connected = True, ce_media_ok = (\<lambda>_ _. True),
     ce_order = (\<lambda>_ ks. ks),
     ce_encrypt = (\<lambda>_ _ om. (Inr (Tree ''encrypted'' NS_OMEMO2 [] [] []), om)),
     ce_decrypt = (\<lambda>_ _ _ om. (Inr toy_decrypted, om)),
     ce_trust = (\<lambda>_ _ om. Some om), ce_own_device = (\<lambda>om. (Inr 7, om))\<rparr>"

lemma toy_call_attrs: "attrs_listed (toy_call_env q bare)"
  by (simp add: attrs_listed_def toy_call_env_def call_dom_def tree_dom_def distinct_clearjunk map_of_clearjunk)

lemma toy_call_orders: "orders (toy_call_env q bare)"
  by (simp add: orders_def toy_call_env_def)

lemma toy_call_fields [simp]:
  "ce_dom (toy_call_env q bare) = call_dom" "ce_bare (toy_call_env q bare) = bare" "ce_xml (toy_call_env q bare) = q"
  by (simp_all add: toy_call_env_def)

definition no_xml :: quick_xml where "no_xml = toy_sce_reader [] []"

text \<open>A stanza from somebody.\<close>

definition stanza_from :: "string \<Rightarrow> string \<Rightarrow> tree list \<Rightarrow> tree" where
  "stanza_from name from children = Tree name NS_CLIENT [(''from'', from)] children []"

definition ring_from :: "string \<Rightarrow> string \<Rightarrow> tree" where
  "ring_from from action = stanza_from ''message'' from [Tree action NS_JMI [(''id'', ''s1'')] [] []]"

definition jingle_from :: "string \<Rightarrow> string \<Rightarrow> string \<Rightarrow> tree list \<Rightarrow> tree" where
  "jingle_from from sid action body = stanza_from ''iq'' from
     [Tree ''jingle'' NS_JINGLE [(''action'', action), (''sid'', sid)] body []]"

theorem peers_open_no_media_witness:
  "engines_made (run_calls (toy_call_env no_xml ''a@b'')
      [Message_In (ring_from ''p@q/r'' ''propose''), Message_In (ring_from ''p@q/r'' ''proceed''),
       Iq_In (jingle_from ''p@q/r'' ''s1'' ''session-initiate'' [])] (registry (empty_message_db [1]) 3)) = []"
  by (subst peers_open_no_media) (simp_all add: registry_def engines_made_def)

subsection \<open>Group calls\<close>

text \<open>A private room we are in as alice.\<close>

definition toy_room :: message_db where
  "toy_room = (let db = snd (conversation_id 1 ''room'' ''muc'' (empty_message_db [1])) in
     db\<lparr>t_conversations := map (\<lambda>(i, r). (i, r\<lparr>conv_members_only := True, conv_non_anonymous := True,
       conv_muc_nick := Some ''alice''\<rparr>)) (t_conversations db)\<rparr>)"

definition toy_member :: "string \<Rightarrow> string option \<Rightarrow> member_state \<Rightarrow> member" where
  "toy_member occ sid st = \<lparr>mb_occupant_jid = occ, mb_real_jid = ''p@q/r'', mb_sid = sid, mb_state = st, mb_connecting_since = 0\<rparr>"

definition toy_conf :: "string \<Rightarrow> (string, member) table \<Rightarrow> conference" where
  "toy_conf nick members = \<lparr>cf_nick = nick, cf_our_occupant = occupant_jid ''room'' nick, cf_video = False, cf_muted = False,
     cf_camera_enabled = True, cf_screen = None, cf_members = members\<rparr>"

definition toy_session :: "string option \<Rightarrow> tree active_call" where
  "toy_session room = \<lparr>ac_engine = 0, ac_peer_full = ''p@q/r'', ac_remote_contents = [], ac_video = False,
     ac_pending_video = [], ac_peer_used_omemo = False, ac_room = room\<rparr>"

definition in_call :: "string \<Rightarrow> (string, member) table \<Rightarrow> (string, tree active_call) table \<Rightarrow> (tree, i64) calls" where
  "in_call nick members active = (registry (empty_message_db [1]) 3)\<lparr>
     cl_conferences := [(''room'', toy_conf nick members)], cl_active := active,
     cl_media := map (\<lambda>(_, c). (ac_engine c, Engine_New Caller False True)) active, cl_tick := 1\<rparr>"

theorem one_side_initiates_witness:
  "length (engines_made (maybe_initiate (toy_call_env no_xml ''a@b'') ''room'' ''room/bob'' ''p@q/r'' False (in_call ''alice'' [] [])))
   + length (engines_made (maybe_initiate (toy_call_env no_xml ''p@q'') ''room'' ''room/alice'' ''a@b/c'' False (in_call ''bob'' [] []))) = 1"
  using one_side_initiates[of "in_call ''alice'' [] []" "''room''" "toy_conf ''alice'' []" "in_call ''bob'' [] []" "toy_conf ''bob'' []"
      "toy_call_env no_xml ''a@b''" "''p@q/r''" False "toy_call_env no_xml ''p@q''" "''a@b/c''" False]
  by (simp add: in_call_def toy_conf_def occupant_jid_def has_session_def has_connecting_leg_def registry_def engines_made_def)

definition muji_presence :: "string \<Rightarrow> string \<Rightarrow> tree" where
  "muji_presence occ jid = stanza_from ''presence'' occ
     [Tree ''muji'' NS_MUJI [] [Tree ''content'' NS_MUJI [] [] []] [],
      Tree ''x'' NS_MUC_USER [] [Tree ''item'' NS_MUC_USER [(''jid'', jid)] [] []] []]"



theorem leaving_ends_every_leg_witness:
  "let t = leave_group_call (toy_call_env no_xml ''a@b'') ''room''
       (in_call ''alice'' [(''room/bob'', toy_member ''room/bob'' (Some ''m1'') M_Active)] [(''m1'', toy_session (Some ''room''))])
   in map_of (cl_conferences t) ''room'' = None \<and> map_of (cl_active t) ''m1'' = None
    \<and> (0, Engine_Hang_Up) \<in> set (cl_media t)"
  using leaving_ends_every_leg[OF toy_call_orders,
      of "in_call ''alice'' [(''room/bob'', toy_member ''room/bob'' (Some ''m1'') M_Active)] [(''m1'', toy_session (Some ''room''))]"
        "''room''" "toy_conf ''alice'' [(''room/bob'', toy_member ''room/bob'' (Some ''m1'') M_Active)]" "''room/bob''"
        "toy_member ''room/bob'' (Some ''m1'') M_Active" "''m1''" "toy_session (Some ''room'')" no_xml "''a@b''"]
  by (simp add: in_call_def toy_conf_def toy_member_def toy_session_def)

subsection \<open>Fingerprints\<close>

definition fp_tree :: "string \<Rightarrow> tree" where
  "fp_tree hex = Tree ''fingerprint'' NS_DTLS [(''hash'', ''sha-256''), (''setup'', ''actpass'')] [] hex"

definition omemo_fp_tree :: tree where
  "omemo_fp_tree = Tree ''fingerprint'' NS_OMEMO_DTLS [(''hash'', ''sha-256''), (''setup'', ''actpass'')]
     [Tree ''encrypted'' NS_OMEMO2 [] [] []] []"

definition content_tree :: "string \<Rightarrow> tree \<Rightarrow> tree" where
  "content_tree mid fp = Tree ''content'' NS_JINGLE [(''name'', mid)]
     [Tree ''description'' NS_RTP [(''media'', ''audio'')] [] [],
      Tree ''transport'' NS_ICE [(''ufrag'', ''u''), (''pwd'', ''p'')] [fp] []] []"

text \<open>A reader that has one document: the envelope with the fingerprint \<open>AA\<close>.\<close>

definition sealed_envelope :: envelope where
  "sealed_envelope = envelope_with_content (fp_inner ''sha-256'' ''actpass'' ''AA'') ''a@b'' ''p@q'' (Some ''now'')"

definition sealed_events :: "xml_event list" where
  "sealed_events = envelope_events (toy_sce_reader [] []) sealed_envelope
     [EvStart ''fingerprint'' [\<lparr>xa_key = ''xmlns'', xa_value = NS_DTLS\<rparr>, \<lparr>xa_key = ''hash'', xa_value = ''sha-256''\<rparr>,
        \<lparr>xa_key = ''setup'', xa_value = ''actpass''\<rparr>], EvText ''AA'', EvEnd ''fingerprint''] ''A''"

definition sealed_xml :: quick_xml where
  "sealed_xml = toy_sce_reader ''sealed'' sealed_events"

lemma sealed_read: "envelope_from_xml sealed_xml (utf8_lossy ''sealed'') = Inr sealed_envelope"
  by code_simp

theorem call_fingerprint_roundtrip_witness:
  "\<exists>received device fingerprint r'.
     decrypt_one_fingerprint (toy_call_env sealed_xml ''p@q'') ''a@b''
         (fst (encrypt_one_fingerprint (toy_call_env no_xml ''a@b'') ''p@q'' (content_tree ''0'' (fp_tree ''AA''))
            (registry (empty_message_db [1]) 3))) (registry (empty_message_db [1]) 3)
       = ((received, Some (fingerprint, device, 2)), r')
     \<and> contents_to_sdp call_dom [received] = contents_to_sdp call_dom [content_tree ''0'' (fp_tree ''AA'')]"
proof -
  let ?ours = "toy_call_env no_xml ''a@b''" and ?theirs = "toy_call_env sealed_xml ''p@q''"
  let ?s = "registry (empty_message_db [1]) 3 :: (tree, i64) calls" and ?c = "content_tree ''0'' (fp_tree ''AA'')"
  let ?tr = "Tree ''transport'' NS_ICE [(''ufrag'', ''u''), (''pwd'', ''p'')] [fp_tree ''AA''] []"
  have env: "fingerprint_envelope ?ours ''p@q'' ''sha-256'' ''actpass'' ''AA'' ?s = sealed_envelope"
    by (simp add: fingerprint_envelope_def sealed_envelope_def now_stamp_def toy_call_env_def rfc3339_now_def)
  have net: "delivers ?ours ?s ?theirs ?s sealed_envelope"
    by (simp add: delivers_def toy_call_env_def call_dom_def tree_dom_def toy_decrypted_def sealed_read)
  have tree: "get_child call_dom ?c ''transport'' NS_ICE = Some (Tree ''transport'' NS_ICE [(''ufrag'', ''u''), (''pwd'', ''p'')] [fp_tree ''AA''] [])"
    "get_child call_dom (Tree ''transport'' NS_ICE [(''ufrag'', ''u''), (''pwd'', ''p'')] [fp_tree ''AA''] []) ''fingerprint'' NS_DTLS = Some (fp_tree ''AA'')"
    "d_attr call_dom (fp_tree ''AA'') ''hash'' = Some ''sha-256''" "d_attr call_dom (fp_tree ''AA'') ''setup'' = Some ''actpass''"
    "d_text call_dom (fp_tree ''AA'') = ''AA''" "str_trim ''AA'' = ''AA''" "list_all no_markup [''sha-256'', ''actpass'', ''AA'']"
    by code_simp+
  define sent where "sent = encrypt_one_fingerprint ?ours ''p@q'' ?c ?s"
  have "get_child call_dom (fst sent) ''transport'' NS_ICE \<noteq> get_child call_dom ?c ''transport'' NS_ICE"
    unfolding sent_def no_xml_def by code_simp
  then have other: "fst sent \<noteq> ?c" by metis
  have pair: "encrypt_one_fingerprint ?ours (ce_bare ?theirs) ?c ?s = (fst sent, snd sent)" by (simp add: sent_def)
  obtain received device fingerprint r' where run:
    "decrypt_one_fingerprint ?theirs (ce_bare ?ours) (fst sent) ?s
       = ((received, Some (fingerprint, device, call_trust True (ce_trust ?theirs (ce_bare ?ours) device (cl_omemo r')))), r')"
    "contents_to_sdp (ce_dom ?ours) [received] = contents_to_sdp (ce_dom ?ours) [?c]"
    using call_fingerprint_roundtrip[of ?ours ?theirs ?c ?tr "fp_tree ''AA''" "''sha-256''" "''actpass''" ?s "fst sent" "snd sent" ?s,
        OF _ _ toy_call_attrs toy_call_attrs _ _ _ _ _ _ _ pair other]
      toy_parses tree net by (auto simp: env)
  have "cl_omemo r' = 3"
    using run(1) by (auto simp: decrypt_one_fingerprint_def Let_def toy_call_env_def registry_def split: option.split_asm prod.split_asm)
  then have "call_trust True (ce_trust ?theirs (ce_bare ?ours) device (cl_omemo r')) = 2"
    by (simp add: toy_call_env_def call_trust_def)
  with run show ?thesis by (auto simp: sent_def)
qed

subsection \<open>What the code also does\<close>

text \<open>
  The verdict is that of the last content with an OMEMO fingerprint, but the description takes the
  fingerprint of the first transport for every section: a call shown as verified runs under a
  fingerprint that came in the clear.
\<close>

lemma verified_call_uses_plain_fingerprint:
  "(case decrypt_call_fingerprints (toy_call_env sealed_xml ''p@q'') ''a@b''
      [content_tree ''0'' (fp_tree ''EVIL''), content_tree ''1'' omemo_fp_tree] None (registry (empty_message_db [1]) 3) of
    ((cs, v), _) \<Rightarrow> v = Some (''F'', 7, 2)
      \<and> map md_fingerprint (case contents_to_sdp call_dom cs of None \<Rightarrow> [] | Some sdp \<Rightarrow> parse_media sdp) = [''EVIL'', ''EVIL''])"
  by code_simp

text \<open>The sender of a session stanza is not compared with the peer of the call: anybody can end it,\<close>

lemma stranger_ends_call:
  "let s = snd (handle_iq (toy_call_env no_xml ''a@b'') (jingle_from ''evil@x/y'' ''s1'' ''session-terminate'' [])
      (in_call ''alice'' [] [(''s1'', toy_session None)]))
   in cl_active s = [] \<and> cl_media s = [(0, Engine_New Caller False True), (0, Engine_Hang_Up)]"
  by code_simp

text \<open>and anybody can answer it, with the indicator showing his own key.\<close>

lemma stranger_answers_call:
  "let s = snd (handle_iq (toy_call_env sealed_xml ''p@q'') (jingle_from ''a@b'' ''s1'' ''session-accept'' [content_tree ''0'' omemo_fp_tree])
      (in_call ''alice'' [] [(''s1'', (toy_session None)\<lparr>ac_peer_full := ''friend@x/y''\<rparr>)]))
   in cl_events s = [Call_Verified 1 ''s1'' ''F'' 7 2] \<and> length (cl_media s) = 2"
  by code_simp

text \<open>A call that bounces comes back as a call of the one we called.\<close>

lemma bounced_call_rings:
  "cl_events (snd (handle_message (toy_call_env no_xml ''a@b'')
      (Tree ''message'' NS_CLIENT [(''from'', ''p@q''), (''type'', ''error'')] [Tree ''propose'' NS_JMI [(''id'', ''s1'')] [] []] [])
      (registry (empty_message_db [1]) 3)))
   = [Call_Update 1 ''s1'' ''p@q'' False Call_Incoming]"
  by code_simp

text \<open>Sessions the others offer are not held back, so two can be negotiated at once.\<close>

lemma offered_legs_not_serialized:
  "let offer = (\<lambda>jid sid. Iq_In (jingle_from jid sid ''session-initiate'' [Tree ''muji'' NS_MUJI [(''room'', ''room'')] [] []]));
       s = run_calls (toy_call_env no_xml ''a@b'')
         [Presence_In (muji_presence ''room/bob'' ''p@q/r''), Presence_In (muji_presence ''room/carol'' ''c@q/r''),
          offer ''p@q/r'' ''m1'', offer ''c@q/r'' ''m2''] (in_call ''alice'' [] [])
   in length (filter (\<lambda>(_, m). mb_sid m \<noteq> None \<and> mb_state m = M_Connecting) (concat (map (\<lambda>(_, c). cf_members c) (cl_conferences s)))) = 2"
  by code_simp

text \<open>
  A ringing message that ends a session of a group call does not reach the member: he stays shown as
  active, with a session that is gone, and is never called again.
\<close>

lemma rejected_leg_stays_active:
  "let s = run_calls (toy_call_env no_xml ''a@b'') [Message_In (ring_from ''evil@x/y'' ''reject''), Timer ''room'']
      (in_call ''alice'' [(''room/bob'', toy_member ''room/bob'' (Some ''s1'') M_Active)] [(''s1'', toy_session (Some ''room''))])
   in cl_active s = [] \<and> map (\<lambda>(_, c). cf_members c) (cl_conferences s)
        = [[(''room/bob'', toy_member ''room/bob'' (Some ''s1'') M_Active)]]"
  by code_simp

end
