(* ===== verification/Iq.thy ===== *)
theory Iq
  imports Stanza
begin

text \<open>
  \<open>crates/mxc-proto/src/xeps/iq.rs\<close>: the registry that brings the answer of an IQ request back to
  the task that waits for it.  A waiting task is its number, the end of its channel; \<open>iq_ids\<close> is the
  id it registered.  A registry entry is removed by the answer alone: a task that gives up after 30
  seconds leaves its entry behind, and an id registered again drops the channel of the first task.
\<close>

record 'e iq_state =
  iq_pending :: "string \<Rightarrow> nat option"
  iq_delivered :: "(nat \<times> 'e) list"
  iq_waiting :: "nat list"
  iq_ids :: "nat \<Rightarrow> string"
  iq_next :: nat

definition iq_init :: "'e iq_state" where
  "iq_init = \<lparr>iq_pending = (\<lambda>_. None), iq_delivered = [], iq_waiting = [], iq_ids = (\<lambda>_. []), iq_next = 0\<rparr>"

definition register :: "string \<Rightarrow> 'e iq_state \<Rightarrow> nat \<times> 'e iq_state" where
  "register i s = (let w = iq_next s; dropped = (case iq_pending s i of None \<Rightarrow> [] | Some v \<Rightarrow> [v]) in
     (w, s\<lparr>iq_pending := (iq_pending s)(i \<mapsto> w),
           iq_waiting := filter (\<lambda>v. v \<notin> set dropped) (iq_waiting s) @ [w],
           iq_ids := (iq_ids s)(w := i), iq_next := w + 1\<rparr>))"

definition try_resolve :: "('e, 'z) dom_scheme \<Rightarrow> 'e \<Rightarrow> 'e iq_state \<Rightarrow> bool \<times> 'e iq_state" where
  "try_resolve d iq s =
     (if d_name d iq \<noteq> ''iq'' then (False, s)
      else if d_attr d iq ''type'' \<notin> {Some ''result'', Some ''error''} then (False, s)
      else (case d_attr d iq ''id'' of None \<Rightarrow> (False, s)
        | Some i \<Rightarrow> (case iq_pending s i of None \<Rightarrow> (False, s)
            | Some w \<Rightarrow> (True, s\<lparr>iq_pending := (iq_pending s)(i := None),
                iq_delivered := iq_delivered s @ [(w, iq)],
                iq_waiting := filter (\<lambda>v. v \<noteq> w) (iq_waiting s)\<rparr>))))"

definition give_up :: "nat \<Rightarrow> 'e iq_state \<Rightarrow> 'e iq_state" where
  "give_up w s = s\<lparr>iq_waiting := filter (\<lambda>v. v \<noteq> w) (iq_waiting s)\<rparr>"

text \<open>What \<open>request\<close> makes of the end of its wait; the text of errors without the id.\<close>

datatype 'e wait = Answered 'e | Timed_Out | Channel_Closed

definition error_condition :: "('e, 'z) dom_scheme \<Rightarrow> 'e \<Rightarrow> string" where
  "error_condition d reply = (case Option.bind (get_child d reply ''error'' NS_CLIENT)
       (\<lambda>e. case d_children d e of [] \<Rightarrow> None | c # _ \<Rightarrow> Some (d_name d c)) of
     None \<Rightarrow> ''unknown'' | Some c \<Rightarrow> c)"

definition reply_of :: "('e, 'z) dom_scheme \<Rightarrow> string \<Rightarrow> 'e wait \<Rightarrow> string + 'e" where
  "reply_of d i w = (case w of
     Timed_Out \<Rightarrow> Inl (''iq '' @ i @ '' timed out'')
   | Channel_Closed \<Rightarrow> Inl ''channel closed''
   | Answered reply \<Rightarrow> if d_attr d reply ''type'' = Some ''error''
       then Inl (''iq '' @ i @ '' error: '' @ error_condition d reply) else Inr reply)"

subsection \<open>Runs of the registry\<close>

text \<open>Requests of any task, stanzas from anybody, and tasks that give up, in any order.\<close>

datatype 'e iq_input = Request string | Stanza_In 'e | Give_Up nat

fun iq_turn :: "('e, 'z) dom_scheme \<Rightarrow> 'e iq_input \<Rightarrow> 'e iq_state \<Rightarrow> 'e iq_state" where
  "iq_turn d (Request i) s = snd (register i s)"
| "iq_turn d (Stanza_In iq) s = snd (try_resolve d iq s)"
| "iq_turn d (Give_Up w) s = give_up w s"

definition run_iq :: "('e, 'z) dom_scheme \<Rightarrow> 'e iq_input list \<Rightarrow> 'e iq_state" where
  "run_iq d inputs = fold (iq_turn d) inputs iq_init"

definition answers :: "('e, 'z) dom_scheme \<Rightarrow> string \<Rightarrow> 'e \<Rightarrow> bool" where
  "answers d i iq \<longleftrightarrow> d_name d iq = ''iq'' \<and> d_attr d iq ''id'' = Some i
     \<and> d_attr d iq ''type'' \<in> {Some ''result'', Some ''error''}"

definition iq_inv :: "('e, 'z) dom_scheme \<Rightarrow> 'e iq_state \<Rightarrow> bool" where
  "iq_inv d s \<longleftrightarrow>
     (\<forall>w iq. (w, iq) \<in> set (iq_delivered s) \<longrightarrow> w < iq_next s \<and> answers d (iq_ids s w) iq)
   \<and> distinct (map fst (iq_delivered s))
   \<and> (\<forall>i w. iq_pending s i = Some w \<longrightarrow> w < iq_next s \<and> iq_ids s w = i \<and> w \<notin> fst ` set (iq_delivered s))
   \<and> (\<forall>w\<in>set (iq_waiting s). w < iq_next s \<and> iq_pending s (iq_ids s w) = Some w)"

lemma iq_invD:
  assumes "iq_inv d s"
  shows "(w, iq) \<in> set (iq_delivered s) \<Longrightarrow> w < iq_next s \<and> answers d (iq_ids s w) iq"
    "distinct (map fst (iq_delivered s))"
    "iq_pending s i = Some w \<Longrightarrow> w < iq_next s \<and> iq_ids s w = i \<and> w \<notin> fst ` set (iq_delivered s)"
    "w \<in> set (iq_waiting s) \<Longrightarrow> w < iq_next s \<and> iq_pending s (iq_ids s w) = Some w"
  using assms unfolding iq_inv_def by blast+

lemma try_resolve_cases:
  obtains "try_resolve d iq s = (False, s)"
  | i w where "answers d i iq" "iq_pending s i = Some w"
      "try_resolve d iq s = (True, s\<lparr>iq_pending := (iq_pending s)(i := None),
         iq_delivered := iq_delivered s @ [(w, iq)], iq_waiting := filter (\<lambda>v. v \<noteq> w) (iq_waiting s)\<rparr>)"
proof (cases "fst (try_resolve d iq s)")
  case True
  then obtain i w where "d_attr d iq ''id'' = Some i" "iq_pending s i = Some w" "answers d i iq"
    by (auto simp: try_resolve_def answers_def split: if_splits option.splits)
  then show ?thesis by (intro that(2)[of i w]) (auto simp: try_resolve_def answers_def)
next
  case False
  then show ?thesis by (intro that(1)) (auto simp: try_resolve_def split: if_splits option.splits)
qed

lemma register_inv:
  assumes inv: "iq_inv d s"
  shows "iq_inv d (snd (register i s))"
proof -
  have fresh: "iq_next s \<notin> fst ` set (iq_delivered s)"
    using iq_invD(1)[OF inv] by fastforce
  let ?s = "snd (register i s)"
  have parts: "iq_delivered ?s = iq_delivered s" "iq_next ?s = Suc (iq_next s)"
    "iq_pending ?s = (iq_pending s)(i \<mapsto> iq_next s)" "iq_ids ?s = (iq_ids s)(iq_next s := i)"
    "w \<in> set (iq_waiting ?s) \<longleftrightarrow> w = iq_next s \<or> w \<in> set (iq_waiting s) \<and> iq_pending s i \<noteq> Some w" for w
    by (auto simp: register_def Let_def split: option.splits)
  have "w < Suc (iq_next s) \<and> answers d (iq_ids ?s w) iq" if "(w, iq) \<in> set (iq_delivered s)" for w iq
    using iq_invD(1)[OF inv that] by (simp add: parts)
  moreover have "w < Suc (iq_next s) \<and> iq_ids ?s w = j \<and> w \<notin> fst ` set (iq_delivered s)"
    if "iq_pending ?s j = Some w" for j w
  proof (cases "j = i")
    case True
    with that fresh show ?thesis by (simp add: parts)
  next
    case False
    with that have "iq_pending s j = Some w" by (simp add: parts)
    from iq_invD(3)[OF inv this] show ?thesis by (simp add: parts)
  qed
  moreover have "w < Suc (iq_next s) \<and> iq_pending ?s (iq_ids ?s w) = Some w" if "w \<in> set (iq_waiting ?s)" for w
  proof (cases "w = iq_next s")
    case False
    with that have old: "w \<in> set (iq_waiting s)" "iq_pending s i \<noteq> Some w" by (auto simp: parts)
    from iq_invD(4)[OF inv old(1)] old(2) show ?thesis by (auto simp: parts)
  qed (simp add: parts)
  ultimately show ?thesis
    using iq_invD(2)[OF inv] unfolding iq_inv_def by (simp add: parts(1,2))
qed

lemma resolved_inv:
  assumes inv: "iq_inv d s" and "answers d i iq" and pending: "iq_pending s i = Some w"
  shows "iq_inv d (s\<lparr>iq_pending := (iq_pending s)(i := None),
    iq_delivered := iq_delivered s @ [(w, iq)], iq_waiting := filter (\<lambda>v. v \<noteq> w) (iq_waiting s)\<rparr>)"
    (is "iq_inv d ?t")
proof -
  have w: "w < iq_next s" "iq_ids s w = i" "w \<notin> fst ` set (iq_delivered s)"
    using iq_invD(3)[OF inv pending] by auto
  have "v < iq_next s \<and> answers d (iq_ids s v) e" if "(v, e) \<in> set (iq_delivered ?t)" for v e
    using that iq_invD(1)[OF inv, of v e] w assms(2) by auto
  moreover have "v < iq_next s \<and> iq_ids s v = j \<and> v \<notin> fst ` set (iq_delivered ?t)"
    if "iq_pending ?t j = Some v" for j v
  proof -
    from that have j: "j \<noteq> i" "iq_pending s j = Some v" by (auto split: if_splits)
    from iq_invD(3)[OF inv j(2)] j(1) w show ?thesis by auto
  qed
  moreover have "v < iq_next s \<and> iq_pending ?t (iq_ids s v) = Some v" if "v \<in> set (iq_waiting ?t)" for v
  proof -
    from that have v: "v \<in> set (iq_waiting s)" "v \<noteq> w" by auto
    from iq_invD(4)[OF inv v(1)] v(2) pending show ?thesis by auto
  qed
  ultimately show ?thesis
    using iq_invD(2)[OF inv] w(3) unfolding iq_inv_def by simp
qed

lemma iq_turn_inv: "iq_inv d s \<Longrightarrow> iq_inv d (iq_turn d x s)"
proof (induction d x s rule: iq_turn.induct)
  case (2 d iq s)
  then show ?case by (cases rule: try_resolve_cases[of d iq s]) (simp_all add: resolved_inv)
next
  case (3 d w s)
  then show ?case unfolding iq_inv_def by (simp add: give_up_def)
qed (simp add: register_inv)

interpretation iq: invariant_machine "\<lambda>s t. \<exists>x. t = iq_turn d x s" "iq_inv d" for d
  by unfold_locales (auto simp: iq_turn_inv)

lemma run_iq_inv: "iq_inv d (run_iq d inputs)"
proof -
  have "iq_inv d (fold (iq_turn d) inputs s)" if "iq_inv d s" for s
    using that by (induction inputs arbitrary: s) (simp_all add: iq_turn_inv)
  then show ?thesis by (simp add: run_iq_def iq_init_def iq_inv_def)
qed


text \<open>
  The sender of an answer is not looked at: whoever guesses the id answers in the server's place.
  And the entry of a task that gave up stays in the registry until a stanza removes it.
\<close>

lemma anybody_answers:
  "fst (try_resolve tree_dom (Tree ''iq'' NS_CLIENT
     [(''type'', ''result''), (''id'', ''roster-1''), (''from'', ''mallory@evil.example'')] [] [])
     (run_iq tree_dom [Request ''roster-1'']))"
  by (simp add: try_resolve_def run_iq_def register_def iq_init_def tree_dom_def Let_def)

lemma timed_out_entry_stays: "iq_pending (give_up w s) = iq_pending s"
  by (simp add: give_up_def)

end
