(* ===== verification/Client.thy ===== *)
theory Client
  imports World Iq Disco Pep
begin

text \<open>
  What the handlers of presence, roster, rooms, archive and profiles work on: the message handlers'
  world, the remaining tables of the store, the process-wide avatar hashes and ICE servers, and the
  requests this task has made.  An IQ request (\<open>iq::request\<close>) queues its stanza and waits; \<open>ne_exchange\<close>
  is the wait: what it ends with, and what the other tasks of the client made of the state meanwhile
  (the reader task stores the messages an archive sends ahead of its answer).  Whatever it is, the
  requests made before stay made.

  The calls (\<open>Calls\<close>) and the OMEMO engine (\<open>Engine\<close>) have theories of their own; here \<open>ne_jingle_iq\<close>,
  \<open>ne_muji_presence\<close> and \<open>ne_omemo_init\<close> are what they do to the engine state of the world.

  Ids are \<open>ne_new_id prefix n\<close> for the \<open>n\<close>-th id drawn (\<open>new_id\<close> reads the clock).
\<close>

record ice_server =
  ice_kind :: string
  ice_host :: string
  ice_port :: nat
  ice_transport :: string
  ice_username :: "string option"
  ice_password :: "string option"

record ('e, 'o) client =
  cs_world :: "('e, 'o) world"
  cs_db :: client_db
  cs_avatar_hashes :: "string \<Rightarrow> string option"
  cs_ice :: "ice_server list option"
  cs_tick :: nat
  cs_requests :: "'e list"

record ('e, 'o) client_env =
  ne_services :: "('e, 'o) services"
  ne_sha1 :: "bytes \<Rightarrow> bytes"
  ne_new_id :: "string \<Rightarrow> nat \<Rightarrow> string"
  ne_exchange :: "'e \<Rightarrow> ('e, 'o) client \<Rightarrow> 'e wait \<times> ('e, 'o) client"
  ne_jingle_iq :: "'e \<Rightarrow> 'o \<Rightarrow> bool \<times> 'o"
  ne_muji_presence :: "'e \<Rightarrow> 'o \<Rightarrow> 'o"
  ne_omemo_init :: "'o \<Rightarrow> 'o"

type_synonym ('e, 'o, 'a) cli = "(('e, 'o) client, app_error, 'a) act"

abbreviation ne_dom :: "('e, 'o) client_env \<Rightarrow> 'e dom" where "ne_dom env \<equiv> sv_dom (ne_services env)"
abbreviation ne_account :: "('e, 'o) client_env \<Rightarrow> i64" where "ne_account env \<equiv> sv_account (ne_services env)"
abbreviation ne_bare :: "('e, 'o) client_env \<Rightarrow> string" where "ne_bare env \<equiv> sv_bare (ne_services env)"
abbreviation cs_messages :: "('e, 'o) client \<Rightarrow> message_db" where "cs_messages s \<equiv> w_messages (cs_world s)"
abbreviation cs_sent :: "('e, 'o) client \<Rightarrow> 'e list" where "cs_sent s \<equiv> w_sent (cs_world s)"
abbreviation cs_events :: "('e, 'o) client \<Rightarrow> event list" where "cs_events s \<equiv> w_events (cs_world s)"

subsection \<open>Steps\<close>

definition on_world :: "('e, 'o, 'a) app \<Rightarrow> ('e, 'o, 'a) cli" where
  "on_world m s = (case m (cs_world s) of (r, w) \<Rightarrow> (r, s\<lparr>cs_world := w\<rparr>))"

definition on_db :: "'a client_act \<Rightarrow> ('e, 'o, 'a) cli" where
  "on_db m s = (case m (cs_db s) of
     (Inl e, db) \<Rightarrow> (Inl (Store_Error e), s\<lparr>cs_db := db\<rparr>) | (Inr x, db) \<Rightarrow> (Inr x, s\<lparr>cs_db := db\<rparr>))"

definition read_db :: "(client_db \<Rightarrow> 'a) \<Rightarrow> ('e, 'o, 'a) cli" where
  "read_db f = act_read (\<lambda>s. f (cs_db s))"

definition write_db :: "(client_db \<Rightarrow> client_db) \<Rightarrow> ('e, 'o, unit) cli" where
  "write_db f = act_modify (\<lambda>s. s\<lparr>cs_db := f (cs_db s)\<rparr>)"

definition read_store :: "(message_db \<Rightarrow> 'a) \<Rightarrow> ('e, 'o, 'a) cli" where
  "read_store f = on_world (read_messages f)"

definition write_store :: "(message_db \<Rightarrow> message_db) \<Rightarrow> ('e, 'o, unit) cli" where
  "write_store f = on_world (write_messages f)"

definition on_store :: "'a store_act \<Rightarrow> ('e, 'o, 'a) cli" where
  "on_store m = on_world (on_messages m)"

definition notify :: "event \<Rightarrow> ('e, 'o, unit) cli" where
  "notify ev = on_world (emit ev)"

definition send :: "('e, 'o) client_env \<Rightarrow> 'e \<Rightarrow> ('e, 'o, unit) cli" where
  "send env el = on_world (send_stanza (ne_services env) el)"

definition fresh_id :: "('e, 'o) client_env \<Rightarrow> string \<Rightarrow> ('e, 'o, string) cli" where
  "fresh_id env prefix s = (Inr (ne_new_id env prefix (cs_tick s)), s\<lparr>cs_tick := cs_tick s + 1\<rparr>)"

text \<open>\<open>let _ = m\<close>, \<open>m.ok()\<close>, \<open>m.unwrap_or_default()\<close>: the error becomes a value, the writes stay.\<close>

definition result_of :: "('s, 'e, 'a) act \<Rightarrow> ('s, 'x, 'e + 'a) act" where
  "result_of m s = (case m s of (r, s') \<Rightarrow> (Inr r, s'))"

definition ok :: "('s, 'e, 'a) act \<Rightarrow> ('s, 'x, 'a option) act" where
  "ok m s = (case m s of (Inl _, s') \<Rightarrow> (Inr None, s') | (Inr x, s') \<Rightarrow> (Inr (Some x), s'))"

definition best_effort :: "('s, 'e, 'a) act \<Rightarrow> ('s, 'x, unit) act" where
  "best_effort m s = (Inr (), snd (m s))"

definition settle :: "string + 'a \<Rightarrow> ('s, app_error, 'a) act" where
  "settle r = (case r of Inl e \<Rightarrow> act_throw (App_Error e) | Inr x \<Rightarrow> act_ret x)"

definition await :: "('e, 'o) client_env \<Rightarrow> 'e \<Rightarrow> ('e, 'o, 'e wait) cli" where
  "await env req s = (case ne_exchange env req s of
     (w, s') \<Rightarrow> (Inr w, s'\<lparr>cs_requests := cs_requests s @ [req]\<rparr>))"

definition request :: "('e, 'o) client_env \<Rightarrow> 'e \<Rightarrow> ('e, 'o, 'e) cli" where
  "request env req = (case d_attr (ne_dom env) req ''id'' of
     None \<Rightarrow> act_throw (App_Error ''iq request missing id'')
   | Some i \<Rightarrow> act_seq (send env req)
      (act_bind (await env req) (\<lambda>w. settle (reply_of (ne_dom env) i w))))"

text \<open>An \<open><iq>\<close> with its type, recipient, id and payload.\<close>

definition iq_stanza :: "('e, 'z) dom_scheme \<Rightarrow> string \<Rightarrow> string option \<Rightarrow> string \<Rightarrow> 'e \<Rightarrow> 'e" where
  "iq_stanza d ty to i payload =
     (let iq = d_with_attr d ''id'' i (d_with_attr d ''type'' ty (d_bare d ''iq'' NS_CLIENT));
          iq = (case to of None \<Rightarrow> iq | Some j \<Rightarrow> d_with_attr d ''to'' j iq) in
      d_with_child d payload iq)"

definition request_with ::
  "('e, 'o) client_env \<Rightarrow> string \<Rightarrow> (string \<Rightarrow> 'e) \<Rightarrow> ('e, 'o, 'e) cli" where
  "request_with env prefix build = act_bind (fresh_id env prefix) (\<lambda>i. request env (build i))"

text \<open>\<open>if let Ok(items) = store.conversations(..)\<close> and the event.\<close>

definition refresh_conversations :: "('e, 'o) client_env \<Rightarrow> ('e, 'o, unit) cli" where
  "refresh_conversations env = act_bind (read_store (conversations (ne_account env)))
     (\<lambda>items. notify (Conversations_Updated (ne_account env) items))"

lemma client_eval [act_simps]:
  "read_db f s = (Inr (f (cs_db s)), s)"
  "write_db g s = (Inr (), s\<lparr>cs_db := g (cs_db s)\<rparr>)"
  "read_store h s = (Inr (h (cs_messages s)), s)"
  "write_store k s = (Inr (), s\<lparr>cs_world := (cs_world s)\<lparr>w_messages := k (cs_messages s)\<rparr>\<rparr>)"
  "notify ev s = (Inr (), s\<lparr>cs_world := (cs_world s)\<lparr>w_events := cs_events s @ [ev]\<rparr>\<rparr>)"
  "best_effort m s = (Inr (), snd (m s))"
  by (simp_all add: read_db_def write_db_def read_store_def write_store_def notify_def on_world_def
      best_effort_def act_simps)

lemma act_keeps_quiet [simp, intro]:
  "act_keeps P m \<Longrightarrow> act_keeps P (result_of m)" "act_keeps P m \<Longrightarrow> act_keeps P (ok m)"
  "act_keeps P m \<Longrightarrow> act_keeps P (best_effort m)" "act_keeps P (settle r)"
  by (auto simp: act_keeps_def result_of_def ok_def best_effort_def settle_def act_simps split: prod.splits sum.splits)

lemma act_keeps_reads [simp, intro]: "act_keeps P (read_db f)" "act_keeps P (read_store h)"
  by (auto simp: act_keeps_def act_simps)

text \<open>
  A view of the state that sending, events, ids and the other tasks leave alone is kept by everything a
  handler does apart from its own writes.
\<close>

definition undisturbed :: "('e, 'o) client_env \<Rightarrow> (('e, 'o) client \<Rightarrow> 'v) \<Rightarrow> bool" where
  "undisturbed env view \<longleftrightarrow> (\<forall>req s. view (snd (ne_exchange env req s)) = view s)"

definition own_view :: "(('e, 'o) client \<Rightarrow> 'v) \<Rightarrow> bool" where
  "own_view view \<longleftrightarrow>
     (\<forall>s w. w_messages w = cs_messages s \<longrightarrow> view (s\<lparr>cs_world := w\<rparr>) = view s)
   \<and> (\<forall>s n. view (s\<lparr>cs_tick := n\<rparr>) = view s) \<and> (\<forall>s rs. view (s\<lparr>cs_requests := rs\<rparr>) = view s)"

lemma own_view_simps:
  assumes "own_view view"
  shows "w_messages w = cs_messages s \<Longrightarrow> view (s\<lparr>cs_world := w\<rparr>) = view s"
    "view (s\<lparr>cs_tick := n\<rparr>) = view s" "view (s\<lparr>cs_requests := rs\<rparr>) = view s"
  using assms unfolding own_view_def by blast+

lemma own_views [simp]: "own_view cs_db" "own_view cs_messages" "own_view (\<lambda>s. (cs_db s, cs_messages s))"
  "own_view cs_avatar_hashes" "own_view cs_ice"
  by (auto simp: own_view_def)

definition leaves :: "('s \<Rightarrow> 'v) \<Rightarrow> ('s, 'e, 'a) act \<Rightarrow> bool" where
  "leaves view m \<longleftrightarrow> (\<forall>s. view (snd (m s)) = view s)"

lemma leavesD: "leaves view m \<Longrightarrow> view (snd (m s)) = view s"
  by (simp add: leaves_def)

lemma leaves_bind [simp, intro]:
  "leaves view m \<Longrightarrow> (\<And>x. leaves view (f x)) \<Longrightarrow> leaves view (act_bind m f)"
  unfolding leaves_def act_bind_def by (simp split: prod.split sum.split) (metis snd_conv)

lemma leaves_seq [simp, intro]: "leaves view m \<Longrightarrow> leaves view n \<Longrightarrow> leaves view (act_seq m n)"
  by (simp add: act_seq_def)

lemma leaves_basic [simp]:
  "leaves view (act_ret x)" "leaves view (act_throw e)" "leaves view (act_read g)"
  by (simp_all add: leaves_def act_simps)

lemma leaves_reads [simp]: "leaves view (settle r)" "leaves view (read_db f)" "leaves view (read_store h)"
  by (simp_all add: leaves_def act_simps settle_def split: sum.split)

lemma leaves_when [simp]: "leaves view m \<Longrightarrow> leaves view (act_when b m)"
  by (simp add: act_when_def)

lemma leaves_iter [simp]: "(\<And>x. leaves view (f x)) \<Longrightarrow> leaves view (act_iter f xs)"
  by (induction xs) auto

lemma leaves_quiet [simp]:
  "leaves view m \<Longrightarrow> leaves view (result_of m)" "leaves view m \<Longrightarrow> leaves view (ok m)"
  "leaves view m \<Longrightarrow> leaves view (best_effort m)"
  by (auto simp: leaves_def result_of_def ok_def best_effort_def split: prod.splits sum.splits) (metis snd_conv)+

lemma leaves_notify [simp]: "own_view view \<Longrightarrow> leaves view (notify ev)"
  by (simp add: leaves_def act_simps own_view_simps)

lemma leaves_send [simp]: "own_view view \<Longrightarrow> leaves view (send env el)"
  by (simp add: leaves_def send_def on_world_def send_stanza_def act_simps own_view_simps)

lemma leaves_fresh_id [simp]: "own_view view \<Longrightarrow> leaves view (fresh_id env p)"
  by (simp add: leaves_def fresh_id_def own_view_simps)

lemma leaves_await [simp]:
  assumes "own_view view" and "undisturbed env view"
  shows "leaves view (await env req)"
  unfolding leaves_def
proof
  fix s
  have "view (snd (ne_exchange env req s)) = view s" using assms(2) by (simp add: undisturbed_def)
  then show "view (snd (await env req s)) = view s"
    using assms(1) by (cases "ne_exchange env req s") (simp add: await_def own_view_simps)
qed

lemma leaves_request [simp]: "own_view view \<Longrightarrow> undisturbed env view \<Longrightarrow> leaves view (request env req)"
  by (simp add: request_def split: option.split)

lemma leaves_request_with [simp]:
  "own_view view \<Longrightarrow> undisturbed env view \<Longrightarrow> leaves view (request_with env p build)"
  by (simp add: request_with_def)

lemma leaves_refresh [simp]: "own_view view \<Longrightarrow> leaves view (refresh_conversations env)"
  by (simp add: refresh_conversations_def)

text \<open>What a handler has asked so far grows by one with each request, and by nothing else.\<close>

lemma request_log:
  "length (cs_requests (snd (request env req s))) \<le> length (cs_requests s) + 1"
  by (auto simp: request_def act_seq_def act_bind_def send_def on_world_def send_stanza_def await_def
      act_simps settle_def split: option.split prod.split sum.split)

end
