(* ===== verification/Roster.thy ===== *)
theory Roster
  imports Client
begin

text \<open>
  The roster (\<open>crates/mxc-proto/src/xeps/roster.rs\<close>): the contact list fetched after login and changed
  by pushes, the stanzas that add, remove and subscribe to contacts.  \<open>roster_spec\<close> is what a roster
  stanza means as a map from addresses to items; \<open>roster_stanza_refines\<close> says the table follows it.
\<close>

definition NS_ROSTER :: string where "NS_ROSTER = ''jabber:iq:roster''"
definition NS_NICK :: string where "NS_NICK = ''http://jabber.org/protocol/nick''"

subsection \<open>Reading roster stanzas\<close>

definition quoted_json :: "string \<Rightarrow> string" where
  "quoted_json s = ''\"'' @ replace_char (CHR 0x22) [CHR 0x5C, CHR 0x22]
     (replace_char (CHR 0x5C) [CHR 0x5C, CHR 0x5C] s) @ ''\"''"

definition serde_json_array :: "string list \<Rightarrow> string" where
  "serde_json_array items = ''['' @ join_with '','' (map quoted_json items) @ '']''"

definition roster_row :: "('e, 'z) dom_scheme \<Rightarrow> 'e \<Rightarrow> roster_item" where
  "roster_row d item = \<lparr>ros_jid = attr_or_empty d item ''jid'', ros_name = d_attr d item ''name'',
     ros_subscription = (case d_attr d item ''subscription'' of None \<Rightarrow> ''none'' | Some x \<Rightarrow> x),
     ros_ask = d_attr d item ''ask'',
     ros_groups = Some (serde_json_array (map (d_text d) (named d ''group'' item)))\<rparr>"

definition roster_item_in :: "('e, 'o) client_env \<Rightarrow> 'e \<Rightarrow> ('e, 'o, unit) cli" where
  "roster_item_in env item =
     (let d = ne_dom env; a = ne_account env; row = roster_row d item in
      if ros_jid row = [] then act_ret ()
      else if ros_subscription row = ''remove'' then write_db (remove_roster_item a (ros_jid row))
      else act_seq (on_db (replace_roster_item a row))
        (notify (Subscription a (ros_jid row) (ros_subscription row) (ros_ask row))))"

definition handle_roster_payload :: "('e, 'o) client_env \<Rightarrow> 'e \<Rightarrow> ('e, 'o, unit) cli" where
  "handle_roster_payload env query =
     act_seq (act_iter (roster_item_in env) (named (ne_dom env) ''item'' query))
       (act_bind (read_db (roster (ne_account env))) (\<lambda>items. notify (Roster_Updated (ne_account env) items)))"

definition request_roster :: "('e, 'o) client_env \<Rightarrow> ('e, 'o, unit) cli" where
  "request_roster env = act_bind
     (request_with env ''roster'' (\<lambda>i. iq_stanza (ne_dom env) ''get'' None i (d_bare (ne_dom env) ''query'' NS_ROSTER)))
     (\<lambda>reply. case get_child (ne_dom env) reply ''query'' NS_ROSTER of
        None \<Rightarrow> act_ret () | Some q \<Rightarrow> handle_roster_payload env q)"

subsection \<open>Changing the roster\<close>

definition local_part :: "string \<Rightarrow> string" where
  "local_part jid = hd (split_on (CHR ''@'') jid)"

definition subscription_stanza ::
  "('e, 'z) dom_scheme \<Rightarrow> string \<Rightarrow> string \<Rightarrow> string \<Rightarrow> string option \<Rightarrow> 'e" where
  "subscription_stanza d frm jid ty nick =
     (let pres = d_with_attr d ''type'' ty (d_with_attr d ''to'' jid
           (d_with_attr d ''from'' frm (d_bare d ''presence'' NS_CLIENT))) in
      if ty = ''subscribe'' then (case nick of None \<Rightarrow> pres
        | Some n \<Rightarrow> if n = [] then pres else d_with_child d (text_element d ''nick'' NS_NICK n) pres)
      else pres)"

definition set_subscription ::
  "('e, 'o) client_env \<Rightarrow> string \<Rightarrow> string \<Rightarrow> string \<Rightarrow> string option \<Rightarrow> ('e, 'o, unit) cli" where
  "set_subscription env frm jid ty nick = send env (subscription_stanza (ne_dom env) frm jid ty nick)"

definition roster_set :: "('e, 'o) client_env \<Rightarrow> string \<Rightarrow> 'e \<Rightarrow> ('e, 'o, unit) cli" where
  "roster_set env prefix item = (let d = ne_dom env in
     act_bind (fresh_id env prefix) (\<lambda>i.
       send env (iq_stanza d ''set'' None i (d_with_child d item (d_bare d ''query'' NS_ROSTER)))))"

definition add_contact :: "('e, 'o) client_env \<Rightarrow> string \<Rightarrow> string \<Rightarrow> string option \<Rightarrow> ('e, 'o, unit) cli" where
  "add_contact env frm jid name =
     (let d = ne_dom env; item = d_with_attr d ''jid'' jid (d_bare d ''item'' NS_ROSTER);
          item = (case name of None \<Rightarrow> item | Some n \<Rightarrow> d_with_attr d ''name'' n item) in
      act_seq (roster_set env ''roster-set'' item)
        (set_subscription env frm jid ''subscribe'' (Some (local_part frm))))"

definition remove_contact :: "('e, 'o) client_env \<Rightarrow> string \<Rightarrow> ('e, 'o, unit) cli" where
  "remove_contact env jid = (let d = ne_dom env in
     roster_set env ''roster-del'' (d_with_attr d ''subscription'' ''remove''
       (d_with_attr d ''jid'' jid (d_bare d ''item'' NS_ROSTER))))"

definition ack_iq :: "('e, 'o) client_env \<Rightarrow> 'e \<Rightarrow> ('e, 'o, unit) cli" where
  "ack_iq env push = (let d = ne_dom env; iq = d_with_attr d ''type'' ''result'' (d_bare d ''iq'' NS_CLIENT) in
     send env (case d_attr d push ''id'' of None \<Rightarrow> iq | Some i \<Rightarrow> d_with_attr d ''id'' i iq))"

subsection \<open>What a roster stanza means\<close>

definition apply_item :: "('e, 'z) dom_scheme \<Rightarrow> 'e \<Rightarrow> (string \<rightharpoonup> roster_item) \<Rightarrow> (string \<rightharpoonup> roster_item)" where
  "apply_item d item m = (let row = roster_row d item in
     if ros_jid row = [] then m
     else if ros_subscription row = ''remove'' then m(ros_jid row := None)
     else m(ros_jid row \<mapsto> row))"

definition roster_spec :: "('e, 'z) dom_scheme \<Rightarrow> 'e \<Rightarrow> (string \<rightharpoonup> roster_item) \<Rightarrow> (string \<rightharpoonup> roster_item)" where
  "roster_spec d query m = fold (apply_item d) (named d ''item'' query) m"

definition roster_map :: "i64 \<Rightarrow> client_db \<Rightarrow> (string \<rightharpoonup> roster_item)" where
  "roster_map a db jid = roster_item_of a jid db"

lemma account_known_ops [simp]:
  "account_known a (snd (replace_roster_item b item db)) = account_known a db"
  "account_known a (remove_roster_item b jid db) = account_known a db"
  by (simp_all add: account_known_def replace_roster_item_def remove_roster_item_def)

lemma db_after [simp]:
  "cs_db (snd (notify ev s)) = cs_db s" "cs_db (snd (write_db f s)) = f (cs_db s)"
  "cs_db (snd (on_db m s)) = snd (m (cs_db s))"
  by (auto simp: act_simps on_db_def split: prod.split sum.split)

text \<open>Over an account the store knows, no item fails, and each does to the map what it means.\<close>

lemma roster_item_in_step:
  assumes "account_known (ne_account env) (cs_db s)"
  obtains t where "roster_item_in env item s = (Inr (), t)"
    "account_known (ne_account env) (cs_db t)"
    "roster_map (ne_account env) (cs_db t) = apply_item (ne_dom env) item (roster_map (ne_account env) (cs_db s))"
    "\<And>b. b \<noteq> ne_account env \<Longrightarrow> roster_map b (cs_db t) = roster_map b (cs_db s)"
proof -
  let ?a = "ne_account env" and ?row = "roster_row (ne_dom env) item"
  have ins: "replace_roster_item ?a ?row (cs_db s) = (Inr (), snd (replace_roster_item ?a ?row (cs_db s)))"
    using assms by (simp add: replace_roster_item_def)
  let ?db = "if ros_jid ?row = [] then cs_db s
    else if ros_subscription ?row = ''remove'' then remove_roster_item ?a (ros_jid ?row) (cs_db s)
    else snd (replace_roster_item ?a ?row (cs_db s))"
  have run: "\<exists>t. roster_item_in env item s = (Inr (), t) \<and> cs_db t = ?db"
    using ins by (auto simp: roster_item_in_def Let_def act_simps on_db_def split: prod.split)
  then obtain t where t: "roster_item_in env item s = (Inr (), t)" "cs_db t = ?db" by blast
  have known: "account_known ?a (cs_db t)" using assms by (simp add: t(2))
  have own: "roster_map ?a (cs_db t) = apply_item (ne_dom env) item (roster_map ?a (cs_db s))"
    unfolding t(2) using assms by (auto simp: roster_map_def apply_item_def Let_def fun_eq_iff)
  have others: "roster_map b (cs_db t) = roster_map b (cs_db s)" if "b \<noteq> ?a" for b
    unfolding t(2) using that assms by (auto simp: roster_map_def fun_eq_iff)
  show ?thesis by (rule that[OF t(1) known own others])
qed

lemma roster_items_step:
  assumes "account_known (ne_account env) (cs_db s)"
  shows "\<exists>t. act_iter (roster_item_in env) items s = (Inr (), t) \<and> account_known (ne_account env) (cs_db t)
    \<and> roster_map (ne_account env) (cs_db t) = fold (apply_item (ne_dom env)) items (roster_map (ne_account env) (cs_db s))
    \<and> (\<forall>b. b \<noteq> ne_account env \<longrightarrow> roster_map b (cs_db t) = roster_map b (cs_db s))"
  using assms
proof (induction items arbitrary: s)
  case (Cons item items)
  obtain t where t: "roster_item_in env item s = (Inr (), t)" "account_known (ne_account env) (cs_db t)"
    "roster_map (ne_account env) (cs_db t) = apply_item (ne_dom env) item (roster_map (ne_account env) (cs_db s))"
    "\<And>b. b \<noteq> ne_account env \<Longrightarrow> roster_map b (cs_db t) = roster_map b (cs_db s)"
    using roster_item_in_step[OF Cons.prems] by metis
  from Cons.IH[OF t(2)] t show ?case by (auto simp: act_simps)
qed (simp add: act_simps)

text \<open>
  C13: Storing a roster stanza succeeds and makes the account's table the map the stanza means, item
  after item; the rosters of other accounts stay, and the interface is told.
\<close>

theorem roster_stanza_refines:
  assumes "account_known (ne_account env) (cs_db s)"
  shows "\<exists>t. handle_roster_payload env query s = (Inr (), t)
    \<and> roster_map (ne_account env) (cs_db t) = roster_spec (ne_dom env) query (roster_map (ne_account env) (cs_db s))
    \<and> (\<forall>b. b \<noteq> ne_account env \<longrightarrow> roster_map b (cs_db t) = roster_map b (cs_db s))
    \<and> last (cs_events t) = Roster_Updated (ne_account env) (roster (ne_account env) (cs_db t))"
  using roster_items_step[OF assms, of "named (ne_dom env) ''item'' query"]
  by (auto simp: handle_roster_payload_def roster_spec_def act_simps)

end
