(* ===== verification/Profile.thy ===== *)
theory Profile
  imports Roster
begin

text \<open>
  Avatars, nicknames and profiles (\<open>crates/mxc-proto/src/xeps/avatar.rs\<close>, \<open>xeps/vcard.rs\<close>): photos from
  PubSub or a vCard, the profile merged from a vCard, a PubSub vCard4 and the published nickname, the
  hashes that tell a changed avatar, publishing our own, and the sticker a message refers to
  (\<open>xeps/bob.rs\<close>: \<open>fetch\<close>).
\<close>

definition NS_VCARD :: string where "NS_VCARD = ''vcard-temp''"
definition NODE_VCARD4 :: string where "NODE_VCARD4 = ''urn:xmpp:vcard4''"
definition NS_VCARD4 :: string where "NS_VCARD4 = ''urn:ietf:params:xml:ns:vcard-4.0''"
definition NODE_METADATA :: string where "NODE_METADATA = ''urn:xmpp:avatar:metadata''"
definition NODE_DATA :: string where "NODE_DATA = ''urn:xmpp:avatar:data''"
definition NS_METADATA :: string where "NS_METADATA = ''urn:xmpp:avatar:metadata''"
definition NS_DATA :: string where "NS_DATA = ''urn:xmpp:avatar:data''"
definition NODE_NICK :: string where "NODE_NICK = ''http://jabber.org/protocol/nick''"

definition FIELD_ORDER :: "string list" where
  "FIELD_ORDER = [''Name'', ''Nickname'', ''Title'', ''Role'', ''Organization'', ''Email'', ''Phone'',
     ''Website'', ''Birthday'', ''About'']"

abbreviation ne_b64 :: "('e, 'o) client_env \<Rightarrow> base64" where "ne_b64 env \<equiv> sv_b64 (ne_services env)"

subsection \<open>PubSub requests with a fresh id\<close>

definition ask_items ::
  "('e, 'o) client_env \<Rightarrow> string option \<Rightarrow> string \<Rightarrow> u32 option \<Rightarrow> ('e, 'o, (string option \<times> 'e) list) cli" where
  "ask_items env jid node max_items = act_bind
     (request_with env ''pep-get'' (\<lambda>i. pep_items (ne_dom env) i jid node max_items))
     (\<lambda>reply. act_ret (extract_items (ne_dom env) reply))"

definition publish_item ::
  "('e, 'o) client_env \<Rightarrow> string \<Rightarrow> string option \<Rightarrow> 'e \<Rightarrow> 'e option \<Rightarrow> ('e, 'o, unit) cli" where
  "publish_item env node item_id payload options = act_bind
     (request_with env ''pep-pub'' (\<lambda>i. pep_publish (ne_dom env) i node item_id payload options)) (\<lambda>_. act_ret ())"

definition retract_item :: "('e, 'o) client_env \<Rightarrow> string \<Rightarrow> string \<Rightarrow> ('e, 'o, unit) cli" where
  "retract_item env node item_id = act_bind
     (request_with env ''pep-retract'' (\<lambda>i. pep_retract (ne_dom env) i node item_id)) (\<lambda>_. act_ret ())"

subsection \<open>Photos\<close>

definition strip_whitespace :: "string \<Rightarrow> string" where
  "strip_whitespace s = concat (filter (\<lambda>c. \<not> is_whitespace c) (str_chars s))"

definition photo_bytes :: "base64 \<Rightarrow> string \<Rightarrow> bytes option" where
  "photo_bytes b text = (case b64_decode b (strip_whitespace text) of
     Inr bytes \<Rightarrow> if bytes = [] then None else Some bytes | Inl _ \<Rightarrow> None)"

definition vcard_photo :: "('e, 'z) dom_scheme \<Rightarrow> base64 \<Rightarrow> 'e \<Rightarrow> bytes option" where
  "vcard_photo d b vcard = Option.bind (get_child d vcard ''PHOTO'' NS_VCARD)
     (\<lambda>p. Option.bind (get_child d p ''BINVAL'' NS_VCARD) (\<lambda>v. photo_bytes b (d_text d v)))"

definition vcard_iq :: "('e, 'z) dom_scheme \<Rightarrow> string \<Rightarrow> string \<Rightarrow> 'e" where
  "vcard_iq d jid i = iq_stanza d ''get'' (Some jid) i (d_bare d ''vCard'' NS_VCARD)"

definition ask_vcard :: "('e, 'o) client_env \<Rightarrow> string \<Rightarrow> ('e, 'o, 'e option) cli" where
  "ask_vcard env jid = act_bind (request_with env ''vcard'' (vcard_iq (ne_dom env) jid))
     (\<lambda>reply. act_ret (get_child (ne_dom env) reply ''vCard'' NS_VCARD))"

definition fetch_photo :: "('e, 'o) client_env \<Rightarrow> string \<Rightarrow> ('e, 'o, bytes option) cli" where
  "fetch_photo env jid = act_bind (ask_vcard env jid)
     (\<lambda>vcard. act_ret (Option.bind vcard (vcard_photo (ne_dom env) (ne_b64 env))))"

definition flat :: "'a option option \<Rightarrow> 'a option" where
  "flat x = (case x of None \<Rightarrow> None | Some y \<Rightarrow> y)"

definition or_empty :: "bytes option \<Rightarrow> bytes" where
  "or_empty x = (case x of None \<Rightarrow> [] | Some b \<Rightarrow> b)"

definition photo_or_empty :: "('e, 'o) client_env \<Rightarrow> string \<Rightarrow> ('e, 'o, bytes) cli" where
  "photo_or_empty env jid = act_bind (ok (fetch_photo env jid)) (\<lambda>p. act_ret (or_empty (flat p)))"

text \<open>The item of that id whose element is \<open><data>\<close>; a broken one is an error.\<close>

definition pep_photo :: "('e, 'o) client_env \<Rightarrow> string \<Rightarrow> ('e, 'o, bytes option) cli" where
  "pep_photo env jid = (let d = ne_dom env in
     act_bind (ask_items env (Some jid) NODE_METADATA (Some 1)) (\<lambda>meta.
       case (case meta of [] \<Rightarrow> None | (_, m) # _ \<Rightarrow>
               Option.bind (get_child d m ''info'' NS_METADATA) (\<lambda>info. d_attr d info ''id'')) of
         None \<Rightarrow> act_ret None
       | Some i \<Rightarrow> act_bind (ask_items env (Some jid) NODE_DATA None) (\<lambda>items.
           case find (\<lambda>(item_id, payload). item_id = Some i \<and> d_name d payload = ''data'') items of
             None \<Rightarrow> act_ret None
           | Some (_, payload) \<Rightarrow> (case b64_decode (ne_b64 env) (str_trim (d_text d payload)) of
               Inl e \<Rightarrow> act_throw (App_Error (''avatar base64: '' @ e))
             | Inr raw \<Rightarrow> act_ret (Some raw)))))"

definition fetch_best :: "('e, 'o) client_env \<Rightarrow> string \<Rightarrow> bool \<Rightarrow> ('e, 'o, unit) cli" where
  "fetch_best env jid is_muc =
     act_bind (if is_muc then photo_or_empty env jid
               else act_bind (ok (pep_photo env jid)) (\<lambda>p. case flat p of
                 Some raw \<Rightarrow> act_ret raw | None \<Rightarrow> photo_or_empty env jid))
       (\<lambda>data. notify (Avatar (ne_account env) jid data))"

definition fetch_avatar :: "('e, 'o) client_env \<Rightarrow> string \<Rightarrow> ('e, 'o, unit) cli" where
  "fetch_avatar env jid = act_bind (pep_photo env jid) (\<lambda>p. case p of
     None \<Rightarrow> act_ret () | Some raw \<Rightarrow> notify (Avatar (ne_account env) jid raw))"

subsection \<open>Changed avatars\<close>

definition avatar_hash_changed :: "string \<Rightarrow> string \<Rightarrow> ('e, 'o, bool) cli" where
  "avatar_hash_changed jid hash = act_bind (act_read (\<lambda>s. cs_avatar_hashes s jid)) (\<lambda>prev.
     if prev = Some hash then act_ret False
     else act_bind (act_modify (\<lambda>s. s\<lparr>cs_avatar_hashes := (cs_avatar_hashes s)(jid \<mapsto> hash)\<rparr>))
       (\<lambda>_. act_ret (prev \<noteq> None)))"

subsection \<open>Nicknames\<close>

definition fetch_nick :: "('e, 'o) client_env \<Rightarrow> string \<Rightarrow> ('e, 'o, unit) cli" where
  "fetch_nick env jid = act_bind (ask_items env (Some jid) NODE_NICK (Some 1)) (\<lambda>items. case items of
     [] \<Rightarrow> act_ret ()
   | (_, payload) # _ \<Rightarrow> act_when (d_name (ne_dom env) payload = ''nick'')
       (notify (Nick_Updated (ne_account env) jid (d_text (ne_dom env) payload))))"

definition publish_nick :: "('e, 'o) client_env \<Rightarrow> string \<Rightarrow> ('e, 'o, unit) cli" where
  "publish_nick env nick = (let d = ne_dom env in
     publish_item env NODE_NICK (Some ''current'') (text_element d ''nick'' NODE_NICK nick)
       (Some (pep_publish_options d ''open'')))"

subsection \<open>Publishing our avatar\<close>

definition avatar_info :: "('e, 'z) dom_scheme \<Rightarrow> string \<Rightarrow> nat \<Rightarrow> string \<Rightarrow> u32 \<Rightarrow> u32 \<Rightarrow> 'e" where
  "avatar_info d i len mime width height =
     d_with_child d
       (d_with_attr d ''height'' (show_u32 height) (d_with_attr d ''width'' (show_u32 width)
         (d_with_attr d ''type'' mime (d_with_attr d ''bytes'' (show_nat len)
           (d_with_attr d ''id'' i (d_bare d ''info'' NS_METADATA))))))
       (d_bare d ''metadata'' NS_METADATA)"

definition publish_avatar ::
  "('e, 'o) client_env \<Rightarrow> bytes \<Rightarrow> string \<Rightarrow> u32 \<Rightarrow> u32 \<Rightarrow> ('e, 'o, unit) cli" where
  "publish_avatar env data mime width height =
     (let d = ne_dom env; i = hex_encode (ne_sha1 env data); opts = Some (pep_publish_options d ''open'') in
      act_seq (publish_item env NODE_DATA (Some i) (text_element d ''data'' NS_DATA (b64_encode (ne_b64 env) data)) opts)
        (publish_item env NODE_METADATA (Some i) (avatar_info d i (length data) mime width height) opts))"

subsection \<open>Profiles\<close>

text \<open>\<open>put\<close>: the first non-empty value of a label stays.\<close>

definition put :: "string \<Rightarrow> string \<Rightarrow> (string \<rightharpoonup> string) \<Rightarrow> (string \<rightharpoonup> string)" where
  "put label v m = (let v = str_trim v in if v \<noteq> [] \<and> m label = None then m(label \<mapsto> v) else m)"

definition put_all :: "(string \<times> string) list \<Rightarrow> (string \<rightharpoonup> string) \<Rightarrow> (string \<rightharpoonup> string)" where
  "put_all = fold (\<lambda>(label, v). put label v)"

definition tag_text :: "('e, 'z) dom_scheme \<Rightarrow> 'e \<Rightarrow> string \<Rightarrow> string" where
  "tag_text d vcard tag = (case child_text d vcard tag NS_VCARD of None \<Rightarrow> [] | Some t \<Rightarrow> t)"

definition inner_or_own :: "('e, 'z) dom_scheme \<Rightarrow> 'e \<Rightarrow> string \<Rightarrow> string \<Rightarrow> string" where
  "inner_or_own d vcard tag inner = (case get_child d vcard tag NS_VCARD of None \<Rightarrow> []
     | Some e \<Rightarrow> (case child_text d e inner NS_VCARD of None \<Rightarrow> d_text d e | Some t \<Rightarrow> t))"

definition vcard_fields :: "('e, 'z) dom_scheme \<Rightarrow> 'e \<Rightarrow> (string \<times> string) list" where
  "vcard_fields d v = [(''Name'', tag_text d v ''FN''), (''Nickname'', tag_text d v ''NICKNAME''),
     (''Title'', tag_text d v ''TITLE''), (''Role'', tag_text d v ''ROLE''),
     (''Organization'', case get_child d v ''ORG'' NS_VCARD of None \<Rightarrow> [] | Some org \<Rightarrow> tag_text d org ''ORGNAME''),
     (''Email'', inner_or_own d v ''EMAIL'' ''USERID''), (''Phone'', inner_or_own d v ''TEL'' ''NUMBER''),
     (''Website'', tag_text d v ''URL''), (''Birthday'', tag_text d v ''BDAY''), (''About'', tag_text d v ''DESC'')]"

definition v4_text :: "('e, 'z) dom_scheme \<Rightarrow> 'e \<Rightarrow> string \<Rightarrow> string \<Rightarrow> string" where
  "v4_text d v tag inner = (case Option.bind (get_child d v tag NS_VCARD4) (\<lambda>e. child_text d e inner NS_VCARD4) of
     None \<Rightarrow> [] | Some t \<Rightarrow> t)"

definition v4_fields :: "('e, 'z) dom_scheme \<Rightarrow> 'e \<Rightarrow> (string \<times> string) list" where
  "v4_fields d v = (let tel = v4_text d v ''tel'' ''uri'' in
     [(''Name'', v4_text d v ''fn'' ''text''), (''Nickname'', v4_text d v ''nickname'' ''text''),
      (''Title'', v4_text d v ''title'' ''text''), (''Role'', v4_text d v ''role'' ''text''),
      (''Organization'', v4_text d v ''org'' ''text''), (''Email'', v4_text d v ''email'' ''text''),
      (''Phone'', case strip_prefix tel ''tel:'' of None \<Rightarrow> tel | Some t \<Rightarrow> t),
      (''Website'', v4_text d v ''url'' ''uri''), (''Birthday'', v4_text d v ''bday'' ''date''),
      (''About'', v4_text d v ''note'' ''text'')])"

definition fetch_vcard4 :: "('e, 'o) client_env \<Rightarrow> string \<Rightarrow> ('e, 'o, 'e option) cli" where
  "fetch_vcard4 env jid = act_bind (ok (ask_items env (Some jid) NODE_VCARD4 (Some 1))) (\<lambda>items.
     act_ret (Option.bind items (\<lambda>xs. find (\<lambda>p. d_name (ne_dom env) p = ''vcard'') (map snd xs))))"

definition nick_field :: "('e, 'z) dom_scheme \<Rightarrow> (string option \<times> 'e) list option \<Rightarrow> (string \<times> string) list" where
  "nick_field d items = (case items of
     Some ((_, payload) # _) \<Rightarrow> if d_name d payload = ''nick'' then [(''Nickname'', d_text d payload)] else []
   | _ \<Rightarrow> [])"

definition ordered_fields :: "(string \<rightharpoonup> string) \<Rightarrow> (string \<times> string) list" where
  "ordered_fields m = List.map_filter (\<lambda>label. map_option (\<lambda>v. (label, v)) (m label)) FIELD_ORDER"

definition fetch_details ::
  "('e, 'o) client_env \<Rightarrow> string \<Rightarrow> ('e, 'o, bytes option \<times> (string \<times> string) list) cli" where
  "fetch_details env jid = (let d = ne_dom env in
     act_bind (ok (ask_vcard env jid)) (\<lambda>vcard.
     act_bind (fetch_vcard4 env jid) (\<lambda>v4.
       let photo = Option.bind (flat vcard) (vcard_photo d (ne_b64 env));
           m = put_all (case flat vcard of None \<Rightarrow> [] | Some v \<Rightarrow> vcard_fields d v) Map.empty;
           m = put_all (case v4 of None \<Rightarrow> [] | Some v \<Rightarrow> v4_fields d v) m in
       act_bind (if m ''Nickname'' \<noteq> None then act_ret []
                 else act_bind (ok (ask_items env (Some jid) NODE_NICK (Some 1))) (\<lambda>items. act_ret (nick_field d items)))
         (\<lambda>nick. act_bind (case photo of Some p \<Rightarrow> act_ret (Some p)
                          | None \<Rightarrow> act_bind (ok (pep_photo env jid)) (\<lambda>p. act_ret (flat p)))
           (\<lambda>photo. act_ret (photo, ordered_fields (put_all nick m)))))))"


subsection \<open>Stickers\<close>

definition bob_request :: "('e, 'z) dom_scheme \<Rightarrow> string \<Rightarrow> string \<Rightarrow> string \<Rightarrow> 'e" where
  "bob_request d to_full ssp i =
     iq_stanza d ''get'' (Some to_full) i (d_with_attr d ''cid'' ssp (d_bare d ''data'' NS_BOB))"

definition bob_fetch :: "('e, 'o) client_env \<Rightarrow> string \<Rightarrow> string \<Rightarrow> ('e, 'o, bytes) cli" where
  "bob_fetch env to_full ssp = (let d = ne_dom env in
     act_bind (request_with env ''bob'' (bob_request d to_full ssp)) (\<lambda>reply.
       case get_child d reply ''data'' NS_BOB of
         None \<Rightarrow> act_throw (App_Error ''BoB reply missing <data>'')
       | Some data \<Rightarrow> (case parse_data d (ne_b64 env) data of
             None \<Rightarrow> act_throw (App_Error ''BoB reply <data> unparseable'')
           | Some (_, bs) \<Rightarrow> act_ret bs)))"

text \<open>Whatever bytes the peer puts into its answer are the sticker: the content id is not compared.\<close>

lemma bob_fetch_trusts_answer:
  assumes "dom_sound (ne_dom env)" "b64_sound (ne_b64 env)"
    and "fst (request_with env ''bob'' (bob_request (ne_dom env) to_full ssp) s) = Inr reply"
    and "get_child (ne_dom env) reply ''data'' NS_BOB = Some (data_element (ne_dom env) (ne_b64 env) other mime bs)"
  shows "fst (bob_fetch env to_full ssp s) = Inr bs"
  using assms(3) parse_data_element[OF assms(1,2)]
  by (cases "request_with env ''bob'' (bob_request (ne_dom env) to_full ssp) s")
     (simp add: bob_fetch_def Let_def act_simps assms(4))

end
