(* ===== verification/Presence.thy ===== *)
theory Presence
  imports Profile
begin

text \<open>
  Presence (\<open>crates/mxc-proto/src/xeps/presence.rs\<close>): our own broadcast, and what a presence stanza
  does: changed avatars, the occupants of rooms, the presence cache and subscription requests.
\<close>

definition NS_AVATAR_UPDATE :: string where "NS_AVATAR_UPDATE = ''vcard-temp:x:update''"

definition send_presence :: "('e, 'o) client_env \<Rightarrow> string \<Rightarrow> string \<Rightarrow> ('e, 'o, unit) cli" where
  "send_presence env shown status =
     (let d = ne_dom env; pres = d_bare d ''presence'' NS_CLIENT;
          pres = (if shown = [] then pres else d_with_child d (text_element d ''show'' NS_CLIENT shown) pres);
          pres = (if status = [] then pres else d_with_child d (text_element d ''status'' NS_CLIENT status) pres) in
      send env (d_with_child d (caps_element d (ne_sha1 env) (ne_b64 env)) pres))"

definition send_initial :: "('e, 'o) client_env \<Rightarrow> ('e, 'o, unit) cli" where
  "send_initial env = send_presence env [] []"

subsection \<open>Avatars\<close>

definition avatar_update :: "('e, 'z) dom_scheme \<Rightarrow> 'e \<Rightarrow> string option" where
  "avatar_update d pres = Option.bind (get_child d pres ''x'' NS_AVATAR_UPDATE)
     (\<lambda>x. child_text d x ''photo'' NS_AVATAR_UPDATE)"

definition refresh_avatar :: "('e, 'o) client_env \<Rightarrow> string \<Rightarrow> 'e \<Rightarrow> ('e, 'o, unit) cli" where
  "refresh_avatar env frm pres = (let d = ne_dom env; bare = to_bare frm in
     case avatar_update d pres of None \<Rightarrow> act_ret ()
     | Some hash \<Rightarrow>
         let is_occupant = has_child d pres ''x'' NS_MUC_USER in
         act_bind (if hash = [] then act_ret False
                   else avatar_hash_changed (if is_occupant then frm else bare) hash) (\<lambda>changed.
           act_when changed
             (if is_occupant then (case split_once (CHR ''/'') frm of None \<Rightarrow> act_ret ()
                | Some (room, nick) \<Rightarrow> act_bind (photo_or_empty env frm) (\<lambda>data.
                    notify (Muc_Avatar (ne_account env) room nick data)))
              else if \<not> eq_ignore_ascii_case bare (ne_bare env) then fetch_best env bare False
              else act_ret ())))"

subsection \<open>Occupants\<close>

definition is_self_presence :: "('e, 'z) dom_scheme \<Rightarrow> 'e \<Rightarrow> bool" where
  "is_self_presence d x \<longleftrightarrow> (\<exists>c\<in>set (d_children d x). d_name d c = ''status'' \<and> d_attr d c ''code'' = Some ''110'')"

definition occupant_presence :: "('e, 'o) client_env \<Rightarrow> string \<Rightarrow> string \<Rightarrow> 'e \<Rightarrow> ('e, 'o, unit) cli" where
  "occupant_presence env frm ptype pres = (let d = ne_dom env in
     case (get_child d pres ''x'' NS_MUC_USER, split_once (CHR ''/'') frm) of
       (Some x, Some (room, nick)) \<Rightarrow>
         act_bind (ok (on_store (conversation_id (ne_account env) room ''muc''))) (\<lambda>found. case found of
           None \<Rightarrow> act_ret ()
         | Some conv \<Rightarrow> act_seq
             (if ptype = ''unavailable'' then write_store (remove_muc_occupant conv nick)
              else (case get_child d x ''item'' NS_MUC_USER of None \<Rightarrow> act_ret ()
                | Some item \<Rightarrow> best_effort (on_store (upsert_muc_occupant conv nick
                    (map_option to_bare (d_attr d item ''jid'')) (d_attr d item ''affiliation'')))))
             (if is_self_presence d x then
                (case child_attr d pres ''occupant-id'' NS_OCCUPANT ''id'' of None \<Rightarrow> act_ret ()
                 | Some occ \<Rightarrow> write_store (set_muc_self_occupant conv occ))
              else act_ret ()))
     | _ \<Rightarrow> act_ret ())"

subsection \<open>Availability and subscription requests\<close>

definition presence_priority :: "('e, 'z) dom_scheme \<Rightarrow> 'e \<Rightarrow> i64" where
  "presence_priority d pres = (case Option.bind (child_text d pres ''priority'' NS_CLIENT) parse_i64 of
     None \<Rightarrow> 0 | Some p \<Rightarrow> p)"

definition presence_available :: "('e, 'o) client_env \<Rightarrow> string \<Rightarrow> 'e \<Rightarrow> ('e, 'o, unit) cli" where
  "presence_available env frm pres = (let d = ne_dom env;
       shown = child_text d pres ''show'' NS_CLIENT; status = child_text d pres ''status'' NS_CLIENT in
     act_seq (on_db (set_presence (ne_account env) frm shown status (presence_priority d pres)
         (child_attr d pres ''c'' NS_CAPS ''ver'')))
       (notify (Presence (ne_account env) frm shown status)))"

definition presence_unavailable :: "('e, 'o) client_env \<Rightarrow> string \<Rightarrow> ('e, 'o, unit) cli" where
  "presence_unavailable env frm =
     act_seq (write_db (clear_presence (ne_account env) frm))
       (notify (Presence (ne_account env) frm None (Some ''offline'')))"

definition take_preapproval :: "('e, 'o) client_env \<Rightarrow> string \<Rightarrow> ('e, 'o, bool) cli" where
  "take_preapproval env bare s = (case take_presence_preapproval (ne_account env) bare (cs_db s) of
     (found, db) \<Rightarrow> (Inr found, s\<lparr>cs_db := db\<rparr>))"

definition requested_nick :: "('e, 'z) dom_scheme \<Rightarrow> 'e \<Rightarrow> string option" where
  "requested_nick d pres = (case child_text d pres ''nick'' NS_NICK of
     None \<Rightarrow> None | Some n \<Rightarrow> if n = [] then None else Some n)"

definition presence_subscribe :: "('e, 'o) client_env \<Rightarrow> string \<Rightarrow> 'e \<Rightarrow> ('e, 'o, unit) cli" where
  "presence_subscribe env frm pres =
     (let a = ne_account env; bare = to_bare frm; nick = requested_nick (ne_dom env) pres in
      act_seq (case nick of None \<Rightarrow> act_ret () | Some n \<Rightarrow> notify (Nick_Updated a bare n))
        (act_bind (take_preapproval env bare) (\<lambda>found.
          if found then set_subscription env (ne_bare env) bare ''subscribed'' None
          else notify (Subscription_Request a bare nick))))"

definition presence_by_type :: "('e, 'o) client_env \<Rightarrow> string \<Rightarrow> string \<Rightarrow> 'e \<Rightarrow> ('e, 'o, unit) cli" where
  "presence_by_type env frm ptype pres =
     (if ptype = ''unavailable'' then presence_unavailable env frm
      else if ptype = ''available'' then presence_available env frm pres
      else if ptype = ''subscribe'' then presence_subscribe env frm pres
      else act_ret ())"

definition handle_presence :: "('e, 'o) client_env \<Rightarrow> 'e \<Rightarrow> ('e, 'o, unit) cli" where
  "handle_presence env pres = (let d = ne_dom env in
     case d_attr d pres ''from'' of None \<Rightarrow> act_ret ()
     | Some frm \<Rightarrow>
         let ptype = (case d_attr d pres ''type'' of None \<Rightarrow> ''available'' | Some t \<Rightarrow> t) in
         act_seq (refresh_avatar env frm pres)
        (act_seq (occupant_presence env frm ptype pres)
        (presence_by_type env frm ptype pres)))"

end
