(* ===== verification/Presence_Laws.thy ===== *)
theory Presence_Laws
  imports Presence
begin

text \<open>
  Who may see our presence: an approval goes out for a request only when the user had granted it
  before, once per grant, whatever stanzas arrive.
\<close>

subsection \<open>Quantities no step raises\<close>

definition never_raises :: "('s \<Rightarrow> nat) \<Rightarrow> ('s, 'e, 'a) act \<Rightarrow> bool" where
  "never_raises q m \<longleftrightarrow> (\<forall>s. q (snd (m s)) \<le> q s)"

lemma never_raisesD: "never_raises q m \<Longrightarrow> q (snd (m s)) \<le> q s"
  by (simp add: never_raises_def)

lemma never_raises_bind [intro]:
  assumes "never_raises q m" and "\<And>x. never_raises q (f x)"
  shows "never_raises q (act_bind m f)"
  unfolding never_raises_def
proof
  fix s
  obtain r t where m: "m s = (r, t)" by fastforce
  have "q t \<le> q s" using never_raisesD[OF assms(1), of s] by (simp add: m)
  moreover have "q (snd (f x t)) \<le> q t" for x by (rule never_raisesD[OF assms(2)])
  ultimately show "q (snd (act_bind m f s)) \<le> q s"
    by (auto simp: act_bind_def m split: sum.split intro: le_trans)
qed

lemma never_raises_seq [intro]: "never_raises q m \<Longrightarrow> never_raises q n \<Longrightarrow> never_raises q (act_seq m n)"
  unfolding act_seq_def by (rule never_raises_bind)

lemma never_raises_leaves: "leaves q m \<Longrightarrow> never_raises q m"
  by (simp add: never_raises_def leaves_def)

lemma never_raises_basic [simp, intro]: "never_raises q (act_ret x)" "never_raises q (act_throw e)" "never_raises q (act_read g)"
  by (simp_all add: never_raises_leaves)

lemma never_raises_when [intro]: "never_raises q m \<Longrightarrow> never_raises q (act_when b m)"
  by (simp add: act_when_def)

lemma never_raises_quiet [intro]:
  "never_raises q m \<Longrightarrow> never_raises q (ok m)" "never_raises q m \<Longrightarrow> never_raises q (best_effort m)"
  by (auto simp: never_raises_def ok_def best_effort_def split: prod.splits sum.splits) (metis snd_conv)+

subsection \<open>Grants and approvals\<close>

definition approves :: "('e, 'z) dom_scheme \<Rightarrow> string \<Rightarrow> 'e \<Rightarrow> bool" where
  "approves d jid e \<longleftrightarrow> d_name d e = ''presence'' \<and> d_attr d e ''type'' = Some ''subscribed'' \<and> d_attr d e ''to'' = Some jid"

definition approvals :: "('e, 'o) client_env \<Rightarrow> string \<Rightarrow> ('e, 'o) client \<Rightarrow> nat" where
  "approvals env jid s = length (filter (approves (ne_dom env) jid) (cs_sent s))"

definition grants :: "('e, 'o) client_env \<Rightarrow> string \<Rightarrow> ('e, 'o) client \<Rightarrow> nat" where
  "grants env jid s = (if preapproved (ne_account env) jid (cs_db s) then 1 else 0)"

definition exposure :: "('e, 'o) client_env \<Rightarrow> string \<Rightarrow> ('e, 'o) client \<Rightarrow> nat" where
  "exposure env jid s = approvals env jid s + grants env jid s"

text \<open>The other tasks, while a request waits, neither grant nor approve.\<close>

definition nobody_else_approves :: "('e, 'o) client_env \<Rightarrow> string \<Rightarrow> bool" where
  "nobody_else_approves env jid \<longleftrightarrow> (\<forall>req s. exposure env jid (snd (ne_exchange env req s)) \<le> exposure env jid s)"

lemma exposure_simps [simp]:
  "exposure env jid (s\<lparr>cs_tick := n\<rparr>) = exposure env jid s"
  "exposure env jid (s\<lparr>cs_requests := rs\<rparr>) = exposure env jid s"
  "exposure env jid (s\<lparr>cs_avatar_hashes := h\<rparr>) = exposure env jid s"
  "exposure env jid (s\<lparr>cs_world := (cs_world s)\<lparr>w_events := evs\<rparr>\<rparr>) = exposure env jid s"
  "exposure env jid (s\<lparr>cs_world := (cs_world s)\<lparr>w_messages := db\<rparr>\<rparr>) = exposure env jid s"
  by (simp_all add: exposure_def approvals_def grants_def)

lemma send_raises: "exposure env jid (snd (send env el s)) \<le>
    exposure env jid s + (if approves (ne_dom env) jid el then 1 else 0)"
  by (simp add: send_def on_world_def send_stanza_def act_simps exposure_def approvals_def grants_def)

lemma exposure_send [intro]: "\<not> approves (ne_dom env) jid el \<Longrightarrow> never_raises (exposure env jid) (send env el)"
  using send_raises[of env jid el] by (simp add: never_raises_def)

lemma exposure_steps [simp, intro]:
  "never_raises (exposure env jid) (notify ev)" "never_raises (exposure env jid) (fresh_id env' p)"
  "never_raises (exposure env jid) (settle r)" "never_raises (exposure env jid) (read_store h)"
  "never_raises (exposure env jid) (read_db f)" "never_raises (exposure env jid) (write_store k)"
  by (auto simp: never_raises_def act_simps fresh_id_def settle_def split: sum.split)

lemma exposure_on_store [simp, intro]: "never_raises (exposure env jid) (on_store m)"
  by (auto simp: never_raises_def on_store_def on_world_def on_messages_def split: prod.split sum.split)

lemma exposure_db [simp]: "grants env jid (s\<lparr>cs_db := db\<rparr>) = (if preapproved (ne_account env) jid db then 1 else 0)"
  "approvals env jid (s\<lparr>cs_db := db\<rparr>) = approvals env jid s"
  by (simp_all add: grants_def approvals_def)

lemma exposure_await [intro]: "nobody_else_approves env jid \<Longrightarrow> never_raises (exposure env jid) (await env req)"
  unfolding never_raises_def
proof
  fix s
  assume "nobody_else_approves env jid"
  then have "exposure env jid (snd (ne_exchange env req s)) \<le> exposure env jid s"
    by (simp add: nobody_else_approves_def)
  then show "exposure env jid (snd (await env req s)) \<le> exposure env jid s"
    by (cases "ne_exchange env req s") (simp add: await_def)
qed

lemma exposure_request_with [intro]:
  assumes "nobody_else_approves env jid" and "\<And>i. \<not> approves (ne_dom env) jid (build i)"
  shows "never_raises (exposure env jid) (request_with env p build)"
  unfolding request_with_def request_def using assms
  by (intro never_raises_bind) (auto split: option.split)

lemma iq_never_approves [simp]:
  assumes "dom_sound d"
  shows "\<not> approves d jid (iq_stanza d ty to i payload)" "\<not> approves d jid (pep_items d i to node m)"
  using assms by (auto simp: approves_def iq_stanza_def pep_items_def pep_iq_def Let_def split: option.split)

subsection \<open>Presence stanzas\<close>

lemma exposure_profile:
  assumes "nobody_else_approves env jid" and "dom_sound (ne_dom env)"
  shows "never_raises (exposure env jid) (ask_items env to node m)"
    "never_raises (exposure env jid) (photo_or_empty env x)" "never_raises (exposure env jid) (fetch_best env x False)"
proof -
  show items: "never_raises (exposure env jid) (ask_items env to node m)" for to node m
    unfolding ask_items_def using assms by (intro never_raises_bind exposure_request_with) auto
  show photo: "never_raises (exposure env jid) (photo_or_empty env x)" for x
    unfolding photo_or_empty_def fetch_photo_def ask_vcard_def vcard_iq_def using assms
    by (intro never_raises_bind never_raises_quiet exposure_request_with) auto
  have "never_raises (exposure env jid) (pep_photo env x)"
    unfolding pep_photo_def Let_def
    by (rule never_raises_bind[OF items]) (auto split: option.split list.split prod.split sum.split intro!: never_raises_bind items)
  then show "never_raises (exposure env jid) (fetch_best env x False)"
    unfolding fetch_best_def by (auto intro!: never_raises_bind never_raises_quiet photo split: option.split)
qed

lemma exposure_avatar:
  assumes "nobody_else_approves env jid" and "dom_sound (ne_dom env)"
  shows "never_raises (exposure env jid) (refresh_avatar env frm pres)"
proof -
  have "never_raises (exposure env jid) (act_modify (\<lambda>s. s\<lparr>cs_avatar_hashes := f s\<rparr>))" for f
    by (simp add: never_raises_def act_simps)
  then have hash: "never_raises (exposure env jid) (avatar_hash_changed x h)" for x h
    unfolding avatar_hash_changed_def by (auto intro!: never_raises_bind)
  show ?thesis
    unfolding refresh_avatar_def Let_def
    by (auto split: option.split prod.split intro!: never_raises_bind never_raises_when hash exposure_profile[OF assms])
qed

lemma exposure_occupant: "never_raises (exposure env jid) (occupant_presence env frm ptype pres)"
  unfolding occupant_presence_def Let_def
  by (auto split: option.split prod.split intro!: never_raises_bind never_raises_seq never_raises_quiet)

lemma subscribed_approves:
  "dom_sound d \<Longrightarrow> approves d jid (subscription_stanza d frm bare ''subscribed'' n) \<longleftrightarrow> jid = bare"
  by (auto simp: approves_def subscription_stanza_def Let_def)

lemma exposure_subscribe:
  assumes "dom_sound (ne_dom env)"
  shows "never_raises (exposure env jid) (presence_subscribe env frm pres)"
proof -
  let ?a = "ne_account env" and ?b = "to_bare frm"
  have "exposure env jid (snd (act_bind (take_preapproval env ?b) (\<lambda>found.
      if found then set_subscription env (ne_bare env) ?b ''subscribed'' None
      else notify (Subscription_Request ?a ?b n)) s)) \<le> exposure env jid s" for n s
  proof -
    let ?t = "s\<lparr>cs_db := snd (take_presence_preapproval ?a ?b (cs_db s))\<rparr>"
    have take: "take_preapproval env ?b s = (Inr (preapproved ?a ?b (cs_db s)), ?t)"
      by (simp add: take_preapproval_def take_presence_preapproval_def)
    have gone: "exposure env jid ?t + (if preapproved ?a ?b (cs_db s) \<and> jid = ?b then 1 else 0) \<le> exposure env jid s"
      by (simp add: exposure_def grants_def approvals_def)
    show ?thesis
    proof (cases "preapproved ?a ?b (cs_db s)")
      case True
      have "exposure env jid (snd (set_subscription env (ne_bare env) ?b ''subscribed'' None ?t))
          \<le> exposure env jid ?t + (if jid = ?b then 1 else 0)"
        using send_raises[of env jid "subscription_stanza (ne_dom env) (ne_bare env) ?b ''subscribed'' None" ?t]
        by (simp add: set_subscription_def subscribed_approves[OF assms])
      with gone True show ?thesis by (simp add: act_bind_def take)
    next
      case False
      then show ?thesis using gone never_raisesD[OF exposure_steps(1), of env jid _ ?t]
        by (simp add: act_bind_def take) (use le_trans in blast)
    qed
  qed
  then show ?thesis
    unfolding presence_subscribe_def Let_def
    by (intro never_raises_seq) (auto simp: never_raises_def[of _ "act_bind _ _"] split: option.split)
qed

lemma exposure_presence:
  assumes "nobody_else_approves env jid" and "dom_sound (ne_dom env)"
  shows "never_raises (exposure env jid) (handle_presence env pres)"
proof -
  have put: "never_raises (exposure env jid) (on_db (set_presence a f sh st p c))" for a f sh st p c
    by (auto simp: never_raises_def on_db_def set_presence_def exposure_def grants_def approvals_def preapproved_def
        setting_def Let_def)
  have clear: "never_raises (exposure env jid) (write_db (clear_presence a f))" for a f
    by (auto simp: never_raises_def act_simps exposure_def grants_def approvals_def preapproved_def setting_def clear_presence_def)
  have by_type: "never_raises (exposure env jid) (presence_by_type env frm ptype pres)" for frm ptype
    by (simp add: presence_by_type_def presence_unavailable_def presence_available_def Let_def
        never_raises_seq put clear exposure_subscribe[OF assms(2)])
  show ?thesis
    by (simp add: handle_presence_def Let_def never_raises_seq exposure_avatar[OF assms] exposure_occupant by_type
        split: option.split)
qed

definition presence_run :: "('e, 'o) client_env \<Rightarrow> 'e list \<Rightarrow> ('e, 'o) client \<Rightarrow> ('e, 'o) client" where
  "presence_run env ps s = fold (\<lambda>p s. snd (handle_presence env p s)) ps s"

text \<open>
  C14: Whatever presence stanzas arrive, a contact is approved at most once more, and only if the user
  had granted it before: one approval uses up one grant.
\<close>

theorem approval_needs_grant:
  assumes "nobody_else_approves env jid" and "dom_sound (ne_dom env)"
  shows "approvals env jid (presence_run env ps s) + grants env jid (presence_run env ps s)
    \<le> approvals env jid s + grants env jid s"
proof -
  have "exposure env jid (presence_run env ps s) \<le> exposure env jid s"
    unfolding presence_run_def
  proof (induction ps arbitrary: s)
    case (Cons p ps)
    show ?case using Cons[of "snd (handle_presence env p s)"] never_raisesD[OF exposure_presence[OF assms], of p s]
      by simp
  qed simp
  then show ?thesis by (simp add: exposure_def)
qed

end
