(* ===== verification/Archive.thy ===== *)
theory Archive
  imports Client
begin

text \<open>
  Archive paging (\<open>crates/mxc-proto/src/xeps/mam.rs\<close>): one page back from the oldest known message,
  catching up a conversation, and catching up the account after a reconnect.  The archived messages
  come as stanzas of their own while the answer is awaited; here is the paging.
\<close>

definition NS_RSM :: string where "NS_RSM = ''http://jabber.org/protocol/rsm''"
definition PAGE :: nat where "PAGE = 50"
definition ACCOUNT_ARCHIVE :: string where "ACCOUNT_ARCHIVE = CHR 0x01 # ''account''"

definition form_field :: "('e, 'z) dom_scheme \<Rightarrow> string \<Rightarrow> string \<Rightarrow> bool \<Rightarrow> 'e" where
  "form_field d var v hidden =
     (let f = d_with_attr d ''var'' var (d_bare d ''field'' NS_XDATA);
          f = (if hidden then d_with_attr d ''type'' ''hidden'' f else f) in
      d_with_child d (text_element d ''value'' NS_XDATA v) f)"

definition mam_form :: "('e, 'z) dom_scheme \<Rightarrow> string option \<Rightarrow> 'e" where
  "mam_form d with_jid =
     (let form = d_with_child d (form_field d ''FORM_TYPE'' NS_MAM True)
           (d_with_attr d ''type'' ''submit'' (d_bare d ''x'' NS_XDATA)) in
      case with_jid of None \<Rightarrow> form | Some j \<Rightarrow> d_with_child d (form_field d ''with'' j False) form)"

text \<open>The result-set part: the page before an id, the last page, the page after an id.\<close>

datatype page_position = Before string | Last_Page | After string

definition rsm_set :: "('e, 'z) dom_scheme \<Rightarrow> page_position \<Rightarrow> 'e" where
  "rsm_set d pos = d_with_child d
     (case pos of Before c \<Rightarrow> text_element d ''before'' NS_RSM c
      | Last_Page \<Rightarrow> d_bare d ''before'' NS_RSM
      | After c \<Rightarrow> text_element d ''after'' NS_RSM c)
     (d_with_child d (text_element d ''max'' NS_RSM (show_nat PAGE)) (d_bare d ''set'' NS_RSM))"

definition mam_query ::
  "('e, 'z) dom_scheme \<Rightarrow> string \<Rightarrow> string option \<Rightarrow> string option \<Rightarrow> page_position \<Rightarrow> string \<Rightarrow> 'e" where
  "mam_query d query_id to with_jid pos iq_id =
     iq_stanza d ''set'' to iq_id
       (with_children d [mam_form d with_jid, rsm_set d pos]
         (d_with_attr d ''queryid'' query_id (d_bare d ''query'' NS_MAM)))"

definition ask_page ::
  "('e, 'o) client_env \<Rightarrow> string option \<Rightarrow> string option \<Rightarrow> page_position \<Rightarrow> ('e, 'o, 'e) cli" where
  "ask_page env to with_jid pos = act_bind (fresh_id env ''mam'') (\<lambda>query_id.
     request_with env ''mam-iq'' (mam_query (ne_dom env) query_id to with_jid pos))"

text \<open>\<open><fin>\<close>: whether the archive is exhausted, the first and the last id of the page.\<close>

definition fin_of :: "('e, 'z) dom_scheme \<Rightarrow> 'e \<Rightarrow> (bool \<times> string option \<times> string option) option" where
  "fin_of d reply = (case get_child d reply ''fin'' NS_MAM of None \<Rightarrow> None
     | Some fin \<Rightarrow>
         let id_of = (\<lambda>n. Option.bind (get_child d fin ''set'' NS_RSM) (\<lambda>s. child_text d s n NS_RSM)) in
         Some (d_attr d fin ''complete'' = Some ''true'', id_of ''first'', id_of ''last''))"

definition page_of :: "('e, 'z) dom_scheme \<Rightarrow> 'e \<Rightarrow> bool \<times> string option" where
  "page_of d reply = (case fin_of d reply of None \<Rightarrow> (True, None) | Some (complete, _, last_id) \<Rightarrow> (complete, last_id))"

definition save_cursor ::
  "('e, 'o) client_env \<Rightarrow> string \<Rightarrow> string option \<Rightarrow> string option \<Rightarrow> bool \<Rightarrow> ('e, 'o, unit) cli" where
  "save_cursor env archive first_id last_id complete =
     on_store (set_mam_cursor (ne_account env) archive first_id last_id complete)"

definition last_seen :: "i64 \<Rightarrow> string \<Rightarrow> message_db \<Rightarrow> string option" where
  "last_seen a archive db = Option.bind (mam_cursor a archive db) mam_last_id"

definition oldest_seen :: "i64 \<Rightarrow> string \<Rightarrow> message_db \<Rightarrow> string option" where
  "oldest_seen a archive db = Option.bind (mam_cursor a archive db) mam_first_id"

subsection \<open>Paging back\<close>

definition load_page :: "('e, 'o) client_env \<Rightarrow> i64 \<Rightarrow> string option \<Rightarrow> ('e, 'o, unit) cli" where
  "load_page env conv before = (let d = ne_dom env; a = ne_account env in
     act_bind (read_store (conversation_target conv)) (\<lambda>target. case target of
       None \<Rightarrow> act_ret ()
     | Some (jid, kind) \<Rightarrow>
         if kind = ''muc_pm'' then act_ret ()
         else act_bind (case before of Some b \<Rightarrow> act_ret (Some b) | None \<Rightarrow> read_store (oldest_seen a jid)) (\<lambda>cursor.
         let is_muc = (kind = ''muc'') in
         act_bind (ask_page env (if is_muc then Some jid else None) (if is_muc then None else Some jid)
             (case cursor of Some c \<Rightarrow> Before c | None \<Rightarrow> Last_Page)) (\<lambda>reply.
         act_seq (case fin_of d reply of None \<Rightarrow> act_ret ()
                  | Some (complete, first_id, last_id) \<Rightarrow> save_cursor env jid first_id last_id complete)
           (refresh_conversations env)))))"

subsection \<open>Paging forward\<close>

text \<open>
  The loop of \<open>catch_up\<close> and \<open>catch_up_account\<close>: at most \<open>n\<close> pages after the cursor, each moving
  the stored cursor, until a page has no last id or says the archive is exhausted.
\<close>

fun page_forward ::
  "('e, 'o) client_env \<Rightarrow> string option \<Rightarrow> string option \<Rightarrow> string \<Rightarrow> nat \<Rightarrow> string \<Rightarrow> ('e, 'o, unit) cli" where
  "page_forward env to with_jid archive 0 after = act_ret ()"
| "page_forward env to with_jid archive (Suc n) after =
     act_bind (ask_page env to with_jid (After after)) (\<lambda>reply.
       case page_of (ne_dom env) reply of
         (complete, None) \<Rightarrow> act_ret ()
       | (complete, Some last_id) \<Rightarrow>
           act_seq (save_cursor env archive None (Some last_id) complete)
             (if complete then act_ret () else page_forward env to with_jid archive n last_id))"

definition CATCH_UP_PAGES :: nat where "CATCH_UP_PAGES = 100"
definition ACCOUNT_PAGES :: nat where "ACCOUNT_PAGES = 200"

definition catch_up :: "('e, 'o) client_env \<Rightarrow> i64 \<Rightarrow> ('e, 'o, unit) cli" where
  "catch_up env conv =
     act_bind (read_store (conversation_target conv)) (\<lambda>target. case target of
       None \<Rightarrow> act_ret ()
     | Some (jid, kind) \<Rightarrow>
         if kind = ''muc_pm'' then act_ret ()
         else act_bind (read_store (last_seen (ne_account env) jid)) (\<lambda>cursor. case cursor of
           None \<Rightarrow> load_page env conv None
         | Some after \<Rightarrow>
             let is_muc = (kind = ''muc'') in
             act_seq (page_forward env (if is_muc then Some jid else None) (if is_muc then None else Some jid)
                 jid CATCH_UP_PAGES after)
               (refresh_conversations env)))"

definition catch_up_account :: "('e, 'o) client_env \<Rightarrow> ('e, 'o, unit) cli" where
  "catch_up_account env =
     act_seq (act_bind (read_store (last_seen (ne_account env) ACCOUNT_ARCHIVE)) (\<lambda>cursor. case cursor of
         None \<Rightarrow> act_bind (ask_page env None None Last_Page) (\<lambda>reply.
           case page_of (ne_dom env) reply of
             (complete, None) \<Rightarrow> act_ret ()
           | (complete, Some last_id) \<Rightarrow> save_cursor env ACCOUNT_ARCHIVE None (Some last_id) complete)
       | Some after \<Rightarrow> page_forward env None None ACCOUNT_ARCHIVE ACCOUNT_PAGES after))
     (refresh_conversations env)"

end
