(* ===== verification/Archive_Laws.thy ===== *)
theory Archive_Laws
  imports Archive World_Laws
begin

text \<open>
  What archive paging promises: a bounded number of requests whatever the server answers; a
  stored sync point that never runs ahead of the messages received, also when requests fail half-way;
  and, against a server that answers, every message of the archive.  An archive is the list of its
  ids, oldest first.
\<close>

subsection \<open>Requests are bounded\<close>

definition asks_at_most :: "nat \<Rightarrow> ('e, 'o, 'a) cli \<Rightarrow> bool" where
  "asks_at_most n m \<longleftrightarrow> (\<forall>s. length (cs_requests (snd (m s))) \<le> length (cs_requests s) + n)"

lemma asks_mono: "asks_at_most m f \<Longrightarrow> m \<le> n \<Longrightarrow> asks_at_most n f"
  unfolding asks_at_most_def by (meson add_left_mono le_trans)

lemma asks_bind_sum: "asks_at_most m f \<Longrightarrow> (\<And>x. asks_at_most n (g x)) \<Longrightarrow> asks_at_most (m + n) (act_bind f g)"
  unfolding asks_at_most_def act_bind_def
  by (simp split: prod.split sum.split) (smt (verit) add.assoc add_le_mono1 le_trans le_add1 snd_conv)

lemma asks_first: "asks_at_most 0 f \<Longrightarrow> (\<And>x. asks_at_most n (g x)) \<Longrightarrow> asks_at_most n (act_bind f g)"
  using asks_bind_sum[of 0 f n g] by simp

lemma asks_then: "asks_at_most n f \<Longrightarrow> (\<And>x. asks_at_most 0 (g x)) \<Longrightarrow> asks_at_most n (act_bind f g)"
  using asks_bind_sum[of n f 0 g] by simp

lemma asks_quiet [simp]:
  "asks_at_most n (act_ret x)" "asks_at_most n (read_store h)" "asks_at_most n (on_store a)"
  "asks_at_most n (refresh_conversations env)" "asks_at_most n (fresh_id env p)"
  by (auto simp: asks_at_most_def act_simps on_store_def on_world_def refresh_conversations_def fresh_id_def
      act_bind_def split: prod.split)

lemma asks_seq [simp]: "asks_at_most n f \<Longrightarrow> asks_at_most 0 g \<Longrightarrow> asks_at_most n (act_seq f g)"
  unfolding act_seq_def by (rule asks_then)

lemma asks_page: "asks_at_most 1 (ask_page env to wj pos)"
proof -
  have "asks_at_most 1 (request env req)" for req
    using request_log[of env req] by (simp add: asks_at_most_def)
  then show ?thesis unfolding ask_page_def request_with_def by (intro asks_first) simp_all
qed

lemma asks_save [simp]: "asks_at_most n (save_cursor env archive f l c)"
  by (simp add: save_cursor_def)

lemma asks_forward: "asks_at_most n (page_forward env to wj archive n after)"
proof (induction n arbitrary: after)
  case (Suc n)
  have "asks_at_most (1 + n) (page_forward env to wj archive (Suc n) after)"
    unfolding page_forward.simps act_seq_def
    by (rule asks_bind_sum[OF asks_page])
      (auto split: prod.split option.split intro!: asks_first[of "save_cursor _ _ _ _ _"] Suc)
  then show ?case by simp
qed simp

lemma asks_page_then: "(\<And>r. asks_at_most 0 (g r)) \<Longrightarrow> asks_at_most 1 (act_bind (ask_page env to wj pos) g)"
  by (rule asks_then[OF asks_page])

lemma asks_load: "asks_at_most 1 (load_page env conv before)"
  unfolding load_page_def Let_def
  by (rule asks_first, simp)
    (auto split: option.split simp del: One_nat_def intro!: asks_page_then asks_first[of "read_store _"] asks_first[of "act_ret _"])

text \<open>
  C34: Catching up a conversation makes at most 100 requests and catching up the account at most 200,
  whatever the server answers: the paging loops end.
\<close>

theorem catch_up_requests_bounded:
  "length (cs_requests (snd (catch_up env conv s))) \<le> length (cs_requests s) + 100
   \<and> length (cs_requests (snd (catch_up_account env s))) \<le> length (cs_requests s) + 200"
proof -
  have load: "asks_at_most 100 (load_page env conv None)" by (rule asks_mono[OF asks_load]) simp
  have "asks_at_most 100 (catch_up env conv)"
    unfolding catch_up_def Let_def CATCH_UP_PAGES_def
    by (rule asks_first, simp)
      (auto split: option.split intro!: asks_first[of "read_store _"] asks_seq asks_forward load)
  moreover have "asks_at_most 200 (ask_page env None None Last_Page)" by (rule asks_mono[OF asks_page]) simp
  then have "asks_at_most 200 (catch_up_account env)"
    unfolding catch_up_account_def ACCOUNT_PAGES_def
    by (intro asks_seq asks_first) (auto split: option.split prod.split intro!: asks_then asks_forward)
  ultimately show ?thesis by (simp add: asks_at_most_def)
qed


subsection \<open>An archive behind the server\<close>

text \<open>
  The page after the \<open>i\<close>-th id, and a server that serves the archive \<open>arch\<close>: it may fail to answer,
  but an answer is the page asked for, with the messages of it handed over first.  \<open>received\<close> is the
  part of the state that tells which messages have come in, \<open>steady\<close> says the paging itself does
  not touch it.  While a request waits, the other tasks leave the sync points alone.
\<close>

definition next_page :: "string list \<Rightarrow> nat \<Rightarrow> string list" where
  "next_page arch i = take PAGE (drop (Suc i) arch)"

definition page_answer :: "('e, 'z) dom_scheme \<Rightarrow> string list \<Rightarrow> nat \<Rightarrow> 'e \<Rightarrow> bool" where
  "page_answer d arch i r \<longleftrightarrow> d_attr d r ''type'' \<noteq> Some ''error'' \<and>
     page_of d r = (length arch \<le> Suc i + PAGE,
       if next_page arch i = [] then None else Some (last (next_page arch i)))"

definition sync_state :: "('e, 'o) client \<Rightarrow> i64 list \<times> (i64 \<times> string, mam_cursor_row) table" where
  "sync_state s = (t_accounts (cs_messages s), t_mam_cursors (cs_messages s))"

definition steady :: "(('e, 'o) client \<Rightarrow> string list) \<Rightarrow> bool" where
  "steady received \<longleftrightarrow> own_view received \<and>
     (\<forall>s c. received (s\<lparr>cs_world := (cs_world s)\<lparr>w_messages := (cs_messages s)\<lparr>t_mam_cursors := c\<rparr>\<rparr>\<rparr>) = received s)"

definition serves ::
  "('e, 'o) client_env \<Rightarrow> string option \<Rightarrow> string option \<Rightarrow> string list \<Rightarrow> (('e, 'o) client \<Rightarrow> string list) \<Rightarrow> bool" where
  "serves env to wj arch received \<longleftrightarrow> sv_connected (ne_services env) \<and>
     (\<forall>i qid iid s. i < length arch \<longrightarrow>
       (case ne_exchange env (mam_query (ne_dom env) qid to wj (After (arch ! i)) iid) s of
          (w, s') \<Rightarrow> sync_state s' = sync_state s \<and> (\<exists>more. received s' = received s @ more)
            \<and> (\<forall>r. w = Answered r \<longrightarrow> d_attr (ne_dom env) r ''type'' = Some ''error''
                 \<or> page_answer (ne_dom env) arch i r \<and> received s' = received s @ next_page arch i)))"

definition answers_always ::
  "('e, 'o) client_env \<Rightarrow> string option \<Rightarrow> string option \<Rightarrow> string list \<Rightarrow> bool" where
  "answers_always env to wj arch \<longleftrightarrow>
     (\<forall>i qid iid s. i < length arch \<longrightarrow>
       (\<exists>r s'. ne_exchange env (mam_query (ne_dom env) qid to wj (After (arch ! i)) iid) s = (Answered r, s')
          \<and> d_attr (ne_dom env) r ''type'' \<noteq> Some ''error''))"

lemma spec2: "\<forall>x y. P x y \<Longrightarrow> P x y"
  by blast

lemma mam_query_id: "dom_sound d \<Longrightarrow> d_attr d (mam_query d qid to wj pos iid) ''id'' = Some iid"
  by (simp add: mam_query_def iq_stanza_def Let_def split: option.split)

text \<open>One page: what the request makes of the state.\<close>

lemma ask_page_eval:
  fixes env :: "('e, 'o) client_env"
  assumes "dom_sound (ne_dom env)" and "sv_connected (ne_services env)"
  obtains qid iid s' where
    "ask_page env to wj pos s = (case ne_exchange env (mam_query (ne_dom env) qid to wj pos iid) s' of
       (w, u) \<Rightarrow> ((case reply_of (ne_dom env) iid w of Inl e \<Rightarrow> Inl (App_Error e) | Inr r \<Rightarrow> Inr r),
                  u\<lparr>cs_requests := cs_requests s' @ [mam_query (ne_dom env) qid to wj pos iid]\<rparr>))"
    "cs_messages s' = cs_messages s" "\<And>received :: ('e, 'o) client \<Rightarrow> string list. own_view received \<Longrightarrow> received s' = received s"
proof -
  let ?q = "ne_new_id env ''mam'' (cs_tick s)" and ?i = "ne_new_id env ''mam-iq'' (Suc (cs_tick s))"
  let ?req = "mam_query (ne_dom env) ?q to wj pos ?i"
  let ?s = "s\<lparr>cs_tick := Suc (Suc (cs_tick s)), cs_world := (cs_world s)\<lparr>w_sent := cs_sent s @ [?req]\<rparr>\<rparr>"
  have view: "received ?s = received s" if "own_view received" for received :: "('e, 'o) client \<Rightarrow> string list"
  proof -
    have "received ?s = received (s\<lparr>cs_tick := Suc (Suc (cs_tick s))\<rparr>)"
      using own_view_simps(1)[OF that, of "(cs_world s)\<lparr>w_sent := cs_sent s @ [?req]\<rparr>" "s\<lparr>cs_tick := Suc (Suc (cs_tick s))\<rparr>"]
      by simp
    then show ?thesis by (simp add: own_view_simps(2)[OF that])
  qed
  show ?thesis
    by (rule that[where s' = ?s and qid = ?q and iid = ?i])
      (use assms in \<open>auto simp: ask_page_def request_with_def fresh_id_def request_def mam_query_id act_simps send_def
        on_world_def send_stanza_def await_def settle_def view split: prod.split sum.split\<close>)
qed

lemma next_page_last:
  assumes "i < length arch" and "next_page arch i \<noteq> []"
  defines "j \<equiv> min (i + PAGE) (length arch - 1)"
  shows "i < j" "j < length arch" "last (next_page arch i) = arch ! j"
    "next_page arch i = drop (Suc i) (take (Suc j) arch)" "length arch \<le> Suc i + PAGE \<longleftrightarrow> j = length arch - 1"
proof -
  have len: "Suc i < length arch" using assms by (auto simp: next_page_def)
  then show ij: "i < j" "j < length arch" by (auto simp: j_def PAGE_def)
  have take: "next_page arch i = drop (Suc i) (take (Suc j) arch)"
  proof (cases "i + PAGE \<le> length arch - 1")
    case True
    then have "Suc j = PAGE + Suc i" by (simp add: j_def)
    then show ?thesis by (simp add: next_page_def take_drop)
  next
    case False
    then show ?thesis using len by (simp add: next_page_def j_def)
  qed
  then show "next_page arch i = drop (Suc i) (take (Suc j) arch)" .
  show "last (next_page arch i) = arch ! j"
    using ij by (simp add: take last_conv_nth)
  show "length arch \<le> Suc i + PAGE \<longleftrightarrow> j = length arch - 1" using len by (auto simp: j_def)
qed

lemma next_page_empty: "next_page arch i = [] \<longleftrightarrow> length arch \<le> Suc i"
  by (simp add: next_page_def PAGE_def)

lemma save_cursor_eval:
  assumes "ne_account env \<in> set (fst (sync_state s))" and "steady received"
  obtains t where "save_cursor env archive None (Some l) c s = (Inr (), t)"
    "last_seen (ne_account env) archive (cs_messages t) = Some l"
    "fst (sync_state t) = fst (sync_state s)" "received t = received s"
  using assms by (auto simp: save_cursor_def on_store_def on_world_def on_messages_def set_mam_cursor_def
      sync_state_def steady_def last_seen_def mam_cursor_def coalesce_def store_simps split: option.split)

lemma last_seen_sync: "sync_state t = sync_state s \<Longrightarrow>
    last_seen a archive (cs_messages t) = last_seen a archive (cs_messages s)"
  by (simp add: sync_state_def last_seen_def mam_cursor_def)

text \<open>One turn of the loop: the request failed, the archive was at its end, or a page came in.\<close>

lemma page_turn:
  assumes "dom_sound (ne_dom env)" and "serves env to wj arch received" and "steady received"
    and "ne_account env \<in> set (fst (sync_state s))" and "i < length arch"
    and seen: "last_seen (ne_account env) archive (cs_messages s) = Some (arch ! i)"
  obtains (failed) e t more where "page_forward env to wj archive (Suc n) (arch ! i) s = (Inl e, t)"
      "sync_state t = sync_state s" "received t = received s @ more" "\<not> answers_always env to wj arch"
  | (exhausted) t where "page_forward env to wj archive (Suc n) (arch ! i) s = (Inr (), t)"
      "sync_state t = sync_state s" "received t = received s" "length arch = Suc i"
  | (page) t j where
      "page_forward env to wj archive (Suc n) (arch ! i) s =
         (if j = length arch - 1 then (Inr (), t) else page_forward env to wj archive n (arch ! j) t)"
      "last_seen (ne_account env) archive (cs_messages t) = Some (arch ! j)"
      "fst (sync_state t) = fst (sync_state s)"
      "received t = received s @ drop (Suc i) (take (Suc j) arch)"
      "i < j" "j < length arch" "j = length arch - 1 \<or> j = i + PAGE"
proof -
  note own = assms(3)[unfolded steady_def, THEN conjunct1]
  have connected: "sv_connected (ne_services env)" using assms(2) by (simp add: serves_def)
  obtain qid iid s' where ask: "ask_page env to wj (After (arch ! i)) s =
      (case ne_exchange env (mam_query (ne_dom env) qid to wj (After (arch ! i)) iid) s' of
       (w, u) \<Rightarrow> ((case reply_of (ne_dom env) iid w of Inl e \<Rightarrow> Inl (App_Error e) | Inr r \<Rightarrow> Inr r),
          u\<lparr>cs_requests := cs_requests s' @ [mam_query (ne_dom env) qid to wj (After (arch ! i)) iid]\<rparr>))"
    and same: "cs_messages s' = cs_messages s" "received s' = received s"
    by (rule ask_page_eval[OF assms(1) connected, of to wj "After (arch ! i)" s]) (use own in blast)
  obtain w u where ex: "ne_exchange env (mam_query (ne_dom env) qid to wj (After (arch ! i)) iid) s' = (w, u)"
    by fastforce
  let ?u = "u\<lparr>cs_requests := cs_requests s' @ [mam_query (ne_dom env) qid to wj (After (arch ! i)) iid]\<rparr>"
  from assms(2,5) ex obtain more where served: "sync_state u = sync_state s'" "received u = received s' @ more"
    "\<And>r. w = Answered r \<Longrightarrow> d_attr (ne_dom env) r ''type'' = Some ''error''
        \<or> page_answer (ne_dom env) arch i r \<and> received u = received s' @ next_page arch i"
    unfolding serves_def by (auto dest!: spec[where x = i] spec2[where x = qid and y = iid] spec[where x = s'])
  have u: "sync_state ?u = sync_state s" "received ?u = received s @ more"
    using served(1,2) same own by (simp_all add: sync_state_def own_view_simps)
  show ?thesis
  proof (cases "reply_of (ne_dom env) iid w")
    case (Inl e)
    have "\<not> answers_always env to wj arch"
    proof
      assume "answers_always env to wj arch"
      then obtain r where "w = Answered r" "d_attr (ne_dom env) r ''type'' \<noteq> Some ''error''"
        using ex assms(5) unfolding answers_always_def
        by (auto dest!: spec[where x = i] spec2[where x = qid and y = iid] spec[where x = s'])
      with Inl show False by (simp add: reply_of_def)
    qed
    then show ?thesis using failed[of "App_Error e" ?u more] u Inl ask ex by (simp add: act_simps)
  next
    case (Inr r)
    then have w: "w = Answered r" "d_attr (ne_dom env) r ''type'' \<noteq> Some ''error''"
      by (auto simp: reply_of_def split: wait.splits if_splits)
    then have pg: "page_answer (ne_dom env) arch i r" "received ?u = received s @ next_page arch i"
      using served(3)[of r] same own by (simp_all add: own_view_simps)
    show ?thesis
    proof (cases "next_page arch i = []")
      case True
      then show ?thesis using exhausted[of ?u] u(1) pg Inr ask ex assms(5)
        by (simp add: act_simps page_answer_def next_page_empty)
    next
      case False
      let ?j = "min (i + PAGE) (length arch - 1)"
      note np = next_page_last[OF assms(5) False]
      from u(1) assms(4) have known: "ne_account env \<in> set (fst (sync_state ?u))" by simp
      obtain t where t: "save_cursor env archive None (Some (arch ! ?j)) (length arch \<le> Suc i + PAGE) ?u = (Inr (), t)"
        "last_seen (ne_account env) archive (cs_messages t) = Some (arch ! ?j)"
        "fst (sync_state t) = fst (sync_state ?u)" "received t = received ?u"
        by (rule save_cursor_eval[OF known assms(3), of archive "arch ! ?j" "length arch \<le> Suc i + PAGE"]) (rule that)
      have page_of: "page_of (ne_dom env) r = (length arch \<le> Suc i + PAGE, Some (arch ! ?j))"
        using pg(1) False np(3) by (simp add: page_answer_def)
      have answer: "ask_page env to wj (After (arch ! i)) s = (Inr r, ?u)"
        by (simp add: ask ex Inr)
      have "page_forward env to wj archive (Suc n) (arch ! i) s =
         (if ?j = length arch - 1 then (Inr (), t) else page_forward env to wj archive n (arch ! ?j) t)"
        unfolding page_forward.simps act_bind_def answer act_seq_def
        using t(1) by (simp only: page_of prod.case sum.case option.case if_split_eq1 np(5) act_simps)
          (simp add: np(5) act_simps)
      moreover have "received t = received s @ drop (Suc i) (take (Suc ?j) arch)"
        using t(4) pg(2) np(4) by simp
      moreover have "?j = length arch - 1 \<or> ?j = i + PAGE" by (simp add: min_def)
      ultimately show ?thesis
        using page[of ?j t] t(2,3) u(1) np(1,2) by simp
    qed
  qed
qed

subsection \<open>Whole runs of the loop\<close>

lemma range_split:
  "p \<le> j \<Longrightarrow> j \<le> q \<Longrightarrow> drop p (take q xs) = drop p (take j xs) @ drop j (take q xs)"
proof -
  assume le: "p \<le> j" "j \<le> q"
  have "take q xs = take j xs @ drop j (take q xs)"
    using le(2) by (metis append_take_drop_id min.absorb1 take_take)
  moreover have "p \<le> length (take j xs) \<or> drop j (take q xs) = []" using le(1) by auto
  ultimately show ?thesis
    by (metis append_Nil2 append_take_drop_id drop_append diff_is_0_eq drop0)
qed

lemma forward_never_skips:
  assumes "dom_sound (ne_dom env)" and "serves env to wj arch received" and "steady received"
    and "ne_account env \<in> set (fst (sync_state s))" and "p < length arch"
    and "last_seen (ne_account env) archive (cs_messages s) = Some (arch ! p)"
  shows "\<exists>q more. p \<le> q \<and> q < length arch
    \<and> last_seen (ne_account env) archive (cs_messages (snd (page_forward env to wj archive n (arch ! p) s))) = Some (arch ! q)
    \<and> received (snd (page_forward env to wj archive n (arch ! p) s)) = received s @ more
    \<and> set (drop (Suc p) (take (Suc q) arch)) \<subseteq> set more"
  using assms(4-6)
proof (induction n arbitrary: p s)
  case 0
  then show ?case by (intro exI[of _ p] exI[of _ "[]"]) (simp add: act_simps)
next
  case (Suc n)
  show ?case
  proof (cases rule: page_turn[OF assms(1-3) Suc.prems, of n])
    case (1 e t more)
    then show ?thesis using Suc.prems(2,3) by (intro exI[of _ p] exI[of _ more]) (simp add: last_seen_sync[OF 1(2)])
  next
    case (2 t)
    then show ?thesis using Suc.prems(2,3) by (intro exI[of _ p] exI[of _ "[]"]) (simp add: last_seen_sync[OF 2(2)])
  next
    case (3 t j)
    show ?thesis
    proof (cases "j = length arch - 1")
      case True
      with 3 show ?thesis
        by (intro exI[of _ j] exI[of _ "drop (Suc p) (take (Suc j) arch)"]) simp
    next
      case False
      have "ne_account env \<in> set (fst (sync_state t))" using 3(3) Suc.prems(1) by simp
      from Suc.IH[OF this 3(6,2)] obtain q more where q: "j \<le> q" "q < length arch"
        "last_seen (ne_account env) archive (cs_messages (snd (page_forward env to wj archive n (arch ! j) t))) = Some (arch ! q)"
        "received (snd (page_forward env to wj archive n (arch ! j) t)) = received t @ more"
        "set (drop (Suc j) (take (Suc q) arch)) \<subseteq> set more" by blast
      have "drop (Suc p) (take (Suc q) arch)
          = drop (Suc p) (take (Suc j) arch) @ drop (Suc j) (take (Suc q) arch)"
        using q(1) 3(5) by (intro range_split) simp_all
      then show ?thesis using q 3(1,4,5) False
        by (intro exI[of _ q] exI[of _ "drop (Suc p) (take (Suc j) arch) @ more"]) auto
    qed
  qed
qed

lemma forward_complete:
  assumes "dom_sound (ne_dom env)" and "serves env to wj arch received" and "steady received"
    and "answers_always env to wj arch"
    and "ne_account env \<in> set (fst (sync_state s))" and "p < length arch"
    and "last_seen (ne_account env) archive (cs_messages s) = Some (arch ! p)"
    and "length arch \<le> Suc p + n * PAGE"
  shows "\<exists>t. page_forward env to wj archive n (arch ! p) s = (Inr (), t)
    \<and> last_seen (ne_account env) archive (cs_messages t) = Some (last arch)
    \<and> received t = received s @ drop (Suc p) arch"
  using assms(5-8)
proof (induction n arbitrary: p s)
  case 0
  from 0(2,4) have "p = length arch - 1" by simp
  moreover have "arch \<noteq> []" using 0(2) by auto
  ultimately show ?case using 0 by (simp add: act_simps last_conv_nth)
next
  case (Suc n)
  have nonempty: "arch \<noteq> []" using Suc.prems(2) by auto
  show ?case
  proof (cases rule: page_turn[OF assms(1-3) Suc.prems(1-3), of n])
    case (1 e t more)
    then show ?thesis using assms(4) by simp
  next
    case (2 t)
    then have "last arch = arch ! p" using nonempty by (simp add: last_conv_nth)
    with 2 show ?thesis using Suc.prems(3) by (simp add: last_seen_sync[OF 2(2)])
  next
    case (3 t j)
    show ?thesis
    proof (cases "j = length arch - 1")
      case True
      with 3 nonempty show ?thesis by (simp add: last_conv_nth)
    next
      case False
      have "ne_account env \<in> set (fst (sync_state t))" using 3(3) Suc.prems(1) by simp
      moreover have "length arch \<le> Suc j + n * PAGE" using 3(7) False Suc.prems(4) by simp
      ultimately obtain u where u: "page_forward env to wj archive n (arch ! j) t = (Inr (), u)"
        "last_seen (ne_account env) archive (cs_messages u) = Some (last arch)"
        "received u = received t @ drop (Suc j) arch"
        using Suc.IH[OF _ 3(6,2)] by blast
      have "drop (Suc p) arch = drop (Suc p) (take (Suc j) arch) @ drop (Suc j) arch"
        using range_split[of "Suc p" "Suc j" "length arch" arch] 3(5,6) by simp
      with u 3(1,4) False show ?thesis by simp
    qed
  qed
qed

lemma refresh_frame [simp]:
  "fst (refresh_conversations env s) = Inr ()" "cs_messages (snd (refresh_conversations env s)) = cs_messages s"
  by (simp_all add: refresh_conversations_def act_simps)

lemma refresh_received [simp]: "steady received \<Longrightarrow> received (snd (refresh_conversations env s)) = received s"
  by (simp add: steady_def leavesD)

lemma account_run:
  assumes "last_seen (ne_account env) ACCOUNT_ARCHIVE (cs_messages s) = Some x"
    and "page_forward env None None ACCOUNT_ARCHIVE ACCOUNT_PAGES x s = (r, t)"
  shows "snd (catch_up_account env s) = (case r of Inl _ \<Rightarrow> t | Inr _ \<Rightarrow> snd (refresh_conversations env t))"
    "fst (catch_up_account env s) = (case r of Inl e \<Rightarrow> Inl e | Inr _ \<Rightarrow> Inr ())"
  using assms by (auto simp: catch_up_account_def act_simps split: sum.split prod.split)

text \<open>
  C9: Catching up never loses messages: wherever the requests fail, the stored sync point stands at an
  archive id up to which every message after the old sync point has come in.
\<close>

theorem sync_point_never_skips:
  assumes "dom_sound (ne_dom env)" and "serves env None None arch received" and "steady received"
    and "ne_account env \<in> set (t_accounts (cs_messages s))" and "p < length arch"
    and "last_seen (ne_account env) ACCOUNT_ARCHIVE (cs_messages s) = Some (arch ! p)"
  shows "\<exists>q more. p \<le> q \<and> q < length arch
    \<and> last_seen (ne_account env) ACCOUNT_ARCHIVE (cs_messages (snd (catch_up_account env s))) = Some (arch ! q)
    \<and> received (snd (catch_up_account env s)) = received s @ more
    \<and> set (drop (Suc p) (take (Suc q) arch)) \<subseteq> set more"
proof -
  obtain r t where run: "page_forward env None None ACCOUNT_ARCHIVE ACCOUNT_PAGES (arch ! p) s = (r, t)"
    by fastforce
  have "ne_account env \<in> set (fst (sync_state s))" using assms(4) by (simp add: sync_state_def)
  from forward_never_skips[OF assms(1-3) this assms(5,6), of ACCOUNT_PAGES] show ?thesis
    using assms(3) by (simp add: run account_run[OF assms(6) run] split: sum.split)
qed

text \<open>
  C10: When the server answers, a reconnect with at most ten thousand new messages in the archive
  receives all of them, in order and each once, and the sync point is the newest.
\<close>

theorem catch_up_account_complete:
  assumes "dom_sound (ne_dom env)" and "serves env None None arch received" and "steady received"
    and "answers_always env None None arch"
    and "ne_account env \<in> set (t_accounts (cs_messages s))" and "p < length arch"
    and "last_seen (ne_account env) ACCOUNT_ARCHIVE (cs_messages s) = Some (arch ! p)"
    and "length arch \<le> Suc p + 10000"
  shows "\<exists>t. catch_up_account env s = (Inr (), t)
    \<and> last_seen (ne_account env) ACCOUNT_ARCHIVE (cs_messages t) = Some (last arch)
    \<and> received t = received s @ drop (Suc p) arch"
proof -
  have "ne_account env \<in> set (fst (sync_state s))" "length arch \<le> Suc p + ACCOUNT_PAGES * PAGE"
    using assms(5,8) by (simp_all add: sync_state_def ACCOUNT_PAGES_def PAGE_def)
  from forward_complete[OF assms(1-4) this(1) assms(6,7) this(2)] obtain t where
    t: "page_forward env None None ACCOUNT_ARCHIVE ACCOUNT_PAGES (arch ! p) s = (Inr (), t)"
    "last_seen (ne_account env) ACCOUNT_ARCHIVE (cs_messages t) = Some (last arch)"
    "received t = received s @ drop (Suc p) arch" by blast
  have "catch_up_account env s = (Inr (), snd (refresh_conversations env t))"
    using account_run[OF assms(7) t(1)] by (simp add: prod_eq_iff)
  then show ?thesis using t assms(3) by simp
qed

subsection \<open>What the sync points do not promise\<close>

text \<open>
  Paging back stores the last id of the old page as the newest message known: loading history moves
  the sync point back, and the next catch-up starts there.  And an account whose archive was empty on
  its first run has no sync point on its second, which then takes the most recent page only.
\<close>

lemma paging_back_moves_sync_point:
  assumes "conversation_target conv (cs_messages s) = Some (jid, ''chat'')"
    and "ask_page env None (Some jid) (Before b) s = (Inr r, t)"
    and "fin_of (ne_dom env) r = Some (c, f, Some l)" and "ne_account env \<in> set (t_accounts (cs_messages t))"
  shows "last_seen (ne_account env) jid (cs_messages (snd (load_page env conv (Some b) s))) = Some l"
  using assms by (auto simp: load_page_def act_simps save_cursor_def on_store_def on_world_def on_messages_def
      set_mam_cursor_def last_seen_def mam_cursor_def coalesce_def store_simps split: option.split prod.split)

lemma empty_first_run_stores_nothing:
  assumes "last_seen (ne_account env) ACCOUNT_ARCHIVE (cs_messages s) = None"
    and "ask_page env None None Last_Page s = (Inr r, t)" and "page_of (ne_dom env) r = (c, None)"
  shows "sync_state (snd (catch_up_account env s)) = sync_state t"
  using assms by (simp add: catch_up_account_def act_simps sync_state_def)

subsection \<open>A server with an archive\<close>

text \<open>It reads the id after \<open><after>\<close>, hands the page over as stored messages and answers.\<close>

definition archived_row :: "string \<Rightarrow> message_row" where
  "archived_row m = stored_row (toy_message\<lparr>new_stanza_id := Some m\<rparr>)"

definition toy_received :: "(tree, unit) client \<Rightarrow> string list" where
  "toy_received s = map (\<lambda>(_, r). the (msg_stanza_id r)) (t_messages (cs_messages s))"

definition asked_after :: "tree \<Rightarrow> string" where
  "asked_after req = t_text (t_children (t_children (t_children req ! 0) ! 1) ! 1)"

definition fin_reply :: "bool \<Rightarrow> string option \<Rightarrow> tree" where
  "fin_reply complete l = Tree ''iq'' NS_CLIENT [(''type'', ''result'')]
     [Tree ''fin'' NS_MAM [(''complete'', if complete then ''true'' else ''false'')]
       [Tree ''set'' NS_RSM [] (case l of None \<Rightarrow> [] | Some x \<Rightarrow> [Tree ''last'' NS_RSM [] [] x]) []] []] []"

definition toy_archive :: "string list \<Rightarrow> tree \<Rightarrow> (tree, unit) client \<Rightarrow> tree wait \<times> (tree, unit) client" where
  "toy_archive arch req s =
     (let i = length (takeWhile (\<lambda>x. x \<noteq> asked_after req) arch); page = next_page arch i; db = cs_messages s in
      (Answered (fin_reply (length arch \<le> Suc i + PAGE) (if page = [] then None else Some (last page))),
       s\<lparr>cs_world := (cs_world s)\<lparr>w_messages :=
         db\<lparr>t_messages := t_messages db @ map (\<lambda>m. (0, archived_row m)) page\<rparr>\<rparr>\<rparr>))"

definition toy_client_env :: "(tree \<Rightarrow> (tree, unit) client \<Rightarrow> tree wait \<times> (tree, unit) client) \<Rightarrow> (tree, unit) client_env" where
  "toy_client_env exchange = \<lparr>ne_services = toy_sv, ne_sha1 = id, ne_new_id = (\<lambda>p n. p @ show_nat n), ne_exchange = exchange,
     ne_jingle_iq = (\<lambda>_ o'. (False, o')), ne_muji_presence = (\<lambda>_. id), ne_omemo_init = id\<rparr>"

definition empty_client_db :: client_db where
  "empty_client_db = \<lparr>cdb_accounts = [(7, \<lparr>acc_jid = ''me@y'', acc_has_secret = True, acc_resource = None,
       acc_enabled = True, acc_omemo_device_id = None, acc_display_name = None\<rparr>)], cdb_account_seq = 7,
     cdb_roster = [], cdb_presence = [], cdb_settings = [], cdb_calls = []\<rparr>"

definition toy_client :: "message_db \<Rightarrow> (tree, unit) client" where
  "toy_client db = \<lparr>cs_world = toy_world db, cs_db = empty_client_db, cs_avatar_hashes = (\<lambda>_. None), cs_ice = None,
     cs_tick = 0, cs_requests = []\<rparr>"

lemma toy_env_parts [simp]:
  "ne_dom (toy_client_env ex) = tree_dom" "ne_account (toy_client_env ex) = 7" "ne_bare (toy_client_env ex) = ''me@y''"
  "ne_exchange (toy_client_env ex) = ex" "sv_connected (ne_services (toy_client_env ex))"
  "cs_messages (toy_client db) = db" "cs_db (toy_client db) = empty_client_db"
  by (simp_all add: toy_client_env_def toy_sv_def toy_client_def toy_world_def)

lemma asked_after_query: "asked_after (mam_query tree_dom qid None None (After x) iid) = x"
  by (simp add: asked_after_def mam_query_def iq_stanza_def rsm_set_def mam_form_def form_field_def with_children_def
      text_element_def tree_dom_def Let_def)

lemma takeWhile_index: "distinct arch \<Longrightarrow> i < length arch \<Longrightarrow> length (takeWhile (\<lambda>x. x \<noteq> arch ! i) arch) = i"
proof (induction arch arbitrary: i)
  case (Cons a arch)
  then show ?case by (cases i) auto
qed simp

lemma toy_archive_eval:
  assumes "distinct arch" and "i < length arch"
  shows "toy_archive arch (mam_query tree_dom qid None None (After (arch ! i)) iid) s =
     (Answered (fin_reply (length arch \<le> Suc i + PAGE) (if next_page arch i = [] then None else Some (last (next_page arch i)))),
       s\<lparr>cs_world := (cs_world s)\<lparr>w_messages := (cs_messages s)\<lparr>t_messages :=
         t_messages (cs_messages s) @ map (\<lambda>m. (0, archived_row m)) (next_page arch i)\<rparr>\<rparr>\<rparr>)"
  using assms by (simp add: toy_archive_def asked_after_query takeWhile_index Let_def)

lemma toy_page_of:
  "page_of tree_dom (fin_reply c l) = (c, l)" "d_attr tree_dom (fin_reply c l) ''type'' = Some ''result''"
  by (cases l; simp add: page_of_def fin_of_def fin_reply_def get_child_def child_text_def d_is_def tree_dom_def Let_def)+

lemma toy_archive_serves:
  assumes "distinct arch"
  shows "serves (toy_client_env (toy_archive arch)) None None arch toy_received"
    "answers_always (toy_client_env (toy_archive arch)) None None arch"
  using assms by (auto simp: serves_def answers_always_def toy_archive_eval toy_page_of page_answer_def sync_state_def
      toy_received_def archived_row_def comp_def)

lemma toy_received_steady: "steady toy_received"
  by (simp add: steady_def own_view_def toy_received_def)

definition toy_synced :: message_db where
  "toy_synced = snd (set_mam_cursor 7 ACCOUNT_ARCHIVE None (Some (show_nat 3)) False (empty_message_db [7]))"

lemma toy_synced_parts: "t_accounts toy_synced = [7]" "last_seen 7 ACCOUNT_ARCHIVE toy_synced = Some (show_nat 3)"
  "t_messages toy_synced = []"
  by (simp_all add: toy_synced_def set_mam_cursor_def empty_message_db_def last_seen_def mam_cursor_def tbl_upsert_def)

abbreviation toy_ids :: "string list" where "toy_ids \<equiv> map show_nat [0..<120]"

lemma toy_ids: "distinct toy_ids" "3 < length toy_ids" "toy_ids ! 3 = show_nat 3" "length toy_ids = 120"
  by (simp_all add: distinct_map inj_on_def show_nat_inj)

text \<open>An archive of 120 messages, of which the account knows the fourth: three pages.\<close>

theorem catch_up_account_complete_witness:
  "\<exists>t. catch_up_account (toy_client_env (toy_archive toy_ids)) (toy_client toy_synced) = (Inr (), t)
    \<and> last_seen 7 ACCOUNT_ARCHIVE (cs_messages t) = Some (last toy_ids)
    \<and> toy_received t = drop 4 toy_ids"
  using catch_up_account_complete[of "toy_client_env (toy_archive toy_ids)" toy_ids toy_received "toy_client toy_synced" 3]
    toy_archive_serves[OF toy_ids(1)] toy_received_steady toy_synced_parts toy_ids
  by (simp add: toy_received_def)

theorem sync_point_never_skips_witness:
  "\<exists>q more. 3 \<le> q \<and> q < length toy_ids
    \<and> last_seen 7 ACCOUNT_ARCHIVE (cs_messages (snd (catch_up_account (toy_client_env (toy_archive toy_ids)) (toy_client toy_synced))))
        = Some (toy_ids ! q)
    \<and> toy_received (snd (catch_up_account (toy_client_env (toy_archive toy_ids)) (toy_client toy_synced)))
        = toy_received (toy_client toy_synced) @ more
    \<and> set (drop (Suc 3) (take (Suc q) toy_ids)) \<subseteq> set more"
  using sync_point_never_skips[of "toy_client_env (toy_archive toy_ids)" toy_ids toy_received "toy_client toy_synced" 3]
    toy_archive_serves[OF toy_ids(1)] toy_received_steady toy_synced_parts toy_ids by simp

end
