(* ===== verification/Rooms.thy ===== *)
theory Rooms
  imports Profile Archive
begin

text \<open>
  Rooms (\<open>crates/mxc-proto/src/xeps/muc.rs\<close>) and their bookmarks (\<open>xeps/bookmarks.rs\<close>): joining and
  leaving, the features that make a room fit for encryption, the member lists that say whom to encrypt
  for, and the room's profile.
\<close>

definition NS_MUC :: string where "NS_MUC = ''http://jabber.org/protocol/muc''"
definition NS_MUC_ADMIN :: string where "NS_MUC_ADMIN = ''http://jabber.org/protocol/muc#admin''"
definition NS_BOOKMARKS :: string where "NS_BOOKMARKS = ''urn:xmpp:bookmarks:1''"

subsection \<open>The profile of a room\<close>

definition disco_info_iq :: "('e, 'z) dom_scheme \<Rightarrow> string \<Rightarrow> string \<Rightarrow> 'e" where
  "disco_info_iq d room i = iq_stanza d ''get'' (Some room) i (d_bare d ''query'' NS_INFO)"

definition ask_info :: "('e, 'o) client_env \<Rightarrow> string \<Rightarrow> ('e, 'o, 'e option) cli" where
  "ask_info env room = act_bind (ok (request_with env ''disco-info'' (disco_info_iq (ne_dom env) room)))
     (\<lambda>reply. act_ret (Option.bind reply (\<lambda>r. get_child (ne_dom env) r ''query'' NS_INFO)))"

definition form_value :: "('e, 'z) dom_scheme \<Rightarrow> 'e \<Rightarrow> string \<Rightarrow> string option" where
  "form_value d form var =
     (case find (\<lambda>f. d_name d f = ''field'' \<and> d_attr d f ''var'' = Some var) (d_children d form) of
        None \<Rightarrow> None
      | Some f \<Rightarrow> let v = str_trim (join_with [CHR 0x0A] (map (d_text d) (named d ''value'' f))) in
          if v = [] then None else Some v)"

definition room_name_field :: "('e, 'z) dom_scheme \<Rightarrow> 'e \<Rightarrow> (string \<times> string) list" where
  "room_name_field d query =
     (case Option.bind (find (\<lambda>c. d_name d c = ''identity'' \<and> d_attr d c ''category'' = Some ''conference'') (d_children d query))
         (\<lambda>i. d_attr d i ''name'') of
        None \<Rightarrow> []
      | Some name \<Rightarrow> if str_trim name = [] then [] else [(''Name'', str_trim name)])"

definition room_form_fields :: "('e, 'z) dom_scheme \<Rightarrow> 'e \<Rightarrow> (string \<times> string) list" where
  "room_form_fields d query =
     (case find (\<lambda>c. d_name d c = ''x'' \<and> d_ns d c = NS_XDATA) (d_children d query) of
        None \<Rightarrow> []
      | Some form \<Rightarrow> List.map_filter (\<lambda>(label, var). map_option (\<lambda>v. (label, v)) (form_value d form var))
          [(''Description'', ''muc#roominfo_description''), (''Language'', ''muc#roominfo_lang''),
           (''Occupants'', ''muc#roominfo_occupants'')])"

definition room_profile ::
  "('e, 'o) client_env \<Rightarrow> string \<Rightarrow> ('e, 'o, bytes option \<times> (string \<times> string) list) cli" where
  "room_profile env room = (let d = ne_dom env in
     act_bind (ok (fetch_photo env room)) (\<lambda>photo.
     act_bind (ask_info env room) (\<lambda>query.
       act_ret (flat photo, case query of None \<Rightarrow> []
         | Some q \<Rightarrow> room_name_field d q @ room_form_fields d q))))"

subsection \<open>Joining and leaving\<close>

definition join_presence ::
  "('e, 'z) dom_scheme \<Rightarrow> (bytes \<Rightarrow> bytes) \<Rightarrow> base64 \<Rightarrow> string \<Rightarrow> string \<Rightarrow> string option \<Rightarrow> 'e" where
  "join_presence d sha1 b room nick password =
     (let x = d_with_child d (d_with_attr d ''maxstanzas'' ''0'' (d_bare d ''history'' NS_MUC)) (d_bare d ''x'' NS_MUC);
          x = (case password of None \<Rightarrow> x | Some pw \<Rightarrow> d_with_child d (text_element d ''password'' NS_MUC pw) x) in
      with_children d [x, caps_element d sha1 b]
        (d_with_attr d ''to'' (room @ ''/'' @ nick) (d_bare d ''presence'' NS_CLIENT)))"

definition join :: "('e, 'o) client_env \<Rightarrow> string \<Rightarrow> string \<Rightarrow> string option \<Rightarrow> ('e, 'o, unit) cli" where
  "join env room nick password = (let a = ne_account env;
       password = (case password of Some pw \<Rightarrow> if pw = [] then None else Some pw | None \<Rightarrow> None) in
     act_bind (on_store (upsert_muc a room None (Some nick) True)) (\<lambda>_.
     act_seq (case password of None \<Rightarrow> act_ret () | Some pw \<Rightarrow> write_store (set_muc_password a room pw))
    (act_seq (send env (join_presence (ne_dom env) (ne_sha1 env) (ne_b64 env) room nick password))
     (refresh_conversations env))))"

definition leave :: "('e, 'o) client_env \<Rightarrow> string \<Rightarrow> string \<Rightarrow> ('e, 'o, unit) cli" where
  "leave env room nick = (let d = ne_dom env in
     send env (d_with_attr d ''type'' ''unavailable''
       (d_with_attr d ''to'' (room @ ''/'' @ nick) (d_bare d ''presence'' NS_CLIENT))))"

subsection \<open>Whom to encrypt for\<close>

definition room_features :: "('e, 'z) dom_scheme \<Rightarrow> 'e option \<Rightarrow> bool \<times> bool" where
  "room_features d query = (case query of None \<Rightarrow> (False, False)
     | Some q \<Rightarrow> let has = (\<lambda>v. \<exists>f\<in>set (named d ''feature'' q). d_attr d f ''var'' = Some v) in
         (has ''muc_membersonly'', has ''muc_nonanonymous''))"

definition affiliation_iq :: "('e, 'z) dom_scheme \<Rightarrow> string \<Rightarrow> string \<Rightarrow> string \<Rightarrow> 'e" where
  "affiliation_iq d room aff i = iq_stanza d ''get'' (Some room) i
     (d_with_child d (d_with_attr d ''affiliation'' aff (d_bare d ''item'' NS_MUC_ADMIN)) (d_bare d ''query'' NS_MUC_ADMIN))"

definition store_member :: "('e, 'o) client_env \<Rightarrow> i64 \<Rightarrow> string \<Rightarrow> 'e \<Rightarrow> ('e, 'o, unit) cli" where
  "store_member env conv aff item = (let d = ne_dom env in
     case d_attr d item ''jid'' of None \<Rightarrow> act_ret ()
     | Some jid \<Rightarrow> let bare = to_bare jid in
         if eq_ignore_ascii_case bare (ne_bare env) then act_ret ()
         else best_effort (on_store (upsert_muc_occupant conv bare (Some bare)
           (Some (case d_attr d item ''affiliation'' of None \<Rightarrow> aff | Some a \<Rightarrow> a)))))"

definition store_members :: "('e, 'o) client_env \<Rightarrow> string \<Rightarrow> i64 \<Rightarrow> string \<Rightarrow> ('e, 'o, unit) cli" where
  "store_members env room conv aff = (let d = ne_dom env in
     act_bind (ok (request_with env ''muc-aff'' (affiliation_iq d room aff))) (\<lambda>reply.
       case Option.bind reply (\<lambda>r. get_child d r ''query'' NS_MUC_ADMIN) of
         None \<Rightarrow> act_ret ()
       | Some q \<Rightarrow> act_iter (store_member env conv aff) (named d ''item'' q)))"

definition configure_room :: "('e, 'o) client_env \<Rightarrow> string \<Rightarrow> ('e, 'o, unit) cli" where
  "configure_room env room = (let a = ne_account env in
     act_bind (on_store (conversation_id a room ''muc'')) (\<lambda>conv.
     act_bind (ask_info env room) (\<lambda>query.
       case room_features (ne_dom env) query of (members_only, non_anonymous) \<Rightarrow>
         act_seq (write_store (set_muc_features conv members_only non_anonymous))
        (act_seq (notify (Muc_Privacy a room (members_only \<and> non_anonymous)))
         (act_when (members_only \<and> non_anonymous)
           (act_iter (store_members env room conv) [''owner'', ''admin'', ''member'']))))))"

subsection \<open>Bookmarks\<close>

definition store_bookmark :: "('e, 'o) client_env \<Rightarrow> string option \<times> 'e \<Rightarrow> ('e, 'o, unit) cli" where
  "store_bookmark env item = (let d = ne_dom env in case item of
       (None, _) \<Rightarrow> act_ret ()
     | (Some room, payload) \<Rightarrow>
         if d_name d payload \<noteq> ''conference'' then act_ret ()
         else act_bind (on_store (upsert_muc (ne_account env) room (d_attr d payload ''name'')
             (child_text d payload ''nick'' NS_BOOKMARKS)
             (d_attr d payload ''autojoin'' \<in> {Some ''true'', Some ''1''}))) (\<lambda>_. act_ret ()))"

definition fetch_bookmarks :: "('e, 'o) client_env \<Rightarrow> ('e, 'o, unit) cli" where
  "fetch_bookmarks env = act_bind (ask_items env None NS_BOOKMARKS None) (act_iter (store_bookmark env))"

definition bookmark_element ::
  "('e, 'z) dom_scheme \<Rightarrow> string option \<Rightarrow> string option \<Rightarrow> bool \<Rightarrow> 'e" where
  "bookmark_element d name nick autojoin =
     (let conf = d_with_attr d ''autojoin'' (if autojoin then ''true'' else ''false'') (d_bare d ''conference'' NS_BOOKMARKS);
          conf = (case name of None \<Rightarrow> conf | Some n \<Rightarrow> d_with_attr d ''name'' n conf) in
      case nick of None \<Rightarrow> conf | Some n \<Rightarrow> d_with_child d (text_element d ''nick'' NS_BOOKMARKS n) conf)"

definition save_bookmark ::
  "('e, 'o) client_env \<Rightarrow> string \<Rightarrow> string option \<Rightarrow> string option \<Rightarrow> bool \<Rightarrow> ('e, 'o, unit) cli" where
  "save_bookmark env room name nick autojoin = (let d = ne_dom env in
     publish_item env NS_BOOKMARKS (Some room) (bookmark_element d name nick autojoin)
       (Some (pep_publish_options d ''whitelist'')))"

definition remove_bookmark :: "('e, 'o) client_env \<Rightarrow> string \<Rightarrow> ('e, 'o, unit) cli" where
  "remove_bookmark env room = retract_item env NS_BOOKMARKS room"

end
