(* ===== verification/Upload.thy ===== *)
theory Upload
  imports Client
begin

text \<open>
  HTTP file upload (\<open>crates/mxc-proto/src/xeps/http_upload.rs\<close>): finding the server's upload service,
  asking for a slot, sending the bytes, encrypted or not, and fetching them again.  An encrypted file
  is known by an \<open>aesgcm\<close> URL whose fragment holds the nonce and the key.

  AES-256-GCM, the random bytes, the hex decoder's messages and the two HTTP calls are arguments of the
  model; the log \<open>ul_http\<close> is what went over HTTP.  \<open>Nonce::from_slice\<close> of the cipher's 12-byte nonce
  panics on any other length.
\<close>

definition NS_UPLOAD :: string where "NS_UPLOAD = ''urn:xmpp:http:upload:0''"

datatype http_call = Put string "(string \<times> string) list" bytes | Get string

record slot =
  slot_put :: string
  slot_get :: string
  slot_headers :: "(string \<times> string) list"

record http_response =
  http_success :: bool
  http_status :: string
  http_bytes :: "string + bytes"

record ('e, 'o) uploader =
  ul_client :: "('e, 'o) client"
  ul_services :: "string \<Rightarrow> string option"
  ul_http :: "http_call list"
  ul_draws :: nat

record ('e, 'o) upload_env =
  up_net :: "('e, 'o) client_env"
  up_random :: "nat \<Rightarrow> bytes"
  up_seal :: "bytes \<Rightarrow> bytes \<Rightarrow> bytes \<Rightarrow> string + bytes"
  up_open :: "bytes \<Rightarrow> bytes \<Rightarrow> bytes \<Rightarrow> string + bytes"
  up_put :: "string \<Rightarrow> (string \<times> string) list \<Rightarrow> bytes \<Rightarrow> string + http_response"
  up_get :: "string \<Rightarrow> string + http_response"
  up_hex_error :: "string \<Rightarrow> string"

type_synonym ('e, 'o, 'a) upl = "(('e, 'o) uploader, app_error, 'a) act"

definition on_client :: "('e, 'o, 'a) cli \<Rightarrow> ('e, 'o, 'a) upl" where
  "on_client m s = (case m (ul_client s) of (r, c) \<Rightarrow> (r, s\<lparr>ul_client := c\<rparr>))"

definition expect :: "string \<Rightarrow> 'a option \<Rightarrow> ('s, app_error, 'a) act" where
  "expect e x = settle (ok_or e x)"

subsection \<open>The upload service\<close>

definition domain_of :: "string \<Rightarrow> string" where
  "domain_of bare = (case split_on (CHR ''@'') bare of _ # host # _ \<Rightarrow> host | _ \<Rightarrow> bare)"

definition service_candidates :: "('e, 'z) dom_scheme \<Rightarrow> 'e \<Rightarrow> string list" where
  "service_candidates d reply = (case get_child d reply ''query'' NS_ITEMS of None \<Rightarrow> []
     | Some q \<Rightarrow> List.map_filter (\<lambda>item. d_attr d item ''jid'') (named d ''item'' q))"

definition offers_upload :: "('e, 'z) dom_scheme \<Rightarrow> 'e \<Rightarrow> bool" where
  "offers_upload d info = (case get_child d info ''query'' NS_INFO of None \<Rightarrow> False
     | Some q \<Rightarrow> \<exists>f\<in>set (named d ''feature'' q). d_attr d f ''var'' = Some NS_UPLOAD)"

fun probe_services :: "('e, 'o) upload_env \<Rightarrow> string \<Rightarrow> string list \<Rightarrow> ('e, 'o, string) upl" where
  "probe_services env host [] =
     act_throw (App_Error (''no HTTP upload service (urn:xmpp:http:upload:0) found on '' @ host))"
| "probe_services env host (jid # jids) = (let d = ne_dom (up_net env) in
     act_bind (on_client (ok (request_with (up_net env) ''disco-info''
         (\<lambda>i. iq_stanza d ''get'' (Some jid) i (d_bare d ''query'' NS_INFO))))) (\<lambda>info. case info of
       None \<Rightarrow> probe_services env host jids
     | Some reply \<Rightarrow>
         if offers_upload d reply
         then act_bind (act_modify (\<lambda>s. s\<lparr>ul_services := (ul_services s)(host \<mapsto> jid)\<rparr>)) (\<lambda>_. act_ret jid)
         else probe_services env host jids))"

definition discover_service :: "('e, 'o) upload_env \<Rightarrow> string \<Rightarrow> ('e, 'o, string) upl" where
  "discover_service env host = act_bind (act_read (\<lambda>s. ul_services s host)) (\<lambda>found. case found of
     Some service \<Rightarrow> act_ret service
   | None \<Rightarrow> let d = ne_dom (up_net env) in
       act_bind (on_client (request_with (up_net env) ''disco-items''
           (\<lambda>i. iq_stanza d ''get'' (Some host) i (d_bare d ''query'' NS_ITEMS))))
         (\<lambda>reply. probe_services env host (service_candidates d reply)))"

subsection \<open>Slots\<close>

definition slot_request :: "('e, 'z) dom_scheme \<Rightarrow> string \<Rightarrow> nat \<Rightarrow> string \<Rightarrow> 'e" where
  "slot_request d filename len content_type =
     d_with_attr d ''content-type'' content_type (d_with_attr d ''size'' (show_nat len)
       (d_with_attr d ''filename'' filename (d_bare d ''request'' NS_UPLOAD)))"

definition put_headers :: "('e, 'z) dom_scheme \<Rightarrow> 'e \<Rightarrow> (string \<times> string) list" where
  "put_headers d put = List.map_filter (\<lambda>h. map_option (\<lambda>n. (n, d_text d h)) (d_attr d h ''name'')) (named d ''header'' put)"

definition request_slot ::
  "('e, 'o) upload_env \<Rightarrow> string \<Rightarrow> string \<Rightarrow> nat \<Rightarrow> string \<Rightarrow> ('e, 'o, slot) upl" where
  "request_slot env service filename len content_type = (let d = ne_dom (up_net env) in
     act_bind (on_client (request_with (up_net env) ''slot''
         (\<lambda>i. iq_stanza d ''get'' (Some service) i (slot_request d filename len content_type)))) (\<lambda>reply.
     act_bind (expect ''upload slot response missing <slot>'' (get_child d reply ''slot'' NS_UPLOAD)) (\<lambda>slot.
     act_bind (expect ''no <put>'' (get_child d slot ''put'' NS_UPLOAD)) (\<lambda>put.
     act_bind (expect ''no <get>'' (get_child d slot ''get'' NS_UPLOAD)) (\<lambda>get.
     act_bind (expect ''no put url'' (d_attr d put ''url'')) (\<lambda>put_url.
     act_bind (expect ''no get url'' (d_attr d get ''url'')) (\<lambda>get_url.
       act_ret \<lparr>slot_put = put_url, slot_get = get_url, slot_headers = put_headers d put\<rparr>)))))))"

subsection \<open>The cipher and the URL\<close>

definition aesgcm_encrypt :: "('e, 'o) upload_env \<Rightarrow> bytes \<Rightarrow> ('e, 'o, bytes \<times> bytes) upl" where
  "aesgcm_encrypt env plaintext = act_bind (act_read (\<lambda>s. up_random env (ul_draws s))) (\<lambda>combo.
     act_bind (act_modify (\<lambda>s. s\<lparr>ul_draws := ul_draws s + 1\<rparr>)) (\<lambda>_.
       case up_seal env (drop 12 combo) (take 12 combo) plaintext of
         Inl e \<Rightarrow> act_throw (App_Error (''aesgcm encrypt: '' @ e))
       | Inr ct \<Rightarrow> act_ret (combo, ct)))"

definition aesgcm_decrypt :: "('e, 'o) upload_env \<Rightarrow> bytes \<Rightarrow> bytes \<Rightarrow> ('e, 'o, bytes) upl" where
  "aesgcm_decrypt env combo ct =
     (if length combo \<noteq> 44 \<and> length combo \<noteq> 48
      then act_throw (App_Error (''unexpected aesgcm key length '' @ show_nat (length combo)))
      else let iv_len = (if length combo = 44 then 12 else 16); iv = take iv_len combo; key = drop iv_len combo in
        if length iv \<noteq> 12 then act_throw Panicked
        else (case up_open env key iv ct of
            Inl e \<Rightarrow> act_throw (App_Error (''aesgcm decrypt (bad key or corrupt file): '' @ e))
          | Inr pt \<Rightarrow> act_ret pt))"

definition to_aesgcm_url :: "string \<Rightarrow> bytes \<Rightarrow> string" where
  "to_aesgcm_url get_url combo =
     ''aesgcm'' @ (case strip_prefix get_url ''https'' of None \<Rightarrow> get_url | Some body \<Rightarrow> body) @ ''#'' @ hex_encode combo"

definition is_aesgcm_url :: "string \<Rightarrow> bool" where
  "is_aesgcm_url s \<longleftrightarrow> starts_with s ''aesgcm://'' \<and> CHR ''#'' \<in> set s"

fun hex_pairs :: "string \<Rightarrow> bytes option" where
  "hex_pairs [] = Some []"
| "hex_pairs [c] = None"
| "hex_pairs (a # b # r) = (case (hex_digit_val a, hex_digit_val b, hex_pairs r) of
     (Some x, Some y, Some bs) \<Rightarrow> Some (word_of_nat (16 * x + y) # bs) | _ \<Rightarrow> None)"

subsection \<open>Sending and fetching\<close>

definition put_file :: "('e, 'o) upload_env \<Rightarrow> slot \<Rightarrow> string \<Rightarrow> bytes \<Rightarrow> ('e, 'o, unit) upl" where
  "put_file env slot content_type body =
     (let headers = (''Content-Type'', content_type) # slot_headers slot in
      act_bind (act_modify (\<lambda>s. s\<lparr>ul_http := ul_http s @ [Put (slot_put slot) headers body]\<rparr>)) (\<lambda>_.
      act_bind (settle (up_put env (slot_put slot) headers body)) (\<lambda>resp.
        if http_success resp then act_ret ()
        else act_throw (App_Error (''upload PUT failed: HTTP '' @ http_status resp)))))"

definition upload_encrypted ::
  "('e, 'o) upload_env \<Rightarrow> bytes \<Rightarrow> string \<Rightarrow> string \<Rightarrow> ('e, 'o, string) upl" where
  "upload_encrypted env bytes filename content_type =
     act_bind (discover_service env (domain_of (ne_bare (up_net env)))) (\<lambda>service.
     act_bind (aesgcm_encrypt env bytes) (\<lambda>(combo, ct).
     act_bind (request_slot env service filename (length ct) content_type) (\<lambda>slot.
     act_bind (put_file env slot content_type ct) (\<lambda>_.
       act_ret (to_aesgcm_url (slot_get slot) combo)))))"

definition upload_plain ::
  "('e, 'o) upload_env \<Rightarrow> bytes \<Rightarrow> string \<Rightarrow> string \<Rightarrow> ('e, 'o, string) upl" where
  "upload_plain env bytes filename content_type =
     act_bind (discover_service env (domain_of (ne_bare (up_net env)))) (\<lambda>service.
     act_bind (request_slot env service filename (length bytes) content_type) (\<lambda>slot.
     act_bind (put_file env slot content_type bytes) (\<lambda>_.
       act_ret (slot_get slot))))"

definition get_file :: "('e, 'o) upload_env \<Rightarrow> string \<Rightarrow> ('e, 'o, bytes) upl" where
  "get_file env url =
     act_bind (act_modify (\<lambda>s. s\<lparr>ul_http := ul_http s @ [Get url]\<rparr>)) (\<lambda>_.
     act_bind (settle (up_get env url)) (\<lambda>resp.
       if http_success resp then settle (http_bytes resp)
       else act_throw (App_Error (''download GET failed: HTTP '' @ http_status resp))))"

definition download_decrypt :: "('e, 'o) upload_env \<Rightarrow> string \<Rightarrow> ('e, 'o, bytes) upl" where
  "download_decrypt env aesgcm_url =
     act_bind (expect ''aesgcm url has no key fragment'' (split_once (CHR ''#'') aesgcm_url)) (\<lambda>(url, frag).
       let https = ''https'' @ (case strip_prefix url ''aesgcm'' of None \<Rightarrow> url | Some r \<Rightarrow> r) in
       case hex_pairs frag of
         None \<Rightarrow> act_throw (App_Error (''bad key fragment: '' @ up_hex_error env frag))
       | Some combo \<Rightarrow> act_bind (get_file env https) (aesgcm_decrypt env combo))"

definition download_plain :: "('e, 'o) upload_env \<Rightarrow> string \<Rightarrow> ('e, 'o, bytes) upl" where
  "download_plain env url = get_file env url"

definition download_any :: "('e, 'o) upload_env \<Rightarrow> string \<Rightarrow> ('e, 'o, bytes) upl" where
  "download_any env url = (if is_aesgcm_url url then download_decrypt env url else download_plain env url)"

subsection \<open>Hexadecimal\<close>

lemma hex_pairs_encode: "hex_pairs (hex_encode bs) = Some bs"
proof (induction bs)
  case (Cons b bs)
  have "unat b div 16 < 16" using unat_u8_bound[of b] by linarith
  moreover have "word_of_nat (16 * (unat b div 16) + unat b mod 16) = b" by simp
  ultimately show ?case using Cons by (simp add: hex_encode_def hex_byte_def)
qed (simp add: hex_encode_def)

text \<open>The fragment of a link can be read back into nonce and key.\<close>

interpretation fragment: codec hex_encode hex_pairs "\<lambda>_. True"
  by unfold_locales (simp add: hex_pairs_encode)

subsection \<open>What is promised\<close>

text \<open>AES-GCM opens what it sealed.\<close>

definition gcm_sound :: "('e, 'o) upload_env \<Rightarrow> bool" where
  "gcm_sound env \<longleftrightarrow> (\<forall>k iv pt ct. up_seal env k iv pt = Inr ct \<longrightarrow> up_open env k iv ct = Inr pt)"

lemma leaves_http [simp]:
  "leaves ul_http (on_client m)" "leaves ul_http (expect e x)" "leaves ul_http (act_modify (\<lambda>s. s\<lparr>ul_services := f s\<rparr>))"
  "leaves ul_http (act_modify (\<lambda>s. s\<lparr>ul_draws := g s\<rparr>))"
  by (auto simp: leaves_def on_client_def expect_def settle_def act_simps split: prod.split sum.split)

lemma leaves_http_services [simp]: "leaves ul_http (probe_services env host jids)"
  by (induction jids) (auto simp: Let_def split: option.split)

lemma leaves_http_parts [simp]:
  "leaves ul_http (discover_service env host)" "leaves ul_http (request_slot env service name len ct)"
  "leaves ul_http (aesgcm_encrypt env bs)"
  by (auto simp: discover_service_def request_slot_def aesgcm_encrypt_def Let_def leaves_def[of _ "act_throw e" for e]
      act_simps split: option.split sum.split)

lemma put_file_run: "put_file env slot ct body s = (Inr x, t) \<Longrightarrow>
    ul_http t = ul_http s @ [Put (slot_put slot) ((''Content-Type'', ct) # slot_headers slot) body]"
  by (auto simp: put_file_def act_simps settle_def Let_def split: sum.splits if_splits)

lemma aesgcm_encrypt_run: "aesgcm_encrypt env bs s = (Inr (combo, ct), t) \<Longrightarrow>
    combo = up_random env (ul_draws s) \<and> up_seal env (drop 12 combo) (take 12 combo) bs = Inr ct"
  by (auto simp: aesgcm_encrypt_def act_simps split: sum.splits)

lemma upload_encrypted_run:
  assumes "upload_encrypted env bs name mime s = (Inr url, t)"
  obtains slot :: slot and n ct where
    "url = to_aesgcm_url (slot_get slot) (up_random env n)"
    "up_seal env (drop 12 (up_random env n)) (take 12 (up_random env n)) bs = Inr ct"
    "ul_http t = ul_http s @ [Put (slot_put slot) ((''Content-Type'', mime) # slot_headers slot) ct]"
proof -
  obtain service s1 where 1: "discover_service env (domain_of (ne_bare (up_net env))) s = (Inr service, s1)"
    and r1: "(act_bind (aesgcm_encrypt env bs) (\<lambda>(combo, ct).
       act_bind (request_slot env service name (length ct) mime) (\<lambda>slot.
       act_bind (put_file env slot mime ct) (\<lambda>_. act_ret (to_aesgcm_url (slot_get slot) combo))))) s1 = (Inr url, t)"
    using assms unfolding upload_encrypted_def by (rule act_bind_InrE)
  obtain cc s2 where 2: "aesgcm_encrypt env bs s1 = (Inr cc, s2)"
    and r2: "(case cc of (combo, ct) \<Rightarrow> act_bind (request_slot env service name (length ct) mime) (\<lambda>slot.
       act_bind (put_file env slot mime ct) (\<lambda>_. act_ret (to_aesgcm_url (slot_get slot) combo)))) s2 = (Inr url, t)"
    using r1 by (rule act_bind_InrE)
  obtain combo ct where cc: "cc = (combo, ct)" by fastforce
  obtain slot s3 where 3: "request_slot env service name (length ct) mime s2 = (Inr slot, s3)"
    and r3: "act_bind (put_file env slot mime ct) (\<lambda>_. act_ret (to_aesgcm_url (slot_get slot) combo)) s3 = (Inr url, t)"
    using r2 unfolding cc prod.case by (rule act_bind_InrE)
  obtain x s4 where 4: "put_file env slot mime ct s3 = (Inr x, s4)" and "url = to_aesgcm_url (slot_get slot) combo" "t = s4"
    using r3 by (rule act_bind_InrE) (simp add: act_simps)
  moreover have "ul_http s3 = ul_http s"
    using leavesD[OF leaves_http_parts(1), of env "domain_of (ne_bare (up_net env))" s]
      leavesD[OF leaves_http_parts(2), of env service name "length ct" mime s2]
      leavesD[OF leaves_http_parts(3), of env bs s1] by (simp add: 1 2 3)
  ultimately show ?thesis
    using that[of slot "ul_draws s1" ct] aesgcm_encrypt_run[OF 2[unfolded cc]] put_file_run[OF 4] by auto
qed

lemma hash_not_in_hex: "CHR ''#'' \<notin> set (hex_encode bs)"
  using hex_encode_lower[of bs] by (auto simp: list_all_iff lower_hex_def byte_of_def in_range_def)

text \<open>
  C16: A file uploaded encrypted is what any client gets from the link: whoever fetches it, and whatever
  else happened in between, decrypts the bytes that were uploaded, provided the server still gives out
  what was put, at an \<open>https\<close> address without a fragment.
\<close>

theorem upload_download_roundtrip:
  assumes "gcm_sound env" and "\<And>n. length (up_random env n) = 44"
    and "upload_encrypted env bs name mime s = (Inr url, t)"
    and "ul_http t = ul_http s @ [Put put headers body]"
    and "url = ''aesgcm'' @ rest @ ''#'' @ frag"
    and "starts_with rest ''://''" "CHR ''#'' \<notin> set rest" "CHR ''#'' \<notin> set frag"
    and "up_get env (''https'' @ rest) = Inr \<lparr>http_success = True, http_status = status, http_bytes = Inr body\<rparr>"
  shows "fst (download_any env url u) = Inr bs"
proof -
  obtain slot :: slot and n ct where to_url: "url = to_aesgcm_url (slot_get slot) (up_random env n)"
    and seal: "up_seal env (drop 12 (up_random env n)) (take 12 (up_random env n)) bs = Inr ct"
    and log: "ul_http t = ul_http s @ [Put (slot_put slot) ((''Content-Type'', mime) # slot_headers slot) ct]"
    using assms(3) by (rule upload_encrypted_run)
  let ?combo = "up_random env n"
  have body: "body = ct" using assms(4) log by simp
  have frag: "frag = hex_encode ?combo"
  proof -
    have last: "takeWhile (\<lambda>c. c \<noteq> CHR ''#'') (rev x @ CHR ''#'' # y) = rev x" if "CHR ''#'' \<notin> set x" for x y
      using that by (subst takeWhile_append2) auto
    have "takeWhile (\<lambda>c. c \<noteq> CHR ''#'') (rev url) = rev frag"
      using last[OF assms(8)] by (simp add: assms(5))
    moreover have "takeWhile (\<lambda>c. c \<noteq> CHR ''#'') (rev url) = rev (hex_encode ?combo)"
      using last[OF hash_not_in_hex] by (simp add: to_url to_aesgcm_url_def)
    ultimately show ?thesis by simp
  qed
  have "CHR ''#'' \<notin> set (''aesgcm'' @ rest)" using assms(7) by simp
  then have "split_once (CHR ''#'') url = Some (''aesgcm'' @ rest, hex_encode ?combo)"
    using split_once_append[of "CHR ''#''" "''aesgcm'' @ rest" frag] by (simp add: assms(5) frag)
  moreover have "is_aesgcm_url url"
    using assms(6) by (auto simp: is_aesgcm_url_def assms(5) starts_with_iff)
  moreover have "up_open env (drop 12 ?combo) (take 12 ?combo) ct = Inr bs"
    using assms(1) seal by (simp add: gcm_sound_def)
  moreover have "strip_prefix (''aesgcm'' @ rest) ''aesgcm'' = Some rest" by (simp add: strip_prefix_Some)
  ultimately show ?thesis
    using assms(9) assms(2)[of n]
    by (simp add: body download_any_def download_decrypt_def expect_def settle_def act_simps hex_pairs_encode
        get_file_def aesgcm_decrypt_def)
qed

text \<open>
  The key stays with the client: whatever the fragment of a link says, fetching it asks the server
  for the address before the fragment and for nothing else.
\<close>

theorem fragment_stays_local:
  assumes "CHR ''#'' \<notin> set base"
  shows "ul_http (snd (download_any env (''aesgcm://'' @ base @ ''#'' @ frag) s))
    \<in> {ul_http s, ul_http s @ [Get (''https://'' @ base)]}"
proof -
  have "split_once (CHR ''#'') ((''aesgcm://'' @ base) @ CHR ''#'' # frag) = Some (''aesgcm://'' @ base, frag)"
    by (rule split_once_append) (simp add: assms)
  moreover have "strip_prefix (''aesgcm://'' @ base) ''aesgcm'' = Some (''://'' @ base)" by (simp add: strip_prefix_Some)
  moreover have "is_aesgcm_url ((''aesgcm://'' @ base) @ CHR ''#'' # frag)" by (simp add: is_aesgcm_url_def starts_with_iff)
  moreover have "ul_http (snd (aesgcm_decrypt env combo bs u)) = ul_http u" for combo bs u
    by (auto simp: aesgcm_decrypt_def act_simps Let_def split: sum.split)
  ultimately show ?thesis
    by (auto simp: download_any_def download_decrypt_def expect_def settle_def act_simps get_file_def Let_def
        split: option.split sum.split prod.split)
qed

text \<open>
  A link with a 16-byte nonce, which the length check lets through, panics the task that fetches it
  once the bytes are there.
\<close>

theorem long_nonce_panics:
  assumes "length combo = 48"
  shows "fst (aesgcm_decrypt env combo bs s) = Inl Panicked"
  using assms by (simp add: aesgcm_decrypt_def act_simps)

end
