(* ===== verification/Routing.thy ===== *)
theory Routing
  imports Rooms Presence Incoming
begin

text \<open>
  What happens after login and with each stanza: the relays for calls
  (\<open>crates/mxc-proto/src/xeps/extdisco.rs\<close>), the order of the bootstrap (\<open>xeps/bootstrap.rs\<close>) and the
  demultiplexer (\<open>xeps/router.rs\<close>), with the carbons it enables (\<open>xeps/carbons.rs\<close>).
\<close>

subsection \<open>Relays\<close>

definition NS_EXTDISCO :: string where "NS_EXTDISCO = ''urn:xmpp:extdisco:2''"

definition ice_server_of :: "('e, 'z) dom_scheme \<Rightarrow> 'e \<Rightarrow> ice_server option" where
  "ice_server_of d s =
     (let kind = attr_or_empty d s ''type''; host = attr_or_empty d s ''host'';
          transport = (case d_attr d s ''transport'' of None \<Rightarrow> ''udp'' | Some t \<Rightarrow> t) in
      if kind \<notin> {''stun'', ''stuns'', ''turn'', ''turns''} then None
      else (case Option.bind (d_attr d s ''port'') (parse_unsigned 16) of
          None \<Rightarrow> None
        | Some port \<Rightarrow>
            if host = [] then None
            else if kind \<in> {''stuns'', ''turns''} \<and> transport = ''udp'' then None
            else Some \<lparr>ice_kind = kind, ice_host = host, ice_port = port, ice_transport = transport,
              ice_username = d_attr d s ''username'', ice_password = d_attr d s ''password''\<rparr>))"

definition fetch_relays :: "('e, 'o) client_env \<Rightarrow> ('e, 'o, unit) cli" where
  "fetch_relays env = (let d = ne_dom env in
     case split_on (CHR ''@'') (ne_bare env) of
       _ # (c # cs) # _ \<Rightarrow>
         act_bind (ok (request_with env ''extdisco''
             (\<lambda>i. iq_stanza d ''get'' (Some (c # cs)) i (d_bare d ''services'' NS_EXTDISCO)))) (\<lambda>reply.
           case Option.bind reply (\<lambda>r. get_child d r ''services'' NS_EXTDISCO) of
             None \<Rightarrow> act_ret ()
           | Some services \<Rightarrow>
               let out = List.map_filter (ice_server_of d) (named d ''service'' services) in
               if out = [] then act_ret () else act_modify (\<lambda>s. s\<lparr>cs_ice := Some out\<rparr>))
     | _ \<Rightarrow> act_ret ())"

subsection \<open>After login\<close>

definition error_text :: "app_error \<Rightarrow> string" where
  "error_text e = (case e of App_Error t \<Rightarrow> t | 
     Store_Error _ \<Rightarrow> ''error returned from database: (code: 787) FOREIGN KEY constraint failed''
     | Panicked \<Rightarrow> ''panicked'')"

definition toast_failure :: "string \<Rightarrow> ('e, 'o, unit) cli \<Rightarrow> ('e, 'o, unit) cli" where
  "toast_failure what m = act_bind (result_of m) (\<lambda>r. case r of
     Inl e \<Rightarrow> notify (Toast (what @ '' failed: '' @ error_text e) False) | Inr _ \<Rightarrow> act_ret ())"

definition enable_carbons :: "('e, 'o) client_env \<Rightarrow> ('e, 'o, unit) cli" where
  "enable_carbons env = (let d = ne_dom env in act_bind (fresh_id env ''carbons'') (\<lambda>i.
     send env (iq_stanza d ''set'' None i (d_bare d ''enable'' NS_CARBONS))))"

definition nick_or_local_part :: "string \<Rightarrow> string option \<Rightarrow> string" where
  "nick_or_local_part bare nick = (case nick of Some n \<Rightarrow> n | None \<Rightarrow> hd (split_on (CHR ''@'') bare))"

definition autojoin_room :: "('e, 'o) client_env \<Rightarrow> conversation \<Rightarrow> ('e, 'o, unit) cli" where
  "autojoin_room env room = (case room of (conv, row) \<Rightarrow>
     act_bind (read_store (muc_nick conv)) (\<lambda>nick.
     act_bind (read_store (muc_password conv)) (\<lambda>password.
     act_bind (result_of (join env (conv_jid row) (nick_or_local_part (ne_bare env) nick) password)) (\<lambda>joined.
       case joined of Inl _ \<Rightarrow> act_ret ()
       | Inr _ \<Rightarrow> act_seq (best_effort (configure_room env (conv_jid row))) (best_effort (catch_up env conv))))))"

definition bootstrap :: "('e, 'o) client_env \<Rightarrow> ('e, 'o, unit) cli" where
  "bootstrap env =
     act_seq (best_effort (enable_carbons env))
    (act_seq (fetch_relays env)
    (act_seq (toast_failure ''roster fetch'' (request_roster env))
    (act_seq (best_effort (fetch_bookmarks env))
    (act_seq (act_bind (read_store (autojoin_mucs (ne_account env))) (act_iter (autojoin_room env)))
    (act_seq (act_bind (read_db own_presence) (\<lambda>(shown, status).
        toast_failure ''presence'' (send_presence env shown status)))
    (act_seq (best_effort (catch_up_account env))
    (act_seq (on_world (run_engine (ne_omemo_init env)))
     (refresh_conversations env))))))))"

subsection \<open>Incoming stanzas\<close>

definition handle_iq :: "('e, 'o) client_env \<Rightarrow> 'e \<Rightarrow> ('e, 'o, unit) cli" where
  "handle_iq env iq = (let d = ne_dom env; ty = attr_or_empty d iq ''type'' in
     act_bind (if has_child d iq ''jingle'' ''urn:xmpp:jingle:1''
               then on_world (on_engine (ne_jingle_iq env iq)) else act_ret False) (\<lambda>call.
       if call then act_ret ()
       else (case get_child d iq ''query'' NS_ROSTER of
           Some q \<Rightarrow> act_seq (handle_roster_payload env q) (if ty = ''set'' then ack_iq env iq else act_ret ())
         | None \<Rightarrow>
             if ty = ''get'' \<and> has_child d iq ''query'' NS_INFO then send env (answer_info d iq)
             else if ty = ''get'' \<and> has_child d iq ''query'' NS_ITEMS then send env (answer_items d iq)
             else act_ret ())))"

definition handle_stanza :: "('e, 'o) client_env \<Rightarrow> 'e \<Rightarrow> ('e, 'o, unit) cli" where
  "handle_stanza env stanza = (let n = d_name (ne_dom env) stanza in
     if n = ''message'' then on_world (handle_incoming (ne_services env) stanza)
     else if n = ''presence'' then
       act_seq (on_world (run_engine (ne_muji_presence env stanza))) (handle_presence env stanza)
     else if n = ''iq'' then handle_iq env stanza
     else act_ret ())"

end
