(* ===== verification/Feeds.thy ===== *)
theory Feeds
  imports Profile Sce_Binding
begin

text \<open>
  The social feed (\<open>crates/mxc-proto/src/xeps/microblog.rs\<close>): posts and comments as Atom entries in
  PubSub nodes, how they are written and how they are read.  Ids (\<open>uuid\<close>) come from \<open>new_id\<close>, times from
  the clock of \<open>services\<close>, numbered by the tick they are read at.
\<close>

definition NS_MICROBLOG :: string where "NS_MICROBLOG = ''urn:xmpp:microblog:0''"
definition NS_ATOM :: string where "NS_ATOM = ''http://www.w3.org/2005/Atom''"
definition NS_NODE_CONFIG :: string where "NS_NODE_CONFIG = ''http://jabber.org/protocol/pubsub#node_config''"

definition comments_node :: "string \<Rightarrow> string" where
  "comments_node i = NS_MICROBLOG @ '':comments/'' @ i"

subsection \<open>Ids and times\<close>

function trim_start_matches :: "string \<Rightarrow> string \<Rightarrow> string" where
  "trim_start_matches p s = (case strip_prefix s p of None \<Rightarrow> s
     | Some r \<Rightarrow> if p = [] then s else trim_start_matches p r)"
  by pat_completeness auto
termination
  by (relation "measure (\<lambda>(p, s). length s)") (auto simp: strip_prefix_Some)

declare trim_start_matches.simps [simp del]

definition uuid :: "('e, 'o) client_env \<Rightarrow> ('e, 'o, string) cli" where
  "uuid env = act_bind (fresh_id env ''post'')
     (\<lambda>i. act_ret (trim_start_matches ''-'' (trim_start_matches ''post'' i)))"

definition read_clock :: "('e, 'o) client_env \<Rightarrow> ('e, 'o, int) cli" where
  "read_clock env s = (Inr (sv_now (ne_services env) (cs_tick s)), s\<lparr>cs_tick := cs_tick s + 1\<rparr>)"

subsection \<open>Reading entries\<close>

definition atom_text :: "('e, 'z) dom_scheme \<Rightarrow> 'e \<Rightarrow> string \<Rightarrow> string" where
  "atom_text d entry n = (case child_text d entry n NS_ATOM of None \<Rightarrow> [] | Some t \<Rightarrow> t)"

definition uri_author :: "string \<Rightarrow> string option" where
  "uri_author uri = map_option (takeWhile (\<lambda>c. c \<noteq> CHR ''/'' \<and> c \<noteq> CHR ''?'')) (strip_prefix uri ''xmpp:'')"

definition author_of :: "('e, 'z) dom_scheme \<Rightarrow> 'e \<Rightarrow> string \<Rightarrow> string" where
  "author_of d entry fallback =
     (case Option.bind (Option.bind (get_child d entry ''author'' NS_ATOM) (\<lambda>a. child_text d a ''uri'' NS_ATOM)) uri_author of
        None \<Rightarrow> fallback | Some a \<Rightarrow> a)"

definition published_text :: "('e, 'z) dom_scheme \<Rightarrow> 'e \<Rightarrow> string option" where
  "published_text d entry = (case child_text d entry ''published'' NS_ATOM of
     Some t \<Rightarrow> Some t | None \<Rightarrow> child_text d entry ''updated'' NS_ATOM)"

definition published_of :: "('e, 'o) client_env \<Rightarrow> 'e \<Rightarrow> ('e, 'o, i64) cli" where
  "published_of env entry =
     (case Option.bind (published_text (ne_dom env) entry) (\<lambda>t. ck_parse (sv_chrono (ne_services env)) (str_trim t)) of
        Some t \<Rightarrow> act_ret (t div 10 ^ 9)
      | None \<Rightarrow> act_bind (read_clock env) (\<lambda>now. act_ret (now div 10 ^ 9)))"

definition atom_id :: "('e, 'z) dom_scheme \<Rightarrow> 'e \<Rightarrow> string option" where
  "atom_id d entry = (case child_text d entry ''id'' NS_ATOM of None \<Rightarrow> None
     | Some t \<Rightarrow> Some (case strip_prefix (str_trim t) ''urn:uuid:'' of None \<Rightarrow> str_trim t | Some i \<Rightarrow> i))"

definition item_id_of :: "('e, 'o) client_env \<Rightarrow> string option \<Rightarrow> 'e \<Rightarrow> ('e, 'o, string) cli" where
  "item_id_of env item_id entry =
     (case (case item_id of Some i \<Rightarrow> Some i | None \<Rightarrow> atom_id (ne_dom env) entry) of
        Some i \<Rightarrow> if i = [] then uuid env else act_ret i
      | None \<Rightarrow> uuid env)"

text \<open>Attachment and link: an enclosure replaces the last one, the first other link stays.\<close>

definition add_link ::
  "('e, 'z) dom_scheme \<Rightarrow> 'e \<Rightarrow> string \<times> string \<times> string \<Rightarrow> string \<times> string \<times> string" where
  "add_link d l acc = (case acc of (link, url, ty) \<Rightarrow>
     let href = attr_or_empty d l ''href''; rel = d_attr d l ''rel'' in
     if href = [] then acc
     else if rel = Some ''enclosure''
       then (link, href, case d_attr d l ''type'' of None \<Rightarrow> ''application/octet-stream'' | Some t \<Rightarrow> t)
     else if rel \<in> {Some ''related'', Some ''alternate''} \<and> link = [] then (href, url, ty)
     else acc)"

definition entry_links :: "('e, 'z) dom_scheme \<Rightarrow> 'e \<Rightarrow> string \<times> string \<times> string" where
  "entry_links d entry = fold (add_link d) (named d ''link'' entry) ([], [], [])"

definition parse_post ::
  "('e, 'o) client_env \<Rightarrow> string \<Rightarrow> string option \<times> 'e \<Rightarrow> ('e, 'o, feed_post option) cli" where
  "parse_post env owner_bare item = (case item of (item_id, entry) \<Rightarrow>
     let d = ne_dom env; title = atom_text d entry ''title''; content = atom_text d entry ''content'' in
     if d_name d entry \<noteq> ''entry'' then act_ret None
     else case entry_links d entry of (link, url, ty) \<Rightarrow>
       if str_trim title = [] \<and> str_trim content = [] \<and> url = [] then act_ret None
       else act_bind (item_id_of env item_id entry) (\<lambda>i.
         act_bind (published_of env entry) (\<lambda>t.
           act_ret (Some \<lparr>post_id = i, post_author = author_of d entry owner_bare, post_title = title,
             post_content = content, post_published = t, post_link = link, post_attachment_url = url,
             post_attachment_type = ty\<rparr>))))"

definition parse_comment :: "('e, 'o) client_env \<Rightarrow> string option \<times> 'e \<Rightarrow> ('e, 'o, feed_post option) cli" where
  "parse_comment env item = (case item of (item_id, entry) \<Rightarrow>
     let d = ne_dom env; title = atom_text d entry ''title'';
         content = (if str_trim title = [] then atom_text d entry ''content'' else title) in
     if d_name d entry \<noteq> ''entry'' \<or> str_trim content = [] then act_ret None
     else act_bind (item_id_of env item_id entry) (\<lambda>i.
       act_bind (published_of env entry) (\<lambda>t.
         act_ret (Some \<lparr>post_id = i, post_author = author_of d entry [], post_title = [],
           post_content = content, post_published = t, post_link = [], post_attachment_url = [],
           post_attachment_type = []\<rparr>))))"

definition somes :: "'a option list \<Rightarrow> 'a list" where
  "somes xs = List.map_filter id xs"

definition read_items ::
  "('e, 'o) client_env \<Rightarrow> string option \<Rightarrow> string \<Rightarrow> (string option \<times> 'e \<Rightarrow> ('e, 'o, feed_post option) cli)
     \<Rightarrow> (feed_post list \<Rightarrow> feed_post list) \<Rightarrow> ('e, 'o, feed_post list) cli" where
  "read_items env jid node parse order =
     act_bind (ok (ask_items env jid node (Some 100))) (\<lambda>items. case items of
       None \<Rightarrow> act_ret []
     | Some xs \<Rightarrow> act_bind (act_map parse xs) (\<lambda>posts. act_ret (order (somes posts))))"

definition fetch_feed :: "('e, 'o) client_env \<Rightarrow> string option \<Rightarrow> string \<Rightarrow> ('e, 'o, feed_post list) cli" where
  "fetch_feed env jid owner_bare =
     read_items env jid NS_MICROBLOG (parse_post env owner_bare) (sort_desc post_published)"

definition fetch_comments :: "('e, 'o) client_env \<Rightarrow> string \<Rightarrow> string \<Rightarrow> ('e, 'o, feed_post list) cli" where
  "fetch_comments env author i =
     read_items env (Some author) (comments_node i) (parse_comment env) (sort_key post_published)"

subsection \<open>Writing entries\<close>

definition author_element :: "('e, 'z) dom_scheme \<Rightarrow> string \<Rightarrow> 'e" where
  "author_element d bare = with_children d
     [text_element d ''name'' NS_ATOM bare, text_element d ''uri'' NS_ATOM (''xmpp:'' @ bare)] (d_bare d ''author'' NS_ATOM)"

definition typed_text :: "('e, 'z) dom_scheme \<Rightarrow> string \<Rightarrow> string \<Rightarrow> 'e" where
  "typed_text d n v = d_with_text d v (d_with_attr d ''type'' ''text'' (d_bare d n NS_ATOM))"

definition stamps :: "('e, 'z) dom_scheme \<Rightarrow> string \<Rightarrow> 'e list" where
  "stamps d ts = [text_element d ''published'' NS_ATOM ts, text_element d ''updated'' NS_ATOM ts]"

definition post_entry :: "('e, 'z) dom_scheme \<Rightarrow> string \<Rightarrow> string \<Rightarrow> string \<Rightarrow> string \<Rightarrow> string \<Rightarrow> 'e" where
  "post_entry d bare i title content ts = with_children d
     ([text_element d ''id'' NS_ATOM (''urn:uuid:'' @ i),
       d_with_attr d ''href'' (''xmpp:'' @ bare @ ''?;node='' @ comments_node i)
         (d_with_attr d ''title'' ''comments'' (d_with_attr d ''rel'' ''replies'' (d_bare d ''link'' NS_ATOM)))]
      @ (if title = [] then [] else [typed_text d ''title'' title])
      @ (if content = [] then [] else [typed_text d ''content'' content])
      @ author_element d bare # stamps d ts)
     (d_bare d ''entry'' NS_ATOM)"

definition comment_entry :: "('e, 'z) dom_scheme \<Rightarrow> string \<Rightarrow> string \<Rightarrow> string \<Rightarrow> string \<Rightarrow> 'e" where
  "comment_entry d bare i content ts = with_children d
     ([text_element d ''title'' NS_ATOM content, author_element d bare,
       text_element d ''id'' NS_ATOM (''urn:uuid:'' @ i)] @ stamps d ts)
     (d_bare d ''entry'' NS_ATOM)"

definition node_config :: "('e, 'z) dom_scheme \<Rightarrow> (string \<times> string) list \<Rightarrow> 'e" where
  "node_config d vars = with_children d (map (\<lambda>(var, v). xdata_field d var v) vars)
     (d_with_child d (d_with_child d (text_element d ''value'' NS_XDATA NS_NODE_CONFIG)
        (d_with_attr d ''type'' ''hidden'' (d_with_attr d ''var'' ''FORM_TYPE'' (d_bare d ''field'' NS_XDATA))))
      (d_with_attr d ''type'' ''submit'' (d_bare d ''x'' NS_XDATA)))"

definition post_config :: "('e, 'z) dom_scheme \<Rightarrow> 'e" where
  "post_config d = node_config d [(''pubsub#node_type'', ''leaf''), (''pubsub#access_model'', ''presence''),
     (''pubsub#persist_items'', ''1''), (''pubsub#max_items'', ''max''), (''pubsub#notify_retract'', ''1''),
     (''pubsub#publish_model'', ''publishers'')]"

definition comments_config :: "('e, 'z) dom_scheme \<Rightarrow> 'e" where
  "comments_config d = node_config d [(''pubsub#node_type'', ''leaf''), (''pubsub#access_model'', ''open''),
     (''pubsub#persist_items'', ''1''), (''pubsub#max_items'', ''max''), (''pubsub#notify_retract'', ''1''),
     (''pubsub#publish_model'', ''open'')]"

definition create_node :: "('e, 'o) client_env \<Rightarrow> string option \<Rightarrow> string \<Rightarrow> 'e \<Rightarrow> ('e, 'o, unit) cli" where
  "create_node env to node config = (let d = ne_dom env in
     act_bind (request_with env ''pep-create'' (\<lambda>i. iq_stanza d ''set'' to i
       (with_children d [d_with_attr d ''node'' node (d_bare d ''create'' NS_PUBSUB),
          d_with_child d config (d_bare d ''configure'' NS_PUBSUB)] (d_bare d ''pubsub'' NS_PUBSUB)))) (\<lambda>_. act_ret ()))"

definition clock_text :: "('e, 'o) client_env \<Rightarrow> ('e, 'o, string) cli" where
  "clock_text env = act_bind (read_clock env) (\<lambda>now. act_ret (rfc3339_now (sv_chrono (ne_services env)) now))"

definition publish_post :: "('e, 'o) client_env \<Rightarrow> string \<Rightarrow> string \<Rightarrow> ('e, 'o, unit) cli" where
  "publish_post env title content = (let d = ne_dom env in
     act_bind (uuid env) (\<lambda>i.
     act_seq (best_effort (create_node env None NS_MICROBLOG (post_config d)))
    (act_bind (clock_text env) (\<lambda>ts.
     act_seq (publish_item env NS_MICROBLOG (Some i) (post_entry d (ne_bare env) i title content ts) None)
      (best_effort (create_node env None (comments_node i) (comments_config d)))))))"

definition comment_iq :: "('e, 'z) dom_scheme \<Rightarrow> string \<Rightarrow> string \<Rightarrow> 'e \<Rightarrow> string \<Rightarrow> 'e" where
  "comment_iq d author node entry i = iq_stanza d ''set'' (Some author) i
     (d_with_child d (d_with_child d (d_with_child d entry (d_bare d ''item'' NS_PUBSUB))
        (d_with_attr d ''node'' node (d_bare d ''publish'' NS_PUBSUB))) (d_bare d ''pubsub'' NS_PUBSUB))"

definition publish_comment :: "('e, 'o) client_env \<Rightarrow> string \<Rightarrow> string \<Rightarrow> string \<Rightarrow> ('e, 'o, unit) cli" where
  "publish_comment env author i content = (let d = ne_dom env; node = comments_node i in
     act_seq (best_effort (create_node env (Some author) node (comments_config d)))
    (act_bind (clock_text env) (\<lambda>ts. act_bind (uuid env) (\<lambda>own.
     act_bind (request_with env ''pep-cmt'' (comment_iq d author node (comment_entry d (ne_bare env) own content ts)))
       (\<lambda>_. act_ret ())))))"

definition retract_comment :: "('e, 'o) client_env \<Rightarrow> string \<Rightarrow> string \<Rightarrow> string \<Rightarrow> ('e, 'o, unit) cli" where
  "retract_comment env author i comment_id = (let d = ne_dom env in
     act_bind (request_with env ''pep-cmt-del'' (\<lambda>q. iq_stanza d ''set'' (Some author) q
       (d_with_child d (d_with_child d (d_with_attr d ''id'' comment_id (d_bare d ''item'' NS_PUBSUB))
          (d_with_attr d ''notify'' ''true'' (d_with_attr d ''node'' (comments_node i) (d_bare d ''retract'' NS_PUBSUB))))
        (d_bare d ''pubsub'' NS_PUBSUB)))) (\<lambda>_. act_ret ()))"

subsection \<open>What is written is read back\<close>

lemma child_of_children [simp]: "dom_sound d \<Longrightarrow>
    get_child d (with_children d els e) n ns = find (\<lambda>c. d_is d c n ns) (d_children d e @ els)"
  by (simp add: get_child_def)

lemma find_Cons_simp: "find P (x # xs) = (if P x then Some x else find P xs)"
  by simp

text \<open>
  A post we publish is read by every follower as we wrote it: id, author, title, content, and the
  second it was published; nothing else is attached to it.
\<close>

theorem published_post_roundtrip:
  assumes "dom_sound (ne_dom env)" and "chrono_sound (sv_chrono (ne_services env))"
    and "str_trim title \<noteq> [] \<or> str_trim content \<noteq> []" and "i \<noteq> []"
    and "CHR ''/'' \<notin> set bare" "CHR ''?'' \<notin> set bare"
    and "0 \<le> now" "now < 2 ^ 63"
    and "str_trim (rfc3339_now (sv_chrono (ne_services env)) now) = rfc3339_now (sv_chrono (ne_services env)) now"
  shows "parse_post env owner (Some i, post_entry (ne_dom env) bare i title content
      (rfc3339_now (sv_chrono (ne_services env)) now)) s
    = (Inr (Some \<lparr>post_id = i, post_author = bare, post_title = title, post_content = content,
        post_published = now div 10 ^ 9, post_link = [], post_attachment_url = [], post_attachment_type = []\<rparr>), s)"
proof -
  let ?d = "ne_dom env" and ?ts = "rfc3339_now (sv_chrono (ne_services env)) now"
  let ?e = "post_entry ?d bare i title content ?ts"
  note d = assms(1)
  have texts: "atom_text ?d ?e ''title'' = title" "atom_text ?d ?e ''content'' = content"
    using d by (auto simp: atom_text_def child_text_def post_entry_def d_is_def text_element_def typed_text_def
        author_element_def stamps_def)
  have author: "author_of ?d ?e owner = bare"
  proof -
    have "get_child ?d ?e ''author'' NS_ATOM = Some (author_element ?d bare)"
      using d by (auto simp: post_entry_def d_is_def text_element_def typed_text_def author_element_def)
    moreover have "child_text ?d (author_element ?d bare) ''uri'' NS_ATOM = Some (''xmpp:'' @ bare)"
      using d by (simp add: child_text_def author_element_def d_is_def text_element_def)
    moreover have "takeWhile (\<lambda>c. c \<noteq> CHR ''/'' \<and> c \<noteq> CHR ''?'') bare = bare"
      using assms(5,6) by (auto simp: takeWhile_eq_all_conv)
    then have "uri_author (''xmpp:'' @ bare) = Some bare"
      unfolding uri_author_def strip_prefix_append by simp
    ultimately show ?thesis by (simp add: author_of_def)
  qed
  have links: "entry_links ?d ?e = ([], [], [])"
    using d by (auto simp: entry_links_def named_def post_entry_def text_element_def typed_text_def
        author_element_def stamps_def add_link_def Let_def)
  have "published_text ?d ?e = Some ?ts"
    using d by (auto simp: published_text_def child_text_def post_entry_def d_is_def text_element_def
        typed_text_def author_element_def stamps_def)
  then have "published_of env ?e s = (Inr ((now - now mod 10 ^ 6) div 10 ^ 9), s)"
    using assms(2,7,8,9) by (simp add: published_of_def chrono_sound_def rfc3339_now_def act_simps)
  moreover have "(now - now mod 10 ^ 6) div 10 ^ 9 = now div 10 ^ 9"
  proof -
    have "(now - now mod 10 ^ 6) div (10 ^ 6 * 10 ^ 3) = (10 ^ 6 * (now div 10 ^ 6)) div (10 ^ 6 * 10 ^ 3)"
      by (simp add: minus_mod_eq_mult_div)
    also have "\<dots> = (now div 10 ^ 6) div 10 ^ 3" by (rule div_mult_mult1) simp
    also have "\<dots> = now div (10 ^ 6 * 10 ^ 3)" by (rule zdiv_zmult2_eq[symmetric]) simp
    finally show ?thesis by (simp add: power_add[symmetric])
  qed
  ultimately have pub: "published_of env ?e s = (Inr (now div 10 ^ 9), s)" by simp
  have "d_name ?d ?e = ''entry''" using d by (simp add: post_entry_def)
  then show ?thesis using assms(3,4) texts author links pub
    by (auto simp: parse_post_def item_id_of_def act_simps Let_def)
qed

end
