(* ===== verification/Key_Commands.thy ===== *)
theory Key_Commands
  imports Uri Fingerprint Omemo_Store Ui_Event
begin

text \<open>
  The key screens and the verification of scanned codes (\<open>crates/mxc-proto/src/client.rs\<close>:
  \<open>emit_contact_keys\<close>, \<open>emit_own_keys\<close>, \<open>device_fingerprint\<close> and the command
  \<open>VerifyOmemoFingerprints\<close>), over the OMEMO tables; SHA3-512 is a parameter, and reads of the
  database succeed.  \<open>scanned_code_verifies\<close> follows a code from the device that shows it, through
  \<open>uri.rs\<close>, to the trust of the rows on the device that scanned it.
\<close>

subsection \<open>The key screens\<close>

definition device_fingerprint :: "(bytes \<Rightarrow> bytes) \<Rightarrow> i64 \<Rightarrow> string \<Rightarrow> bytes \<Rightarrow> omemo_db \<Rightarrow> string" where
  "device_fingerprint sha3 a jid identity_key db =
     (case get_pinned_omemo2_pq_identity a jid (pq_pin_key identity_key) db of
        Some pq \<Rightarrow> hybrid_fingerprint_display sha3 identity_key pq
      | None \<Rightarrow> fingerprint identity_key)"

definition device_key_of :: "(bytes \<Rightarrow> bytes) \<Rightarrow> i64 \<Rightarrow> string \<Rightarrow> omemo_db \<Rightarrow> omemo_identity \<Rightarrow> device_key" where
  "device_key_of sha3 a jid db i = \<lparr>dk_device_id = oi_device_id i,
     dk_fingerprint = device_fingerprint sha3 a jid (oi_identity_key i) db,
     dk_trust = oi_trust i, dk_active = oi_active i\<rparr>"

definition contact_keys :: "(bytes \<Rightarrow> bytes) \<Rightarrow> i64 \<Rightarrow> string \<Rightarrow> omemo_db \<Rightarrow> event" where
  "contact_keys sha3 a jid db =
     Contact_Keys a jid (map (device_key_of sha3 a jid db) (list_omemo_identities a jid db))"

definition own_device_or_zero :: "i64 \<Rightarrow> omemo_db \<Rightarrow> i64" where
  "own_device_or_zero a db = (case omemo_own_device_id a db of None \<Rightarrow> 0 | Some d \<Rightarrow> d)"

definition own_fingerprint :: "(bytes \<Rightarrow> bytes) \<Rightarrow> i64 \<Rightarrow> omemo_db \<Rightarrow> string" where
  "own_fingerprint sha3 a db =
     (case (omemo_own_identity_pub a db, omemo_own_pq_identity_pub a db) of
        (Some ik, Some pq) \<Rightarrow> hybrid_fingerprint_display sha3 ik pq
      | (Some ik, None) \<Rightarrow> fingerprint ik
      | (None, _) \<Rightarrow> [])"

definition own_verification_uri :: "string \<Rightarrow> i64 \<Rightarrow> omemo_db \<Rightarrow> string" where
  "own_verification_uri bare a db =
     (case omemo_own_identity_pub a db of
        None \<Rightarrow> []
      | Some ik \<Rightarrow> if own_device_or_zero a db \<noteq> 0
          then verification_uri bare [from_identity_key Omemo (own_device_or_zero a db) ik] else [])"

definition own_keys :: "(bytes \<Rightarrow> bytes) \<Rightarrow> string \<Rightarrow> i64 \<Rightarrow> string \<times> string \<Rightarrow> omemo_db \<Rightarrow> event" where
  "own_keys sha3 bare a presence db =
     Own_Keys a bare (own_device_or_zero a db) (own_fingerprint sha3 a db) (own_verification_uri bare a db)
       (map (device_key_of sha3 a bare db)
          (filter (\<lambda>i. oi_device_id i \<noteq> own_device_or_zero a db) (list_omemo_identities a bare db)))
       (auto_trust_new_keys db) (fst presence) (snd presence)"

subsection \<open>Verifying what a code offers\<close>

definition key_hex :: "omemo_identity \<Rightarrow> string" where
  "key_hex i = fp_hex (from_identity_key OmemoPq (oi_device_id i) (oi_identity_key i))"

definition offered :: "string list \<Rightarrow> omemo_identity \<Rightarrow> bool" where
  "offered fingerprints i \<longleftrightarrow> list_ex (\<lambda>f. eq_ignore_ascii_case f (key_hex i)) fingerprints"

definition verify_one ::
  "i64 \<Rightarrow> string \<Rightarrow> string list \<Rightarrow> omemo_identity \<Rightarrow> nat \<times> omemo_db \<Rightarrow> nat \<times> omemo_db" where
  "verify_one a jid fingerprints i st = (case st of (verified, db) \<Rightarrow>
     if \<not> offered fingerprints i then (verified, db)
     else (verified + 1, if oi_trust i \<noteq> 3 then set_omemo_trust a jid (oi_device_id i) 3 db else db))"

definition verify_rows :: "i64 \<Rightarrow> string \<Rightarrow> string list \<Rightarrow> omemo_db \<Rightarrow> nat \<times> omemo_db" where
  "verify_rows a jid fingerprints db =
     fold (verify_one a jid fingerprints) (list_omemo_identities a jid db) (0, db)"

definition verified_toast :: "nat \<Rightarrow> event" where
  "verified_toast n = Toast (if n = 0 then ''No matching device keys '' @ [CHR 0xE2, CHR 0x80, CHR 0x94]
       @ '' nothing was verified''
     else if n = 1 then ''1 device key verified''
     else show_nat n @ '' device keys verified'') (n = 0)"

definition verify_fingerprints :: "(bytes \<Rightarrow> bytes) \<Rightarrow> string \<Rightarrow> i64 \<Rightarrow> string \<times> string \<Rightarrow> string
    \<Rightarrow> string list \<Rightarrow> omemo_db \<Rightarrow> omemo_db \<times> event list" where
  "verify_fingerprints sha3 bare a presence jid fingerprints db =
     (case verify_rows a jid fingerprints db of (n, db') \<Rightarrow>
        (db', [if jid = bare then own_keys sha3 bare a presence db' else contact_keys sha3 a jid db',
               verified_toast n]))"

subsection \<open>What verification writes\<close>

lemma verified_count:
  "fst (fold (verify_one a jid fps) rows (n, db)) = n + length (filter (offered fps) rows)"
  by (induction rows arbitrary: n db) (auto simp: verify_one_def)

definition raised :: "string list \<Rightarrow> omemo_identity list \<Rightarrow> i64 \<Rightarrow> bool" where
  "raised fps rows dev \<longleftrightarrow> (\<exists>i\<in>set rows. oi_device_id i = dev \<and> offered fps i \<and> oi_trust i \<noteq> 3)"

lemma verify_fold_identities:
  "map_of (t_identities (snd (fold (verify_one a jid fps) rows (n, db)))) (b, j, dev)
   = map_option (\<lambda>r. if b = a \<and> j = jid \<and> raised fps rows dev then r\<lparr>id_trust := 3\<rparr> else r)
       (map_of (t_identities db) (b, j, dev))"
proof (induction rows arbitrary: n db)
  case Nil
  then show ?case by (simp add: raised_def option.map_ident)
next
  case (Cons i rows)
  define m where "m = (if offered fps i then n + 1 else n)"
  define db1 where "db1 = (if offered fps i \<and> oi_trust i \<noteq> 3 then set_omemo_trust a jid (oi_device_id i) 3 db else db)"
  have step: "fold (verify_one a jid fps) (i # rows) (n, db) = fold (verify_one a jid fps) rows (m, db1)"
    by (simp add: verify_one_def m_def db1_def)
  have "map_of (t_identities db1) (b, j, dev) = map_option
      (\<lambda>r. if b = a \<and> j = jid \<and> dev = oi_device_id i \<and> offered fps i \<and> oi_trust i \<noteq> 3 then r\<lparr>id_trust := 3\<rparr> else r)
      (map_of (t_identities db) (b, j, dev))"
    by (auto simp: db1_def set_omemo_trust_def map_of_tbl_update option.map_ident)
  then show ?case
    unfolding step Cons.IH by (auto simp: raised_def option.map_comp o_def intro!: option.map_cong)
qed

lemma listed_identity_iff:
  assumes "tbl_ok (t_identities db)"
  shows "i \<in> set (list_omemo_identities a jid db) \<longleftrightarrow> omemo_identity a jid (oi_device_id i) db = Some i"
proof
  assume "i \<in> set (list_omemo_identities a jid db)"
  then obtain r dev where "((jid, dev), r) \<in> set (account_rows a (t_identities db))" "i = identity_view dev r"
    by (auto simp: list_omemo_identities_def)
  then show "omemo_identity a jid (oi_device_id i) db = Some i"
    using account_rows_iff[OF assms, of "(jid, dev)" r a] by (simp add: omemo_identity_def identity_view_def)
next
  assume "omemo_identity a jid (oi_device_id i) db = Some i"
  then obtain r where r: "map_of (t_identities db) (a, jid, oi_device_id i) = Some r"
    "identity_view (oi_device_id i) r = i"
    by (auto simp: omemo_identity_def)
  then have "((jid, oi_device_id i), r) \<in> set (account_rows a (t_identities db))"
    using account_rows_iff[OF assms] by blast
  with r(2) show "i \<in> set (list_omemo_identities a jid db)"
    by (force simp: list_omemo_identities_def)
qed

text \<open>Exactly the offered rows of that address become verified; every other row is as before.\<close>

lemma verify_rows_identity:
  assumes "tbl_ok (t_identities db)"
  shows "omemo_identity a jid dev (snd (verify_rows a jid fps db))
    = map_option (\<lambda>i. if offered fps i then i\<lparr>oi_trust := 3\<rparr> else i) (omemo_identity a jid dev db)"
proof (cases "map_of (t_identities db) (a, jid, dev)")
  case None
  then show ?thesis by (simp add: omemo_identity_def verify_rows_def verify_fold_identities)
next
  case (Some r)
  let ?i = "identity_view dev r" and ?rows = "list_omemo_identities a jid db"
  have found: "omemo_identity a jid dev db = Some ?i" by (simp add: omemo_identity_def Some)
  have "i \<in> set ?rows \<and> oi_device_id i = dev \<longleftrightarrow> i = ?i" for i
    using listed_identity_iff[OF assms, of i a jid] found by (auto simp: identity_view_def)
  then have "{i \<in> set ?rows. oi_device_id i = dev} = {?i}" by auto
  moreover have "raised fps ?rows dev \<longleftrightarrow> (\<exists>i\<in>{i \<in> set ?rows. oi_device_id i = dev}. offered fps i \<and> oi_trust i \<noteq> 3)"
    by (auto simp: raised_def)
  ultimately have "raised fps ?rows dev \<longleftrightarrow> offered fps ?i \<and> oi_trust ?i \<noteq> 3"
    by (simp only:) simp
  then show ?thesis
    using Some by (auto simp: omemo_identity_def verify_rows_def verify_fold_identities identity_view_def)
qed

lemma verify_rows_elsewhere:
  "b \<noteq> a \<or> j \<noteq> jid \<Longrightarrow>
   omemo_identity b j dev (snd (verify_rows a jid fps db)) = omemo_identity b j dev db"
  by (auto simp: omemo_identity_def verify_rows_def verify_fold_identities option.map_comp option.map_ident o_def)

subsection \<open>From the code to the trust\<close>

lemma hex_of_key: "fp_hex (from_identity_key k dev ik) = hex_encode (fingerprint_key ik)"
  by (simp add: from_identity_key_def fingerprint_key_def Let_def)

lemma lower_hex_eq_ignore:
  "list_all lower_hex x \<Longrightarrow> list_all lower_hex y \<Longrightarrow> eq_ignore_ascii_case x y \<longleftrightarrow> x = y"
proof -
  have low: "to_ascii_lowercase z = z" if "list_all lower_hex z" for z
    using that by (induction z) (auto simp: to_ascii_lowercase_def lower_hex_lower)
  show "list_all lower_hex x \<Longrightarrow> list_all lower_hex y \<Longrightarrow> eq_ignore_ascii_case x y \<longleftrightarrow> x = y"
    by (simp add: eq_ignore_ascii_case_def low)
qed

lemma offered_key:
  "offered [hex_encode (fingerprint_key ik)] i \<longleftrightarrow> fingerprint_key (oi_identity_key i) = fingerprint_key ik"
  by (auto simp: offered_def key_hex_def hex_of_key lower_hex_eq_ignore hex_encode_lower dest: hex_encode_inj)

text \<open>
  C17: Scanning the code a device shows reads back its owner's address, and verifying what was read
  marks as manually verified exactly the devices of that address that hold the identity key the
  showing device has - whatever their ids, and no row of any other address or account.
\<close>

theorem scanned_code_verifies:
  assumes shown: "omemo_own_identity_pub a shown_db = Some ik" "omemo_own_device_id a shown_db = Some dev"
      "0 < dev" "dev < 2 ^ 63" "length ik = 33" "hd ik = 0x05"
    and jid: "utf8_valid bare" "str_trim bare = bare" "CHR ''@'' \<in> set bare"
    and db: "tbl_ok (t_identities db)"
  shows "\<exists>u. parse (own_verification_uri bare a shown_db) = Return (Some u) \<and> pu_jid u = bare
    \<and> (\<forall>d. omemo_identity b bare d (snd (verify_rows b bare (all_hex u) db))
        = map_option (\<lambda>i. if fingerprint_key (oi_identity_key i) = fingerprint_key ik
                          then i\<lparr>oi_trust := 3\<rparr> else i) (omemo_identity b bare d db))
    \<and> (\<forall>c j d. c \<noteq> b \<or> j \<noteq> bare \<longrightarrow>
        omemo_identity c j d (snd (verify_rows b bare (all_hex u) db)) = omemo_identity c j d db)"
proof -
  let ?fp = "from_identity_key Omemo dev ik"
  have "well_formed_fp ?fp"
    using shown by (simp add: well_formed_fp_def hex_of_key fingerprint_key_def hex_encode_lower)
       (simp add: from_identity_key_def)
  then have parsed: "parse (verification_uri bare [?fp]) = Return (Some \<lparr>pu_jid = bare, pu_fingerprints = [?fp]\<rparr>)"
    using jid by (intro parse_verification_uri) auto
  have uri: "own_verification_uri bare a shown_db = verification_uri bare [?fp]"
    using shown by (simp add: own_verification_uri_def own_device_or_zero_def)
  show ?thesis
    by (rule exI[of _ "\<lparr>pu_jid = bare, pu_fingerprints = [?fp]\<rparr>"])
       (simp add: uri parsed all_hex_def hex_of_key verify_rows_identity[OF db] offered_key verify_rows_elsewhere)
qed

definition shown_key :: bytes where "shown_key = 0x05 # replicate 32 0xAB"

definition showing_db :: omemo_db where
  "showing_db = set_omemo_own_identity 1 42 shown_key True empty_omemo_db"

definition scanning_db :: omemo_db where
  "scanning_db = save_omemo_identity ''t'' 7 ''a@b'' 42 shown_key
     (save_omemo_identity ''t'' 7 ''a@b'' 43 (0x05 # replicate 32 0xCD) empty_omemo_db)"

theorem scanned_code_verifies_witness:
  "\<exists>u. parse (own_verification_uri ''a@b'' 1 showing_db) = Return (Some u)
    \<and> map_option oi_trust (omemo_identity 7 ''a@b'' 42 (snd (verify_rows 7 ''a@b'' (all_hex u) scanning_db))) = Some 3
    \<and> map_option oi_trust (omemo_identity 7 ''a@b'' 43 (snd (verify_rows 7 ''a@b'' (all_hex u) scanning_db))) = Some 1"
proof -
  have rows: "omemo_identity 7 ''a@b'' 42 scanning_db = Some \<lparr>oi_device_id = 42, oi_identity_key = shown_key,
      oi_trust = 1, oi_active = True\<rparr>"
    "omemo_identity 7 ''a@b'' 43 scanning_db = Some \<lparr>oi_device_id = 43,
      oi_identity_key = 0x05 # replicate 32 0xCD, oi_trust = 1, oi_active = True\<rparr>"
    "fingerprint_key (0x05 # replicate 32 0xCD) \<noteq> fingerprint_key shown_key"
    by code_simp+
  have ok: "tbl_ok (t_identities scanning_db)" by code_simp
  have "omemo_own_identity_pub 1 showing_db = Some shown_key" "omemo_own_device_id 1 showing_db = Some 42"
    "length shown_key = 33" "hd shown_key = 0x05" "utf8_valid ''a@b''" "str_trim ''a@b'' = ''a@b''"
    by code_simp+
  then obtain u where u: "parse (own_verification_uri ''a@b'' 1 showing_db) = Return (Some u)"
    "\<forall>d. omemo_identity 7 ''a@b'' d (snd (verify_rows 7 ''a@b'' (all_hex u) scanning_db))
        = map_option (\<lambda>i. if fingerprint_key (oi_identity_key i) = fingerprint_key shown_key
                          then i\<lparr>oi_trust := 3\<rparr> else i) (omemo_identity 7 ''a@b'' d scanning_db)"
    using scanned_code_verifies[of 1 showing_db shown_key 42 "''a@b''" scanning_db 7] ok by auto
  then show ?thesis using rows by (intro exI[of _ u]) simp
qed

end
