(* ===== verification/Commands.thy ===== *)
theory Commands
  imports Routing Feeds File_Sending Key_Commands
begin

text \<open>
  The commands of the interface (\<open>crates/mxc-proto/src/command.rs\<close>) and what the client does with each
  (\<open>client.rs\<close>: \<open>handle_command\<close> and the report of its failures), all but those of the calls, which are
  \<open>Call_Machine.run_call_command\<close>.

  The OMEMO tables are inside the engine state of the world; \<open>co_keys\<close> and \<open>co_put_keys\<close> read and write
  them.  What else a command asks of other parts of the client is a field of \<open>command_env\<close>: the engine's
  recovery functions (\<open>Engine_Crypt\<close>), the plain upload and the download (\<open>Upload\<close>), the download
  directory (\<open>File_Sending.download_dir\<close>) and the printed minute of an untitled story.
\<close>

datatype subscription_action = Subscribe | Unsubscribe | Subscribed | Unsubscribed

fun as_type :: "subscription_action \<Rightarrow> string" where
  "as_type Subscribe = ''subscribe''"
| "as_type Unsubscribe = ''unsubscribe''"
| "as_type Subscribed = ''subscribed''"
| "as_type Unsubscribed = ''unsubscribed''"

datatype (plugins only: code) command =
    Connect_Account | Disconnect_Account | Shutdown
  | Set_Presence string string
  | Publish_Avatar i64 bytes string u32 u32
  | Set_Nick string
  | Fetch_Nick string
  | Send_Message string string encryption "string option" "string option"
  | Correct i64 string string string
  | Retract i64 string string
  | Send_Chat_State string string
  | Mark_Read i64 string string
  | React string string "string list"
  | Load_History i64 "string option"
  | Sync_History i64
  | Add_Contact i64 string "string option"
  | Remove_Contact i64 string
  | Join_Muc string string "string option"
  | Leave_Muc i64 string
  | Delete_Chat i64 string
  | Fetch_Peer_Info string
  | Fetch_Muc_Avatar i64 string string
  | Fetch_Avatar i64 string bool
  | Send_File string string "string option"
  | Send_Files string "string list" "string option"
  | Send_Sticker string string
  | Download_File string string
  | Send_Webxdc_File string string
  | Send_Webxdc_Update string string "string option" "string option" "string option" "string option" "string option"
  | Send_Webxdc_Realtime string string string
  | Set_Omemo_Trust string i64 i64
  | Fetch_Own_Keys i64
  | Fetch_Contact_Keys i64 string
  | Verify_Omemo_Fingerprints i64 string "string list"
  | Reset_Omemo2_Identities i64
  | Regenerate_Omemo2_Identity i64
  | Fetch_Vcard i64 string bool
  | Fetch_Subscription i64 string
  | Set_Subscription i64 string subscription_action
  | Set_Auto_Trust bool
  | Set_Notify i64 string string
  | Start_Private i64 string
  | Fetch_Feed i64 string
  | Publish_Post i64 string string
  | Fetch_Comments i64 string string
  | Publish_Comment i64 string string string
  | Retract_Post i64 string
  | Retract_Comment i64 string string string
  | Publish_Story i64 string string
  | Fetch_Stories i64
  | Retract_Story i64 string

record ('e, 'o) command_env =
  co_net :: "('e, 'o) client_env"
  co_keys :: "'o \<Rightarrow> omemo_db"
  co_put_keys :: "omemo_db \<Rightarrow> 'o \<Rightarrow> 'o"
  co_sha3 :: "bytes \<Rightarrow> bytes"
  co_restart_engine :: "'o \<Rightarrow> 'o"
  co_regenerate :: "'o \<Rightarrow> (string + unit) \<times> 'o"
  co_upload_plain :: "bytes \<Rightarrow> string \<Rightarrow> string \<Rightarrow> 'o \<Rightarrow> (string + string) \<times> 'o"
  co_download :: "string \<Rightarrow> 'o \<Rightarrow> (string + bytes) \<times> 'o"
  co_download_dir :: string
  co_write_error :: string
  co_minute :: "int \<Rightarrow> string"

subsection \<open>Steps the commands share\<close>

definition update_keys :: "('e, 'o) command_env \<Rightarrow> (omemo_db \<Rightarrow> 'a \<times> omemo_db) \<Rightarrow> ('e, 'o, 'a) cli" where
  "update_keys env f = on_world (on_engine (\<lambda>o'. case f (co_keys env o') of (x, db) \<Rightarrow> (x, co_put_keys env db o')))"

definition read_keys :: "('e, 'o) command_env \<Rightarrow> (omemo_db \<Rightarrow> 'a) \<Rightarrow> ('e, 'o, 'a) cli" where
  "read_keys env f = act_read (\<lambda>s. f (co_keys env (w_engine (cs_world s))))"

definition engine_call :: "('o \<Rightarrow> (string + 'a) \<times> 'o) \<Rightarrow> ('e, 'o, 'a) cli" where
  "engine_call f = on_world (act_bind (on_engine f) fallible)"

definition list_conversations :: "i64 \<Rightarrow> ('e, 'o, unit) cli" where
  "list_conversations a = act_bind (read_store (conversations a)) (\<lambda>items. notify (Conversations_Updated a items))"

definition drop_conversation :: "i64 \<Rightarrow> string \<Rightarrow> ('e, 'o, unit) cli" where
  "drop_conversation a jid = act_seq (write_store (delete_conversation a jid)) (list_conversations a)"

definition emit_own_keys :: "('e, 'o) command_env \<Rightarrow> i64 \<Rightarrow> ('e, 'o, unit) cli" where
  "emit_own_keys env a = act_bind (read_db own_presence) (\<lambda>presence.
     act_bind (read_keys env (own_keys (co_sha3 env) (ne_bare (co_net env)) a presence)) notify)"

definition emit_contact_keys :: "('e, 'o) command_env \<Rightarrow> i64 \<Rightarrow> string \<Rightarrow> ('e, 'o, unit) cli" where
  "emit_contact_keys env a jid = act_bind (read_keys env (contact_keys (co_sha3 env) a jid)) notify"

definition message_id :: "('e, 'o) command_env \<Rightarrow> (string \<Rightarrow> ('e, 'o, 'a) app) \<Rightarrow> ('e, 'o, 'a) cli" where
  "message_id env f = act_bind (fresh_id (co_net env) ''msg'') (\<lambda>i. on_world (f i))"

subsection \<open>Contacts and rooms\<close>

definition remove_contact_cmd :: "('e, 'o) command_env \<Rightarrow> i64 \<Rightarrow> string \<Rightarrow> ('e, 'o, unit) cli" where
  "remove_contact_cmd env a jid =
     act_seq (remove_contact (co_net env) jid)
    (act_seq (write_db (clear_presence_preapproval a jid)) (drop_conversation a jid))"

definition join_muc_cmd :: "('e, 'o) command_env \<Rightarrow> string \<Rightarrow> string \<Rightarrow> string option \<Rightarrow> ('e, 'o, unit) cli" where
  "join_muc_cmd env room nick password = (let net = co_net env in
     act_seq (join net room nick password)
    (act_seq (best_effort (configure_room net room))
     (best_effort (save_bookmark net room None (Some nick) True))))"

definition leave_muc_cmd :: "('e, 'o) command_env \<Rightarrow> i64 \<Rightarrow> string \<Rightarrow> ('e, 'o, unit) cli" where
  "leave_muc_cmd env a room = (let net = co_net env in
     act_bind (read_store (muc_nick_by_jid a room)) (\<lambda>nick.
     act_seq (best_effort (leave net room (nick_or_local_part (ne_bare net) nick)))
    (act_seq (best_effort (remove_bookmark net room)) (drop_conversation a room))))"

definition set_subscription_cmd ::
  "('e, 'o) command_env \<Rightarrow> i64 \<Rightarrow> string \<Rightarrow> subscription_action \<Rightarrow> ('e, 'o, unit) cli" where
  "set_subscription_cmd env a jid action = (let bare = ne_bare (co_net env) in
     act_seq (case action of
         Subscribed \<Rightarrow> write_db (set_presence_preapproval a jid)
       | Unsubscribed \<Rightarrow> write_db (clear_presence_preapproval a jid)
       | _ \<Rightarrow> act_ret ())
       (set_subscription (co_net env) bare jid (as_type action) (Some (local_part bare))))"

definition fetch_subscription :: "i64 \<Rightarrow> string \<Rightarrow> ('e, 'o, unit) cli" where
  "fetch_subscription a jid = act_bind (read_db (roster_item_of a jid)) (\<lambda>item. case item of
     None \<Rightarrow> notify (Subscription a jid ''none'' None)
   | Some r \<Rightarrow> notify (Subscription a jid (ros_subscription r) (ros_ask r)))"

subsection \<open>Profiles\<close>

definition insert_topic :: "string \<Rightarrow> (string \<times> string) list \<Rightarrow> (string \<times> string) list" where
  "insert_topic subject rows =
     (let before = takeWhile (\<lambda>(l, _). l \<noteq> ''Description'') rows;
          rest = dropWhile (\<lambda>(l, _). l \<noteq> ''Description'') rows
      in before @ take 1 rest @ (''Topic'', subject) # drop 1 rest)"

definition room_details ::
  "('e, 'o) command_env \<Rightarrow> i64 \<Rightarrow> string \<Rightarrow> ('e, 'o, bytes option \<times> (string \<times> string) list) cli" where
  "room_details env a jid =
     act_bind (room_profile (co_net env) jid) (\<lambda>(photo, rows).
     act_bind (ok (on_store (conversation_id a jid ''muc''))) (\<lambda>conv. case conv of
       None \<Rightarrow> act_ret (photo, rows)
     | Some c \<Rightarrow> act_bind (read_store (muc_subject c)) (\<lambda>subject.
         case non_empty (map_option str_trim subject) of
           None \<Rightarrow> act_ret (photo, rows)
         | Some t \<Rightarrow> act_ret (photo, insert_topic t rows))))"

definition fetch_vcard_cmd :: "('e, 'o) command_env \<Rightarrow> i64 \<Rightarrow> string \<Rightarrow> bool \<Rightarrow> ('e, 'o, unit) cli" where
  "fetch_vcard_cmd env a jid is_muc =
     act_bind (if is_muc then room_details env a jid
               else act_bind (ok (fetch_details (co_net env) jid))
                 (\<lambda>r. act_ret (case r of None \<Rightarrow> (None, []) | Some x \<Rightarrow> x)))
       (\<lambda>(photo, rows). notify (Vcard a jid (or_empty photo) rows))"

subsection \<open>Stories and feeds\<close>

definition fetch_stories_of :: "('e, 'o) command_env \<Rightarrow> string option \<Rightarrow> ('e, 'o, unit) cli" where
  "fetch_stories_of env jid = (let net = co_net env; sv = ne_services net in
     act_bind (ok (request_with net ''pep-get'' (\<lambda>i. pep_items (ne_dom net) i jid NS_STORIES None))) (\<lambda>reply.
     act_bind (read_clock net) (\<lambda>now.
       on_world (act_modify (\<lambda>w. w\<lparr>w_stories := fetch_stories (sv_dom sv) (sv_chrono sv) now (sv_account sv)
         (sv_bare sv) jid reply (w_stories w)\<rparr>)))))"

definition publish_story_cmd :: "('e, 'o) command_env \<Rightarrow> i64 \<Rightarrow> string \<Rightarrow> string \<Rightarrow> ('e, 'o, unit) cli" where
  "publish_story_cmd env a path title =
     (let net = co_net env; d = ne_dom net; name = file_name_or ''story'' path; mime = guess_mime name in
      act_bind (on_world (fallible (sv_read_file (ne_services net) path))) (\<lambda>bs.
      act_bind (engine_call (co_upload_plain env bs name mime)) (\<lambda>url.
      act_bind (fresh_id net ''story'') (\<lambda>u.
      act_bind (clock_text net) (\<lambda>ts.
      act_bind (read_clock net) (\<lambda>now.
      act_bind (request_with net ''pep-pub'' (\<lambda>i. publish_story d (ne_bare net) i u ts (co_minute env now) url mime title)) (\<lambda>_.
      act_seq (fetch_stories_of env None) (notify (Stories_Updated a)))))))))"

definition fetch_all_stories :: "('e, 'o) command_env \<Rightarrow> i64 \<Rightarrow> ('e, 'o, unit) cli" where
  "fetch_all_stories env a =
     act_seq (fetch_stories_of env None)
    (act_seq (act_bind (read_db (roster a)) (act_iter (\<lambda>item.
        act_when (ros_subscription item \<in> {''both'', ''to''}) (fetch_stories_of env (Some (ros_jid item))))))
     (notify (Stories_Updated a)))"

definition retract_story_cmd :: "('e, 'o) command_env \<Rightarrow> i64 \<Rightarrow> string \<Rightarrow> ('e, 'o, unit) cli" where
  "retract_story_cmd env a u =
     act_bind (result_of (retract_item (co_net env) NS_STORIES u)) (\<lambda>r. case r of
       Inl e \<Rightarrow> if contains_str (error_text e) ''item-not-found''
         then act_seq (on_world (act_modify (\<lambda>w. w\<lparr>w_stories := delete_story u (w_stories w)\<rparr>))) (notify (Stories_Updated a))
         else act_throw e
     | Inr _ \<Rightarrow> act_seq (on_world (act_modify (\<lambda>w. w\<lparr>w_stories := delete_story u (w_stories w)\<rparr>))) (notify (Stories_Updated a)))"

definition own_feed :: "('e, 'o) command_env \<Rightarrow> i64 \<Rightarrow> ('e, 'o, unit) cli" where
  "own_feed env a = (let net = co_net env in
     act_bind (fetch_feed net None (ne_bare net)) (\<lambda>posts. notify (Feed_Posts a (ne_bare net) posts)))"

definition show_comments :: "('e, 'o) command_env \<Rightarrow> i64 \<Rightarrow> string \<Rightarrow> string \<Rightarrow> ('e, 'o, unit) cli" where
  "show_comments env a author i =
     act_bind (fetch_comments (co_net env) author i) (\<lambda>comments. notify (Feed_Comments a i comments))"

subsection \<open>Keys and files\<close>

definition set_trust_cmd :: "('e, 'o) command_env \<Rightarrow> string \<Rightarrow> i64 \<Rightarrow> i64 \<Rightarrow> ('e, 'o, unit) cli" where
  "set_trust_cmd env jid dev trust =
     update_keys env (\<lambda>db. ((), set_omemo_trust (ne_account (co_net env)) jid dev trust db))"

definition verify_cmd :: "('e, 'o) command_env \<Rightarrow> i64 \<Rightarrow> string \<Rightarrow> string list \<Rightarrow> ('e, 'o, unit) cli" where
  "verify_cmd env a jid fingerprints = act_bind (read_db own_presence) (\<lambda>presence.
     act_bind (update_keys env (\<lambda>db. case verify_fingerprints (co_sha3 env) (ne_bare (co_net env)) a presence jid
         fingerprints db of (db', evs) \<Rightarrow> (evs, db'))) (act_iter notify))"

definition reset_keys_cmd :: "('e, 'o) command_env \<Rightarrow> i64 \<Rightarrow> ('e, 'o, unit) cli" where
  "reset_keys_cmd env a =
     act_seq (update_keys env (\<lambda>db. ((), reset_omemo2_peer_state a db)))
    (act_seq (on_world (run_engine (co_restart_engine env)))
    (act_seq (emit_own_keys env a)
     (notify (Toast (''PQ OMEMO2 keys reset '' @ [CHR 0xE2, CHR 0x80, CHR 0x94]
        @ '' they will rebuild as you exchange messages.'') True))))"

definition regenerate_cmd :: "('e, 'o) command_env \<Rightarrow> i64 \<Rightarrow> ('e, 'o, unit) cli" where
  "regenerate_cmd env a =
     act_seq (engine_call (co_regenerate env))
    (act_seq (emit_own_keys env a)
     (notify (Toast (''New PQ OMEMO2 identity generated '' @ [CHR 0xE2, CHR 0x80, CHR 0x94]
        @ '' your fingerprint changed; contacts must verify you again.'') True)))"

definition download_cmd :: "('e, 'o) command_env \<Rightarrow> string \<Rightarrow> string \<Rightarrow> ('e, 'o, unit) cli" where
  "download_cmd env url name =
     act_bind (engine_call (co_download env url)) (\<lambda>bs.
     act_bind (on_world (\<lambda>w. case save_download (co_download_dir env) name bs (w_files w) of
         (r, fs) \<Rightarrow> (Inr (r, unique_path (w_files w) (co_download_dir env) name), w\<lparr>w_files := fs\<rparr>))) (\<lambda>(r, path).
       case r of
         Inl _ \<Rightarrow> act_throw (App_Error (''save '' @ path @ '': '' @ co_write_error env))
       | Inr p \<Rightarrow> notify (File_Saved (ne_account (co_net env)) url p)))"

subsection \<open>The commands\<close>

primrec handle_command :: "('e, 'o) command_env \<Rightarrow> bool \<Rightarrow> command \<Rightarrow> ('e, 'o, unit) cli" where
  "handle_command env online Connect_Account = act_ret ()"
| "handle_command env online Disconnect_Account = act_ret ()"
| "handle_command env online Shutdown = act_ret ()"
| "handle_command env online (Set_Presence shown status) =
     act_seq (write_db (set_own_presence shown status)) (send_presence (co_net env) shown status)"
| "handle_command env online (Publish_Avatar a data mime width height) =
     act_seq (publish_avatar (co_net env) data mime width height) (notify (Avatar a (ne_bare (co_net env)) data))"
| "handle_command env online (Set_Nick nick) = publish_nick (co_net env) nick"
| "handle_command env online (Fetch_Nick jid) = fetch_nick (co_net env) jid"
| "handle_command env online (Send_Message to body enc reply_to mid) =
     act_bind (case mid of Some i \<Rightarrow> act_ret i | None \<Rightarrow> fresh_id (co_net env) ''msg'') (\<lambda>i.
       on_world (send_message (ne_services (co_net env)) to body enc reply_to online i))"
| "handle_command env online (Correct conv to target text) =
     on_world (send_correction (ne_services (co_net env)) to target text conv)"
| "handle_command env online (Retract conv to target) =
     on_world (send_retraction (ne_services (co_net env)) to target conv)"
| "handle_command env online (Send_Chat_State to st) = on_world (send_chat_state (ne_services (co_net env)) to st)"
| "handle_command env online (Mark_Read conv to i) =
     act_seq (write_store (clear_unread conv)) (on_world (send_read_marker (ne_services (co_net env)) to i))"
| "handle_command env online (React to target emojis) =
     act_bind (fresh_id (co_net env) ''rx'') (\<lambda>i. on_world (react (ne_services (co_net env)) to i target emojis))"
| "handle_command env online (Load_History conv before) = load_page (co_net env) conv before"
| "handle_command env online (Sync_History conv) = catch_up (co_net env) conv"
| "handle_command env online (Add_Contact a jid name) =
     act_seq (write_db (set_presence_preapproval a jid)) (add_contact (co_net env) (ne_bare (co_net env)) jid name)"
| "handle_command env online (Remove_Contact a jid) = remove_contact_cmd env a jid"
| "handle_command env online (Join_Muc room nick password) = join_muc_cmd env room nick password"
| "handle_command env online (Leave_Muc a room) = leave_muc_cmd env a room"
| "handle_command env online (Delete_Chat a jid) = drop_conversation a jid"
| "handle_command env online (Fetch_Peer_Info jid) =
     act_seq (best_effort (fetch_avatar (co_net env) jid)) (best_effort (fetch_nick (co_net env) jid))"
| "handle_command env online (Fetch_Muc_Avatar a room nick) =
     act_bind (photo_or_empty (co_net env) (room @ ''/'' @ nick)) (\<lambda>data. notify (Muc_Avatar a room nick data))"
| "handle_command env online (Fetch_Avatar a jid is_muc) = fetch_best (co_net env) jid is_muc"
| "handle_command env online (Send_File to path caption) =
     message_id env (send_file (ne_services (co_net env)) to path caption)"
| "handle_command env online (Send_Files to paths caption) =
     message_id env (send_files (ne_services (co_net env)) to paths caption)"
| "handle_command env online (Send_Sticker to path) = message_id env (send_sticker (ne_services (co_net env)) to path)"
| "handle_command env online (Download_File url name) = download_cmd env url name"
| "handle_command env online (Send_Webxdc_File to path) =
     act_bind (fresh_id (co_net env) ''webxdc'') (\<lambda>thread.
       message_id env (send_webxdc_file (ne_services (co_net env)) to path thread))"
| "handle_command env online (Send_Webxdc_Update to thread payload info doc summary note) =
     act_bind (fresh_id (co_net env) ''wxdc'') (\<lambda>i.
       on_world (send_webxdc_update (ne_services (co_net env)) to thread payload info doc summary note i))"
| "handle_command env online (Send_Webxdc_Realtime to thread data) =
     on_world (send_webxdc_realtime (ne_services (co_net env)) to thread data)"
| "handle_command env online (Set_Omemo_Trust jid dev trust) = set_trust_cmd env jid dev trust"
| "handle_command env online (Fetch_Own_Keys a) = emit_own_keys env a"
| "handle_command env online (Fetch_Contact_Keys a jid) = emit_contact_keys env a jid"
| "handle_command env online (Verify_Omemo_Fingerprints a jid fps) = verify_cmd env a jid fps"
| "handle_command env online (Reset_Omemo2_Identities a) = reset_keys_cmd env a"
| "handle_command env online (Regenerate_Omemo2_Identity a) = regenerate_cmd env a"
| "handle_command env online (Fetch_Vcard a jid is_muc) = fetch_vcard_cmd env a jid is_muc"
| "handle_command env online (Fetch_Subscription a jid) = fetch_subscription a jid"
| "handle_command env online (Set_Subscription a jid action) = set_subscription_cmd env a jid action"
| "handle_command env online (Set_Auto_Trust v) = update_keys env (\<lambda>db. ((), set_auto_trust_new_keys v db))"
| "handle_command env online (Set_Notify a jid mode) =
     act_seq (write_store (set_notify_mode a jid mode)) (list_conversations a)"
| "handle_command env online (Start_Private a occupant) =
     act_bind (on_store (conversation_id a occupant ''muc_pm'')) (\<lambda>_. list_conversations a)"
| "handle_command env online (Fetch_Feed a jid) =
     act_bind (fetch_feed (co_net env) (Some jid) jid) (\<lambda>posts. notify (Feed_Posts a jid posts))"
| "handle_command env online (Publish_Post a title content) =
     act_seq (publish_post (co_net env) title content) (own_feed env a)"
| "handle_command env online (Fetch_Comments a author i) = show_comments env a author i"
| "handle_command env online (Publish_Comment a author i content) =
     act_seq (publish_comment (co_net env) author i content) (show_comments env a author i)"
| "handle_command env online (Retract_Post a i) =
     act_seq (retract_item (co_net env) NS_MICROBLOG i) (own_feed env a)"
| "handle_command env online (Retract_Comment a author i comment) =
     act_seq (retract_comment (co_net env) author i comment) (show_comments env a author i)"
| "handle_command env online (Publish_Story a path title) = publish_story_cmd env a path title"
| "handle_command env online (Fetch_Stories a) = fetch_all_stories env a"
| "handle_command env online (Retract_Story a u) = retract_story_cmd env a u"

subsection \<open>Failures\<close>

datatype fail_ctx = Fail_Msg string string | Fail_File string | Fail_Story | Fail_Other

definition shown_name :: "string \<Rightarrow> string" where
  "shown_name path = file_name_or path path"

definition fail_ctx :: "command \<Rightarrow> fail_ctx" where
  "fail_ctx cmd = (case cmd of
     Send_Message to body _ _ _ \<Rightarrow> Fail_Msg to body
   | Send_File _ path _ \<Rightarrow> Fail_File (shown_name path)
   | Send_Sticker _ path \<Rightarrow> Fail_File (shown_name path)
   | Send_Webxdc_File _ path \<Rightarrow> Fail_File (shown_name path)
   | Send_Files _ paths _ \<Rightarrow> Fail_File (case paths of [p] \<Rightarrow> shown_name p | _ \<Rightarrow> show_nat (length paths) @ '' files'')
   | Publish_Story _ _ _ \<Rightarrow> Fail_Story
   | _ \<Rightarrow> Fail_Other)"

definition failure_event :: "i64 \<Rightarrow> fail_ctx \<Rightarrow> string \<Rightarrow> event" where
  "failure_event a ctx reason = (case ctx of
     Fail_Msg to body \<Rightarrow> Send_Failed a to body reason
   | Fail_File name \<Rightarrow> Toast (''Couldn'' @ [CHR 0x27] @ ''t send '' @ name @ '': '' @ reason) True
   | Fail_Story \<Rightarrow> Toast (''Couldn'' @ [CHR 0x27] @ ''t post story: '' @ reason) True
   | Fail_Other \<Rightarrow> Toast (''command failed: '' @ reason) False)"

text \<open>The spawned task; one that panics ends without a word.\<close>

definition run_command :: "('e, 'o) command_env \<Rightarrow> bool \<Rightarrow> command \<Rightarrow> ('e, 'o, unit) cli" where
  "run_command env online cmd = act_bind (result_of (handle_command env online cmd)) (\<lambda>r. case r of
     Inr _ \<Rightarrow> act_ret ()
   | Inl Panicked \<Rightarrow> act_ret ()
   | Inl e \<Rightarrow> notify (failure_event (ne_account (co_net env)) (fail_ctx cmd) (error_text e)))"

end
