(* ===== verification/Connection.thy ===== *)
theory Connection
  imports Commands Iq
begin

text \<open>
  The reader loop of the client (\<open>crates/mxc-proto/src/client.rs\<close>: \<open>run\<close>, \<open>connection_loop\<close>): the
  connection's state, the queue between the handlers and the socket, the reconnect timer, and the tasks
  the loop spawns.  One \<open>loop_input\<close> is one branch of the \<open>select!\<close> taking its turn, or another task
  using what it shares with the loop: queueing a stanza, waiting for the answer of a request, giving up.
  An input whose branch is not polled in a state changes nothing.

  tokio-xmpp is the source of the stream events; whether \<open>send_stanza\<close> succeeds is part of the input
  \<open>Drain\<close>, and which elements \<open>xso\<close> takes for stanzas is \<open>le_is_stanza\<close>.  What was taken from the
  queue is \<open>lp_taken\<close>, with whether it went out.
\<close>

datatype 'e task = Bootstrap | Flush_Outbox | Handle_Stanza 'e | Command_Task bool command

record 'e reader_loop =
  lp_running :: bool
  lp_online :: bool
  lp_backoff :: nat
  lp_timer :: "nat option"
  lp_clients :: nat
  lp_queue :: "'e list"
  lp_taken :: "('e \<times> bool) list"
  lp_iq :: "'e iq_state"
  lp_tasks :: "'e task list"
  lp_events :: "event list"

record 'e loop_env =
  le_dom :: "'e dom"
  le_is_stanza :: "'e \<Rightarrow> bool"

datatype 'e loop_input =
    Queued 'e | Asked string | Gave_Up nat
  | Drain bool
  | Closed | Online_As string bool | Lost string | Received 'e | Unreadable
  | Timer_Elapsed
  | Issued command | Commands_Closed

definition loop_start :: "'e reader_loop" where
  "loop_start = \<lparr>lp_running = True, lp_online = False, lp_backoff = 2, lp_timer = None, lp_clients = 1,
     lp_queue = [], lp_taken = [], lp_iq = iq_init, lp_tasks = [], lp_events = [Connection Connecting]\<rparr>"

text \<open>The branches polled, and the channels open.\<close>

definition polled :: "'e loop_input \<Rightarrow> 'e reader_loop \<Rightarrow> bool" where
  "polled i s \<longleftrightarrow> lp_running s \<and> (case i of
     Drain _ \<Rightarrow> lp_online s \<and> lp_queue s \<noteq> []
   | Closed \<Rightarrow> lp_timer s = None | Online_As _ _ \<Rightarrow> lp_timer s = None | Lost _ \<Rightarrow> lp_timer s = None
   | Received _ \<Rightarrow> lp_timer s = None | Unreadable \<Rightarrow> lp_timer s = None
   | Timer_Elapsed \<Rightarrow> lp_timer s \<noteq> None
   | _ \<Rightarrow> True)"

definition say :: "connection_state \<Rightarrow> 'e reader_loop \<Rightarrow> 'e reader_loop" where
  "say c s = s\<lparr>lp_events := lp_events s @ [Connection c]\<rparr>"

definition spawn :: "'e task list \<Rightarrow> 'e reader_loop \<Rightarrow> 'e reader_loop" where
  "spawn ts s = s\<lparr>lp_tasks := lp_tasks s @ ts\<rparr>"

definition drain_one :: "('e \<Rightarrow> bool) \<Rightarrow> bool \<Rightarrow> 'e reader_loop \<Rightarrow> 'e reader_loop" where
  "drain_one is_stanza sent s =
     s\<lparr>lp_queue := tl (lp_queue s),
       lp_taken := lp_taken s @ [(hd (lp_queue s), is_stanza (hd (lp_queue s)) \<and> sent)]\<rparr>"

definition stream_closed :: "'e reader_loop \<Rightarrow> 'e reader_loop" where
  "stream_closed s = (say (Disconnected ''reconnecting'') s)
     \<lparr>lp_online := False, lp_timer := Some (lp_backoff s), lp_backoff := min (lp_backoff s * 2) 30\<rparr>"

definition went_online :: "string \<Rightarrow> bool \<Rightarrow> 'e reader_loop \<Rightarrow> 'e reader_loop" where
  "went_online full_jid resumed s =
     spawn ((if resumed then [] else [Bootstrap]) @ [Flush_Outbox])
       ((say (Online full_jid) s)\<lparr>lp_online := True, lp_backoff := 2\<rparr>)"

definition stanza_received :: "'e dom \<Rightarrow> 'e \<Rightarrow> 'e reader_loop \<Rightarrow> 'e reader_loop" where
  "stanza_received d st s = (case try_resolve d st (lp_iq s) of (resolved, iqs) \<Rightarrow>
     if resolved then s\<lparr>lp_iq := iqs\<rparr> else spawn [Handle_Stanza st] s)"

definition take_command :: "command \<Rightarrow> 'e reader_loop \<Rightarrow> 'e reader_loop" where
  "take_command cmd s =
     (if cmd = Shutdown then s\<lparr>lp_running := False\<rparr> else spawn [Command_Task (lp_online s) cmd] s)"

primrec branch :: "'e loop_env \<Rightarrow> 'e loop_input \<Rightarrow> 'e reader_loop \<Rightarrow> 'e reader_loop" where
  "branch env (Queued e) s = s\<lparr>lp_queue := lp_queue s @ [e]\<rparr>"
| "branch env (Asked i) s = s\<lparr>lp_iq := snd (register i (lp_iq s))\<rparr>"
| "branch env (Gave_Up w) s = s\<lparr>lp_iq := give_up w (lp_iq s)\<rparr>"
| "branch env (Drain sent) s = drain_one (le_is_stanza env) sent s"
| "branch env Closed s = stream_closed s"
| "branch env (Online_As full_jid resumed) s = went_online full_jid resumed s"
| "branch env (Lost reason) s = (say (Disconnected reason) s)\<lparr>lp_online := False\<rparr>"
| "branch env (Received st) s = stanza_received (le_dom env) st s"
| "branch env Unreadable s = s"
| "branch env Timer_Elapsed s = (say Connecting s)\<lparr>lp_timer := None, lp_clients := lp_clients s + 1\<rparr>"
| "branch env (Issued cmd) s = take_command cmd s"
| "branch env Commands_Closed s = s\<lparr>lp_running := False\<rparr>"

definition loop_turn :: "'e loop_env \<Rightarrow> 'e loop_input \<Rightarrow> 'e reader_loop \<Rightarrow> 'e reader_loop" where
  "loop_turn env i s = (if polled i s then branch env i s else s)"

definition run_loop :: "'e loop_env \<Rightarrow> 'e loop_input list \<Rightarrow> 'e reader_loop \<Rightarrow> 'e reader_loop" where
  "run_loop env = fold (loop_turn env)"

lemma run_loop_simps [simp]:
  "run_loop env [] s = s"
  "run_loop env (i # is) s = run_loop env is (loop_turn env i s)"
  "run_loop env (is @ js) s = run_loop env js (run_loop env is s)"
  by (simp_all add: run_loop_def)

text \<open>\<open>run\<close>: an address that does not parse ends the client before the loop; so does having no account.\<close>

definition start_client :: "string option \<Rightarrow> (string \<Rightarrow> string option) \<Rightarrow> event list \<times> 'e reader_loop option" where
  "start_client jid invalid = (case jid of
     None \<Rightarrow> ([], None)
   | Some j \<Rightarrow> (case invalid j of
       Some e \<Rightarrow> ([Connection Connecting, Connection (Disconnected (''invalid jid '' @ j @ '': '' @ e))], None)
     | None \<Rightarrow> ([Connection Connecting], Some loop_start)))"

lemmas branch_defs = say_def spawn_def drain_one_def stream_closed_def went_online_def stanza_received_def
  take_command_def

subsection \<open>The reconnect timer\<close>

definition delays :: "nat set" where "delays = {2, 4, 8, 16, 30}"

definition timer_ok :: "'e reader_loop \<Rightarrow> bool" where
  "timer_ok s \<longleftrightarrow> lp_backoff s \<in> delays
     \<and> (\<forall>d. lp_timer s = Some d \<longrightarrow> d \<in> delays \<and> \<not> lp_online s)"

lemma timer_ok_turn: "timer_ok s \<Longrightarrow> timer_ok (loop_turn env i s)"
  by (cases i) (auto simp: loop_turn_def polled_def timer_ok_def branch_defs delays_def split: prod.splits)

interpretation loop: invariant_machine "\<lambda>s t. \<exists>i. t = loop_turn env i s" timer_ok for env
  by unfold_locales (auto simp: timer_ok_turn)

lemma run_loop_steps: "(\<lambda>s t. \<exists>i. t = loop_turn env i s)\<^sup>*\<^sup>* s (run_loop env is s)"
proof (induction "is" rule: rev_induct)
  case (snoc i "is")
  then show ?case by simp (blast intro: rtranclp.rtrancl_into_rtrancl)
qed simp

text \<open>
  Whatever happens, and in whatever order, the client waits 2, 4, 8, 16 or 30 seconds before it
  connects again, and while it waits it does not take itself for connected.
\<close>

theorem reconnect_delays_bounded:
  "let s = run_loop env is loop_start in
     lp_backoff s \<in> {2, 4, 8, 16, 30}
     \<and> (case lp_timer s of None \<Rightarrow> True | Some d \<Rightarrow> d \<in> {2, 4, 8, 16, 30} \<and> \<not> lp_online s)"
proof -
  have "timer_ok loop_start" by (simp add: timer_ok_def loop_start_def delays_def)
  from loop.run_inv[OF run_loop_steps this, of env "is"] show ?thesis
    unfolding timer_ok_def delays_def Let_def by (cases "lp_timer (run_loop env is loop_start)") simp_all
qed

text \<open>An outage: the stream ends, the timer elapses, the next attempt fails, and so on.\<close>

definition outage :: "nat \<Rightarrow> 'e loop_input list" where
  "outage n = concat (replicate n [Closed, Timer_Elapsed])"

lemma outage_Suc: "outage (Suc n) = outage n @ [Closed, Timer_Elapsed]"
  by (induction n) (simp_all add: outage_def)

lemma after_outage:
  assumes "lp_running s" "lp_timer s = None" "lp_backoff s = 2"
  shows "let t = run_loop env (outage n) s in
     lp_running t \<and> lp_timer t = None \<and> lp_backoff t = min (2 ^ (n + 1)) 30 \<and> lp_clients t = lp_clients s + n"
proof (induction n)
  case 0
  then show ?case using assms by (simp add: outage_def)
next
  case (Suc n)
  then show ?case
    by (simp add: outage_Suc loop_turn_def polled_def branch_defs Let_def)
qed

text \<open>
  The client keeps trying: after any number of failed attempts in a row it is still running, has
  made one new connection for each, and its next wait is the double of the last, up to 30 seconds.
\<close>

theorem reconnect_schedule:
  assumes "lp_running s" "lp_timer s = None" "lp_backoff s = 2"
  shows "let t = run_loop env (outage n @ [Closed]) s in
     lp_running t \<and> lp_timer t = Some (min (2 ^ (n + 1)) 30) \<and> lp_clients t = lp_clients s + n"
  using after_outage[OF assms, of env n]
  by (simp add: Let_def loop_turn_def polled_def branch_defs)

theorem reconnect_schedule_witness:
  "let env = \<lparr>le_dom = tree_dom, le_is_stanza = \<lambda>_. True\<rparr> in
     lp_timer (run_loop env (outage 2 @ [Closed]) loop_start) = Some 8
   \<and> lp_timer (run_loop env (outage 9 @ [Closed]) loop_start) = Some 30"
  using reconnect_schedule[of loop_start "\<lparr>le_dom = tree_dom, le_is_stanza = \<lambda>_. True\<rparr>" 2]
    reconnect_schedule[of loop_start "\<lparr>le_dom = tree_dom, le_is_stanza = \<lambda>_. True\<rparr>" 9]
  by (simp add: loop_start_def Let_def)

subsection \<open>The queue\<close>

text \<open>
  A machine with a line of things: what was taken from it and what waits in it, read in a row, grow by
  what a step puts in at the end.
\<close>

locale line_machine =
  fixes turn :: "'i \<Rightarrow> 's \<Rightarrow> 's" and taken :: "'s \<Rightarrow> 'a list" and waiting :: "'s \<Rightarrow> 'a list"
    and joins :: "'i \<Rightarrow> 's \<Rightarrow> 'a list"
  assumes turn_line: "taken (turn i s) @ waiting (turn i s) = taken s @ waiting s @ joins i s"
begin

fun joined :: "'i list \<Rightarrow> 's \<Rightarrow> 'a list" where
  "joined [] s = []"
| "joined (i # is) s = joins i s @ joined is (turn i s)"

lemma run_line: "taken (fold turn is s) @ waiting (fold turn is s) = taken s @ waiting s @ joined is s"
proof (induction "is" arbitrary: s)
  case (Cons i "is")
  have "taken (fold turn is (turn i s)) @ waiting (fold turn is (turn i s))
      = (taken (turn i s) @ waiting (turn i s)) @ joined is (turn i s)"
    using Cons[of "turn i s"] by simp
  then show ?case by (simp only: turn_line) simp
qed simp

end

definition queues :: "'e loop_input \<Rightarrow> 'e reader_loop \<Rightarrow> 'e list" where
  "queues i s = (if lp_running s then (case i of Queued e \<Rightarrow> [e] | _ \<Rightarrow> []) else [])"

lemma loop_turn_line:
  "map fst (lp_taken (loop_turn env i s)) @ lp_queue (loop_turn env i s)
   = map fst (lp_taken s) @ lp_queue s @ queues i s"
  by (cases i; cases "lp_queue s")
     (auto simp: loop_turn_def polled_def branch_defs queues_def split: prod.splits)

interpretation outbound: line_machine "loop_turn env" "\<lambda>s. map fst (lp_taken s)" lp_queue queues for env
  by unfold_locales (rule loop_turn_line)

definition stops :: "'e loop_input \<Rightarrow> bool" where
  "stops i \<longleftrightarrow> i = Issued Shutdown \<or> i = Commands_Closed"

definition queued_in :: "'e loop_input list \<Rightarrow> 'e list" where
  "queued_in is = List.map_filter (\<lambda>i. case i of Queued e \<Rightarrow> Some e | _ \<Rightarrow> None) (takeWhile (\<lambda>i. \<not> stops i) is)"

lemma running_turn: "lp_running (loop_turn env i s) \<longleftrightarrow> lp_running s \<and> \<not> stops i"
  by (cases i) (auto simp: loop_turn_def polled_def branch_defs stops_def split: prod.splits)

lemma running_run: "lp_running (run_loop env is s) \<longleftrightarrow> lp_running s \<and> (\<forall>i\<in>set is. \<not> stops i)"
  by (induction "is" arbitrary: s) (auto simp: running_turn)

lemma joined_queued: "outbound.joined env is s = (if lp_running s then queued_in is else [])"
proof (induction "is" arbitrary: s)
  case (Cons i "is")
  show ?case unfolding outbound.joined.simps Cons running_turn
    by (cases i) (auto simp: queues_def queued_in_def stops_def List.map_filter_simps)
qed (simp add: queued_in_def List.map_filter_simps)

text \<open>
  C11: The way out is a queue: over every run of the client, what was taken for the socket followed by
  what still waits is exactly what the handlers queued before the client was shut down, in their order -
  nothing is taken twice, overtaken or invented.
\<close>

theorem stanzas_leave_in_order:
  "map fst (lp_taken (run_loop env is loop_start)) @ lp_queue (run_loop env is loop_start) = queued_in is"
  using outbound.run_line[of env "is" loop_start] joined_queued[of env "is" loop_start]
  by (simp add: run_loop_def loop_start_def)

text \<open>
  Only the interface ends the client: it runs until the command \<open>Shutdown\<close> or the end of the
  commands, whatever the network does.
\<close>

theorem only_shutdown_stops:
  "lp_running (run_loop env is loop_start) \<longleftrightarrow> list_all (\<lambda>i. \<not> stops i) is"
  by (simp add: running_run loop_start_def list_all_iff)

subsection \<open>Offline and online\<close>

definition comes_online :: "'e loop_input \<Rightarrow> bool" where
  "comes_online i \<longleftrightarrow> (case i of Online_As _ _ \<Rightarrow> True | _ \<Rightarrow> False)"

lemma offline_turn:
  "\<not> lp_online s \<Longrightarrow> \<not> comes_online i \<Longrightarrow>
   \<not> lp_online (loop_turn env i s) \<and> lp_taken (loop_turn env i s) = lp_taken s"
  by (cases i) (auto simp: loop_turn_def polled_def branch_defs comes_online_def split: prod.splits)

text \<open>Until a session is up, nothing is handed to the socket.\<close>

lemma offline_sends_nothing:
  "\<not> lp_online s \<Longrightarrow> list_all (\<lambda>i. \<not> comes_online i) is \<Longrightarrow> lp_taken (run_loop env is s) = lp_taken s"
  using offline_turn by (induction "is" arbitrary: s) fastforce+

lemma drain_all:
  "lp_running s \<Longrightarrow> lp_online s \<Longrightarrow> run_loop env (replicate (length (lp_queue s)) (Drain True)) s
     = s\<lparr>lp_queue := [], lp_taken := lp_taken s @ map (\<lambda>e. (e, le_is_stanza env e)) (lp_queue s)\<rparr>"
proof (induction "lp_queue s" arbitrary: s)
  case (Cons e q)
  have turn: "loop_turn env (Drain True) s
      = s\<lparr>lp_queue := q, lp_taken := lp_taken s @ [(e, le_is_stanza env e)]\<rparr>"
    using Cons.prems Cons.hyps(2)[symmetric] by (simp add: loop_turn_def polled_def drain_one_def)
  then show ?case
    using Cons.hyps(1)[of "loop_turn env (Drain True) s"] Cons.prems Cons.hyps(2)[symmetric] by simp
qed simp

lemma queue_all:
  "lp_running s \<Longrightarrow> run_loop env (map Queued els) s = s\<lparr>lp_queue := lp_queue s @ els\<rparr>"
  by (induction els arbitrary: s) (simp_all add: loop_turn_def polled_def)

text \<open>
  A stanza whose \<open>send_stanza\<close> fails is gone: it is in no queue, and the message it carries was marked
  as sent when it was queued (\<open>Outgoing.send_message\<close>), so no flush takes it up again.
\<close>

lemma failed_send_loses_stanza:
  "let s = run_loop env [Online_As j r, Queued e, Drain False] loop_start in
     lp_queue s = [] \<and> lp_taken s = [(e, False)]"
  by (simp add: loop_start_def loop_turn_def polled_def branch_defs)

end
