(* ===== verification/Client_Runs.thy ===== *)
theory Client_Runs
  imports Connection Commands_Laws Archive_Laws Presence_Laws Upload
begin

text \<open>
  The parts of the client together: a text composed offline goes through the command, the store, the
  outbox, the queue and the reader loop to the socket.  Below it the runs on concrete clients at which
  the properties of the protocol theories are instantiated, and what runs show that nothing prevents.
\<close>

subsection \<open>From the composer to the socket\<close>

definition flush_cmd :: "('e, 'o) command_env \<Rightarrow> ('e, 'o, unit) cli" where
  "flush_cmd env = on_world (flush_outbox (ne_services (co_net env)))"

definition reconnected :: "'e loop_env \<Rightarrow> string \<Rightarrow> 'e list \<Rightarrow> 'e reader_loop \<Rightarrow> 'e reader_loop" where
  "reconnected env full_jid els l =
     run_loop env (Online_As full_jid True # map Queued els
       @ replicate (length (lp_queue l) + length els) (Drain True)) l"

lemma reconnected_taken:
  assumes "lp_running l" "lp_timer l = None"
  shows "lp_taken (reconnected env j els l) = lp_taken l @ map (\<lambda>e. (e, le_is_stanza env e)) (lp_queue l @ els)"
proof -
  let ?l = "run_loop env (Online_As j True # map Queued els) l"
  have on: "lp_running ?l" "lp_online ?l" "lp_queue ?l = lp_queue l @ els" "lp_taken ?l = lp_taken l"
    using assms by (simp_all add: loop_turn_def polled_def branch_defs queue_all)
  have "reconnected env j els l = run_loop env (replicate (length (lp_queue ?l)) (Drain True)) ?l"
    unfolding reconnected_def run_loop_simps(3)[of env "Online_As j True # map Queued els", simplified append_Cons]
      on(3) length_append by simp
  then show ?thesis unfolding drain_all[OF on(1,2)] by (simp only: on) simp
qed

text \<open>
  C3: A text composed while offline reaches the socket once the session is back: the command stores it,
  the flush of the reconnect queues a stanza with its id and recipient, and draining hands that stanza
  to the connection as the last step of the way.
\<close>

theorem offline_text_reaches_socket:
  assumes "limit_one (sv_pick (ne_services (co_net env)))" and "message_db_ok (cs_messages s)"
    and "ne_account (co_net env) \<in> set (t_accounts (cs_messages s))"
    and "\<forall>(_, r)\<in>set (t_messages (cs_messages s)). \<not> has_marker i r"
    and "dom_sound (ne_dom (co_net env))" and "sv_connected (ne_services (co_net env))"
    and "let db = cs_messages (snd (run_command env False (Send_Message to body enc reply (Some i)) s)) in
      \<forall>m\<in>set (pending_messages (ne_account (co_net env)) db). sendable (ne_services (co_net env)) db m"
    and "lp_running l" "lp_timer l = None" and "\<forall>e. le_is_stanza lenv e"
  shows "\<exists>t u. run_command env False (Send_Message to body enc reply (Some i)) s = (Inr (), t)
    \<and> flush_cmd env t = (Inr (), u)
    \<and> (\<exists>el. (el, True) \<in> set (lp_taken (reconnected lenv j (drop (length (cs_sent s)) (cs_sent u)) l))
        \<and> d_attr (ne_dom (co_net env)) el ''id'' = Some i \<and> d_attr (ne_dom (co_net env)) el ''to'' = Some to)"
proof -
  let ?sv = "ne_services (co_net env)"
  obtain w where w: "send_message ?sv to body enc reply False i (cs_world s) = (Inr (), w)" "w_sent w = cs_sent s"
    "\<lparr>pend_origin_id = i, pend_to = to, pend_body = body, pend_encryption = enc_str enc,
       pend_reply_to = reply\<rparr> \<in> set (pending_messages (sv_account ?sv) (w_messages w))"
    using offline_text_queued[OF assms(1-4), of to body enc reply] by blast
  let ?ms = "pending_messages (sv_account ?sv) (w_messages w)"
  have run: "run_command env False (Send_Message to body enc reply (Some i)) s = (Inr (), s\<lparr>cs_world := w\<rparr>)"
    using w(1) by (simp add: run_command_def result_of_def act_simps on_world_def)
  have "\<forall>m\<in>set ?ms. sendable ?sv (w_messages w) m" using assms(7) by (simp add: run Let_def)
  from flush_all[OF assms(5,6) this] obtain w' els where f: "act_iter (flush_one ?sv) ?ms w = (Inr (), w')"
    "w_sent w' = w_sent w @ els"
    and ids: "map (\<lambda>el. (d_attr (sv_dom ?sv) el ''to'', d_attr (sv_dom ?sv) el ''id'')) els
      = map (\<lambda>m. (Some (pend_to m), Some (pend_origin_id m))) ?ms" by blast
  have flush: "flush_cmd env (s\<lparr>cs_world := w\<rparr>) = (Inr (), s\<lparr>cs_world := w'\<rparr>)"
    by (simp add: flush_cmd_def on_world_def flush_outbox_def act_simps f(1))
  have "(Some to, Some i) \<in> set (map (\<lambda>m. (Some (pend_to m), Some (pend_origin_id m))) ?ms)"
    using w(3) by force
  then obtain el where el: "el \<in> set els" "d_attr (sv_dom ?sv) el ''to'' = Some to" "d_attr (sv_dom ?sv) el ''id'' = Some i"
    unfolding ids[symmetric] by auto
  have "drop (length (cs_sent s)) (w_sent w') = els" using f(2) w(2) by simp
  moreover have "(el, True) \<in> set (lp_taken (reconnected lenv j els l))"
    using el(1) assms(10) by (auto simp: reconnected_taken[OF assms(8,9)])
  ultimately show ?thesis
    by (intro exI[of _ "s\<lparr>cs_world := w\<rparr>"] exI[of _ "s\<lparr>cs_world := w'\<rparr>"]) (auto simp: run flush el intro!: exI[of _ el])
qed

subsection \<open>Concrete clients\<close>

definition silent :: "tree \<Rightarrow> (tree, unit) client \<Rightarrow> tree wait \<times> (tree, unit) client" where
  "silent req s = (Timed_Out, s)"

definition toy_net :: "(tree, unit) client_env" where
  "toy_net = toy_client_env silent"

definition toy_commands :: "(tree, unit) command_env" where
  "toy_commands = \<lparr>co_net = toy_net, co_keys = (\<lambda>_. empty_omemo_db), co_put_keys = (\<lambda>_ o'. o'), co_sha3 = id,
     co_restart_engine = id, co_regenerate = (\<lambda>o'. (Inr (), o')), co_upload_plain = (\<lambda>_ _ _ o'. (Inr ''https://h/f'', o')),
     co_download = (\<lambda>_ o'. (Inl ''offline'', o')), co_download_dir = ''/d'', co_write_error = ''full'', co_minute = (\<lambda>_. '''')\<rparr>"

definition toy_loop_env :: "tree loop_env" where
  "toy_loop_env = \<lparr>le_dom = tree_dom, le_is_stanza = (\<lambda>_. True)\<rparr>"

lemma toy_commands_parts [simp]:
  "co_net toy_commands = toy_net" "ne_services toy_net = toy_sv" "le_is_stanza toy_loop_env e"
  by (simp_all add: toy_commands_def toy_net_def toy_client_env_def toy_loop_env_def)

lemma toy_parts:
  "cs_messages (toy_client db) = db" "cs_sent (toy_client db) = []" "cs_events (toy_client db) = []"
  "t_accounts (empty_message_db [7]) = [7]" "t_messages (empty_message_db [7]) = []" "message_db_ok (empty_message_db [7])"
  by (simp_all add: toy_client_def toy_world_def empty_message_db_def)
     (simp add: empty_message_db_def[symmetric])

theorem offline_text_reaches_socket_witness:
  "\<exists>t u. run_command toy_commands False (Send_Message ''bob@x'' ''hi'' Encryption_None None (Some ''m1''))
        (toy_client (empty_message_db [7])) = (Inr (), t)
    \<and> flush_cmd toy_commands t = (Inr (), u)
    \<and> (\<exists>el. (el, True) \<in> set (lp_taken (reconnected toy_loop_env ''me@y/r'' (cs_sent u) loop_start))
        \<and> d_attr tree_dom el ''id'' = Some ''m1'' \<and> d_attr tree_dom el ''to'' = Some ''bob@x'')"
proof -
  have db: "\<forall>(_, r)\<in>set (t_messages (cs_messages (toy_client (empty_message_db [7])))). \<not> has_marker ''m1'' r"
    by (simp add: toy_parts)
  let ?run = "run_command toy_commands False (Send_Message ''bob@x'' ''hi'' Encryption_None None (Some ''m1''))
        (toy_client (empty_message_db [7]))"
  let ?w = "toy_world (empty_message_db [7])"
  let ?out = "send_message toy_sv ''bob@x'' ''hi'' Encryption_None None False ''m1'' ?w"
  have ran: "fst ?out = Inr ()"
    using offline_text_queued[of toy_sv ?w "''m1''" "''bob@x''" "''hi''" Encryption_None None] by (auto simp: toy_parts)
  have plain: "list_all (\<lambda>m. pend_encryption m \<noteq> ''omemo2'') (pending_messages 7 (w_messages (snd ?out)))"
    by code_simp
  have "cs_messages (snd ?run) = w_messages (snd ?out)"
    using ran by (cases ?out) (simp add: run_command_def result_of_def act_simps on_world_def toy_client_def)
  with plain have "\<forall>m\<in>set (pending_messages 7 (cs_messages (snd ?run))). pend_encryption m \<noteq> ''omemo2''"
    by (simp add: list_all_iff)
  then have "let db = cs_messages (snd ?run) in \<forall>m\<in>set (pending_messages 7 db). sendable toy_sv db m"
    by (simp add: Let_def sendable_def)
  then show ?thesis
    using offline_text_reaches_socket[of toy_commands "toy_client (empty_message_db [7])" "''m1''" "''bob@x''" "''hi''"
      Encryption_None None loop_start toy_loop_env "''me@y/r''", OF _ _ _ db] tree_dom_sound
    by (simp add: toy_parts loop_start_def)
qed


definition leaf :: "string \<Rightarrow> string \<Rightarrow> (string \<times> string) list \<Rightarrow> tree" where
  "leaf n ns attrs = Tree n ns attrs [] []"

definition roster_query :: "(string \<times> string) list list \<Rightarrow> tree" where
  "roster_query items = Tree ''query'' NS_ROSTER [] (map (leaf ''item'' NS_ROSTER) items) []"

theorem roster_stanza_refines_witness:
  "\<exists>t. handle_roster_payload toy_net (roster_query [[(''jid'', ''a@x''), (''subscription'', ''both'')], [(''jid'', ''b@x'')],
        [(''jid'', ''a@x''), (''subscription'', ''remove'')]]) (toy_client (empty_message_db [7])) = (Inr (), t)
    \<and> roster_map 7 (cs_db t) ''a@x'' = None
    \<and> map_option ros_subscription (roster_map 7 (cs_db t) ''b@x'') = Some ''none''"
proof -
  let ?q = "roster_query [[(''jid'', ''a@x''), (''subscription'', ''both'')], [(''jid'', ''b@x'')],
        [(''jid'', ''a@x''), (''subscription'', ''remove'')]]"
  have known: "account_known (ne_account toy_net) (cs_db (toy_client (empty_message_db [7])))"
    by (simp add: toy_net_def account_known_def empty_client_db_def)
  have means: "roster_spec tree_dom ?q m ''a@x'' = None"
    "map_option ros_subscription (roster_spec tree_dom ?q m ''b@x'') = Some ''none''" for m
    by (simp_all add: roster_spec_def roster_query_def leaf_def named_def apply_item_def roster_row_def
        attr_or_empty_def tree_dom_def Let_def)
  show ?thesis
    using roster_stanza_refines[OF known, of ?q] means by (auto simp: toy_net_def)
qed

definition subscribe_from :: "string \<Rightarrow> tree" where
  "subscribe_from jid = leaf ''presence'' NS_CLIENT [(''from'', jid), (''type'', ''subscribe'')]"

theorem approval_needs_grant_witness:
  "approvals toy_net ''a@x'' (presence_run toy_net [subscribe_from ''a@x'', subscribe_from ''a@x'']
     ((toy_client (empty_message_db [7]))\<lparr>cs_db := set_presence_preapproval 7 ''a@x'' empty_client_db\<rparr>)) \<le> 1"
proof -
  have "nobody_else_approves toy_net ''a@x''"
    by (simp add: nobody_else_approves_def toy_net_def toy_client_env_def silent_def)
  moreover have "dom_sound (ne_dom toy_net)" using tree_dom_sound by (simp add: toy_net_def)
  ultimately show ?thesis
    using approval_needs_grant[of toy_net "''a@x''" "[subscribe_from ''a@x'', subscribe_from ''a@x'']"
        "(toy_client (empty_message_db [7]))\<lparr>cs_db := set_presence_preapproval 7 ''a@x'' empty_client_db\<rparr>"]
    by (simp add: approvals_def grants_def toy_client_def toy_world_def split: if_splits)
qed

subsection \<open>Uploads\<close>

definition slot_answer :: "tree \<Rightarrow> (tree, unit) client \<Rightarrow> tree wait \<times> (tree, unit) client" where
  "slot_answer req s = (Answered (Tree ''iq'' NS_CLIENT [(''type'', ''result'')] [Tree ''slot'' NS_UPLOAD []
     [leaf ''put'' NS_UPLOAD [(''url'', ''https://up/1'')], leaf ''get'' NS_UPLOAD [(''url'', ''https://get/1'')]] []] []), s)"

definition toy_upload_env :: "(tree, unit) upload_env" where
  "toy_upload_env = \<lparr>up_net = toy_client_env slot_answer, up_random = (\<lambda>n. replicate 44 (word_of_nat n)),
     up_seal = (\<lambda>k iv pt. Inr (k @ iv @ pt)), up_open = (\<lambda>k iv ct. Inr (drop (length k + length iv) ct)),
     up_put = (\<lambda>_ _ _. Inr \<lparr>http_success = True, http_status = ''201'', http_bytes = Inr []\<rparr>),
     up_get = (\<lambda>_. Inr \<lparr>http_success = True, http_status = ''200'', http_bytes = Inr (replicate 44 0 @ [1, 2, 3])\<rparr>),
     up_hex_error = (\<lambda>_. ''bad'')\<rparr>"

definition toy_uploader :: "(tree, unit) uploader" where
  "toy_uploader = \<lparr>ul_client = toy_client (empty_message_db [7]), ul_services = (\<lambda>_. Some ''up''), ul_http = [], ul_draws = 0\<rparr>"

abbreviation "toy_link \<equiv> ''aesgcm'' @ ''://get/1'' @ ''#'' @ hex_encode (replicate 44 0)"

lemma toy_upload_runs:
  "(case upload_encrypted toy_upload_env [1, 2, 3] ''f'' ''text/plain'' toy_uploader of (r, t) \<Rightarrow>
      r = Inr toy_link \<and> ul_http t = [Put ''https://up/1'' [(''Content-Type'', ''text/plain'')] (replicate 44 0 @ [1, 2, 3])])"
  by code_simp

theorem upload_download_roundtrip_witness:
  "fst (download_any toy_upload_env toy_link toy_uploader) = Inr [1, 2, 3]"
proof -
  have sound: "gcm_sound toy_upload_env" by (simp add: gcm_sound_def toy_upload_env_def)
  have len: "length (up_random toy_upload_env n) = 44" for n by (simp add: toy_upload_env_def)
  have no_hash: "CHR ''#'' \<notin> set (hex_encode (replicate 44 0))" by (rule hash_not_in_hex)
  obtain t where "upload_encrypted toy_upload_env [1, 2, 3] ''f'' ''text/plain'' toy_uploader = (Inr toy_link, t)"
    and "ul_http t = ul_http toy_uploader @ [Put ''https://up/1'' [(''Content-Type'', ''text/plain'')] (replicate 44 0 @ [1, 2, 3])]"
    using toy_upload_runs by (auto simp: toy_uploader_def split: prod.splits)
  from upload_download_roundtrip[OF sound len this refl, of "''200''" toy_uploader] no_hash show ?thesis
    by (simp add: toy_upload_env_def starts_with_iff)
qed

theorem fragment_stays_local_witness:
  "ul_http (snd (download_any toy_upload_env (''aesgcm://'' @ ''get/1'' @ ''#'' @ ''00'') toy_uploader))
    \<in> {[], [Get (''https://'' @ ''get/1'')]}"
proof -
  have "CHR ''#'' \<notin> set ''get/1''" by simp
  from fragment_stays_local[OF this, of toy_upload_env "''00''" toy_uploader] show ?thesis
    by (simp add: toy_uploader_def)
qed

theorem long_nonce_panics_witness:
  "fst (aesgcm_decrypt toy_upload_env (replicate 48 0) [] toy_uploader) = Inl Panicked"
  by (rule long_nonce_panics) simp

subsection \<open>What nothing prevents\<close>

definition roster_iq :: "string \<Rightarrow> string \<Rightarrow> (string \<times> string) list list \<Rightarrow> tree" where
  "roster_iq frm ty items = Tree ''iq'' NS_CLIENT [(''from'', frm), (''type'', ty), (''id'', ''x1'')] [roster_query items] []"

text \<open>A roster stanza is believed whoever sent it, even as the answer to nothing.\<close>

lemma stranger_edits_roster:
  "map ros_jid (roster 7 (cs_db (snd (handle_stanza toy_net (roster_iq ''mallory@z/r'' ''result''
     [[(''jid'', ''bank@x''), (''name'', ''Bank''), (''subscription'', ''both'')]])
     (toy_client (empty_message_db [7])))))) = [''bank@x'']"
  by code_simp

text \<open>A contact that the server no longer lists stays in the table after the next fetch.\<close>

lemma dropped_contact_stays:
  "roster_item_of 7 ''old@x'' (cs_db s) = Some r \<Longrightarrow> account_known 7 (cs_db s) \<Longrightarrow>
   roster_item_of 7 ''old@x'' (cs_db (snd (handle_roster_payload toy_net (roster_query []) s))) = Some r"
  by (simp add: handle_roster_payload_def roster_query_def named_def toy_net_def tree_dom_def act_simps)

text \<open>The author of a comment is who the comment says, on a node anybody may publish to.\<close>

definition forged_comment :: tree where
  "forged_comment = Tree ''entry'' NS_ATOM [] [Tree ''title'' NS_ATOM [] [] ''hi'',
     Tree ''author'' NS_ATOM [] [Tree ''uri'' NS_ATOM [] [] ''xmpp:boss@x''] []] []"

lemma comment_author_is_claimed:
  "map_option post_author (case fst (parse_comment toy_net (Some ''i'', forged_comment)
      (toy_client (empty_message_db [7]))) of Inr p \<Rightarrow> p | Inl _ \<Rightarrow> None) = Some ''boss@x''"
  by code_simp

subsection \<open>Posts\<close>

theorem published_post_roundtrip_witness:
  "fst (parse_post toy_net ''o@x'' (Some ''i1'', post_entry tree_dom ''me@y'' ''i1'' ''Hello'' ''World''
      (rfc3339_now toy_chrono 7000000000)) (toy_client (empty_message_db [7])))
    = Inr (Some \<lparr>post_id = ''i1'', post_author = ''me@y'', post_title = ''Hello'', post_content = ''World'',
        post_published = 7, post_link = [], post_attachment_url = [], post_attachment_type = []\<rparr>)"
proof -
  have "str_trim (rfc3339_now toy_chrono 7000000000) = rfc3339_now toy_chrono 7000000000"
    "str_trim ''Hello'' \<noteq> []" by code_simp+
  then show ?thesis
    using published_post_roundtrip[of toy_net "''Hello''" "''World''" "''i1''" "''me@y''" 7000000000 "''o@x''"
        "toy_client (empty_message_db [7])"] tree_dom_sound toy_chrono_sound
    by (simp add: toy_net_def toy_client_env_def toy_sv_def)
qed

end
