(* ===== verification/App_Host.thy ===== *)
theory App_Host
  imports Commands Webxdc
begin

text \<open>
  The window of a mini-app (\<open>crates/mxc-app-qt/src/webxdc.rs\<close>): unpacking the app, the live instance
  and its cursor into the update log, the tasks that push updates into the page, and the messages the
  page posts back, which become commands of the client.

  The code runs on several threads that share \<open>LIVE\<close> behind a lock, so \<open>push_updates\<close> is a task with
  three steps: reading the cursor, querying the log, and moving the cursor with the push.  JSON,
  unpacking, the download, the hash and the alphabet of \<open>char::is_alphanumeric\<close> are fields of \<open>app_env\<close>;
  creating directories and writing into them succeeds.  The script injected into the page is only
  present in what it posts.
\<close>

type_synonym files = "string \<rightharpoonup> bytes"
type_synonym update = "i64 \<times> update_row"

record zip_entry =
  ze_name :: "string option"
  ze_dir :: bool
  ze_bytes :: bytes
  ze_error :: "string option"

record app_env =
  be_account :: i64
  be_client :: "string option"
  be_parses :: "string \<Rightarrow> bool"
  be_string :: "string \<Rightarrow> string \<Rightarrow> string option"
  be_int :: "string \<Rightarrow> string \<Rightarrow> i64 option"
  be_b64 :: base64
  be_alnum :: "string \<Rightarrow> bool"
  be_hash :: "string \<Rightarrow> string"
  be_cache :: string
  be_media_path :: "string \<Rightarrow> string"
  be_download :: "string \<Rightarrow> string + bytes"
  be_write_ok :: "string \<Rightarrow> bool"
  be_fingerprint :: "string \<Rightarrow> string option"
  be_unzip :: "bytes \<Rightarrow> string + (string + zip_entry) list"

record live_app =
  la_thread :: string
  la_peer :: string
  la_last :: i64

datatype push = Called string | Reading string i64 | Loaded string "update list"

record app_host =
  ah_live :: "live_app option"
  ah_files :: files
  ah_log :: webxdc_db
  ah_tasks :: "push list"
  ah_pushed :: "(string \<times> update list) list"
  ah_realtime :: "(string \<times> string) list"
  ah_roots :: "(string \<times> string) list"
  ah_commands :: "command list"

subsection \<open>Unpacking\<close>

definition safe_thread :: "app_env \<Rightarrow> string \<Rightarrow> string" where
  "safe_thread env thread = concat (filter (\<lambda>ch. be_alnum env ch \<or> ch = ''-'') (str_chars thread))"

definition app_dir :: "app_env \<Rightarrow> string \<Rightarrow> string" where
  "app_dir env thread = path_join (be_cache env) (safe_thread env thread)"

definition under :: "string \<Rightarrow> string \<Rightarrow> bool" where
  "under dir p \<longleftrightarrow> starts_with p (path_join dir [])"

definition remove_dir_all :: "string \<Rightarrow> files \<Rightarrow> files" where
  "remove_dir_all dir fs = (\<lambda>p. if under dir p then None else fs p)"

fun unpack :: "string \<Rightarrow> (string + zip_entry) list \<Rightarrow> files \<Rightarrow> (string + unit) \<times> files" where
  "unpack dir [] fs = (Inr (), fs)"
| "unpack dir (Inl e # entries) fs = (Inl e, fs)"
| "unpack dir (Inr z # entries) fs = (case ze_name z of
     None \<Rightarrow> unpack dir entries fs
   | Some rel \<Rightarrow>
       if ze_dir z then unpack dir entries fs
       else (let fs' = fs(path_join dir rel \<mapsto> ze_bytes z) in
         case ze_error z of Some e \<Rightarrow> (Inl e, fs') | None \<Rightarrow> unpack dir entries fs'))"

definition unpacked_before :: "string \<Rightarrow> string option \<Rightarrow> files \<Rightarrow> bool" where
  "unpacked_before dir mark fs \<longleftrightarrow> (case mark of None \<Rightarrow> False
     | Some fp \<Rightarrow> fs (path_join dir ''index.html'') \<noteq> None \<and> fs (path_join dir ''.xdc-src'') = Some (str_bytes fp))"

definition extract_xdc :: "app_env \<Rightarrow> string \<Rightarrow> string \<Rightarrow> files \<Rightarrow> (string + string) \<times> files" where
  "extract_xdc env path thread fs =
     (let dir = app_dir env thread; mark = be_fingerprint env path in
      if unpacked_before dir mark fs then (Inr dir, fs)
      else (let fs = remove_dir_all dir fs in
        case fs path of None \<Rightarrow> (Inl ''not found'', fs)
        | Some bs \<Rightarrow> (case be_unzip env bs of Inl e \<Rightarrow> (Inl e, fs)
          | Inr entries \<Rightarrow> (case unpack dir entries fs of (Inl e, fs) \<Rightarrow> (Inl e, fs)
            | (Inr _, fs) \<Rightarrow> (Inr dir, case mark of None \<Rightarrow> fs
                | Some fp \<Rightarrow> fs(path_join dir ''.xdc-src'' \<mapsto> str_bytes fp))))))"

subsection \<open>The live instance\<close>

definition app_file :: "app_env \<Rightarrow> string \<Rightarrow> files \<Rightarrow> files option" where
  "app_file env url fs = (let path = be_media_path env url in
     if fs path \<noteq> None then Some fs
     else (case be_download env url of Inl _ \<Rightarrow> None
       | Inr bs \<Rightarrow> if be_write_ok env path then Some (fs(path \<mapsto> bs)) else None))"

definition open_app :: "app_env \<Rightarrow> string \<Rightarrow> string \<Rightarrow> string \<Rightarrow> app_host \<Rightarrow> app_host" where
  "open_app env peer thread url s =
     (if thread = [] \<or> url = [] then s
      else (case app_file env url (ah_files s) of None \<Rightarrow> s
        | Some fs \<Rightarrow> (case extract_xdc env (be_media_path env url) thread fs of
            (Inl _, fs) \<Rightarrow> s\<lparr>ah_files := fs\<rparr>
          | (Inr dir, fs) \<Rightarrow> if be_client env = None then s\<lparr>ah_files := fs\<rparr>
              else s\<lparr>ah_files := fs, ah_live := Some \<lparr>la_thread = thread, la_peer = peer, la_last = 0\<rparr>,
                ah_roots := ah_roots s @ [(thread, dir)]\<rparr>)))"

definition close_app :: "app_host \<Rightarrow> app_host" where
  "close_app s = s\<lparr>ah_live := None\<rparr>"

subsection \<open>Pushing updates\<close>

definition live_thread :: "string \<Rightarrow> app_host \<Rightarrow> live_app option" where
  "live_thread thread s = (case ah_live s of
     Some l \<Rightarrow> if la_thread l = thread then Some l else None | None \<Rightarrow> None)"

definition push_updates :: "string \<Rightarrow> app_host \<Rightarrow> app_host" where
  "push_updates thread s = s\<lparr>ah_tasks := ah_tasks s @ [Called thread]\<rparr>"

definition cursor_read :: "app_env \<Rightarrow> string \<Rightarrow> app_host \<Rightarrow> push option" where
  "cursor_read env thread s = (case live_thread thread s of
     Some l \<Rightarrow> if be_client env = None then None else Some (Reading thread (la_last l)) | None \<Rightarrow> None)"

definition log_read :: "app_env \<Rightarrow> string \<Rightarrow> i64 \<Rightarrow> app_host \<Rightarrow> push option" where
  "log_read env thread from s = (case webxdc_updates_since (be_account env) thread from (ah_log s) of
     [] \<Rightarrow> None | rows \<Rightarrow> Some (Loaded thread rows))"

definition deliver :: "string \<Rightarrow> update list \<Rightarrow> app_host \<Rightarrow> app_host" where
  "deliver thread rows s = (case live_thread thread s of
     None \<Rightarrow> s
   | Some l \<Rightarrow> s\<lparr>ah_live := Some (l\<lparr>la_last := max (la_last l) (fst (last rows))\<rparr>),
       ah_pushed := ah_pushed s @ [(thread, rows)]\<rparr>)"

definition put_task :: "nat \<Rightarrow> push option \<Rightarrow> app_host \<Rightarrow> app_host" where
  "put_task k t s = s\<lparr>ah_tasks := take k (ah_tasks s) @ (case t of None \<Rightarrow> [] | Some p \<Rightarrow> [p]) @ drop (Suc k) (ah_tasks s)\<rparr>"

definition task_step :: "app_env \<Rightarrow> nat \<Rightarrow> app_host \<Rightarrow> app_host" where
  "task_step env k s = (if length (ah_tasks s) \<le> k then s
     else (case ah_tasks s ! k of
         Called thread \<Rightarrow> put_task k (cursor_read env thread s) s
       | Reading thread from \<Rightarrow> put_task k (log_read env thread from s) s
       | Loaded thread rows \<Rightarrow> deliver thread rows (put_task k None s)))"

text \<open>What the page is given: the JSON of each update with the greatest serial of the push.\<close>

definition pushed_text :: "update list \<Rightarrow> string" where
  "pushed_text rows = join_with '','' (map (\<lambda>(serial, r). update_json serial (fst (last rows)) (up_sender r)
     (up_info r) (up_document r) (up_summary r) (up_payload r)) rows)"

definition js_safe :: "string \<Rightarrow> string" where
  "js_safe data = filter (\<lambda>c. in_range 48 57 (byte_of c) \<or> in_range 65 90 (byte_of c) \<or> in_range 97 122 (byte_of c)
     \<or> c \<in> {CHR ''+'', CHR ''/'', CHR ''=''}) data"

definition push_realtime :: "string \<Rightarrow> string \<Rightarrow> app_host \<Rightarrow> app_host" where
  "push_realtime thread data s = (case live_thread thread s of
     None \<Rightarrow> s | Some _ \<Rightarrow> s\<lparr>ah_realtime := ah_realtime s @ [(thread, js_safe data)]\<rparr>)"

subsection \<open>What the page posts\<close>

definition app_prop :: "app_env \<Rightarrow> string \<Rightarrow> string \<Rightarrow> string option" where
  "app_prop env msg name = non_empty (be_string env msg name)"

definition command_out :: "command \<Rightarrow> app_host \<Rightarrow> app_host" where
  "command_out cmd s = s\<lparr>ah_commands := ah_commands s @ [cmd]\<rparr>"

definition request_updates :: "string \<Rightarrow> i64 \<Rightarrow> app_host \<Rightarrow> app_host" where
  "request_updates thread serial s =
     push_updates thread (s\<lparr>ah_live := map_option (\<lambda>l. l\<lparr>la_last := serial\<rparr>) (ah_live s)\<rparr>)"

definition safe_name :: "app_env \<Rightarrow> string \<Rightarrow> string" where
  "safe_name env name = concat (map (\<lambda>ch. if be_alnum env ch \<or> ch \<in> {''.'', ''-'', ''_''} then ch else ''_'') (str_chars name))"

definition out_path :: "app_env \<Rightarrow> string \<Rightarrow> string \<Rightarrow> string" where
  "out_path env b64 name = path_join (path_join (be_cache env) ''out'') (be_hash env b64 @ ''-'' @ safe_name env name)"

definition ends_with :: "string \<Rightarrow> string \<Rightarrow> bool" where
  "ends_with s suffix \<longleftrightarrow> starts_with (rev s) (rev suffix)"

definition forward_file :: "app_env \<Rightarrow> string \<Rightarrow> string \<Rightarrow> app_host \<Rightarrow> app_host" where
  "forward_file env peer msg s = (case (app_prop env msg ''base64'', app_prop env msg ''name'') of
     (Some b, Some name) \<Rightarrow> (case webxdc_b64_decode (be_b64 env) b of None \<Rightarrow> s
       | Some bs \<Rightarrow> (let path = out_path env b name in
           if \<not> be_write_ok env path then s
           else command_out (if ends_with (to_ascii_lowercase (safe_name env name)) ''.xdc''
               then Send_Webxdc_File peer path else Send_File peer path None)
             (s\<lparr>ah_files := (ah_files s)(path \<mapsto> bs)\<rparr>)))
   | _ \<Rightarrow> s)"

definition forward_text :: "app_env \<Rightarrow> string \<Rightarrow> string \<Rightarrow> app_host \<Rightarrow> app_host" where
  "forward_text env peer msg s = (case app_prop env msg ''text'' of None \<Rightarrow> s
     | Some text \<Rightarrow> command_out (Send_Message peer text Encryption_None None None) s)"

definition bridge_message :: "app_env \<Rightarrow> string \<Rightarrow> app_host \<Rightarrow> app_host" where
  "bridge_message env msg s =
     (if \<not> be_parses env msg then s
      else (case ah_live s of None \<Rightarrow> s
        | Some l \<Rightarrow> if be_client env = None then s
            else let peer = la_peer l; thread = la_thread l; kind = (case be_string env msg ''type'' of None \<Rightarrow> [] | Some k \<Rightarrow> k) in
              if kind = ''requestUpdates''
                then request_updates thread (case be_int env msg ''serial'' of None \<Rightarrow> 0 | Some n \<Rightarrow> n) s
              else if kind = ''sendUpdate''
                then command_out (Send_Webxdc_Update peer thread (app_prop env msg ''payload'') (app_prop env msg ''info'')
                  (app_prop env msg ''document'') (app_prop env msg ''summary'') (app_prop env msg ''notify'')) s
              else if kind = ''realtime''
                then (case app_prop env msg ''data'' of None \<Rightarrow> s | Some data \<Rightarrow> command_out (Send_Webxdc_Realtime peer thread data) s)
              else if kind = ''sendToChat'' then forward_text env peer msg (forward_file env peer msg s)
              else s))"

definition url_char :: "char \<Rightarrow> string" where
  "url_char c = (let b = byte_of c; digit = (\<lambda>n. char_of (if n < 10 then 48 + n else 55 + n)) in
     if in_range 65 90 b \<or> in_range 97 122 b \<or> in_range 48 57 b \<or> c \<in> set ''-_.~@/+'' then [c]
     else [CHR 0x25, digit (b div 16), digit (b mod 16)])"

definition urlencode :: "string \<Rightarrow> string" where
  "urlencode s = concat (map url_char s)"

text \<open>The address and name the page sees itself under, as they stand in the script.\<close>

definition self_values :: "string \<Rightarrow> string \<times> string" where
  "self_values jid = (json_quote (''xmpp:'' @ urlencode jid), json_quote (takeWhile (\<lambda>c. c \<noteq> CHR ''@'') jid))"

subsection \<open>Runs\<close>

datatype app_input =
    Open_App string string string | Close_App
  | Stored_Update update_row | Update_Event string
  | Page_Posts string | Task_Step nat

primrec app_turn :: "app_env \<Rightarrow> (update list \<Rightarrow> update option) \<Rightarrow> app_input \<Rightarrow> app_host \<Rightarrow> app_host" where
  "app_turn env pick (Open_App peer thread url) s = open_app env peer thread url s"
| "app_turn env pick Close_App s = close_app s"
| "app_turn env pick (Stored_Update row) s = s\<lparr>ah_log := snd (insert_webxdc_update pick row (ah_log s))\<rparr>"
| "app_turn env pick (Update_Event thread) s = push_updates thread s"
| "app_turn env pick (Page_Posts msg) s = bridge_message env msg s"
| "app_turn env pick (Task_Step k) s = task_step env k s"

definition run_app :: "app_env \<Rightarrow> (update list \<Rightarrow> update option) \<Rightarrow> app_input list \<Rightarrow> app_host \<Rightarrow> app_host" where
  "run_app env pick = fold (app_turn env pick)"

end
