(* ===== verification/App_Host_Laws.thy ===== *)
theory App_Host_Laws
  imports App_Host Client_Runs
begin

text \<open>
  What the window of a mini-app guarantees: an app's files are its own, and its page is given every
  update.  At the end, what nothing prevents an app from doing.
\<close>

subsection \<open>The files of an app\<close>

text \<open>
  \<open>zip\<close> gives names that stay inside (\<open>enclosed_name\<close>), of which only their being relative is used
  here, and no alphanumeric character is a separator.
\<close>

definition enclosed :: "string \<Rightarrow> bool" where
  "enclosed rel \<longleftrightarrow> rel \<noteq> [] \<and> \<not> starts_with rel ''/'' \<and> ''..'' \<notin> set (split_on CHR ''/'' rel)"

definition unzip_sound :: "app_env \<Rightarrow> bool" where
  "unzip_sound env \<longleftrightarrow> (\<forall>bs entries z rel. be_unzip env bs = Inr entries \<longrightarrow> Inr z \<in> set entries \<longrightarrow> ze_name z = Some rel
     \<longrightarrow> enclosed rel)"

definition alnum_sound :: "app_env \<Rightarrow> bool" where
  "alnum_sound env \<longleftrightarrow> (\<forall>ch. be_alnum env ch \<longrightarrow> CHR ''/'' \<notin> set ch)"

lemma safe_thread_no_slash: "alnum_sound env \<Longrightarrow> CHR ''/'' \<notin> set (safe_thread env t)"
  by (auto simp: alnum_sound_def safe_thread_def)

lemma under_join: "\<not> starts_with rel ''/'' \<Longrightarrow> under dir (path_join dir rel)"
  by (auto simp: under_def path_join_def starts_with_iff)

lemma unpack_outside:
  "(\<And>z rel. Inr z \<in> set entries \<Longrightarrow> ze_name z = Some rel \<Longrightarrow> enclosed rel) \<Longrightarrow> \<not> under dir p \<Longrightarrow>
   snd (unpack dir entries fs) p = fs p"
proof (induction entries arbitrary: fs)
  case (Cons x entries)
  have rest: "\<And>z rel. Inr z \<in> set entries \<Longrightarrow> ze_name z = Some rel \<Longrightarrow> enclosed rel"
    using Cons.prems(1) by auto
  note IH = Cons.IH[OF rest Cons.prems(2)]
  show ?case
  proof (cases x)
    case (Inr z)
    have "p \<noteq> path_join dir rel" if "ze_name z = Some rel" for rel
      using Cons.prems(1)[of z rel] that Inr Cons.prems(2) under_join[of rel dir] by (auto simp: enclosed_def)
    then show ?thesis using IH Inr by (simp add: Let_def split: option.split)
  qed simp
qed simp

lemma extract_outside:
  assumes "unzip_sound env" and "\<not> under (app_dir env thread) p"
  shows "snd (extract_xdc env path thread fs) p = fs p"
proof -
  let ?dir = "app_dir env thread"
  have marker: "p \<noteq> path_join ?dir ''.xdc-src''"
    using assms(2) under_join[of "''.xdc-src''" ?dir] by auto
  have removed: "remove_dir_all ?dir fs p = fs p" using assms(2) by (simp add: remove_dir_all_def)
  have unpacked: "snd (unpack ?dir entries (remove_dir_all ?dir fs)) p = fs p" if "be_unzip env bs = Inr entries" for bs entries
    using unpack_outside[of entries ?dir p] that assms removed by (auto simp: unzip_sound_def)
  have "fs' p = fs p" if "be_unzip env bs = Inr entries" "unpack ?dir entries (remove_dir_all ?dir fs) = (r, fs')" for bs entries r fs'
    using unpacked[OF that(1)] that(2) by simp
  with marker removed show ?thesis
    by (simp add: extract_xdc_def Let_def split: option.split sum.split prod.split)
qed

lemma under_child:
  assumes "base \<noteq> []" "x \<noteq> []" "CHR ''/'' \<notin> set x"
  shows "under (path_join base x) p \<longleftrightarrow> starts_with p (path_join base [] @ x @ ''/'')"
proof -
  have first: "\<not> starts_with x ''/''" using assms(2,3) by (cases x) auto
  have "last x \<in> set x" using assms(2) by simp
  then have "last x \<noteq> CHR ''/''" using assms(3) by metis
  then have "last (path_join base [] @ x) \<noteq> CHR ''/''" using assms(2) by simp
  moreover have "path_join base x = path_join base [] @ x"
    using first by (simp add: path_join_def)
  ultimately show ?thesis
    unfolding under_def path_join_def[of "path_join base x"] using assms(2) by simp
qed

lemma one_child:
  assumes "starts_with p (d @ x @ ''/'')" "starts_with p (d @ y @ ''/'')" "CHR ''/'' \<notin> set x" "CHR ''/'' \<notin> set y"
  shows "x = y"
proof -
  obtain r where r: "p = (d @ x @ ''/'') @ r" using assms(1) unfolding starts_with_iff by blast
  obtain r' where r': "p = (d @ y @ ''/'') @ r'" using assms(2) unfolding starts_with_iff by blast
  have "d @ (x @ CHR ''/'' # r) = d @ (y @ CHR ''/'' # r')" using trans[OF r[symmetric] r'] by simp
  then have "x @ CHR ''/'' # r = y @ CHR ''/'' # r'" by (simp only: same_append_eq)
  then have "split_once CHR ''/'' (x @ CHR ''/'' # r) = split_once CHR ''/'' (y @ CHR ''/'' # r')" by (rule arg_cong)
  then show ?thesis unfolding split_once_append[OF assms(3)] split_once_append[OF assms(4)] by simp
qed


subsection \<open>Every update reaches the page\<close>

definition given :: "string \<Rightarrow> app_host \<Rightarrow> update list" where
  "given thread s = concat (map snd (filter (\<lambda>(t, _). t = thread) (ah_pushed s)))"

text \<open>Of the log, every update of the thread after \<open>base\<close> up to \<open>hi\<close> is in \<open>rows\<close>.\<close>

definition covers :: "i64 \<Rightarrow> string \<Rightarrow> i64 \<Rightarrow> i64 \<Rightarrow> update set \<Rightarrow> webxdc_db \<Rightarrow> bool" where
  "covers a thread base hi rows db \<longleftrightarrow>
     (\<forall>(i, r)\<in>set (t_updates db). of_thread a thread r \<longrightarrow> base < i \<longrightarrow> i \<le> hi \<longrightarrow> (i, r) \<in> rows)"

definition push_ok :: "i64 \<Rightarrow> string \<Rightarrow> i64 \<Rightarrow> app_host \<Rightarrow> push \<Rightarrow> bool" where
  "push_ok a thread base s t \<longleftrightarrow> (case t of
     Called _ \<Rightarrow> True
   | Reading th start \<Rightarrow> th = thread \<longrightarrow> start \<le> max base (update_seq (ah_log s))
       \<and> covers a thread base start (set (given thread s)) (ah_log s)
   | Loaded th rows \<Rightarrow> th = thread \<longrightarrow> fst (last rows) \<le> update_seq (ah_log s)
       \<and> covers a thread base (fst (last rows)) (set (given thread s) \<union> set rows) (ah_log s))"

definition app_inv :: "i64 \<Rightarrow> string \<Rightarrow> i64 \<Rightarrow> app_host \<Rightarrow> bool" where
  "app_inv a thread base s \<longleftrightarrow> webxdc_ok (ah_log s)
     \<and> (\<forall>l. ah_live s = Some l \<longrightarrow> la_thread l = thread \<and> la_last l \<le> max base (update_seq (ah_log s))
          \<and> covers a thread base (la_last l) (set (given thread s)) (ah_log s))
     \<and> list_all (push_ok a thread base s) (ah_tasks s)"

lemma covers_mono: "covers a th base hi A db \<Longrightarrow> A \<subseteq> B \<Longrightarrow> hi' \<le> hi \<Longrightarrow> covers a th base hi' B db"
  by (fastforce simp: covers_def)

lemma covers_base: "hi \<le> base \<Longrightarrow> covers a th base hi A db"
  by (auto simp: covers_def)

lemma covers_insert:
  assumes "covers a th base hi A db" "hi \<le> max base (update_seq db)"
  shows "covers a th base hi A (snd (insert_webxdc_update pick row db))"
  using assms by (fastforce simp: covers_def insert_webxdc_update_def Let_def split: option.split)

lemma insert_seq: "update_seq db \<le> update_seq (snd (insert_webxdc_update pick row db))"
  by (simp add: insert_webxdc_update_def Let_def split: option.split)

lemma since_member: "(i, r) \<in> set (webxdc_updates_since a th start db)
    \<longleftrightarrow> (i, r) \<in> set (t_updates db) \<and> of_thread a th r \<and> start < i"
  by (auto simp: webxdc_updates_since_def)

lemma row_key: "(i, r) \<in> set t \<Longrightarrow> i \<in> set (map fst t)"
  unfolding set_map by (rule image_eqI[where x = "(i, r)"]) simp_all

lemma sorted_le_last: "sorted xs \<Longrightarrow> (x :: int) \<in> set xs \<Longrightarrow> x \<le> last xs"
  by (induction xs) (auto split: if_splits)

lemma since_last:
  assumes "webxdc_updates_since a th start db \<noteq> []" "(i, r) \<in> set (t_updates db)" "of_thread a th r" "start < i"
  shows "i \<le> fst (last (webxdc_updates_since a th start db))"
proof -
  let ?rows = "webxdc_updates_since a th start db"
  have "sorted (map fst ?rows)" by (simp add: webxdc_updates_since_def)
  moreover have "(i, r) \<in> set ?rows" using assms(2-4) by (simp add: since_member)
  then have "i \<in> set (map fst ?rows)" by (rule row_key)
  ultimately have "i \<le> last (map fst ?rows)" by (rule sorted_le_last)
  then show ?thesis using assms(1) by (simp add: last_map)
qed

lemma push_ok_grow:
  "push_ok a th base s t \<Longrightarrow> set (given th s) \<subseteq> set (given th s') \<Longrightarrow> ah_log s' = ah_log s \<Longrightarrow> push_ok a th base s' t"
  by (cases t) (auto simp: push_ok_def intro: covers_mono)

lemma given_store [simp]: "given th (s\<lparr>ah_log := db\<rparr>) = given th s"
  by (simp add: given_def)

lemma push_ok_store:
  assumes "push_ok a th base s t"
  shows "push_ok a th base (s\<lparr>ah_log := snd (insert_webxdc_update pick row (ah_log s))\<rparr>) t"
proof -
  have seq: "update_seq (ah_log s) \<le> update_seq (snd (insert_webxdc_update pick row (ah_log s)))" by (rule insert_seq)
  show ?thesis
  proof (cases t)
    case (Reading t start)
    then show ?thesis using assms seq covers_insert[of a th base start] by (fastforce simp: push_ok_def)
  next
    case (Loaded t rows)
    then show ?thesis using assms seq covers_insert[of a th base "fst (last rows)"] by (fastforce simp: push_ok_def)
  qed (simp add: push_ok_def)
qed

lemma app_inv_frame:
  assumes "app_inv a th base s" "ah_log t = ah_log s" "ah_live t = ah_live s" "ah_pushed t = ah_pushed s"
    and "set (ah_tasks t) \<subseteq> set (ah_tasks s) \<union> {p. push_ok a th base s p}"
  shows "app_inv a th base t"
proof -
  have "push_ok a th base t p" if "p \<in> set (ah_tasks t)" for p
  proof (rule push_ok_grow)
    show "push_ok a th base s p" using assms(1,5) that by (auto simp: app_inv_def list_all_iff)
  qed (simp_all add: given_def assms(2,4))
  moreover have "given th t = given th s" by (simp add: given_def assms(4))
  ultimately show ?thesis using assms(1) by (simp add: app_inv_def list_all_iff assms(2,3))
qed

definition same_app :: "app_host \<Rightarrow> app_host \<Rightarrow> bool" where
  "same_app s t \<longleftrightarrow> ah_log t = ah_log s \<and> ah_live t = ah_live s \<and> ah_pushed t = ah_pushed s \<and> ah_tasks t = ah_tasks s"

lemma same_app_simps [simp]:
  "same_app s s" "same_app s (command_out cmd t) \<longleftrightarrow> same_app s t"
  "same_app s (forward_file env peer msg t) \<longleftrightarrow> same_app s t" "same_app s (forward_text env peer msg t) \<longleftrightarrow> same_app s t"
  by (simp_all add: same_app_def forward_file_def forward_text_def command_out_def Let_def split: option.split)

definition asked_serial :: "app_env \<Rightarrow> string \<Rightarrow> i64" where
  "asked_serial env msg = (case be_int env msg ''serial'' of None \<Rightarrow> 0 | Some n \<Rightarrow> n)"

lemma bridge_cases:
  "same_app s (bridge_message env msg s)
   \<or> (\<exists>t. bridge_message env msg s = request_updates t (asked_serial env msg) s)"
proof (cases "be_parses env msg \<and> ah_live s \<noteq> None \<and> be_client env \<noteq> None")
  case True
  then obtain l where l: "ah_live s = Some l" by blast
  define kind where "kind = (case be_string env msg ''type'' of None \<Rightarrow> [] | Some k \<Rightarrow> k)"
  have data: "same_app s (case app_prop env msg ''data'' of None \<Rightarrow> s
      | Some data \<Rightarrow> command_out (Send_Webxdc_Realtime (la_peer l) (la_thread l) data) s)"
    by (cases "app_prop env msg ''data''") simp_all
  show ?thesis
  proof (cases "kind = ''requestUpdates''")
    case asks: True
    then show ?thesis using True l by (simp add: bridge_message_def Let_def kind_def[symmetric] asked_serial_def) blast
  next
    case False
    then have "same_app s (bridge_message env msg s)"
      using True l data by (simp add: bridge_message_def Let_def kind_def[symmetric])
    then show ?thesis ..
  qed
qed (auto simp: bridge_message_def split: option.split)

lemma app_inv_request:
  assumes "app_inv a th base s" "serial \<le> base"
  shows "app_inv a th base (request_updates t serial s)"
proof -
  have "app_inv a th base (s\<lparr>ah_live := map_option (\<lambda>l. l\<lparr>la_last := serial\<rparr>) (ah_live s)\<rparr>)"
    using assms by (auto simp: app_inv_def list_all_iff given_def intro!: covers_base intro: push_ok_grow)
  then show ?thesis
    by (rule app_inv_frame) (auto simp: request_updates_def push_updates_def push_ok_def)
qed

lemma put_task_frame [simp]:
  "ah_log (put_task k t s) = ah_log s" "ah_live (put_task k t s) = ah_live s"
  "ah_pushed (put_task k t s) = ah_pushed s" "given th (put_task k t s) = given th s"
  by (simp_all add: put_task_def given_def)

lemma app_inv_put_task:
  assumes "app_inv a th base s" "\<And>p. t = Some p \<Longrightarrow> push_ok a th base s p"
  shows "app_inv a th base (put_task k t s)"
  by (rule app_inv_frame[OF assms(1)])
    (use assms(2) in \<open>auto simp: put_task_def dest: in_set_takeD in_set_dropD split: option.splits\<close>)

lemma log_read_ok:
  assumes "app_inv (be_account env) th base s" "push_ok (be_account env) th base s (Reading t start)"
    "log_read env t start s = Some p"
  shows "push_ok (be_account env) th base s p"
proof -
  let ?rows = "webxdc_updates_since (be_account env) t start (ah_log s)"
  have ne: "?rows \<noteq> []" and p: "p = Loaded t ?rows"
    using assms(3) by (auto simp: log_read_def split: list.splits)
  obtain j q where j: "last ?rows = (j, q)" by fastforce
  then have "(j, q) \<in> set (t_updates (ah_log s))" using last_in_set[OF ne] by (simp add: since_member)
  then have "j \<in> set (map fst (t_updates (ah_log s)))" by (rule row_key)
  then have "j \<le> update_seq (ah_log s)" using assms(1) unfolding app_inv_def webxdc_ok_def by blast
  moreover have "covers (be_account env) th base j (set (given th s) \<union> set ?rows) (ah_log s)" if t: "t = th"
    unfolding covers_def
  proof clarify
    fix i r assume x: "(i, r) \<in> set (t_updates (ah_log s))" "of_thread (be_account env) th r" "base < i"
      "(i, r) \<notin> set ?rows"
    then have "i \<le> start" using t by (auto simp: since_member)
    then show "(i, r) \<in> set (given th s)" using assms(2) x t by (auto simp: push_ok_def covers_def)
  qed
  ultimately show ?thesis using j by (auto simp: p push_ok_def)
qed

lemma app_inv_deliver:
  assumes "app_inv a th base s" "push_ok a th base s (Loaded t rows)"
  shows "app_inv a th base (deliver t rows s)"
proof (cases "live_thread t s")
  case (Some l)
  then have live: "ah_live s = Some l" "la_thread l = t"
    by (auto simp: live_thread_def split: option.splits if_splits)
  with assms(1) have t: "t = th" and l: "la_last l \<le> max base (update_seq (ah_log s))"
    "covers a th base (la_last l) (set (given th s)) (ah_log s)"
    by (auto simp: app_inv_def)
  let ?s = "deliver t rows s"
  have s: "ah_log ?s = ah_log s" "ah_tasks ?s = ah_tasks s" "ah_live ?s = Some (l\<lparr>la_last := max (la_last l) (fst (last rows))\<rparr>)"
    "set (given th ?s) = set (given th s) \<union> set rows"
    by (simp_all add: deliver_def Some[unfolded t] given_def t)
  have ok: "fst (last rows) \<le> update_seq (ah_log s)"
    "covers a th base (fst (last rows)) (set (given th s) \<union> set rows) (ah_log s)"
    using assms(2) by (simp_all add: push_ok_def t)
  then have "covers a th base (max (la_last l) (fst (last rows))) (set (given th s) \<union> set rows) (ah_log s)"
    using l(2) by (fastforce simp: covers_def le_max_iff_disj)
  moreover have "list_all (push_ok a th base ?s) (ah_tasks s)"
    using assms(1) push_ok_grow[of a th base s _ ?s] s by (auto simp: app_inv_def list_all_iff)
  moreover have "max (la_last l) (fst (last rows)) \<le> max base (update_seq (ah_log s))" using ok(1) l(1) by auto
  ultimately show ?thesis
    using assms(1) live(2) t unfolding app_inv_def s by simp
qed (use assms in \<open>simp add: deliver_def\<close>)

lemma app_inv_task:
  assumes "app_inv (be_account env) th base s"
  shows "app_inv (be_account env) th base (task_step env k s)"
proof (cases "length (ah_tasks s) \<le> k")
  case False
  then have ok: "push_ok (be_account env) th base s (ah_tasks s ! k)"
    using assms by (simp add: app_inv_def list_all_length)
  show ?thesis
  proof (cases "ah_tasks s ! k")
    case (Called t)
    have "push_ok (be_account env) th base s p" if "cursor_read env t s = Some p" for p
      using that assms by (auto simp: cursor_read_def live_thread_def app_inv_def push_ok_def split: option.splits if_splits)
    then show ?thesis using False Called assms by (simp add: task_step_def app_inv_put_task)
  next
    case (Reading t start)
    then show ?thesis using False assms ok by (simp add: task_step_def app_inv_put_task log_read_ok)
  next
    case (Loaded t rows)
    have "push_ok (be_account env) th base (put_task k None s) (Loaded t rows)"
      using ok unfolding Loaded by (rule push_ok_grow) simp_all
    moreover have "app_inv (be_account env) th base (put_task k None s)" by (rule app_inv_put_task[OF assms]) simp
    ultimately show ?thesis using False Loaded by (simp add: task_step_def app_inv_deliver)
  qed
qed (use assms in \<open>simp add: task_step_def\<close>)

definition page_stays :: "app_env \<Rightarrow> i64 \<Rightarrow> app_input \<Rightarrow> bool" where
  "page_stays env base i \<longleftrightarrow> (case i of Open_App _ _ _ \<Rightarrow> False | Page_Posts msg \<Rightarrow> asked_serial env msg \<le> base | _ \<Rightarrow> True)"

lemma app_inv_turn:
  assumes "app_inv (be_account env) th base s" "page_stays env base i"
  shows "app_inv (be_account env) th base (app_turn env pick i s)"
proof (cases i)
  case (Stored_Update row)
  let ?db = "snd (insert_webxdc_update pick row (ah_log s))"
  have "list_all (push_ok (be_account env) th base (s\<lparr>ah_log := ?db\<rparr>)) (ah_tasks s)"
    using assms(1) push_ok_store by (auto simp: app_inv_def list_all_iff)
  then show ?thesis
    using assms(1) insert_seq[of "ah_log s" pick row]
    by (fastforce simp: Stored_Update app_inv_def insert_update_ok intro: covers_insert)
next
  case Close_App
  have "list_all (push_ok (be_account env) th base (close_app s)) (ah_tasks s)"
    using assms(1) push_ok_grow[of "be_account env" th base s _ "close_app s"]
    by (auto simp: app_inv_def list_all_iff close_app_def given_def)
  then show ?thesis using assms(1) by (simp add: Close_App app_inv_def close_app_def)
next
  case (Update_Event t)
  then show ?thesis
    by simp (rule app_inv_frame[OF assms(1)]; auto simp: push_updates_def push_ok_def)
next
  case (Page_Posts msg)
  consider "same_app s (bridge_message env msg s)"
    | t where "bridge_message env msg s = request_updates t (asked_serial env msg) s"
    using bridge_cases by blast
  then show ?thesis
  proof cases
    case 1
    then show ?thesis using app_inv_frame[OF assms(1)] by (simp add: Page_Posts same_app_def)
  next
    case 2
    then show ?thesis using app_inv_request[OF assms(1)] assms(2) by (simp add: Page_Posts page_stays_def)
  qed
qed (use assms in \<open>simp_all add: app_inv_task page_stays_def\<close>)

lemma app_inv_run:
  "app_inv (be_account env) th base s \<Longrightarrow> list_all (page_stays env base) is \<Longrightarrow>
   app_inv (be_account env) th base (run_app env pick is s)"
  unfolding run_app_def by (induction "is" arbitrary: s) (simp_all add: app_inv_turn)

text \<open>One push, not disturbed: its call and its three steps, the task being the last of the list.\<close>

definition push_now :: "string \<Rightarrow> nat \<Rightarrow> app_input list" where
  "push_now thread k = [Update_Event thread, Task_Step k, Task_Step k, Task_Step k]"

lemma push_now_covers:
  assumes "app_inv (be_account env) thread base s" "be_client env \<noteq> None" "ah_live s = Some l"
  shows "\<forall>(i, r)\<in>set (t_updates (ah_log s)). of_thread (be_account env) thread r \<longrightarrow> base < i \<longrightarrow>
    (i, r) \<in> set (given thread (run_app env pick (push_now thread (length (ah_tasks s))) s))"
proof -
  let ?rows = "webxdc_updates_since (be_account env) thread (la_last l) (ah_log s)"
  let ?t = "run_app env pick (push_now thread (length (ah_tasks s))) s"
  have l: "la_thread l = thread" "covers (be_account env) thread base (la_last l) (set (given thread s)) (ah_log s)"
    using assms(1,3) by (auto simp: app_inv_def)
  have "set (given thread ?t) = set (given thread s) \<union> set ?rows"
  proof (cases ?rows)
    case Nil
    then show ?thesis
      using assms(2,3) l(1)
      by (simp add: run_app_def push_now_def push_updates_def task_step_def cursor_read_def live_thread_def put_task_def
          log_read_def given_def)
  next
    case (Cons x xs)
    then show ?thesis
      using assms(2,3) l(1)
      by (auto simp: run_app_def push_now_def push_updates_def task_step_def cursor_read_def live_thread_def put_task_def
          log_read_def given_def deliver_def)
  qed
  then show ?thesis using l(2) by (fastforce simp: covers_def since_member)
qed


subsection \<open>An app to run\<close>

text \<open>Messages of the toy page are the values of their one member; \<open>ask\<close> requests the updates from 0.\<close>

definition toy_app_env :: app_env where
  "toy_app_env = \<lparr>be_account = 1, be_client = Some ''me@y'', be_parses = (\<lambda>_. True),
     be_string = (\<lambda>msg name. if msg = ''ask'' then (if name = ''type'' then Some ''requestUpdates'' else None)
       else if name = ''type'' then Some ''sendToChat'' else if name = ''text'' then Some msg else None),
     be_int = (\<lambda>_ _. None), be_b64 = toy_base64,
     be_alnum = (\<lambda>ch. list_all (\<lambda>c. in_range 48 57 (byte_of c) \<or> in_range 97 122 (byte_of c)) ch),
     be_hash = (\<lambda>_. ''00000000''), be_cache = ''/c/webxdc'', be_media_path = (\<lambda>u. ''/m/'' @ u),
     be_download = (\<lambda>_. Inr [1]), be_write_ok = (\<lambda>_. True), be_fingerprint = (\<lambda>_. Some ''1:0''),
     be_unzip = (\<lambda>_. Inr [Inr \<lparr>ze_name = Some ''index.html'', ze_dir = False, ze_bytes = [2], ze_error = None\<rparr>])\<rparr>"

definition toy_host :: "live_app option \<Rightarrow> app_host" where
  "toy_host live = \<lparr>ah_live = live, ah_files = Map.empty, ah_log = \<lparr>t_updates = [], update_seq = 0\<rparr>, ah_tasks = [],
     ah_pushed = [], ah_realtime = [], ah_roots = [], ah_commands = []\<rparr>"

definition opened_host :: app_host where
  "opened_host = toy_host (Some \<lparr>la_thread = ''t'', la_peer = ''bob@x'', la_last = 0\<rparr>)"


definition busy_run :: "app_input list" where
  "busy_run = [Stored_Update (toy_update (Some ''m1'') ''1''), Page_Posts ''ask'', Update_Event ''t'', Task_Step 1, Task_Step 1,
     Stored_Update (toy_update (Some ''m2'') ''2''), Task_Step 1, Task_Step 0]"


subsection \<open>What nothing prevents\<close>

text \<open>
  A page that asks again while a push is under way: the push moves the cursor past what the page asked
  for before the answer reads it.  Of two updates the page gets only the second.
\<close>

definition reload_run :: "app_input list" where
  "reload_run = [Stored_Update (toy_update (Some ''m1'') ''1'')] @ push_now ''t'' 0
     @ [Stored_Update (toy_update (Some ''m2'') ''2''), Update_Event ''t'', Task_Step 0, Task_Step 0,
        Page_Posts ''ask'', Task_Step 0, Task_Step 0, Task_Step 0]"

lemma reloaded_page_misses_update:
  "(let t = run_app toy_app_env first_update reload_run opened_host in
     ah_tasks t = [] \<and> map (map fst \<circ> snd) (ah_pushed t) = [[1], [2]] \<and> map_option la_last (ah_live t) = Some 2)"
  by code_simp

text \<open>A thread id without letters, digits and dashes - the peer chooses it - stands for the directory of all apps.\<close>

lemma symbol_thread_wipes_apps:
  "snd (extract_xdc toy_app_env ''/m/u'' ''...'' [''/m/u'' \<mapsto> [1], ''/c/webxdc/b2/index.html'' \<mapsto> [7]])
    ''/c/webxdc/b2/index.html'' = None"
  by code_simp

text \<open>A page writes into the chat as the user, unasked, and not encrypted whatever the conversation is set to.\<close>

definition private_chat :: message_db where
  "private_chat = set_conversation_encryption 1 ''omemo2''
     (snd (conversation_id 7 ''bob@x'' ''chat'' (empty_message_db [7])))"

lemma page_writes_in_clear:
  "ah_commands (bridge_message toy_app_env ''hi'' opened_host) = [Send_Message ''bob@x'' ''hi'' Encryption_None None None]"
  "map (\<lambda>el. child_text tree_dom el ''body'' NS_CLIENT) (cs_sent (snd (run_command toy_commands True
     (Send_Message ''bob@x'' ''hi'' Encryption_None None (Some ''m1'')) (toy_client private_chat)))) = [Some ''hi'']"
  "conversation_encryption 7 ''bob@x'' private_chat = Some ''omemo2''"
  by code_simp+

end
