(* ===== verification/Timeline.thy ===== *)
theory Timeline
  imports Message_Store Msg_Text Bob
begin

text \<open>
  The messages of a conversation as the interface shows them (\<open>crates/mxc-app-qt/src/messages.rs\<close>, the
  snippet of \<open>search.rs\<close>, \<open>url_ext\<close> and \<open>image_cache_path\<close> of \<open>session.rs\<close>): which links are images, voice
  messages, files or mini-apps, the files of a message, the item of a row and the quote of a reply.
  Loading a conversation is \<open>Open_Chat\<close>.

  The JSON of the attachment column is the value serde makes of it.  The files of the disk, the hash of
  a URL, the cached avatar of an address, the local day of a timestamp and upper case are fields of
  \<open>view_env\<close>.
\<close>

datatype json = J_Null | J_Bool bool | J_Number string | J_String string | J_Array "json list"
  | J_Object "(string \<times> json) list"

fun j_get :: "string \<Rightarrow> json \<Rightarrow> json option" where
  "j_get k (J_Object ms) = map_of ms k"
| "j_get k _ = None"

fun j_str :: "json \<Rightarrow> string option" where
  "j_str (J_String s) = Some s"
| "j_str _ = None"

record view_env =
  ve_json :: "string \<Rightarrow> json option"
  ve_cache :: cache_env
  ve_media :: string
  ve_hash :: "string \<Rightarrow> string"
  ve_is_file :: "string \<Rightarrow> bool"
  ve_avatar :: "string \<Rightarrow> string"
  ve_day :: "string \<Rightarrow> string"
  ve_upper :: "string \<Rightarrow> string"
  ve_own :: string

subsection \<open>What a link is\<close>

definition has_whitespace :: "string \<Rightarrow> bool" where
  "has_whitespace s \<longleftrightarrow> list_ex is_whitespace (str_chars s)"

definition is_sticker_cid :: "string \<Rightarrow> bool" where
  "is_sticker_cid body \<longleftrightarrow> starts_with (str_trim body) ''cid:'' \<and> \<not> has_whitespace (str_trim body)"

definition is_link :: "string \<Rightarrow> bool" where
  "is_link t \<longleftrightarrow> \<not> has_whitespace t
     \<and> (starts_with t ''aesgcm://'' \<or> starts_with t ''https://'' \<or> starts_with t ''http://'')"

definition lower_name :: "string \<Rightarrow> string" where
  "lower_name url = to_ascii_lowercase (url_file_name url)"

definition image_exts :: "string set" where
  "image_exts = {''png'', ''jpg'', ''jpeg'', ''gif'', ''webp'', ''bmp''}"

definition audio_exts :: "string set" where
  "audio_exts = {''oga'', ''ogg'', ''opus'', ''m4a'', ''mp3'', ''wav'', ''aac'', ''flac'', ''mpeg'', ''amr''}"

definition link_with_ext :: "string set \<Rightarrow> string \<Rightarrow> string option" where
  "link_with_ext exts body = (let t = str_trim body in
     if is_link t \<and> after_last CHR ''.'' (lower_name t) \<in> exts then Some t else None)"

definition image_url :: "string \<Rightarrow> string option" where "image_url = link_with_ext image_exts"
definition audio_url :: "string \<Rightarrow> string option" where "audio_url = link_with_ext audio_exts"

definition or_else :: "'a option \<Rightarrow> 'a option \<Rightarrow> 'a option" where
  "or_else x y = (case x of None \<Rightarrow> y | Some v \<Rightarrow> Some v)"

definition media_url :: "string \<Rightarrow> string option" where
  "media_url body = or_else (image_url body) (audio_url body)"

definition other_file_url :: "string \<Rightarrow> string option" where
  "other_file_url s = (let t = str_trim s in
     if has_whitespace t \<or> \<not> starts_with t ''aesgcm://'' then None
     else if image_url t \<noteq> None \<or> audio_url t \<noteq> None then None else Some t)"

definition file_name_of :: "string \<Rightarrow> string" where
  "file_name_of url = (if url_file_name url = [] then ''file'' else url_file_name url)"

definition file_type_label :: "view_env \<Rightarrow> string \<Rightarrow> string" where
  "file_type_label env url = (let name = lower_name url; ext = after_last CHR ''.'' name in
     if CHR ''.'' \<notin> set name \<or> ext = [] then ''File''
     else (if ext \<in> image_exts then ''Image''
       else if ext \<in> {''mp4'', ''webm'', ''mov'', ''mkv'', ''avi'', ''m4v''} then ''Video''
       else if ext \<in> audio_exts then ''Audio''
       else if ext = ''pdf'' then ''PDF''
       else if ext \<in> {''zip'', ''7z'', ''rar'', ''tar'', ''gz''} then ''Archive''
       else if ext \<in> {''doc'', ''docx'', ''odt'', ''rtf'', ''txt''} then ''Document''
       else ''File'') @ '' ('' @ ve_upper env ext @ '')'')"

definition webxdc_url :: "message_row \<Rightarrow> string \<Rightarrow> string option" where
  "webxdc_url r body = (let t = str_trim body; name = lower_name t in
     if \<not> is_link t then None
     else if starts_with (rev name) (rev ''.xdc'') then Some t
     else if starts_with t ''aesgcm://'' \<and> msg_thread r \<noteq> None \<and> CHR ''.'' \<notin> set name then Some t
     else None)"

subsection \<open>Attachments\<close>

definition column :: "view_env \<Rightarrow> message_row \<Rightarrow> json option" where
  "column env r = Option.bind (msg_attachment r) (ve_json env)"

definition j_member :: "string \<Rightarrow> json \<Rightarrow> string option" where
  "j_member k v = Option.bind (j_get k v) j_str"

definition attachment_url :: "view_env \<Rightarrow> message_row \<Rightarrow> string option" where
  "attachment_url env r = Option.bind (column env r) (j_member ''url'')"

record attachment_file =
  af_url :: string
  af_name :: string
  af_mime :: string

definition attachment_of :: "json \<Rightarrow> attachment_file option" where
  "attachment_of e = (let url = (case j_member ''url'' e of None \<Rightarrow> [] | Some u \<Rightarrow> str_trim u) in
     if url = [] then None
     else Some \<lparr>af_url = url,
       af_name = (case non_empty (j_member ''name'' e) of None \<Rightarrow> file_name_of url | Some n \<Rightarrow> n),
       af_mime = (case j_member ''mime'' e of None \<Rightarrow> [] | Some m \<Rightarrow> m)\<rparr>)"

definition attachment_files :: "view_env \<Rightarrow> message_row \<Rightarrow> attachment_file list" where
  "attachment_files env r = (case column env r of None \<Rightarrow> []
     | Some v \<Rightarrow> List.map_filter attachment_of (case j_get ''files'' v of Some (J_Array es) \<Rightarrow> es | _ \<Rightarrow> [v]))"

definition file_kind :: "attachment_file \<Rightarrow> string" where
  "file_kind f = (if starts_with (af_mime f) ''image/'' \<or> image_url (af_url f) \<noteq> None then ''image''
     else if starts_with (af_mime f) ''audio/'' \<or> audio_url (af_url f) \<noteq> None then ''audio'' else ''file'')"

definition row_media_url :: "view_env \<Rightarrow> message_row \<Rightarrow> string option" where
  "row_media_url env r = (case attachment_url env r of
     Some att \<Rightarrow> media_url att | None \<Rightarrow> Option.bind (msg_body r) media_url)"

definition row_media_urls :: "view_env \<Rightarrow> message_row \<Rightarrow> string list" where
  "row_media_urls env r = (let files = attachment_files env r in
     if 1 < length files then map af_url (filter (\<lambda>f. file_kind f \<in> {''image'', ''audio''}) files)
     else (case row_media_url env r of None \<Rightarrow> [] | Some u \<Rightarrow> [u]))"

subsection \<open>The cache\<close>

definition url_ext :: "string \<Rightarrow> string" where
  "url_ext url = (let name = url_file_name url; ext = after_last CHR ''.'' name in
     if ext = [] \<or> ext = name then ''img'' else to_ascii_lowercase ext)"

definition image_cache_path :: "view_env \<Rightarrow> string \<Rightarrow> string" where
  "image_cache_path env url = path_join (ve_media env) (ve_hash env url @ ''.'' @ url_ext url)"

definition cached_media :: "view_env \<Rightarrow> string \<Rightarrow> bool" where
  "cached_media env url \<longleftrightarrow> ve_is_file env (image_cache_path env url)"

subsection \<open>The item of a row\<close>

record tile =
  ti_url :: string
  ti_name :: string
  ti_kind :: string
  ti_path :: string

record message_item =
  mi_id :: i64
  mi_body :: string
  mi_outgoing :: bool
  mi_timestamp :: string
  mi_encrypted :: bool
  mi_state :: string
  mi_marker :: string
  mi_reply_quote :: string
  mi_reply_to :: string
  mi_reactions :: string
  mi_sender :: string
  mi_image_path :: string
  mi_sender_avatar :: string
  mi_day :: string
  mi_audio_path :: string
  mi_edited :: bool
  mi_retracted :: bool
  mi_webxdc_url :: string
  mi_thread :: string
  mi_file_url :: string
  mi_file_name :: string
  mi_attachments :: "tile list"

definition tile_of :: "view_env \<Rightarrow> attachment_file \<Rightarrow> tile" where
  "tile_of env f = \<lparr>ti_url = af_url f, ti_name = af_name f, ti_kind = file_kind f,
     ti_path = (if cached_media env (af_url f) then image_cache_path env (af_url f) else [])\<rparr>"

text \<open>The places of an item that hold its content: body, image, voice message, file and file name.\<close>

record content =
  ct_body :: string
  ct_image :: string
  ct_audio :: string
  ct_file :: string
  ct_name :: string

definition bubble :: "string \<Rightarrow> string \<Rightarrow> string \<Rightarrow> content" where
  "bubble body pic voice = \<lparr>ct_body = body, ct_image = pic, ct_audio = voice, ct_file = [], ct_name = []\<rparr>"

definition card :: "string \<Rightarrow> string \<Rightarrow> string \<Rightarrow> content" where
  "card body url name = \<lparr>ct_body = body, ct_image = [], ct_audio = [], ct_file = url, ct_name = name\<rparr>"

definition opt_str :: "string option \<Rightarrow> string" where
  "opt_str x = (case x of None \<Rightarrow> [] | Some s \<Rightarrow> s)"

definition STICKER :: string where "STICKER = [CHR 0xF0, CHR 0x9F, CHR 0x99, CHR 0x82] @ '' Sticker''"
definition LOADING :: string where
  "LOADING = [CHR 0xF0, CHR 0x9F, CHR 0x96, CHR 0xBC] @ '' Loading image'' @ [CHR 0xE2, CHR 0x80, CHR 0xA6]"
definition VOICE :: string where "VOICE = [CHR 0xF0, CHR 0x9F, CHR 0x8E, CHR 0xA4] @ '' Voice message''"

definition sticker_content :: "view_env \<Rightarrow> string \<Rightarrow> content" where
  "sticker_content env raw = (case cache_path (ve_cache env) (str_trim raw) of
     Some p \<Rightarrow> if ve_is_file env p then bubble [] p [] else bubble STICKER [] []
   | None \<Rightarrow> bubble STICKER [] [])"

definition asked_content :: "view_env \<Rightarrow> string option \<Rightarrow> string \<Rightarrow> string \<Rightarrow> content" where
  "asked_content env att raw caption =
     (case or_else att (or_else (image_url raw) (or_else (audio_url raw) (other_file_url raw))) of
        None \<Rightarrow> bubble raw [] []
      | Some url \<Rightarrow>
          if image_url url \<noteq> None \<and> cached_media env url then bubble caption (image_cache_path env url) []
          else if audio_url url \<noteq> None \<and> cached_media env url then bubble caption [] (image_cache_path env url)
          else card caption url (file_type_label env url))"

definition fetched_content :: "view_env \<Rightarrow> string option \<Rightarrow> string \<Rightarrow> string \<Rightarrow> content" where
  "fetched_content env att raw caption = (let src = (case att of None \<Rightarrow> raw | Some u \<Rightarrow> u) in
     case image_url src of
       Some url \<Rightarrow> if cached_media env url then bubble caption (image_cache_path env url) []
         else bubble (if caption = [] then LOADING else caption) [] []
     | None \<Rightarrow> (case audio_url src of
         Some url \<Rightarrow> if cached_media env url then bubble caption [] (image_cache_path env url)
           else bubble (if caption = [] then VOICE else caption) [] []
       | None \<Rightarrow> (case att of
           Some url \<Rightarrow> card caption url (file_name_of url)
         | None \<Rightarrow> (case other_file_url raw of
             Some url \<Rightarrow> card [] url (file_name_of url)
           | None \<Rightarrow> bubble raw [] []))))"

definition row_tiles :: "view_env \<Rightarrow> message_row \<Rightarrow> tile list" where
  "row_tiles env r = (let files = (if msg_retracted r then [] else attachment_files env r) in
     if 1 < length files then map (tile_of env) files else [])"

definition row_content :: "view_env \<Rightarrow> bool \<Rightarrow> message_row \<Rightarrow> content" where
  "row_content env auto_download r =
     (let raw = opt_str (msg_body r); att = attachment_url env r; caption = (if att = None then [] else raw) in
      if msg_retracted r then bubble ''(message retracted)'' [] []
      else if row_tiles env r \<noteq> [] then bubble raw [] []
      else if webxdc_url r raw \<noteq> None then bubble [] [] []
      else if is_sticker_cid raw then sticker_content env raw
      else if \<not> auto_download then asked_content env att raw caption
      else fetched_content env att raw caption)"

definition from_row :: "view_env \<Rightarrow> bool \<Rightarrow> message \<Rightarrow> message_item" where
  "from_row env auto_download = (\<lambda>(i, r). let c = row_content env auto_download r in
     \<lparr>mi_id = i, mi_body = ct_body c, mi_outgoing = (msg_direction r = ''out''), mi_timestamp = msg_timestamp r,
      mi_encrypted = (msg_encryption r = ''omemo2''), mi_state = msg_state r,
      mi_marker = opt_str (or_else (msg_origin_id r) (msg_stanza_id r)), mi_reply_quote = [],
      mi_reply_to = opt_str (msg_reply_to r), mi_reactions = [],
      mi_sender = (if CHR ''/'' \<in> set (msg_counterpart r) then after_last CHR ''/'' (msg_counterpart r) else []),
      mi_image_path = ct_image c, mi_sender_avatar = [], mi_day = ve_day env (msg_timestamp r),
      mi_audio_path = ct_audio c, mi_edited = (msg_edited_of r \<noteq> None), mi_retracted = msg_retracted r,
      mi_webxdc_url = (if msg_retracted r then [] else opt_str (webxdc_url r (opt_str (msg_body r)))),
      mi_thread = opt_str (msg_thread r), mi_file_url = ct_file c, mi_file_name = ct_name c,
      mi_attachments = row_tiles env r\<rparr>)"

definition note_marker :: "message \<Rightarrow> (string \<rightharpoonup> string) \<Rightarrow> (string \<rightharpoonup> string)" where
  "note_marker = (\<lambda>(_, r) m. case msg_body r of None \<Rightarrow> m
     | Some body \<Rightarrow> (let put = (\<lambda>x m. case x of None \<Rightarrow> m | Some i \<Rightarrow> m(i \<mapsto> body)) in
         put (msg_origin_id r) (put (msg_stanza_id r) m)))"

definition from_rows :: "view_env \<Rightarrow> message list \<Rightarrow> bool \<Rightarrow> message_item list" where
  "from_rows env rows auto_download = (let by_marker = fold note_marker rows Map.empty in
     map (\<lambda>m. case msg_reply_to (snd m) of
         None \<Rightarrow> from_row env auto_download m
       | Some rt \<Rightarrow> (from_row env auto_download m)\<lparr>mi_reply_quote := opt_str (by_marker rt)\<rparr>) rows)"

definition snippet :: "string option \<Rightarrow> string" where
  "snippet body = (let raw = opt_str body in
     if image_url raw \<noteq> None then [CHR 0xF0, CHR 0x9F, CHR 0x96, CHR 0xBC] @ '' Image''
     else if audio_url raw \<noteq> None then VOICE
     else if is_sticker_cid raw then STICKER
     else raw)"

end
