(* ===== verification/Open_Chat.thy ===== *)
theory Open_Chat
  imports Timeline Message_Laws Commands
begin

text \<open>
  The open conversation (\<open>crates/mxc-app-qt/src/session.rs\<close>: \<open>prefetch_images\<close>, \<open>fetch_media\<close>,
  \<open>mark_displayed\<close>, \<open>build_items\<close>, \<open>load_messages\<close>, \<open>load_older\<close>, \<open>load_messages_around\<close>,
  \<open>open_peer_kind\<close>): what loading it downloads, tells the peer and shows.  A load, a finished download
  and a tap on a download button are the steps; \<open>oc_downloads\<close> is every download started, \<open>oc_in_flight\<close>
  those not finished.  The second half proves what the items of \<open>Timeline\<close> and the loads promise.
\<close>

definition INITIAL_LIMIT :: i64 where "INITIAL_LIMIT = 40"

record open_chat =
  oc_db :: message_db
  oc_in_flight :: "string list"
  oc_downloads :: "string list"
  oc_marked :: "i64 \<rightharpoonup> string"
  oc_avatars :: "string list"
  oc_commands :: "command list"
  oc_items :: "message_item list"
  oc_jump :: "string option"

text \<open>The account of the client, when there is one: commands are sent to nobody before the login.\<close>

definition tell_client :: "i64 option \<Rightarrow> (i64 \<Rightarrow> command) \<Rightarrow> open_chat \<Rightarrow> open_chat" where
  "tell_client client cmd s = (case client of None \<Rightarrow> s | Some a \<Rightarrow> s\<lparr>oc_commands := oc_commands s @ [cmd a]\<rparr>)"

subsection \<open>Downloads\<close>

definition start_download :: "string \<Rightarrow> open_chat \<Rightarrow> open_chat" where
  "start_download url s = (if url \<in> set (oc_in_flight s) then s
     else s\<lparr>oc_in_flight := oc_in_flight s @ [url], oc_downloads := oc_downloads s @ [url]\<rparr>)"

definition prefetch_one :: "view_env \<Rightarrow> string \<Rightarrow> open_chat \<Rightarrow> open_chat" where
  "prefetch_one env url s = (if cached_media env url then s else start_download url s)"

definition prefetch_images :: "view_env \<Rightarrow> message list \<Rightarrow> bool \<Rightarrow> open_chat \<Rightarrow> open_chat" where
  "prefetch_images env rows auto_download s = (if \<not> auto_download then s
     else fold (prefetch_one env) (concat (map (row_media_urls env \<circ> snd) rows)) s)"

definition fetch_media :: "view_env \<Rightarrow> string \<Rightarrow> open_chat \<Rightarrow> open_chat" where
  "fetch_media env url s = (if url = [] then s else prefetch_one env url s)"

definition download_done :: "string \<Rightarrow> open_chat \<Rightarrow> open_chat" where
  "download_done url s = s\<lparr>oc_in_flight := filter (\<lambda>u. u \<noteq> url) (oc_in_flight s)\<rparr>"

subsection \<open>Read markers\<close>

definition newest_incoming :: "message list \<Rightarrow> string option" where
  "newest_incoming rows = Option.bind (find (\<lambda>(_, r). msg_direction r = ''in'') (rev rows))
     (\<lambda>(_, r). or_else (msg_origin_id r) (msg_stanza_id r))"

definition mark_displayed :: "i64 option \<Rightarrow> i64 \<Rightarrow> message list \<Rightarrow> open_chat \<Rightarrow> open_chat" where
  "mark_displayed client c rows s = (case newest_incoming rows of None \<Rightarrow> s
     | Some marker \<Rightarrow> if oc_marked s c = Some marker then s
         else (let s = s\<lparr>oc_marked := (oc_marked s)(c \<mapsto> marker)\<rparr> in
           case client of None \<Rightarrow> s
           | Some a \<Rightarrow> (let s = s\<lparr>oc_db := clear_unread c (oc_db s)\<rparr> in
               case find (\<lambda>(i, _). i = c) (conversations a (oc_db s)) of None \<Rightarrow> s
               | Some (_, conv) \<Rightarrow> tell_client client (\<lambda>_. Mark_Read c (conv_jid conv) marker) s)))"

subsection \<open>Items\<close>

definition request_muc_avatar :: "i64 option \<Rightarrow> string \<Rightarrow> string \<Rightarrow> open_chat \<Rightarrow> open_chat" where
  "request_muc_avatar client room nick s = (let key = room @ ''/'' @ nick in
     if key \<in> set (oc_avatars s) then s
     else tell_client client (\<lambda>a. Fetch_Muc_Avatar a room nick) (s\<lparr>oc_avatars := oc_avatars s @ [key]\<rparr>))"

definition room_and_nick :: "string \<Rightarrow> (string \<times> string) option" where
  "room_and_nick full = map_option (\<lambda>(n, r). (rev r, rev n)) (split_once CHR ''/'' (rev full))"

definition wants_avatar :: "view_env \<Rightarrow> message \<Rightarrow> (string \<times> string) option" where
  "wants_avatar env = (\<lambda>(_, r). if msg_direction r = ''in'' \<and> ve_avatar env (msg_counterpart r) = []
     then room_and_nick (msg_counterpart r) else None)"

definition ask_avatar :: "view_env \<Rightarrow> i64 option \<Rightarrow> message \<Rightarrow> open_chat \<Rightarrow> open_chat" where
  "ask_avatar env client m s = (case wants_avatar env m of None \<Rightarrow> s
     | Some (room, nick) \<Rightarrow> request_muc_avatar client room nick s)"

definition with_avatar :: "view_env \<Rightarrow> message \<Rightarrow> message_item \<Rightarrow> message_item" where
  "with_avatar env = (\<lambda>(_, r) item. if msg_direction r = ''in'' \<and> room_and_nick (msg_counterpart r) \<noteq> None
     then item\<lparr>mi_sender_avatar := ve_avatar env (msg_counterpart r)\<rparr> else item)"

definition chip :: "string \<times> i64 \<times> string \<Rightarrow> string" where
  "chip = (\<lambda>(emoji, n, nicks). emoji @ [CHR 0x09] @ show_int n @ [CHR 0x09] @ nicks)"

definition with_reactions :: "(i64 \<times> string \<times> i64 \<times> string) list \<Rightarrow> message_item \<Rightarrow> message_item" where
  "with_reactions tallies item = (let mine = map snd (filter (\<lambda>(i, _). i = mi_id item) tallies) in
     if mi_retracted item \<or> mine = [] then item
     else item\<lparr>mi_reactions := join_with [CHR 0x0A] (map chip mine)\<rparr>)"

definition build_items :: "view_env \<Rightarrow> message_db \<Rightarrow> i64 \<Rightarrow> message list \<Rightarrow> bool \<Rightarrow> message_item list" where
  "build_items env db c rows auto_download = map (with_reactions (reactions_for_conversation c db))
     (map (\<lambda>(m, item). with_avatar env m item) (zip rows (from_rows env rows auto_download)))"

subsection \<open>Loading\<close>

definition show_rows :: "view_env \<Rightarrow> i64 option \<Rightarrow> i64 \<Rightarrow> message list \<Rightarrow> open_chat \<Rightarrow> open_chat" where
  "show_rows env client c rows s = (let auto_download = \<not> is_public_group c (oc_db s);
       s = fold (ask_avatar env client) rows (prefetch_images env rows auto_download s) in
     s\<lparr>oc_items := build_items env (oc_db s) c rows auto_download\<rparr>)"

definition load_messages :: "view_env \<Rightarrow> i64 option \<Rightarrow> i64 \<Rightarrow> i64 \<Rightarrow> open_chat \<Rightarrow> open_chat" where
  "load_messages env client c limit s = (let rows = recent_messages c limit (oc_db s) in
     show_rows env client c rows (mark_displayed client c rows s))"

definition load_older :: "view_env \<Rightarrow> i64 option \<Rightarrow> i64 \<Rightarrow> i64 \<Rightarrow> open_chat \<Rightarrow> open_chat" where
  "load_older env client c limit s = (let rows = recent_messages c limit (oc_db s) in
     show_rows env client c rows
       (if int (length rows) < limit then tell_client client (\<lambda>_. Load_History c None) s else s))"

definition load_messages_around ::
  "view_env \<Rightarrow> i64 option \<Rightarrow> i64 \<Rightarrow> i64 \<Rightarrow> string \<Rightarrow> open_chat \<Rightarrow> open_chat" where
  "load_messages_around env client c mid marker s =
     (load_messages env client c (max (count_since c mid (oc_db s) + INITIAL_LIMIT) INITIAL_LIMIT) s)
       \<lparr>oc_jump := Some marker\<rparr>"

definition open_peer_kind :: "view_env \<Rightarrow> i64 option \<Rightarrow> string \<Rightarrow> string \<Rightarrow> open_chat \<Rightarrow> open_chat" where
  "open_peer_kind env client jid peer_kind s = (case client of None \<Rightarrow> s
     | Some a \<Rightarrow> (case conversation_id a jid peer_kind (oc_db s) of
         (Inl _, db) \<Rightarrow> s\<lparr>oc_db := db\<rparr>
       | (Inr c, db) \<Rightarrow> load_messages env client c INITIAL_LIMIT (s\<lparr>oc_db := db\<rparr>)))"

subsection \<open>One item, one content\<close>

definition single :: "content \<Rightarrow> bool" where
  "single c \<longleftrightarrow> (ct_image c = [] \<or> ct_audio c = []) \<and> (ct_file c = [] \<or> ct_image c = [] \<and> ct_audio c = [])"

lemma single_simps [simp]:
  "single (bubble b [] [])" "single (bubble b p [])" "single (bubble b [] v)" "single (card b u n)"
  by (simp_all add: single_def bubble_def card_def)

lemma single_content: "single (row_content env auto_download r)"
proof -
  have "single (sticker_content env raw)" "single (asked_content env att raw caption)"
    "single (fetched_content env att raw caption)" for raw att caption
    by (simp_all add: sticker_content_def asked_content_def fetched_content_def Let_def split: option.split)
  then show ?thesis by (simp add: row_content_def Let_def)
qed


subsection \<open>Links with a key\<close>

lemma trimmed_link:
  assumes "str_trim body = ''aesgcm://'' @ rest" "\<not> has_whitespace (str_trim body)"
  shows "str_trim (str_trim body) = str_trim body" "is_link (str_trim body)" "starts_with (str_trim body) ''aesgcm://''"
    "\<not> is_sticker_cid body"
proof -
  let ?t = "str_trim body"
  have ne: "?t \<noteq> []" "str_chars ?t \<noteq> []" by (simp_all add: assms(1))
  have "\<not> is_whitespace ch" if "ch \<in> set (str_chars ?t)" for ch
    using assms(2) that by (auto simp: has_whitespace_def list_ex_iff)
  then show "str_trim ?t = ?t" using ne by (intro str_trim_id) simp_all
  show "starts_with ?t ''aesgcm://''" by (auto simp: assms(1) starts_with_iff)
  then show "is_link ?t" using assms(2) by (simp add: is_link_def)
  show "\<not> is_sticker_cid body" by (simp add: is_sticker_cid_def assms(1) starts_with_iff)
qed

text \<open>
  The key of an encrypted file is never on the screen: a message that is one \<open>aesgcm\<close> link shows the file
  - an image, a player, a card, an app - or a placeholder while it is fetched, and its text is never
  the link.
\<close>

theorem shared_link_not_shown:
  assumes "msg_body r = Some body" "msg_attachment r = None"
    and "str_trim body = ''aesgcm://'' @ rest" "\<not> has_whitespace (str_trim body)"
  shows "mi_body (from_row env auto_download (i, r)) \<in> {[], LOADING, VOICE, ''(message retracted)''}"
proof -
  note t = trimmed_link[OF assms(3,4)]
  have none: "attachment_url env r = None" "row_tiles env r = []"
    by (simp_all add: attachment_url_def row_tiles_def attachment_files_def column_def assms(2))
  have other: "other_file_url body = Some (str_trim body)" if "image_url body = None" "audio_url body = None"
    using that t assms(4) by (simp add: other_file_url_def image_url_def audio_url_def link_with_ext_def Let_def)
  have asked: "ct_body (asked_content env None body []) = []"
    using other by (auto simp: asked_content_def or_else_def bubble_def card_def split: option.split)
  have fetched: "ct_body (fetched_content env None body []) \<in> {[], LOADING, VOICE}"
    using other by (cases "image_url body"; cases "audio_url body")
      (simp_all add: fetched_content_def bubble_def card_def Let_def)
  show ?thesis
    using asked fetched t(4)
    by (auto simp: from_row_def row_content_def Let_def none assms(1) opt_str_def bubble_def)
qed

definition toy_view :: view_env where
  "toy_view = \<lparr>ve_json = \<lambda>_. None, ve_cache = \<lparr>xdg_cache_home = Some ''/c'', home_dir = None\<rparr>, ve_media = ''/m'',
     ve_hash = id, ve_is_file = \<lambda>_. False, ve_avatar = \<lambda>_. [], ve_day = \<lambda>_. ''Today'', ve_upper = id, ve_own = ''a@x''\<rparr>"

definition shared_plan :: message_row where
  "shared_plan = (stored_row toy_message)\<lparr>msg_body := Some ''aesgcm://h/plan.pdf#00ff'', msg_attachment := None\<rparr>"

theorem shared_link_not_shown_witness:
  "mi_body (from_row toy_view False (7, shared_plan)) \<in> {[], LOADING, VOICE, ''(message retracted)''}"
proof (rule shared_link_not_shown)
  show "msg_body shared_plan = Some ''aesgcm://h/plan.pdf#00ff''" "msg_attachment shared_plan = None"
    by (simp_all add: shared_plan_def)
  show "str_trim ''aesgcm://h/plan.pdf#00ff'' = ''aesgcm://'' @ ''h/plan.pdf#00ff''" by code_simp
  show "\<not> has_whitespace (str_trim ''aesgcm://h/plan.pdf#00ff'')" by code_simp
qed

text \<open>
  The results of a search show it, and so does the quote of a reply: the snippet of a file that is no
  image and no voice message is the link, and a quote is the body of the message whatever it is.
\<close>

lemma search_shows_key:
  "snippet (Some ''aesgcm://h/plan.pdf#00ff'') = ''aesgcm://h/plan.pdf#00ff''"
  by code_simp

lemma quote_shows_key:
  "map mi_reply_quote (from_rows toy_view [(7, shared_plan), (8, shared_plan\<lparr>msg_origin_id := Some ''o2'',
     msg_stanza_id := None, msg_body := Some ''when?'', msg_reply_to := Some ''o1''\<rparr>)] True) =
   [[], ''aesgcm://h/plan.pdf#00ff'']"
  by (simp add: from_rows_def from_row_def Let_def note_marker_def shared_plan_def stored_row_def toy_message_def
      opt_str_def)

subsection \<open>Loading again\<close>

text \<open>Things that are done once: a step settles its thing, later steps keep it settled, and then it does nothing.\<close>

locale settling =
  fixes act :: "'a \<Rightarrow> 's \<Rightarrow> 's" and settled :: "'a \<Rightarrow> 's \<Rightarrow> bool"
  assumes settles: "settled x (act x s)"
    and keeps: "settled y s \<Longrightarrow> settled y (act x s)"
    and quiet: "settled x s \<Longrightarrow> act x s = s"
begin

lemma settled_stays: "settled y s \<Longrightarrow> settled y (fold act xs s)"
  by (induction xs arbitrary: s) (simp_all add: keeps)

lemma all_settled: "x \<in> set xs \<Longrightarrow> settled x (fold act xs s)"
  by (induction xs arbitrary: s) (auto intro: settled_stays settles)

lemma nothing_left: "(\<And>x. x \<in> set xs \<Longrightarrow> settled x s) \<Longrightarrow> fold act xs s = s"
  by (induction xs) (simp_all add: quiet)

end

definition fetching :: "view_env \<Rightarrow> string \<Rightarrow> open_chat \<Rightarrow> bool" where
  "fetching env url s \<longleftrightarrow> cached_media env url \<or> url \<in> set (oc_in_flight s)"

definition avatar_asked :: "view_env \<Rightarrow> message \<Rightarrow> open_chat \<Rightarrow> bool" where
  "avatar_asked env m s \<longleftrightarrow> (case wants_avatar env m of None \<Rightarrow> True
     | Some (room, nick) \<Rightarrow> room @ ''/'' @ nick \<in> set (oc_avatars s))"

lemma tell_client_frame [simp]:
  "oc_db (tell_client client cmd s) = oc_db s" "oc_marked (tell_client client cmd s) = oc_marked s"
  "oc_in_flight (tell_client client cmd s) = oc_in_flight s" "oc_avatars (tell_client client cmd s) = oc_avatars s"
  by (simp_all add: tell_client_def split: option.split)

interpretation prefetching: settling "prefetch_one env" "fetching env" for env
  by unfold_locales (auto simp: prefetch_one_def start_download_def fetching_def)

interpretation avatars: settling "ask_avatar env client" "avatar_asked env" for env client
  by unfold_locales
    (auto simp: ask_avatar_def avatar_asked_def request_muc_avatar_def Let_def split: option.splits prod.splits)

lemma prefetch_frame [simp]:
  "oc_db (prefetch_images env rows auto s) = oc_db s" "oc_marked (prefetch_images env rows auto s) = oc_marked s"
  "oc_avatars (prefetch_images env rows auto s) = oc_avatars s"
proof -
  have "oc_db (fold (prefetch_one env) us s) = oc_db s \<and> oc_marked (fold (prefetch_one env) us s) = oc_marked s
      \<and> oc_avatars (fold (prefetch_one env) us s) = oc_avatars s" for us
    by (induction us arbitrary: s) (simp_all add: prefetch_one_def start_download_def)
  then show "oc_db (prefetch_images env rows auto s) = oc_db s" "oc_marked (prefetch_images env rows auto s) = oc_marked s"
    "oc_avatars (prefetch_images env rows auto s) = oc_avatars s"
    by (simp_all add: prefetch_images_def)
qed

lemma ask_fold_frame [simp]:
  "oc_db (fold (ask_avatar env client) rows s) = oc_db s \<and> oc_marked (fold (ask_avatar env client) rows s) = oc_marked s
   \<and> oc_in_flight (fold (ask_avatar env client) rows s) = oc_in_flight s"
  by (induction rows arbitrary: s) (simp_all add: ask_avatar_def request_muc_avatar_def Let_def split: option.split prod.split)

lemma recent_after_mark [simp]:
  "recent_messages c limit (oc_db (mark_displayed client c' rows s)) = recent_messages c limit (oc_db s)"
  by (simp add: mark_displayed_def Let_def recent_messages_def clear_unread_def update_conversation_def
      split: option.split prod.split)

lemma marked_after [simp]: "oc_marked (mark_displayed client c rows s) =
    (case newest_incoming rows of None \<Rightarrow> oc_marked s | Some m \<Rightarrow> (oc_marked s)(c \<mapsto> m))"
  by (auto simp: mark_displayed_def Let_def split: option.split prod.split)

text \<open>
  A marker is remembered as sent before anybody is there to send it: what was read before the login is
  not reported, and stays unread, once the client is there.
\<close>

lemma read_before_login_unreported:
  "newest_incoming rows \<noteq> None \<Longrightarrow>
   mark_displayed client c rows (mark_displayed None c rows s) = s\<lparr>oc_marked := (oc_marked s)(c := newest_incoming rows)\<rparr>"
  by (auto simp: mark_displayed_def Let_def fun_upd_idem)

text \<open>
  Showing a conversation again changes nothing as long as no message came: no second read marker, no
  second download or avatar request, the same items - however often the view is repainted.
\<close>

theorem reload_changes_nothing:
  "load_messages env client c limit (load_messages env client c limit s) = load_messages env client c limit s"
proof -
  define rows where "rows = recent_messages c limit (oc_db s)"
  define s1 where "s1 = mark_displayed client c rows s"
  define auto where "auto = (\<not> is_public_group c (oc_db s1))"
  define s2 where "s2 = prefetch_images env rows auto s1"
  define s3 where "s3 = fold (ask_avatar env client) rows s2"
  define t where "t = s3\<lparr>oc_items := build_items env (oc_db s1) c rows auto\<rparr>"
  have db: "oc_db s2 = oc_db s1" "oc_db s3 = oc_db s1" "oc_db t = oc_db s1"
    by (simp_all add: s2_def s3_def t_def)
  have first: "load_messages env client c limit s = t"
    by (simp add: load_messages_def show_rows_def Let_def rows_def[symmetric] s1_def[symmetric] auto_def[symmetric]
        s2_def[symmetric] s3_def[symmetric] db t_def)
  have again: "recent_messages c limit (oc_db t) = rows" by (simp add: db s1_def rows_def)
  have "oc_marked t = oc_marked s1" by (simp add: t_def s3_def s2_def)
  moreover have "oc_marked s1 = (case newest_incoming rows of None \<Rightarrow> oc_marked s | Some m \<Rightarrow> (oc_marked s)(c \<mapsto> m))"
    unfolding s1_def by (rule marked_after)
  ultimately have mark: "mark_displayed client c rows t = t"
    by (simp add: mark_displayed_def split: option.split)
  have flight: "oc_in_flight t = oc_in_flight s2" by (simp add: t_def s3_def)
  have "fetching env url t" if "auto" "url \<in> set (concat (map (row_media_urls env \<circ> snd) rows))" for url
    using prefetching.all_settled[OF that(2), of env s1] that(1)
    by (simp add: fetching_def flight s2_def prefetch_images_def)
  then have fetch: "prefetch_images env rows auto t = t"
    unfolding prefetch_images_def by (auto intro!: prefetching.nothing_left)
  have "avatar_asked env m t" if "m \<in> set rows" for m
    using avatars.all_settled[OF that, of env client s2] by (simp add: avatar_asked_def t_def s3_def split: option.splits prod.splits)
  then have ask: "fold (ask_avatar env client) rows t = t" by (rule avatars.nothing_left)
  have "load_messages env client c limit t = t\<lparr>oc_items := build_items env (oc_db s1) c rows auto\<rparr>"
    by (simp add: load_messages_def show_rows_def Let_def again[unfolded db] mark db auto_def[symmetric] fetch ask)
  then show ?thesis by (simp add: first t_def)
qed

text \<open>
  In a public group nothing is fetched without being asked for.  A private message of the same people
  is not in a public group: what its links point to is fetched at once.
\<close>

lemma public_group_fetches_nothing:
  "is_public_group c (oc_db s) \<Longrightarrow> oc_downloads (prefetch_images env rows (\<not> is_public_group c (oc_db s)) s) = oc_downloads s"
  by (simp add: prefetch_images_def)

lemma private_messages_fetched:
  "map_of (t_conversations db) c = Some r \<Longrightarrow> conv_kind r = ''muc_pm'' \<Longrightarrow> \<not> is_public_group c db"
  by (simp add: is_public_group_def)

end
