(* ===== verification/Spec2Isabelle.thy ===== *)
theory Spec2Isabelle
  imports Uri Fingerprint Omemo_Store Omemo_Traits Omemo_Session Sce Msg_Text_Laws Message_Laws
    Outgoing_Laws Incoming_Laws Engine_Replies Sdp_Laws Call_Runs Presence_Laws Archive_Laws Rooms Upload
    Routing Feeds Commands_Laws Connection Client_Runs App_Host_Laws Open_Chat
begin

text \<open>
  A verification development for monocles chat desktop, an XMPP client in Rust: the OMEMO
  implementation (\<open>crates/mxc-omemo\<close>), the SQLite database behind it (\<open>crates/mxc-store\<close>), the XMPP
  protocol layer (\<open>crates/mxc-proto\<close>), and the parts of the interface (\<open>crates/mxc-app-qt\<close>) that decide
  something themselves.

  \<^bold>\<open>How the program works.\<close>  One actor per account (\<open>client.rs\<close>) runs the commands of the interface
  and the stanzas of the server one at a time.  A stanza goes through \<open>xeps/router.rs\<close> to
  \<open>xeps/messaging.rs\<close>, which finds the conversation in the store, has the OMEMO engine decrypt the
  payload, checks the SCE envelope in it, and turns the content into rows of the store and events for
  the interface.  Sending goes the other way: row, envelope, ciphertext, stanza.  The engine keeps its
  keys in the OMEMO tables through the storage traits of libsignal.

  \<^bold>\<open>Shared theories.\<close>  \<open>Prelude\<close> holds the state and error monad \<open>act\<close> every fallible operation is
  written in and the locale \<open>invariant_machine\<close>; \<open>Sql_Table\<close> tables as association lists with the
  SQL statements on them; \<open>Bytes\<close> and \<open>Rust_Str\<close> byte strings and Rust's UTF-8 string slicing, where a
  slice inside a character is the value \<open>Panic\<close>; \<open>Xml\<close> and \<open>Stanza\<close> the interfaces to quick-xml and
  minidom.

  \<^bold>\<open>The OMEMO crate.\<close>  \<open>Fingerprint\<close> is \<open>lib.rs\<close>; \<open>Omemo_Traits\<close> is \<open>store.rs\<close> (the libsignal traits
  over the tables); \<open>Omemo_Kdf\<close> (payload keys, key commitment), \<open>Omemo_Maint\<close> (generation, rotation,
  replenishing, pruning of pre-keys) and \<open>Omemo_Session\<close> (sessions, key pins, encryption, decryption)
  are \<open>session.rs\<close>; \<open>Bundle\<close> is \<open>bundle.rs\<close>; \<open>Sce\<close> is \<open>sce.rs\<close>.

  \<^bold>\<open>The store crate.\<close>  \<open>Omemo_Store\<close> is \<open>omemo.rs\<close>; \<open>Message_Store\<close> is \<open>messages.rs\<close>, one definition
  per statement, and \<open>Message_Laws\<close> its invariants and behaviour; \<open>Stories\<close> and \<open>Webxdc\<close> begin with
  \<open>stories.rs\<close> and \<open>webxdc.rs\<close>.  Foreign keys to the accounts are checked where a conversation is
  made and assumed elsewhere; disk failures are not modelled.

  \<^bold>\<open>The protocol crate.\<close>  \<open>Uri\<close> is \<open>uri.rs\<close>; \<open>Msg_Text\<close> the text helpers of \<open>xeps/messaging.rs\<close> and
  \<open>Msg_Text_Laws\<close> what they do; \<open>Sce_Binding\<close> the checks between an envelope and its stanza; \<open>Bob\<close> is
  \<open>xeps/bob.rs\<close> (stickers); \<open>Stories\<close> also \<open>xeps/pep.rs\<close> and \<open>xeps/stories.rs\<close>; \<open>Webxdc\<close> also
  \<open>xeps/webxdc.rs\<close>; \<open>Ui_Event\<close> the events of \<open>event.rs\<close> they send.  \<open>World\<close> is the state the handlers
  of \<open>xeps/messaging.rs\<close> share: tables, sticker files, stanzas queued, events, and the state of the
  engine; \<open>Outgoing\<close>, \<open>File_Sending\<close> and \<open>Incoming\<close> are its handlers.  \<open>World_Laws\<close>,
  \<open>Outgoing_Laws\<close> and \<open>Incoming_Laws\<close> prove what they guarantee: the locale \<open>effect_order\<close> lifts a
  relation between states from single steps to whole handlers and is interpreted for the tables, the
  queue of stanzas and the texts shown.

  \<^bold>\<open>The engine.\<close>  \<open>Pep\<close> is \<open>xeps/pep.rs\<close>; \<open>Engine\<close> and \<open>Engine_Crypt\<close> are \<open>xeps/omemo.rs\<close> (with \<open>request\<close>
  of \<open>xeps/iq.rs\<close>): the caches, the account's identity, device lists and bundles, the sessions of a set
  of recipients, the \<open><encrypted>\<close> element, decryption, healing and heartbeats, over the tables and the
  libsignal parameter of \<open>Omemo_Session\<close>.  \<open>Engine_Laws\<close> interprets \<open>effect_order\<close> for the engine's writes and
  proves who is encrypted to; \<open>Engine_Wire\<close> the round trip from one engine to another and the bounds;
  \<open>Engine_Replies\<close> what the engine sends by itself, with an engine to run.  A device is trusted when it
  is at the moment it is looked up.

  \<^bold>\<open>Calls.\<close>  \<open>Sdp\<close> is \<open>xeps/jingle_sdp.rs\<close>: the translation between the SDP of the media engine and the
  contents of a Jingle session; \<open>Sdp_Laws\<close> proves that sections and candidates survive it.  \<open>Calls\<close>,
  \<open>Call_Trust\<close>, \<open>Conference\<close> and \<open>Call_Session\<close> are \<open>xeps/jingle.rs\<close> and \<open>xeps/muji.rs\<close>: the registry with
  its maps as keyed lists, ringing, the fingerprints under OMEMO, the mesh of a group call, and the
  handlers of stanzas and engine events; \<open>Call_Machine\<close> is the task that runs them, in any order.  The
  media engine is what is asked of it: a log of requests per engine.  \<open>Calls_Laws\<close>, \<open>Call_Trust_Laws\<close>,
  \<open>Call_Fingerprint_Laws\<close> and \<open>Call_Mesh_Laws\<close> prove over every run how engines are used, who can bring
  one up, what the trust indicator stands for and how the mesh is built; \<open>Call_Runs\<close> has accounts to run
  and shows what the code also allows.  An \<open>async fn\<close> is taken as one step.  \<open>Disco\<close> is
  \<open>xeps/disco.rs\<close> and \<open>xeps/caps.rs\<close>.

  \<^bold>\<open>The client.\<close>  \<open>Client_Store\<close> is the rest of the store crate (\<open>accounts.rs\<close>, \<open>settings.rs\<close>,
  \<open>roster.rs\<close>, \<open>calls.rs\<close>).  \<open>Iq\<close> is the registry of \<open>xeps/iq.rs\<close>; \<open>Client\<close> has the state of the tasks
  that wait for answers: the world, the tables, the requests made, and \<open>ne_exchange\<close>, which gives the
  answer of the server and what other tasks did meanwhile.  Over it: \<open>Roster\<close> (\<open>xeps/roster.rs\<close>),
  \<open>Profile\<close> (\<open>xeps/avatar.rs\<close>, \<open>xeps/vcard.rs\<close>, \<open>fetch\<close> of \<open>xeps/bob.rs\<close>), \<open>Presence\<close> (\<open>xeps/presence.rs\<close>),
  \<open>Archive\<close> (\<open>xeps/mam.rs\<close>), \<open>Rooms\<close> (\<open>xeps/muc.rs\<close>, \<open>xeps/bookmarks.rs\<close>), \<open>Upload\<close>
  (\<open>xeps/http_upload.rs\<close>), \<open>Feeds\<close> (\<open>xeps/microblog.rs\<close>), \<open>Routing\<close> (\<open>xeps/router.rs\<close>,
  \<open>xeps/bootstrap.rs\<close>, \<open>xeps/extdisco.rs\<close>).  \<open>Key_Commands\<close> and \<open>Commands\<close> are \<open>command.rs\<close> and
  \<open>handle_command\<close> of \<open>client.rs\<close>; \<open>Connection\<close> is its reader loop, one branch of the \<open>select!\<close> per step.
  \<open>Roster\<close> proves that the table refines the map a stanza means, \<open>Presence_Laws\<close> that approvals use up
  grants of the user, \<open>Archive_Laws\<close> that catching up ends, skips nothing and is complete,
  \<open>Commands_Laws\<close> that a composed text is accounted for, \<open>Connection\<close> (through \<open>invariant_machine\<close> and
  \<open>line_machine\<close>) how it reconnects and that its queue is one.  \<open>Client_Runs\<close> puts the parts together,
  from the composer to the socket, and holds the clients at which the properties are instantiated.

  \<^bold>\<open>The interface.\<close>  \<open>App_Host\<close> is \<open>webxdc.rs\<close> of \<open>crates/mxc-app-qt\<close>: unpacking a mini-app, the tasks
  that push updates into its page (three steps each, in any order), and what the page posts.
  \<open>App_Host_Laws\<close> proves that apps do not touch each other's files and that a page is given every update;
  its last section shows what nothing prevents.  \<open>Timeline\<close> is \<open>messages.rs\<close> and the snippet of
  \<open>search.rs\<close>: what a row of the store looks like; \<open>Open_Chat\<close> is the loading of the open conversation in
  \<open>session.rs\<close>: downloads, read markers, avatars, reactions.  The locale \<open>settling\<close> (things that are done
  once) is interpreted for the downloads and the avatar requests.

  \<^bold>\<open>Parameters.\<close>  What is not under \<open>crates/\<close> is an argument: libsignal's cryptography and
  serialization, AES-GCM, cSHAKE, SHA-2, base64, quick-xml, minidom, chrono, the random numbers, the
  clock, the file system and the upload server, each with the documented laws a theorem relies on as
  a named hypothesis (\<open>dom_sound\<close>, \<open>chrono_sound\<close>, \<open>limit_one\<close> and the like) and a toy instance that
  satisfies them.  The record \<open>services\<close> of \<open>World\<close> collects them; the engine (\<open>xeps/omemo.rs\<close>) and
  the calls (\<open>xeps/jingle.rs\<close>) are also its fields, with a state of their own: their answers are
  arbitrary, so what is proved holds for every behaviour of theirs.  Ids the program draws
  (\<open>new_id\<close>) are arguments; a handler reads the clock through \<open>sv_now\<close>, the \<open>i\<close>-th reading.

  The environments of the client theories (\<open>client_env\<close>, \<open>upload_env\<close>, \<open>command_env\<close>, \<open>loop_env\<close>) add
  the exchange with the server, HTTP, AES-GCM for files, and the parts of the client a theory does not
  import; \<open>app_env\<close> and \<open>view_env\<close> those of the interface: JSON, zip archives, hashes, the files of the
  disk, local time; the events of tokio-xmpp are the inputs of the reader loop.

  \<^bold>\<open>Bounds.\<close>  Recursions over elements (\<open>img_walk\<close>) take fuel, the depth of the element, which
  \<open>dom_sound\<close> says is enough.  Paging an archive takes the bounds of the code, 100 pages of 50 messages
  for a conversation and 200 for the account; \<open>catch_up_account_complete\<close> says ten thousand messages are
  within them.  The reconnect delay doubles from 2 to 30 seconds.  Loops are otherwise structural or
  have a measure.

  \<^bold>\<open>Not modelled.\<close>  Sockets and TLS (\<open>directtls.rs\<close>), media I/O (\<open>crates/mxc-media\<close>), the keyring
  (\<open>secrets.rs\<close>, whose map of the engine never refuses), opening and migrating the database
  (\<open>mxc-store/lib.rs\<close>), starting the core's thread, and the rest of \<open>crates/mxc-app-qt\<close>: its Qt models
  present what the events say through generated bindings, and the script injected into mini-apps is
  JavaScript.  A task runs to its next awaited request
  as one step; finer interleavings of two handlers over the database are not considered.
\<close>

end
